(* ===== verification/Prelude.thy ===== *)
theory Prelude
  imports Main "HOL-Library.Option_ord"
begin

text \<open>
  Shared vocabulary of the development.

  \<^item> The Python exceptions the modelled code raises, and the result type
    \<open>'a result = py_error + 'a\<close>: \<open>Inl\<close> is a raised exception, \<open>Inr\<close> a returned value.
  \<^item> Sequencing: \<open>rbind\<close> is "run, then continue unless it raised", \<open>guard\<close> is
    \<open>if bad: raise\<close>, \<open>rmap\<close> and \<open>rfold\<close> are the comprehension and the accumulating
    \<open>for\<close> loop, both left to right and stopping at the first exception.
  \<^item> Generic facts on lists used by several components.
  The collection \<open>result_simps\<close> holds the inversion equations of these combinators;
  component proofs use \<open>auto simp: result_simps\<close> to read off what a successful run did.
\<close>

named_theorems result_simps \<open>inversion of the result combinators\<close>
named_theorems step_simps \<open>projection facts of the state transformers\<close>

datatype py_error =
    ValueError string
  | TypeError string
  | KeyError string
  | IndexError
  | ZeroDivisionError
  | OverflowError
  | InvalidOperation
  | NamedError string string

type_synonym 'a result = "py_error + 'a"

definition rbind :: "'a result \<Rightarrow> ('a \<Rightarrow> 'b result) \<Rightarrow> 'b result" where
  "rbind m f = (case m of Inl e \<Rightarrow> Inl e | Inr x \<Rightarrow> f x)"

definition guard :: "bool \<Rightarrow> py_error \<Rightarrow> unit result" where
  "guard bad e = (if bad then Inl e else Inr ())"

primrec rmap :: "('a \<Rightarrow> 'b result) \<Rightarrow> 'a list \<Rightarrow> 'b list result" where
  "rmap f [] = Inr []"
| "rmap f (x # xs) = rbind (f x) (\<lambda>y. rbind (rmap f xs) (\<lambda>ys. Inr (y # ys)))"

primrec rfold :: "('a \<Rightarrow> 's \<Rightarrow> 's result) \<Rightarrow> 'a list \<Rightarrow> 's \<Rightarrow> 's result" where
  "rfold f [] s = Inr s"
| "rfold f (x # xs) s = rbind (f x s) (rfold f xs)"

definition lift_opt :: "py_error \<Rightarrow> 'a option \<Rightarrow> 'a result" where
  "lift_opt e m = (case m of None \<Rightarrow> Inl e | Some x \<Rightarrow> Inr x)"

lemma rbind_Inr [simp]: "rbind (Inr x) f = f x"
  by (simp add: rbind_def)

lemma rbind_Inl [simp]: "rbind (Inl e) f = Inl e"
  by (simp add: rbind_def)

lemma rbind_eq_Inr [result_simps]:
  "rbind m f = Inr y \<longleftrightarrow> (\<exists>x. m = Inr x \<and> f x = Inr y)"
  by (cases m) auto

lemma rbind_eq_Inl:
  "rbind m f = Inl e \<longleftrightarrow> m = Inl e \<or> (\<exists>x. m = Inr x \<and> f x = Inl e)"
  by (cases m) auto

lemma rbind_assoc: "rbind (rbind m f) g = rbind m (\<lambda>x. rbind (f x) g)"
  by (cases m) auto

lemma rbind_cong [fundef_cong]:
  "m = m' \<Longrightarrow> (\<And>x. m' = Inr x \<Longrightarrow> f x = f' x) \<Longrightarrow> rbind m f = rbind m' f'"
  by (cases m') auto

lemma guard_True [simp]: "guard True e = Inl e"
  by (simp add: guard_def)

lemma guard_False [simp]: "guard False e = Inr ()"
  by (simp add: guard_def)

lemma guard_eq_Inr [result_simps]: "guard b e = Inr u \<longleftrightarrow> \<not> b"
  by (simp add: guard_def)

lemma guard_eq_Inl: "guard b e = Inl e' \<longleftrightarrow> b \<and> e' = e"
  by (auto simp: guard_def)

lemma lift_opt_eq_Inr [result_simps]: "lift_opt e m = Inr x \<longleftrightarrow> m = Some x"
  by (cases m) (auto simp: lift_opt_def)

lemma lift_opt_simps [simp]: "lift_opt e None = Inl e" "lift_opt e (Some x) = Inr x"
  by (simp_all add: lift_opt_def)

lemma rmap_eq_Inr_iff:
  "rmap f xs = Inr ys \<longleftrightarrow> list_all2 (\<lambda>x y. f x = Inr y) xs ys"
proof (induction xs arbitrary: ys)
  case Nil
  then show ?case by auto
next
  case (Cons x xs)
  then show ?case by (cases ys) (auto simp: result_simps)
qed

lemma rmap_length: "rmap f xs = Inr ys \<Longrightarrow> length ys = length xs"
  by (simp add: rmap_eq_Inr_iff list_all2_lengthD)

lemma rmap_set: "rmap f xs = Inr ys \<Longrightarrow> y \<in> set ys \<Longrightarrow> \<exists>x \<in> set xs. f x = Inr y"
  by (fastforce simp: rmap_eq_Inr_iff list_all2_conv_all_nth in_set_conv_nth)

lemma rmap_Inl: "rmap f xs = Inl e \<Longrightarrow> \<exists>x \<in> set xs. f x = Inl e"
  by (induction xs) (auto simp: rbind_eq_Inl)

lemma rfold_Inl: "rfold f xs s = Inl e \<Longrightarrow> \<exists>x \<in> set xs. \<exists>t. f x t = Inl e"
  by (induction xs arbitrary: s) (fastforce simp: rbind_eq_Inl)+

lemma rmap_append:
  "rmap f (xs @ ys) = rbind (rmap f xs) (\<lambda>us. rbind (rmap f ys) (\<lambda>vs. Inr (us @ vs)))"
  by (induction xs) (auto simp: rbind_assoc rbind_def split: sum.splits)

lemma rmap_cong [fundef_cong]:
  "xs = ys \<Longrightarrow> (\<And>x. x \<in> set ys \<Longrightarrow> f x = g x) \<Longrightarrow> rmap f xs = rmap g ys"
  by (induction ys arbitrary: xs) (auto intro: rbind_cong)

lemma rmap_eq_map:
  "rmap f xs = Inr ys \<longleftrightarrow> (\<forall>x \<in> set xs. \<exists>y. f x = Inr y) \<and> ys = map (\<lambda>x. projr (f x)) xs"
proof (induction xs arbitrary: ys)
  case (Cons x xs)
  then show ?case by (cases "f x") (auto simp: result_simps)
qed auto

lemma rmap_Inr [simp]: "rmap (\<lambda>x. Inr (f x)) xs = Inr (map f xs)"
  by (induction xs) auto

lemma rfold_append: "rfold f (xs @ ys) s = rbind (rfold f xs s) (rfold f ys)"
  by (induction xs arbitrary: s) (auto simp: rbind_def split: sum.splits)

text \<open>The invariant rule of an accumulating loop.\<close>

lemma rfold_invariant:
  assumes "rfold f xs s = Inr t" and "P s"
    and "\<And>x s t. x \<in> set xs \<Longrightarrow> P s \<Longrightarrow> f x s = Inr t \<Longrightarrow> P t"
  shows "P t"
  using assms
proof (induction xs arbitrary: s)
  case Nil
  then show ?case by simp
next
  case (Cons x xs)
  from Cons.prems(1) obtain u where "f x s = Inr u" and "rfold f xs u = Inr t"
    by (auto simp: result_simps)
  with Cons.prems Cons.IH [of u] show ?case by auto
qed

text \<open>Sums of a list as Python's \<open>sum\<close> computes them are folds; these relate them.\<close>

lemma foldl_add_sum_list:
  fixes xs :: "'a :: comm_monoid_add list"
  shows "foldl (+) a xs = a + sum_list xs"
  by (induction xs arbitrary: a) (auto simp: add.assoc)

lemma sorted_wrt_snoc:
  "sorted_wrt R (xs @ [y]) \<longleftrightarrow> sorted_wrt R xs \<and> (\<forall>x \<in> set xs. R x y)"
  by (simp add: sorted_wrt_append)

lemma sorted_wrt_concat:
  "(\<forall>xs \<in> set xss. sorted_wrt R xs) \<Longrightarrow>
   sorted_wrt (\<lambda>xs ys. \<forall>x \<in> set xs. \<forall>y \<in> set ys. R x y) xss \<Longrightarrow> sorted_wrt R (concat xss)"
  by (induction xss) (auto simp: sorted_wrt_append)

lemma sorted_wrt_enumerate:
  "sorted_wrt R xs \<Longrightarrow> sorted_wrt (\<lambda>(i, x) (j, y). i < j \<and> R x y) (enumerate n xs)"
  by (auto simp: sorted_wrt_iff_nth_less nth_enumerate_eq)

lemma in_set_enumerate: "(k, x) \<in> set (enumerate n xs) \<Longrightarrow> x \<in> set xs"
  by (auto simp: in_set_enumerate_eq)

lemma sorted_wrt_enumerate_index: "sorted_wrt (\<lambda>p q. fst p < fst q) (enumerate n xs)"
  by (auto simp: sorted_wrt_iff_nth_less nth_enumerate_eq)

end
