(* ===== verification/PyNumbers.thy ===== *)
theory PyNumbers
  imports Complex_Main Prelude
begin

text \<open>
  Python's numbers, as the program uses them.

  \<^item> \<open>ilog\<close>, \<open>round_half_even\<close> and \<open>round_sig\<close>: exact, executable rounding of a rational to a
    number of significant digits in a base, with ties to even.
  \<^item> \<open>pyfloat\<close>: a Python \<open>float\<close>. \<open>Fl r\<close> is the finite value \<open>r\<close>; arithmetic is IEEE 754
    binary64 with round-to-nearest-even (\<open>f64\<close>), overflow to an infinity and NaN
    propagation. The type is an instance of the syntactic arithmetic and order classes, so
    \<open>x + y\<close>, \<open>x * y\<close>, \<open>x < y\<close> and \<open>\<bar>x\<bar>\<close> on \<open>pyfloat\<close> are Python's operators. The two zeros
    are one value: every comparison of the program treats them alike.
  \<^item> \<open>decimal\<close>: a finite \<open>decimal.Decimal\<close> by its numerical value; operations round to the
    default context's 28 significant digits (\<open>ctx\<close>), and \<open>quantize\<close> raises
    \<open>InvalidOperation\<close> when the result needs more digits than that.
  \<^item> \<open>decimal_of_float\<close> is \<open>Decimal(str(x))\<close>: the shortest decimal that reads back as \<open>x\<close>.
  \<^item> \<open>libm\<close>: the C library's transcendental functions, a parameter of every model that
    calls them.

  The locale \<open>grid_rounding\<close> is the contract of a rounding onto a grid of numbers
  (monotone, fixing the grid, odd); it is interpreted for binary64, for the decimal
  context and for the currency quantum, which share their lemmas through it.
\<close>

section \<open>Rounding of rationals\<close>

definition round_half_even :: "rat \<Rightarrow> int" where
  "round_half_even q =
     (let f = \<lfloor>q\<rfloor>; r = q - of_int f
      in if r < 1/2 then f else if 1/2 < r then f + 1 else if even f then f else f + 1)"

lemma round_half_even_of_int [simp]: "round_half_even (of_int n) = n"
  by (simp add: round_half_even_def)

lemma round_half_even_0 [simp]: "round_half_even 0 = 0"
  using round_half_even_of_int [of 0] by simp

lemma round_half_even_bounds: "\<lfloor>q\<rfloor> \<le> round_half_even q \<and> round_half_even q \<le> \<lfloor>q\<rfloor> + 1"
  by (simp add: round_half_even_def Let_def)

lemma round_half_even_near: "\<bar>of_int (round_half_even q) - q\<bar> \<le> 1/2"
proof -
  have "of_int \<lfloor>q\<rfloor> \<le> q" and "q < of_int \<lfloor>q\<rfloor> + 1"
    using floor_correct [of q] by simp_all
  then have r: "0 \<le> q - of_int \<lfloor>q\<rfloor>" "q - of_int \<lfloor>q\<rfloor> < 1" by simp_all
  consider "q - of_int \<lfloor>q\<rfloor> < 1/2" | "1/2 < q - of_int \<lfloor>q\<rfloor>" | "q - of_int \<lfloor>q\<rfloor> = 1/2"
    by linarith
  then show ?thesis
  proof cases
    case 1
    with r show ?thesis by (simp add: round_half_even_def Let_def abs_le_iff)
  next
    case 2
    with r show ?thesis by (simp add: round_half_even_def Let_def abs_le_iff)
  next
    case 3
    then show ?thesis by (simp add: round_half_even_def Let_def abs_le_iff)
  qed
qed

lemma round_half_even_mono: "p \<le> q \<Longrightarrow> round_half_even p \<le> round_half_even q"
proof -
  assume le: "p \<le> q"
  then have fl: "\<lfloor>p\<rfloor> \<le> \<lfloor>q\<rfloor>"
    by (rule floor_mono)
  show ?thesis
  proof (cases "\<lfloor>p\<rfloor> = \<lfloor>q\<rfloor>")
    case True
    with le show ?thesis
      by (auto simp: round_half_even_def Let_def)
  next
    case False
    with fl have "\<lfloor>p\<rfloor> + 1 \<le> \<lfloor>q\<rfloor>" by simp
    with round_half_even_bounds [of p] round_half_even_bounds [of q] show ?thesis by linarith
  qed
qed

lemma round_half_even_minus: "round_half_even (- q) = - round_half_even q"
proof (cases "q \<in> \<int>")
  case True
  then obtain n where "q = of_int n" by (auto elim: Ints_cases)
  then have "- q = of_int (- n)" by simp
  with \<open>q = of_int n\<close> show ?thesis by (metis round_half_even_of_int)
next
  case False
  then have c: "\<lceil>q\<rceil> = \<lfloor>q\<rfloor> + 1"
    by (metis Ints_of_int ceiling_altdef)
  then have f: "\<lfloor>- q\<rfloor> = - \<lfloor>q\<rfloor> - 1"
    by (simp add: floor_minus)
  show ?thesis
    unfolding round_half_even_def f Let_def by (auto simp: field_simps)
qed

function ilog :: "int \<Rightarrow> rat \<Rightarrow> int" where
  "ilog b q =
     (if b < 2 \<or> q \<le> 0 then 0
      else if of_int b \<le> q then ilog b (q / of_int b) + 1
      else if q < 1 then ilog b (q * of_int b) - 1
      else 0)"
  by pat_completeness auto
termination
proof (relation "measure (\<lambda>(b, q). if 1 \<le> q then nat \<lfloor>q\<rfloor> else if q \<le> 0 then 0 else nat \<lceil>1 / q\<rceil> + nat b)")
  show "wf (measure (\<lambda>(b, q). if 1 \<le> q then nat \<lfloor>q\<rfloor> else if q \<le> 0 then 0 else nat \<lceil>1 / q\<rceil> + nat b))"
    by simp
next
  fix b :: int and q :: rat
  assume b: "\<not> (b < 2 \<or> q \<le> 0)" and q: "of_int b \<le> q"
  then have b2: "(2::rat) \<le> of_int b" by simp
  with q have q2: "2 \<le> q" by linarith
  have q1: "1 \<le> q / of_int b"
    using q b2 by (simp add: field_simps)
  have "q / of_int b \<le> q / 2"
    using b2 q2 by (intro divide_left_mono) auto
  then have "q / of_int b \<le> q - 1"
    using q2 by linarith
  then have "\<lfloor>q / of_int b\<rfloor> \<le> \<lfloor>q\<rfloor> - 1"
    using floor_mono [of "q / of_int b" "q - 1"] by simp
  moreover have "1 \<le> \<lfloor>q / of_int b\<rfloor>" using q1 by simp
  ultimately show "((b, q / of_int b), (b, q))
      \<in> measure (\<lambda>(b, q). if 1 \<le> q then nat \<lfloor>q\<rfloor> else if q \<le> 0 then 0 else nat \<lceil>1 / q\<rceil> + nat b)"
    using q1 q2 by simp
next
  fix b :: int and q :: rat
  assume b: "\<not> (b < 2 \<or> q \<le> 0)" and "\<not> of_int b \<le> q" and q1: "q < 1"
  then have b2: "(2::rat) \<le> of_int b" and qp: "0 < q" by simp_all
  show "((b, q * of_int b), (b, q))
      \<in> measure (\<lambda>(b, q). if 1 \<le> q then nat \<lfloor>q\<rfloor> else if q \<le> 0 then 0 else nat \<lceil>1 / q\<rceil> + nat b)"
  proof (cases "1 \<le> q * of_int b")
    case True
    have "q * of_int b < of_int b" using q1 b2 by simp
    then have "\<lfloor>q * of_int b\<rfloor> < b" by (simp add: floor_less_iff)
    moreover have "1 \<le> \<lfloor>q * of_int b\<rfloor>" using True by simp
    ultimately have "nat \<lfloor>q * of_int b\<rfloor> < nat \<lceil>1 / q\<rceil> + nat b" by linarith
    then show ?thesis using True q1 qp by simp
  next
    case False
    have pos: "0 < q * of_int b" using qp b2 by simp
    have inv: "1 / (q * of_int b) \<le> (1/2) * (1 / q)"
      using qp b2 by (simp add: field_simps)
    have "1 / q > 1" using qp q1 by (simp add: field_simps)
    show ?thesis
    proof (cases "1 / q \<le> 2")
      case True
      then have "1 \<le> q * 2" using qp by (simp add: field_simps)
      also have "q * 2 \<le> q * of_int b" using b2 qp by (intro mult_left_mono) auto
      finally show ?thesis using False by simp
    next
      case big: False
      then have "1 / (q * of_int b) \<le> 1 / q - 1"
        using inv by linarith
      then have "\<lceil>1 / (q * of_int b)\<rceil> \<le> \<lceil>1 / q\<rceil> - 1"
        using ceiling_mono [of "1 / (q * of_int b)" "1 / q - 1"] by simp
      moreover have "0 < \<lceil>1 / (q * of_int b)\<rceil>" using pos by simp
      ultimately show ?thesis using False pos q1 qp by simp
    qed
  qed
qed

declare ilog.simps [simp del]

lemma ilog_spec:
  "2 \<le> b \<Longrightarrow> 0 < q \<Longrightarrow> of_int b powi ilog b q \<le> q \<and> q < of_int b powi (ilog b q + 1)"
proof (induction b q rule: ilog.induct)
  case (1 b q)
  then have b0: "(of_int b :: rat) \<noteq> 0" and bp: "(0::rat) < of_int b" by simp_all
  consider "of_int b \<le> q" | "q < 1" "\<not> of_int b \<le> q" | "1 \<le> q" "q < of_int b"
    by linarith
  then show ?case
  proof cases
    case 1
    with "1.prems" have e: "ilog b q = ilog b (q / of_int b) + 1"
      by (simp add: ilog.simps [of b q])
    have "of_int b powi ilog b (q / of_int b) \<le> q / of_int b
        \<and> q / of_int b < of_int b powi (ilog b (q / of_int b) + 1)"
      using "1.IH"(1) "1.prems" 1 bp by simp
    then show ?thesis
      unfolding e using b0 bp by (simp add: power_int_add power2_eq_square field_simps)
  next
    case 2
    with "1.prems" have e: "ilog b q = ilog b (q * of_int b) - 1"
      by (simp add: ilog.simps [of b q])
    have "of_int b powi ilog b (q * of_int b) \<le> q * of_int b
        \<and> q * of_int b < of_int b powi (ilog b (q * of_int b) + 1)"
      using "1.IH"(2) "1.prems" 2 bp by simp
    then show ?thesis
      unfolding e using b0 bp by (simp add: power_int_add power_int_diff field_simps)
  next
    case 3
    with "1.prems" have "ilog b q = 0"
      by (simp add: ilog.simps [of b q])
    with 3 show ?thesis by simp
  qed
qed

lemma ilog_less_iff:
  assumes "2 \<le> b" and "0 < q" and "q < of_int b powi k"
  shows "ilog b q < k"
proof (rule ccontr)
  assume "\<not> ilog b q < k"
  then have "(of_int b :: rat) powi k \<le> of_int b powi ilog b q"
    using assms(1) by (intro power_int_increasing) auto
  with ilog_spec [OF assms(1,2)] assms(3) show False by simp
qed

lemma ilog_mono:
  assumes "2 \<le> b" and "0 < p" and "p \<le> q"
  shows "ilog b p \<le> ilog b q"
proof -
  have "p < of_int b powi (ilog b q + 1)"
    using ilog_spec [of b q] assms by simp
  from ilog_less_iff [OF assms(1,2) this] show ?thesis by simp
qed

definition round_at :: "int \<Rightarrow> int \<Rightarrow> rat \<Rightarrow> rat" where
  "round_at b e q = of_int (round_half_even (q / of_int b powi e)) * of_int b powi e"

definition round_exp :: "int \<Rightarrow> int \<Rightarrow> int \<Rightarrow> rat \<Rightarrow> int" where
  "round_exp b p emin q = max emin (ilog b \<bar>q\<bar> - p + 1)"

definition round_sig :: "int \<Rightarrow> int \<Rightarrow> int \<Rightarrow> rat \<Rightarrow> rat" where
  "round_sig b p emin q = (if q = 0 then 0 else round_at b (round_exp b p emin q) q)"

lemma round_at_mono: "2 \<le> b \<Longrightarrow> p \<le> q \<Longrightarrow> round_at b e p \<le> round_at b e q"
  unfolding round_at_def
  by (intro mult_right_mono) (auto simp: round_half_even_mono divide_right_mono)

lemma powi_split:
  assumes "2 \<le> b" and "e \<le> k"
  shows "(of_int b :: rat) powi k = of_int (b ^ nat (k - e)) * of_int b powi e"
proof -
  have "(of_int b :: rat) powi k = of_int b powi ((k - e) + e)" by simp
  also have "\<dots> = of_int b powi (k - e) * of_int b powi e"
    using assms by (intro power_int_add) simp
  also have "(of_int b :: rat) powi (k - e) = of_int (b ^ nat (k - e))"
    using assms by (simp add: power_int_def)
  finally show ?thesis .
qed

lemma round_at_fix:
  assumes "2 \<le> b" and "e \<le> k"
  shows "round_at b e (of_int m * of_int b powi k) = of_int m * of_int b powi k"
proof -
  have split: "(of_int b :: rat) powi k = of_int (b ^ nat (k - e)) * of_int b powi e"
    using assms by (rule powi_split)
  then have "of_int m * (of_int b :: rat) powi k / of_int b powi e = of_int (m * b ^ nat (k - e))"
    using assms(1) by simp
  then have "round_half_even (of_int m * of_int b powi k / of_int b powi e) = m * b ^ nat (k - e)"
    by (metis round_half_even_of_int)
  with split show ?thesis
    by (simp add: round_at_def)
qed

lemma round_at_minus: "round_at b e (- q) = - round_at b e q"
  by (simp add: round_at_def round_half_even_minus)

definition representable :: "int \<Rightarrow> int \<Rightarrow> int \<Rightarrow> rat \<Rightarrow> bool" where
  "representable b p emin q \<longleftrightarrow>
     (\<exists>m e. q = of_int m * of_int b powi e \<and> \<bar>m\<bar> < b ^ nat p \<and> emin \<le> e)"

lemma round_sig_0 [simp]: "round_sig b p emin 0 = 0"
  by (simp add: round_sig_def)

lemma round_sig_minus: "round_sig b p emin (- q) = - round_sig b p emin q"
  by (simp add: round_sig_def round_exp_def round_at_minus)

lemma round_sig_fix:
  assumes b: "2 \<le> b" and rep: "representable b p emin q" and p: "0 \<le> p"
  shows "round_sig b p emin q = q"
proof (cases "q = 0")
  case False
  from rep obtain m e where q: "q = of_int m * of_int b powi e"
    and m: "\<bar>m\<bar> < b ^ nat p" and e: "emin \<le> e"
    by (auto simp: representable_def)
  have bp: "(0::rat) < of_int b" using b by simp
  have "\<bar>q\<bar> = of_int \<bar>m\<bar> * of_int b powi e"
    using bp by (simp add: q abs_mult zero_le_power_int)
  also have "\<dots> < of_int (b ^ nat p) * of_int b powi e"
    using m bp by (intro mult_strict_right_mono) (auto simp: zero_less_power_int simp flip: of_int_abs of_int_power)
  also have "\<dots> = of_int b powi (p + e)"
    using powi_split [OF b, of e "p + e"] p by simp
  finally have "ilog b \<bar>q\<bar> < p + e"
    using b False by (intro ilog_less_iff) auto
  then have "round_exp b p emin q \<le> e"
    using e by (simp add: round_exp_def)
  with b show ?thesis
    using False by (simp add: round_sig_def q round_at_fix)
qed simp

lemma round_sig_representable:
  assumes b: "2 \<le> b" and p: "1 \<le> p"
  shows "representable b p emin (round_sig b p emin q)"
proof (cases "q = 0")
  case True
  with b show ?thesis
    by (auto simp: representable_def intro!: exI [of _ 0] exI [of _ emin])
next
  case False
  define e where "e = round_exp b p emin q"
  define m where "m = round_half_even (q / of_int b powi e)"
  have bp: "(0::rat) < of_int b" using b by simp
  have val: "round_sig b p emin q = of_int m * of_int b powi e"
    using False by (simp add: round_sig_def round_at_def e_def m_def)
  have eb: "ilog b \<bar>q\<bar> + 1 \<le> p + e" by (simp add: e_def round_exp_def)
  have "\<bar>q\<bar> < of_int b powi (ilog b \<bar>q\<bar> + 1)"
    using ilog_spec [of b "\<bar>q\<bar>"] b False by simp
  also have "\<dots> \<le> of_int b powi (p + e)"
    using eb b by (intro power_int_increasing) auto
  also have "\<dots> = of_int (b ^ nat p) * of_int b powi e"
    using powi_split [OF b, of e "p + e"] p by simp
  finally have "\<bar>q / of_int b powi e\<bar> < of_int (b ^ nat p)"
    using bp by (simp add: abs_divide divide_less_eq zero_less_power_int abs_of_pos)
  then have "q / of_int b powi e \<le> of_int (b ^ nat p)" "- of_int (b ^ nat p) \<le> q / of_int b powi e"
    using abs_ge_self [of "q / of_int b powi e"] abs_ge_minus_self [of "q / of_int b powi e"]
    by linarith+
  then have "m \<le> b ^ nat p" "- (b ^ nat p) \<le> m"
    unfolding m_def using round_half_even_mono round_half_even_of_int
    by (metis, metis of_int_minus)
  then consider "\<bar>m\<bar> < b ^ nat p" | "\<bar>m\<bar> = b ^ nat p" by linarith
  then show ?thesis
  proof cases
    case 1
    have "emin \<le> e" by (simp add: e_def round_exp_def)
    with 1 val show ?thesis by (auto simp: representable_def)
  next
    case 2
    have "round_sig b p emin q = of_int (sgn m) * of_int b powi (p + e)"
    proof -
      have "m = sgn m * b ^ nat p" using 2 by (metis abs_mult_sgn mult.commute)
      then have "(of_int m :: rat) = of_int (sgn m) * of_int (b ^ nat p)"
        by (metis of_int_mult)
      with val powi_split [OF b, of e "p + e"] p show ?thesis by simp
    qed
    moreover have "\<bar>sgn m\<bar> < b ^ nat p"
      using b p by (auto simp: sgn_if intro: one_less_power)
    moreover have "emin \<le> p + e" using p by (simp add: e_def round_exp_def)
    ultimately show ?thesis unfolding representable_def by blast
  qed
qed

lemma round_sig_mono_pos:
  assumes b: "2 \<le> b" and p: "1 \<le> p" and x: "0 < x" and xy: "x \<le> y"
  shows "round_sig b p emin x \<le> round_sig b p emin y"
proof -
  have mono: "ilog b x \<le> ilog b y" using b x xy by (rule ilog_mono)
  show ?thesis
  proof (cases "round_exp b p emin x = round_exp b p emin y")
    case True
    with x xy b show ?thesis by (simp add: round_sig_def round_at_mono)
  next
    case False
    with mono x xy have lt: "ilog b x < ilog b y" "round_exp b p emin y = ilog b y - p + 1"
      by (auto simp: round_exp_def max_def split: if_splits)
    have ey: "round_exp b p emin y \<le> ilog b y" using lt p by simp
    have ex: "round_exp b p emin x \<le> ilog b y"
      using mono lt False ey x xy by (auto simp: round_exp_def)
    have up: "x \<le> of_int b powi ilog b y"
    proof -
      have "x < of_int b powi (ilog b x + 1)" using ilog_spec [OF b x] by simp
      also have "\<dots> \<le> of_int b powi ilog b y"
        using lt b by (intro power_int_increasing) auto
      finally show ?thesis by simp
    qed
    have lo: "of_int b powi ilog b y \<le> y" using ilog_spec [OF b, of y] x xy by simp
    have "round_sig b p emin x \<le> round_at b (round_exp b p emin x) (of_int b powi ilog b y)"
      using x up b by (simp add: round_sig_def round_at_mono)
    also have "\<dots> = of_int b powi ilog b y"
      using round_at_fix [OF b ex, of 1] by simp
    also have "\<dots> = round_at b (round_exp b p emin y) (of_int b powi ilog b y)"
      using round_at_fix [OF b ey, of 1] by simp
    also have "\<dots> \<le> round_sig b p emin y"
      using x xy lo b by (simp add: round_sig_def round_at_mono)
    finally show ?thesis .
  qed
qed

lemma round_sig_nonneg:
  assumes "2 \<le> b" and "0 \<le> x"
  shows "0 \<le> round_sig b p emin x"
proof -
  have "round_at b e 0 = 0" for e by (simp add: round_at_def)
  with assms round_at_mono [of b 0 x] show ?thesis
    by (auto simp: round_sig_def)
qed

lemma round_sig_mono:
  assumes b: "2 \<le> b" and p: "1 \<le> p" and xy: "x \<le> y"
  shows "round_sig b p emin x \<le> round_sig b p emin y"
proof -
  consider "0 < x" | "x \<le> 0" "0 \<le> y" | "y < 0" by linarith
  then show ?thesis
  proof cases
    case 1
    with assms show ?thesis by (intro round_sig_mono_pos)
  next
    case 2
    then have "0 \<le> round_sig b p emin (- x)" "0 \<le> round_sig b p emin y"
      using b by (auto intro: round_sig_nonneg)
    then show ?thesis by (simp add: round_sig_minus)
  next
    case 3
    then have "round_sig b p emin (- y) \<le> round_sig b p emin (- x)"
      using b p xy by (intro round_sig_mono_pos) auto
    then show ?thesis by (simp add: round_sig_minus)
  qed
qed

section \<open>The contract of a rounding\<close>

locale grid_rounding =
  fixes rnd :: "rat \<Rightarrow> rat" and grid :: "rat \<Rightarrow> bool"
  assumes rnd_mono: "x \<le> y \<Longrightarrow> rnd x \<le> rnd y"
    and rnd_grid: "grid (rnd x)"
    and rnd_fix: "grid x \<Longrightarrow> rnd x = x"
    and rnd_minus: "rnd (- x) = - rnd x"
begin

lemma rnd_idem: "rnd (rnd x) = rnd x"
  by (simp add: rnd_fix rnd_grid)

lemma rnd_zero: "rnd 0 = 0"
  using rnd_minus [of 0] by simp

lemma rnd_nonneg: "0 \<le> x \<Longrightarrow> 0 \<le> rnd x"
  using rnd_mono [of 0 x] by (simp add: rnd_zero)

lemma rnd_nonpos: "x \<le> 0 \<Longrightarrow> rnd x \<le> 0"
  using rnd_mono [of x 0] by (simp add: rnd_zero)

lemma grid_minus: "grid x \<Longrightarrow> grid (- x)"
  by (metis rnd_fix rnd_grid rnd_minus)

lemma rnd_abs: "rnd \<bar>x\<bar> = \<bar>rnd x\<bar>"
proof (cases "0 \<le> x")
  case True
  then show ?thesis by (simp add: rnd_nonneg)
next
  case False
  then show ?thesis using rnd_nonpos [of x] by (simp add: abs_if rnd_minus)
qed

lemma rnd_below: "x \<le> y \<Longrightarrow> grid y \<Longrightarrow> rnd x \<le> y"
  using rnd_mono [of x y] by (simp add: rnd_fix)

lemma rnd_above: "x \<le> y \<Longrightarrow> grid x \<Longrightarrow> x \<le> rnd y"
  using rnd_mono [of x y] by (simp add: rnd_fix)

lemma rnd_fix_iff: "rnd x = x \<longleftrightarrow> grid x"
  by (metis rnd_fix rnd_grid)

end

lemma grid_rounding_round_sig:
  assumes "2 \<le> b" and "1 \<le> p"
  shows "grid_rounding (round_sig b p emin) (representable b p emin)"
  using assms
  by unfold_locales
    (auto intro: round_sig_mono round_sig_representable round_sig_fix round_sig_minus)

section \<open>Python floats\<close>

datatype pyfloat = Fl rat | PInf | NInf | NaN

definition f64 :: "rat \<Rightarrow> rat" where
  "f64 q = round_sig 2 53 (-1074) q"

abbreviation f64_grid :: "rat \<Rightarrow> bool" where
  "f64_grid \<equiv> representable 2 53 (-1074)"

interpretation f64: grid_rounding f64 f64_grid
  unfolding f64_def by (rule grid_rounding_round_sig) simp_all

definition float_of_rat :: "rat \<Rightarrow> pyfloat" where
  "float_of_rat q =
     (let r = f64 q in if 2 ^ 1024 \<le> r then PInf else if r \<le> - (2 ^ 1024) then NInf else Fl r)"

fun float_add :: "pyfloat \<Rightarrow> pyfloat \<Rightarrow> pyfloat" where
  "float_add (Fl a) (Fl b) = float_of_rat (a + b)"
| "float_add NaN _ = NaN"
| "float_add _ NaN = NaN"
| "float_add PInf NInf = NaN"
| "float_add NInf PInf = NaN"
| "float_add PInf _ = PInf"
| "float_add _ PInf = PInf"
| "float_add NInf _ = NInf"
| "float_add _ NInf = NInf"

fun float_neg :: "pyfloat \<Rightarrow> pyfloat" where
  "float_neg (Fl a) = Fl (- a)"
| "float_neg PInf = NInf"
| "float_neg NInf = PInf"
| "float_neg NaN = NaN"

definition inf_of_sign :: "rat \<Rightarrow> pyfloat" where
  "inf_of_sign s = (if 0 < s then PInf else if s < 0 then NInf else NaN)"

fun float_mult :: "pyfloat \<Rightarrow> pyfloat \<Rightarrow> pyfloat" where
  "float_mult (Fl a) (Fl b) = float_of_rat (a * b)"
| "float_mult NaN _ = NaN"
| "float_mult _ NaN = NaN"
| "float_mult PInf PInf = PInf"
| "float_mult PInf NInf = NInf"
| "float_mult NInf PInf = NInf"
| "float_mult NInf NInf = PInf"
| "float_mult PInf (Fl b) = inf_of_sign b"
| "float_mult (Fl a) PInf = inf_of_sign a"
| "float_mult NInf (Fl b) = inf_of_sign (- b)"
| "float_mult (Fl a) NInf = inf_of_sign (- a)"

fun float_less :: "pyfloat \<Rightarrow> pyfloat \<Rightarrow> bool" where
  "float_less (Fl a) (Fl b) \<longleftrightarrow> a < b"
| "float_less NaN _ \<longleftrightarrow> False"
| "float_less _ NaN \<longleftrightarrow> False"
| "float_less PInf _ \<longleftrightarrow> False"
| "float_less _ NInf \<longleftrightarrow> False"
| "float_less _ PInf \<longleftrightarrow> True"
| "float_less NInf _ \<longleftrightarrow> True"

text \<open>Python's \<open>==\<close> on floats: NaN differs from everything.\<close>

definition float_eq :: "pyfloat \<Rightarrow> pyfloat \<Rightarrow> bool" where
  "float_eq x y \<longleftrightarrow> x = y \<and> x \<noteq> NaN"

instantiation pyfloat :: "{zero, one, plus, minus, uminus, times, abs, ord}"
begin

definition zero_pyfloat :: pyfloat where
  "0 = Fl 0"

definition one_pyfloat :: pyfloat where
  "1 = Fl 1"

definition plus_pyfloat :: "pyfloat \<Rightarrow> pyfloat \<Rightarrow> pyfloat" where
  "x + y = float_add x y"

definition uminus_pyfloat :: "pyfloat \<Rightarrow> pyfloat" where
  "- x = float_neg x"

definition minus_pyfloat :: "pyfloat \<Rightarrow> pyfloat \<Rightarrow> pyfloat" where
  "x - y = float_add x (float_neg y)"

definition times_pyfloat :: "pyfloat \<Rightarrow> pyfloat \<Rightarrow> pyfloat" where
  "x * y = float_mult x y"

definition abs_pyfloat :: "pyfloat \<Rightarrow> pyfloat" where
  "\<bar>x\<bar> = (case x of Fl a \<Rightarrow> Fl \<bar>a\<bar> | NInf \<Rightarrow> PInf | y \<Rightarrow> y)"

definition less_pyfloat :: "pyfloat \<Rightarrow> pyfloat \<Rightarrow> bool" where
  "x < y \<longleftrightarrow> float_less x y"

definition less_eq_pyfloat :: "pyfloat \<Rightarrow> pyfloat \<Rightarrow> bool" where
  "x \<le> y \<longleftrightarrow> float_less x y \<or> float_eq x y"

instance ..

end

text \<open>\<open>a / b\<close>: division by zero raises, whatever the dividend.\<close>

fun float_div :: "pyfloat \<Rightarrow> pyfloat \<Rightarrow> pyfloat result" where
  "float_div x (Fl b) =
     (if b = 0 then Inl ZeroDivisionError
      else Inr (case x of Fl a \<Rightarrow> float_of_rat (a / b)
                | PInf \<Rightarrow> inf_of_sign b | NInf \<Rightarrow> inf_of_sign (- b) | NaN \<Rightarrow> NaN))"
| "float_div x NaN = Inr NaN"
| "float_div x _ = Inr (case x of Fl a \<Rightarrow> Fl 0 | _ \<Rightarrow> NaN)"

fun isfinite :: "pyfloat \<Rightarrow> bool" where
  "isfinite (Fl _) = True"
| "isfinite _ = False"

definition float_of_int :: "int \<Rightarrow> pyfloat" where
  "float_of_int n = float_of_rat (of_int n)"

text \<open>True division of integers: the correctly rounded quotient.\<close>

definition int_true_div :: "int \<Rightarrow> int \<Rightarrow> pyfloat result" where
  "int_true_div a b =
     (if b = 0 then Inl ZeroDivisionError
      else let q = float_of_rat (of_int a / of_int b) in
           if isfinite q then Inr q else Inl OverflowError)"

text \<open>The builtins \<open>max(a, b)\<close> and \<open>min(a, b)\<close> keep the first argument unless the second is
  strictly better.\<close>

definition pymax :: "'a :: ord \<Rightarrow> 'a \<Rightarrow> 'a" where
  "pymax a b = (if a < b then b else a)"

definition pymin :: "'a :: ord \<Rightarrow> 'a \<Rightarrow> 'a" where
  "pymin a b = (if b < a then b else a)"

text \<open>
  The builtin \<open>sum\<close> of floats keeps a running compensation for the lost low-order part and adds
  it at the end when it is a non-zero finite number.
\<close>

fun compensated_sum :: "pyfloat \<Rightarrow> pyfloat \<Rightarrow> pyfloat list \<Rightarrow> pyfloat" where
  "compensated_sum hi c [] = (if c \<noteq> Fl 0 \<and> isfinite c then hi + c else hi)"
| "compensated_sum hi c (x # xs) =
     (let t = hi + x
      in compensated_sum t (c + (if \<bar>x\<bar> \<le> \<bar>hi\<bar> then (hi - t) + x else (x - t) + hi)) xs)"

definition float_sum :: "pyfloat list \<Rightarrow> pyfloat" where
  "float_sum xs = (case xs of [] \<Rightarrow> 0 | x # xs' \<Rightarrow> compensated_sum x 0 xs')"

text \<open>Well-formed floats hold a binary64 value.\<close>

fun wf_float :: "pyfloat \<Rightarrow> bool" where
  "wf_float (Fl r) \<longleftrightarrow> f64_grid r \<and> \<bar>r\<bar> < 2 ^ 1024"
| "wf_float _ \<longleftrightarrow> True"

lemmas float_ops =
  zero_pyfloat_def one_pyfloat_def plus_pyfloat_def minus_pyfloat_def uminus_pyfloat_def
  times_pyfloat_def abs_pyfloat_def less_pyfloat_def less_eq_pyfloat_def float_eq_def

record libm =
  m_exp :: "pyfloat \<Rightarrow> pyfloat result"
  m_log :: "pyfloat \<Rightarrow> pyfloat result"
  m_sqrt :: "pyfloat \<Rightarrow> pyfloat result"
  m_cbrt :: "pyfloat \<Rightarrow> pyfloat result"
  m_pow :: "pyfloat \<Rightarrow> pyfloat \<Rightarrow> pyfloat result"
  m_ncdf :: "pyfloat \<Rightarrow> pyfloat"

lemma wf_float_of_rat [simp]: "wf_float (float_of_rat q)"
  by (auto simp: float_of_rat_def Let_def f64.rnd_grid abs_less_iff)

lemma float_of_rat_wf: "wf_float (Fl r) \<Longrightarrow> float_of_rat r = Fl r"
  by (auto simp: float_of_rat_def Let_def f64.rnd_fix abs_less_iff)

lemma wf_float_add: "wf_float x \<Longrightarrow> wf_float y \<Longrightarrow> wf_float (x + y)"
  by (cases x; cases y) (auto simp: float_ops)

lemma wf_float_mult: "wf_float x \<Longrightarrow> wf_float y \<Longrightarrow> wf_float (x * y)"
  by (cases x; cases y) (auto simp: float_ops inf_of_sign_def)

lemma wf_float_neg: "wf_float x \<Longrightarrow> wf_float (- x)"
  by (cases x) (auto simp: float_ops f64.grid_minus)

lemma f64_grid_0 [simp]: "f64_grid 0"
  by (simp add: f64.rnd_zero flip: f64.rnd_fix_iff)

lemma wf_zero: "wf_float (Fl 0)"
  by simp

lemma float_add_zero: "wf_float x \<Longrightarrow> x + 0 = x"
  by (cases x) (auto simp: float_ops float_of_rat_wf simp del: wf_float.simps)

lemma float_less_irrefl [simp]: "\<not> (x :: pyfloat) < x"
  by (cases x) (auto simp: float_ops)

lemma float_less_trans: "(x :: pyfloat) < y \<Longrightarrow> y < z \<Longrightarrow> x < z"
  by (cases x; cases y; cases z) (auto simp: float_ops)

lemma float_less_asym: "(x :: pyfloat) < y \<Longrightarrow> \<not> y < x"
  by (cases x; cases y) (auto simp: float_ops)

lemma float_le_trans: "(x :: pyfloat) \<le> y \<Longrightarrow> y \<le> z \<Longrightarrow> x \<le> z"
  by (cases x; cases y; cases z) (auto simp: float_ops)

lemma float_not_less: "x \<noteq> NaN \<Longrightarrow> y \<noteq> NaN \<Longrightarrow> \<not> (x :: pyfloat) < y \<longleftrightarrow> y \<le> x"
  by (cases x; cases y) (auto simp: float_ops)

lemma float_le_not_less: "(x :: pyfloat) \<le> y \<Longrightarrow> \<not> y < x"
  by (cases x; cases y) (auto simp: float_ops)

lemma pymax_float_not_less: "\<not> pymax x y < (y :: pyfloat)"
  by (auto simp: pymax_def)

lemma pymax_float_ge: "x \<noteq> NaN \<Longrightarrow> (x :: pyfloat) \<le> pymax x y"
  by (cases x; cases y) (auto simp: pymax_def float_ops)

lemma float_of_rat_mono: "p \<le> q \<Longrightarrow> float_of_rat p \<le> float_of_rat q"
  using f64.rnd_mono [of p q] by (auto simp: float_of_rat_def Let_def float_ops)

lemma float_of_rat_zero [simp]: "float_of_rat 0 = 0"
  by (simp add: float_of_rat_def f64.rnd_zero zero_pyfloat_def)

lemma float_of_rat_nonneg: "0 \<le> q \<Longrightarrow> 0 \<le> float_of_rat q"
  using float_of_rat_mono [of 0 q] by simp

lemma float_of_rat_nonpos: "q \<le> 0 \<Longrightarrow> float_of_rat q \<le> 0"
  using float_of_rat_mono [of q 0] by simp

lemma float_of_rat_minus: "float_of_rat (- q) = - float_of_rat q"
  by (auto simp: float_of_rat_def Let_def f64.rnd_minus uminus_pyfloat_def)

lemma float_diff_antisym: "Fl b - Fl a = - (Fl a - Fl b)"
  using float_of_rat_minus [of "a - b"] by (simp add: minus_pyfloat_def)

lemma float_of_rat_not_NaN [simp]: "float_of_rat q \<noteq> NaN"
  by (simp add: float_of_rat_def Let_def)

subsection \<open>The midpoint of two floats\<close>

lemma f64_grid_double: "f64_grid a \<Longrightarrow> f64_grid (2 * a)"
proof -
  assume "f64_grid a"
  then obtain m e where "a = of_int m * 2 powi e" "\<bar>m\<bar> < 2 ^ 53" "-1074 \<le> e"
    by (auto simp: representable_def)
  then have "2 * a = of_int m * 2 powi (e + 1)" "-1074 \<le> e + 1"
    by (simp_all add: power_int_add)
  with \<open>\<bar>m\<bar> < 2 ^ 53\<close> show ?thesis
    unfolding representable_def by (intro exI [of _ m] exI [of _ "e + 1"]) simp
qed

lemma midpoint_between:
  assumes a: "f64_grid a" and b: "f64_grid b" and ab: "a \<le> b"
    and bounds: "\<bar>a\<bar> \<le> 2 ^ 1022" "\<bar>b\<bar> \<le> 2 ^ 1022"
  shows "\<exists>m. float_div (Fl a + Fl b) (Fl 2) = Inr (Fl m) \<and> a \<le> m \<and> m \<le> b \<and> f64_grid m"
proof -
  define h where "h = f64 (a + b)"
  have h: "2 * a \<le> h" "h \<le> 2 * b"
    unfolding h_def using ab f64_grid_double [OF a] f64_grid_double [OF b]
    by (auto intro: f64.rnd_above f64.rnd_below)
  define m where "m = f64 (h / 2)"
  have m: "a \<le> m" "m \<le> b"
    unfolding m_def using h a b by (auto intro: f64.rnd_above f64.rnd_below)
  have big: "(2::rat) * 2 ^ 1022 < 2 ^ 1024"
    by simp
  have "\<bar>h\<bar> < 2 ^ 1024" "\<bar>m\<bar> < 2 ^ 1024"
    using h m bounds big unfolding abs_le_iff abs_less_iff by linarith+
  then have "float_of_rat (a + b) = Fl h" "float_of_rat (h / 2) = Fl m"
    by (auto simp: float_of_rat_def Let_def h_def m_def abs_less_iff)
  then have "float_div (Fl a + Fl b) (Fl 2) = Inr (Fl m)"
    by (simp add: plus_pyfloat_def)
  with m show ?thesis by (auto simp: m_def f64.rnd_grid)
qed

section \<open>Python decimals\<close>

datatype decimal = Dec (dval: rat)

definition ctx :: "rat \<Rightarrow> rat" where
  "ctx q = round_sig 10 28 (-1000026) q"

abbreviation ctx_grid :: "rat \<Rightarrow> bool" where
  "ctx_grid \<equiv> representable 10 28 (-1000026)"

interpretation ctx: grid_rounding ctx ctx_grid
  unfolding ctx_def by (rule grid_rounding_round_sig) simp_all

instantiation decimal :: "{zero, one, plus, minus, uminus, times, abs, linorder}"
begin

definition zero_decimal :: decimal where
  "0 = Dec 0"

definition one_decimal :: decimal where
  "1 = Dec 1"

definition plus_decimal :: "decimal \<Rightarrow> decimal \<Rightarrow> decimal" where
  "x + y = Dec (ctx (dval x + dval y))"

definition minus_decimal :: "decimal \<Rightarrow> decimal \<Rightarrow> decimal" where
  "x - y = Dec (ctx (dval x - dval y))"

definition uminus_decimal :: "decimal \<Rightarrow> decimal" where
  "- x = Dec (ctx (- dval x))"

definition times_decimal :: "decimal \<Rightarrow> decimal \<Rightarrow> decimal" where
  "x * y = Dec (ctx (dval x * dval y))"

definition abs_decimal :: "decimal \<Rightarrow> decimal" where
  "\<bar>x\<bar> = Dec (ctx \<bar>dval x\<bar>)"

definition less_decimal :: "decimal \<Rightarrow> decimal \<Rightarrow> bool" where
  "x < y \<longleftrightarrow> dval x < dval y"

definition less_eq_decimal :: "decimal \<Rightarrow> decimal \<Rightarrow> bool" where
  "x \<le> y \<longleftrightarrow> dval x \<le> dval y"

instance
  by standard (auto simp: less_decimal_def less_eq_decimal_def decimal.expand)

end

lemmas decimal_ops =
  zero_decimal_def one_decimal_def plus_decimal_def minus_decimal_def uminus_decimal_def
  times_decimal_def abs_decimal_def less_decimal_def less_eq_decimal_def

lemma dval_zero [simp]: "dval 0 = 0" and dval_one [simp]: "dval 1 = 1"
  by (simp_all add: decimal_ops)

definition decimal_of_int :: "int \<Rightarrow> decimal" where
  "decimal_of_int n = Dec (of_int n)"

definition decimal_div :: "decimal \<Rightarrow> decimal \<Rightarrow> decimal result" where
  "decimal_div x y =
     (if dval y = 0 then Inl (if dval x = 0 then InvalidOperation else ZeroDivisionError)
      else Inr (Dec (ctx (dval x / dval y))))"

text \<open>\<open>sum(xs, start=Decimal("0.00"))\<close>.\<close>

definition decimal_sum :: "decimal list \<Rightarrow> decimal" where
  "decimal_sum xs = foldl (+) 0 xs"

text \<open>\<open>x.quantize(10 ** e, rounding=ROUND_HALF_EVEN)\<close>.\<close>

definition quantize :: "int \<Rightarrow> decimal \<Rightarrow> decimal result" where
  "quantize e x =
     (let n = round_half_even (dval x / 10 powi e)
      in if 10 ^ 28 \<le> \<bar>n\<bar> then Inl InvalidOperation else Inr (Dec (of_int n * 10 powi e)))"

section \<open>From floats to decimals\<close>

definition decimal_candidate :: "rat \<Rightarrow> int \<Rightarrow> rat option" where
  "decimal_candidate r n =
     (let s = 10 powi (ilog 10 r - (n - 1));
          lo = \<lfloor>r / s\<rfloor>;
          below = of_int lo * s; above = of_int (lo + 1) * s
      in if f64 below = r
         then (if f64 above = r
               then Some (if r - below < above - r then below
                          else if above - r < r - below then above
                          else if even lo then below else above)
               else Some below)
         else if f64 above = r then Some above else None)"

fun shortest_from :: "nat \<Rightarrow> int \<Rightarrow> rat \<Rightarrow> rat" where
  "shortest_from 0 n r = r"
| "shortest_from (Suc k) n r =
     (case decimal_candidate r n of Some d \<Rightarrow> d | None \<Rightarrow> shortest_from k (n + 1) r)"

text \<open>Seventeen significant digits always suffice for binary64.\<close>

definition shortest :: "rat \<Rightarrow> rat" where
  "shortest r = shortest_from 17 1 r"

definition decimal_of_float :: "pyfloat \<Rightarrow> decimal result" where
  "decimal_of_float x =
     (case x of
        Fl r \<Rightarrow> Inr (Dec (if r < 0 then - shortest (- r) else if r = 0 then 0 else shortest r))
      | _ \<Rightarrow> Inl InvalidOperation)"

lemma shortest_from_reads_back: "f64_grid r \<Longrightarrow> f64 (shortest_from k n r) = r"
proof (induction k arbitrary: n)
  case 0
  then show ?case by (simp add: f64.rnd_fix)
next
  case (Suc k)
  then show ?case
    by (auto simp: decimal_candidate_def Let_def split: option.splits)
qed

lemma decimal_of_float_reads_back:
  "wf_float x \<Longrightarrow> decimal_of_float x = Inr d \<Longrightarrow> x = Fl (f64 (dval d))"
  by (cases x)
    (auto simp: decimal_of_float_def shortest_def shortest_from_reads_back f64.rnd_minus
        f64.grid_minus f64.rnd_zero)

lemma decimal_of_float_finite:
  "(\<exists>d. decimal_of_float x = Inr d) \<longleftrightarrow> isfinite x"
  by (cases x) (auto simp: decimal_of_float_def)

lemma decimal_of_float_mono:
  assumes "wf_float x" "wf_float y" "x \<le> y"
    and "decimal_of_float x = Inr a" "decimal_of_float y = Inr b"
  shows "a \<le> b"
proof (rule ccontr)
  have x: "x = Fl (f64 (dval a))" and y: "y = Fl (f64 (dval b))"
    using assms decimal_of_float_reads_back by blast+
  assume "\<not> a \<le> b"
  then have "dval b < dval a" by (simp add: decimal_ops)
  moreover from this have "f64 (dval b) \<le> f64 (dval a)" by (intro f64.rnd_mono) simp
  moreover have "f64 (dval a) \<le> f64 (dval b)" using assms(3) x y by (auto simp: float_ops)
  ultimately have "x = y" using x y by simp
  with assms(4,5) \<open>dval b < dval a\<close> show False by simp
qed

lemma decimal_of_float_nonneg:
  assumes "wf_float x" "decimal_of_float x = Inr d"
  shows "0 \<le> x \<longleftrightarrow> 0 \<le> d"
proof -
  have "wf_float 0" "decimal_of_float 0 = Inr 0"
    by (auto simp: zero_pyfloat_def decimal_of_float_def zero_decimal_def f64.rnd_zero
        simp flip: f64.rnd_fix_iff)
  moreover have "x \<le> 0 \<or> 0 \<le> x"
    using assms(2) by (cases x) (auto simp: float_ops decimal_of_float_def)
  moreover have "x = 0 \<longleftrightarrow> d = 0"
    using decimal_of_float_reads_back [OF assms] assms(2)
    by (auto simp: float_ops decimal_ops decimal_of_float_def f64.rnd_zero decimal.expand
        split: if_splits)
  ultimately show ?thesis
    using decimal_of_float_mono [OF assms(1) _ _ assms(2)] decimal_of_float_mono [OF _ assms(1) _ _ assms(2)]
    by (metis float_le_trans antisym_conv nle_le)
qed

subsection \<open>Integers below \<open>2 ^ 53\<close> are exact throughout\<close>

lemma f64_of_int: "\<bar>n\<bar> < 2 ^ 53 \<Longrightarrow> f64 (of_int n) = of_int n"
  unfolding f64.rnd_fix_iff representable_def
  by (rule exI [of _ n], rule exI [of _ 0]) simp

lemma float_of_rat_int: "\<bar>n\<bar> < 2 ^ 53 \<Longrightarrow> float_of_rat (of_int n) = Fl (of_int n)"
  by (auto simp: float_of_rat_def Let_def f64_of_int abs_less_iff)

lemma float_of_int_Fl: "\<bar>n\<bar> < 2 ^ 53 \<Longrightarrow> float_of_int n = Fl (of_int n)"
  by (simp add: float_of_int_def float_of_rat_int)

lemma decimal_candidate_int:
  assumes n: "0 < n" "n < 2 ^ 53" and i: "i - 1 \<le> ilog 10 (of_int n)"
  shows "decimal_candidate (of_int n) i = None \<or> decimal_candidate (of_int n) i = Some (of_int n)"
    and "i - 1 = ilog 10 (of_int n) \<Longrightarrow> decimal_candidate (of_int n) i = Some (of_int n)"
proof -
  define k where "k = nat (ilog 10 (of_int n) - (i - 1))"
  define lo where "lo = n div 10 ^ k"
  have s: "(10::rat) powi (ilog 10 (of_int n) - (i - 1)) = of_int (10 ^ k)"
    using i by (simp add: k_def power_int_def)
  have lo_eq: "\<lfloor>of_int n / (of_int (10 ^ k) :: rat)\<rfloor> = lo"
    by (simp add: lo_def floor_divide_of_int_eq del: of_int_power)
  have "n = lo * 10 ^ k + n mod 10 ^ k"
    unfolding lo_def by (rule div_mult_mod_eq [symmetric])
  moreover have "0 \<le> n mod 10 ^ k" and "n mod 10 ^ k < 10 ^ k"
    by simp_all
  ultimately have below: "lo * 10 ^ k \<le> n" and above: "n < (lo + 1) * 10 ^ k"
    unfolding distrib_right by linarith+
  have nn: "0 \<le> lo * 10 ^ k"
    using n by (simp add: lo_def pos_imp_zdiv_nonneg_iff)
  have fb: "f64 (of_int (lo * 10 ^ k)) = of_int (lo * 10 ^ k)"
    using below nn n by (intro f64_of_int) linarith
  have fa: "f64 (of_int ((lo + 1) * 10 ^ k)) \<noteq> of_int n"
  proof (cases "(lo + 1) * 10 ^ k < 2 ^ 53")
    case True
    then have "f64 (of_int ((lo + 1) * 10 ^ k)) = of_int ((lo + 1) * 10 ^ k)"
      using nn above n by (intro f64_of_int) linarith
    with above show ?thesis by (metis less_irrefl of_int_eq_iff)
  next
    case False
    have "f64 (2 ^ 53) = 2 ^ 53"
      unfolding f64.rnd_fix_iff representable_def
      by (rule exI [of _ 1], rule exI [of _ 53]) simp
    moreover have "(2::rat) ^ 53 \<le> of_int ((lo + 1) * 10 ^ k)"
      using False by (metis linorder_not_less of_int_le_iff of_int_numeral of_int_power)
    ultimately have "(2::rat) ^ 53 \<le> f64 (of_int ((lo + 1) * 10 ^ k))"
      by (metis f64.rnd_mono)
    moreover have "(of_int n :: rat) < 2 ^ 53"
      using n(2) by (metis of_int_less_iff of_int_numeral of_int_power)
    ultimately show ?thesis by linarith
  qed
  have cand: "decimal_candidate (of_int n) i
      = (if lo * 10 ^ k = n then Some (of_int n) else None)"
    unfolding decimal_candidate_def Let_def s lo_eq of_int_mult [symmetric] fb
    using fa by (simp del: of_int_mult of_int_power of_int_add)
  then show "decimal_candidate (of_int n) i = None \<or> decimal_candidate (of_int n) i = Some (of_int n)"
    by simp
  show "decimal_candidate (of_int n) i = Some (of_int n)" if "i - 1 = ilog 10 (of_int n)"
    using that cand by (simp add: k_def lo_def)
qed

lemma shortest_from_int:
  assumes "0 < n" "n < 2 ^ 53"
  shows "i - 1 \<le> ilog 10 (of_int n) \<Longrightarrow> ilog 10 (of_int n) < i - 1 + int j
    \<Longrightarrow> shortest_from j i (of_int n) = of_int n"
proof (induction j arbitrary: i)
  case 0
  then show ?case by simp
next
  case (Suc j)
  show ?case
  proof (cases "i - 1 = ilog 10 (of_int n)")
    case True
    with decimal_candidate_int(2) [OF assms] show ?thesis by simp
  next
    case False
    with Suc.prems have "shortest_from j (i + 1) (of_int n) = of_int n"
      by (intro Suc.IH) auto
    with decimal_candidate_int(1) [OF assms Suc.prems(1)] show ?thesis by auto
  qed
qed

lemma decimal_of_float_int:
  assumes "\<bar>n\<bar> < 2 ^ 53"
  shows "decimal_of_float (Fl (of_int n)) = Inr (Dec (of_int n))"
proof -
  have pos: "shortest (of_int m) = of_int m" if "0 < m" "m < 2 ^ 53" for m
  proof -
    have "(of_int m :: rat) < 2 ^ 53"
      using that(2) by (metis of_int_less_iff of_int_numeral of_int_power)
    then have "(of_int m :: rat) < of_int 10 powi 17" by simp
    then have "ilog 10 (of_int m) < 17"
      using that by (intro ilog_less_iff) auto
    moreover have "ilog 10 1 \<le> ilog 10 (of_int m)"
      using that by (intro ilog_mono) auto
    ultimately show ?thesis
      unfolding shortest_def using that
      by (intro shortest_from_int) (auto simp: ilog.simps [of 10 1])
  qed
  show ?thesis
    using assms pos [of n] pos [of "- n"] by (auto simp: decimal_of_float_def)
qed

section \<open>Amounts of money\<close>

text \<open>
  The program keeps money in hundredths (\<open>in_cents\<close>). Decimal arithmetic on such amounts is
  exact while the results stay below \<open>10 ^ 26\<close>; above that the 28 digits of the context no
  longer reach the cents.
\<close>

definition in_cents :: "rat \<Rightarrow> bool" where
  "in_cents q \<longleftrightarrow> (\<exists>n. q = of_int n / 100)"

definition cents_bound :: rat where
  "cents_bound = 10 ^ 26"

lemma in_cents_0 [simp]: "in_cents 0"
  by (auto simp: in_cents_def intro: exI [of _ 0])

lemma in_cents_add: "in_cents a \<Longrightarrow> in_cents b \<Longrightarrow> in_cents (a + b)"
  unfolding in_cents_def by (metis add_divide_distrib of_int_add)

lemma in_cents_minus: "in_cents a \<Longrightarrow> in_cents (- a)"
  unfolding in_cents_def by (metis minus_divide_left of_int_minus)

lemma in_cents_diff: "in_cents a \<Longrightarrow> in_cents b \<Longrightarrow> in_cents (a - b)"
  using in_cents_add [of a "- b"] in_cents_minus [of b] by simp

lemma in_cents_sum_list: "(\<And>x. x \<in> set xs \<Longrightarrow> in_cents x) \<Longrightarrow> in_cents (sum_list xs)"
  by (induction xs) (auto intro: in_cents_add)

lemma ctx_cents:
  assumes "in_cents q" and "\<bar>q\<bar> < cents_bound"
  shows "ctx q = q"
proof -
  from assms(1) obtain n where q: "q = of_int n / 100" by (auto simp: in_cents_def)
  with assms(2) have "\<bar>of_int n / 100 :: rat\<bar> < 10 ^ 26" by (simp add: cents_bound_def)
  then have "of_int \<bar>n\<bar> < (of_int (10 ^ 28) :: rat)" by simp
  then have "\<bar>n\<bar> < 10 ^ 28" by (simp only: of_int_less_iff)
  moreover have "q = of_int n * of_int 10 powi (-2)" by (simp add: q power_int_minus)
  ultimately show ?thesis
    unfolding ctx.rnd_fix_iff representable_def by (intro exI [of _ n] exI [of _ "-2"]) simp
qed

definition round_cents :: "rat \<Rightarrow> rat" where
  "round_cents q = round_at 10 (-2) q"

interpretation cent: grid_rounding round_cents in_cents
proof
  show "x \<le> y \<Longrightarrow> round_cents x \<le> round_cents y" for x y
    by (simp add: round_cents_def round_at_mono)
  show "in_cents (round_cents x)" for x
    by (auto simp: in_cents_def round_cents_def round_at_def power_int_minus)
  show "round_cents x = x" if cx: "in_cents x" for x
  proof -
    from cx obtain n where x: "x = of_int n * of_int 10 powi (-2)"
      by (auto simp: in_cents_def power_int_minus)
    show ?thesis
      unfolding round_cents_def x by (rule round_at_fix) simp_all
  qed
  show "round_cents (- x) = - round_cents x" for x
    by (simp add: round_cents_def round_at_minus)
qed

lemma quantize_cents:
  "quantize (-2) x =
     (if \<bar>round_cents (dval x)\<bar> < cents_bound then Inr (Dec (round_cents (dval x)))
      else Inl InvalidOperation)"
proof -
  define n where "n = round_half_even (dval x / 10 powi (-2))"
  have rc: "round_cents (dval x) = of_int n * 10 powi (-2)"
    by (simp only: round_cents_def round_at_def n_def of_int_numeral)
  have "\<bar>of_int n * 10 powi (-2) :: rat\<bar> < cents_bound \<longleftrightarrow> of_int \<bar>n\<bar> < (of_int (10 ^ 28) :: rat)"
    by (simp add: cents_bound_def power_int_minus abs_divide)
  also have "\<dots> \<longleftrightarrow> \<not> 10 ^ 28 \<le> \<bar>n\<bar>"
    by (simp only: of_int_less_iff linorder_not_le)
  finally show ?thesis
    unfolding quantize_def Let_def rc n_def [symmetric] by simp
qed

lemma quantize_cents_Inr:
  "quantize (-2) x = Inr y \<longleftrightarrow>
     y = Dec (round_cents (dval x)) \<and> \<bar>round_cents (dval x)\<bar> < cents_bound"
  by (auto simp: quantize_cents)

text \<open>A running sum of cent amounts is exact while the absolute amounts stay in bounds.\<close>

lemma foldl_decimal_exact:
  assumes "in_cents (dval a)" and "\<forall>x \<in> set xs. in_cents (dval x)"
    and "\<bar>dval a\<bar> + sum_list (map (\<lambda>x. \<bar>dval x\<bar>) xs) < cents_bound"
  shows "dval (foldl (+) a xs) = dval a + sum_list (map dval xs)"
  using assms
proof (induction xs arbitrary: a)
  case Nil
  then show ?case by simp
next
  case (Cons x xs)
  have nn: "0 \<le> sum_list (map (\<lambda>x. \<bar>dval x\<bar>) xs)"
    by (rule sum_list_nonneg) auto
  have c: "in_cents (dval a + dval x)"
    using Cons.prems by (simp add: in_cents_add)
  have tri: "\<bar>dval a + dval x\<bar> \<le> \<bar>dval a\<bar> + \<bar>dval x\<bar>" by (rule abs_triangle_ineq)
  have "ctx (dval a + dval x) = dval a + dval x"
    using c Cons.prems(3) nn tri by (intro ctx_cents) simp_all
  then have e: "dval (a + x) = dval a + dval x" by (simp add: decimal_ops)
  have "dval (foldl (+) (a + x) xs) = dval (a + x) + sum_list (map dval xs)"
    using Cons.prems c tri by (intro Cons.IH) (simp_all add: e)
  then show ?case by (simp add: e)
qed

lemma decimal_sum_exact:
  assumes "\<forall>x \<in> set xs. in_cents (dval x)"
    and "sum_list (map (\<lambda>x. \<bar>dval x\<bar>) xs) < cents_bound"
  shows "dval (decimal_sum xs) = sum_list (map dval xs)"
  using assms foldl_decimal_exact [of 0 xs] by (simp add: decimal_sum_def)

section \<open>Evaluation in the kernel\<close>

lemma floor_rat_numeral [simp]:
  "\<lfloor>numeral a / numeral b :: rat\<rfloor> = numeral a div numeral b"
  "\<lfloor>1 / numeral b :: rat\<rfloor> = 1 div numeral b"
  "\<lfloor>- numeral a / numeral b :: rat\<rfloor> = - numeral a div numeral b"
  "\<lfloor>- (numeral a / numeral b) :: rat\<rfloor> = - numeral a div numeral b"
  "\<lfloor>- 1 / numeral b :: rat\<rfloor> = - 1 div numeral b"
  using floor_divide_of_int_eq [where ?'a = rat, of "numeral a" "numeral b"]
    floor_divide_of_int_eq [where ?'a = rat, of 1 "numeral b"]
    floor_divide_of_int_eq [where ?'a = rat, of "- numeral a" "numeral b"]
    floor_divide_of_int_eq [where ?'a = rat, of "- 1" "numeral b"]
  by simp_all

lemma f64_numeral [simp]: "(numeral k :: int) < 2 ^ 53 \<Longrightarrow> f64 (numeral k) = numeral k"
  using f64_of_int [of "numeral k"] by simp

lemma f64_0 [simp]: "f64 0 = 0" and f64_1 [simp]: "f64 1 = 1"
  using f64_of_int [of 0] f64_of_int [of 1] by simp_all

lemma f64_neg_numeral [simp]:
  "(numeral k :: int) < 2 ^ 53 \<Longrightarrow> f64 (- numeral k) = - numeral k"
  "f64 (- 1) = - 1"
  using f64_of_int [of "- numeral k"] f64_of_int [of "- 1"] by simp_all

lemma float_of_rat_numeral [simp]:
  "(numeral k :: int) < 2 ^ 53 \<Longrightarrow> float_of_rat (numeral k) = Fl (numeral k)"
  "(numeral k :: int) < 2 ^ 53 \<Longrightarrow> float_of_rat (- numeral k) = Fl (- numeral k)"
  "float_of_rat 1 = Fl 1" "float_of_rat (- 1) = Fl (- 1)"
  using float_of_rat_int [of "numeral k"] float_of_rat_int [of "- numeral k"]
    float_of_rat_int [of 1] float_of_rat_int [of "- 1"]
  by simp_all

lemma shortest_from_numeral:
  "shortest_from (numeral k) n r =
     (case decimal_candidate r n of Some d \<Rightarrow> d | None \<Rightarrow> shortest_from (pred_numeral k) (n + 1) r)"
  by (simp add: numeral_eq_Suc)

lemma decimal_of_float_numeral:
  "(numeral k :: int) < 2 ^ 53 \<Longrightarrow> decimal_of_float (Fl (numeral k)) = Inr (Dec (numeral k))"
  using decimal_of_float_int [of "numeral k"] by simp

lemma decimal_of_float_0 [simp]: "decimal_of_float (Fl 0) = Inr (Dec 0)"
  and decimal_of_float_1 [simp]: "decimal_of_float (Fl 1) = Inr (Dec 1)"
  using decimal_of_float_int [of 0] decimal_of_float_int [of 1] by simp_all

text \<open>Decimal integers below \<open>10 ^ 26\<close> are exact in the context and in hundredths.\<close>

lemma in_cents_of_int [simp]: "in_cents (of_int n)"
  unfolding in_cents_def by (rule exI [of _ "n * 100"]) simp

lemma ctx_of_int: "\<bar>n\<bar> < 10 ^ 26 \<Longrightarrow> ctx (of_int n) = of_int n"
proof (rule ctx_cents)
  assume "\<bar>n\<bar> < 10 ^ 26"
  then have "(of_int \<bar>n\<bar> :: rat) < of_int (10 ^ 26)" by (simp only: of_int_less_iff)
  then show "\<bar>of_int n\<bar> < cents_bound" by (simp add: cents_bound_def)
qed simp

lemma ctx_numeral [simp]:
  "(numeral k :: int) < 10 ^ 26 \<Longrightarrow> ctx (numeral k) = numeral k"
  "(numeral k :: int) < 10 ^ 26 \<Longrightarrow> ctx (- numeral k) = - numeral k"
  "ctx 0 = 0" "ctx 1 = 1" "ctx (- 1) = - 1"
  using ctx_of_int [of "numeral k"] ctx_of_int [of "- numeral k"] ctx_of_int [of 1] ctx_of_int [of "- 1"]
  by (simp_all add: ctx.rnd_zero)

lemma round_cents_of_int: "round_cents (of_int n) = of_int n"
  by (simp add: cent.rnd_fix)

lemma round_cents_numeral [simp]:
  "round_cents (numeral k) = numeral k" "round_cents (- numeral k) = - numeral k"
  "round_cents 0 = 0" "round_cents 1 = 1" "round_cents (- 1) = - 1"
  using round_cents_of_int [of "numeral k"] round_cents_of_int [of "- numeral k"]
    round_cents_of_int [of 1] round_cents_of_int [of "- 1"]
  by (simp_all add: cent.rnd_zero)

text \<open>
  A stand-in C library for the closed examples: \<open>exp\<close> is 1, which is exact at zero rates, and
  the other functions are constants or the identity.
\<close>

definition flat_libm :: libm where
  "flat_libm = \<lparr>m_exp = (\<lambda>_. Inr 1), m_log = (\<lambda>_. Inr 0), m_sqrt = (\<lambda>x. Inr x),
     m_cbrt = (\<lambda>x. Inr x), m_pow = (\<lambda>x _. Inr (x * x)), m_ncdf = (\<lambda>_. Fl (1/2))\<rparr>"

lemmas round_eval =
  round_sig_def round_exp_def round_at_def ilog.simps round_half_even_def power_int_minus Let_def
lemmas float_eval = f64_def float_of_rat_def float_of_int_def round_eval
lemmas decimal_eval =
  decimal_ops ctx_def quantize_def decimal_of_int_def decimal_sum_def round_eval

end
