(* ===== verification/PyTime.thy ===== *)
theory PyTime
  imports PyNumbers
begin

text \<open>
  Python's dates, times and text formatting, as far as the program uses them.

  \<^item> A \<open>date\<close> is its proleptic Gregorian ordinal (\<open>date.toordinal\<close>), a \<open>time\<close> the microseconds
    since midnight.
  \<^item> A \<open>datetime\<close> is \<open>Naive\<close> wall-clock microseconds, or \<open>Aware\<close> with its UTC instant in
    microseconds since ordinal 0 and its UTC offset. Aware datetimes compare by their instant.
  \<^item> The time-zone database is a parameter: a \<open>tzone\<close> gives the UTC offset at a wall-clock
    and at a UTC instant, and \<open>ZoneInfo(name)\<close> is a lookup that may fail.
  \<^item> \<open>string_of_int\<close>, \<open>isodate\<close> and \<open>format_g\<close> are \<open>str(n)\<close>, \<open>date.isoformat\<close> and \<open>f"{x:g}"\<close>.
\<close>

type_synonym pydate = int
type_synonym pytime = int

datatype pydatetime = Naive int | Aware int int

record tzone =
  tz_local_offset :: "int \<Rightarrow> int"
  tz_utc_offset :: "int \<Rightarrow> int"

type_synonym zoneinfo = "string \<Rightarrow> tzone option"

definition day_us :: int where
  "day_us = 86400000000"

definition max_ordinal :: int where
  "max_ordinal = 3652059"

definition weekday :: "pydate \<Rightarrow> int" where
  "weekday d = (d + 6) mod 7"

fun tz_aware :: "pydatetime \<Rightarrow> bool" where
  "tz_aware (Naive _) = False"
| "tz_aware (Aware _ _) = True"

fun instant :: "pydatetime \<Rightarrow> int" where
  "instant (Naive w) = w"
| "instant (Aware u off) = u"

fun utcoffset :: "pydatetime \<Rightarrow> int option" where
  "utcoffset (Naive _) = None"
| "utcoffset (Aware _ off) = Some off"

fun wall_clock :: "pydatetime \<Rightarrow> int" where
  "wall_clock (Naive w) = w"
| "wall_clock (Aware u off) = u + off"

definition date_of :: "pydatetime \<Rightarrow> pydate" where
  "date_of t = wall_clock t div day_us"

definition astimezone :: "tzone \<Rightarrow> pydatetime \<Rightarrow> pydatetime" where
  "astimezone z t = Aware (instant t) (tz_utc_offset z (instant t))"

definition utc :: tzone where
  "utc = \<lparr>tz_local_offset = (\<lambda>_. 0), tz_utc_offset = (\<lambda>_. 0)\<rparr>"

text \<open>\<open>datetime.combine(date, time, tz)\<close>.\<close>

definition combine :: "pydate \<Rightarrow> pytime \<Rightarrow> tzone \<Rightarrow> pydatetime" where
  "combine d t z = (let w = d * day_us + t; off = tz_local_offset z w in Aware (w - off) off)"

text \<open>\<open>(a - b).total_seconds()\<close>.\<close>

definition total_seconds :: "pydatetime \<Rightarrow> pydatetime \<Rightarrow> pyfloat" where
  "total_seconds a b = float_of_rat (of_int (instant a - instant b) / 1000000)"

lemma astimezone_utc: "astimezone utc (Aware u off) = Aware u 0"
  by (simp add: astimezone_def utc_def)

lemma weekday_range: "0 \<le> weekday d \<and> weekday d < 7"
  by (simp add: weekday_def)

section \<open>Text\<close>

definition digit :: "nat \<Rightarrow> char" where
  "digit n = char_of (48 + n)"

fun digits_of :: "nat \<Rightarrow> string" where
  "digits_of n = (if n < 10 then [digit n] else digits_of (n div 10) @ [digit (n mod 10)])"

declare digits_of.simps [simp del]

definition string_of_int :: "int \<Rightarrow> string" where
  "string_of_int n = (if n < 0 then ''-'' @ digits_of (nat (- n)) else digits_of (nat n))"

definition pad_left :: "nat \<Rightarrow> string \<Rightarrow> string" where
  "pad_left n s = replicate (n - length s) (CHR ''0'') @ s"

definition days_before_month :: "int list" where
  "days_before_month = [-1, 0, 31, 59, 90, 120, 151, 181, 212, 243, 273, 304, 334]"

definition days_in_month :: "int list" where
  "days_in_month = [-1, 31, 28, 31, 30, 31, 30, 31, 31, 30, 31, 30, 31]"

definition ymd_of_ordinal :: "pydate \<Rightarrow> int \<times> int \<times> int" where
  "ymd_of_ordinal d =
     (let n = d - 1;
          n400 = n div 146097; r400 = n mod 146097;
          n100 = r400 div 36524; r100 = r400 mod 36524;
          n4 = r100 div 1461; r4 = r100 mod 1461;
          n1 = r4 div 365; r1 = r4 mod 365;
          year = n400 * 400 + 1 + n100 * 100 + n4 * 4 + n1
      in if n1 = 4 \<or> n100 = 4 then (year - 1, 12, 31)
         else
           let leap = n1 = 3 \<and> (n4 \<noteq> 24 \<or> n100 = 3);
               month = (r1 + 50) div 32;
               preceding = days_before_month ! nat month + (if 2 < month \<and> leap then 1 else 0)
           in if r1 < preceding
              then (year, month - 1,
                    r1 - (preceding - (days_in_month ! nat (month - 1)
                                       + (if month - 1 = 2 \<and> leap then 1 else 0))) + 1)
              else (year, month, r1 - preceding + 1))"

definition isodate :: "pydate \<Rightarrow> string" where
  "isodate d =
     (let (y, m, dd) = ymd_of_ordinal d
      in pad_left 4 (string_of_int y) @ ''-'' @ pad_left 2 (string_of_int m) @ ''-''
           @ pad_left 2 (string_of_int dd))"

definition strip_zeros :: "string \<Rightarrow> string" where
  "strip_zeros s = rev (dropWhile (\<lambda>c. c = CHR ''0'') (rev s))"

definition with_point :: "string \<Rightarrow> string \<Rightarrow> string" where
  "with_point whole part = (if part = [] then whole else whole @ ''.'' @ part)"

text \<open>\<open>f"{x:g}"\<close>: six significant digits, correctly rounded, trailing zeros removed.\<close>

definition format_g_pos :: "rat \<Rightarrow> string" where
  "format_g_pos q =
     (let e0 = ilog 10 q;
          m0 = round_half_even (q / 10 powi (e0 - 5));
          e = (if m0 = 1000000 then e0 + 1 else e0);
          m = (if m0 = 1000000 then 100000 else m0);
          ds = digits_of (nat m)
      in if -4 \<le> e \<and> e < 6
         then if 0 \<le> e
              then with_point (take (nat e + 1) ds) (strip_zeros (drop (nat e + 1) ds))
              else with_point ''0'' (strip_zeros (replicate (nat (- e) - 1) (CHR ''0'') @ ds))
         else with_point (take 1 ds) (strip_zeros (drop 1 ds))
                @ (if e < 0 then ''e-'' else ''e+'') @ pad_left 2 (digits_of (nat \<bar>e\<bar>)))"

definition format_g :: "pyfloat \<Rightarrow> string" where
  "format_g x =
     (case x of
        Fl q \<Rightarrow> if q = 0 then ''0'' else if q < 0 then ''-'' @ format_g_pos (- q) else format_g_pos q
      | PInf \<Rightarrow> ''inf'' | NInf \<Rightarrow> ''-inf'' | NaN \<Rightarrow> ''nan'')"

end
