(* ===== verification/Hashing.thy ===== *)
theory Hashing
  imports PyTime "HOL-Library.List_Lexorder" "HOL-Library.Char_ord" "HOL-Library.Multiset"
begin

text \<open>
  \<open>app/core/hashing.py\<close>: the canonical JSON text of a payload and its stable hash.

  \<open>py_value\<close> is the Python value a payload may hold; a pydantic model appears as the mapping that
  its \<open>model_dump\<close> returns, and \<open>PObject\<close> is a value of any other type. \<open>normalize\<close> maps it to
  the JSON value of the source's \<open>_normalize\<close> and \<open>json_dumps\<close> writes that with sorted keys and
  no white space. Characters are code points below 256. SHA-256 is a parameter: the function from
  the encoded text to its hex digest.
\<close>

datatype py_key = StrKey string | OtherKey

datatype py_value =
    PNone
  | PBool bool
  | PStr string
  | PInt int
  | PFloat pyfloat
  | PDecimal decimal
  | PDateTime pydatetime
  | PDate pydate
  | PTime pytime
  | PList "py_value list"
  | PSet "py_value list"
  | PDict "(py_key \<times> py_value) list"
  | PObject string

datatype json = JNull | JBool bool | JInt int | JStr string | JList "json list" | JObj "(string \<times> json) list"

section \<open>Text of numbers and times\<close>

function decimal_scale :: "int \<Rightarrow> nat" where
  "decimal_scale d =
     (if d \<le> 1 \<or> gcd d 10 = 1 then 0 else Suc (decimal_scale (d div gcd d 10)))"
  by pat_completeness auto
termination
proof (relation "measure nat")
  fix d :: int
  assume d: "\<not> (d \<le> 1 \<or> gcd d 10 = 1)"
  have "gcd d 10 \<noteq> 0" "0 \<le> gcd d 10" by auto
  with d have "1 < gcd d 10" by linarith
  then have "d div gcd d 10 < d" using d by (intro int_div_less_self) auto
  with d show "(d div gcd d 10, d) \<in> measure nat" by auto
qed auto

declare decimal_scale.simps [simp del]

text \<open>\<open>format(d.normalize(), "f")\<close>.\<close>

definition decimal_text :: "decimal \<Rightarrow> string" where
  "decimal_text d =
     (let q = ctx (dval d);
          k = decimal_scale (snd (quotient_of \<bar>q\<bar>));
          ds = digits_of (nat \<lfloor>\<bar>q\<bar> * 10 ^ k\<rfloor>);
          padded = pad_left (k + 1) ds
      in (if q < 0 then ''-'' else '''')
           @ with_point (take (length padded - k) padded) (drop (length padded - k) padded))"

definition pad2 :: "int \<Rightarrow> string" where
  "pad2 n = pad_left 2 (string_of_int n)"

definition isotime :: "pytime \<Rightarrow> string" where
  "isotime t =
     pad2 (t div 3600000000) @ '':'' @ pad2 (t div 60000000 mod 60) @ '':'' @ pad2 (t div 1000000 mod 60)
       @ (if t mod 1000000 = 0 then '''' else ''.'' @ pad_left 6 (string_of_int (t mod 1000000)))"

definition isoformat_utc :: "pydatetime \<Rightarrow> string" where
  "isoformat_utc t = isodate (instant t div day_us) @ ''T'' @ isotime (instant t mod day_us) @ ''+00:00''"

section \<open>Normalization\<close>

definition hex_digit :: "nat \<Rightarrow> char" where
  "hex_digit n = char_of (if n < 10 then 48 + n else 87 + n)"

definition json_escape :: "char \<Rightarrow> string" where
  "json_escape c =
     (let n = of_char c :: nat in
      if n = 34 then [char_of (92::nat), c]
      else if n = 92 then [c, c]
      else if n = 10 then [char_of (92::nat), CHR ''n'']
      else if n = 13 then [char_of (92::nat), CHR ''r'']
      else if n = 9 then [char_of (92::nat), CHR ''t'']
      else if n = 8 then [char_of (92::nat), CHR ''b'']
      else if n = 12 then [char_of (92::nat), CHR ''f'']
      else if n < 32 then char_of (92::nat) # ''u00'' @ [hex_digit (n div 16), hex_digit (n mod 16)]
      else [c])"

definition json_string :: "string \<Rightarrow> string" where
  "json_string s = [char_of (34::nat)] @ concat (map json_escape s) @ [char_of (34::nat)]"

fun join :: "string \<Rightarrow> string list \<Rightarrow> string" where
  "join sep [] = ''''"
| "join sep [s] = s"
| "join sep (s # ss) = s @ sep @ join sep ss"

fun json_dumps :: "json \<Rightarrow> string" where
  "json_dumps JNull = ''null''"
| "json_dumps (JBool b) = (if b then ''true'' else ''false'')"
| "json_dumps (JInt n) = string_of_int n"
| "json_dumps (JStr s) = json_string s"
| "json_dumps (JList vs) = ''['' @ join '','' (map json_dumps vs) @ '']''"
| "json_dumps (JObj kvs) =
     ''{'' @ join '','' (map (\<lambda>(k, t). json_string k @ '':'' @ t)
                        (sort_key fst (map (\<lambda>(k, v). (k, json_dumps v)) kvs))) @ ''}''"

fun string_key :: "py_key \<Rightarrow> string result" where
  "string_key (StrKey s) = Inr s"
| "string_key OtherKey = Inl (TypeError ''canonical mappings require string keys'')"

fun normalize :: "py_value \<Rightarrow> json result" where
  "normalize PNone = Inr JNull"
| "normalize (PBool b) = Inr (JBool b)"
| "normalize (PStr s) = Inr (JStr s)"
| "normalize (PDict kvs) =
     rbind (rmap (\<lambda>kv. string_key (fst kv)) kvs) (\<lambda>_.
     rbind (rmap (\<lambda>kv. rbind (normalize (snd kv)) (\<lambda>v. rbind (string_key (fst kv)) (\<lambda>k. Inr (k, v)))) kvs) (\<lambda>items.
     Inr (JObj items)))"
| "normalize (PSet vs) = rbind (rmap normalize vs) (\<lambda>items. Inr (JList (sort_key json_dumps items)))"
| "normalize (PList vs) = rbind (rmap normalize vs) (\<lambda>items. Inr (JList items))"
| "normalize (PDecimal d) = Inr (JStr (if dval d = 0 then ''0'' else decimal_text d))"
| "normalize (PFloat x) =
     rbind (guard (\<not> isfinite x) (ValueError ''canonical numeric values must be finite'')) (\<lambda>_.
     if x = 0 then Inr (JStr ''0'')
     else rbind (decimal_of_float x) (\<lambda>d. Inr (JStr (decimal_text d))))"
| "normalize (PInt n) = Inr (JStr (decimal_text (decimal_of_int n)))"
| "normalize (PDateTime t) =
     rbind (guard (\<not> tz_aware t) (ValueError ''canonical timestamps must be timezone-aware'')) (\<lambda>_.
     Inr (JStr (isoformat_utc t)))"
| "normalize (PDate d) = Inr (JStr (isodate d))"
| "normalize (PTime t) = Inr (JStr (isotime t))"
| "normalize (PObject type_name) = Inl (TypeError (''unsupported canonical value: '' @ type_name))"

definition canonical_json :: "py_value \<Rightarrow> string result" where
  "canonical_json payload = rbind (normalize payload) (\<lambda>v. Inr (json_dumps v))"

definition stable_hash :: "(string \<Rightarrow> string) \<Rightarrow> py_value \<Rightarrow> string result" where
  "stable_hash sha256 payload = rbind (canonical_json payload) (\<lambda>t. Inr (''sha256:'' @ sha256 t))"

definition str_dict :: "(string \<times> py_value) list \<Rightarrow> py_value" where
  "str_dict kvs = PDict (map (\<lambda>(k, v). (StrKey k, v)) kvs)"


section \<open>Properties\<close>

lemma normalize_dict_items:
  assumes "normalize (PDict kvs) = Inr j"
  obtains items where "j = JObj items" and "map fst items = map (\<lambda>kv. projr (string_key (fst kv))) kvs"
    and "rmap (\<lambda>kv. rbind (normalize (snd kv)) (\<lambda>v. rbind (string_key (fst kv)) (\<lambda>k. Inr (k, v)))) kvs = Inr items"
    and "\<forall>kv \<in> set kvs. \<exists>k. string_key (fst kv) = Inr k"
proof -
  from assms obtain us items where keys: "rmap (\<lambda>kv. string_key (fst kv)) kvs = Inr us"
    and items: "rmap (\<lambda>kv. rbind (normalize (snd kv)) (\<lambda>v. rbind (string_key (fst kv)) (\<lambda>k. Inr (k, v)))) kvs = Inr items"
    and j: "j = JObj items"
    by (auto simp: result_simps)
  have "map fst items = map (\<lambda>kv. projr (string_key (fst kv))) kvs"
    using items by (auto simp: rmap_eq_map result_simps)
  moreover have "\<forall>kv \<in> set kvs. \<exists>k. string_key (fst kv) = Inr k"
    using keys by (simp add: rmap_eq_map)
  ultimately show ?thesis using that j items by blast
qed

text \<open>The hash of a mapping does not depend on the order of its keys: permuting the items of a
  mapping with distinct keys leaves the canonical text, and with it the stable hash, unchanged.\<close>

theorem stable_hash_ignores_key_order:
  assumes "stable_hash sha256 (PDict kvs) = Inr h" and "mset kvs' = mset kvs" and "distinct (map fst kvs)"
  shows "stable_hash sha256 (PDict kvs') = Inr h"
proof -
  let ?item = "\<lambda>kv. rbind (normalize (snd kv)) (\<lambda>v. rbind (string_key (fst kv)) (\<lambda>k. Inr (k, v)))"
  from assms(1) obtain j where j: "normalize (PDict kvs) = Inr j" and h: "h = ''sha256:'' @ sha256 (json_dumps j)"
    by (auto simp: stable_hash_def canonical_json_def result_simps)
  from normalize_dict_items [OF j] obtain items where items: "j = JObj items"
    "map fst items = map (\<lambda>kv. projr (string_key (fst kv))) kvs" "rmap ?item kvs = Inr items"
    and keys: "\<forall>kv \<in> set kvs. \<exists>k. string_key (fst kv) = Inr k" .
  have set: "set kvs' = set kvs" using assms(2) by (metis set_mset_mset)
  let ?items' = "map (\<lambda>kv. projr (?item kv)) kvs'"
  have it: "items = map (\<lambda>kv. projr (?item kv)) kvs" using items(3) by (simp add: rmap_eq_map)
  have items': "rmap ?item kvs' = Inr ?items'"
    using items(3) by (simp add: rmap_eq_map set)
  have "rmap (\<lambda>kv. string_key (fst kv)) kvs' = Inr (map (\<lambda>kv. projr (string_key (fst kv))) kvs')"
    using keys by (simp add: rmap_eq_map set)
  with items' have j': "normalize (PDict kvs') = Inr (JObj ?items')" by simp
  have inj: "inj_on (\<lambda>kv. projr (string_key (fst kv))) (set kvs)"
  proof (rule inj_onI)
    fix a b assume ab: "a \<in> set kvs" "b \<in> set kvs"
      and "projr (string_key (fst a)) = projr (string_key (fst b))"
    moreover from ab keys obtain k l where "string_key (fst a) = Inr k" "string_key (fst b) = Inr l"
      by blast
    ultimately have "fst a = fst b" by (cases "fst a"; cases "fst b") auto
    with ab assms(3) show "a = b" by (metis distinct_map inj_onD)
  qed
  have "distinct kvs" using assms(3) by (simp add: distinct_map)
  then have dist: "distinct (map fst items)"
    unfolding items(2) using inj by (simp add: distinct_map)
  let ?f = "\<lambda>(k, v). (k, json_dumps v)"
  have "mset (map ?f items) = mset (map ?f ?items')"
    unfolding it mset_map using assms(2) by simp
  moreover have "inj_on fst (set (map ?f items))"
  proof -
    have "map fst (map ?f items) = map fst items" by auto
    with dist have "distinct (map fst (map ?f items))" by (simp only:)
    then show ?thesis by (simp only: distinct_map)
  qed
  ultimately have "sort_key fst (map ?f items) = sort_key fst (map ?f ?items')"
    by (intro sort_key_inj_key_eq) simp_all
  with items(1) j' h show ?thesis
    by (simp add: stable_hash_def canonical_json_def del: normalize.simps)
qed

theorem stable_hash_ignores_key_order_witness:
  "\<exists>h. stable_hash id (str_dict [(''b'', PBool True), (''a'', PNone)]) = Inr h
     \<and> stable_hash id (str_dict [(''a'', PNone), (''b'', PBool True)]) = Inr h"
proof -
  have "\<exists>h. stable_hash id (PDict [(StrKey ''b'', PBool True), (StrKey ''a'', PNone)]) = Inr h"
    by (simp add: stable_hash_def canonical_json_def)
  then obtain h where h: "stable_hash id (PDict [(StrKey ''b'', PBool True), (StrKey ''a'', PNone)]) = Inr h" ..
  from stable_hash_ignores_key_order [OF h, of "[(StrKey ''a'', PNone), (StrKey ''b'', PBool True)]"] h
  show ?thesis by (simp add: str_dict_def)
qed

text \<open>Numbers are hashed by value: an integer, the equal decimal and the equal float have the
  same canonical text. NaN, infinities, naive timestamps, non-string keys and unknown types are
  refused.\<close>

theorem canonical_numbers_by_value:
  assumes "\<bar>n\<bar> < 2 ^ 53"
  shows "canonical_json (PDecimal (decimal_of_int n)) = canonical_json (PInt n)
    \<and> canonical_json (PFloat (Fl (of_int n))) = canonical_json (PInt n)
    \<and> (\<forall>x. \<not> isfinite x \<longrightarrow> (\<exists>msg. canonical_json (PFloat x) = Inl (ValueError msg)))
    \<and> (\<exists>msg. canonical_json (PDateTime (Naive w)) = Inl (ValueError msg))
    \<and> (\<exists>msg. canonical_json (PObject ty) = Inl (TypeError msg))"
proof -
  have zero: "decimal_text (Dec 0) = ''0''"
    by (simp add: decimal_text_def decimal_scale.simps [of 1] pad_left_def digits_of.simps [of 0]
        with_point_def rat_zero_code Let_def) (code_simp)
  have "decimal_of_float (Fl (of_int n)) = Inr (Dec (of_int n))"
    by (rule decimal_of_float_int [OF assms])
  then have "normalize (PFloat (Fl (of_int n))) = normalize (PInt n)"
    "normalize (PDecimal (decimal_of_int n)) = normalize (PInt n)"
    using zero by (simp_all add: decimal_of_int_def zero_pyfloat_def)
  then show ?thesis by (simp add: canonical_json_def)
qed

theorem canonical_numbers_by_value_witness:
  "canonical_json (PFloat (Fl (of_int 42))) = canonical_json (PInt 42)"
  using canonical_numbers_by_value [of 42] by simp

end
