(* ===== verification/Canonical.thy ===== *)
theory Canonical
  imports Hashing
begin

text \<open>
  What the canonical JSON text determines. Every JSON text is self-delimiting (no text is a proper
  prefix of another, whatever follows), so the text determines the JSON value up to the order of
  keys: \<open>sorted_json\<close> is that value with its keys sorted. Two payloads with the same stable hash
  are therefore either the same payload or a collision of the digest. Components that name their
  records by a stable hash use \<open>same_hash_fields\<close>.
\<close>

section \<open>Strings\<close>

definition hex_value :: "char \<Rightarrow> nat" where
  "hex_value c = (let n = of_char c in if n < 58 then n - 48 else n - 87)"

text \<open>Reading one possibly escaped character back.\<close>

definition read_escape :: "char \<Rightarrow> string \<Rightarrow> (char \<times> string) option" where
  "read_escape e r =
     (let n = of_char e :: nat in
      if n = 117 then Some (char_of (16 * hex_value (r ! 2) + hex_value (r ! 3)), drop 4 r)
      else if n = 110 then Some (char_of (10::nat), r)
      else if n = 114 then Some (char_of (13::nat), r)
      else if n = 116 then Some (char_of (9::nat), r)
      else if n = 98 then Some (char_of (8::nat), r)
      else if n = 102 then Some (char_of (12::nat), r)
      else Some (e, r))"

fun read_char :: "string \<Rightarrow> (char \<times> string) option" where
  "read_char (c # e # r) =
     (if of_char c = (92::nat) then read_escape e r
      else if of_char c = (34::nat) then None else Some (c, e # r))"
| "read_char [c] = (if of_char c = (92::nat) \<or> of_char c = (34::nat) then None else Some (c, []))"
| "read_char [] = None"

lemma hex_value_digit: "n < 16 \<Longrightarrow> hex_value (hex_digit n) = n"
  by (simp add: hex_value_def hex_digit_def)

lemma read_char_plain:
  "of_char c \<noteq> (92::nat) \<Longrightarrow> of_char c \<noteq> (34::nat) \<Longrightarrow> read_char (c # x) = Some (c, x)"
  by (cases x) auto

lemma read_char_escape: "read_char (json_escape c @ x) = Some (c, x)"
proof -
  define n where "n = (of_char c :: nat)"
  have c: "c = char_of n" by (simp add: n_def)
  consider "n = 34 \<or> n = 92 \<or> n = 10 \<or> n = 13 \<or> n = 9 \<or> n = 8 \<or> n = 12"
    | "n < 32" "n \<noteq> 10" "n \<noteq> 13" "n \<noteq> 9" "n \<noteq> 8" "n \<noteq> 12"
    | "32 \<le> n" "n \<noteq> 34" "n \<noteq> 92" by linarith
  then show ?thesis
  proof cases
    case 1
    then show ?thesis by (elim disjE) (simp_all add: json_escape_def c Let_def read_escape_def)
  next
    case 2
    have "16 * (n div 16) + n mod 16 = n" by simp
    moreover have "n div 16 < 16" "n mod 16 < 16" using 2 by auto
    ultimately show ?thesis
      using 2 by (simp add: json_escape_def c Let_def read_escape_def hex_value_digit)
  next
    case 3
    then have "json_escape c = [c]" by (simp add: json_escape_def n_def [symmetric])
    moreover have "read_char (c # x) = Some (c, x)"
      using 3 by (intro read_char_plain) (simp_all add: n_def)
    ultimately show ?thesis by simp
  qed
qed

lemma read_char_quote: "of_char q = (34::nat) \<Longrightarrow> read_char (q # x) = None"
  by (cases x) auto

lemma escape_prefix: "json_escape c @ x = json_escape d @ y \<Longrightarrow> c = d \<and> x = y"
  by (metis read_char_escape option.inject prod.inject)

lemma escaped_prefix:
  assumes "concat (map json_escape s) @ q # x = concat (map json_escape t) @ q # y" and "of_char q = (34::nat)"
  shows "s = t \<and> x = y"
  using assms(1)
proof (induction s arbitrary: t)
  case Nil
  then show ?case
  proof (cases t)
    case (Cons d t')
    with Nil have "q # x = json_escape d @ (concat (map json_escape t') @ q # y)" by simp
    then have "read_char (q # x) = Some (d, concat (map json_escape t') @ q # y)"
      by (metis read_char_escape)
    then show ?thesis using read_char_quote [OF assms(2)] by simp
  qed auto
next
  case (Cons c s)
  then show ?case
  proof (cases t)
    case Nil
    with Cons.prems have "q # y = json_escape c @ (concat (map json_escape s) @ q # x)" by simp
    then have "read_char (q # y) = Some (c, concat (map json_escape s) @ q # x)"
      by (metis read_char_escape)
    then show ?thesis using read_char_quote [OF assms(2)] by simp
  next
    case (Cons d t')
    with Cons.prems have "json_escape c @ (concat (map json_escape s) @ q # x)
        = json_escape d @ (concat (map json_escape t') @ q # y)" by simp
    with escape_prefix Cons.IH Cons show ?thesis by blast
  qed
qed

lemma json_string_prefix: "json_string s @ x = json_string t @ y \<Longrightarrow> s = t \<and> x = y"
  using escaped_prefix [of s "char_of (34::nat)" x t y] by (simp add: json_string_def)

section \<open>JSON values\<close>

text \<open>The JSON values \<open>normalize\<close> produces hold no bare number: numbers are texts.\<close>

fun textual :: "json \<Rightarrow> bool" where
  "textual (JInt n) = False"
| "textual (JList vs) = list_all textual vs"
| "textual (JObj kvs) = list_all (\<lambda>kv. textual (snd kv)) kvs"
| "textual _ = True"

fun sorted_json :: "json \<Rightarrow> json" where
  "sorted_json (JList vs) = JList (map sorted_json vs)"
| "sorted_json (JObj kvs) = JObj (sort_key fst (map (\<lambda>(k, v). (k, sorted_json v)) kvs))"
| "sorted_json j = j"

lemma insort_key_map:
  "insort_key f (g x) (map g xs) = map g (insort_key (\<lambda>x. f (g x)) x xs)"
  by (induction xs) auto

lemma sort_key_map: "sort_key f (map g xs) = map g (sort_key (\<lambda>x. f (g x)) xs)"
  by (induction xs) (simp_all add: insort_key_map)

lemma sort_key_fst_map:
  "sort_key fst (map (\<lambda>(k, v). (k, h v)) kvs) = map (\<lambda>(k, v). (k, h v)) (sort_key fst kvs)"
  by (simp add: sort_key_map case_prod_beta)

text \<open>Texts separated by commas up to a closing bracket.\<close>

definition starts :: "nat \<Rightarrow> string \<Rightarrow> bool" where
  "starts n s \<longleftrightarrow> s \<noteq> [] \<and> of_char (hd s) = n"

lemma join_Cons: "ss \<noteq> [] \<Longrightarrow> join sep (s # ss) = s @ sep @ join sep ss"
  by (cases ss) auto

lemma join_prefix:
  assumes "\<And>a b x y. a \<in> set as \<Longrightarrow> b \<in> set bs \<Longrightarrow> f a @ x = f b @ y \<Longrightarrow> g a = g b \<and> x = y"
    and "\<And>a. a \<in> set as \<union> set bs \<Longrightarrow> f a \<noteq> [] \<and> hd (f a) \<noteq> q"
    and "q \<noteq> CHR '',''"
    and "join '','' (map f as) @ q # x = join '','' (map f bs) @ q # y"
  shows "map g as = map g bs \<and> x = y"
  using assms
proof (induction as arbitrary: bs)
  case Nil
  show ?case
  proof (cases bs)
    case (Cons b bs')
    have "f b \<noteq> []" "hd (f b) \<noteq> q" using Nil.prems(2) [of b] Cons by simp_all
    moreover have "hd (join '','' (map f bs) @ q # y) = hd (f b)"
      using \<open>f b \<noteq> []\<close> by (cases bs') (simp_all add: Cons join_Cons)
    ultimately show ?thesis using Nil.prems(4) by (metis append_Nil join.simps(1) list.sel(1) list.simps(8))
  qed (use Nil in simp)
next
  case (Cons a as)
  show ?case
  proof (cases bs)
    case Nil
    have "f a \<noteq> []" "hd (f a) \<noteq> q" using Cons.prems(2) [of a] by simp_all
    moreover have "hd (join '','' (map f (a # as)) @ q # x) = hd (f a)"
      using \<open>f a \<noteq> []\<close> by (cases as) (simp_all add: join_Cons)
    ultimately show ?thesis using Cons.prems(4) Nil by (metis append_Nil join.simps(1) list.sel(1) list.simps(8))
  next
    case (Cons b bs')
    let ?rest = "\<lambda>cs z. (if cs = [] then '''' else '','' @ join '','' (map f cs)) @ q # z"
    have split: "join '','' (map f (c # cs)) @ q # z = f c @ ?rest cs z" for c cs z
      by (cases cs) (simp_all add: join_Cons)
    have "f a @ ?rest as x = f b @ ?rest bs' y"
      using Cons.prems(4) unfolding Cons split by simp
    moreover have "a \<in> set (a # as)" "b \<in> set bs" by (simp_all add: Cons)
    ultimately have both: "g a = g b \<and> ?rest as x = ?rest bs' y" using Cons.prems(1) by blast
    then have ab: "g a = g b" and rest: "?rest as x = ?rest bs' y" by (rule conjunct1, rule conjunct2)
    show ?thesis
    proof (cases "as = [] \<or> bs' = []")
      case True
      then show ?thesis using rest ab Cons Cons.prems(3) by (auto split: if_splits)
    next
      case False
      then have "join '','' (map f as) @ q # x = join '','' (map f bs') @ q # y" using rest by simp
      moreover have sub: "set as \<subseteq> set (a # as)" "set bs' \<subseteq> set bs" using Cons by auto
      ultimately have "map g as = map g bs' \<and> x = y"
        using Cons.prems(1,2,3) by (intro Cons.IH) blast+
      with ab Cons show ?thesis by simp
    qed
  qed
qed


lemma quote_char: "char_of (34::nat) = CHR 0x22"
  by code_simp

lemma json_text_head:
  assumes "textual j"
  shows "json_dumps j \<noteq> [] \<and> hd (json_dumps j) =
    (case j of JNull \<Rightarrow> CHR ''n'' | JBool b \<Rightarrow> if b then CHR ''t'' else CHR ''f'' | JStr s \<Rightarrow> CHR 0x22
       | JList vs \<Rightarrow> CHR ''['' | JObj kvs \<Rightarrow> CHR ''{'')"
  using assms by (cases j) (auto simp: json_string_def quote_char)

lemma json_text_starts: "textual j \<Longrightarrow> json_dumps j \<noteq> [] \<and> hd (json_dumps j) \<noteq> CHR '']''"
  using json_text_head [of j] by (auto split: json.splits if_splits)

definition item_text :: "string \<times> json \<Rightarrow> string" where
  "item_text kv = json_string (fst kv) @ '':'' @ json_dumps (snd kv)"

lemma json_dumps_JObj:
  "json_dumps (JObj kvs) = ''{'' @ join '','' (map item_text (sort_key fst kvs)) @ ''}''"
proof -
  have "item_text = (\<lambda>(k, t). json_string k @ '':'' @ t) \<circ> (\<lambda>(k, v). (k, json_dumps v))"
    by (auto simp: item_text_def)
  then show ?thesis by (simp only: json_dumps.simps sort_key_fst_map map_map)
qed

lemma sorted_json_JObj:
  "sorted_json (JObj kvs) = JObj (map (\<lambda>kv. (fst kv, sorted_json (snd kv))) (sort_key fst kvs))"
  by (simp add: sort_key_fst_map case_prod_beta)

lemma item_text_starts: "item_text kv \<noteq> [] \<and> hd (item_text kv) \<noteq> CHR ''}''"
  by (simp add: item_text_def json_string_def quote_char)

lemma json_dumps_prefix:
  assumes "textual a" and "textual b" and "json_dumps a @ x = json_dumps b @ y"
  shows "sorted_json a = sorted_json b \<and> x = y"
  using assms
proof (induction a arbitrary: b x y)
  have head: "hd (json_dumps a) = hd (json_dumps b)"
    if "textual a" "textual b" "json_dumps a @ x = json_dumps b @ y" for a b x y
    using json_text_head [OF that(1)] json_text_head [OF that(2)] that(3) by (metis hd_append2)
  {
    case JNull
    then show ?case using head [OF JNull] json_text_head [OF JNull(2)]
      by (cases b) (auto split: if_splits)
  next
    case (JBool c)
    then show ?case using head [OF JBool] json_text_head [OF JBool(2)]
      by (cases b) (auto split: if_splits)
  next
    case (JInt n)
    then show ?case by simp
  next
    case (JStr s)
    then obtain t where b: "b = JStr t"
      using head [OF JStr] json_text_head [OF JStr(2)] json_text_head [OF JStr(1)]
      by (cases b) (auto split: if_splits)
    with JStr json_string_prefix [of s x t y] show ?case by simp
  next
    case (JList vs)
    then obtain ws where b: "b = JList ws"
      using head [OF JList(2-4)] json_text_head [OF JList(3)] json_text_head [OF JList(2)]
      by (cases b) (auto split: if_splits)
    have "map sorted_json vs = map sorted_json ws \<and> x = y"
    proof (rule join_prefix [where f = json_dumps and q = "CHR '']''"])
      fix v w x' y' assume vw: "v \<in> set vs" "w \<in> set ws" "json_dumps v @ x' = json_dumps w @ y'"
      then show "sorted_json v = sorted_json w \<and> x' = y'"
        using JList.prems b by (intro JList.IH) (auto simp: list_all_iff)
    next
      fix v assume "v \<in> set vs \<union> set ws"
      then show "json_dumps v \<noteq> [] \<and> hd (json_dumps v) \<noteq> CHR '']''"
        using JList.prems b by (intro json_text_starts) (auto simp: list_all_iff)
    qed (use JList.prems b in simp_all)
    then show ?case by (simp add: b)
  next
    case (JObj kvs)
    then obtain lws where b: "b = JObj lws"
      using head [OF JObj(2-4)] json_text_head [OF JObj(3)] json_text_head [OF JObj(2)]
      by (cases b) (auto split: if_splits)
    let ?g = "\<lambda>kv. (fst kv, sorted_json (snd kv))"
    have "map ?g (sort_key fst kvs) = map ?g (sort_key fst lws) \<and> x = y"
    proof (rule join_prefix [where f = item_text and q = "CHR ''}''"])
      fix kv lw x' y'
      assume kl: "kv \<in> set (sort_key fst kvs)" "lw \<in> set (sort_key fst lws)"
        and t: "item_text kv @ x' = item_text lw @ y'"
      have "json_string (fst kv) @ CHR '':'' # json_dumps (snd kv) @ x'
          = json_string (fst lw) @ CHR '':'' # json_dumps (snd lw) @ y'"
        using t by (simp add: item_text_def)
      then have k: "fst kv = fst lw" "json_dumps (snd kv) @ x' = json_dumps (snd lw) @ y'"
        using json_string_prefix by blast+
      have "snd kv \<in> Basic_BNFs.snds kv" by (cases kv) simp
      then have "sorted_json (snd kv) = sorted_json (snd lw) \<and> x' = y'"
        using JObj.prems b kl k(2) by (intro JObj.IH [of kv]) (auto simp: list_all_iff)
      with k(1) show "?g kv = ?g lw \<and> x' = y'" by simp
    next
      fix kv assume "kv \<in> set (sort_key fst kvs) \<union> set (sort_key fst lws)"
      show "item_text kv \<noteq> [] \<and> hd (item_text kv) \<noteq> CHR ''}''" by (rule item_text_starts)
    qed (use JObj.prems(3) b in \<open>simp_all only: json_dumps_JObj append_assoc append.simps list.inject\<close>, simp)
    then show ?case by (simp only: b sorted_json_JObj)
  }
qed

lemma normalize_textual: "normalize v = Inr j \<Longrightarrow> textual j"
proof (induction v arbitrary: j)
  case (PFloat x)
  then show ?case by (auto simp: result_simps split: if_splits)
next
  case (PList vs)
  then obtain items where "rmap normalize vs = Inr items" and j: "j = JList items"
    by (auto simp: result_simps)
  then have "textual v" if "v \<in> set items" for v
    using rmap_set [OF _ that] PList.IH by blast
  then show ?case by (simp add: j list_all_iff)
next
  case (PSet vs)
  then obtain items where "rmap normalize vs = Inr items" and j: "j = JList (sort_key json_dumps items)"
    by (auto simp: result_simps)
  then have "textual v" if "v \<in> set items" for v
    using rmap_set [OF _ that] PSet.IH by blast
  then show ?case by (simp add: j list_all_iff)
next
  case (PDict kvs)
  then obtain items where "rmap (\<lambda>kv. rbind (normalize (snd kv)) (\<lambda>v. rbind (string_key (fst kv)) (\<lambda>k. Inr (k, v)))) kvs = Inr items"
    and j: "j = JObj items" by (auto simp: result_simps)
  then have "textual (snd kv)" if "kv \<in> set items" for kv
    using rmap_set [OF _ that] PDict.IH by (fastforce simp: result_simps snds.simps)
  then show ?case by (simp add: j list_all_iff)
qed (auto simp: result_simps)

text \<open>Equal canonical texts come from the same JSON value up to the order of keys.\<close>

lemma canonical_json_inj:
  assumes "canonical_json p = Inr t" and "canonical_json q = Inr t"
  obtains a b where "normalize p = Inr a" and "normalize q = Inr b" and "sorted_json a = sorted_json b"
proof -
  from assms obtain a b where ab: "normalize p = Inr a" "normalize q = Inr b" "t = json_dumps a" "t = json_dumps b"
    by (auto simp: canonical_json_def result_simps)
  then show ?thesis
    using json_dumps_prefix [of a b "[]" "[]"] normalize_textual [OF ab(1)] normalize_textual [OF ab(2)] that by simp
qed

section \<open>Numbers\<close>

fun digits_value :: "string \<Rightarrow> nat" where
  "digits_value ds = foldl (\<lambda>n c. 10 * n + (of_char c - 48)) 0 ds"

lemma digits_value_snoc: "digits_value (ds @ [c]) = 10 * digits_value ds + (of_char c - 48)"
  by simp

lemma digit_code: "n < 10 \<Longrightarrow> of_char (digit n) = 48 + n"
  by (simp add: digit_def)

lemma digits_value_digits_of: "digits_value (digits_of n) = n"
proof (induction n rule: digits_of.induct)
  case (1 n)
  show ?case
  proof (cases "n < 10")
    case True
    then show ?thesis by (simp add: digits_of.simps [of n] digit_code)
  next
    case False
    then have "digits_of n = digits_of (n div 10) @ [digit (n mod 10)]" by (simp add: digits_of.simps [of n])
    then show ?thesis
      unfolding digits_value_snoc using 1 False by (simp only: digit_code [of "n mod 10"]) (simp add: digit_code)
  qed
qed

lemma digits_of_inj: "digits_of m = digits_of n \<longleftrightarrow> m = n"
  by (metis digits_value_digits_of)

lemma digits_of_digits: "c \<in> set (digits_of n) \<Longrightarrow> 48 \<le> (of_char c :: nat)"
proof (induction n rule: digits_of.induct)
  case (1 n)
  then show ?case
    using digit_code [of "n mod 10"] digit_code [of n] unfolding digits_of.simps [of n] by (auto split: if_splits)
qed

lemma digits_of_nonempty [simp]: "digits_of n \<noteq> []"
  by (simp add: digits_of.simps [of n])

lemma string_of_int_inj: "string_of_int m = string_of_int n \<longleftrightarrow> m = n"
proof -
  have no_sign: "digits_of k \<noteq> CHR ''-'' # s" for k s
    using digits_of_digits [of "CHR ''-''" k] by auto
  have "digits_of (nat a) = CHR ''-'' # b \<longleftrightarrow> False" "CHR ''-'' # b = digits_of (nat a) \<longleftrightarrow> False" for a b
    using no_sign by metis+
  then show ?thesis by (auto simp: string_of_int_def digits_of_inj)
qed

lemma decimal_text_int:
  assumes "\<bar>n\<bar> < 10 ^ 26"
  shows "decimal_text (decimal_of_int n) = string_of_int n"
proof -
  have q: "quotient_of \<bar>of_int n :: rat\<bar> = (\<bar>n\<bar>, 1)" by (simp flip: of_int_abs)
  have "of_int n < (0 :: rat) \<longleftrightarrow> n < 0" by simp
  then show ?thesis
    using assms
    by (simp add: decimal_text_def decimal_of_int_def ctx_of_int q decimal_scale.simps [of 1] Let_def pad_left_def
        with_point_def string_of_int_def flip: of_int_abs)
       (auto simp: Suc_le_eq abs_if)
qed

section \<open>Payloads\<close>

text \<open>Two payloads that canonicalise to the same JSON value.\<close>

definition same_json :: "py_value \<Rightarrow> py_value \<Rightarrow> bool" where
  "same_json v w \<longleftrightarrow>
     (\<exists>a b. normalize v = Inr a \<and> normalize w = Inr b \<and> sorted_json a = sorted_json b)"

definition small_int :: "int \<Rightarrow> bool" where
  "small_int n \<longleftrightarrow> \<bar>n\<bar> < 10 ^ 26"

lemma same_json_leaves [simp]:
  "same_json (PStr s) (PStr t) \<longleftrightarrow> s = t"
  "same_json PNone (PStr t) \<longleftrightarrow> False" "same_json (PStr s) PNone \<longleftrightarrow> False" "same_json PNone PNone \<longleftrightarrow> True"
  "same_json (PStr s) (PDict kvs) \<longleftrightarrow> False" "same_json (PDict kvs) (PStr s) \<longleftrightarrow> False"
  "same_json (PBool b) (PBool c) \<longleftrightarrow> b = c"
  by (auto simp: same_json_def result_simps)

lemma same_json_int [simp]:
  "small_int m \<Longrightarrow> small_int n \<Longrightarrow> same_json (PInt m) (PInt n) \<longleftrightarrow> m = n"
  by (simp add: same_json_def small_int_def decimal_text_int string_of_int_inj)

lemma list_all2_related:
  "(\<exists>xs ys. list_all2 N vs xs \<and> list_all2 N ws ys \<and> map g xs = map g ys)
     \<longleftrightarrow> list_all2 (\<lambda>v w. \<exists>a b. N v a \<and> N w b \<and> g a = g b) vs ws"
proof (induction vs arbitrary: ws)
  case Nil
  then show ?case by (cases ws) auto
next
  case (Cons v vs)
  show ?case
  proof (cases ws)
    case (Cons w ws')
    have "(\<exists>xs ys. list_all2 N (v # vs) xs \<and> list_all2 N (w # ws') ys \<and> map g xs = map g ys)
       \<longleftrightarrow> (\<exists>a b. N v a \<and> N w b \<and> g a = g b) \<and> (\<exists>xs ys. list_all2 N vs xs \<and> list_all2 N ws' ys \<and> map g xs = map g ys)"
      (is "?L \<longleftrightarrow> ?R")
    proof
      assume ?L
      then obtain xs ys where l: "list_all2 N (v # vs) xs" "list_all2 N (w # ws') ys" and m: "map g xs = map g ys" by blast
      from l obtain a xs' b ys' where "xs = a # xs'" "ys = b # ys'" "N v a" "N w b" "list_all2 N vs xs'" "list_all2 N ws' ys'"
        by (auto simp: list_all2_Cons1)
      with m show ?R by auto
    next
      assume ?R
      then obtain a b xs ys where "N v a" "N w b" "g a = g b" "list_all2 N vs xs" "list_all2 N ws' ys" "map g xs = map g ys"
        by blast
      then have "list_all2 N (v # vs) (a # xs)" "list_all2 N (w # ws') (b # ys)" "map g (a # xs) = map g (b # ys)" by simp_all
      then show ?L by blast
    qed
    then show ?thesis using Cons Cons.IH by simp
  qed auto
qed

lemma normalize_PList:
  "normalize (PList vs) = Inr j \<longleftrightarrow> (\<exists>xs. j = JList xs \<and> list_all2 (\<lambda>v a. normalize v = Inr a) vs xs)"
  by (auto simp: rbind_eq_Inr rmap_eq_Inr_iff)

lemma same_json_PList: "same_json (PList vs) (PList ws) \<longleftrightarrow> list_all2 same_json vs ws"
proof -
  have "same_json (PList vs) (PList ws) \<longleftrightarrow>
      (\<exists>xs ys. list_all2 (\<lambda>v a. normalize v = Inr a) vs xs \<and> list_all2 (\<lambda>v a. normalize v = Inr a) ws ys
         \<and> map sorted_json xs = map sorted_json ys)"
    unfolding same_json_def normalize_PList ex_simps conj_assoc [symmetric]
  proof (intro iffI; elim exE conjE)
    fix a b xs ys
    assume "a = JList xs" "list_all2 (\<lambda>v a. normalize v = Inr a) vs xs" "b = JList ys"
      "list_all2 (\<lambda>v a. normalize v = Inr a) ws ys" "sorted_json a = sorted_json b"
    then show "\<exists>xs ys. (list_all2 (\<lambda>v a. normalize v = Inr a) vs xs \<and> list_all2 (\<lambda>v a. normalize v = Inr a) ws ys)
        \<and> map sorted_json xs = map sorted_json ys" by auto
  qed force
  also have "\<dots> \<longleftrightarrow> list_all2 same_json vs ws"
    unfolding list_all2_related by (simp add: same_json_def [abs_def])
  finally show ?thesis .
qed

lemma same_json_strings [simp]: "same_json (PList (map PStr ss)) (PList (map PStr ts)) \<longleftrightarrow> ss = ts"
  by (auto simp: same_json_PList list_all2_conv_all_nth list_eq_iff_nth_eq)

lemma map_of_same_keys:
  assumes "map_of xs = map_of ys" and "map fst xs = map fst ys" and "distinct (map fst xs)"
  shows "xs = ys"
proof (rule nth_equalityI)
  show len: "length xs = length ys" using assms(2) by (metis length_map)
  fix i assume i: "i < length xs"
  then have "map_of xs (fst (xs ! i)) = Some (snd (xs ! i))" using assms(3) by (intro map_of_is_SomeI) auto
  moreover have "map_of ys (fst (ys ! i)) = Some (snd (ys ! i))" using assms(2,3) i len by (intro map_of_is_SomeI) auto
  moreover have "fst (xs ! i) = fst (ys ! i)" using assms(2) i len by (metis nth_map)
  ultimately show "xs ! i = ys ! i" using assms(1) by (simp add: prod_eq_iff)
qed

lemma map_of_sort_key:
  assumes "distinct (map fst kvs)"
  shows "map_of (sort_key fst kvs) = map_of kvs"
proof -
  have "mset (map fst (sort_key fst kvs)) = mset (map fst kvs)" by (metis mset_map mset_sort)
  with assms have "distinct (map fst (sort_key fst kvs))" by (metis mset_eq_imp_distinct_iff)
  with assms show ?thesis by (intro map_of_inject_set [THEN iffD2]) simp_all
qed

lemma normalize_items:
  "normalize (str_dict kvs) = Inr j \<longleftrightarrow>
     (\<exists>items. j = JObj items \<and> list_all2 (\<lambda>kv item. fst item = fst kv \<and> normalize (snd kv) = Inr (snd item)) kvs items)"
proof -
  let ?sk = "\<lambda>(k, v). (StrKey k, v)"
  have keys: "rmap (\<lambda>kv. string_key (fst kv)) (map ?sk kvs) = Inr (map fst kvs)" for kvs :: "(string \<times> py_value) list"
    by (induction kvs) auto
  have item: "rbind (normalize (snd (?sk kv))) (\<lambda>v. rbind (string_key (fst (?sk kv))) (\<lambda>k. Inr (k, v))) = Inr item
      \<longleftrightarrow> fst item = fst kv \<and> normalize (snd kv) = Inr (snd item)" for kv :: "string \<times> py_value" and item
    by (cases kv; cases item) (auto simp: rbind_eq_Inr)
  have obj: "rbind (rmap f xs) (\<lambda>items. Inr (JObj items)) = Inr j
      \<longleftrightarrow> (\<exists>items. j = JObj items \<and> list_all2 (\<lambda>x y. f x = Inr y) xs items)" for f and xs :: "(py_key \<times> py_value) list"
    by (auto simp: rbind_eq_Inr rmap_eq_Inr_iff)
  show ?thesis
    unfolding str_dict_def normalize.simps keys rbind_Inr obj list_all2_map1 item ..
qed

text \<open>Mappings with the same keys have the same canonical text exactly when their values do.\<close>

lemma same_json_str_dict:
  assumes keys: "map fst kvs = map fst lws" and dist: "distinct (map fst kvs)"
  shows "same_json (str_dict kvs) (str_dict lws) \<longleftrightarrow> list_all2 same_json (map snd kvs) (map snd lws)"
proof -
  let ?N = "\<lambda>kv item. fst item = fst kv \<and> normalize (snd kv) = Inr (snd item)"
  let ?g = "\<lambda>kv. (fst kv, sorted_json (snd kv))"
  have sorted: "map ?g (sort_key fst xs) = map ?g (sort_key fst ys) \<longleftrightarrow> map ?g xs = map ?g ys"
    if l: "list_all2 ?N kvs xs" "list_all2 ?N lws ys" for xs ys
  proof -
    have k: "map fst xs = map fst kvs" "map fst ys = map fst lws"
      using l by (auto simp: list_all2_conv_all_nth list_eq_iff_nth_eq)
    have s: "map ?g (sort_key fst zs) = sort_key fst (map ?g zs)" for zs :: "(string \<times> json) list"
      by (simp add: sort_key_map)
    have mf: "map fst (map ?g zs) = map fst zs" for zs :: "(string \<times> json) list" by simp
    show ?thesis
    proof
      assume "map ?g (sort_key fst xs) = map ?g (sort_key fst ys)"
      then have "sort_key fst (map ?g xs) = sort_key fst (map ?g ys)" by (simp only: s)
      then have "map_of (map ?g xs) = map_of (map ?g ys)"
        using map_of_sort_key [of "map ?g xs"] map_of_sort_key [of "map ?g ys"] dist keys k mf by metis
      moreover have "map fst (map ?g xs) = map fst (map ?g ys)" unfolding mf using k keys by simp
      ultimately show "map ?g xs = map ?g ys"
        using dist k(1) mf by (intro map_of_same_keys) (simp_all only:)
    qed (simp add: s)
  qed
  have "same_json (str_dict kvs) (str_dict lws) \<longleftrightarrow>
      (\<exists>xs ys. list_all2 ?N kvs xs \<and> list_all2 ?N lws ys \<and> map ?g (sort_key fst xs) = map ?g (sort_key fst ys))"
    unfolding same_json_def normalize_items
  proof (intro iffI; elim exE conjE)
    fix a b xs ys
    assume "a = JObj xs" "b = JObj ys" "list_all2 ?N kvs xs" "list_all2 ?N lws ys" "sorted_json a = sorted_json b"
    then show "\<exists>xs ys. list_all2 ?N kvs xs \<and> list_all2 ?N lws ys \<and> map ?g (sort_key fst xs) = map ?g (sort_key fst ys)"
      by (auto simp only: sorted_json_JObj json.inject)
  next
    fix xs ys
    assume "list_all2 ?N kvs xs" "list_all2 ?N lws ys" "map ?g (sort_key fst xs) = map ?g (sort_key fst ys)"
    then show "\<exists>a b. (\<exists>items. a = JObj items \<and> list_all2 ?N kvs items)
        \<and> (\<exists>items. b = JObj items \<and> list_all2 ?N lws items) \<and> sorted_json a = sorted_json b"
      by (intro exI [of _ "JObj xs"] exI [of _ "JObj ys"] conjI exI [of _ xs] exI [of _ ys] refl)
         (simp_all only: sorted_json_JObj json.inject)
  qed
  also have "\<dots> \<longleftrightarrow> (\<exists>xs ys. list_all2 ?N kvs xs \<and> list_all2 ?N lws ys \<and> map ?g xs = map ?g ys)"
    using sorted by blast
  also have "\<dots> \<longleftrightarrow> list_all2 (\<lambda>kv lw. \<exists>a b. ?N kv a \<and> ?N lw b \<and> ?g a = ?g b) kvs lws"
    by (rule list_all2_related)
  also have "\<dots> \<longleftrightarrow> list_all2 (\<lambda>kv lw. same_json (snd kv) (snd lw)) kvs lws"
  proof -
    have ex: "(\<exists>a b. ?N kv a \<and> ?N lw b \<and> ?g a = ?g b) \<longleftrightarrow> fst kv = fst lw \<and> same_json (snd kv) (snd lw)" for kv lw
      by (force simp: same_json_def)
    have len: "length kvs = length lws" using keys by (metis length_map)
    have "fst (kvs ! i) = fst (lws ! i)" if "i < length kvs" for i
      using keys that len by (metis nth_map)
    then show ?thesis unfolding ex list_all2_conv_all_nth using len by auto
  qed
  finally show ?thesis by (simp add: list_all2_map1 list_all2_map2)
qed

lemma canonical_same_json:
  assumes "canonical_json p = Inr t" and "canonical_json q = Inr t"
  shows "same_json p q"
  using canonical_json_inj [OF assms] by (metis same_json_def)

end
