(* ===== verification/Execution.thy ===== *)
theory Execution
  imports PyTime
begin

text \<open>
  \<open>app/execution\<close>: money (\<open>costs.py\<close>), cost parameters, order intents and fills
  (\<open>models.py\<close>) and the fill simulator (\<open>fills.py\<close>).

  A constructor with a \<open>__post_init__\<close> check is a function into \<open>result\<close>. Cost parameters come
  in as \<open>raw_decimal\<close>, which still may be infinite or NaN, and are finite decimals once built.
  The section on fills proves that a simulated fill carries non-negative amounts in hundredths
  (\<open>sound_fill\<close>), the fact the ledger and the reconciliation rest on.
\<close>

definition money :: "decimal \<Rightarrow> decimal result" where
  "money value = quantize (-2) value"

datatype raw_decimal = Finite decimal | Infinity_dec | NaN_dec

fun non_finite_or_negative :: "raw_decimal \<Rightarrow> bool" where
  "non_finite_or_negative (Finite d) \<longleftrightarrow> d < 0"
| "non_finite_or_negative _ \<longleftrightarrow> True"

fun finite_part :: "raw_decimal \<Rightarrow> decimal" where
  "finite_part (Finite d) = d"
| "finite_part _ = 0"

record execution_cost_parameters =
  ec_fixed_cost_per_order :: decimal
  ec_proportional_notional_rate :: decimal
  ec_half_spread_per_unit :: decimal
  ec_slippage_per_unit :: decimal

definition make_execution_costs ::
  "raw_decimal \<Rightarrow> raw_decimal \<Rightarrow> raw_decimal \<Rightarrow> raw_decimal \<Rightarrow> execution_cost_parameters result" where
  "make_execution_costs fixed rate half_spread slippage =
     rbind (guard (list_ex non_finite_or_negative [fixed, rate, half_spread, slippage])
              (ValueError ''execution costs must be finite and non-negative'')) (\<lambda>_.
     Inr \<lparr>ec_fixed_cost_per_order = finite_part fixed, ec_proportional_notional_rate = finite_part rate,
          ec_half_spread_per_unit = finite_part half_spread, ec_slippage_per_unit = finite_part slippage\<rparr>)"

record order_intent =
  in_intent_id :: string
  in_timestamp :: pydatetime
  in_instrument_id :: string
  in_side :: string
  in_quantity :: int
  in_multiplier :: int
  in_reason_code :: string
  in_strategy_position_id :: string
  in_policy_id :: string

definition make_order_intent ::
  "string \<Rightarrow> pydatetime \<Rightarrow> string \<Rightarrow> string \<Rightarrow> int \<Rightarrow> int \<Rightarrow> string \<Rightarrow> string \<Rightarrow> string
   \<Rightarrow> order_intent result" where
  "make_order_intent intent_id timestamp instrument_id side quantity multiplier reason_code
       strategy_position_id policy_id =
     rbind (guard (\<not> tz_aware timestamp)
              (ValueError ''intent timestamp must be timezone-aware'')) (\<lambda>_.
     rbind (guard (side \<notin> {''buy'', ''sell''} \<or> quantity \<le> 0 \<or> multiplier \<le> 0)
              (ValueError ''intent side, quantity, and multiplier are invalid'')) (\<lambda>_.
     Inr \<lparr>in_intent_id = intent_id, in_timestamp = timestamp, in_instrument_id = instrument_id,
          in_side = side, in_quantity = quantity, in_multiplier = multiplier,
          in_reason_code = reason_code, in_strategy_position_id = strategy_position_id,
          in_policy_id = policy_id\<rparr>))"

record simulated_fill =
  fl_fill_id :: string
  fl_intent_id :: string
  fl_timestamp :: pydatetime
  fl_instrument_id :: string
  fl_side :: string
  fl_quantity :: int
  fl_multiplier :: int
  fl_reference_price :: decimal
  fl_fill_price :: decimal
  fl_gross_notional :: decimal
  fl_half_spread_cost :: decimal
  fl_slippage_cost :: decimal
  fl_fixed_cost :: decimal
  fl_proportional_cost :: decimal
  fl_total_cost :: decimal

text \<open>\<open>Decimal(str(price))\<close> of a \<open>float | Decimal\<close>.\<close>

datatype price = FloatPrice pyfloat | DecimalPrice decimal

fun decimal_of_price :: "price \<Rightarrow> decimal result" where
  "decimal_of_price (FloatPrice x) = decimal_of_float x"
| "decimal_of_price (DecimalPrice d) = Inr d"

text \<open>
  A reference price of minus infinity fails the sign test; plus infinity and NaN fail in the
  first comparison or rounding that meets them, both with \<open>InvalidOperation\<close>.
\<close>

definition simulate_fill ::
  "order_intent \<Rightarrow> price \<Rightarrow> execution_cost_parameters \<Rightarrow> string option \<Rightarrow> simulated_fill result" where
  "simulate_fill intent reference_price costs fill_id =
     rbind (guard (reference_price = FloatPrice NInf)
              (ValueError ''fill reference price must be non-negative'')) (\<lambda>_.
     rbind (decimal_of_price reference_price) (\<lambda>reference.
     rbind (guard (reference < 0)
              (ValueError ''fill reference price must be non-negative'')) (\<lambda>_.
     let direction = (if in_side intent = ''buy'' then decimal_of_int 1 else decimal_of_int (-1));
         execution_adjustment = ec_half_spread_per_unit costs + ec_slippage_per_unit costs;
         units = decimal_of_int (in_quantity intent * in_multiplier intent)
     in
     rbind (money (pymax (reference + direction * execution_adjustment) 0)) (\<lambda>fill_price.
     rbind (money (reference * units)) (\<lambda>gross_notional.
     rbind (money (ec_half_spread_per_unit costs * units)) (\<lambda>half_spread_cost.
     rbind (money (ec_slippage_per_unit costs * units)) (\<lambda>slippage_cost.
     rbind (money (ec_proportional_notional_rate costs * gross_notional)) (\<lambda>proportional_cost.
     rbind (money (ec_fixed_cost_per_order costs)) (\<lambda>fixed_cost.
     let total_cost = half_spread_cost + slippage_cost + proportional_cost + fixed_cost in
     rbind (money reference) (\<lambda>rounded_reference.
     Inr \<lparr>fl_fill_id = (case fill_id of
                          None \<Rightarrow> ''fill-'' @ in_intent_id intent
                        | Some i \<Rightarrow> (if i = [] then ''fill-'' @ in_intent_id intent else i)),
          fl_intent_id = in_intent_id intent, fl_timestamp = in_timestamp intent,
          fl_instrument_id = in_instrument_id intent, fl_side = in_side intent,
          fl_quantity = in_quantity intent, fl_multiplier = in_multiplier intent,
          fl_reference_price = rounded_reference, fl_fill_price = fill_price,
          fl_gross_notional = gross_notional, fl_half_spread_cost = half_spread_cost,
          fl_slippage_cost = slippage_cost, fl_fixed_cost = fixed_cost,
          fl_proportional_cost = proportional_cost, fl_total_cost = total_cost\<rparr>))))))))))"

section \<open>Money\<close>

definition cents :: "decimal \<Rightarrow> bool" where
  "cents d \<longleftrightarrow> in_cents (dval d)"

lemma money_Inr [result_simps]:
  "money x = Inr y \<longleftrightarrow> y = Dec (round_cents (dval x)) \<and> \<bar>round_cents (dval x)\<bar> < cents_bound"
  by (simp add: money_def quantize_cents_Inr)

lemma money_cents: "money x = Inr y \<Longrightarrow> cents y"
  by (auto simp: money_Inr cents_def cent.rnd_grid)

lemma money_bound: "money x = Inr y \<Longrightarrow> \<bar>dval y\<bar> < cents_bound"
  by (auto simp: money_Inr)

lemma money_nonneg: "money x = Inr y \<Longrightarrow> 0 \<le> dval x \<Longrightarrow> 0 \<le> dval y"
  by (auto simp: money_Inr cent.rnd_nonneg)

lemma money_exact:
  "in_cents (dval x) \<Longrightarrow> \<bar>dval x\<bar> < cents_bound \<Longrightarrow> money x = Inr (Dec (dval x))"
  by (simp add: money_Inr cent.rnd_fix)

lemma money_fix: "cents x \<Longrightarrow> \<bar>dval x\<bar> < cents_bound \<Longrightarrow> money x = Inr x"
  using money_exact [of x] by (simp add: cents_def)

lemma money_exact_iff:
  "in_cents (dval x) \<Longrightarrow> money x = Inr y \<Longrightarrow> y = Dec (dval x) \<and> \<bar>dval x\<bar> < cents_bound"
  by (simp add: money_Inr cent.rnd_fix)

lemma money_sum_exact:
  assumes "\<forall>x \<in> set xs. in_cents (dval x)" and "sum_list (map (\<lambda>x. \<bar>dval x\<bar>) xs) < cents_bound"
  shows "money (decimal_sum xs) = Inr (Dec (sum_list (map dval xs)))"
proof -
  have e: "dval (decimal_sum xs) = sum_list (map dval xs)"
    using assms by (rule decimal_sum_exact)
  have "\<bar>sum_list (map dval xs)\<bar> \<le> sum_list (map (\<lambda>x. \<bar>dval x\<bar>) xs)"
    using sum_list_abs [of "map dval xs"] by (simp add: comp_def)
  moreover have "in_cents (sum_list (map dval xs))"
    using assms(1) by (intro in_cents_sum_list) auto
  ultimately show ?thesis
    using money_exact [of "decimal_sum xs"] assms(2) e by simp
qed

section \<open>Fills\<close>

definition signed_quantity :: "simulated_fill \<Rightarrow> int" where
  "signed_quantity f = (if fl_side f = ''buy'' then fl_quantity f else - fl_quantity f)"

text \<open>Cash received for the traded notional: negative for a purchase.\<close>

definition signed_gross :: "simulated_fill \<Rightarrow> rat" where
  "signed_gross f = (if fl_side f = ''buy'' then - dval (fl_gross_notional f) else dval (fl_gross_notional f))"

definition sound_fill :: "simulated_fill \<Rightarrow> bool" where
  "sound_fill f \<longleftrightarrow>
     fl_side f \<in> {''buy'', ''sell''} \<and> 0 < fl_quantity f \<and> 0 < fl_multiplier f
     \<and> tz_aware (fl_timestamp f)
     \<and> cents (fl_gross_notional f) \<and> 0 \<le> dval (fl_gross_notional f)
     \<and> cents (fl_half_spread_cost f) \<and> 0 \<le> dval (fl_half_spread_cost f)
     \<and> cents (fl_slippage_cost f) \<and> 0 \<le> dval (fl_slippage_cost f)
     \<and> cents (fl_proportional_cost f) \<and> 0 \<le> dval (fl_proportional_cost f)
     \<and> cents (fl_fixed_cost f) \<and> 0 \<le> dval (fl_fixed_cost f)
     \<and> cents (fl_reference_price f) \<and> 0 \<le> dval (fl_reference_price f)
     \<and> cents (fl_fill_price f) \<and> 0 \<le> dval (fl_fill_price f)
     \<and> fl_total_cost f = fl_half_spread_cost f + fl_slippage_cost f + fl_proportional_cost f
                          + fl_fixed_cost f"

text \<open>The exact size of a fill: what must stay below \<open>cents_bound\<close> for exact accounting.\<close>

definition fill_size :: "simulated_fill \<Rightarrow> rat" where
  "fill_size f =
     dval (fl_gross_notional f) + dval (fl_half_spread_cost f) + dval (fl_slippage_cost f)
       + dval (fl_proportional_cost f) + dval (fl_fixed_cost f)"

definition sound_costs :: "execution_cost_parameters \<Rightarrow> bool" where
  "sound_costs c \<longleftrightarrow>
     0 \<le> dval (ec_fixed_cost_per_order c) \<and> 0 \<le> dval (ec_proportional_notional_rate c)
     \<and> 0 \<le> dval (ec_half_spread_per_unit c) \<and> 0 \<le> dval (ec_slippage_per_unit c)"

lemma make_execution_costs_Inr:
  "make_execution_costs f r h s = Inr c \<Longrightarrow> sound_costs c"
  by (cases f; cases r; cases h; cases s)
    (auto simp: make_execution_costs_def result_simps sound_costs_def decimal_ops)

definition valid_intent :: "order_intent \<Rightarrow> bool" where
  "valid_intent i \<longleftrightarrow>
     tz_aware (in_timestamp i) \<and> in_side i \<in> {''buy'', ''sell''} \<and> 0 < in_quantity i
     \<and> 0 < in_multiplier i"

lemma make_order_intent_Inr:
  assumes "make_order_intent iid t inst side q m r p pol = Inr i"
  shows "valid_intent i" and "in_intent_id i = iid" and "in_timestamp i = t"
    and "in_instrument_id i = inst" and "in_side i = side" and "in_quantity i = q"
    and "in_multiplier i = m" and "in_reason_code i = r" and "in_strategy_position_id i = p"
    and "in_policy_id i = pol"
  using assms by (auto simp: make_order_intent_def result_simps valid_intent_def)

lemma decimal_of_int_mult_nonneg:
  "0 \<le> dval x \<Longrightarrow> 0 < n \<Longrightarrow> 0 \<le> dval (x * decimal_of_int n)"
  by (simp add: decimal_ops decimal_of_int_def ctx.rnd_nonneg)

lemma simulate_fill_Inr:
  assumes "simulate_fill i p c fid = Inr f"
  shows "fl_instrument_id f = in_instrument_id i" and "fl_side f = in_side i"
    and "fl_quantity f = in_quantity i" and "fl_multiplier f = in_multiplier i"
    and "fl_timestamp f = in_timestamp i" and "fl_intent_id f = in_intent_id i"
    and "\<exists>d. decimal_of_price p = Inr d \<and> 0 \<le> dval d"
  using assms
  by (auto simp: simulate_fill_def result_simps Let_def decimal_ops)

lemma simulate_fill_sound:
  assumes f: "simulate_fill i p c fid = Inr f" and i: "valid_intent i" and c: "sound_costs c"
  shows "sound_fill f"
proof -
  have units: "0 < in_quantity i * in_multiplier i" using i by (simp add: valid_intent_def)
  have nn: "0 \<le> dval (pymax x 0)" for x :: decimal by (auto simp: pymax_def decimal_ops)
  have prod: "0 \<le> dval (x * y)" if "0 \<le> dval x" "0 \<le> dval y" for x y :: decimal
    using that by (simp add: decimal_ops ctx.rnd_nonneg)
  from f i c units show ?thesis
    unfolding simulate_fill_def sound_fill_def Let_def valid_intent_def sound_costs_def cents_def
    by (auto simp: result_simps decimal_of_int_mult_nonneg nn prod cent.rnd_grid cent.rnd_nonneg
        less_decimal_def)
qed

lemma fill_size_nonneg: "sound_fill f \<Longrightarrow> 0 \<le> fill_size f"
  by (simp add: fill_size_def sound_fill_def)

text \<open>The total cost is the exact sum of its four parts while the fill stays in bounds.\<close>

lemma sound_fill_cost:
  assumes "sound_fill f" and "fill_size f < cents_bound"
  shows "dval (fl_total_cost f)
      = dval (fl_half_spread_cost f) + dval (fl_slippage_cost f) + dval (fl_proportional_cost f)
          + dval (fl_fixed_cost f)"
    and "cents (fl_total_cost f)" and "0 \<le> dval (fl_total_cost f)"
    and "dval (fl_gross_notional f) + dval (fl_total_cost f) = fill_size f"
proof -
  let ?parts = "[fl_slippage_cost f, fl_proportional_cost f, fl_fixed_cost f]"
  have "dval (foldl (+) (fl_half_spread_cost f) ?parts)
      = dval (fl_half_spread_cost f) + sum_list (map dval ?parts)"
    using assms by (intro foldl_decimal_exact) (auto simp: sound_fill_def cents_def fill_size_def)
  then show e: "dval (fl_total_cost f)
      = dval (fl_half_spread_cost f) + dval (fl_slippage_cost f) + dval (fl_proportional_cost f)
          + dval (fl_fixed_cost f)"
    using assms(1) by (simp add: sound_fill_def add.assoc)
  from assms(1) show "cents (fl_total_cost f)"
    unfolding cents_def e by (simp add: sound_fill_def cents_def in_cents_add)
  from assms(1) show "0 \<le> dval (fl_total_cost f)"
    unfolding e by (simp add: sound_fill_def)
  show "dval (fl_gross_notional f) + dval (fl_total_cost f) = fill_size f"
    unfolding e by (simp add: fill_size_def)
qed

lemma money_eval: "money x =
    (if \<bar>round_cents (dval x)\<bar> < cents_bound then Inr (Dec (round_cents (dval x))) else Inl InvalidOperation)"
  by (simp add: money_def quantize_cents)

lemmas fill_eval =
  make_order_intent_def make_execution_costs_def simulate_fill_def money_eval cents_bound_def
  decimal_ops decimal_of_int_def pymax_def Let_def

section \<open>Properties\<close>



text \<open>A simulated fill accounts for itself: its parts are non-negative amounts in hundredths,
  and the total cost is exactly half spread plus slippage plus proportional plus fixed cost.\<close>

theorem fill_costs_are_exact:
  assumes "simulate_fill intent price costs fill_id = Inr f" and "valid_intent intent"
    and "sound_costs costs" and "fill_size f < cents_bound"
  shows "sound_fill f \<and> cents (fl_total_cost f)
    \<and> dval (fl_total_cost f)
        = dval (fl_half_spread_cost f) + dval (fl_slippage_cost f) + dval (fl_proportional_cost f)
            + dval (fl_fixed_cost f)"
  using simulate_fill_sound [OF assms(1-3)] sound_fill_cost assms(4) by blast

theorem fill_costs_are_exact_witness:
  "\<exists>i c f. make_order_intent ''i'' (Aware 0 0) ''X'' ''buy'' 2 1 ''r'' ''p'' ''q'' = Inr i
     \<and> make_execution_costs (Finite 1) (Finite 0) (Finite 1) (Finite 1) = Inr c
     \<and> simulate_fill i (FloatPrice (Fl 10)) c None = Inr f \<and> sound_fill f
     \<and> dval (fl_total_cost f) = 5"
proof -
  obtain i where i: "make_order_intent ''i'' (Aware 0 0) ''X'' ''buy'' 2 1 ''r'' ''p'' ''q'' = Inr i"
    by (simp add: make_order_intent_def)
  obtain c where c: "make_execution_costs (Finite 1) (Finite 0) (Finite 1) (Finite 1) = Inr c"
    by (simp add: make_execution_costs_def decimal_ops)
  have "\<exists>f. simulate_fill i (FloatPrice (Fl 10)) c None = Inr f \<and> fill_size f = 25
      \<and> dval (fl_half_spread_cost f) + dval (fl_slippage_cost f)
          + dval (fl_proportional_cost f) + dval (fl_fixed_cost f) = 5"
    using i c by (auto simp: fill_eval decimal_of_float_numeral fill_size_def)
  then obtain f where f: "simulate_fill i (FloatPrice (Fl 10)) c None = Inr f" "fill_size f = 25"
    "dval (fl_half_spread_cost f) + dval (fl_slippage_cost f)
        + dval (fl_proportional_cost f) + dval (fl_fixed_cost f) = 5"
    by blast
  have "fill_size f < cents_bound" by (simp add: f cents_bound_def)
  from fill_costs_are_exact [OF f(1) make_order_intent_Inr(1) [OF i] make_execution_costs_Inr [OF c] this]
  show ?thesis using i c f by auto
qed

end
