(* ===== verification/Identifiers.thy ===== *)
theory Identifiers
  imports Canonical Execution
begin

text \<open>
  The bounds and text checks of the market-data layer: \<open>app/market_data/normalization/limits.py\<close>,
  \<open>provider_identifiers.py\<close> and \<open>conversions.py\<close>, and the two checks every record of
  \<open>app/instruments\<close> and \<open>app/market_data\<close> repeats (\<open>_require_text\<close> and \<open>_utc\<close>).

  Characters are code points below 256; \<open>is_space\<close> is \<open>str.isspace\<close> on them and \<open>utf8_length\<close> the
  length of their UTF-8 encoding, which never fails there. Arguments have their annotated types, so
  the \<open>isinstance\<close> guards of the source hold by typing.
\<close>

section \<open>Text\<close>

definition is_space :: "char \<Rightarrow> bool" where
  "is_space c = (let n = of_char c :: nat in (9 \<le> n \<and> n \<le> 13) \<or> (28 \<le> n \<and> n \<le> 32) \<or> n = 133 \<or> n = 160)"

definition strip :: "string \<Rightarrow> string" where
  "strip s = rev (dropWhile is_space (rev (dropWhile is_space s)))"

definition utf8_length :: "string \<Rightarrow> int" where
  "utf8_length s = (\<Sum>c \<leftarrow> s. if of_char c < (128::nat) then 1 else 2)"

definition require_text :: "string \<Rightarrow> string list \<Rightarrow> unit result" where
  "require_text message ss = guard (list_ex (\<lambda>s. strip s = []) ss) (ValueError message)"

text \<open>\<open>_utc(value, field_name)\<close>: aware timestamps are moved to UTC, naive ones are refused.\<close>

definition to_utc :: "pydatetime \<Rightarrow> string \<Rightarrow> pydatetime result" where
  "to_utc value field_name =
     rbind (guard (\<not> tz_aware value) (ValueError (field_name @ '' must be timezone-aware''))) (\<lambda>_.
     Inr (astimezone utc value))"

definition optional_utc :: "pydatetime option \<Rightarrow> string \<Rightarrow> pydatetime option result" where
  "optional_utc value field_name =
     (case value of None \<Rightarrow> Inr None | Some t \<Rightarrow> rbind (to_utc t field_name) (\<lambda>u. Inr (Some u)))"

text \<open>\<open>a < b\<close> of two aware timestamps.\<close>

definition earlier :: "pydatetime \<Rightarrow> pydatetime \<Rightarrow> bool" where
  "earlier a b \<longleftrightarrow> instant a < instant b"

section \<open>Limits\<close>

definition MAX_SOURCE_ORDER :: int where
  "MAX_SOURCE_ORDER = 2 ^ 63 - 1"

definition MAX_OPAQUE_IDENTIFIER_BYTES :: int where
  "MAX_OPAQUE_IDENTIFIER_BYTES = 512"

definition MAX_REDACTED_REASON_CODE_BYTES :: int where
  "MAX_REDACTED_REASON_CODE_BYTES = 128"

definition MAX_LIFECYCLE_EVENTS_PER_BATCH :: nat where
  "MAX_LIFECYCLE_EVENTS_PER_BATCH = 10000"

definition validate_source_order :: "int \<Rightarrow> int result" where
  "validate_source_order value =
     rbind (guard (\<not> (0 \<le> value \<and> value \<le> MAX_SOURCE_ORDER))
              (ValueError ''source_order must be an integer in the signed 64-bit range'')) (\<lambda>_.
     Inr value)"

definition validate_opaque_identifier :: "string \<Rightarrow> string \<Rightarrow> string result" where
  "validate_opaque_identifier value field_name =
     rbind (guard (strip value = []) (ValueError (field_name @ '' must be non-empty text''))) (\<lambda>_.
     rbind (guard (MAX_OPAQUE_IDENTIFIER_BYTES < utf8_length value)
              (ValueError (field_name @ '' exceeds the UTF-8 byte limit''))) (\<lambda>_.
     Inr value))"

definition validate_redacted_reason_code_size :: "string \<Rightarrow> string result" where
  "validate_redacted_reason_code_size value =
     rbind (guard (MAX_REDACTED_REASON_CODE_BYTES < utf8_length value)
              (ValueError ''redacted_reason_code exceeds the UTF-8 byte limit'')) (\<lambda>_.
     Inr value)"

section \<open>Provider identifiers\<close>

definition MAX_PROVIDER_CONTRACT_KEY_BYTES :: int where
  "MAX_PROVIDER_CONTRACT_KEY_BYTES = 512"

definition MAX_MARKET_SEGMENT_BYTES :: int where
  "MAX_MARKET_SEGMENT_BYTES = 128"

definition validate_provider_identifier :: "string \<Rightarrow> int \<Rightarrow> string \<Rightarrow> string result" where
  "validate_provider_identifier value maximum_bytes name =
     (let invalid = ValueError (''invalid '' @ name) in
      rbind (guard (strip value = [] \<or> value \<noteq> strip value) invalid) (\<lambda>_.
      rbind (guard (list_ex (\<lambda>c. of_char c < (32::nat) \<or> of_char c = (127::nat)) value) invalid) (\<lambda>_.
      rbind (guard (maximum_bytes < utf8_length value) invalid) (\<lambda>_.
      Inr value))))"

definition validate_provider_contract_key :: "string \<Rightarrow> string result" where
  "validate_provider_contract_key value =
     validate_provider_identifier value MAX_PROVIDER_CONTRACT_KEY_BYTES ''provider contract key''"

definition validate_market_segment :: "string \<Rightarrow> string result" where
  "validate_market_segment value =
     validate_provider_identifier value MAX_MARKET_SEGMENT_BYTES ''market segment''"

section \<open>Provider numbers\<close>

definition INT64_MAX :: int where
  "INT64_MAX = 2 ^ 63 - 1"

definition SAFE_INTEGER_MAX :: int where
  "SAFE_INTEGER_MAX = 2 ^ 53"

definition EPOCH_US :: int where
  "EPOCH_US = 719163 * day_us"

definition provider_double_to_price :: "pyfloat \<Rightarrow> decimal result" where
  "provider_double_to_price value =
     rbind (guard (\<not> isfinite value) (ValueError ''nonfinite_price'')) (\<lambda>_.
     rbind (decimal_of_float value) (\<lambda>d.
     if dval d = 0 then Inr (Dec 0)
     else rbind (guard (d < 0) (ValueError ''negative_price'')) (\<lambda>_. Inr d)))"

definition reported_quantity :: "int \<Rightarrow> int result" where
  "reported_quantity value =
     rbind (guard (\<not> (0 \<le> value \<and> value \<le> INT64_MAX)) (ValueError ''invalid_quantity'')) (\<lambda>_. Inr value)"

definition reported_open_interest :: "pyfloat \<Rightarrow> int result" where
  "reported_open_interest value =
     (case value of
        Fl q \<Rightarrow>
          rbind (guard (q < 0 \<or> of_int SAFE_INTEGER_MAX < q \<or> of_int INT64_MAX < q)
                   (ValueError ''unsafe_open_interest'')) (\<lambda>_.
          rbind (guard (of_int \<lfloor>q\<rfloor> \<noteq> q) (ValueError ''fractional_open_interest'')) (\<lambda>_.
          Inr \<lfloor>q\<rfloor>))
      | _ \<Rightarrow> Inl (ValueError ''unsafe_open_interest''))"

definition epoch_milliseconds :: "int \<Rightarrow> bool \<Rightarrow> pydatetime option result" where
  "epoch_milliseconds value zero_is_none =
     rbind (guard (value < 0) (ValueError ''invalid_timestamp'')) (\<lambda>_.
     if value = 0 \<and> zero_is_none then Inr None
     else
       rbind (guard (value = 0) (ValueError ''invalid_timestamp'')) (\<lambda>_.
       let t = EPOCH_US + (value div 1000) * 1000000 + (value mod 1000) * 1000 in
       rbind (guard ((max_ordinal + 1) * day_us \<le> t) (ValueError ''invalid_timestamp'')) (\<lambda>_.
       Inr (Some (Aware t 0)))))"

section \<open>Facts the records share\<close>

lemma require_text_Inr [result_simps]:
  "require_text m ss = Inr u \<longleftrightarrow> (\<forall>s \<in> set ss. strip s \<noteq> [])"
  by (auto simp: require_text_def result_simps list_ex_iff)

lemma to_utc_Inr [result_simps]:
  "to_utc t f = Inr u \<longleftrightarrow> tz_aware t \<and> u = Aware (instant t) 0"
  by (auto simp: to_utc_def result_simps astimezone_def utc_def)

lemma to_utc_Aware [simp]: "to_utc (Aware u off) f = Inr (Aware u 0)"
  by (simp add: to_utc_def astimezone_def utc_def)

lemma optional_utc_Inr [result_simps]:
  "optional_utc t f = Inr u \<longleftrightarrow>
     (case t of None \<Rightarrow> u = None | Some t' \<Rightarrow> tz_aware t' \<and> u = Some (Aware (instant t') 0))"
  by (auto simp: optional_utc_def result_simps split: option.splits)

definition in_utc :: "pydatetime \<Rightarrow> bool" where
  "in_utc t \<longleftrightarrow> (\<exists>u. t = Aware u 0)"

lemma in_utc_Aware [simp]: "in_utc (Aware u 0)"
  by (simp add: in_utc_def)

lemma to_utc_in_utc [simp]: "in_utc t \<Longrightarrow> to_utc t f = Inr t"
  by (auto simp: in_utc_def)

lemma optional_utc_None [simp]: "optional_utc None f = Inr None"
  by (simp add: optional_utc_def)

lemma optional_utc_in_utc [simp]: "in_utc t \<Longrightarrow> optional_utc (Some t) f = Inr (Some t)"
  by (simp add: optional_utc_def)

lemma in_utc_eq: "in_utc s \<Longrightarrow> in_utc t \<Longrightarrow> s = t \<longleftrightarrow> instant s = instant t"
  by (auto simp: in_utc_def)

lemma validate_source_order_Inr [result_simps]:
  "validate_source_order v = Inr w \<longleftrightarrow> w = v \<and> 0 \<le> v \<and> v \<le> MAX_SOURCE_ORDER"
  by (auto simp: validate_source_order_def result_simps)

lemma validate_opaque_identifier_Inr [result_simps]:
  "validate_opaque_identifier v f = Inr w \<longleftrightarrow>
     w = v \<and> strip v \<noteq> [] \<and> utf8_length v \<le> MAX_OPAQUE_IDENTIFIER_BYTES"
  by (auto simp: validate_opaque_identifier_def result_simps)

lemma MAX_SOURCE_ORDER_small: "0 \<le> n \<Longrightarrow> n \<le> MAX_SOURCE_ORDER \<Longrightarrow> small_int n"
  by (simp add: MAX_SOURCE_ORDER_def small_int_def)

text \<open>Provider numbers survive their conversion: an accepted price is a non-negative decimal
  that reads back as the very double that was sent, an accepted open interest is exactly that
  integer and is safe as a double, and an accepted timestamp is the epoch plus its milliseconds; a
  non-finite or negative price and a fractional or unsafe open interest are refused.\<close>

theorem provider_numbers_roundtrip:
  assumes "wf_float x"
  shows "(\<forall>p. provider_double_to_price x = Inr p \<longrightarrow> 0 \<le> dval p \<and> (x = float_of_rat (dval p)))
    \<and> (\<forall>n. reported_open_interest x = Inr n \<longrightarrow> x = Fl (of_int n) \<and> 0 \<le> n \<and> n \<le> 2 ^ 53)
    \<and> (\<forall>m z t. epoch_milliseconds m z = Inr (Some t) \<longrightarrow> t = Aware (EPOCH_US + m * 1000) 0 \<and> 0 < m)
    \<and> (\<not> isfinite x \<or> x < 0 \<longrightarrow> (\<exists>e. provider_double_to_price x = Inl (ValueError e)))
    \<and> ((\<forall>n. x \<noteq> Fl (of_int n)) \<longrightarrow> (\<exists>e. reported_open_interest x = Inl (ValueError e)))"
proof (intro conjI allI impI)
  fix p assume "provider_double_to_price x = Inr p"
  then obtain d where d: "decimal_of_float x = Inr d"
    and pd: "(if dval d = 0 then Inr (Dec 0) else rbind (guard (d < 0) (ValueError ''negative_price'')) (\<lambda>_. Inr d)) = Inr p"
    by (auto simp: provider_double_to_price_def rbind_eq_Inr guard_eq_Inr)
  then have p: "p = (if dval d = 0 then Dec 0 else d)" and sign: "dval d = 0 \<or> \<not> d < 0"
    by (auto simp: rbind_eq_Inr guard_eq_Inr split: if_splits)
  show "0 \<le> dval p" using p sign by (auto simp: less_decimal_def)
  have x: "x = Fl (f64 (dval d))" by (rule decimal_of_float_reads_back [OF assms d])
  define top :: rat where "top = 2 ^ 1024"
  have "\<bar>f64 (dval d)\<bar> < top" using assms by (simp add: x top_def)
  then have "\<not> top \<le> f64 (dval d)" "\<not> f64 (dval d) \<le> - top" by linarith+
  then have "float_of_rat (dval d) = x" unfolding float_of_rat_def top_def [symmetric] by (simp add: x)
  then show "x = float_of_rat (dval p)" using p by (auto split: if_splits)
next
  fix n assume "reported_open_interest x = Inr n"
  then show "x = Fl (of_int n)" "0 \<le> n" "n \<le> 2 ^ 53"
    by (auto simp: reported_open_interest_def result_simps SAFE_INTEGER_MAX_def floor_le_iff split: pyfloat.splits)
next
  fix m z t assume "epoch_milliseconds m z = Inr (Some t)"
  moreover have "m div 1000 * 1000000 + m mod 1000 * 1000 = m * 1000"
    using div_mult_mod_eq [of m 1000] by linarith
  ultimately show "t = Aware (EPOCH_US + m * 1000) 0" "0 < m"
    by (auto simp: epoch_milliseconds_def result_simps Let_def add.assoc split: if_splits)
next
  assume bad: "\<not> isfinite x \<or> x < 0"
  show "\<exists>e. provider_double_to_price x = Inl (ValueError e)"
  proof (cases "isfinite x")
    case True
    then have "x < 0" using bad by simp
    obtain d where d: "decimal_of_float x = Inr d" using True decimal_of_float_finite by blast
    have "\<not> 0 \<le> x" using \<open>x < 0\<close> by (cases x) (auto simp: float_ops)
    then have "d < 0" using decimal_of_float_nonneg [OF assms d] by simp
    then have "dval d \<noteq> 0" by (simp add: less_decimal_def)
    with d \<open>d < 0\<close> True show ?thesis by (simp add: provider_double_to_price_def)
  qed (simp add: provider_double_to_price_def)
next
  assume no: "\<forall>n. x \<noteq> Fl (of_int n)"
  then show "\<exists>e. reported_open_interest x = Inl (ValueError e)"
    by (cases x) (auto simp: reported_open_interest_def guard_def)
qed

theorem provider_numbers_roundtrip_witness:
  "provider_double_to_price (Fl 24) = Inr (Dec 24) \<and> float_of_rat 24 = Fl 24
   \<and> reported_open_interest (Fl 24) = Inr 24 \<and> (\<exists>e. provider_double_to_price (Fl (-24)) = Inl (ValueError e))"
proof -
  have wf: "wf_float (Fl 24)" "wf_float (Fl (-24))"
    unfolding wf_float.simps f64.rnd_fix_iff [symmetric] by simp_all
  have p: "provider_double_to_price (Fl 24) = Inr (Dec 24)"
    by (simp add: provider_double_to_price_def decimal_of_float_numeral less_decimal_def)
  moreover have "reported_open_interest (Fl 24) = Inr 24"
    by (simp add: reported_open_interest_def SAFE_INTEGER_MAX_def INT64_MAX_def)
  moreover have "Fl (-24) < 0" by (simp add: float_ops)
  then have "\<exists>e. provider_double_to_price (Fl (-24)) = Inl (ValueError e)"
    using provider_numbers_roundtrip [OF wf(2), THEN conjunct2, THEN conjunct2, THEN conjunct2, THEN conjunct1] by blast
  moreover have "Fl 24 = float_of_rat (dval (Dec 24))"
    using provider_numbers_roundtrip [OF wf(1), THEN conjunct1, rule_format, OF p] by (rule conjunct2)
  then have "float_of_rat 24 = Fl 24" unfolding decimal.sel by (rule sym)
  ultimately show ?thesis by simp
qed

end
