(* ===== verification/Keyed.thy ===== *)
theory Keyed
  imports Prelude "HOL-Library.AList"
begin

text \<open>
  Dictionaries built by identity. Several components index records by an identifier and refuse two
  different records with the same one; \<open>put_unique\<close> is that loop's body on an association list in
  insertion order, and \<open>indexes\<close> says what such an index holds.
\<close>

definition put_unique ::
  "('a \<Rightarrow> 'k) \<Rightarrow> ('k \<Rightarrow> py_error) \<Rightarrow> 'a \<Rightarrow> ('k \<times> 'a) list \<Rightarrow> ('k \<times> 'a) list result" where
  "put_unique key conflict item indexed =
     rbind (guard (case map_of indexed (key item) of None \<Rightarrow> False | Some existing \<Rightarrow> existing \<noteq> item)
              (conflict (key item))) (\<lambda>_.
     Inr (AList.update (key item) item indexed))"

definition indexes :: "('a \<Rightarrow> 'k) \<Rightarrow> ('k \<times> 'a) list \<Rightarrow> 'a set \<Rightarrow> bool" where
  "indexes key idx S \<longleftrightarrow> distinct (map fst idx) \<and> (\<forall>e \<in> set idx. fst e = key (snd e)) \<and> snd ` set idx = S"

lemma indexes_Nil [simp]: "indexes key [] {}"
  by (simp add: indexes_def)

lemma indexes_map_of: "indexes key idx S \<Longrightarrow> map_of idx i = Some s \<longleftrightarrow> s \<in> S \<and> key s = i"
proof -
  assume idx: "indexes key idx S"
  then have "map_of idx i = Some s \<longleftrightarrow> (i, s) \<in> set idx" by (simp add: indexes_def)
  also have "\<dots> \<longleftrightarrow> s \<in> S \<and> key s = i"
  proof
    assume "(i, s) \<in> set idx"
    with idx show "s \<in> S \<and> key s = i" by (force simp: indexes_def)
  next
    assume "s \<in> S \<and> key s = i"
    with idx obtain e where "e \<in> set idx" "snd e = s" "fst e = key (snd e)" by (auto simp: indexes_def)
    with \<open>s \<in> S \<and> key s = i\<close> show "(i, s) \<in> set idx" by (metis prod.collapse)
  qed
  finally show ?thesis .
qed

lemma indexes_inj: "indexes key idx S \<Longrightarrow> inj_on key S"
  using indexes_map_of [of key idx S] by (intro inj_onI) (metis option.inject)

lemma indexes_card: "indexes key idx S \<Longrightarrow> card S = length idx"
proof -
  assume i: "indexes key idx S"
  have "map key (map snd idx) = map fst idx" using i by (auto simp: indexes_def)
  then have "distinct (map snd idx)" using i by (metis indexes_def distinct_map)
  moreover have "S = set (map snd idx)" using i by (auto simp: indexes_def)
  ultimately show ?thesis by (metis distinct_card length_map)
qed

lemma put_unique_Inr:
  assumes "put_unique key conflict s idx = Inr idx'" and "indexes key idx S"
  shows "indexes key idx' (insert s S)"
proof -
  from assms(1) have idx': "idx' = AList.update (key s) s idx"
    and c: "\<forall>e. map_of idx (key s) = Some e \<longrightarrow> e = s"
    by (auto simp: put_unique_def result_simps split: option.splits)
  have dist: "distinct (map fst idx')"
    unfolding idx' using assms(2) by (intro distinct_update) (simp add: indexes_def)
  have mem: "(i, x) \<in> set idx' \<longleftrightarrow> (if i = key s then x = s else x \<in> S \<and> key x = i)" for i x
  proof -
    have "(i, x) \<in> set idx' \<longleftrightarrow> map_of idx' i = Some x" using dist by simp
    also have "\<dots> \<longleftrightarrow> (if i = key s then x = s else map_of idx i = Some x)" by (auto simp: idx' update_conv')
    finally show ?thesis using indexes_map_of [OF assms(2)] by simp
  qed
  have "x \<in> insert s S" if "(i, x) \<in> set idx'" for i x using that mem by (auto split: if_splits)
  moreover have "(key x, x) \<in> set idx'" if "x \<in> insert s S" for x
    using that mem [of "key x" x] c indexes_map_of [OF assms(2), of "key s" x] by auto
  ultimately have "snd ` set idx' = insert s S" by force
  moreover have "fst e = key (snd e)" if "e \<in> set idx'" for e
    using that mem [of "fst e" "snd e"] by (auto split: if_splits)
  ultimately show ?thesis using dist by (simp add: indexes_def)
qed

lemma put_all_unique_Inr:
  assumes "rfold (put_unique key conflict) items idx0 = Inr idx" and "indexes key idx0 S"
  shows "indexes key idx (S \<union> set items)"
  using assms
proof (induction items arbitrary: idx0 S)
  case (Cons s items)
  then obtain idx1 where "put_unique key conflict s idx0 = Inr idx1" "rfold (put_unique key conflict) items idx1 = Inr idx"
    by (auto simp: result_simps)
  with Cons.IH [of idx1 "insert s S"] put_unique_Inr [OF _ Cons.prems(2)] show ?case by fastforce
qed simp

lemma update_fresh: "k \<notin> fst ` set idx \<Longrightarrow> AList.update k v idx = idx @ [(k, v)]"
  by (induction idx) auto

text \<open>Items with fresh, distinct identifiers are appended in their order.\<close>

lemma put_fresh_items:
  assumes "distinct (map key items)" and "key ` set items \<inter> fst ` set idx = {}"
  shows "rfold (put_unique key conflict) items idx = Inr (idx @ map (\<lambda>x. (key x, x)) items)"
  using assms
proof (induction items arbitrary: idx)
  case (Cons s items)
  have none: "map_of idx (key s) = None" using Cons.prems(2) by (simp add: map_of_eq_None_iff)
  then have "AList.update (key s) s idx = idx @ [(key s, s)]"
    by (simp add: update_fresh map_of_eq_None_iff)
  with none have "put_unique key conflict s idx = Inr (idx @ [(key s, s)])" by (simp add: put_unique_def)
  with Cons.IH [of "idx @ [(key s, s)]"] Cons.prems show ?case by auto
qed simp

text \<open>A comprehension with a condition that may raise.\<close>

definition rfilter :: "('a \<Rightarrow> bool result) \<Rightarrow> 'a list \<Rightarrow> 'a list result" where
  "rfilter p xs = rbind (rmap p xs) (\<lambda>bs. Inr (map fst (filter snd (zip xs bs))))"

lemma rmap_image: "rmap f xs = Inr ys \<Longrightarrow> x \<in> set xs \<Longrightarrow> \<exists>y \<in> set ys. f x = Inr y"
  by (fastforce simp: rmap_eq_Inr_iff list_all2_conv_all_nth in_set_conv_nth)

lemma rfilter_Inr:
  assumes "rfilter p xs = Inr ys"
  shows "ys = filter (\<lambda>x. p x = Inr True) xs" and "\<forall>x \<in> set xs. \<exists>b. p x = Inr b"
proof -
  from assms obtain bs where bs: "rmap p xs = Inr bs" and ys: "ys = map fst (filter snd (zip xs bs))"
    by (auto simp: rfilter_def result_simps)
  show "\<forall>x \<in> set xs. \<exists>b. p x = Inr b" using bs by (simp add: rmap_eq_map)
  from bs have "list_all2 (\<lambda>x b. p x = Inr b) xs bs" by (simp add: rmap_eq_Inr_iff)
  then show "ys = filter (\<lambda>x. p x = Inr True) xs"
    unfolding ys by (induction rule: list_all2_induct) auto
qed

lemma rfilter_total: "\<forall>x \<in> set xs. \<exists>b. p x = Inr b \<Longrightarrow> \<exists>ys. rfilter p xs = Inr ys"
  by (auto simp: rfilter_def rmap_eq_map rbind_eq_Inr)

end
