(* ===== verification/Frames.thy ===== *)
theory Frames
  imports Identifiers Keyed
begin

text \<open>
  \<open>app/market_data/normalization/identities.py\<close>: the identity of a raw frame, the checks of a raw frame,
  and the validation of a batch of frames by identity.

  Bytes are characters below 256, and \<open>sha256\<close> is the function from bytes to the hex digest. The five
  identity fields of a frame are its sub-record \<open>rf_identity\<close>, which is what the source's property
  \<open>identity\<close> rebuilds. A batch keeps two dictionaries in insertion order; sets are lists without
  repetition. The main theorem says what a batch contains, whatever the order of the frames.
\<close>

section \<open>Frames\<close>

datatype raw_capture_basis = LiveReceived | RecordedWithOriginalReceipt | HistoricalImportCapture

fun capture_basis_value :: "raw_capture_basis \<Rightarrow> string" where
  "capture_basis_value LiveReceived = ''live_received''"
| "capture_basis_value RecordedWithOriginalReceipt = ''recorded_with_original_receipt''"
| "capture_basis_value HistoricalImportCapture = ''historical_import''"

definition MAX_FRAME_BYTES :: nat where
  "MAX_FRAME_BYTES = 16777216"

definition frame_error :: "string \<Rightarrow> py_error" where
  "frame_error message = NamedError ''RawFrameValidationError'' message"

text \<open>\<open>except ValueError as error: raise RawFrameValidationError(str(error))\<close>.\<close>

definition as_frame_error :: "'a result \<Rightarrow> 'a result" where
  "as_frame_error r = (case r of Inl (ValueError message) \<Rightarrow> Inl (frame_error message) | _ \<Rightarrow> r)"

definition frame_text :: "string list \<Rightarrow> unit result" where
  "frame_text ss = as_frame_error (require_text ''raw frame text values must be non-empty'' ss)"

record raw_frame_identity =
  fr_provider :: string
  fr_provider_schema_id :: string
  fr_connection_session_id :: string
  fr_source_order_scope_id :: string
  fr_source_order :: int

definition make_raw_frame_identity :: "raw_frame_identity \<Rightarrow> raw_frame_identity result" where
  "make_raw_frame_identity i =
     rbind (frame_text [fr_provider i]) (\<lambda>_.
     rbind (as_frame_error (validate_opaque_identifier (fr_provider_schema_id i) ''provider_schema_id'')) (\<lambda>_.
     rbind (as_frame_error (validate_opaque_identifier (fr_connection_session_id i) ''connection_session_id'')) (\<lambda>_.
     rbind (as_frame_error (validate_opaque_identifier (fr_source_order_scope_id i) ''source_order_scope_id'')) (\<lambda>_.
     rbind (guard (fr_provider i \<noteq> ''upstox'') (frame_error ''provider must be upstox'')) (\<lambda>_.
     rbind (as_frame_error (validate_source_order (fr_source_order i))) (\<lambda>_.
     Inr i))))))"

definition frame_identity_payload :: "raw_frame_identity \<Rightarrow> (string \<times> py_value) list" where
  "frame_identity_payload i =
     [(''entity'', PStr ''raw_market_frame''), (''provider'', PStr (fr_provider i)),
      (''provider_schema_id'', PStr (fr_provider_schema_id i)),
      (''connection_session_id'', PStr (fr_connection_session_id i)),
      (''source_order_scope_id'', PStr (fr_source_order_scope_id i)),
      (''source_order'', PInt (fr_source_order i))]"

definition frame_raw_event_id :: "(string \<Rightarrow> string) \<Rightarrow> raw_frame_identity \<Rightarrow> string result" where
  "frame_raw_event_id sha256 i = stable_hash sha256 (str_dict (frame_identity_payload i))"

record raw_frame =
  rf_identity :: raw_frame_identity
  rf_provider_schema_sha256 :: string
  rf_frame_bytes :: string
  rf_frame_content_hash :: string
  rf_received_at :: "pydatetime option"
  rf_available_at :: pydatetime
  rf_recorded_at :: pydatetime
  rf_capture_basis :: raw_capture_basis
  rf_source_file_id :: "string option"
  rf_source_record_id :: "string option"

abbreviation rf_provider :: "raw_frame \<Rightarrow> string" where
  "rf_provider f \<equiv> fr_provider (rf_identity f)"

definition make_raw_frame :: "(string \<Rightarrow> string) \<Rightarrow> raw_frame \<Rightarrow> raw_frame result" where
  "make_raw_frame sha256 f =
     rbind (make_raw_frame_identity (rf_identity f)) (\<lambda>_.
     rbind (frame_text [rf_provider_schema_sha256 f, rf_frame_content_hash f]) (\<lambda>_.
     rbind (guard (rf_frame_bytes f = []) (frame_error ''frame_bytes must be non-empty immutable bytes'')) (\<lambda>_.
     rbind (guard (MAX_FRAME_BYTES < length (rf_frame_bytes f)) (frame_error ''frame_too_large'')) (\<lambda>_.
     rbind (guard (rf_frame_content_hash f \<noteq> ''sha256:'' @ sha256 (rf_frame_bytes f))
              (frame_error ''frame_content_hash mismatch'')) (\<lambda>_.
     rbind (as_frame_error (to_utc (rf_available_at f) ''available_at'')) (\<lambda>available.
     rbind (as_frame_error (to_utc (rf_recorded_at f) ''recorded_at'')) (\<lambda>recorded.
     rbind (as_frame_error (optional_utc (rf_received_at f) ''received_at'')) (\<lambda>received.
     rbind (guard (earlier recorded available) (frame_error ''recorded_at cannot precede available_at'')) (\<lambda>_.
     rbind (guard (case received of None \<Rightarrow> False | Some r \<Rightarrow> earlier available r)
              (frame_error ''available_at cannot precede received_at'')) (\<lambda>_.
     rbind (guard (rf_capture_basis f = LiveReceived \<and> received \<noteq> Some available)
              (frame_error ''live_received requires equal receipt and availability'')) (\<lambda>_.
     rbind (guard (rf_capture_basis f = RecordedWithOriginalReceipt \<and> received \<noteq> Some available)
              (frame_error ''recorded_with_original_receipt requires equal receipt and availability'')) (\<lambda>_.
     rbind (guard (rf_capture_basis f = HistoricalImportCapture \<and> received \<noteq> None)
              (frame_error ''historical_import requires absent received_at'')) (\<lambda>_.
     rbind (guard ((rf_source_file_id f = None) \<noteq> (rf_source_record_id f = None))
              (frame_error ''source file and record IDs must appear together'')) (\<lambda>_.
     rbind (case (rf_source_file_id f, rf_source_record_id f) of
              (Some file, Some record_id) \<Rightarrow>
                rbind (as_frame_error (validate_opaque_identifier file ''source_file_id'')) (\<lambda>_.
                as_frame_error (validate_opaque_identifier record_id ''source_record_id''))
            | _ \<Rightarrow> Inr []) (\<lambda>_.
     Inr (f\<lparr>rf_available_at := available, rf_recorded_at := recorded, rf_received_at := received\<rparr>))))))))))))))))"

section \<open>Batches\<close>

text \<open>\<open>tuple(sorted(set(values)))\<close>.\<close>

definition sorted_unique :: "'a::linorder list \<Rightarrow> 'a list" where
  "sorted_unique xs = sort (remdups xs)"

record frame_index =
  fx_by_id :: "(string \<times> raw_frame) list"
  fx_duplicates :: "string list"
  fx_content_ids :: "(string \<times> string list) list"

definition index_frame :: "(string \<Rightarrow> string) \<Rightarrow> raw_frame \<Rightarrow> frame_index \<Rightarrow> frame_index result" where
  "index_frame sha256 frame ix =
     rbind (frame_raw_event_id sha256 (rf_identity frame)) (\<lambda>i.
     rbind (case map_of (fx_by_id ix) i of
              Some existing \<Rightarrow>
                rbind (guard (existing \<noteq> frame) (NamedError ''ConflictingRawIdentityError'' i)) (\<lambda>_.
                Inr (ix\<lparr>fx_duplicates := List.insert i (fx_duplicates ix)\<rparr>))
            | None \<Rightarrow> Inr (ix\<lparr>fx_by_id := fx_by_id ix @ [(i, frame)]\<rparr>)) (\<lambda>ix'.
     let ids = (case map_of (fx_content_ids ix') (rf_frame_content_hash frame) of None \<Rightarrow> [] | Some is \<Rightarrow> is) in
     Inr (ix'\<lparr>fx_content_ids :=
                AList.update (rf_frame_content_hash frame) (List.insert i ids) (fx_content_ids ix')\<rparr>)))"

record frame_batch =
  fb_unique_frames :: "raw_frame list"
  fb_exact_duplicates :: "string list"
  fb_same_content :: "string list"

definition validate_raw_frame_identity_batch :: "(string \<Rightarrow> string) \<Rightarrow> raw_frame list \<Rightarrow> frame_batch result" where
  "validate_raw_frame_identity_batch sha256 frames =
     rbind (rfold (index_frame sha256) frames \<lparr>fx_by_id = [], fx_duplicates = [], fx_content_ids = []\<rparr>) (\<lambda>ix.
     Inr \<lparr>fb_unique_frames = map snd (sort_key fst (fx_by_id ix)),
          fb_exact_duplicates = sort (fx_duplicates ix),
          fb_same_content = sort (map fst (filter (\<lambda>c. 1 < length (snd c)) (fx_content_ids ix)))\<rparr>)"

section \<open>What a batch contains\<close>

lemma sorted_unique_set: "sorted_unique xs = sorted_list_of_set (set xs)"
  by (simp add: sorted_unique_def sorted_list_of_set_sort_remdups)

lemma sort_distinct: "distinct xs \<Longrightarrow> sort xs = sorted_list_of_set (set xs)"
  by (metis distinct_remdups_id sorted_list_of_set_sort_remdups)

lemma sorted_unique_fixed: "sorted_unique xs = xs \<longleftrightarrow> sorted_wrt (<) xs"
  by (metis distinct_sorted_list_of_set sorted_list_of_set.idem_if_sorted_distinct sorted_sorted_list_of_set sorted_unique_set
      strict_sorted_iff)

lemma sorted_unique_strict [simp]: "sorted_wrt (<) (sorted_unique xs)"
  by (simp add: sorted_unique_set)

lemma set_sorted_unique [simp]: "set (sorted_unique xs) = set xs"
  by (simp add: sorted_unique_def)

definition frame_id :: "(string \<Rightarrow> string) \<Rightarrow> raw_frame \<Rightarrow> string" where
  "frame_id sha256 f = projr (frame_raw_event_id sha256 (rf_identity f))"

lemma frame_raw_event_id_total: "frame_raw_event_id sha256 (rf_identity f) = Inr (frame_id sha256 f)"
  by (simp add: frame_id_def frame_raw_event_id_def frame_identity_payload_def stable_hash_def canonical_json_def
      str_dict_def)

lemma frame_id_nonempty [simp]: "frame_id sha256 f \<noteq> []"
  by (simp add: frame_id_def frame_raw_event_id_def frame_identity_payload_def stable_hash_def canonical_json_def
      str_dict_def)

text \<open>The dictionary from content hashes to identifiers.\<close>

definition groups_ids :: "('f \<Rightarrow> 'h) \<Rightarrow> ('f \<Rightarrow> 'k) \<Rightarrow> ('h \<times> 'k list) list \<Rightarrow> 'f set \<Rightarrow> bool" where
  "groups_ids H K c S \<longleftrightarrow> distinct (map fst c)
     \<and> (\<forall>h. map_of c h = None \<longleftrightarrow> h \<notin> H ` S)
     \<and> (\<forall>h is. map_of c h = Some is \<longrightarrow> distinct is \<and> set is = K ` {f \<in> S. H f = h})"

lemma groups_ids_add:
  assumes "groups_ids H K c S"
  shows "groups_ids H K (AList.update (H f)
           (List.insert (K f) (case map_of c (H f) of None \<Rightarrow> [] | Some is \<Rightarrow> is)) c) (insert f S)"
proof -
  let ?is = "case map_of c (H f) of None \<Rightarrow> [] | Some is \<Rightarrow> is"
  have ids: "distinct ?is \<and> set ?is = K ` {g \<in> S. H g = H f}"
    using assms by (auto simp: groups_ids_def split: option.splits)
  have "{g \<in> insert f S. H g = H f} = insert f {g \<in> S. H g = H f}" by auto
  then have new: "distinct (List.insert (K f) ?is) \<and> set (List.insert (K f) ?is) = K ` {g \<in> insert f S. H g = H f}"
    using ids by simp
  have other: "{g \<in> insert f S. H g = h} = {g \<in> S. H g = h}" if "h \<noteq> H f" for h using that by auto
  show ?thesis
    using assms new other by (auto simp: groups_ids_def update_conv' distinct_update)
qed

definition indexed_frames :: "(string \<Rightarrow> string) \<Rightarrow> raw_frame list \<Rightarrow> frame_index \<Rightarrow> bool" where
  "indexed_frames sha256 frames ix \<longleftrightarrow>
     indexes (frame_id sha256) (fx_by_id ix) (set frames)
     \<and> distinct (fx_duplicates ix)
     \<and> set (fx_duplicates ix) = frame_id sha256 ` {f. 1 < count_list frames f}
     \<and> groups_ids rf_frame_content_hash (frame_id sha256) (fx_content_ids ix) (set frames)"

lemma repeated_frames:
  "{g. Suc 0 < count_list (frames @ [f]) g} = (if f \<in> set frames then insert f else id) {g. Suc 0 < count_list frames g}"
  using count_list_0_iff [of frames f] by (auto simp: Suc_lessI)

lemma index_frame_cases:
  "index_frame sha256 f ix =
     rbind (case map_of (fx_by_id ix) (frame_id sha256 f) of
              Some existing \<Rightarrow>
                rbind (guard (existing \<noteq> f) (NamedError ''ConflictingRawIdentityError'' (frame_id sha256 f))) (\<lambda>_.
                Inr (fx_by_id ix, List.insert (frame_id sha256 f) (fx_duplicates ix)))
            | None \<Rightarrow> Inr (fx_by_id ix @ [(frame_id sha256 f, f)], fx_duplicates ix)) (\<lambda>(by_id, dups).
     Inr \<lparr>fx_by_id = by_id, fx_duplicates = dups,
          fx_content_ids = AList.update (rf_frame_content_hash f) (List.insert (frame_id sha256 f)
            (case map_of (fx_content_ids ix) (rf_frame_content_hash f) of None \<Rightarrow> [] | Some is \<Rightarrow> is))
            (fx_content_ids ix)\<rparr>)"
  by (cases ix) (auto simp: index_frame_def frame_raw_event_id_total Let_def rbind_def guard_def split: option.splits)

lemma index_frame_step:
  assumes ix: "indexed_frames sha256 frames ix"
  shows "(\<exists>ix'. index_frame sha256 f ix = Inr ix') \<longleftrightarrow>
      (\<forall>g \<in> set frames. frame_id sha256 g = frame_id sha256 f \<longrightarrow> g = f)"
    and "index_frame sha256 f ix = Inr ix' \<Longrightarrow> indexed_frames sha256 (frames @ [f]) ix'"
proof -
  have by_id: "map_of (fx_by_id ix) i = Some e \<longleftrightarrow> e \<in> set frames \<and> frame_id sha256 e = i" for i e
    using ix by (intro indexes_map_of) (simp add: indexed_frames_def)
  have groups: "groups_ids rf_frame_content_hash (frame_id sha256)
      (AList.update (rf_frame_content_hash f) (List.insert (frame_id sha256 f)
         (case map_of (fx_content_ids ix) (rf_frame_content_hash f) of None \<Rightarrow> [] | Some is \<Rightarrow> is))
         (fx_content_ids ix)) (insert f (set frames))"
    using ix by (intro groups_ids_add) (simp add: indexed_frames_def)
  show "(\<exists>ix'. index_frame sha256 f ix = Inr ix') \<longleftrightarrow>
      (\<forall>g \<in> set frames. frame_id sha256 g = frame_id sha256 f \<longrightarrow> g = f)"
  proof (cases "map_of (fx_by_id ix) (frame_id sha256 f)")
    case None
    then have "\<forall>g \<in> set frames. frame_id sha256 g \<noteq> frame_id sha256 f" using by_id by (metis option.distinct(1))
    with None show ?thesis by (simp add: index_frame_cases)
  next
    case (Some e)
    have "(\<forall>g \<in> set frames. frame_id sha256 g = frame_id sha256 f \<longrightarrow> g = f) \<longleftrightarrow> e = f"
      using by_id Some by (metis option.inject)
    with Some show ?thesis by (simp add: index_frame_cases guard_def)
  qed
  assume step: "index_frame sha256 f ix = Inr ix'"
  show "indexed_frames sha256 (frames @ [f]) ix'"
  proof (cases "map_of (fx_by_id ix) (frame_id sha256 f)")
    case None
    then have new: "frame_id sha256 f \<notin> fst ` set (fx_by_id ix)" by (simp add: map_of_eq_None_iff)
    have "f \<notin> set frames" using None by_id by (metis option.distinct(1))
    moreover have "indexes (frame_id sha256) (fx_by_id ix @ [(frame_id sha256 f, f)]) (insert f (set frames))"
      using ix new by (auto simp: indexed_frames_def indexes_def)
    ultimately show ?thesis
      using step None ix groups by (auto simp: index_frame_cases indexed_frames_def repeated_frames simp del: count_list_append)
  next
    case (Some e)
    with step have e: "e = f" by (auto simp: index_frame_cases result_simps)
    then have f: "f \<in> set frames" using Some by_id by simp
    then have "insert f (set frames) = set frames" by auto
    then show ?thesis
      using step Some ix groups e f by (auto simp: index_frame_cases indexed_frames_def repeated_frames simp del: count_list_append)
  qed
qed

lemma index_frames:
  "(\<exists>ix. rfold (index_frame sha256) frames \<lparr>fx_by_id = [], fx_duplicates = [], fx_content_ids = []\<rparr> = Inr ix)
     \<longleftrightarrow> inj_on (frame_id sha256) (set frames)"
  "rfold (index_frame sha256) frames \<lparr>fx_by_id = [], fx_duplicates = [], fx_content_ids = []\<rparr> = Inr ix
     \<Longrightarrow> indexed_frames sha256 frames ix"
proof (induction frames arbitrary: ix rule: rev_induct)
  case Nil
  {
    case 1
    show ?case by simp
  next
    case 2
    then show ?case by (auto simp: indexed_frames_def groups_ids_def)
  }
next
  case (snoc f frames)
  let ?start = "\<lparr>fx_by_id = [], fx_duplicates = [], fx_content_ids = []\<rparr>"
  {
    case 1
    show ?case
    proof (cases "rfold (index_frame sha256) frames ?start")
      case (Inl e)
      then have "\<not> inj_on (frame_id sha256) (set frames)" using snoc.IH(1) by simp
      then show ?thesis using Inl inj_on_subset [of "frame_id sha256" "set (frames @ [f])" "set frames"]
        by (auto simp: rfold_append)
    next
      case (Inr ix)
      then have inj: "inj_on (frame_id sha256) (set frames)" and ix: "indexed_frames sha256 frames ix"
        using snoc.IH by blast+
      have "inj_on (frame_id sha256) (set (frames @ [f])) \<longleftrightarrow>
          (\<forall>g \<in> set frames. frame_id sha256 g = frame_id sha256 f \<longrightarrow> g = f)"
        using inj by (auto simp: inj_on_def)
      then show ?thesis using index_frame_step(1) [OF ix, of f] Inr
        by (auto simp: rfold_append rbind_eq_Inr)
    qed
  next
    case 2
    then show ?case using snoc.IH(2) index_frame_step(2) by (fastforce simp: rfold_append rbind_eq_Inr)
  }
qed

lemma batch_contents:
  assumes "validate_raw_frame_identity_batch sha256 frames = Inr b"
  shows "set (fb_unique_frames b) = set frames"
    and "sorted_wrt (<) (map (frame_id sha256) (fb_unique_frames b))"
    and "fb_exact_duplicates b = sorted_list_of_set (frame_id sha256 ` {f. 1 < count_list frames f})"
    and "fb_same_content b = sorted_list_of_set {rf_frame_content_hash f | f g.
            f \<in> set frames \<and> g \<in> set frames \<and> rf_frame_content_hash f = rf_frame_content_hash g
            \<and> frame_id sha256 f \<noteq> frame_id sha256 g}"
proof -
  obtain ix where run: "rfold (index_frame sha256) frames \<lparr>fx_by_id = [], fx_duplicates = [], fx_content_ids = []\<rparr> = Inr ix"
    and b: "b = \<lparr>fb_unique_frames = map snd (sort_key fst (fx_by_id ix)),
          fb_exact_duplicates = sort (fx_duplicates ix),
          fb_same_content = sort (map fst (filter (\<lambda>c. 1 < length (snd c)) (fx_content_ids ix)))\<rparr>"
    using assms by (auto simp: validate_raw_frame_identity_batch_def result_simps)
  have ix: "indexed_frames sha256 frames ix" by (rule index_frames(2) [OF run])
  then have idx: "indexes (frame_id sha256) (fx_by_id ix) (set frames)" by (simp add: indexed_frames_def)
  then show "set (fb_unique_frames b) = set frames" by (simp add: b indexes_def)
  have "map (frame_id sha256) (map snd (sort_key fst (fx_by_id ix))) = map fst (sort_key fst (fx_by_id ix))"
    using idx by (auto simp: indexes_def)
  moreover have "distinct (map fst (sort_key fst (fx_by_id ix)))"
    using idx by (metis indexes_def mset_eq_imp_distinct_iff mset_map mset_sort)
  ultimately show "sorted_wrt (<) (map (frame_id sha256) (fb_unique_frames b))"
    unfolding b frame_batch.select_convs strict_sorted_iff by (simp only: sorted_sort_key simp_thms)
  show "fb_exact_duplicates b = sorted_list_of_set (frame_id sha256 ` {f. 1 < count_list frames f})"
    using ix unfolding b frame_batch.select_convs indexed_frames_def by (metis sort_distinct)
  let ?c = "fx_content_ids ix"
  have groups: "groups_ids rf_frame_content_hash (frame_id sha256) ?c (set frames)"
    using ix by (simp add: indexed_frames_def)
  let ?many = "map fst (filter (\<lambda>c. 1 < length (snd c)) ?c)"
  have dist: "distinct ?many" using groups by (simp add: groups_ids_def distinct_map_filter)
  have many: "h \<in> set ?many \<longleftrightarrow> (\<exists>f g. f \<in> set frames \<and> g \<in> set frames \<and> rf_frame_content_hash f = h
      \<and> rf_frame_content_hash g = h \<and> frame_id sha256 f \<noteq> frame_id sha256 g)" for h
  proof -
    have "h \<in> set ?many \<longleftrightarrow> (\<exists>ids. map_of ?c h = Some ids \<and> 1 < length ids)"
    proof -
      have "map_of ?c h = Some ids \<longleftrightarrow> (h, ids) \<in> set ?c" for ids
        using groups unfolding groups_ids_def by (intro map_of_eq_Some_iff) blast
      moreover have "h \<in> set ?many \<longleftrightarrow> (\<exists>ids. (h, ids) \<in> set ?c \<and> 1 < length ids)"
        by (force simp: image_iff)
      ultimately show ?thesis by blast
    qed
    also have "\<dots> \<longleftrightarrow> h \<in> rf_frame_content_hash ` set frames
        \<and> 1 < card (frame_id sha256 ` {f \<in> set frames. rf_frame_content_hash f = h})"
    proof (cases "map_of ?c h")
      case None
      with groups have "h \<notin> rf_frame_content_hash ` set frames" by (simp add: groups_ids_def)
      with None show ?thesis by simp
    next
      case (Some ids)
      with groups have "distinct ids \<and> set ids = frame_id sha256 ` {f \<in> set frames. rf_frame_content_hash f = h}"
        and "h \<in> rf_frame_content_hash ` set frames"
        unfolding groups_ids_def by (blast, metis option.distinct(1))
      with Some show ?thesis by (metis distinct_card option.inject)
    qed
    also have "\<dots> \<longleftrightarrow> (\<exists>f g. f \<in> set frames \<and> g \<in> set frames \<and> rf_frame_content_hash f = h
      \<and> rf_frame_content_hash g = h \<and> frame_id sha256 f \<noteq> frame_id sha256 g)"
      using card_le_Suc0_iff_eq [of "frame_id sha256 ` {f \<in> set frames. rf_frame_content_hash f = h}"]
      by (auto simp: not_le [symmetric])
    finally show ?thesis .
  qed
  have contents: "set ?many = {rf_frame_content_hash f | f g.
            f \<in> set frames \<and> g \<in> set frames \<and> rf_frame_content_hash f = rf_frame_content_hash g
            \<and> frame_id sha256 f \<noteq> frame_id sha256 g}" unfolding set_eq_iff mem_Collect_eq many by metis
  show "fb_same_content b = sorted_list_of_set {rf_frame_content_hash f | f g.
            f \<in> set frames \<and> g \<in> set frames \<and> rf_frame_content_hash f = rf_frame_content_hash g
            \<and> frame_id sha256 f \<noteq> frame_id sha256 g}"
    unfolding b frame_batch.select_convs sort_distinct [OF dist] contents ..
qed

text \<open>C17. A batch of raw frames is accepted exactly when no two different frames share an identity.
  It then holds every frame once, in the order of identities; the identities that came more than
  once; and the contents that came under different identities. The order of the frames does not matter.\<close>

theorem frame_batch_exact:
  assumes "mset frames' = mset frames"
  shows "((\<exists>b. validate_raw_frame_identity_batch sha256 frames = Inr b) \<longleftrightarrow>
      (\<forall>f \<in> set frames. \<forall>g \<in> set frames. frame_id sha256 f = frame_id sha256 g \<longrightarrow> f = g))
    \<and> (\<forall>b. validate_raw_frame_identity_batch sha256 frames = Inr b \<longrightarrow>
      validate_raw_frame_identity_batch sha256 frames' = Inr b
      \<and> set (fb_unique_frames b) = set frames
      \<and> sorted_wrt (<) (map (frame_id sha256) (fb_unique_frames b))
      \<and> fb_exact_duplicates b = sorted_list_of_set (frame_id sha256 ` {f. 1 < count_list frames f})
      \<and> fb_same_content b = sorted_list_of_set {rf_frame_content_hash f | f g.
            f \<in> set frames \<and> g \<in> set frames \<and> rf_frame_content_hash f = rf_frame_content_hash g
            \<and> frame_id sha256 f \<noteq> frame_id sha256 g})"
proof -
  have accepted: "(\<exists>b. validate_raw_frame_identity_batch sha256 fs = Inr b) \<longleftrightarrow> inj_on (frame_id sha256) (set fs)" for fs
    unfolding index_frames(1) [symmetric] by (auto simp: validate_raw_frame_identity_batch_def rbind_eq_Inr)
  have same: "set frames' = set frames" "count_list frames' = count_list frames"
    using assms by (metis set_mset_mset, metis count_mset ext)
  have order: "validate_raw_frame_identity_batch sha256 frames' = Inr b"
    if b: "validate_raw_frame_identity_batch sha256 frames = Inr b" for b
  proof -
    have inj: "inj_on (frame_id sha256) (set frames)" using accepted b by blast
    then obtain b' where b': "validate_raw_frame_identity_batch sha256 frames' = Inr b'"
      using accepted [of frames'] same(1) by auto
    note c = batch_contents [OF b] and c' = batch_contents [OF b']
    have "map (frame_id sha256) (fb_unique_frames b') = map (frame_id sha256) (fb_unique_frames b)"
      using c(1,2) c'(1,2) same(1)
      by (metis list.set_map sorted_list_of_set.idem_if_sorted_distinct strict_sorted_iff)
    then have "fb_unique_frames b' = fb_unique_frames b"
      using inj c(1) c'(1) same(1) by (metis (no_types, lifting) inj_on_map_eq_map sup.idem)
    moreover have "fb_exact_duplicates b' = fb_exact_duplicates b" "fb_same_content b' = fb_same_content b"
      using c(3,4) c'(3,4) same by simp_all
    ultimately show ?thesis using b' by simp
  qed
  show ?thesis
    using accepted [of frames] order batch_contents [of sha256 frames] by (simp add: inj_on_def)
qed

definition demo_frame :: "int \<Rightarrow> string \<Rightarrow> raw_frame" where
  "demo_frame n content =
     \<lparr>rf_identity = \<lparr>fr_provider = ''upstox'', fr_provider_schema_id = ''v3'', fr_connection_session_id = ''c'',
        fr_source_order_scope_id = ''s'', fr_source_order = n\<rparr>,
      rf_provider_schema_sha256 = ''h'', rf_frame_bytes = content, rf_frame_content_hash = ''sha256:'' @ content,
      rf_received_at = Some (Aware 5 0), rf_available_at = Aware 5 0, rf_recorded_at = Aware 6 0,
      rf_capture_basis = LiveReceived, rf_source_file_id = None, rf_source_record_id = None\<rparr>"

theorem frame_batch_exact_witness:
  "\<exists>b. validate_raw_frame_identity_batch id [demo_frame 1 ''x'', demo_frame 1 ''x''] = Inr b
     \<and> fb_exact_duplicates b = [frame_id id (demo_frame 1 ''x'')]
     \<and> (\<forall>c. validate_raw_frame_identity_batch id [demo_frame 1 ''x'', demo_frame 1 ''y''] \<noteq> Inr c)"
proof -
  let ?one = "[demo_frame 1 ''x'', demo_frame 1 ''x'']" and ?two = "[demo_frame 1 ''x'', demo_frame 1 ''y'']"
  obtain b where b: "validate_raw_frame_identity_batch id ?one = Inr b"
    using frame_batch_exact [of ?one ?one id] by auto
  moreover have "fb_exact_duplicates b = [frame_id id (demo_frame 1 ''x'')]"
  proof -
    have "{f. 1 < count_list ?one f} = {demo_frame 1 ''x''}" by auto
    then show ?thesis using frame_batch_exact [of ?one ?one id] b by simp
  qed
  moreover have "frame_id id (demo_frame 1 ''x'') = frame_id id (demo_frame 1 ''y'')"
    "demo_frame 1 ''x'' \<noteq> demo_frame 1 ''y''"
    by (simp_all add: frame_id_def demo_frame_def)
  then have "\<forall>c. validate_raw_frame_identity_batch id ?two \<noteq> Inr c"
    using frame_batch_exact [of ?two ?two id] by auto
  ultimately show ?thesis by blast
qed

end
