(* ===== verification/Identity.thy ===== *)
theory Identity
  imports Identifiers
begin

text \<open>
  \<open>app/instruments/identity.py\<close>: economic identities of instruments, the versions of their contract
  terms and the provider mappings, each with its validation (\<open>make_...\<close> is construction with
  \<open>__post_init__\<close>) and its stable identifier.

  Versions and mappings are bitemporal: they are in force in a half-open interval of market time and
  known in a half-open interval of knowledge time. The source writes \<open>effective_at\<close> once for each;
  \<open>bitemporal\<close> is what both promise.
\<close>

section \<open>Economic identities\<close>

datatype instrument_type = IndexInstrument | EquityInstrument
datatype option_side = CallSide | PutSide
datatype exercise_style = European
datatype settlement_type = CashSettled | PhysicalSettled
datatype trading_status = Active | Suspended | Expired | Delisted

fun instrument_type_value :: "instrument_type \<Rightarrow> string" where
  "instrument_type_value IndexInstrument = ''index''"
| "instrument_type_value EquityInstrument = ''equity''"

fun option_side_value :: "option_side \<Rightarrow> string" where
  "option_side_value CallSide = ''call''"
| "option_side_value PutSide = ''put''"

fun exercise_style_value :: "exercise_style \<Rightarrow> string" where
  "exercise_style_value European = ''european''"

fun settlement_type_value :: "settlement_type \<Rightarrow> string" where
  "settlement_type_value CashSettled = ''cash''"
| "settlement_type_value PhysicalSettled = ''physical''"

fun trading_status_value :: "trading_status \<Rightarrow> string" where
  "trading_status_value Active = ''active''"
| "trading_status_value Suspended = ''suspended''"
| "trading_status_value Expired = ''expired''"
| "trading_status_value Delisted = ''delisted''"

definition identity_text :: "string list \<Rightarrow> unit result" where
  "identity_text = require_text ''identity text values must be non-empty''"

definition require_positive_decimal :: "raw_decimal \<Rightarrow> string \<Rightarrow> decimal result" where
  "require_positive_decimal value field_name =
     (case value of
        Finite d \<Rightarrow>
          rbind (guard (d \<le> 0) (ValueError (field_name @ '' must be positive and finite''))) (\<lambda>_. Inr d)
      | _ \<Rightarrow> Inl (ValueError (field_name @ '' must be positive and finite'')))"

record underlying_instrument_identity =
  ui_exchange :: string
  ui_canonical_symbol :: string
  ui_instrument_type :: instrument_type
  ui_currency :: string

definition make_underlying_identity ::
  "string \<Rightarrow> string \<Rightarrow> instrument_type \<Rightarrow> string \<Rightarrow> underlying_instrument_identity result" where
  "make_underlying_identity exchange canonical_symbol instrument_type currency =
     rbind (identity_text [exchange, canonical_symbol, currency]) (\<lambda>_.
     Inr \<lparr>ui_exchange = exchange, ui_canonical_symbol = canonical_symbol,
          ui_instrument_type = instrument_type, ui_currency = currency\<rparr>)"

definition underlying_payload :: "underlying_instrument_identity \<Rightarrow> (string \<times> py_value) list" where
  "underlying_payload u =
     [(''entity'', PStr ''underlying_instrument''), (''exchange'', PStr (ui_exchange u)),
      (''canonical_symbol'', PStr (ui_canonical_symbol u)),
      (''instrument_type'', PStr (instrument_type_value (ui_instrument_type u))),
      (''currency'', PStr (ui_currency u))]"

definition underlying_instrument_id :: "(string \<Rightarrow> string) \<Rightarrow> underlying_instrument_identity \<Rightarrow> string result" where
  "underlying_instrument_id sha256 u = stable_hash sha256 (str_dict (underlying_payload u))"

record futures_contract_identity =
  fi_exchange :: string
  fi_underlying_instrument_id :: string
  fi_expiry :: pydate
  fi_settlement_type :: settlement_type
  fi_multiplier :: decimal
  fi_currency :: string

definition make_futures_identity ::
  "string \<Rightarrow> string \<Rightarrow> pydate \<Rightarrow> settlement_type \<Rightarrow> raw_decimal \<Rightarrow> string \<Rightarrow> futures_contract_identity result" where
  "make_futures_identity exchange underlying_id expiry settlement_type multiplier currency =
     rbind (identity_text [exchange, underlying_id, currency]) (\<lambda>_.
     rbind (require_positive_decimal multiplier ''multiplier'') (\<lambda>m.
     Inr \<lparr>fi_exchange = exchange, fi_underlying_instrument_id = underlying_id, fi_expiry = expiry,
          fi_settlement_type = settlement_type, fi_multiplier = m, fi_currency = currency\<rparr>))"

definition futures_contract_id :: "(string \<Rightarrow> string) \<Rightarrow> futures_contract_identity \<Rightarrow> string result" where
  "futures_contract_id sha256 f =
     stable_hash sha256 (str_dict
       [(''entity'', PStr ''futures_contract''), (''exchange'', PStr (fi_exchange f)),
        (''underlying_instrument_id'', PStr (fi_underlying_instrument_id f)), (''expiry'', PDate (fi_expiry f)),
        (''settlement_type'', PStr (settlement_type_value (fi_settlement_type f))),
        (''multiplier'', PDecimal (fi_multiplier f)), (''currency'', PStr (fi_currency f))])"

record option_contract_identity =
  oi_exchange :: string
  oi_underlying_instrument_id :: string
  oi_expiry :: pydate
  oi_strike :: decimal
  oi_option_side :: option_side
  oi_exercise_style :: exercise_style
  oi_settlement_type :: settlement_type
  oi_multiplier :: decimal
  oi_currency :: string

definition make_option_identity ::
  "string \<Rightarrow> string \<Rightarrow> pydate \<Rightarrow> raw_decimal \<Rightarrow> option_side \<Rightarrow> exercise_style \<Rightarrow> settlement_type \<Rightarrow> raw_decimal
   \<Rightarrow> string \<Rightarrow> option_contract_identity result" where
  "make_option_identity exchange underlying_id expiry strike option_side exercise_style settlement_type
       multiplier currency =
     rbind (identity_text [exchange, underlying_id, currency]) (\<lambda>_.
     rbind (require_positive_decimal strike ''strike'') (\<lambda>k.
     rbind (require_positive_decimal multiplier ''multiplier'') (\<lambda>m.
     Inr \<lparr>oi_exchange = exchange, oi_underlying_instrument_id = underlying_id, oi_expiry = expiry,
          oi_strike = k, oi_option_side = option_side, oi_exercise_style = exercise_style,
          oi_settlement_type = settlement_type, oi_multiplier = m, oi_currency = currency\<rparr>)))"

definition option_contract_id :: "(string \<Rightarrow> string) \<Rightarrow> option_contract_identity \<Rightarrow> string result" where
  "option_contract_id sha256 c =
     stable_hash sha256 (str_dict
       [(''entity'', PStr ''option_contract''), (''exchange'', PStr (oi_exchange c)),
        (''underlying_instrument_id'', PStr (oi_underlying_instrument_id c)), (''expiry'', PDate (oi_expiry c)),
        (''strike'', PDecimal (oi_strike c)), (''option_side'', PStr (option_side_value (oi_option_side c))),
        (''exercise_style'', PStr (exercise_style_value (oi_exercise_style c))),
        (''settlement_type'', PStr (settlement_type_value (oi_settlement_type c))),
        (''multiplier'', PDecimal (oi_multiplier c)), (''currency'', PStr (oi_currency c))])"

section \<open>Versions and mappings\<close>

text \<open>\<open>_normalize_interval\<close> and \<open>_normalize_system_interval\<close>: both ends in UTC, the end after the start.\<close>

definition normalize_interval ::
  "pydatetime \<Rightarrow> pydatetime option \<Rightarrow> string \<Rightarrow> string \<Rightarrow> (pydatetime \<times> pydatetime option) result" where
  "normalize_interval start end_value start_name end_name =
     rbind (to_utc start start_name) (\<lambda>s.
     rbind (optional_utc end_value end_name) (\<lambda>e.
     rbind (guard (case e of None \<Rightarrow> False | Some t \<Rightarrow> \<not> earlier s t)
              (ValueError (end_name @ '' must be after '' @ start_name))) (\<lambda>_.
     Inr (s, e))))"

definition normalize_system_interval ::
  "pydatetime \<Rightarrow> pydatetime option \<Rightarrow> (pydatetime \<times> pydatetime option) result" where
  "normalize_system_interval recorded_at superseded_at =
     rbind (to_utc recorded_at ''recorded_at'') (\<lambda>s.
     rbind (optional_utc superseded_at ''superseded_at'') (\<lambda>e.
     rbind (guard (case e of None \<Rightarrow> False | Some t \<Rightarrow> \<not> earlier s t)
              (ValueError ''superseded_at must be after recorded_at'')) (\<lambda>_.
     Inr (s, e))))"

record contract_version_metadata =
  cm_valid_from :: pydatetime
  cm_valid_until :: "pydatetime option"
  cm_lot_size :: int
  cm_tick_size :: decimal
  cm_display_symbol :: string
  cm_trading_status :: trading_status
  cm_catalogue_version_id :: string
  cm_recorded_at :: pydatetime
  cm_superseded_at :: "pydatetime option"

definition make_version_metadata ::
  "pydatetime \<Rightarrow> pydatetime option \<Rightarrow> int \<Rightarrow> raw_decimal \<Rightarrow> string \<Rightarrow> trading_status \<Rightarrow> string \<Rightarrow> pydatetime
   \<Rightarrow> pydatetime option \<Rightarrow> contract_version_metadata result" where
  "make_version_metadata valid_from valid_until lot_size tick_size display_symbol trading_status
       catalogue_version_id recorded_at superseded_at =
     rbind (normalize_interval valid_from valid_until ''valid_from'' ''valid_until'') (\<lambda>(from, until).
     rbind (normalize_system_interval recorded_at superseded_at) (\<lambda>(recorded, superseded).
     rbind (guard (lot_size \<le> 0) (ValueError ''lot_size must be positive'')) (\<lambda>_.
     rbind (require_positive_decimal tick_size ''tick_size'') (\<lambda>tick.
     rbind (identity_text [display_symbol, catalogue_version_id]) (\<lambda>_.
     Inr \<lparr>cm_valid_from = from, cm_valid_until = until, cm_lot_size = lot_size, cm_tick_size = tick,
          cm_display_symbol = display_symbol, cm_trading_status = trading_status,
          cm_catalogue_version_id = catalogue_version_id, cm_recorded_at = recorded,
          cm_superseded_at = superseded\<rparr>)))))"

definition metadata_effective_at ::
  "contract_version_metadata \<Rightarrow> pydatetime \<Rightarrow> pydatetime option \<Rightarrow> bool result" where
  "metadata_effective_at v market_as_of known_as_of =
     rbind (to_utc market_as_of ''market_as_of'') (\<lambda>market_time.
     rbind (optional_utc known_as_of ''known_as_of'') (\<lambda>knowledge_time.
     let market_valid = \<not> earlier market_time (cm_valid_from v)
           \<and> (case cm_valid_until v of None \<Rightarrow> True | Some t \<Rightarrow> earlier market_time t);
         knowledge_valid = (case knowledge_time of
             None \<Rightarrow> True
           | Some k \<Rightarrow> \<not> earlier k (cm_recorded_at v)
               \<and> (case cm_superseded_at v of None \<Rightarrow> True | Some t \<Rightarrow> earlier k t))
     in Inr (market_valid \<and> knowledge_valid)))"

datatype version_kind = UnderlyingVersion | FuturesVersion | OptionVersion

fun version_entity :: "version_kind \<Rightarrow> string" where
  "version_entity UnderlyingVersion = ''underlying_instrument_version''"
| "version_entity FuturesVersion = ''futures_contract_version''"
| "version_entity OptionVersion = ''option_contract_version''"

record contract_version =
  cv_kind :: version_kind
  cv_metadata :: contract_version_metadata
  cv_subject_id :: string

definition make_contract_version ::
  "version_kind \<Rightarrow> contract_version_metadata \<Rightarrow> string \<Rightarrow> contract_version result" where
  "make_contract_version kind metadata subject_id =
     rbind (identity_text [subject_id]) (\<lambda>_.
     Inr \<lparr>cv_kind = kind, cv_metadata = metadata, cv_subject_id = subject_id\<rparr>)"

definition optional_time :: "pydatetime option \<Rightarrow> py_value" where
  "optional_time t = (case t of None \<Rightarrow> PNone | Some u \<Rightarrow> PDateTime u)"

definition version_id :: "(string \<Rightarrow> string) \<Rightarrow> contract_version \<Rightarrow> string result" where
  "version_id sha256 v =
     (let m = cv_metadata v in
      stable_hash sha256 (str_dict
        [(''entity'', PStr (version_entity (cv_kind v))), (''identity_id'', PStr (cv_subject_id v)),
         (''valid_from'', PDateTime (cm_valid_from m)), (''valid_until'', optional_time (cm_valid_until m)),
         (''lot_size'', PInt (cm_lot_size m)), (''tick_size'', PDecimal (cm_tick_size m)),
         (''display_symbol'', PStr (cm_display_symbol m)),
         (''trading_status'', PStr (trading_status_value (cm_trading_status m))),
         (''catalogue_version_id'', PStr (cm_catalogue_version_id m))]))"

record provider_contract_mapping =
  pm_provider :: string
  pm_provider_contract_key :: string
  pm_contract_version_id :: string
  pm_provider_payload_hash :: string
  pm_source_row_identity :: "string option"
  pm_effective_from :: pydatetime
  pm_effective_until :: "pydatetime option"
  pm_recorded_at :: pydatetime
  pm_superseded_at :: "pydatetime option"

definition make_provider_mapping :: "provider_contract_mapping \<Rightarrow> provider_contract_mapping result" where
  "make_provider_mapping m =
     rbind (identity_text [pm_provider m, pm_provider_contract_key m, pm_contract_version_id m,
              pm_provider_payload_hash m]) (\<lambda>_.
     rbind (case pm_source_row_identity m of None \<Rightarrow> Inr () | Some s \<Rightarrow> identity_text [s]) (\<lambda>_.
     rbind (normalize_interval (pm_effective_from m) (pm_effective_until m) ''effective_from'' ''effective_until'')
       (\<lambda>(from, until).
     rbind (normalize_system_interval (pm_recorded_at m) (pm_superseded_at m)) (\<lambda>(recorded, superseded).
     Inr (m\<lparr>pm_effective_from := from, pm_effective_until := until, pm_recorded_at := recorded,
           pm_superseded_at := superseded\<rparr>)))))"

definition optional_text :: "string option \<Rightarrow> py_value" where
  "optional_text s = (case s of None \<Rightarrow> PNone | Some t \<Rightarrow> PStr t)"

definition mapping_id :: "(string \<Rightarrow> string) \<Rightarrow> provider_contract_mapping \<Rightarrow> string result" where
  "mapping_id sha256 m =
     stable_hash sha256 (str_dict
       [(''entity'', PStr ''provider_contract_mapping''), (''provider'', PStr (pm_provider m)),
        (''provider_contract_key'', PStr (pm_provider_contract_key m)),
        (''contract_version_id'', PStr (pm_contract_version_id m)),
        (''provider_payload_hash'', PStr (pm_provider_payload_hash m)),
        (''source_row_identity'', optional_text (pm_source_row_identity m)),
        (''effective_from'', PDateTime (pm_effective_from m)),
        (''effective_until'', optional_time (pm_effective_until m))])"

definition mapping_effective_at ::
  "provider_contract_mapping \<Rightarrow> pydatetime \<Rightarrow> pydatetime option \<Rightarrow> bool result" where
  "mapping_effective_at m market_as_of known_as_of =
     rbind (to_utc market_as_of ''market_as_of'') (\<lambda>market_time.
     rbind (optional_utc known_as_of ''known_as_of'') (\<lambda>knowledge_time.
     let market_valid = \<not> earlier market_time (pm_effective_from m)
           \<and> (case pm_effective_until m of None \<Rightarrow> True | Some t \<Rightarrow> earlier market_time t);
         knowledge_valid = (case knowledge_time of
             None \<Rightarrow> True
           | Some k \<Rightarrow> \<not> earlier k (pm_recorded_at m)
               \<and> (case pm_superseded_at m of None \<Rightarrow> True | Some t \<Rightarrow> earlier k t))
     in Inr (market_valid \<and> knowledge_valid)))"

section \<open>Bitemporal records\<close>

text \<open>Instants in a half-open interval whose end may be missing.\<close>

definition in_force :: "pydatetime \<Rightarrow> pydatetime option \<Rightarrow> pydatetime \<Rightarrow> bool" where
  "in_force start finish t \<longleftrightarrow>
     instant start \<le> instant t \<and> (case finish of None \<Rightarrow> True | Some e \<Rightarrow> instant t < instant e)"

locale bitemporal =
  fixes effective :: "'a \<Rightarrow> pydatetime \<Rightarrow> pydatetime option \<Rightarrow> bool result"
    and from_time :: "'a \<Rightarrow> pydatetime" and until_time :: "'a \<Rightarrow> pydatetime option"
    and recorded :: "'a \<Rightarrow> pydatetime" and superseded :: "'a \<Rightarrow> pydatetime option"
  assumes effective_iff:
      "tz_aware market \<Longrightarrow> (\<forall>k. known = Some k \<longrightarrow> tz_aware k) \<Longrightarrow>
       effective v market known = Inr (in_force (from_time v) (until_time v) market
         \<and> (case known of None \<Rightarrow> True | Some k \<Rightarrow> in_force (recorded v) (superseded v) k))"
    and effective_naive: "\<not> tz_aware market \<Longrightarrow> \<exists>e. effective v market known = Inl (ValueError e)"
begin

text \<open>Consecutive versions cover their joint market interval without gap or overlap.\<close>

lemma adjacent_market:
  assumes "until_time v = Some (from_time w)" and "tz_aware market"
    and "instant (from_time v) < instant (from_time w)"
    and "in_force (from_time v) (until_time w) market"
  shows "effective v market None = Inr True \<longleftrightarrow> effective w market None = Inr False"
    and "effective w market None = Inr True \<longleftrightarrow> instant (from_time w) \<le> instant market"
  using assms by (auto simp: effective_iff in_force_def split: option.splits)

text \<open>A correction takes over from what it supersedes at the moment it is recorded.\<close>

lemma superseded_knowledge:
  assumes "superseded v = Some (recorded w)" and "tz_aware market" and "tz_aware known"
    and "effective v market (Some known) = Inr True"
  shows "effective w market (Some known) = Inr False"
  using assms by (auto simp: effective_iff in_force_def)

text \<open>Nothing is in force before it was recorded.\<close>

lemma not_known_before:
  assumes "effective v market (Some known) = Inr True" and "tz_aware known"
  shows "instant (recorded v) \<le> instant known"
proof -
  have "tz_aware market" using assms(1) effective_naive [of market v "Some known"] by auto
  with assms show ?thesis by (auto simp: effective_iff in_force_def)
qed

end

lemma metadata_effective:
  assumes "tz_aware market" and "\<forall>k. known = Some k \<longrightarrow> tz_aware k"
  shows "metadata_effective_at v market known = Inr (in_force (cm_valid_from v) (cm_valid_until v) market
     \<and> (case known of None \<Rightarrow> True | Some k \<Rightarrow> in_force (cm_recorded_at v) (cm_superseded_at v) k))"
  using assms
  by (cases market; cases known)
     (auto simp: metadata_effective_at_def earlier_def in_force_def optional_utc_def to_utc_def astimezone_def
       not_less split: option.splits)

lemma mapping_effective:
  assumes "tz_aware market" and "\<forall>k. known = Some k \<longrightarrow> tz_aware k"
  shows "mapping_effective_at v market known = Inr (in_force (pm_effective_from v) (pm_effective_until v) market
     \<and> (case known of None \<Rightarrow> True | Some k \<Rightarrow> in_force (pm_recorded_at v) (pm_superseded_at v) k))"
  using assms
  by (cases market; cases known)
     (auto simp: mapping_effective_at_def earlier_def in_force_def optional_utc_def to_utc_def astimezone_def
       not_less split: option.splits)

interpretation version_terms: bitemporal metadata_effective_at cm_valid_from cm_valid_until
    cm_recorded_at cm_superseded_at
  by unfold_locales (rule metadata_effective, auto simp: metadata_effective_at_def to_utc_def)

interpretation mapping_terms: bitemporal mapping_effective_at pm_effective_from pm_effective_until
    pm_recorded_at pm_superseded_at
  by unfold_locales (rule mapping_effective, auto simp: mapping_effective_at_def to_utc_def)

end
