(* ===== verification/PointInTime.thy ===== *)
theory PointInTime
  imports Identity Keyed "HOL-Library.Product_Lexorder"
begin

text \<open>
  \<open>app/market_data/point_in_time.py\<close>: event times, observation identities, quality assessments, and
  the reconstruction of the option chain that was visible at a pair of cutoffs.

  A normalized identity and an assessment carry the identifier the source recomputes from their
  frozen fields. Contract versions and provider mappings come paired with theirs (\<open>version_id\<close>,
  \<open>mapping_id\<close>). The identifier of a quote's contract is its subject, as its construction checks.
  The walk along corrections has one more unit of fuel than there are edges, so it never runs out.
\<close>

section \<open>Event times and queries\<close>

datatype availability_basis = BasisReceived | BasisDisseminated | BasisHistoricalImport

definition is_defensible_knowledge_time :: "availability_basis \<Rightarrow> bool" where
  "is_defensible_knowledge_time b \<longleftrightarrow> b \<in> {BasisReceived, BasisDisseminated}"

datatype quality_disposition = QualityAccepted | QualityAcceptedWithFlags | QualityQuarantined | QualityRejected

fun disposition_value :: "quality_disposition \<Rightarrow> string" where
  "disposition_value QualityAccepted = ''accepted''"
| "disposition_value QualityAcceptedWithFlags = ''accepted_with_flags''"
| "disposition_value QualityQuarantined = ''quarantined''"
| "disposition_value QualityRejected = ''rejected''"

definition is_eligible :: "quality_disposition \<Rightarrow> bool" where
  "is_eligible d \<longleftrightarrow> d \<in> {QualityAccepted, QualityAcceptedWithFlags}"

record market_event_time =
  et_exchange_timestamp :: pydatetime
  et_available_at :: pydatetime
  et_recorded_at :: pydatetime
  et_received_at :: "pydatetime option"
  et_availability_basis :: availability_basis

definition make_event_time :: "market_event_time \<Rightarrow> market_event_time result" where
  "make_event_time e =
     rbind (to_utc (et_exchange_timestamp e) ''exchange_timestamp'') (\<lambda>exchange.
     rbind (to_utc (et_available_at e) ''available_at'') (\<lambda>available.
     rbind (to_utc (et_recorded_at e) ''recorded_at'') (\<lambda>recorded.
     rbind (optional_utc (et_received_at e) ''received_at'') (\<lambda>received.
     rbind (guard (earlier recorded available) (ValueError ''recorded_at cannot precede available_at'')) (\<lambda>_.
     rbind (guard (et_availability_basis e = BasisReceived \<and> received = None)
              (ValueError ''received availability requires received_at'')) (\<lambda>_.
     rbind (guard (case received of None \<Rightarrow> False | Some r \<Rightarrow> earlier available r)
              (ValueError ''available_at cannot precede received_at'')) (\<lambda>_.
     Inr (e\<lparr>et_exchange_timestamp := exchange, et_available_at := available, et_recorded_at := recorded,
           et_received_at := received\<rparr>))))))))"

record point_in_time_query =
  pq_market_as_of :: pydatetime
  pq_known_as_of :: "pydatetime option"
  pq_quality_policy_id :: string
  pq_quality_policy_version :: int
  pq_require_defensible_availability :: bool

definition make_query :: "point_in_time_query \<Rightarrow> point_in_time_query result" where
  "make_query q =
     rbind (to_utc (pq_market_as_of q) ''market_as_of'') (\<lambda>market.
     rbind (optional_utc (pq_known_as_of q) ''known_as_of'') (\<lambda>known.
     rbind (guard (pq_quality_policy_id q = []) (ValueError ''quality_policy_id is required'')) (\<lambda>_.
     rbind (guard (pq_quality_policy_version q \<le> 0) (ValueError ''quality_policy_version must be positive''))
       (\<lambda>_.
     Inr (q\<lparr>pq_market_as_of := market, pq_known_as_of := known\<rparr>)))))"

definition query_mode :: "point_in_time_query \<Rightarrow> string" where
  "query_mode q = (if pq_known_as_of q \<noteq> None then ''known_as_of'' else ''market_as_of'')"

section \<open>Identities\<close>

record raw_observation_identity =
  ri_provider :: string
  ri_content_hash :: string
  ri_provider_sequence_scope_id :: "string option"
  ri_provider_event_id :: "string option"
  ri_provider_sequence :: "int option"
  ri_source_file_id :: "string option"
  ri_source_row_id :: "string option"
  ri_ingestion_event_id :: "string option"

text \<open>The truth value of an optional text: present and not empty.\<close>

definition truthy :: "string option \<Rightarrow> bool" where
  "truthy s \<longleftrightarrow> s \<noteq> None \<and> s \<noteq> Some []"

definition make_raw_identity :: "raw_observation_identity \<Rightarrow> raw_observation_identity result" where
  "make_raw_identity r =
     rbind (guard (ri_provider r = [] \<or> ri_content_hash r = [])
              (ValueError ''provider and content_hash are required'')) (\<lambda>_.
     rbind (guard (case ri_provider_sequence r of None \<Rightarrow> False | Some n \<Rightarrow> n < 0)
              (ValueError ''provider_sequence must be non-negative'')) (\<lambda>_.
     rbind (guard ((ri_provider_sequence r = None) \<noteq> (ri_provider_sequence_scope_id r = None))
              (ValueError ''provider_sequence requires an explicit provider_sequence_scope_id'')) (\<lambda>_.
     rbind (guard (case ri_provider_sequence_scope_id r of None \<Rightarrow> False | Some s \<Rightarrow> strip s = [])
              (ValueError ''provider_sequence_scope_id must be non-empty'')) (\<lambda>_.
     rbind (guard ((ri_source_file_id r = None) \<noteq> (ri_source_row_id r = None))
              (ValueError ''batch identity requires source_file_id and source_row_id'')) (\<lambda>_.
     rbind (guard (\<not> (truthy (ri_provider_event_id r) \<or> ri_provider_sequence r \<noteq> None
                \<or> truthy (ri_source_file_id r) \<or> truthy (ri_ingestion_event_id r)))
              (ValueError ''an explicit provider, batch, or ingestion event identity is required'')) (\<lambda>_.
     Inr r))))))"

definition raw_identity_value :: "raw_observation_identity \<Rightarrow> string \<times> py_value" where
  "raw_identity_value r =
     (case ri_provider_event_id r of
        Some e \<Rightarrow> (''provider_event_id'', PStr e)
      | None \<Rightarrow>
          (case ri_provider_sequence r of
             Some n \<Rightarrow> (''provider_sequence'',
               str_dict [(''provider_sequence_scope_id'', optional_text (ri_provider_sequence_scope_id r)),
                         (''provider_sequence'', PInt n)])
           | None \<Rightarrow>
               (case ri_source_file_id r of
                  Some f \<Rightarrow> (''source_row'',
                    str_dict [(''source_file_id'', PStr f), (''source_row_id'', optional_text (ri_source_row_id r))])
                | None \<Rightarrow> (''ingestion_event_id'', optional_text (ri_ingestion_event_id r)))))"

definition raw_identity_payload :: "raw_observation_identity \<Rightarrow> (string \<times> py_value) list" where
  "raw_identity_payload r =
     [(''entity'', PStr ''raw_market_observation''), (''provider'', PStr (ri_provider r)),
      (''identity_type'', PStr (fst (raw_identity_value r))), (''identity_value'', snd (raw_identity_value r))]"

definition raw_event_id :: "(string \<Rightarrow> string) \<Rightarrow> raw_observation_identity \<Rightarrow> string result" where
  "raw_event_id sha256 r = stable_hash sha256 (str_dict (raw_identity_payload r))"

record normalized_event_identity =
  ne_raw_event_id :: string
  ne_event_type :: string
  ne_subject_id :: string
  ne_schema_version :: int
  ne_event_id :: string

definition event_payload :: "string \<Rightarrow> string \<Rightarrow> string \<Rightarrow> int \<Rightarrow> (string \<times> py_value) list" where
  "event_payload raw_id event_type subject_id schema_version =
     [(''entity'', PStr ''normalized_market_event''), (''raw_event_id'', PStr raw_id),
      (''event_type'', PStr event_type), (''subject_id'', PStr subject_id),
      (''normalization_schema_version'', PInt schema_version)]"

definition make_normalized_identity ::
  "(string \<Rightarrow> string) \<Rightarrow> string \<Rightarrow> string \<Rightarrow> string \<Rightarrow> int \<Rightarrow> normalized_event_identity result" where
  "make_normalized_identity sha256 raw_id event_type subject_id schema_version =
     rbind (guard (raw_id = [] \<or> event_type = [] \<or> subject_id = [])
              (ValueError ''normalized event identity fields are required'')) (\<lambda>_.
     rbind (guard (schema_version \<le> 0) (ValueError ''normalization_schema_version must be positive'')) (\<lambda>_.
     rbind (stable_hash sha256 (str_dict (event_payload raw_id event_type subject_id schema_version)))
       (\<lambda>event_id.
     Inr \<lparr>ne_raw_event_id = raw_id, ne_event_type = event_type, ne_subject_id = subject_id,
          ne_schema_version = schema_version, ne_event_id = event_id\<rparr>)))"

record quality_assessment =
  qa_run_id :: string
  qa_event_id :: string
  qa_policy_id :: string
  qa_policy_version :: int
  qa_disposition :: quality_disposition
  qa_reason_codes :: "string list"
  qa_assessed_at :: pydatetime
  qa_recorded_at :: pydatetime
  qa_assessment_id :: string

definition make_quality_assessment ::
  "(string \<Rightarrow> string) \<Rightarrow> string \<Rightarrow> string \<Rightarrow> string \<Rightarrow> int \<Rightarrow> quality_disposition \<Rightarrow> string list \<Rightarrow> pydatetime
   \<Rightarrow> pydatetime \<Rightarrow> quality_assessment result" where
  "make_quality_assessment sha256 run_id event_id policy_id policy_version disposition reason_codes
       assessed_at recorded_at =
     rbind (guard (run_id = [] \<or> event_id = [] \<or> policy_id = [])
              (ValueError ''quality assessment identity fields are required'')) (\<lambda>_.
     rbind (guard (policy_version \<le> 0) (ValueError ''quality_policy_version must be positive'')) (\<lambda>_.
     rbind (guard (\<not> distinct reason_codes) (ValueError ''quality reason codes must be unique'')) (\<lambda>_.
     let reasons = sort reason_codes in
     rbind (to_utc assessed_at ''assessed_at'') (\<lambda>assessed.
     rbind (to_utc recorded_at ''recorded_at'') (\<lambda>recorded.
     rbind (guard (earlier recorded assessed) (ValueError ''quality recorded_at cannot precede assessed_at''))
       (\<lambda>_.
     rbind (stable_hash sha256 (str_dict
              [(''entity'', PStr ''data_quality_assessment''), (''assessment_run_id'', PStr run_id),
               (''event_id'', PStr event_id), (''quality_policy_id'', PStr policy_id),
               (''quality_policy_version'', PInt policy_version),
               (''disposition'', PStr (disposition_value disposition)),
               (''reason_codes'', PList (map PStr reasons))])) (\<lambda>assessment_id.
     Inr \<lparr>qa_run_id = run_id, qa_event_id = event_id, qa_policy_id = policy_id,
          qa_policy_version = policy_version, qa_disposition = disposition, qa_reason_codes = reasons,
          qa_assessed_at = assessed, qa_recorded_at = recorded, qa_assessment_id = assessment_id\<rparr>)))))))"

section \<open>Quotes\<close>

record option_quote =
  oq_identity :: normalized_event_identity
  oq_contract :: option_contract_identity
  oq_contract_version_id :: string
  oq_provider_mapping_id :: string
  oq_event_time :: market_event_time
  oq_bid_price :: "raw_decimal option"
  oq_bid_size_contracts :: "int option"
  oq_ask_price :: "raw_decimal option"
  oq_ask_size_contracts :: "int option"
  oq_last_price :: "raw_decimal option"
  oq_last_size_contracts :: "int option"
  oq_volume_contracts :: "int option"
  oq_open_interest_contracts :: "int option"
  oq_provider_sequence :: "int option"
  oq_event_order :: "int option"
  oq_supersedes_event_id :: "string option"

definition optional_non_negative_decimal :: "string \<times> raw_decimal option \<Rightarrow> unit result" where
  "optional_non_negative_decimal x =
     guard (case snd x of None \<Rightarrow> False | Some d \<Rightarrow> non_finite_or_negative d)
       (ValueError (fst x @ '' must be non-negative and finite''))"

definition optional_non_negative_int :: "string \<times> int option \<Rightarrow> unit result" where
  "optional_non_negative_int x =
     guard (case snd x of None \<Rightarrow> False | Some n \<Rightarrow> n < 0) (ValueError (fst x @ '' must be non-negative''))"

definition make_option_quote :: "(string \<Rightarrow> string) \<Rightarrow> option_quote \<Rightarrow> option_quote result" where
  "make_option_quote sha256 q =
     rbind (option_contract_id sha256 (oq_contract q)) (\<lambda>contract_id.
     rbind (guard (ne_subject_id (oq_identity q) \<noteq> contract_id)
              (ValueError ''quote subject must match economic contract identity'')) (\<lambda>_.
     rbind (guard (oq_contract_version_id q = [] \<or> oq_provider_mapping_id q = [])
              (ValueError ''quote contract version and provider mapping are required'')) (\<lambda>_.
     rbind (rmap optional_non_negative_decimal
              [(''bid_price'', oq_bid_price q), (''ask_price'', oq_ask_price q),
               (''last_price'', oq_last_price q)]) (\<lambda>_.
     rbind (rmap optional_non_negative_int
              [(''bid_size_contracts'', oq_bid_size_contracts q), (''ask_size_contracts'', oq_ask_size_contracts q),
               (''last_size_contracts'', oq_last_size_contracts q), (''volume_contracts'', oq_volume_contracts q),
               (''open_interest_contracts'', oq_open_interest_contracts q),
               (''provider_sequence'', oq_provider_sequence q), (''event_order'', oq_event_order q)]) (\<lambda>_.
     Inr q)))))"

abbreviation oq_event_id :: "option_quote \<Rightarrow> string" where
  "oq_event_id q \<equiv> ne_event_id (oq_identity q)"

abbreviation oq_contract_id :: "option_quote \<Rightarrow> string" where
  "oq_contract_id q \<equiv> ne_subject_id (oq_identity q)"

section \<open>Visibility\<close>

type_synonym version_index = "(string \<times> contract_version) list"
type_synonym mapping_index = "(string \<times> provider_contract_mapping) list"

text \<open>\<open>a < b\<close> of the keys \<open>(recorded_at, assessment_id)\<close>.\<close>

definition assessment_key :: "quality_assessment \<Rightarrow> int \<times> string" where
  "assessment_key a = (instant (qa_recorded_at a), qa_assessment_id a)"

definition assessment_applies :: "string \<Rightarrow> point_in_time_query \<Rightarrow> quality_assessment \<Rightarrow> bool" where
  "assessment_applies event_id query a \<longleftrightarrow>
     qa_event_id a = event_id \<and> qa_policy_id a = pq_quality_policy_id query
     \<and> qa_policy_version a = pq_quality_policy_version query
     \<and> (case pq_known_as_of query of None \<Rightarrow> True | Some k \<Rightarrow> \<not> earlier k (qa_recorded_at a))"

definition selected_assessment ::
  "string \<Rightarrow> quality_assessment list \<Rightarrow> point_in_time_query \<Rightarrow> quality_assessment option" where
  "selected_assessment event_id assessments query =
     (case filter (assessment_applies event_id query) assessments of
        [] \<Rightarrow> None
      | a # as \<Rightarrow> Some (foldl (\<lambda>best b. if assessment_key best < assessment_key b then b else best) a as))"

text \<open>The checks the two eligibility tests of the source share, in their order.\<close>

definition quote_terms ::
  "version_index \<Rightarrow> mapping_index \<Rightarrow> option_quote \<Rightarrow> (contract_version \<times> provider_contract_mapping) option" where
  "quote_terms versions mappings q =
     (case map_of versions (oq_contract_version_id q) of
        None \<Rightarrow> None
      | Some version \<Rightarrow>
          (case map_of mappings (oq_provider_mapping_id q) of
             None \<Rightarrow> None
           | Some mapping \<Rightarrow>
               if cv_subject_id version \<noteq> oq_contract_id q then None
               else if pm_contract_version_id mapping \<noteq> oq_contract_version_id q then None
               else Some (version, mapping)))"

definition in_the_future :: "point_in_time_query \<Rightarrow> option_quote \<Rightarrow> bool" where
  "in_the_future query q \<longleftrightarrow>
     earlier (pq_market_as_of query) (et_exchange_timestamp (oq_event_time q))
     \<or> (case pq_known_as_of query of
          None \<Rightarrow> False
        | Some k \<Rightarrow> earlier k (et_available_at (oq_event_time q))
            \<or> (pq_require_defensible_availability query
                \<and> \<not> is_defensible_knowledge_time (et_availability_basis (oq_event_time q))))"

definition quote_is_historically_eligible ::
  "version_index \<Rightarrow> mapping_index \<Rightarrow> point_in_time_query \<Rightarrow> option_quote \<Rightarrow> bool result" where
  "quote_is_historically_eligible versions mappings query q =
     (case quote_terms versions mappings q of
        None \<Rightarrow> Inr False
      | Some (version, mapping) \<Rightarrow>
          if in_the_future query q then Inr False
          else
            let e = oq_event_time q in
            rbind (metadata_effective_at (cv_metadata version) (et_exchange_timestamp e)
                     (Some (et_available_at e))) (\<lambda>version_ok.
            if \<not> version_ok then Inr False
            else mapping_effective_at mapping (et_exchange_timestamp e) (Some (et_available_at e))))"

definition quote_is_visible ::
  "version_index \<Rightarrow> mapping_index \<Rightarrow> quality_assessment list \<Rightarrow> point_in_time_query \<Rightarrow> option_quote
   \<Rightarrow> bool result" where
  "quote_is_visible versions mappings assessments query q =
     (case quote_terms versions mappings q of
        None \<Rightarrow> Inr False
      | Some (version, mapping) \<Rightarrow>
          rbind (metadata_effective_at (cv_metadata version) (pq_market_as_of query) (pq_known_as_of query))
            (\<lambda>version_ok.
          if \<not> version_ok then Inr False
          else
            rbind (mapping_effective_at mapping (pq_market_as_of query) (pq_known_as_of query)) (\<lambda>mapping_ok.
            if \<not> mapping_ok then Inr False
            else if in_the_future query q then Inr False
            else Inr (case selected_assessment (oq_event_id q) assessments query of
                        None \<Rightarrow> False | Some a \<Rightarrow> is_eligible (qa_disposition a)))))"

section \<open>Corrections\<close>

definition correction_error :: "string \<Rightarrow> py_error" where
  "correction_error message = NamedError ''InvalidCorrectionGraphError'' message"

definition correction_edge ::
  "(string \<times> option_quote) list \<Rightarrow> version_index \<Rightarrow> mapping_index \<Rightarrow> point_in_time_query \<Rightarrow> option_quote
   \<Rightarrow> (string \<times> string) result" where
  "correction_edge quote_index versions mappings query source =
     (let source_id = oq_event_id source in
      rbind (lift_opt (KeyError source_id) (oq_supersedes_event_id source)) (\<lambda>target_id.
      rbind (guard (target_id = source_id)
               (correction_error (''correction event '' @ source_id @ '' cannot supersede itself''))) (\<lambda>_.
      let missing = correction_error (''correction event '' @ source_id @ '' has no eligible target '' @ target_id) in
      rbind (lift_opt missing (map_of quote_index target_id)) (\<lambda>target.
      rbind (quote_is_historically_eligible versions mappings query target) (\<lambda>eligible.
      rbind (guard (\<not> eligible) missing) (\<lambda>_.
      rbind (guard (oq_contract_id source \<noteq> oq_contract_id target)
               (correction_error (''correction event '' @ source_id @ '' targets a different economic contract'')))
        (\<lambda>_.
      rbind (guard (ne_event_type (oq_identity source) \<noteq> ne_event_type (oq_identity target))
               (correction_error (''correction event '' @ source_id @ '' targets a different event type''))) (\<lambda>_.
      Inr (source_id, target_id)))))))))"

definition ambiguous_targets :: "(string \<times> string) list \<Rightarrow> string list" where
  "ambiguous_targets edges =
     sort (filter (\<lambda>t. 1 < length (filter (\<lambda>e. snd e = t) edges)) (remdups (map snd edges)))"

fun follow_corrections :: "nat \<Rightarrow> (string \<times> string) list \<Rightarrow> string list \<Rightarrow> string \<Rightarrow> unit result" where
  "follow_corrections fuel edges path current =
     (case map_of edges current of
        None \<Rightarrow> Inr ()
      | Some next_id \<Rightarrow>
          (case fuel of
             0 \<Rightarrow> Inl (NamedError ''Diverges'' '''')
           | Suc fuel' \<Rightarrow>
               rbind (guard (current \<in> set path)
                        (correction_error (''correction graph contains a cycle at event '' @ current))) (\<lambda>_.
               follow_corrections fuel' edges (current # path) next_id)))"

declare follow_corrections.simps [simp del]

definition resolve_correction_graph ::
  "option_quote list \<Rightarrow> (string \<times> option_quote) list \<Rightarrow> version_index \<Rightarrow> mapping_index \<Rightarrow> point_in_time_query
   \<Rightarrow> string list result" where
  "resolve_correction_graph visible_quotes quote_index versions mappings query =
     (let corrections = sort_key oq_event_id (filter (\<lambda>q. oq_supersedes_event_id q \<noteq> None) visible_quotes) in
      rbind (rmap (correction_edge quote_index versions mappings query) corrections) (\<lambda>edges.
      rbind (case ambiguous_targets edges of
               [] \<Rightarrow> Inr ()
             | t # _ \<Rightarrow> Inl (correction_error (''ambiguous correction branch for target '' @ t))) (\<lambda>_.
      rbind (rmap (follow_corrections (Suc (length edges)) edges []) (sort (map fst edges))) (\<lambda>_.
      Inr (map snd edges)))))"

section \<open>The chain\<close>

definition quote_order :: "option_quote \<Rightarrow> int \<times> int \<times> int \<times> int \<times> int \<times> string" where
  "quote_order q =
     (let e = oq_event_time q in
      (instant (et_exchange_timestamp e),
       (case oq_provider_sequence q of None \<Rightarrow> -1 | Some n \<Rightarrow> n),
       (case oq_event_order q of None \<Rightarrow> -1 | Some n \<Rightarrow> n),
       instant (case et_received_at e of None \<Rightarrow> et_available_at e | Some r \<Rightarrow> r),
       instant (et_available_at e), oq_event_id q))"

definition keep_latest :: "option_quote \<Rightarrow> (string \<times> option_quote) list \<Rightarrow> (string \<times> option_quote) list" where
  "keep_latest q latest =
     (case map_of latest (oq_contract_id q) of
        None \<Rightarrow> AList.update (oq_contract_id q) q latest
      | Some current \<Rightarrow>
          if quote_order current < quote_order q then AList.update (oq_contract_id q) q latest else latest)"

definition chain_position :: "option_quote \<Rightarrow> int \<times> decimal \<times> string" where
  "chain_position q =
     (oi_expiry (oq_contract q), oi_strike (oq_contract q), option_side_value (oi_option_side (oq_contract q)))"

definition latest_by_contract :: "option_quote list \<Rightarrow> (string \<times> option_quote) list" where
  "latest_by_contract quotes = fold keep_latest quotes []"

definition identity_conflict :: "string \<Rightarrow> string \<Rightarrow> py_error" where
  "identity_conflict label item_id =
     NamedError ''ConflictingSemanticIdentityError'' (''conflicting '' @ label @ '' records share identity '' @ item_id)"

definition unique_index :: "string \<Rightarrow> ('a \<Rightarrow> string) \<Rightarrow> 'a list \<Rightarrow> (string \<times> 'a) list result" where
  "unique_index label key items = rfold (put_unique key (identity_conflict label)) items []"

definition reconstruct_option_chain ::
  "option_quote list \<Rightarrow> (string \<times> contract_version) list \<Rightarrow> (string \<times> provider_contract_mapping) list
   \<Rightarrow> quality_assessment list \<Rightarrow> point_in_time_query \<Rightarrow> option_quote list result" where
  "reconstruct_option_chain quotes contract_versions provider_mappings quality_assessments query =
     rbind (unique_index ''contract version'' fst contract_versions) (\<lambda>version_items.
     rbind (unique_index ''provider mapping'' fst provider_mappings) (\<lambda>mapping_items.
     rbind (unique_index ''normalized event'' oq_event_id quotes) (\<lambda>quote_index.
     let versions = map snd version_items; mappings = map snd mapping_items in
     rbind (rfilter (quote_is_visible versions mappings quality_assessments query) (map snd quote_index))
       (\<lambda>visible.
     rbind (resolve_correction_graph visible quote_index versions mappings query) (\<lambda>superseded_ids.
     Inr (sort_key chain_position
            (map snd (latest_by_contract (filter (\<lambda>q. oq_event_id q \<notin> set superseded_ids) visible)))))))))"

end
