(* ===== verification/Lifecycle.thy ===== *)
theory Lifecycle
  imports PointInTime "HOL-Library.Sublist"
begin

text \<open>
  \<open>app/market_data/normalization/lifecycle.py\<close>: the life cycle of a provider connection and of its
  subscriptions. Raw events are validated one by one (\<open>make_...\<close> is construction with
  \<open>__post_init__\<close>), normalized into observations, and validated as sequences.

  An observation carries the raw event it repeats field by field. The sequence validators read only
  those fields, so they are modelled on raw events. \<open>provider_sequence\<close> is always \<open>None\<close>, by its type.
  Dictionaries of the validators are maps.
\<close>

section \<open>States and transitions\<close>

datatype connection_state =
  ConnConnecting | ConnConnected | ConnAuthorized | ConnClosing | ConnClosed | ConnReconnecting | ConnFailed

datatype subscription_state =
  SubscribeRequested | Subscribed | ModeChangeRequested | ModeChanged | UnsubscribeRequested | Unsubscribed
  | SubscriptionFailed

datatype provider_request_mode = ModeLtpc | ModeFullD5 | ModeOptionGreeks | ModeFullD30

fun mode_instrument_limit :: "provider_request_mode \<Rightarrow> nat" where
  "mode_instrument_limit ModeLtpc = 5000"
| "mode_instrument_limit ModeOptionGreeks = 3000"
| "mode_instrument_limit ModeFullD5 = 2000"
| "mode_instrument_limit ModeFullD30 = 50"

fun connection_transitions :: "connection_state option \<Rightarrow> connection_state set" where
  "connection_transitions None = {ConnConnecting}"
| "connection_transitions (Some ConnConnecting) = {ConnConnected, ConnFailed, ConnClosing}"
| "connection_transitions (Some ConnConnected) = {ConnAuthorized, ConnClosing, ConnFailed}"
| "connection_transitions (Some ConnAuthorized) = {ConnClosing, ConnReconnecting, ConnFailed}"
| "connection_transitions (Some ConnReconnecting) = {ConnClosing, ConnFailed}"
| "connection_transitions (Some ConnClosing) = {ConnClosed, ConnFailed}"
| "connection_transitions (Some ConnFailed) = {ConnReconnecting, ConnClosing, ConnClosed}"
| "connection_transitions (Some ConnClosed) = {}"

fun subscription_transitions :: "subscription_state option \<Rightarrow> subscription_state set" where
  "subscription_transitions None = {SubscribeRequested}"
| "subscription_transitions (Some SubscribeRequested) = {Subscribed, SubscriptionFailed}"
| "subscription_transitions (Some Subscribed) = {ModeChangeRequested, UnsubscribeRequested, SubscriptionFailed}"
| "subscription_transitions (Some ModeChangeRequested) = {ModeChanged, SubscriptionFailed}"
| "subscription_transitions (Some ModeChanged) = {ModeChangeRequested, UnsubscribeRequested, SubscriptionFailed}"
| "subscription_transitions (Some UnsubscribeRequested) = {Unsubscribed, SubscriptionFailed}"
| "subscription_transitions (Some Unsubscribed) = {}"
| "subscription_transitions (Some SubscriptionFailed) = {}"

section \<open>Instrument sets\<close>

definition MAX_SUBSCRIPTION_INSTRUMENT_KEYS :: nat where
  "MAX_SUBSCRIPTION_INSTRUMENT_KEYS = 5000"

record instrument_set =
  is_keys :: "string list"
  is_digest :: string
  is_count :: nat

definition make_instrument_set :: "(string \<Rightarrow> string) \<Rightarrow> string list \<Rightarrow> instrument_set result" where
  "make_instrument_set sha256 keys =
     rbind (guard (keys = []) (ValueError ''subscription instrument set must not be empty'')) (\<lambda>_.
     rbind (guard (MAX_SUBSCRIPTION_INSTRUMENT_KEYS < length keys)
              (ValueError ''too_many_subscription_instrument_keys'')) (\<lambda>_.
     rbind (rmap validate_provider_contract_key keys) (\<lambda>_.
     rbind (guard (\<not> distinct keys) (ValueError ''duplicate_instrument_key'')) (\<lambda>_.
     let canonical = sort keys in
     rbind (stable_hash sha256 (str_dict
              [(''entity'', PStr ''provider_subscription_instrument_keys_v1''),
               (''provider_contract_keys'', PList (map PStr canonical))])) (\<lambda>digest.
     Inr \<lparr>is_keys = canonical, is_digest = digest, is_count = length canonical\<rparr>)))))"

definition instrument_keys_digest :: "(string \<Rightarrow> string) \<Rightarrow> string list \<Rightarrow> string result" where
  "instrument_keys_digest sha256 keys = rbind (make_instrument_set sha256 keys) (\<lambda>s. Inr (is_digest s))"

section \<open>Checks the events share\<close>

text \<open>\<open>[a-z0-9]+(?:_[a-z0-9]+)*\<close>, matched in full.\<close>

definition reason_char :: "char \<Rightarrow> bool" where
  "reason_char c = (let n = of_char c :: nat in (97 \<le> n \<and> n \<le> 122) \<or> (48 \<le> n \<and> n \<le> 57))"

fun matches_reason :: "bool \<Rightarrow> string \<Rightarrow> bool" where
  "matches_reason in_part [] = in_part"
| "matches_reason in_part (c # cs) =
     (if reason_char c then matches_reason True cs else in_part \<and> c = CHR ''_'' \<and> matches_reason False cs)"

definition SENSITIVE_REASON_PARTS :: "string list" where
  "SENSITIVE_REASON_PARTS =
     [''token'', ''url'', ''traceback'', ''socket'', ''account'', ''user_id'', ''exception'']"

definition contains_text :: "string \<Rightarrow> string \<Rightarrow> bool" where
  "contains_text part value = list_ex (prefix part) (suffixes value)"

definition validate_reason :: "bool \<Rightarrow> string option \<Rightarrow> unit result" where
  "validate_reason required value =
     rbind (guard (required \<and> value = None) (ValueError ''redacted_reason_code is required for failure'')) (\<lambda>_.
     rbind (guard (\<not> required \<and> value \<noteq> None) (ValueError ''redacted_reason_code is only valid for failure''))
       (\<lambda>_.
     case value of
       None \<Rightarrow> Inr ()
     | Some reason \<Rightarrow>
         rbind (validate_redacted_reason_code_size reason) (\<lambda>_.
         guard (\<not> matches_reason False reason \<or> list_ex (\<lambda>part. contains_text part reason) SENSITIVE_REASON_PARTS)
           (ValueError ''redacted_reason_code must be controlled and redacted''))))"

record event_origin =
  eo_provider :: string
  eo_connection_session_id :: string
  eo_source_order_scope_id :: string
  eo_source_order :: int
  eo_occurred_at :: pydatetime
  eo_available_at :: pydatetime
  eo_recorded_at :: pydatetime

definition validate_common :: "event_origin \<Rightarrow> event_origin result" where
  "validate_common e =
     rbind (validate_opaque_identifier (eo_provider e) ''provider'') (\<lambda>_.
     rbind (validate_opaque_identifier (eo_connection_session_id e) ''connection_session_id'') (\<lambda>_.
     rbind (validate_opaque_identifier (eo_source_order_scope_id e) ''source_order_scope_id'') (\<lambda>_.
     rbind (validate_source_order (eo_source_order e)) (\<lambda>_.
     rbind (to_utc (eo_occurred_at e) ''occurred_at'') (\<lambda>occurred.
     rbind (to_utc (eo_available_at e) ''available_at'') (\<lambda>available.
     rbind (to_utc (eo_recorded_at e) ''recorded_at'') (\<lambda>recorded.
     rbind (guard (earlier available occurred) (ValueError ''available_at cannot precede occurred_at'')) (\<lambda>_.
     rbind (guard (earlier recorded available) (ValueError ''recorded_at cannot precede available_at'')) (\<lambda>_.
     Inr (e\<lparr>eo_occurred_at := occurred, eo_available_at := available, eo_recorded_at := recorded\<rparr>))))))))))"

definition NORMALIZATION_SCHEMA_VERSION :: int where
  "NORMALIZATION_SCHEMA_VERSION = 1"

definition NORMALIZER_IMPLEMENTATION_VERSION :: string where
  "NORMALIZER_IMPLEMENTATION_VERSION = ''upstox-v3-normalizer-1''"

text \<open>The fields every observation adds to its raw event.\<close>

record normalized_header =
  nh_identity :: normalized_event_identity
  nh_raw_event_id :: string
  nh_schema_version :: int
  nh_implementation_version :: string

definition validate_normalized :: "normalized_header \<Rightarrow> string \<Rightarrow> string \<Rightarrow> string \<Rightarrow> unit result" where
  "validate_normalized h raw_id subject_id event_type =
     rbind (guard (nh_raw_event_id h \<noteq> raw_id \<or> ne_raw_event_id (nh_identity h) \<noteq> raw_id)
              (ValueError ''normalized lifecycle raw identity mismatch'')) (\<lambda>_.
     rbind (guard (ne_subject_id (nh_identity h) \<noteq> subject_id \<or> ne_event_type (nh_identity h) \<noteq> event_type)
              (ValueError ''normalized lifecycle identity mismatch'')) (\<lambda>_.
     rbind (guard (nh_schema_version h \<noteq> NORMALIZATION_SCHEMA_VERSION)
              (ValueError ''unsupported normalization schema version'')) (\<lambda>_.
     rbind (guard (ne_schema_version (nh_identity h) \<noteq> nh_schema_version h)
              (ValueError ''lifecycle identity schema version mismatch'')) (\<lambda>_.
     guard (nh_implementation_version h \<noteq> NORMALIZER_IMPLEMENTATION_VERSION)
       (ValueError ''normalizer implementation semantics mismatch'')))))"

definition normalized_header_for ::
  "(string \<Rightarrow> string) \<Rightarrow> string \<Rightarrow> string \<Rightarrow> string \<Rightarrow> normalized_header result" where
  "normalized_header_for sha256 raw_id event_type subject_id =
     rbind (make_normalized_identity sha256 raw_id event_type subject_id NORMALIZATION_SCHEMA_VERSION) (\<lambda>identity.
     Inr \<lparr>nh_identity = identity, nh_raw_event_id = raw_id, nh_schema_version = NORMALIZATION_SCHEMA_VERSION,
          nh_implementation_version = NORMALIZER_IMPLEMENTATION_VERSION\<rparr>)"

section \<open>Connections\<close>

record connection_event =
  ce_origin :: event_origin
  ce_previous_state :: "connection_state option"
  ce_state :: connection_state
  ce_reason :: "string option"

definition make_connection_event :: "connection_event \<Rightarrow> connection_event result" where
  "make_connection_event e =
     rbind (validate_common (ce_origin e)) (\<lambda>origin.
     rbind (guard (ce_state e \<notin> connection_transitions (ce_previous_state e))
              (ValueError ''invalid_connection_lifecycle_transition'')) (\<lambda>_.
     rbind (validate_reason (ce_state e = ConnFailed) (ce_reason e)) (\<lambda>_.
     Inr (e\<lparr>ce_origin := origin\<rparr>))))"

definition connection_raw_id :: "(string \<Rightarrow> string) \<Rightarrow> connection_event \<Rightarrow> string result" where
  "connection_raw_id sha256 e =
     (let og = ce_origin e in
      stable_hash sha256 (str_dict
        [(''entity'', PStr ''raw_provider_connection_lifecycle_event_v1''), (''provider'', PStr (eo_provider og)),
         (''connection_session_id'', PStr (eo_connection_session_id og)),
         (''source_order_scope_id'', PStr (eo_source_order_scope_id og)),
         (''source_order'', PInt (eo_source_order og)), (''lifecycle_kind'', PStr ''connection'')]))"

record connection_observation =
  co_header :: normalized_header
  co_event :: connection_event

definition CONNECTION_EVENT_TYPE :: string where
  "CONNECTION_EVENT_TYPE = ''provider_connection_lifecycle_observation''"

definition make_connection_observation ::
  "(string \<Rightarrow> string) \<Rightarrow> connection_observation \<Rightarrow> connection_observation result" where
  "make_connection_observation sha256 ob =
     rbind (make_connection_event (co_event ob)) (\<lambda>raw.
     rbind (connection_raw_id sha256 raw) (\<lambda>raw_id.
     rbind (validate_normalized (co_header ob) raw_id (eo_connection_session_id (ce_origin raw))
              CONNECTION_EVENT_TYPE) (\<lambda>_.
     Inr (ob\<lparr>co_event := raw\<rparr>))))"

definition normalize_connection_lifecycle ::
  "(string \<Rightarrow> string) \<Rightarrow> connection_event \<Rightarrow> connection_observation result" where
  "normalize_connection_lifecycle sha256 raw =
     rbind (connection_raw_id sha256 raw) (\<lambda>raw_id.
     rbind (normalized_header_for sha256 raw_id CONNECTION_EVENT_TYPE (eo_connection_session_id (ce_origin raw)))
       (\<lambda>header.
     make_connection_observation sha256 \<lparr>co_header = header, co_event = raw\<rparr>))"

section \<open>Subscriptions\<close>

record subscription_event =
  se_origin :: event_origin
  se_subscription_scope_id :: string
  se_previous_state :: "subscription_state option"
  se_state :: subscription_state
  se_request_mode :: "provider_request_mode option"
  se_instrument_set :: instrument_set
  se_reason :: "string option"

definition make_subscription_event :: "subscription_event \<Rightarrow> subscription_event result" where
  "make_subscription_event e =
     rbind (validate_common (se_origin e)) (\<lambda>origin.
     rbind (validate_opaque_identifier (se_subscription_scope_id e) ''subscription_scope_id'') (\<lambda>_.
     rbind (guard (case se_request_mode e of None \<Rightarrow> False
                   | Some mode \<Rightarrow> mode_instrument_limit mode < is_count (se_instrument_set e))
              (ValueError ''subscription_request_mode_instrument_limit_exceeded'')) (\<lambda>_.
     rbind (guard (se_state e \<notin> subscription_transitions (se_previous_state e))
              (ValueError ''invalid_subscription_lifecycle_transition'')) (\<lambda>_.
     rbind (guard (se_state e \<in> {SubscribeRequested, Subscribed, ModeChangeRequested, ModeChanged}
                \<and> se_request_mode e = None)
              (ValueError ''subscription request mode is required'')) (\<lambda>_.
     rbind (validate_reason (se_state e = SubscriptionFailed) (se_reason e)) (\<lambda>_.
     Inr (e\<lparr>se_origin := origin\<rparr>)))))))"

definition subscription_subject_id :: "(string \<Rightarrow> string) \<Rightarrow> subscription_event \<Rightarrow> string result" where
  "subscription_subject_id sha256 e =
     stable_hash sha256 (str_dict
       [(''entity'', PStr ''provider_subscription''), (''provider'', PStr (eo_provider (se_origin e))),
        (''connection_session_id'', PStr (eo_connection_session_id (se_origin e))),
        (''subscription_scope_id'', PStr (se_subscription_scope_id e))])"

definition subscription_raw_id :: "(string \<Rightarrow> string) \<Rightarrow> subscription_event \<Rightarrow> string result" where
  "subscription_raw_id sha256 e =
     (let og = se_origin e in
      stable_hash sha256 (str_dict
        [(''entity'', PStr ''raw_provider_subscription_lifecycle_event_v1''), (''provider'', PStr (eo_provider og)),
         (''connection_session_id'', PStr (eo_connection_session_id og)),
         (''subscription_scope_id'', PStr (se_subscription_scope_id e)),
         (''source_order_scope_id'', PStr (eo_source_order_scope_id og)),
         (''source_order'', PInt (eo_source_order og)), (''lifecycle_kind'', PStr ''subscription'')]))"

record subscription_observation =
  so_header :: normalized_header
  so_event :: subscription_event

definition SUBSCRIPTION_EVENT_TYPE :: string where
  "SUBSCRIPTION_EVENT_TYPE = ''provider_subscription_lifecycle_observation''"

definition make_subscription_observation ::
  "(string \<Rightarrow> string) \<Rightarrow> subscription_observation \<Rightarrow> subscription_observation result" where
  "make_subscription_observation sha256 ob =
     rbind (make_subscription_event (so_event ob)) (\<lambda>raw.
     rbind (subscription_raw_id sha256 raw) (\<lambda>raw_id.
     rbind (subscription_subject_id sha256 raw) (\<lambda>subject_id.
     rbind (validate_normalized (so_header ob) raw_id subject_id SUBSCRIPTION_EVENT_TYPE) (\<lambda>_.
     Inr (ob\<lparr>so_event := raw\<rparr>)))))"

definition normalize_subscription_lifecycle ::
  "(string \<Rightarrow> string) \<Rightarrow> subscription_event \<Rightarrow> subscription_observation result" where
  "normalize_subscription_lifecycle sha256 raw =
     rbind (subscription_raw_id sha256 raw) (\<lambda>raw_id.
     rbind (subscription_subject_id sha256 raw) (\<lambda>subject_id.
     rbind (normalized_header_for sha256 raw_id SUBSCRIPTION_EVENT_TYPE subject_id) (\<lambda>header.
     make_subscription_observation sha256 \<lparr>so_header = header, so_event = raw\<rparr>)))"

section \<open>Sequences\<close>

record connection_tracker =
  ct_session_scopes :: "string \<rightharpoonup> string"
  ct_scope_sessions :: "string \<rightharpoonup> string"
  ct_scope_orders :: "string \<rightharpoonup> int"
  ct_previous :: "connection_event option"

definition no_connections :: connection_tracker where
  "no_connections = \<lparr>ct_session_scopes = Map.empty, ct_scope_sessions = Map.empty, ct_scope_orders = Map.empty,
     ct_previous = None\<rparr>"

abbreviation ce_session :: "connection_event \<Rightarrow> string" where
  "ce_session e \<equiv> eo_connection_session_id (ce_origin e)"
abbreviation ce_scope :: "connection_event \<Rightarrow> string" where
  "ce_scope e \<equiv> eo_source_order_scope_id (ce_origin e)"
abbreviation ce_order :: "connection_event \<Rightarrow> int" where
  "ce_order e \<equiv> eo_source_order (ce_origin e)"
abbreviation ce_provider :: "connection_event \<Rightarrow> string" where
  "ce_provider e \<equiv> eo_provider (ce_origin e)"

definition invalid_connection_sequence :: py_error where
  "invalid_connection_sequence = ValueError ''invalid_connection_lifecycle_sequence''"

definition check_connection_event :: "connection_event \<Rightarrow> connection_tracker \<Rightarrow> connection_tracker result" where
  "check_connection_event current t =
     (let bound_scope = ct_session_scopes t (ce_session current);
          bound_session = ct_scope_sessions t (ce_scope current) in
      rbind (guard (case ct_previous t of None \<Rightarrow> False
                    | Some previous \<Rightarrow> ce_session current \<noteq> ce_session previous
                        \<and> (ce_state previous \<noteq> ConnReconnecting \<or> ce_previous_state current \<noteq> None
                            \<or> ce_state current \<noteq> ConnConnecting \<or> bound_scope \<noteq> None \<or> bound_session \<noteq> None))
               (ValueError ''invalid_connection_reconnect_sequence'')) (\<lambda>_.
      rbind (guard (bound_scope \<noteq> None \<and> bound_scope \<noteq> Some (ce_scope current)) invalid_connection_sequence) (\<lambda>_.
      rbind (guard (bound_session \<noteq> None \<and> bound_session \<noteq> Some (ce_session current)) invalid_connection_sequence)
        (\<lambda>_.
      rbind (guard (case ct_scope_orders t (ce_scope current) of None \<Rightarrow> False
                    | Some prior_order \<Rightarrow> ce_order current \<le> prior_order) invalid_connection_sequence) (\<lambda>_.
      rbind (guard (case ct_previous t of None \<Rightarrow> False
                    | Some previous \<Rightarrow> ce_session current = ce_session previous
                        \<and> ce_previous_state current \<noteq> Some (ce_state previous)) invalid_connection_sequence) (\<lambda>_.
      rbind (guard (case ct_previous t of None \<Rightarrow> False
                    | Some previous \<Rightarrow> ce_provider current \<noteq> ce_provider previous) invalid_connection_sequence)
        (\<lambda>_.
      Inr \<lparr>ct_session_scopes = (ct_session_scopes t)(ce_session current \<mapsto> ce_scope current),
           ct_scope_sessions = (ct_scope_sessions t)(ce_scope current \<mapsto> ce_session current),
           ct_scope_orders = (ct_scope_orders t)(ce_scope current \<mapsto> ce_order current),
           ct_previous = Some current\<rparr>)))))))"

definition validate_connection_lifecycle_sequence :: "connection_event list \<Rightarrow> unit result" where
  "validate_connection_lifecycle_sequence events =
     rbind (rfold check_connection_event events no_connections) (\<lambda>_. Inr ())"

definition subscription_modes_agree :: "subscription_event \<Rightarrow> subscription_event \<Rightarrow> bool" where
  "subscription_modes_agree previous current \<longleftrightarrow>
     (if se_state current \<in> {Subscribed, ModeChanged, SubscriptionFailed}
      then se_request_mode current = se_request_mode previous
      else if se_state current = Unsubscribed then se_request_mode current = se_request_mode previous
      else if se_state current = UnsubscribeRequested
      then se_request_mode current = None \<or> se_request_mode previous = None
        \<or> se_request_mode current = se_request_mode previous
      else True)"

record subscription_tracker =
  st_scope_events :: "string \<rightharpoonup> subscription_event"
  st_source_bindings :: "string \<rightharpoonup> string \<times> string"
  st_source_orders :: "string \<rightharpoonup> int"

definition no_subscriptions :: subscription_tracker where
  "no_subscriptions = \<lparr>st_scope_events = Map.empty, st_source_bindings = Map.empty, st_source_orders = Map.empty\<rparr>"

abbreviation se_scope :: "subscription_event \<Rightarrow> string" where
  "se_scope e \<equiv> se_subscription_scope_id e"
abbreviation se_source :: "subscription_event \<Rightarrow> string" where
  "se_source e \<equiv> eo_source_order_scope_id (se_origin e)"
abbreviation se_order :: "subscription_event \<Rightarrow> int" where
  "se_order e \<equiv> eo_source_order (se_origin e)"

definition se_binding :: "subscription_event \<Rightarrow> string \<times> string" where
  "se_binding e = (eo_provider (se_origin e), eo_connection_session_id (se_origin e))"

definition invalid_subscription_sequence :: py_error where
  "invalid_subscription_sequence = ValueError ''invalid_subscription_lifecycle_sequence''"

definition follows_subscription :: "subscription_event \<Rightarrow> subscription_event \<Rightarrow> bool" where
  "follows_subscription previous current \<longleftrightarrow>
     se_binding current = se_binding previous \<and> se_source current = se_source previous
     \<and> se_previous_state current = Some (se_state previous)
     \<and> se_instrument_set current = se_instrument_set previous \<and> subscription_modes_agree previous current"

definition starts_subscription :: "subscription_event \<Rightarrow> bool" where
  "starts_subscription current \<longleftrightarrow> se_previous_state current = None \<and> se_state current = SubscribeRequested"

definition check_subscription_event ::
  "subscription_event \<Rightarrow> subscription_tracker \<Rightarrow> subscription_tracker result" where
  "check_subscription_event current t =
     rbind (guard (case st_source_bindings t (se_source current) of None \<Rightarrow> False
                   | Some bound \<Rightarrow> bound \<noteq> se_binding current) invalid_subscription_sequence) (\<lambda>_.
     rbind (guard (case st_source_orders t (se_source current) of None \<Rightarrow> False
                   | Some prior_order \<Rightarrow> se_order current \<le> prior_order) invalid_subscription_sequence) (\<lambda>_.
     rbind (guard (case st_scope_events t (se_scope current) of
                     None \<Rightarrow> \<not> starts_subscription current
                   | Some previous \<Rightarrow> \<not> follows_subscription previous current) invalid_subscription_sequence) (\<lambda>_.
     Inr \<lparr>st_scope_events = (st_scope_events t)(se_scope current \<mapsto> current),
          st_source_bindings = (st_source_bindings t)(se_source current \<mapsto> se_binding current),
          st_source_orders = (st_source_orders t)(se_source current \<mapsto> se_order current)\<rparr>)))"

definition validate_subscription_lifecycle_sequence :: "subscription_event list \<Rightarrow> unit result" where
  "validate_subscription_lifecycle_sequence events =
     rbind (rfold check_subscription_event events no_subscriptions) (\<lambda>_. Inr ())"

section \<open>Batches\<close>

text \<open>Events are paired with their raw identifiers. The dictionary keeps the order of insertion.\<close>

record 'e identity_batch =
  ib_unique_events :: "(string \<times> 'e) list"
  ib_duplicates :: "string list"

definition add_to_batch :: "string \<times> 'e \<Rightarrow> 'e identity_batch \<Rightarrow> 'e identity_batch result" where
  "add_to_batch item b =
     (case map_of (ib_unique_events b) (fst item) of
        Some existing \<Rightarrow>
          rbind (guard (existing \<noteq> snd item) (NamedError ''ConflictingRawIdentityError'' (fst item))) (\<lambda>_.
          Inr (b\<lparr>ib_duplicates := List.insert (fst item) (ib_duplicates b)\<rparr>))
      | None \<Rightarrow> Inr (b\<lparr>ib_unique_events := ib_unique_events b @ [item]\<rparr>))"

definition validate_raw_lifecycle_identity_batch ::
  "(string \<times> 'e) list \<Rightarrow> ('e list \<times> string list) result" where
  "validate_raw_lifecycle_identity_batch events =
     rbind (guard (MAX_LIFECYCLE_EVENTS_PER_BATCH < length events) (ValueError ''too_many_lifecycle_events'')) (\<lambda>_.
     rbind (rfold add_to_batch events \<lparr>ib_unique_events = [], ib_duplicates = []\<rparr>) (\<lambda>b.
     Inr (map snd (ib_unique_events b), sort (ib_duplicates b))))"

end
