(* ===== verification/Subjects.thy ===== *)
theory Subjects
  imports Frames Lifecycle
begin

text \<open>
  Market subjects: the instrument a provider key stands for at a pair of cutoffs
  (\<open>ResolvedMarketSubjectV1\<close> in \<open>app/market_data/normalization/models.py\<close>), and
  \<open>app/market_data/normalization/ports.py\<close>: the answer of a subject resolver and the resolver that reads
  a fixed list.

  The port \<open>MarketSubjectResolver\<close> is the locale \<open>subject_resolver\<close>: what a resolver that is ready to
  serve promises about its answers. The static resolver of the source is its interpretation.
\<close>

section \<open>Subjects\<close>

datatype market_subject_kind = UnderlyingSubject | FutureSubject | OptionSubject

fun subject_kind_value :: "market_subject_kind \<Rightarrow> string" where
  "subject_kind_value UnderlyingSubject = ''underlying''"
| "subject_kind_value FutureSubject = ''future''"
| "subject_kind_value OptionSubject = ''option''"

datatype economic_identity =
    UnderlyingEconomy underlying_instrument_identity
  | FutureEconomy futures_contract_identity
  | OptionEconomy option_contract_identity

fun economic_id :: "(string \<Rightarrow> string) \<Rightarrow> economic_identity \<Rightarrow> string result" where
  "economic_id sha256 (UnderlyingEconomy u) = underlying_instrument_id sha256 u"
| "economic_id sha256 (FutureEconomy f) = futures_contract_id sha256 f"
| "economic_id sha256 (OptionEconomy c) = option_contract_id sha256 c"

record resolved_subject =
  rs_provider :: string
  rs_provider_contract_key :: string
  rs_provider_mapping_id :: string
  rs_provider_mapping :: provider_contract_mapping
  rs_contract_version_id :: string
  rs_economic_subject_id :: string
  rs_instrument_kind :: market_subject_kind
  rs_economic_identity :: economic_identity
  rs_contract_version :: contract_version
  rs_market_as_of :: pydatetime
  rs_known_as_of :: pydatetime

text \<open>The table of the identity and version classes each kind of subject expects.\<close>

fun kind_matches :: "market_subject_kind \<Rightarrow> economic_identity \<Rightarrow> version_kind \<Rightarrow> bool" where
  "kind_matches UnderlyingSubject (UnderlyingEconomy _) UnderlyingVersion = True"
| "kind_matches FutureSubject (FutureEconomy _) FuturesVersion = True"
| "kind_matches OptionSubject (OptionEconomy _) OptionVersion = True"
| "kind_matches _ _ _ = False"

definition make_subject :: "(string \<Rightarrow> string) \<Rightarrow> resolved_subject \<Rightarrow> resolved_subject result" where
  "make_subject sha256 s =
     rbind (require_text ''normalization text values must be non-empty''
              [rs_provider s, rs_provider_contract_key s, rs_provider_mapping_id s, rs_contract_version_id s,
               rs_economic_subject_id s]) (\<lambda>_.
     rbind (validate_opaque_identifier (rs_provider s) ''provider'') (\<lambda>_.
     rbind (validate_provider_contract_key (rs_provider_contract_key s)) (\<lambda>_.
     rbind (to_utc (rs_market_as_of s) ''resolution_market_as_of'') (\<lambda>market.
     rbind (to_utc (rs_known_as_of s) ''resolution_known_as_of'') (\<lambda>known.
     rbind (guard (\<not> kind_matches (rs_instrument_kind s) (rs_economic_identity s) (cv_kind (rs_contract_version s)))
              (ValueError ''subject kind does not match identity and version'')) (\<lambda>_.
     rbind (economic_id sha256 (rs_economic_identity s)) (\<lambda>identity_id.
     rbind (guard (identity_id \<noteq> rs_economic_subject_id s \<or> cv_subject_id (rs_contract_version s) \<noteq> identity_id)
              (ValueError ''subject economic identity mismatch'')) (\<lambda>_.
     rbind (version_id sha256 (rs_contract_version s)) (\<lambda>version.
     rbind (guard (version \<noteq> rs_contract_version_id s) (ValueError ''contract version identity mismatch'')) (\<lambda>_.
     rbind (mapping_id sha256 (rs_provider_mapping s)) (\<lambda>mapping.
     rbind (guard (mapping \<noteq> rs_provider_mapping_id s) (ValueError ''provider mapping identity mismatch'')) (\<lambda>_.
     rbind (guard (pm_provider (rs_provider_mapping s) \<noteq> rs_provider s)
              (ValueError ''provider mapping provider mismatch'')) (\<lambda>_.
     rbind (guard (pm_provider_contract_key (rs_provider_mapping s) \<noteq> rs_provider_contract_key s)
              (ValueError ''provider mapping key mismatch'')) (\<lambda>_.
     rbind (guard (pm_contract_version_id (rs_provider_mapping s) \<noteq> rs_contract_version_id s)
              (ValueError ''provider mapping version mismatch'')) (\<lambda>_.
     rbind (mapping_effective_at (rs_provider_mapping s) market (Some known)) (\<lambda>mapping_ok.
     rbind (guard (\<not> mapping_ok) (ValueError ''stale_provider_mapping'')) (\<lambda>_.
     rbind (metadata_effective_at (cv_metadata (rs_contract_version s)) market (Some known)) (\<lambda>version_ok.
     rbind (guard (\<not> version_ok) (ValueError ''stale_contract_version'')) (\<lambda>_.
     Inr (s\<lparr>rs_market_as_of := market, rs_known_as_of := known\<rparr>))))))))))))))))))))"

section \<open>Answers of a resolver\<close>

datatype subject_failure_reason =
  UnknownProviderKey | StaleProviderMapping | AmbiguousProviderMapping | AmbiguousContractVersion

fun failure_reason_value :: "subject_failure_reason \<Rightarrow> string" where
  "failure_reason_value UnknownProviderKey = ''unknown_provider_key''"
| "failure_reason_value StaleProviderMapping = ''stale_provider_mapping''"
| "failure_reason_value AmbiguousProviderMapping = ''ambiguous_provider_mapping''"
| "failure_reason_value AmbiguousContractVersion = ''ambiguous_contract_version''"

record subject_failure =
  sf_key :: string
  sf_reason :: subject_failure_reason

definition make_subject_failure :: "string \<Rightarrow> subject_failure_reason \<Rightarrow> subject_failure result" where
  "make_subject_failure key reason =
     rbind (validate_provider_contract_key key) (\<lambda>_. Inr \<lparr>sf_key = key, sf_reason = reason\<rparr>)"

record resolution_batch =
  rb_resolved :: "resolved_subject list"
  rb_failures :: "subject_failure list"

definition make_resolution_batch ::
  "resolved_subject list \<Rightarrow> subject_failure list \<Rightarrow> resolution_batch result" where
  "make_resolution_batch resolved failures =
     (let resolved_keys = map rs_provider_contract_key resolved; failure_keys = map sf_key failures in
      rbind (guard (resolved_keys \<noteq> sorted_unique resolved_keys)
               (ValueError ''resolved subjects must be unique and sorted'')) (\<lambda>_.
      rbind (guard (failure_keys \<noteq> sorted_unique failure_keys)
               (ValueError ''subject failures must be unique and sorted'')) (\<lambda>_.
      rbind (guard (list_ex (\<lambda>k. k \<in> set failure_keys) resolved_keys)
               (ValueError ''a subject cannot be both resolved and failed'')) (\<lambda>_.
      Inr \<lparr>rb_resolved = resolved, rb_failures = failures\<rparr>))))"

definition subject_for :: "resolution_batch \<Rightarrow> string \<Rightarrow> resolved_subject option" where
  "subject_for b = map_of (zip (map rs_provider_contract_key (rb_resolved b)) (rb_resolved b))"

definition failure_for :: "resolution_batch \<Rightarrow> string \<Rightarrow> subject_failure option" where
  "failure_for b = map_of (zip (map sf_key (rb_failures b)) (rb_failures b))"

definition batch_keys :: "resolution_batch \<Rightarrow> string list" where
  "batch_keys b = sort (map rs_provider_contract_key (rb_resolved b) @ map sf_key (rb_failures b))"

section \<open>The static resolver\<close>

type_synonym static_resolver = "(string \<times> resolved_subject) list"

definition make_static_resolver :: "resolved_subject list \<Rightarrow> static_resolver result" where
  "make_static_resolver subjects =
     (let by_key = foldl (\<lambda>d s. AList.update (rs_provider_contract_key s) s d) [] subjects in
      rbind (guard (length by_key \<noteq> length subjects) (ValueError ''static subject keys must be unique'')) (\<lambda>_.
      Inr by_key))"

definition resolve_key ::
  "static_resolver \<Rightarrow> string \<Rightarrow> pydatetime \<Rightarrow> pydatetime \<Rightarrow> string
   \<Rightarrow> resolved_subject list \<times> subject_failure list \<Rightarrow> (resolved_subject list \<times> subject_failure list) result" where
  "resolve_key subjects provider market_cutoff knowledge_cutoff key acc =
     (let fail = (\<lambda>reason. rbind (make_subject_failure key reason) (\<lambda>f. Inr (fst acc, snd acc @ [f]))) in
      case map_of subjects key of
        None \<Rightarrow> fail UnknownProviderKey
      | Some subject \<Rightarrow>
          if rs_provider subject \<noteq> provider then fail UnknownProviderKey
          else if instant (rs_market_as_of subject) \<noteq> instant market_cutoff
            \<or> instant (rs_known_as_of subject) \<noteq> instant knowledge_cutoff
          then fail StaleProviderMapping
          else Inr (fst acc @ [subject], snd acc))"

definition static_resolve_many ::
  "static_resolver \<Rightarrow> string \<Rightarrow> string list \<Rightarrow> pydatetime \<Rightarrow> pydatetime \<Rightarrow> resolution_batch result" where
  "static_resolve_many subjects provider keys market_as_of known_as_of =
     rbind (to_utc market_as_of ''market_as_of'') (\<lambda>market_cutoff.
     rbind (to_utc known_as_of ''known_as_of'') (\<lambda>knowledge_cutoff.
     rbind (rfold (resolve_key subjects provider market_cutoff knowledge_cutoff) (sorted_unique keys) ([], [])) (\<lambda>acc.
     make_resolution_batch (fst acc) (snd acc))))"

section \<open>What a batch answers\<close>

lemma make_subject_made:
  assumes "make_subject sha256 s0 = Inr s"
  shows "make_subject sha256 s = Inr s" and "in_utc (rs_market_as_of s)" and "in_utc (rs_known_as_of s)"
proof -
  obtain m k where s: "s = s0\<lparr>rs_market_as_of := m, rs_known_as_of := k\<rparr>"
    and m: "to_utc (rs_market_as_of s0) ''resolution_market_as_of'' = Inr m"
    and k: "to_utc (rs_known_as_of s0) ''resolution_known_as_of'' = Inr k"
    using assms unfolding make_subject_def rbind_eq_Inr guard_eq_Inr by blast
  have u: "in_utc m" "in_utc k" using m k by (auto simp: result_simps)
  then show "in_utc (rs_market_as_of s)" "in_utc (rs_known_as_of s)" by (simp_all add: s)
  have "to_utc m f = Inr m" "to_utc k f = Inr k" for f using u by simp_all
  moreover have fields: "rs_provider s = rs_provider s0" "rs_provider_contract_key s = rs_provider_contract_key s0"
    "rs_provider_mapping_id s = rs_provider_mapping_id s0" "rs_provider_mapping s = rs_provider_mapping s0"
    "rs_contract_version_id s = rs_contract_version_id s0" "rs_economic_subject_id s = rs_economic_subject_id s0"
    "rs_instrument_kind s = rs_instrument_kind s0" "rs_economic_identity s = rs_economic_identity s0"
    "rs_contract_version s = rs_contract_version s0" "rs_market_as_of s = m" "rs_known_as_of s = k"
    by (simp_all add: s)
  moreover have upd: "s\<lparr>rs_market_as_of := m, rs_known_as_of := k\<rparr> = s" by (simp add: s)
  ultimately show "make_subject sha256 s = Inr s"
    using assms m k unfolding make_subject_def fields by (simp only: rbind_Inr upd s [symmetric])
qed

text \<open>What is checked of a subject that the normalizer relies on.\<close>

lemma subject_facts:
  assumes "make_subject sha256 s = Inr s'"
  shows "rs_provider s \<noteq> []" "strip (rs_economic_subject_id s) \<noteq> []" "strip (rs_provider_contract_key s) \<noteq> []"
    "strip (rs_provider_mapping_id s) \<noteq> []" "strip (rs_contract_version_id s) \<noteq> []" "strip (rs_provider s) \<noteq> []"
    "mapping_id sha256 (rs_provider_mapping s) = Inr (rs_provider_mapping_id s)"
    "version_id sha256 (rs_contract_version s) = Inr (rs_contract_version_id s)"
    "utf8_length (rs_provider s) \<le> MAX_OPAQUE_IDENTIFIER_BYTES"
  using assms by (auto simp: make_subject_def result_simps strip_def)

text \<open>A subject that was made, over records that were made: the constructors leave every time aware.\<close>

definition valid_subject :: "(string \<Rightarrow> string) \<Rightarrow> resolved_subject \<Rightarrow> bool" where
  "valid_subject sha256 s \<longleftrightarrow> make_subject sha256 s = Inr s
     \<and> (let m = cv_metadata (rs_contract_version s); p = rs_provider_mapping s in
        tz_aware (cm_recorded_at m) \<and> pred_option tz_aware (cm_superseded_at m)
        \<and> tz_aware (pm_recorded_at p) \<and> pred_option tz_aware (pm_superseded_at p))"

lemma valid_subjectD: "valid_subject sha256 s \<Longrightarrow> make_subject sha256 s = Inr s"
  by (simp add: valid_subject_def)

definition answers ::
  "(string \<Rightarrow> string) \<Rightarrow> string \<Rightarrow> string list \<Rightarrow> pydatetime \<Rightarrow> pydatetime \<Rightarrow> resolution_batch \<Rightarrow> bool" where
  "answers sha256 provider keys market_as_of known_as_of b \<longleftrightarrow>
     make_resolution_batch (rb_resolved b) (rb_failures b) = Inr b
     \<and> batch_keys b = sorted_unique keys
     \<and> list_all (\<lambda>s. valid_subject sha256 s \<and> rs_provider s = provider
         \<and> instant (rs_market_as_of s) = instant market_as_of
         \<and> instant (rs_known_as_of s) = instant known_as_of) (rb_resolved b)"

lemma sorted_unique_distinct: "xs = sorted_unique xs \<Longrightarrow> distinct xs"
  by (metis distinct_remdups distinct_sort sorted_unique_def)

lemma zip_keys: "zip (map f xs) xs = map (\<lambda>x. (f x, x)) xs"
  by (induction xs) auto

lemma map_of_zip_keys:
  assumes "distinct (map f xs)"
  shows "map_of (zip (map f xs) xs) k = Some x \<longleftrightarrow> x \<in> set xs \<and> f x = k"
proof -
  have "distinct (map fst (map (\<lambda>x. (f x, x)) xs))" using assms by (simp add: comp_def)
  then show ?thesis unfolding zip_keys by (auto simp: map_of_eq_Some_iff)
qed

text \<open>A valid batch gives each of its keys exactly one outcome.\<close>

lemma batch_outcome:
  assumes "make_resolution_batch resolved failures = Inr b"
  shows "subject_for b k = Some s \<longleftrightarrow> s \<in> set resolved \<and> rs_provider_contract_key s = k"
    and "failure_for b k = Some f \<longleftrightarrow> f \<in> set failures \<and> sf_key f = k"
    and "k \<in> set (batch_keys b) \<longleftrightarrow> (subject_for b k = None) \<noteq> (failure_for b k = None)"
    and "k \<notin> set (batch_keys b) \<Longrightarrow> subject_for b k = None \<and> failure_for b k = None"
proof -
  from assms have sorted: "map rs_provider_contract_key resolved = sorted_unique (map rs_provider_contract_key resolved)"
    "map sf_key failures = sorted_unique (map sf_key failures)"
    and disjoint: "\<not> list_ex (\<lambda>k. k \<in> set (map sf_key failures)) (map rs_provider_contract_key resolved)"
    and made: "Inr \<lparr>rb_resolved = resolved, rb_failures = failures\<rparr> = (Inr b :: resolution_batch result)"
    unfolding make_resolution_batch_def Let_def rbind_eq_Inr guard_eq_Inr by blast+
  have b: "b = \<lparr>rb_resolved = resolved, rb_failures = failures\<rparr>" using made by simp
  have d: "distinct (map rs_provider_contract_key resolved)" "distinct (map sf_key failures)"
    by (rule sorted_unique_distinct [OF sorted(1)], rule sorted_unique_distinct [OF sorted(2)])
  show s: "subject_for b k = Some s \<longleftrightarrow> s \<in> set resolved \<and> rs_provider_contract_key s = k" for s
    by (simp add: subject_for_def b map_of_zip_keys [OF d(1)])
  show f: "failure_for b k = Some f \<longleftrightarrow> f \<in> set failures \<and> sf_key f = k" for f
    by (simp add: failure_for_def b map_of_zip_keys [OF d(2)])
  have none: "subject_for b k = None \<longleftrightarrow> k \<notin> rs_provider_contract_key ` set resolved"
    "failure_for b k = None \<longleftrightarrow> k \<notin> sf_key ` set failures"
    by (simp_all add: subject_for_def failure_for_def b map_of_eq_None_iff zip_keys image_image)
  show "k \<in> set (batch_keys b) \<longleftrightarrow> (subject_for b k = None) \<noteq> (failure_for b k = None)"
    unfolding none using disjoint unfolding batch_keys_def b resolution_batch.select_convs list_ex_iff set_sort set_append
      set_map by blast
  show "k \<notin> set (batch_keys b) \<Longrightarrow> subject_for b k = None \<and> failure_for b k = None"
    unfolding none by (simp add: batch_keys_def b)
qed

section \<open>The port\<close>

text \<open>A resolver that is ready answers every request for valid keys at aware cutoffs, with one outcome
  per key and with subjects of the provider, resolved at the cutoffs.\<close>

locale subject_resolver =
  fixes sha256 :: "string \<Rightarrow> string"
    and resolve_many :: "'r \<Rightarrow> string \<Rightarrow> string list \<Rightarrow> pydatetime \<Rightarrow> pydatetime \<Rightarrow> resolution_batch result"
    and ready :: "'r \<Rightarrow> bool"
  assumes resolves:
    "ready r \<Longrightarrow> in_utc market \<Longrightarrow> in_utc known \<Longrightarrow>
     \<forall>k \<in> set keys. validate_provider_contract_key k = Inr k \<Longrightarrow>
     \<exists>b. resolve_many r provider keys market known = Inr b \<and> answers sha256 provider keys market known b"
begin

lemma every_key_has_one_outcome:
  assumes "ready r" and "in_utc market" and "in_utc known"
    and "\<forall>k \<in> set keys. validate_provider_contract_key k = Inr k"
  obtains b where "resolve_many r provider keys market known = Inr b"
    and "answers sha256 provider keys market known b"
    and "\<forall>k \<in> set keys. (subject_for b k = None) \<noteq> (failure_for b k = None)"
proof -
  obtain b where b: "resolve_many r provider keys market known = Inr b"
    and ok: "answers sha256 provider keys market known b"
    using resolves [OF assms] by blast
  have "\<forall>k \<in> set keys. k \<in> set (batch_keys b)" using ok by (simp add: answers_def)
  then have "\<forall>k \<in> set keys. (subject_for b k = None) \<noteq> (failure_for b k = None)"
    using batch_outcome(3) [OF ok [unfolded answers_def, THEN conjunct1]] by simp
  with b ok show thesis by (rule that)
qed

end

section \<open>The static resolver serves the port\<close>

definition static_ready :: "(string \<Rightarrow> string) \<Rightarrow> static_resolver \<Rightarrow> bool" where
  "static_ready sha256 r \<longleftrightarrow>
     (\<forall>(k, s) \<in> set r. rs_provider_contract_key s = k \<and> valid_subject sha256 s)"

text \<open>The outcome of one key.\<close>

definition static_subject ::
  "static_resolver \<Rightarrow> string \<Rightarrow> pydatetime \<Rightarrow> pydatetime \<Rightarrow> string \<Rightarrow> resolved_subject option" where
  "static_subject r provider market known key =
     (case map_of r key of
        None \<Rightarrow> None
      | Some s \<Rightarrow> if rs_provider s = provider \<and> instant (rs_market_as_of s) = instant market
            \<and> instant (rs_known_as_of s) = instant known then Some s else None)"

definition static_failure :: "static_resolver \<Rightarrow> string \<Rightarrow> string \<Rightarrow> subject_failure" where
  "static_failure r provider key =
     \<lparr>sf_key = key, sf_reason = (case map_of r key of
        None \<Rightarrow> UnknownProviderKey
      | Some s \<Rightarrow> if rs_provider s = provider then StaleProviderMapping else UnknownProviderKey)\<rparr>"

lemma resolve_key_step:
  assumes "validate_provider_contract_key k = Inr k"
  shows "resolve_key r provider market known k acc = Inr
    (case static_subject r provider market known k of
       Some s \<Rightarrow> (fst acc @ [s], snd acc) | None \<Rightarrow> (fst acc, snd acc @ [static_failure r provider k]))"
  using assms by (auto simp: resolve_key_def static_subject_def static_failure_def make_subject_failure_def Let_def
      split: option.splits)

lemma resolve_all_keys:
  assumes "\<forall>k \<in> set keys. validate_provider_contract_key k = Inr k"
  shows "rfold (resolve_key r provider market known) keys acc = Inr
    (fst acc @ List.map_filter (static_subject r provider market known) keys,
     snd acc @ map (static_failure r provider) (filter (\<lambda>k. static_subject r provider market known k = None) keys))"
  using assms
  by (induction keys arbitrary: acc) (auto simp: resolve_key_step map_filter_simps split: option.splits)

lemma static_subject_Some:
  assumes "static_ready sha256 r" and "static_subject r provider market known k = Some s"
  shows "rs_provider_contract_key s = k \<and> valid_subject sha256 s \<and> rs_provider s = provider
    \<and> instant (rs_market_as_of s) = instant market \<and> instant (rs_known_as_of s) = instant known"
  using assms by (auto simp: static_subject_def static_ready_def split: option.splits if_splits dest!: map_of_SomeD)

lemma resolved_keys:
  assumes "static_ready sha256 r"
  shows "map rs_provider_contract_key (List.map_filter (static_subject r provider market known) keys)
    = filter (\<lambda>k. static_subject r provider market known k \<noteq> None) keys"
  using static_subject_Some [OF assms] by (induction keys) (auto simp: map_filter_simps split: option.splits)

lemma failed_keys: "map sf_key (map (static_failure r provider) keys) = keys"
  by (induction keys) (auto simp: static_failure_def)

lemma batch_from_partition:
  assumes "map rs_provider_contract_key resolved = filter P ks" and "map sf_key failures = filter (\<lambda>k. \<not> P k) ks"
    and "sorted_wrt (<) ks"
  shows "make_resolution_batch resolved failures = Inr \<lparr>rb_resolved = resolved, rb_failures = failures\<rparr>"
    and "batch_keys \<lparr>rb_resolved = resolved, rb_failures = failures\<rparr> = ks"
proof -
  have "sorted_unique (filter Q ks) = filter Q ks" for Q
    using assms(3) by (simp add: sorted_unique_fixed sorted_wrt_filter)
  moreover have "\<not> list_ex (\<lambda>k. k \<in> set (filter (\<lambda>k. \<not> P k) ks)) (filter P ks)" by (auto simp: list_ex_iff)
  ultimately show "make_resolution_batch resolved failures = Inr \<lparr>rb_resolved = resolved, rb_failures = failures\<rparr>"
    unfolding make_resolution_batch_def Let_def assms(1,2) by simp
  have "distinct ks" using assms(3) by (simp add: strict_sorted_iff)
  then have "sort (filter P ks @ filter (\<lambda>k. \<not> P k) ks) = sorted_list_of_set (set ks)"
    by (subst sort_distinct) (auto intro: arg_cong [of _ _ sorted_list_of_set])
  also have "\<dots> = ks" using assms(3) by (simp add: strict_sorted_iff sorted_list_of_set.idem_if_sorted_distinct)
  finally show "batch_keys \<lparr>rb_resolved = resolved, rb_failures = failures\<rparr> = ks"
    unfolding batch_keys_def resolution_batch.select_convs assms(1,2) .
qed

lemma static_resolves:
  assumes ready: "static_ready sha256 r" and utc: "in_utc market" "in_utc known"
    and keys: "\<forall>k \<in> set keys. validate_provider_contract_key k = Inr k"
  shows "\<exists>b. static_resolve_many r provider keys market known = Inr b
    \<and> answers sha256 provider keys market known b
    \<and> (\<forall>k \<in> set keys. subject_for b k = static_subject r provider market known k
         \<and> failure_for b k = (if static_subject r provider market known k = None
             then Some (static_failure r provider k) else None))"
proof -
  let ?ks = "sorted_unique keys" and ?f = "static_subject r provider market known"
  let ?resolved = "List.map_filter ?f ?ks"
    and ?failures = "map (static_failure r provider) (filter (\<lambda>k. ?f k = None) ?ks)"
  let ?b = "\<lparr>rb_resolved = ?resolved, rb_failures = ?failures\<rparr>"
  have partition: "map rs_provider_contract_key ?resolved = filter (\<lambda>k. ?f k \<noteq> None) ?ks"
    "map sf_key ?failures = filter (\<lambda>k. \<not> ?f k \<noteq> None) ?ks"
    unfolding resolved_keys [OF ready] failed_keys by simp_all
  note made = batch_from_partition [OF partition sorted_unique_strict]
  have run: "rfold (resolve_key r provider market known) ?ks ([], []) = Inr (?resolved, ?failures)"
    by (subst resolve_all_keys) (use keys in simp_all)
  have resolves: "static_resolve_many r provider keys market known = Inr ?b"
    unfolding static_resolve_many_def to_utc_in_utc [OF utc(1)] to_utc_in_utc [OF utc(2)] rbind_Inr run fst_conv snd_conv
    by (rule made(1))
  have subject: "s \<in> set ?resolved \<longleftrightarrow> (\<exists>k \<in> set keys. ?f k = Some s)" for s
    by (auto simp: List.map_filter_def) force
  have "answers sha256 provider keys market known ?b"
    unfolding answers_def resolution_batch.select_convs
    using made subject static_subject_Some [OF ready] by (auto simp: list_all_iff)
  moreover have "subject_for ?b k = ?f k
      \<and> failure_for ?b k = (if ?f k = None then Some (static_failure r provider k) else None)"
    if k: "k \<in> set keys" for k
  proof (cases "?f k")
    case None
    have "failure_for ?b k = Some (static_failure r provider k)"
      unfolding batch_outcome(2) [OF made(1)] using None k by (auto simp: static_failure_def)
    moreover have "k \<in> set (batch_keys ?b)" using k by (simp add: made(2))
    ultimately have "subject_for ?b k = None" using batch_outcome(3) [OF made(1)] by simp
    with None \<open>failure_for ?b k = _\<close> show ?thesis by simp
  next
    case (Some s)
    have "subject_for ?b k = Some s"
      unfolding batch_outcome(1) [OF made(1)] subject using Some k static_subject_Some [OF ready Some] by blast
    moreover have "k \<in> set (batch_keys ?b)" using k by (simp add: made(2))
    ultimately have "failure_for ?b k = None" using batch_outcome(3) [OF made(1)] by simp
    with Some \<open>subject_for ?b k = _\<close> show ?thesis by simp
  qed
  ultimately show ?thesis using resolves by blast
qed

interpretation static_subjects: subject_resolver sha256 static_resolve_many "static_ready sha256" for sha256
  by unfold_locales (use static_resolves in blast)

text \<open>A resolver built from valid subjects is ready, and holds exactly those subjects.\<close>

lemma update_all_keys:
  assumes "distinct (map fst d)"
  shows "distinct (map fst (foldl (\<lambda>d x. AList.update (f x) x d) d xs))
    \<and> fst ` set (foldl (\<lambda>d x. AList.update (f x) x d) d xs) = fst ` set d \<union> f ` set xs"
  using assms by (induction xs arbitrary: d) (auto simp: distinct_update dom_update)

lemma update_fresh_keys:
  assumes "distinct (map f xs)" and "f ` set xs \<inter> fst ` set d = {}"
  shows "foldl (\<lambda>d x. AList.update (f x) x d) d xs = d @ map (\<lambda>x. (f x, x)) xs"
  using assms by (induction xs arbitrary: d) (auto simp: update_fresh)

lemma made_static_resolver:
  assumes "make_static_resolver subjects = Inr r"
  shows "distinct (map rs_provider_contract_key subjects)"
    and "r = map (\<lambda>s. (rs_provider_contract_key s, s)) subjects"
proof -
  let ?r = "foldl (\<lambda>d s. AList.update (rs_provider_contract_key s) s d) [] subjects"
  have r: "r = ?r" and len: "length ?r = length subjects"
    using assms by (auto simp: make_static_resolver_def result_simps Let_def)
  have "distinct (map fst ?r)" "fst ` set ?r = rs_provider_contract_key ` set subjects"
    using update_all_keys [of "[]" rs_provider_contract_key subjects] by auto
  then have "card (set (map rs_provider_contract_key subjects)) = length (map rs_provider_contract_key subjects)"
    using len distinct_card [of "map fst ?r"] by simp
  then show d: "distinct (map rs_provider_contract_key subjects)" by (rule card_distinct)
  show "r = map (\<lambda>s. (rs_provider_contract_key s, s)) subjects"
    unfolding r using update_fresh_keys [OF d, of "[]"] by simp
qed

lemma made_static_ready:
  assumes "make_static_resolver subjects = Inr r" and "\<forall>s \<in> set subjects. valid_subject sha256 s"
  shows "static_ready sha256 r"
  using made_static_resolver(2) [OF assms(1)] assms(2) by (auto simp: static_ready_def)

text \<open>The answer for one key, read off the list of subjects.\<close>

lemma static_answer:
  assumes resolver: "make_static_resolver subjects = Inr r" "\<forall>s \<in> set subjects. valid_subject sha256 s"
    and utc: "in_utc market" "in_utc known"
    and out: "subject_for b k = static_subject r provider market known k"
      "failure_for b k = (if static_subject r provider market known k = None then Some (static_failure r provider k) else None)"
  shows "(\<forall>s. subject_for b k = Some s \<longleftrightarrow> s \<in> set subjects \<and> rs_provider_contract_key s = k
            \<and> rs_provider s = provider \<and> rs_market_as_of s = market \<and> rs_known_as_of s = known)
         \<and> (failure_for b k = Some \<lparr>sf_key = k, sf_reason = StaleProviderMapping\<rparr> \<longleftrightarrow>
            (\<exists>s \<in> set subjects. rs_provider_contract_key s = k \<and> rs_provider s = provider
               \<and> (rs_market_as_of s \<noteq> market \<or> rs_known_as_of s \<noteq> known)))
         \<and> (failure_for b k = Some \<lparr>sf_key = k, sf_reason = UnknownProviderKey\<rparr> \<longleftrightarrow>
            (\<forall>s \<in> set subjects. rs_provider_contract_key s = k \<longrightarrow> rs_provider s \<noteq> provider))"
proof -
  note r = made_static_resolver [OF resolver(1)]
  have lookup: "map_of r k = Some s \<longleftrightarrow> s \<in> set subjects \<and> rs_provider_contract_key s = k" for k s
    unfolding r(2) using r(1) by (subst map_of_eq_Some_iff) (auto simp: comp_def)
  have missing: "map_of r k = None \<longleftrightarrow> (\<forall>s \<in> set subjects. rs_provider_contract_key s \<noteq> k)" for k
    unfolding r(2) by (auto simp: map_of_eq_None_iff image_image)
  have cut: "instant (rs_market_as_of s) = instant market \<longleftrightarrow> rs_market_as_of s = market"
    "instant (rs_known_as_of s) = instant known \<longleftrightarrow> rs_known_as_of s = known" if "s \<in> set subjects" for s
    using make_subject_made(2,3) [OF valid_subjectD] resolver(2) that utc by (metis in_utc_eq)+
  have same: "s = s'" if "s \<in> set subjects" "s' \<in> set subjects"
    "rs_provider_contract_key s = rs_provider_contract_key s'" for s s'
    using that r(1) by (metis distinct_map inj_onD)
  show ?thesis
  proof (cases "map_of r k")
    case None
    then have "subject_for b k = None" "failure_for b k = Some \<lparr>sf_key = k, sf_reason = UnknownProviderKey\<rparr>"
      using out by (simp_all add: static_subject_def static_failure_def)
    moreover have "\<forall>s \<in> set subjects. rs_provider_contract_key s \<noteq> k" using missing None by blast
    ultimately show ?thesis by auto
  next
    case (Some s)
    then have s: "s \<in> set subjects" "rs_provider_contract_key s = k" using lookup by auto
    then have only: "s' = s" if "s' \<in> set subjects" "rs_provider_contract_key s' = k" for s' using same that by blast
    have "subject_for b k = (if rs_provider s = provider \<and> rs_market_as_of s = market \<and> rs_known_as_of s = known
        then Some s else None)"
      "failure_for b k = (if rs_provider s = provider \<and> rs_market_as_of s = market \<and> rs_known_as_of s = known
        then None else Some \<lparr>sf_key = k, sf_reason = if rs_provider s = provider then StaleProviderMapping
          else UnknownProviderKey\<rparr>)"
      using out Some cut [OF s(1)] by (simp_all add: static_subject_def static_failure_def)
    note outcome = this
    have pick: "(\<exists>s' \<in> set subjects. rs_provider_contract_key s' = k \<and> P s') \<longleftrightarrow> P s"
      "(\<forall>s' \<in> set subjects. rs_provider_contract_key s' = k \<longrightarrow> P s') \<longleftrightarrow> P s" for P
      using s only by blast+
    have "subject_for b k = Some s' \<longleftrightarrow> s' \<in> set subjects \<and> rs_provider_contract_key s' = k
            \<and> rs_provider s' = provider \<and> rs_market_as_of s' = market \<and> rs_known_as_of s' = known" for s'
    proof (cases "s' = s")
      case True
      then show ?thesis using s by (simp add: outcome(1))
    next
      case False
      then have "\<not> (s' \<in> set subjects \<and> rs_provider_contract_key s' = k)" using only by blast
      then show ?thesis using False unfolding outcome(1) by auto
    qed
    moreover have "failure_for b k = Some \<lparr>sf_key = k, sf_reason = StaleProviderMapping\<rparr> \<longleftrightarrow>
        rs_provider s = provider \<and> (rs_market_as_of s \<noteq> market \<or> rs_known_as_of s \<noteq> known)"
      "failure_for b k = Some \<lparr>sf_key = k, sf_reason = UnknownProviderKey\<rparr> \<longleftrightarrow> rs_provider s \<noteq> provider"
      unfolding outcome(2) by simp_all
    ultimately show ?thesis unfolding pick by blast
  qed
qed

text \<open>C39. The resolver over a fixed list answers every requested key exactly once: with the listed subject
  when the provider is asked at the very cutoffs the subject was resolved at, with a stale mapping
  when the cutoffs differ, and with an unknown key when the list has no subject of that provider for
  the key. Repetitions and the order of the keys do not matter.\<close>

theorem static_resolver_exact:
  assumes resolver: "make_static_resolver subjects = Inr r" "\<forall>s \<in> set subjects. valid_subject sha256 s"
    and utc: "in_utc market" "in_utc known"
    and keys: "\<forall>k \<in> set keys. validate_provider_contract_key k = Inr k"
  shows "\<exists>b. static_resolve_many r provider keys market known = Inr b \<and> batch_keys b = sorted_list_of_set (set keys)
    \<and> (\<forall>k \<in> set keys.
         (\<forall>s. subject_for b k = Some s \<longleftrightarrow> s \<in> set subjects \<and> rs_provider_contract_key s = k
            \<and> rs_provider s = provider \<and> rs_market_as_of s = market \<and> rs_known_as_of s = known)
         \<and> (failure_for b k = Some \<lparr>sf_key = k, sf_reason = StaleProviderMapping\<rparr> \<longleftrightarrow>
            (\<exists>s \<in> set subjects. rs_provider_contract_key s = k \<and> rs_provider s = provider
               \<and> (rs_market_as_of s \<noteq> market \<or> rs_known_as_of s \<noteq> known)))
         \<and> (failure_for b k = Some \<lparr>sf_key = k, sf_reason = UnknownProviderKey\<rparr> \<longleftrightarrow>
            (\<forall>s \<in> set subjects. rs_provider_contract_key s = k \<longrightarrow> rs_provider s \<noteq> provider)))"
proof -
  obtain b where b: "static_resolve_many r provider keys market known = Inr b"
    and ok: "answers sha256 provider keys market known b"
    and out: "\<forall>k \<in> set keys. subject_for b k = static_subject r provider market known k
         \<and> failure_for b k = (if static_subject r provider market known k = None
             then Some (static_failure r provider k) else None)"
    using static_resolves [OF made_static_ready [OF resolver] utc keys] by blast
  have "batch_keys b = sorted_list_of_set (set keys)" using ok by (simp add: answers_def sorted_unique_set)
  then show ?thesis
    using b bspec [OF out] by (intro exI [of _ b] conjI ballI static_answer [OF resolver utc, THEN conjunct1]
        static_answer [OF resolver utc, THEN conjunct2, THEN conjunct1]
        static_answer [OF resolver utc, THEN conjunct2, THEN conjunct2]) blast+
qed

section \<open>An example\<close>

lemma strip_eq_Nil: "strip s = [] \<longleftrightarrow> (\<forall>c \<in> set s. is_space c)"
proof -
  have "(\<forall>c \<in> set (dropWhile is_space s). is_space c) \<longleftrightarrow> (\<forall>c \<in> set s. is_space c)" by (induction s) auto
  then show ?thesis by (simp add: strip_def)
qed

definition demo_identity :: underlying_instrument_identity where
  "demo_identity = \<lparr>ui_exchange = ''NSE'', ui_canonical_symbol = ''NIFTY'', ui_instrument_type = IndexInstrument,
     ui_currency = ''INR''\<rparr>"

definition demo_subject_id :: "(string \<Rightarrow> string) \<Rightarrow> string" where
  "demo_subject_id sha256 = projr (underlying_instrument_id sha256 demo_identity)"

definition demo_contract_version :: "(string \<Rightarrow> string) \<Rightarrow> contract_version" where
  "demo_contract_version sha256 =
     \<lparr>cv_kind = UnderlyingVersion,
      cv_metadata = \<lparr>cm_valid_from = Aware 0 0, cm_valid_until = None, cm_lot_size = 1, cm_tick_size = Dec 1,
        cm_display_symbol = ''NIFTY'', cm_trading_status = Active, cm_catalogue_version_id = ''c1'',
        cm_recorded_at = Aware 0 0, cm_superseded_at = None\<rparr>,
      cv_subject_id = demo_subject_id sha256\<rparr>"

definition demo_mapping :: "(string \<Rightarrow> string) \<Rightarrow> string \<Rightarrow> provider_contract_mapping" where
  "demo_mapping sha256 key =
     \<lparr>pm_provider = ''upstox'', pm_provider_contract_key = key,
      pm_contract_version_id = projr (version_id sha256 (demo_contract_version sha256)),
      pm_provider_payload_hash = ''p'', pm_source_row_identity = None, pm_effective_from = Aware 0 0,
      pm_effective_until = None, pm_recorded_at = Aware 0 0, pm_superseded_at = None\<rparr>"

definition demo_subject :: "(string \<Rightarrow> string) \<Rightarrow> string \<Rightarrow> resolved_subject" where
  "demo_subject sha256 key =
     \<lparr>rs_provider = ''upstox'', rs_provider_contract_key = key,
      rs_provider_mapping_id = projr (mapping_id sha256 (demo_mapping sha256 key)),
      rs_provider_mapping = demo_mapping sha256 key,
      rs_contract_version_id = projr (version_id sha256 (demo_contract_version sha256)),
      rs_economic_subject_id = demo_subject_id sha256, rs_instrument_kind = UnderlyingSubject,
      rs_economic_identity = UnderlyingEconomy demo_identity, rs_contract_version = demo_contract_version sha256,
      rs_market_as_of = Aware 9 0, rs_known_as_of = Aware 9 0\<rparr>"

lemma demo_subject_ids:
  "\<exists>t. underlying_instrument_id sha256 demo_identity = Inr (''sha256:'' @ t)"
  "\<exists>t. version_id sha256 (demo_contract_version sha256) = Inr (''sha256:'' @ t)"
  "\<exists>t. mapping_id sha256 (demo_mapping sha256 key) = Inr (''sha256:'' @ t)"
  by (simp_all add: underlying_instrument_id_def underlying_payload_def version_id_def mapping_id_def stable_hash_def
      canonical_json_def str_dict_def demo_contract_version_def demo_mapping_def optional_time_def optional_text_def Let_def)

lemma demo_subject_made:
  assumes "validate_provider_contract_key key = Inr key"
  shows "make_subject sha256 (demo_subject sha256 key) = Inr (demo_subject sha256 key)"
proof -
  obtain u v m where ids: "underlying_instrument_id sha256 demo_identity = Inr (''sha256:'' @ u)"
    "version_id sha256 (demo_contract_version sha256) = Inr (''sha256:'' @ v)"
    "mapping_id sha256 (demo_mapping sha256 key) = Inr (''sha256:'' @ m)"
    using demo_subject_ids by blast
  have nonblank: "strip (''sha256:'' @ t) \<noteq> []" for t by (simp add: strip_eq_Nil is_space_def)
  have "strip key \<noteq> []"
    using assms by (auto simp: validate_provider_contract_key_def validate_provider_identifier_def result_simps Let_def)
  moreover have "strip ''upstox'' \<noteq> []" by (simp add: strip_eq_Nil is_space_def)
  moreover have "mapping_effective_at (demo_mapping sha256 key) (Aware 9 0) (Some (Aware 9 0)) = Inr True"
    "metadata_effective_at (cv_metadata (demo_contract_version sha256)) (Aware 9 0) (Some (Aware 9 0)) = Inr True"
    by (simp_all add: mapping_effective metadata_effective demo_mapping_def demo_contract_version_def in_force_def)
  moreover have "pm_provider (demo_mapping sha256 key) = ''upstox''" "pm_provider_contract_key (demo_mapping sha256 key) = key"
    "pm_contract_version_id (demo_mapping sha256 key) = ''sha256:'' @ v"
    "cv_kind (demo_contract_version sha256) = UnderlyingVersion"
    "cv_subject_id (demo_contract_version sha256) = ''sha256:'' @ u" "demo_subject_id sha256 = ''sha256:'' @ u"
    using ids by (simp_all add: demo_mapping_def demo_contract_version_def demo_subject_id_def)
  moreover have "utf8_length ''upstox'' \<le> MAX_OPAQUE_IDENTIFIER_BYTES"
    by (simp add: utf8_length_def MAX_OPAQUE_IDENTIFIER_BYTES_def)
  ultimately show ?thesis
    using assms ids nonblank
    by (simp add: make_subject_def demo_subject_def require_text_def validate_opaque_identifier_def del: append.simps)
qed

lemma demo_subject_valid:
  "validate_provider_contract_key key = Inr key \<Longrightarrow> valid_subject sha256 (demo_subject sha256 key)"
  using demo_subject_made by (simp add: valid_subject_def demo_subject_def demo_contract_version_def demo_mapping_def)

theorem static_resolver_exact_witness:
  "\<exists>r b. make_static_resolver [demo_subject id ''NSE|N''] = Inr r
     \<and> static_resolve_many r ''upstox'' [''X'', ''NSE|N'', ''X''] (Aware 9 0) (Aware 9 0) = Inr b
     \<and> batch_keys b = [''NSE|N'', ''X''] \<and> subject_for b ''NSE|N'' = Some (demo_subject id ''NSE|N'')
     \<and> failure_for b ''X'' = Some \<lparr>sf_key = ''X'', sf_reason = UnknownProviderKey\<rparr>"
proof -
  let ?subjects = "[demo_subject id ''NSE|N'']"
  have keys: "validate_provider_contract_key ''NSE|N'' = Inr ''NSE|N''" "validate_provider_contract_key ''X'' = Inr ''X''"
    by code_simp+
  obtain r where r: "make_static_resolver ?subjects = Inr r" by (simp add: make_static_resolver_def)
  have made: "\<forall>s \<in> set ?subjects. valid_subject id s" using demo_subject_valid [OF keys(1)] by simp
  let ?keys = "[''X'', ''NSE|N'', ''X'']"
  have valid: "\<forall>k \<in> set ?keys. validate_provider_contract_key k = Inr k" using keys by simp
  obtain b where b: "static_resolve_many r ''upstox'' ?keys (Aware 9 0) (Aware 9 0) = Inr b"
    and sorted: "batch_keys b = sorted_list_of_set (set ?keys)"
    and out: "\<forall>k \<in> set ?keys.
         (\<forall>s. subject_for b k = Some s \<longleftrightarrow> s \<in> set ?subjects \<and> rs_provider_contract_key s = k
            \<and> rs_provider s = ''upstox'' \<and> rs_market_as_of s = Aware 9 0 \<and> rs_known_as_of s = Aware 9 0)
         \<and> (failure_for b k = Some \<lparr>sf_key = k, sf_reason = StaleProviderMapping\<rparr> \<longleftrightarrow>
            (\<exists>s \<in> set ?subjects. rs_provider_contract_key s = k \<and> rs_provider s = ''upstox''
               \<and> (rs_market_as_of s \<noteq> Aware 9 0 \<or> rs_known_as_of s \<noteq> Aware 9 0)))
         \<and> (failure_for b k = Some \<lparr>sf_key = k, sf_reason = UnknownProviderKey\<rparr> \<longleftrightarrow>
            (\<forall>s \<in> set ?subjects. rs_provider_contract_key s = k \<longrightarrow> rs_provider s \<noteq> ''upstox''))"
    using static_resolver_exact [OF r made in_utc_Aware [of 9] in_utc_Aware [of 9] valid, where provider = "''upstox''"] by (elim exE conjE) (rule that)
  have first: "''NSE|N'' \<in> set ?keys" and second: "''X'' \<in> set ?keys" by simp_all
  have "subject_for b ''NSE|N'' = Some (demo_subject id ''NSE|N'')"
    unfolding bspec [OF out first, THEN conjunct1, rule_format] by (simp add: demo_subject_def)
  moreover have "failure_for b ''X'' = Some \<lparr>sf_key = ''X'', sf_reason = UnknownProviderKey\<rparr>"
    unfolding bspec [OF out second, THEN conjunct2, THEN conjunct2] by (simp add: demo_subject_def)
  moreover note b sorted
  moreover have "sorted_list_of_set (set [''X'', ''NSE|N'', ''X'']) = [''NSE|N'', ''X'']"
    unfolding sorted_unique_set [symmetric] by code_simp
  ultimately show ?thesis using r by metis
qed

end
