(* ===== verification/Observations.thy ===== *)
theory Observations
  imports Subjects
begin

text \<open>
  The observations of \<open>app/market_data/normalization/models.py\<close>: the times of a normalized event, quotes
  and segment statuses, each with its validation.

  The three quote classes are the field \<open>qn_class\<close>. The validation of a quote is one method of the
  source; it is cut here where its subject changes and composed again, in the order of its checks, by
  \<open>make_quote_observation\<close>. Fields whose type is \<open>None\<close> are left out, and the guards on types
  hold by typing.
\<close>

section \<open>Enumerations and constants\<close>

datatype feed_response_type = InitialFeed | LiveFeed | MarketInfoFeed

datatype provider_feed_union = UnionLtpc | UnionIndexFull | UnionMarketFull | UnionFirstLevel

datatype normalized_availability = AvailabilityReceived | AvailabilityHistorical

fun response_type_value :: "feed_response_type \<Rightarrow> string" where
  "response_type_value InitialFeed = ''initial_feed''"
| "response_type_value LiveFeed = ''live_feed''"
| "response_type_value MarketInfoFeed = ''market_info''"

fun feed_union_value :: "provider_feed_union \<Rightarrow> string" where
  "feed_union_value UnionLtpc = ''ltpc''"
| "feed_union_value UnionIndexFull = ''indexFF''"
| "feed_union_value UnionMarketFull = ''marketFF''"
| "feed_union_value UnionFirstLevel = ''firstLevelWithGreeks''"

fun request_mode_value :: "provider_request_mode \<Rightarrow> string" where
  "request_mode_value ModeLtpc = ''ltpc''"
| "request_mode_value ModeFullD5 = ''full_d5''"
| "request_mode_value ModeOptionGreeks = ''option_greeks''"
| "request_mode_value ModeFullD30 = ''full_d30''"

fun availability_value :: "normalized_availability \<Rightarrow> string" where
  "availability_value AvailabilityReceived = ''received''"
| "availability_value AvailabilityHistorical = ''historical_import''"

definition PRESENCE_SEMANTICS :: string where
  "PRESENCE_SEMANTICS = ''proto3_parent_implied_v1''"

definition NUMERIC_BASIS :: string where
  "NUMERIC_BASIS = ''protobuf_double_roundtrip_decimal_v1''"

definition QUANTITY_BASIS :: string where
  "QUANTITY_BASIS = ''upstox_reported_quantity_v1''"

definition MAX_REPORTED_QUANTITY :: int where
  "MAX_REPORTED_QUANTITY = 2 ^ 63 - 1"

definition MAX_SAFE_OPEN_INTEREST :: int where
  "MAX_SAFE_OPEN_INTEREST = 2 ^ 53"

definition MAX_PROVIDER_DEPTH_LEVELS :: int where
  "MAX_PROVIDER_DEPTH_LEVELS = 30"

definition market_status_name :: "int \<Rightarrow> string option" where
  "market_status_name = map_of
     [(0, ''PRE_OPEN_START''), (1, ''PRE_OPEN_END''), (2, ''NORMAL_OPEN''), (3, ''NORMAL_CLOSE''),
      (4, ''CLOSING_START''), (5, ''CLOSING_END'')]"

text \<open>\<open>_CONTROLLED_PATH.fullmatch(path)\<close>.\<close>

definition controlled_path :: "string \<Rightarrow> bool" where
  "controlled_path path \<longleftrightarrow> path \<noteq> [] \<and> list_all (\<lambda>c. let n = of_char c :: nat in
     (65 \<le> n \<and> n \<le> 90) \<or> (97 \<le> n \<and> n \<le> 122) \<or> (48 \<le> n \<and> n \<le> 57) \<or> c \<in> set ''_.[]:*'') path"

section \<open>Times\<close>

record normalized_event_time =
  nt_provider_timestamp :: pydatetime
  nt_received_at :: "pydatetime option"
  nt_available_at :: pydatetime
  nt_recorded_at :: pydatetime
  nt_availability_basis :: normalized_availability

definition make_normalized_event_time :: "normalized_event_time \<Rightarrow> normalized_event_time result" where
  "make_normalized_event_time t =
     rbind (to_utc (nt_provider_timestamp t) ''provider_timestamp'') (\<lambda>provider_timestamp.
     rbind (to_utc (nt_available_at t) ''available_at'') (\<lambda>available.
     rbind (to_utc (nt_recorded_at t) ''recorded_at'') (\<lambda>recorded.
     rbind (optional_utc (nt_received_at t) ''received_at'') (\<lambda>received.
     rbind (guard (earlier recorded available) (ValueError ''recorded_at cannot precede available_at'')) (\<lambda>_.
     rbind (guard (case received of None \<Rightarrow> False | Some r \<Rightarrow> earlier available r)
              (ValueError ''available_at cannot precede received_at'')) (\<lambda>_.
     rbind (guard (nt_availability_basis t = AvailabilityReceived \<and> received = None)
              (ValueError ''received availability requires received_at'')) (\<lambda>_.
     rbind (guard (nt_availability_basis t = AvailabilityReceived \<and> received \<noteq> Some available)
              (ValueError ''received availability requires equal receipt and availability'')) (\<lambda>_.
     rbind (guard (nt_availability_basis t = AvailabilityHistorical \<and> received \<noteq> None)
              (ValueError ''historical_import requires absent received_at'')) (\<lambda>_.
     Inr (t\<lparr>nt_provider_timestamp := provider_timestamp, nt_available_at := available,
           nt_recorded_at := recorded, nt_received_at := received\<rparr>))))))))))"

section \<open>Quotes\<close>

record quote_observation =
  qn_class :: market_subject_kind
  qn_identity :: normalized_event_identity
  qn_raw_event_id :: string
  qn_provider :: string
  qn_provider_contract_key :: string
  qn_provider_mapping_id :: string
  qn_contract_version_id :: string
  qn_economic_subject_id :: string
  qn_subject :: resolved_subject
  qn_event_time :: normalized_event_time
  qn_source_order_scope_id :: string
  qn_source_order :: int
  qn_feed_response_type :: feed_response_type
  qn_request_mode :: provider_request_mode
  qn_feed_union :: provider_feed_union
  qn_is_snapshot :: bool
  qn_presence_semantics :: string
  qn_numeric_basis :: string
  qn_quantity_basis :: string
  qn_schema_version :: int
  qn_implementation_version :: string
  qn_bid_price :: "raw_decimal option"
  qn_bid_size :: "int option"
  qn_ask_price :: "raw_decimal option"
  qn_ask_size :: "int option"
  qn_last_price :: "raw_decimal option"
  qn_last_size :: "int option"
  qn_last_trade_at :: "pydatetime option"
  qn_previous_close_price :: "raw_decimal option"
  qn_reported_volume :: "int option"
  qn_open_interest :: "int option"
  qn_provider_depth_levels_present :: int
  qn_normalized_depth_levels :: int
  qn_unadopted_depth_level_count :: int
  qn_unadopted_schema_paths :: "string list"
  qn_present_unadopted_message_paths :: "string list"
  qn_secondary_payload_paths_present :: "string list"

fun quote_event_type :: "market_subject_kind \<Rightarrow> string" where
  "quote_event_type UnderlyingSubject = ''underlying_quote_observation''"
| "quote_event_type FutureSubject = ''futures_quote_observation''"
| "quote_event_type OptionSubject = ''option_quote_observation''"

definition check_quote_provenance :: "(string \<Rightarrow> string) \<Rightarrow> quote_observation \<Rightarrow> unit result" where
  "check_quote_provenance sha256 q =
     rbind (guard (ne_raw_event_id (qn_identity q) \<noteq> qn_raw_event_id q
                \<or> ne_subject_id (qn_identity q) \<noteq> qn_economic_subject_id q)
              (ValueError ''normalized quote identity mismatch'')) (\<lambda>_.
     rbind (require_text ''normalization text values must be non-empty''
              [qn_raw_event_id q, qn_provider q, qn_provider_contract_key q, qn_provider_mapping_id q,
               qn_contract_version_id q, qn_economic_subject_id q, qn_source_order_scope_id q]) (\<lambda>_.
     rbind (validate_opaque_identifier (qn_provider q) ''provider'') (\<lambda>_.
     rbind (guard (qn_provider q \<noteq> rs_provider (qn_subject q)) (ValueError ''quote provider provenance mismatch'')) (\<lambda>_.
     rbind (guard (qn_provider_contract_key q \<noteq> rs_provider_contract_key (qn_subject q))
              (ValueError ''quote provider key provenance mismatch'')) (\<lambda>_.
     rbind (mapping_id sha256 (rs_provider_mapping (qn_subject q))) (\<lambda>mapping.
     rbind (guard (qn_provider_mapping_id q \<noteq> mapping) (ValueError ''quote provider mapping provenance mismatch'')) (\<lambda>_.
     rbind (version_id sha256 (rs_contract_version (qn_subject q))) (\<lambda>version.
     rbind (guard (qn_contract_version_id q \<noteq> version) (ValueError ''quote contract version provenance mismatch'')) (\<lambda>_.
     rbind (guard (qn_economic_subject_id q \<noteq> rs_economic_subject_id (qn_subject q))
              (ValueError ''quote economic subject provenance mismatch'')) (\<lambda>_.
     guard (rs_instrument_kind (qn_subject q) \<noteq> qn_class q
         \<or> ne_event_type (qn_identity q) \<noteq> quote_event_type (qn_class q))
       (ValueError ''quote class, subject kind, and event type mismatch'')))))))))))"

fun valid_modes :: "provider_feed_union \<Rightarrow> provider_request_mode list" where
  "valid_modes UnionLtpc = [ModeLtpc]"
| "valid_modes UnionIndexFull = [ModeFullD5, ModeFullD30]"
| "valid_modes UnionMarketFull = [ModeFullD5, ModeFullD30]"
| "valid_modes UnionFirstLevel = [ModeOptionGreeks]"

fun valid_kinds :: "provider_feed_union \<Rightarrow> market_subject_kind list" where
  "valid_kinds UnionLtpc = [UnderlyingSubject, FutureSubject, OptionSubject]"
| "valid_kinds UnionIndexFull = [UnderlyingSubject]"
| "valid_kinds UnionMarketFull = [FutureSubject, OptionSubject]"
| "valid_kinds UnionFirstLevel = [OptionSubject]"

definition check_quote_feed :: "quote_observation \<Rightarrow> unit result" where
  "check_quote_feed q =
     rbind (guard (qn_feed_response_type q = MarketInfoFeed)
              (ValueError ''market_info cannot produce quote observations'')) (\<lambda>_.
     rbind (guard (qn_request_mode q \<notin> set (valid_modes (qn_feed_union q))
                \<or> rs_instrument_kind (qn_subject q) \<notin> set (valid_kinds (qn_feed_union q)))
              (ValueError ''request mode, feed union, and subject kind mismatch'')) (\<lambda>_.
     rbind (guard (qn_is_snapshot q \<noteq> (qn_feed_response_type q = InitialFeed))
              (ValueError ''quote snapshot flag does not match response type'')) (\<lambda>_.
     rbind (validate_opaque_identifier (qn_source_order_scope_id q) ''source_order_scope_id'') (\<lambda>_.
     rbind (validate_source_order (qn_source_order q)) (\<lambda>_.
     rbind (guard (qn_schema_version q \<noteq> NORMALIZATION_SCHEMA_VERSION)
              (ValueError ''unsupported normalization schema version'')) (\<lambda>_.
     rbind (guard (ne_schema_version (qn_identity q) \<noteq> qn_schema_version q)
              (ValueError ''quote identity schema version mismatch'')) (\<lambda>_.
     rbind (guard (qn_presence_semantics q \<noteq> PRESENCE_SEMANTICS \<or> qn_numeric_basis q \<noteq> NUMERIC_BASIS)
              (ValueError ''normalization numeric semantics mismatch'')) (\<lambda>_.
     guard (qn_quantity_basis q \<noteq> QUANTITY_BASIS \<or> qn_implementation_version q \<noteq> NORMALIZER_IMPLEMENTATION_VERSION)
       (ValueError ''normalizer implementation semantics mismatch'')))))))))"

definition check_quote_values :: "quote_observation \<Rightarrow> unit result" where
  "check_quote_values q =
     rbind (guard (list_ex (\<lambda>v. case v of None \<Rightarrow> False | Some d \<Rightarrow> non_finite_or_negative d)
                     [qn_bid_price q, qn_ask_price q, qn_last_price q, qn_previous_close_price q])
              (ValueError ''quote prices must be finite non-negative Decimal values'')) (\<lambda>_.
     rbind (guard (list_ex (\<lambda>v. case v of None \<Rightarrow> False | Some n \<Rightarrow> \<not> (0 \<le> n \<and> n \<le> MAX_REPORTED_QUANTITY))
                     [qn_bid_size q, qn_ask_size q, qn_last_size q, qn_reported_volume q])
              (ValueError ''quote quantities must be integers in the signed 64-bit range'')) (\<lambda>_.
     guard (case qn_open_interest q of None \<Rightarrow> False | Some n \<Rightarrow> \<not> (0 \<le> n \<and> n \<le> MAX_SAFE_OPEN_INTEREST))
       (ValueError ''open interest must be an integer in the safe range'')))"

definition depth_matches_union :: "quote_observation \<Rightarrow> bool" where
  "depth_matches_union q =
     (let present = qn_provider_depth_levels_present q; normalized = qn_normalized_depth_levels q in
      case qn_feed_union q of
        UnionFirstLevel \<Rightarrow> present \<in> {0, 1} \<and> normalized = present
      | UnionMarketFull \<Rightarrow>
          qn_request_mode q \<in> {ModeFullD5, ModeFullD30}
          \<and> present \<le> (if qn_request_mode q = ModeFullD5 then 5 else 30)
          \<and> normalized = (if 0 < present then 1 else 0)
      | _ \<Rightarrow> present = 0 \<and> normalized = 0)"

definition check_quote_depth :: "quote_observation \<Rightarrow> unit result" where
  "check_quote_depth q =
     rbind (guard (\<not> (0 \<le> qn_provider_depth_levels_present q
                  \<and> qn_provider_depth_levels_present q \<le> MAX_PROVIDER_DEPTH_LEVELS))
              (ValueError ''provider depth must be an integer from zero through thirty'')) (\<lambda>_.
     rbind (guard (qn_normalized_depth_levels q \<notin> {0, 1}) (ValueError ''normalized depth must be zero or one'')) (\<lambda>_.
     rbind (guard (qn_unadopted_depth_level_count q < 0)
              (ValueError ''unadopted depth must be a non-negative integer'')) (\<lambda>_.
     rbind (guard (qn_unadopted_depth_level_count q
                  \<noteq> qn_provider_depth_levels_present q - qn_normalized_depth_levels q)
              (ValueError ''unadopted depth reconciliation failed'')) (\<lambda>_.
     guard (\<not> depth_matches_union q) (ValueError ''feed union depth mismatch'')))))"

definition check_path_list :: "string \<times> string list \<Rightarrow> unit result" where
  "check_path_list field =
     rbind (guard (sorted_unique (snd field) \<noteq> snd field) (ValueError (fst field @ '' must be sorted and unique''))) (\<lambda>_.
     guard (list_ex (\<lambda>path. \<not> controlled_path path) (snd field))
       (ValueError (fst field @ '' must contain controlled paths'')))"

definition make_quote_observation :: "(string \<Rightarrow> string) \<Rightarrow> quote_observation \<Rightarrow> quote_observation result" where
  "make_quote_observation sha256 q =
     rbind (check_quote_provenance sha256 q) (\<lambda>_.
     rbind (check_quote_feed q) (\<lambda>_.
     rbind (optional_utc (qn_last_trade_at q) ''last_trade_at'') (\<lambda>last_trade.
     rbind (check_quote_values q) (\<lambda>_.
     rbind (check_quote_depth q) (\<lambda>_.
     rbind (rmap check_path_list
              [(''unadopted_schema_paths'', qn_unadopted_schema_paths q),
               (''present_unadopted_message_paths'', qn_present_unadopted_message_paths q),
               (''secondary_payload_paths_present'', qn_secondary_payload_paths_present q)]) (\<lambda>_.
     Inr (q\<lparr>qn_last_trade_at := last_trade\<rparr>)))))))"

section \<open>Segment statuses\<close>

record segment_status =
  ms_identity :: normalized_event_identity
  ms_raw_event_id :: string
  ms_provider :: string
  ms_segment :: string
  ms_status_name :: string
  ms_status_numeric :: int
  ms_status_is_known :: bool
  ms_provider_timestamp :: pydatetime
  ms_received_at :: "pydatetime option"
  ms_available_at :: pydatetime
  ms_recorded_at :: pydatetime
  ms_source_order_scope_id :: string
  ms_source_order :: int
  ms_schema_version :: int
  ms_implementation_version :: string

definition SEGMENT_STATUS_EVENT_TYPE :: string where
  "SEGMENT_STATUS_EVENT_TYPE = ''market_segment_status_observation''"

definition segment_subject_payload :: "string \<Rightarrow> string \<Rightarrow> (string \<times> py_value) list" where
  "segment_subject_payload provider segment =
     [(''entity'', PStr ''provider_market_segment''), (''provider'', PStr provider), (''segment'', PStr segment)]"

definition market_segment_status_subject_id :: "(string \<Rightarrow> string) \<Rightarrow> string \<Rightarrow> string \<Rightarrow> string result" where
  "market_segment_status_subject_id sha256 provider segment =
     rbind (validate_opaque_identifier provider ''provider'') (\<lambda>_.
     rbind (validate_market_segment segment) (\<lambda>_.
     stable_hash sha256 (str_dict (segment_subject_payload provider segment))))"

definition make_segment_status :: "(string \<Rightarrow> string) \<Rightarrow> segment_status \<Rightarrow> segment_status result" where
  "make_segment_status sha256 m =
     rbind (guard (ne_raw_event_id (ms_identity m) \<noteq> ms_raw_event_id m
                \<or> ne_event_type (ms_identity m) \<noteq> SEGMENT_STATUS_EVENT_TYPE)
              (ValueError ''normalized status identity mismatch'')) (\<lambda>_.
     rbind (guard (ms_provider m = [] \<or> ms_segment m = [] \<or> ms_status_name m = [])
              (ValueError ''status identity fields are required'')) (\<lambda>_.
     rbind (require_text ''normalization text values must be non-empty''
              [ms_provider m, ms_segment m, ms_source_order_scope_id m]) (\<lambda>_.
     rbind (validate_opaque_identifier (ms_provider m) ''provider'') (\<lambda>_.
     rbind (validate_market_segment (ms_segment m)) (\<lambda>_.
     rbind (validate_opaque_identifier (ms_source_order_scope_id m) ''source_order_scope_id'') (\<lambda>_.
     rbind (market_segment_status_subject_id sha256 (ms_provider m) (ms_segment m)) (\<lambda>expected.
     rbind (guard (ne_subject_id (ms_identity m) \<noteq> expected)
              (ValueError ''normalized status subject identity mismatch'')) (\<lambda>_.
     rbind (validate_source_order (ms_source_order m)) (\<lambda>_.
     rbind (to_utc (ms_provider_timestamp m) ''provider_timestamp'') (\<lambda>provider_timestamp.
     rbind (to_utc (ms_available_at m) ''available_at'') (\<lambda>available.
     rbind (to_utc (ms_recorded_at m) ''recorded_at'') (\<lambda>recorded.
     rbind (optional_utc (ms_received_at m) ''received_at'') (\<lambda>received.
     rbind (guard (case received of None \<Rightarrow> False | Some r \<Rightarrow> earlier available r)
              (ValueError ''available_at cannot precede received_at'')) (\<lambda>_.
     rbind (guard (earlier recorded available) (ValueError ''recorded_at cannot precede available_at'')) (\<lambda>_.
     rbind (guard (ms_schema_version m \<noteq> NORMALIZATION_SCHEMA_VERSION)
              (ValueError ''unsupported normalization schema version'')) (\<lambda>_.
     rbind (guard (ne_schema_version (ms_identity m) \<noteq> ms_schema_version m)
              (ValueError ''status identity schema version mismatch'')) (\<lambda>_.
     rbind (guard (ms_implementation_version m \<noteq> NORMALIZER_IMPLEMENTATION_VERSION)
              (ValueError ''normalizer implementation semantics mismatch'')) (\<lambda>_.
     rbind (case market_status_name (ms_status_numeric m) of
              None \<Rightarrow> guard (ms_status_name m \<noteq> ''UNKNOWN'' \<or> ms_status_is_known m)
                       (ValueError ''unknown provider status semantics mismatch'')
            | Some name \<Rightarrow> guard (ms_status_name m \<noteq> name \<or> \<not> ms_status_is_known m)
                       (ValueError ''known provider status semantics mismatch'')) (\<lambda>_.
     Inr (m\<lparr>ms_provider_timestamp := provider_timestamp, ms_available_at := available,
           ms_recorded_at := recorded, ms_received_at := received\<rparr>))))))))))))))))))))"

datatype market_observation = QuoteEvent quote_observation | StatusEvent segment_status

fun observation_identity :: "market_observation \<Rightarrow> normalized_event_identity" where
  "observation_identity (QuoteEvent q) = qn_identity q"
| "observation_identity (StatusEvent m) = ms_identity m"

definition observation_id :: "market_observation \<Rightarrow> string" where
  "observation_id e = ne_event_id (observation_identity e)"

end
