(* ===== verification/FrameResults.thy ===== *)
theory FrameResults
  imports Observations
begin

text \<open>
  \<open>app/market_data/normalization/results.py\<close> and \<open>result_hashing.py\<close>: normalization failures, the capture
  provenance of a frame, the result of normalizing one frame, and the two hashes of a result.

  \<open>normalization_payload\<close> of the source walks any dataclass; here it is one function per record that
  occurs in a result. A \<open>Decimal\<close> that is not finite hashes like the float of the same kind, which
  canonical JSON refuses with the same error.
\<close>

section \<open>Failures\<close>

datatype failure_scope = FrameScope | SubjectScope | SegmentScope | ConnectionScope | SubscriptionScope

fun failure_scope_value :: "failure_scope \<Rightarrow> string" where
  "failure_scope_value FrameScope = ''frame''"
| "failure_scope_value SubjectScope = ''subject''"
| "failure_scope_value SegmentScope = ''segment''"
| "failure_scope_value ConnectionScope = ''connection_lifecycle''"
| "failure_scope_value SubscriptionScope = ''subscription_lifecycle''"

record normalization_failure =
  nf_scope :: failure_scope
  nf_reason_code :: string
  nf_provider_contract_key :: "string option"
  nf_segment :: "string option"
  nf_field_paths :: "string list"
  nf_safe_detail_code :: "string option"
  nf_selected_feed_union :: "provider_feed_union option"
  nf_unadopted_schema_paths :: "string list"
  nf_present_unadopted_message_paths :: "string list"
  nf_provider_depth_levels_present :: "int option"

text \<open>\<open>code.replace("_", "").isalnum()\<close>.\<close>

definition is_alnum :: "char \<Rightarrow> bool" where
  "is_alnum c = (let n = of_char c :: nat in
     (48 \<le> n \<and> n \<le> 57) \<or> (65 \<le> n \<and> n \<le> 90) \<or> (97 \<le> n \<and> n \<le> 122)
     \<or> n \<in> {170, 178, 179, 181, 185, 186, 188, 189, 190} \<or> (192 \<le> n \<and> n \<noteq> 215 \<and> n \<noteq> 247))"

definition controlled_code :: "string \<Rightarrow> bool" where
  "controlled_code code \<longleftrightarrow>
     (let letters = filter (\<lambda>c. c \<noteq> CHR ''_'') code in letters \<noteq> [] \<and> list_all is_alnum letters)"

definition optional_blank :: "string option \<Rightarrow> bool" where
  "optional_blank s \<longleftrightarrow> (case s of None \<Rightarrow> False | Some t \<Rightarrow> strip t = [])"

definition check_failure_paths :: "string \<times> string list \<Rightarrow> unit result" where
  "check_failure_paths field =
     rbind (guard (sorted_unique (snd field) \<noteq> snd field) (ValueError (fst field @ '' must be sorted and unique''))) (\<lambda>_.
     guard (list_ex (\<lambda>path. strip path = []) (snd field)) (ValueError (fst field @ '' must contain non-empty text'')))"

definition check_failure_scope :: "normalization_failure \<Rightarrow> unit result" where
  "check_failure_scope f =
     (case nf_scope f of
        FrameScope \<Rightarrow>
          guard (nf_provider_contract_key f \<noteq> None \<or> nf_segment f \<noteq> None)
            (ValueError ''frame failure cannot carry entry scope'')
      | SubjectScope \<Rightarrow>
          rbind (guard (nf_segment f \<noteq> None) (ValueError ''subject failure requires only provider_contract_key'')) (\<lambda>_.
          case nf_provider_contract_key f of
            None \<Rightarrow> Inl (ValueError ''invalid provider contract key'')
          | Some key \<Rightarrow> rbind (validate_provider_contract_key key) (\<lambda>_. Inr ()))
      | SegmentScope \<Rightarrow>
          rbind (guard (nf_provider_contract_key f \<noteq> None) (ValueError ''segment failure requires only segment'')) (\<lambda>_.
          case nf_segment f of
            None \<Rightarrow> Inl (ValueError ''invalid market segment'')
          | Some segment \<Rightarrow> rbind (validate_market_segment segment) (\<lambda>_. Inr ()))
      | _ \<Rightarrow> Inr ())"

definition make_normalization_failure :: "normalization_failure \<Rightarrow> normalization_failure result" where
  "make_normalization_failure f =
     rbind (guard (strip (nf_reason_code f) = []) (ValueError ''failure reason code is required'')) (\<lambda>_.
     rbind (guard (\<not> controlled_code (nf_reason_code f)) (ValueError ''failure reason code must be controlled'')) (\<lambda>_.
     rbind (guard (sorted_unique (nf_field_paths f) \<noteq> nf_field_paths f)
              (ValueError ''failure field paths must be sorted and unique'')) (\<lambda>_.
     rbind (guard (list_ex (\<lambda>path. strip path = [] \<or> char_of (10::nat) \<in> set path \<or> char_of (13::nat) \<in> set path)
                     (nf_field_paths f)) (ValueError ''failure field paths must be controlled non-empty text'')) (\<lambda>_.
     rbind (guard (optional_blank (nf_safe_detail_code f)) (ValueError ''safe detail code must be non-empty'')) (\<lambda>_.
     rbind (guard (case nf_safe_detail_code f of None \<Rightarrow> False | Some code \<Rightarrow> \<not> controlled_code code)
              (ValueError ''safe detail code must be controlled'')) (\<lambda>_.
     rbind (rmap check_failure_paths
              [(''unadopted_schema_paths'', nf_unadopted_schema_paths f),
               (''present_unadopted_message_paths'', nf_present_unadopted_message_paths f)]) (\<lambda>_.
     rbind (guard (case nf_provider_depth_levels_present f of None \<Rightarrow> False | Some n \<Rightarrow> n < 0)
              (ValueError ''provider depth metadata must be a non-negative integer'')) (\<lambda>_.
     rbind (check_failure_scope f) (\<lambda>_.
     Inr f)))))))))"

definition entry_scope_key :: "normalization_failure \<Rightarrow> (string \<times> string) option" where
  "entry_scope_key f =
     (let text = (\<lambda>s. case s of None \<Rightarrow> '''' | Some t \<Rightarrow> t) in
      case nf_scope f of
        SubjectScope \<Rightarrow> Some (failure_scope_value SubjectScope, text (nf_provider_contract_key f))
      | SegmentScope \<Rightarrow> Some (failure_scope_value SegmentScope, text (nf_segment f))
      | _ \<Rightarrow> None)"

definition failed_entry_scope_count :: "normalization_failure list \<Rightarrow> int" where
  "failed_entry_scope_count failures = int (length (remdups (List.map_filter entry_scope_key failures)))"

section \<open>Provenance\<close>

definition canonical_sha256 :: "string \<Rightarrow> bool" where
  "canonical_sha256 s \<longleftrightarrow>
     length s = 71 \<and> take 7 s = ''sha256:'' \<and>
     list_all (\<lambda>c. let n = of_char c :: nat in (48 \<le> n \<and> n \<le> 57) \<or> (97 \<le> n \<and> n \<le> 102)) (drop 7 s)"

record capture_provenance =
  cp_provider_schema_sha256 :: string
  cp_received_at :: "pydatetime option"
  cp_available_at :: pydatetime
  cp_recorded_at :: pydatetime
  cp_capture_basis :: raw_capture_basis
  cp_source_file_id :: "string option"
  cp_source_record_id :: "string option"

definition make_capture_provenance :: "capture_provenance \<Rightarrow> capture_provenance result" where
  "make_capture_provenance p =
     rbind (guard (\<not> canonical_sha256 (cp_provider_schema_sha256 p))
              (ValueError ''provider schema hash must be canonical SHA-256'')) (\<lambda>_.
     rbind (to_utc (cp_available_at p) ''available_at'') (\<lambda>available.
     rbind (to_utc (cp_recorded_at p) ''recorded_at'') (\<lambda>recorded.
     rbind (optional_utc (cp_received_at p) ''received_at'') (\<lambda>received.
     rbind (guard (case received of None \<Rightarrow> False | Some r \<Rightarrow> earlier available r)
              (ValueError ''available_at cannot precede received_at'')) (\<lambda>_.
     rbind (guard (earlier recorded available) (ValueError ''recorded_at cannot precede available_at'')) (\<lambda>_.
     rbind (guard (cp_capture_basis p \<in> {LiveReceived, RecordedWithOriginalReceipt} \<and> received \<noteq> Some available)
              (ValueError ''receipt-based capture requires equal receipt and availability'')) (\<lambda>_.
     rbind (guard (cp_capture_basis p = HistoricalImportCapture \<and> received \<noteq> None)
              (ValueError ''historical import requires absent receipt'')) (\<lambda>_.
     rbind (guard ((cp_source_file_id p = None) \<noteq> (cp_source_record_id p = None))
              (ValueError ''source file and record IDs must appear together'')) (\<lambda>_.
     rbind (guard (optional_blank (cp_source_file_id p) \<or> optional_blank (cp_source_record_id p))
              (ValueError ''source file and record IDs must be non-empty text'')) (\<lambda>_.
     Inr (p\<lparr>cp_available_at := available, cp_recorded_at := recorded, cp_received_at := received\<rparr>)))))))))))"

section \<open>Payloads of the adopted semantics\<close>

fun decimal_value :: "raw_decimal \<Rightarrow> py_value" where
  "decimal_value (Finite d) = PDecimal d"
| "decimal_value Infinity_dec = PFloat PInf"
| "decimal_value NaN_dec = PFloat NaN"

definition optional_value :: "('a \<Rightarrow> py_value) \<Rightarrow> 'a option \<Rightarrow> py_value" where
  "optional_value f v = (case v of None \<Rightarrow> PNone | Some x \<Rightarrow> f x)"

definition text_tuple :: "string list \<Rightarrow> py_value" where
  "text_tuple ss = PList (map PStr ss)"

fun adopted_event_payload :: "market_observation \<Rightarrow> py_value" where
  "adopted_event_payload (QuoteEvent q) = str_dict
     [(''event_type'', PStr (ne_event_type (qn_identity q))),
      (''economic_subject_id'', PStr (qn_economic_subject_id q)),
      (''feed_response_type'', PStr (response_type_value (qn_feed_response_type q))),
      (''request_mode'', PStr (request_mode_value (qn_request_mode q))),
      (''feed_union'', PStr (feed_union_value (qn_feed_union q))),
      (''is_snapshot'', PBool (qn_is_snapshot q)),
      (''presence_semantics'', PStr (qn_presence_semantics q)),
      (''numeric_basis'', PStr (qn_numeric_basis q)),
      (''quantity_basis'', PStr (qn_quantity_basis q)),
      (''provider_timestamp'', PDateTime (nt_provider_timestamp (qn_event_time q))),
      (''bid_price'', optional_value decimal_value (qn_bid_price q)),
      (''bid_size'', optional_value PInt (qn_bid_size q)),
      (''ask_price'', optional_value decimal_value (qn_ask_price q)),
      (''ask_size'', optional_value PInt (qn_ask_size q)),
      (''last_price'', optional_value decimal_value (qn_last_price q)),
      (''last_size'', optional_value PInt (qn_last_size q)),
      (''last_trade_at'', optional_value PDateTime (qn_last_trade_at q)),
      (''previous_close_price'', optional_value decimal_value (qn_previous_close_price q)),
      (''reported_volume'', optional_value PInt (qn_reported_volume q)),
      (''open_interest'', optional_value PInt (qn_open_interest q)),
      (''provider_depth_levels_present'', PInt (qn_provider_depth_levels_present q)),
      (''normalized_depth_levels'', PInt (qn_normalized_depth_levels q)),
      (''unadopted_depth_level_count'', PInt (qn_unadopted_depth_level_count q))]"
| "adopted_event_payload (StatusEvent m) = str_dict
     [(''event_type'', PStr (ne_event_type (ms_identity m))),
      (''subject_id'', PStr (ne_subject_id (ms_identity m))),
      (''segment'', PStr (ms_segment m)),
      (''provider_status_name'', PStr (ms_status_name m)),
      (''provider_status_numeric'', PInt (ms_status_numeric m)),
      (''status_is_known'', PBool (ms_status_is_known m)),
      (''provider_timestamp'', PDateTime (ms_provider_timestamp m))]"

definition adopted_failure_payload :: "normalization_failure \<Rightarrow> py_value" where
  "adopted_failure_payload f = str_dict
     [(''scope'', PStr (failure_scope_value (nf_scope f))),
      (''reason_code'', PStr (nf_reason_code f)),
      (''provider_contract_key'', optional_value PStr (nf_provider_contract_key f)),
      (''segment'', optional_value PStr (nf_segment f)),
      (''field_paths'', text_tuple (nf_field_paths f)),
      (''safe_detail_code'', optional_value PStr (nf_safe_detail_code f)),
      (''selected_feed_union'', optional_value (\<lambda>u. PStr (feed_union_value u)) (nf_selected_feed_union f)),
      (''provider_depth_levels_present'', optional_value PInt (nf_provider_depth_levels_present f))]"

definition adopted_semantics_hash ::
  "(string \<Rightarrow> string) \<Rightarrow> market_observation list \<Rightarrow> normalization_failure option \<Rightarrow> normalization_failure list
   \<Rightarrow> string result" where
  "adopted_semantics_hash sha256 events frame_failure entry_failures =
     stable_hash sha256 (str_dict
       [(''schema'', PStr ''data-1.3-adopted-semantics-v1''),
        (''events'', PList (map adopted_event_payload events)),
        (''frame_failure'', optional_value adopted_failure_payload frame_failure),
        (''entry_failures'', PList (map adopted_failure_payload entry_failures))])"

section \<open>Payloads of the full result\<close>

definition identity_payload :: "normalized_event_identity \<Rightarrow> py_value" where
  "identity_payload i = str_dict
     [(''raw_event_id'', PStr (ne_raw_event_id i)), (''event_type'', PStr (ne_event_type i)),
      (''subject_id'', PStr (ne_subject_id i)), (''normalization_schema_version'', PInt (ne_schema_version i))]"

fun economic_identity_payload :: "economic_identity \<Rightarrow> py_value" where
  "economic_identity_payload (UnderlyingEconomy u) = str_dict
     [(''exchange'', PStr (ui_exchange u)), (''canonical_symbol'', PStr (ui_canonical_symbol u)),
      (''instrument_type'', PStr (instrument_type_value (ui_instrument_type u))), (''currency'', PStr (ui_currency u))]"
| "economic_identity_payload (FutureEconomy f) = str_dict
     [(''exchange'', PStr (fi_exchange f)), (''underlying_instrument_id'', PStr (fi_underlying_instrument_id f)),
      (''expiry'', PDate (fi_expiry f)), (''settlement_type'', PStr (settlement_type_value (fi_settlement_type f))),
      (''multiplier'', PDecimal (fi_multiplier f)), (''currency'', PStr (fi_currency f))]"
| "economic_identity_payload (OptionEconomy c) = str_dict
     [(''exchange'', PStr (oi_exchange c)), (''underlying_instrument_id'', PStr (oi_underlying_instrument_id c)),
      (''expiry'', PDate (oi_expiry c)), (''strike'', PDecimal (oi_strike c)),
      (''option_side'', PStr (option_side_value (oi_option_side c))),
      (''exercise_style'', PStr (exercise_style_value (oi_exercise_style c))),
      (''settlement_type'', PStr (settlement_type_value (oi_settlement_type c))),
      (''multiplier'', PDecimal (oi_multiplier c)), (''currency'', PStr (oi_currency c))]"

fun version_subject_field :: "version_kind \<Rightarrow> string" where
  "version_subject_field UnderlyingVersion = ''instrument_id''"
| "version_subject_field _ = ''contract_id''"

definition contract_version_payload :: "contract_version \<Rightarrow> py_value" where
  "contract_version_payload v =
     (let m = cv_metadata v in str_dict
       [(''valid_from'', PDateTime (cm_valid_from m)), (''valid_until'', optional_time (cm_valid_until m)),
        (''lot_size'', PInt (cm_lot_size m)), (''tick_size'', PDecimal (cm_tick_size m)),
        (''display_symbol'', PStr (cm_display_symbol m)),
        (''trading_status'', PStr (trading_status_value (cm_trading_status m))),
        (''catalogue_version_id'', PStr (cm_catalogue_version_id m)), (''recorded_at'', PDateTime (cm_recorded_at m)),
        (''superseded_at'', optional_time (cm_superseded_at m)),
        (version_subject_field (cv_kind v), PStr (cv_subject_id v))])"

definition provider_mapping_payload :: "provider_contract_mapping \<Rightarrow> py_value" where
  "provider_mapping_payload m = str_dict
     [(''provider'', PStr (pm_provider m)), (''provider_contract_key'', PStr (pm_provider_contract_key m)),
      (''contract_version_id'', PStr (pm_contract_version_id m)),
      (''provider_payload_hash'', PStr (pm_provider_payload_hash m)),
      (''source_row_identity'', optional_text (pm_source_row_identity m)),
      (''effective_from'', PDateTime (pm_effective_from m)), (''effective_until'', optional_time (pm_effective_until m)),
      (''recorded_at'', PDateTime (pm_recorded_at m)), (''superseded_at'', optional_time (pm_superseded_at m))]"

definition subject_payload :: "resolved_subject \<Rightarrow> py_value" where
  "subject_payload s = str_dict
     [(''provider'', PStr (rs_provider s)), (''provider_contract_key'', PStr (rs_provider_contract_key s)),
      (''provider_mapping_id'', PStr (rs_provider_mapping_id s)),
      (''provider_mapping'', provider_mapping_payload (rs_provider_mapping s)),
      (''contract_version_id'', PStr (rs_contract_version_id s)),
      (''economic_subject_id'', PStr (rs_economic_subject_id s)),
      (''instrument_kind'', PStr (subject_kind_value (rs_instrument_kind s))),
      (''economic_identity'', economic_identity_payload (rs_economic_identity s)),
      (''contract_version'', contract_version_payload (rs_contract_version s)),
      (''resolution_market_as_of'', PDateTime (rs_market_as_of s)),
      (''resolution_known_as_of'', PDateTime (rs_known_as_of s))]"

definition event_time_payload :: "normalized_event_time \<Rightarrow> py_value" where
  "event_time_payload t = str_dict
     [(''provider_timestamp'', PDateTime (nt_provider_timestamp t)), (''exchange_timestamp'', PNone),
      (''received_at'', optional_time (nt_received_at t)), (''available_at'', PDateTime (nt_available_at t)),
      (''recorded_at'', PDateTime (nt_recorded_at t)),
      (''availability_basis'', PStr (availability_value (nt_availability_basis t)))]"

fun observation_payload :: "market_observation \<Rightarrow> py_value" where
  "observation_payload (QuoteEvent q) = str_dict
     [(''identity'', identity_payload (qn_identity q)), (''raw_event_id'', PStr (qn_raw_event_id q)),
      (''provider'', PStr (qn_provider q)), (''provider_contract_key'', PStr (qn_provider_contract_key q)),
      (''provider_mapping_id'', PStr (qn_provider_mapping_id q)),
      (''contract_version_id'', PStr (qn_contract_version_id q)),
      (''economic_subject_id'', PStr (qn_economic_subject_id q)), (''subject'', subject_payload (qn_subject q)),
      (''event_time'', event_time_payload (qn_event_time q)),
      (''source_order_scope_id'', PStr (qn_source_order_scope_id q)), (''source_order'', PInt (qn_source_order q)),
      (''feed_response_type'', PStr (response_type_value (qn_feed_response_type q))),
      (''request_mode'', PStr (request_mode_value (qn_request_mode q))),
      (''feed_union'', PStr (feed_union_value (qn_feed_union q))), (''is_snapshot'', PBool (qn_is_snapshot q)),
      (''presence_semantics'', PStr (qn_presence_semantics q)), (''numeric_basis'', PStr (qn_numeric_basis q)),
      (''quantity_basis'', PStr (qn_quantity_basis q)),
      (''normalization_schema_version'', PInt (qn_schema_version q)),
      (''normalizer_implementation_version'', PStr (qn_implementation_version q)),
      (''provider_sequence'', PNone), (''supersedes_event_id'', PNone),
      (''bid_price'', optional_value decimal_value (qn_bid_price q)), (''bid_size'', optional_value PInt (qn_bid_size q)),
      (''ask_price'', optional_value decimal_value (qn_ask_price q)), (''ask_size'', optional_value PInt (qn_ask_size q)),
      (''last_price'', optional_value decimal_value (qn_last_price q)),
      (''last_size'', optional_value PInt (qn_last_size q)),
      (''last_trade_at'', optional_value PDateTime (qn_last_trade_at q)),
      (''previous_close_price'', optional_value decimal_value (qn_previous_close_price q)),
      (''reported_volume'', optional_value PInt (qn_reported_volume q)),
      (''open_interest'', optional_value PInt (qn_open_interest q)),
      (''provider_depth_levels_present'', PInt (qn_provider_depth_levels_present q)),
      (''normalized_depth_levels'', PInt (qn_normalized_depth_levels q)),
      (''unadopted_depth_level_count'', PInt (qn_unadopted_depth_level_count q)),
      (''unadopted_schema_paths'', text_tuple (qn_unadopted_schema_paths q)),
      (''present_unadopted_message_paths'', text_tuple (qn_present_unadopted_message_paths q)),
      (''secondary_payload_paths_present'', text_tuple (qn_secondary_payload_paths_present q))]"
| "observation_payload (StatusEvent m) = str_dict
     [(''identity'', identity_payload (ms_identity m)), (''raw_event_id'', PStr (ms_raw_event_id m)),
      (''provider'', PStr (ms_provider m)), (''segment'', PStr (ms_segment m)),
      (''provider_status_name'', PStr (ms_status_name m)), (''provider_status_numeric'', PInt (ms_status_numeric m)),
      (''status_is_known'', PBool (ms_status_is_known m)), (''provider_timestamp'', PDateTime (ms_provider_timestamp m)),
      (''received_at'', optional_time (ms_received_at m)), (''available_at'', PDateTime (ms_available_at m)),
      (''recorded_at'', PDateTime (ms_recorded_at m)), (''source_order_scope_id'', PStr (ms_source_order_scope_id m)),
      (''source_order'', PInt (ms_source_order m)), (''normalization_schema_version'', PInt (ms_schema_version m)),
      (''normalizer_implementation_version'', PStr (ms_implementation_version m))]"

definition failure_payload :: "normalization_failure \<Rightarrow> py_value" where
  "failure_payload f = str_dict
     [(''scope'', PStr (failure_scope_value (nf_scope f))), (''reason_code'', PStr (nf_reason_code f)),
      (''provider_contract_key'', optional_value PStr (nf_provider_contract_key f)),
      (''segment'', optional_value PStr (nf_segment f)), (''field_paths'', text_tuple (nf_field_paths f)),
      (''safe_detail_code'', optional_value PStr (nf_safe_detail_code f)),
      (''selected_feed_union'', optional_value (\<lambda>u. PStr (feed_union_value u)) (nf_selected_feed_union f)),
      (''unadopted_schema_paths'', text_tuple (nf_unadopted_schema_paths f)),
      (''present_unadopted_message_paths'', text_tuple (nf_present_unadopted_message_paths f)),
      (''provider_depth_levels_present'', optional_value PInt (nf_provider_depth_levels_present f))]"

definition raw_identity_fields :: "raw_frame_identity \<Rightarrow> py_value" where
  "raw_identity_fields i = str_dict
     [(''provider'', PStr (fr_provider i)), (''provider_schema_id'', PStr (fr_provider_schema_id i)),
      (''connection_session_id'', PStr (fr_connection_session_id i)),
      (''source_order_scope_id'', PStr (fr_source_order_scope_id i)), (''source_order'', PInt (fr_source_order i))]"

definition provenance_payload :: "capture_provenance \<Rightarrow> py_value" where
  "provenance_payload p = str_dict
     [(''provider_schema_sha256'', PStr (cp_provider_schema_sha256 p)), (''received_at'', optional_time (cp_received_at p)),
      (''available_at'', PDateTime (cp_available_at p)), (''recorded_at'', PDateTime (cp_recorded_at p)),
      (''capture_basis'', PStr (capture_basis_value (cp_capture_basis p))),
      (''source_file_id'', optional_text (cp_source_file_id p)),
      (''source_record_id'', optional_text (cp_source_record_id p))]"

section \<open>Results\<close>

datatype normalization_status = CompleteResult | PartialResult | FailedResult

fun status_value :: "normalization_status \<Rightarrow> string" where
  "status_value CompleteResult = ''complete''"
| "status_value PartialResult = ''partial''"
| "status_value FailedResult = ''failed''"

record frame_result =
  nr_raw_frame_identity :: raw_frame_identity
  nr_frame_content_hash :: string
  nr_capture_provenance :: capture_provenance
  nr_status :: normalization_status
  nr_response_type :: "feed_response_type option"
  nr_accepted_events :: "market_observation list"
  nr_frame_failure :: "normalization_failure option"
  nr_entry_failures :: "normalization_failure list"
  nr_unadopted_schema_paths :: "string list"
  nr_present_unadopted_message_paths :: "string list"
  nr_secondary_payload_paths_present :: "string list"
  nr_decoded_entry_count :: int
  nr_accepted_entry_count :: int
  nr_failed_entry_count :: int
  nr_full_result_hash :: string
  nr_adopted_semantics_hash :: string

definition full_hash_projection :: "frame_result \<Rightarrow> py_value" where
  "full_hash_projection r = str_dict
     [(''schema'', PStr ''data-1.3-full-result-v1''),
      (''raw_frame_identity'', raw_identity_fields (nr_raw_frame_identity r)),
      (''frame_content_hash'', PStr (nr_frame_content_hash r)),
      (''capture_provenance'', provenance_payload (nr_capture_provenance r)),
      (''accepted_events'', PList (map observation_payload (nr_accepted_events r))),
      (''frame_failure'', optional_value failure_payload (nr_frame_failure r)),
      (''entry_failures'', PList (map failure_payload (nr_entry_failures r))),
      (''status'', PStr (status_value (nr_status r))),
      (''response_type'', optional_value (\<lambda>t. PStr (response_type_value t)) (nr_response_type r)),
      (''decoded_entry_count'', PInt (nr_decoded_entry_count r)),
      (''accepted_entry_count'', PInt (nr_accepted_entry_count r)),
      (''failed_entry_count'', PInt (nr_failed_entry_count r)),
      (''unadopted_schema_paths'', text_tuple (nr_unadopted_schema_paths r)),
      (''present_unadopted_message_paths'', text_tuple (nr_present_unadopted_message_paths r)),
      (''secondary_payload_paths_present'', text_tuple (nr_secondary_payload_paths_present r))]"

definition full_result_hash :: "(string \<Rightarrow> string) \<Rightarrow> frame_result \<Rightarrow> string result" where
  "full_result_hash sha256 r = stable_hash sha256 (full_hash_projection r)"

definition expected_status ::
  "market_observation list \<Rightarrow> normalization_failure option \<Rightarrow> normalization_failure list \<Rightarrow> normalization_status" where
  "expected_status events frame_failure entry_failures =
     (if frame_failure \<noteq> None then FailedResult
      else if events \<noteq> [] \<and> entry_failures = [] then CompleteResult
      else if events \<noteq> [] \<and> entry_failures \<noteq> [] then PartialResult
      else FailedResult)"

definition make_frame_result :: "(string \<Rightarrow> string) \<Rightarrow> frame_result \<Rightarrow> frame_result result" where
  "make_frame_result sha256 r =
     rbind (rmap (\<lambda>c. guard (snd c < 0) (ValueError (fst c @ '' must be a non-negative integer'')))
              [(''decoded_entry_count'', nr_decoded_entry_count r),
               (''accepted_entry_count'', nr_accepted_entry_count r),
               (''failed_entry_count'', nr_failed_entry_count r)]) (\<lambda>_.
     rbind (guard (nr_accepted_entry_count r \<noteq> int (length (nr_accepted_events r)))
              (ValueError ''accepted event count mismatch'')) (\<lambda>_.
     rbind (guard (nr_failed_entry_count r \<noteq> failed_entry_scope_count (nr_entry_failures r))
              (ValueError ''failed entry count mismatch'')) (\<lambda>_.
     rbind (guard (nr_frame_failure r = None
                \<and> nr_decoded_entry_count r \<noteq> nr_accepted_entry_count r + nr_failed_entry_count r)
              (ValueError ''decoded entry reconciliation failed'')) (\<lambda>_.
     rbind (guard (case nr_frame_failure r of None \<Rightarrow> False | Some f \<Rightarrow> nf_scope f \<noteq> FrameScope)
              (ValueError ''frame_failure must have frame scope'')) (\<lambda>_.
     rbind (guard (nr_frame_failure r \<noteq> None \<and> (nr_accepted_events r \<noteq> [] \<or> nr_entry_failures r \<noteq> []))
              (ValueError ''frame failure cannot coexist with entry outcomes'')) (\<lambda>_.
     rbind (guard (list_ex (\<lambda>f. nf_scope f = FrameScope) (nr_entry_failures r))
              (ValueError ''entry failures cannot have frame scope'')) (\<lambda>_.
     rbind (guard (nr_status r \<noteq> expected_status (nr_accepted_events r) (nr_frame_failure r) (nr_entry_failures r))
              (ValueError ''normalization result status mismatch'')) (\<lambda>_.
     rbind (guard (\<not> distinct (map observation_id (nr_accepted_events r)))
              (ValueError ''duplicate_normalized_identity'')) (\<lambda>_.
     rbind (rmap (\<lambda>field. guard (sorted_unique (snd field) \<noteq> snd field)
                     (ValueError (fst field @ '' must be sorted and unique'')))
              [(''unadopted_schema_paths'', nr_unadopted_schema_paths r),
               (''present_unadopted_message_paths'', nr_present_unadopted_message_paths r),
               (''secondary_payload_paths_present'', nr_secondary_payload_paths_present r)]) (\<lambda>_.
     rbind (adopted_semantics_hash sha256 (nr_accepted_events r) (nr_frame_failure r) (nr_entry_failures r))
       (\<lambda>expected_adopted.
     rbind (guard (nr_adopted_semantics_hash r \<noteq> expected_adopted) (ValueError ''adopted semantics hash mismatch'')) (\<lambda>_.
     rbind (full_result_hash sha256 r) (\<lambda>expected_full.
     rbind (guard (nr_full_result_hash r \<noteq> expected_full) (ValueError ''full result hash mismatch'')) (\<lambda>_.
     Inr r))))))))))))))"

record frame_draft =
  fd_accepted_events :: "market_observation list"
  fd_entry_failures :: "normalization_failure list"
  fd_unadopted_schema_paths :: "string list"
  fd_present_unadopted_message_paths :: "string list"
  fd_secondary_payload_paths_present :: "string list"
  fd_decoded_entry_count :: int

end
