(* ===== verification/Feed.thy ===== *)
theory Feed
  imports Frames
begin

text \<open>
  The messages of \<open>market_data/upstox/proto/MarketDataFeed.proto\<close>, the limits and declared paths of
  \<open>market_data/upstox/v3_schema.py\<close>, and the decoder \<open>market_data/upstox/v3_decoder.py\<close>.

  A message is a record: a nested message field is an option (\<open>HasField\<close>), a oneof a datatype with a
  case for "not set", a map an association list with distinct keys. Fields that the code only tests for
  presence are booleans, and fields it never reads are left out. The protobuf runtime is the
  parameter \<open>parse\<close>, from bytes to a message, or \<open>None\<close> when it raises \<open>DecodeError\<close>; numbers that
  reach the code are arbitrary integers and floats.
\<close>

section \<open>Messages\<close>

record ltpc_message =
  lt_ltp :: pyfloat
  lt_ltt :: int
  lt_ltq :: int
  lt_cp :: pyfloat

record quote_level =
  ql_bid_q :: int
  ql_bid_p :: pyfloat
  ql_ask_q :: int
  ql_ask_p :: pyfloat

record market_full_feed =
  mf_ltpc :: "ltpc_message option"
  mf_market_level :: "quote_level list option"
  mf_has_option_greeks :: bool
  mf_has_market_ohlc :: bool
  mf_vtt :: int
  mf_oi :: pyfloat

record index_full_feed =
  xf_ltpc :: "ltpc_message option"
  xf_has_market_ohlc :: bool

datatype full_feed = NoFullFeed | MarketFF market_full_feed | IndexFF index_full_feed

record first_level_feed =
  ff_ltpc :: "ltpc_message option"
  ff_first_depth :: "quote_level option"
  ff_has_option_greeks :: bool
  ff_vtt :: int
  ff_oi :: pyfloat

datatype feed_union = NoFeed | LtpcFeed ltpc_message | FullFeed full_feed | FirstLevelFeed first_level_feed

record feed =
  fe_union :: feed_union
  fe_request_mode :: int

record feed_response =
  rp_type :: int
  rp_feeds :: "(string \<times> feed) list"
  rp_current_ts :: int
  rp_segment_status :: "(string \<times> int) list"

text \<open>A map of the runtime answers \<open>feeds[key]\<close> with the default message when the key is missing, and
  \<open>segmentStatus[key]\<close> with zero.\<close>

definition feed_at :: "feed_response \<Rightarrow> string \<Rightarrow> feed" where
  "feed_at r key =
     (case map_of (rp_feeds r) key of Some f \<Rightarrow> f | None \<Rightarrow> \<lparr>fe_union = NoFeed, fe_request_mode = 0\<rparr>)"

definition status_at :: "feed_response \<Rightarrow> string \<Rightarrow> int" where
  "status_at r segment = (case map_of (rp_segment_status r) segment of Some n \<Rightarrow> n | None \<Rightarrow> 0)"

section \<open>Limits\<close>

definition UPSTOX_V3_SCHEMA_ID :: string where
  "UPSTOX_V3_SCHEMA_ID = ''upstox-market-data-feed-v3''"

definition UPSTOX_V3_SCHEMA_SHA256 :: string where
  "UPSTOX_V3_SCHEMA_SHA256 = ''ded335a0c7d2054011c2c0e06f276007a3186d1e212268d85d665788e42916c4''"

definition UPSTOX_V3_MAX_FEEDS :: nat where
  "UPSTOX_V3_MAX_FEEDS = 5000"

definition UPSTOX_V3_MAX_DEPTH_LEVELS :: nat where
  "UPSTOX_V3_MAX_DEPTH_LEVELS = 30"

definition UPSTOX_V3_MAX_STATUS_SEGMENTS :: nat where
  "UPSTOX_V3_MAX_STATUS_SEGMENTS = 256"

section \<open>Decoding\<close>

text \<open>The values of the protobuf enumeration \<open>Type\<close>.\<close>

definition INITIAL_FEED :: int where "INITIAL_FEED = 0"

definition LIVE_FEED :: int where "LIVE_FEED = 1"

definition MARKET_INFO :: int where "MARKET_INFO = 2"

record decode_error =
  de_code :: string
  de_response_type :: "int option"

record decoded_frame =
  df_response :: feed_response
  df_response_type :: int
  df_provider_contract_keys :: "string list"
  df_status_segments :: "string list"

definition decode_error :: "string \<Rightarrow> decode_error" where
  "decode_error code = \<lparr>de_code = code, de_response_type = None\<rparr>"

definition keys_valid :: "(string \<Rightarrow> string result) \<Rightarrow> string list \<Rightarrow> bool" where
  "keys_valid validate keys \<longleftrightarrow> (case rmap validate keys of Inl _ \<Rightarrow> False | Inr _ \<Rightarrow> True)"

definition decode_upstox_v3_frame :: "(string \<Rightarrow> feed_response option) \<Rightarrow> raw_frame \<Rightarrow> decode_error + decoded_frame" where
  "decode_upstox_v3_frame parse frame =
     (if fr_provider_schema_id (rf_identity frame) \<noteq> UPSTOX_V3_SCHEMA_ID
         \<or> rf_provider_schema_sha256 frame \<noteq> UPSTOX_V3_SCHEMA_SHA256 then Inl (decode_error ''protobuf_decode_failed'')
      else case parse (rf_frame_bytes frame) of
        None \<Rightarrow> Inl (decode_error ''protobuf_decode_failed'')
      | Some response \<Rightarrow>
          let response_type = rp_type response;
              provider_keys = sort (map fst (rp_feeds response));
              status_segments = sort (map fst (rp_segment_status response)) in
          if response_type \<notin> {INITIAL_FEED, LIVE_FEED, MARKET_INFO} then Inl (decode_error ''unsupported_response_type'')
          else if rp_current_ts response = 0 then Inl (decode_error ''missing_provider_timestamp'')
          else if (case epoch_milliseconds (rp_current_ts response) False of Inl _ \<Rightarrow> True | Inr _ \<Rightarrow> False)
          then Inl (decode_error ''invalid_provider_timestamp'')
          else if UPSTOX_V3_MAX_FEEDS < length (rp_feeds response) then Inl (decode_error ''too_many_feeds'')
          else if UPSTOX_V3_MAX_STATUS_SEGMENTS < length (rp_segment_status response)
          then Inl (decode_error ''too_many_status_segments'')
          else if response_type = MARKET_INFO \<and> status_segments = [] then Inl (decode_error ''empty_primary_payload'')
          else if response_type \<in> {INITIAL_FEED, LIVE_FEED} \<and> provider_keys = []
          then Inl (decode_error ''empty_primary_payload'')
          else if response_type = MARKET_INFO \<and> \<not> keys_valid validate_market_segment status_segments
          then Inl \<lparr>de_code = ''invalid_market_segment'', de_response_type = Some response_type\<rparr>
          else if response_type \<noteq> MARKET_INFO \<and> \<not> keys_valid validate_provider_contract_key provider_keys
          then Inl \<lparr>de_code = ''invalid_provider_contract_key'', de_response_type = Some response_type\<rparr>
          else Inr \<lparr>df_response = response, df_response_type = response_type,
                    df_provider_contract_keys = provider_keys, df_status_segments = status_segments\<rparr>)"

section \<open>What a decoded frame guarantees\<close>

lemma validated_identifier:
  "validate_provider_contract_key k = Inr k' \<Longrightarrow> k' = k"
  "validate_market_segment k = Inr k' \<Longrightarrow> k' = k"
  by (auto simp: validate_provider_contract_key_def validate_market_segment_def validate_provider_identifier_def
      result_simps Let_def)

lemma keys_valid_iff:
  "keys_valid validate_provider_contract_key ks \<longleftrightarrow> (\<forall>k \<in> set ks. validate_provider_contract_key k = Inr k)"
  "keys_valid validate_market_segment ks \<longleftrightarrow> (\<forall>k \<in> set ks. validate_market_segment k = Inr k)"
  by (induction ks) (auto simp: keys_valid_def rbind_def split: sum.splits dest: validated_identifier)

definition well_decoded :: "decoded_frame \<Rightarrow> bool" where
  "well_decoded d \<longleftrightarrow>
     df_response_type d \<in> {INITIAL_FEED, LIVE_FEED, MARKET_INFO}
     \<and> (\<exists>t. epoch_milliseconds (rp_current_ts (df_response d)) False = Inr (Some t))
     \<and> df_provider_contract_keys d = sort (map fst (rp_feeds (df_response d)))
     \<and> df_status_segments d = sort (map fst (rp_segment_status (df_response d)))
     \<and> (if df_response_type d = MARKET_INFO
        then df_status_segments d \<noteq> [] \<and> (\<forall>k \<in> set (df_status_segments d). validate_market_segment k = Inr k)
        else df_provider_contract_keys d \<noteq> []
          \<and> (\<forall>k \<in> set (df_provider_contract_keys d). validate_provider_contract_key k = Inr k))"

lemma epoch_milliseconds_time: "epoch_milliseconds m False = Inr t \<Longrightarrow> \<exists>u. t = Some u \<and> in_utc u"
  by (auto simp: epoch_milliseconds_def result_simps Let_def split: if_splits)

lemma decoded_well:
  assumes "decode_upstox_v3_frame parse frame = Inr d"
  shows "well_decoded d" and "rf_provider_schema_sha256 frame = UPSTOX_V3_SCHEMA_SHA256"
    and "parse (rf_frame_bytes frame) = Some (df_response d)"
proof -
  from assms show schema: "rf_provider_schema_sha256 frame = UPSTOX_V3_SCHEMA_SHA256"
    by (auto simp: decode_upstox_v3_frame_def split: if_splits)
  from assms obtain response where parsed: "parse (rf_frame_bytes frame) = Some response"
    by (auto simp: decode_upstox_v3_frame_def split: if_splits option.splits)
  let ?ks = "sort (map fst (rp_feeds response))" and ?ss = "sort (map fst (rp_segment_status response))"
  from assms parsed have d: "d = \<lparr>df_response = response, df_response_type = rp_type response,
      df_provider_contract_keys = ?ks, df_status_segments = ?ss\<rparr>"
    and checks: "rp_type response \<in> {INITIAL_FEED, LIVE_FEED, MARKET_INFO}"
    "\<not> (case epoch_milliseconds (rp_current_ts response) False of Inl _ \<Rightarrow> True | Inr _ \<Rightarrow> False)"
    "\<not> (rp_type response = MARKET_INFO \<and> ?ss = [])" "\<not> (rp_type response \<in> {INITIAL_FEED, LIVE_FEED} \<and> ?ks = [])"
    "\<not> (rp_type response = MARKET_INFO \<and> \<not> keys_valid validate_market_segment ?ss)"
    "\<not> (rp_type response \<noteq> MARKET_INFO \<and> \<not> keys_valid validate_provider_contract_key ?ks)"
    unfolding decode_upstox_v3_frame_def Let_def by (simp_all split: if_splits)
  show "parse (rf_frame_bytes frame) = Some (df_response d)" using parsed by (simp add: d)
  have "\<exists>t. epoch_milliseconds (rp_current_ts response) False = Inr (Some t)"
    using checks(2) epoch_milliseconds_time by (fastforce split: sum.splits)
  then show "well_decoded d"
    using checks(1,3-6) unfolding well_decoded_def d decoded_frame.select_convs keys_valid_iff by auto
qed

end
