(* ===== verification/Normalizer.thy ===== *)
theory Normalizer
  imports FrameResults Feed
begin

text \<open>
  \<open>app/market_data/upstox/v3_normalizer.py\<close>: from a decoded frame and the resolved subjects to
  observations and entry failures.

  A \<open>ValueError\<close> raised while one quote is normalized becomes a failure of that entry when its text is
  in the list of known reasons, and is raised again otherwise. \<open>FeedUnion\<close> of an entry is decided once
  for its fields (\<open>adopt_fields\<close>) and once for its structure (\<open>structural_metadata\<close>), as in the source.
\<close>

section \<open>Declared paths\<close>

fun unadopted_schema_paths :: "provider_feed_union \<Rightarrow> string list" where
  "unadopted_schema_paths UnionLtpc = []"
| "unadopted_schema_paths UnionIndexFull = sort
     [''IndexFullFeed.marketOHLC.ohlc'', ''OHLC.close'', ''OHLC.high'', ''OHLC.interval'', ''OHLC.low'',
      ''OHLC.open'', ''OHLC.ts'', ''OHLC.vol'']"
| "unadopted_schema_paths UnionMarketFull = sort
     [''MarketFullFeed.atp'', ''MarketFullFeed.iv'', ''MarketFullFeed.marketLevel.bidAskQuote[1:]'',
      ''MarketFullFeed.marketOHLC.ohlc'', ''MarketFullFeed.optionGreeks.delta'', ''MarketFullFeed.optionGreeks.gamma'',
      ''MarketFullFeed.optionGreeks.rho'', ''MarketFullFeed.optionGreeks.theta'', ''MarketFullFeed.optionGreeks.vega'',
      ''MarketFullFeed.tbq'', ''MarketFullFeed.tsq'', ''OHLC.close'', ''OHLC.high'', ''OHLC.interval'', ''OHLC.low'',
      ''OHLC.open'', ''OHLC.ts'', ''OHLC.vol'']"
| "unadopted_schema_paths UnionFirstLevel = sort
     [''FirstLevelWithGreeks.iv'', ''FirstLevelWithGreeks.optionGreeks.delta'',
      ''FirstLevelWithGreeks.optionGreeks.gamma'', ''FirstLevelWithGreeks.optionGreeks.rho'',
      ''FirstLevelWithGreeks.optionGreeks.theta'', ''FirstLevelWithGreeks.optionGreeks.vega'']"

section \<open>Structure of an entry\<close>

record entry_structure =
  es_selected :: "provider_feed_union option"
  es_unadopted :: "string list"
  es_present :: "string list"
  es_depth_count :: "int option"

definition selected_structure :: "provider_feed_union \<Rightarrow> string list \<Rightarrow> int \<Rightarrow> entry_structure" where
  "selected_structure selected present depth =
     \<lparr>es_selected = Some selected, es_unadopted = unadopted_schema_paths selected, es_present = sort present,
      es_depth_count = Some depth\<rparr>"

definition no_structure :: entry_structure where
  "no_structure = \<lparr>es_selected = None, es_unadopted = [], es_present = [], es_depth_count = None\<rparr>"

definition market_level_count :: "market_full_feed \<Rightarrow> nat" where
  "market_level_count m = (case mf_market_level m of None \<Rightarrow> 0 | Some levels \<Rightarrow> length levels)"

definition market_present_paths :: "market_full_feed \<Rightarrow> string list" where
  "market_present_paths m =
     (if mf_has_option_greeks m then [''MarketFullFeed.optionGreeks''] else [])
     @ (if mf_has_market_ohlc m then [''MarketFullFeed.marketOHLC''] else [])"

definition index_present_paths :: "index_full_feed \<Rightarrow> string list" where
  "index_present_paths x = (if xf_has_market_ohlc x then [''IndexFullFeed.marketOHLC''] else [])"

definition first_level_present_paths :: "first_level_feed \<Rightarrow> string list" where
  "first_level_present_paths f = (if ff_has_option_greeks f then [''FirstLevelWithGreeks.optionGreeks''] else [])"

fun structural_metadata :: "feed_union \<Rightarrow> entry_structure" where
  "structural_metadata (LtpcFeed _) = selected_structure UnionLtpc [] 0"
| "structural_metadata (FirstLevelFeed f) =
     selected_structure UnionFirstLevel (first_level_present_paths f) (if ff_first_depth f \<noteq> None then 1 else 0)"
| "structural_metadata (FullFeed (IndexFF x)) = selected_structure UnionIndexFull (index_present_paths x) 0"
| "structural_metadata (FullFeed (MarketFF m)) =
     selected_structure UnionMarketFull (market_present_paths m) (int (market_level_count m))"
| "structural_metadata (FullFeed NoFullFeed) = no_structure"
| "structural_metadata NoFeed = no_structure"

section \<open>Adopted fields\<close>

record adopted_fields =
  af_feed_union :: provider_feed_union
  af_bid_price :: "decimal option"
  af_bid_size :: "int option"
  af_ask_price :: "decimal option"
  af_ask_size :: "int option"
  af_last_price :: decimal
  af_last_size :: int
  af_last_trade_at :: "pydatetime option"
  af_previous_close_price :: decimal
  af_reported_volume :: "int option"
  af_open_interest :: "int option"
  af_provider_depth_levels_present :: int
  af_normalized_depth_levels :: int
  af_present_paths :: "string list"

text \<open>Best bid and ask, their sizes, when a level is present.\<close>

type_synonym top_of_book = "decimal option \<times> int option \<times> decimal option \<times> int option"

definition top_of_book :: "quote_level option \<Rightarrow> top_of_book result" where
  "top_of_book level =
     (case level of
        None \<Rightarrow> Inr (None, None, None, None)
      | Some l \<Rightarrow>
          rbind (provider_double_to_price (ql_bid_p l)) (\<lambda>bid_price.
          rbind (reported_quantity (ql_bid_q l)) (\<lambda>bid_size.
          rbind (provider_double_to_price (ql_ask_p l)) (\<lambda>ask_price.
          rbind (reported_quantity (ql_ask_q l)) (\<lambda>ask_size.
          Inr (Some bid_price, Some bid_size, Some ask_price, Some ask_size))))))"

definition fields_from_ltpc ::
  "ltpc_message \<Rightarrow> provider_feed_union \<Rightarrow> top_of_book \<Rightarrow> int option \<Rightarrow> int option \<Rightarrow> int \<Rightarrow> string list
   \<Rightarrow> adopted_fields result" where
  "fields_from_ltpc ltpc selected book volume open_interest depth_count present_paths =
     (let (bid_price, bid_size, ask_price, ask_size) = book in
      rbind (provider_double_to_price (lt_ltp ltpc)) (\<lambda>last_price.
      rbind (reported_quantity (lt_ltq ltpc)) (\<lambda>last_size.
      rbind (epoch_milliseconds (lt_ltt ltpc) True) (\<lambda>last_trade_at.
      rbind (provider_double_to_price (lt_cp ltpc)) (\<lambda>previous_close.
      Inr \<lparr>af_feed_union = selected, af_bid_price = bid_price, af_bid_size = bid_size, af_ask_price = ask_price,
           af_ask_size = ask_size, af_last_price = last_price, af_last_size = last_size,
           af_last_trade_at = last_trade_at, af_previous_close_price = previous_close, af_reported_volume = volume,
           af_open_interest = open_interest, af_provider_depth_levels_present = depth_count,
           af_normalized_depth_levels = (if depth_count = 0 then 0 else 1),
           af_present_paths = sorted_unique present_paths\<rparr>)))))"

text \<open>\<open>if not payload.HasField("ltpc"): raise\<close>.\<close>

definition require_ltpc :: "ltpc_message option \<Rightarrow> ltpc_message result" where
  "require_ltpc l = lift_opt (ValueError ''empty_supported_payload'') l"

definition adopt_first_level :: "first_level_feed \<Rightarrow> provider_request_mode \<Rightarrow> market_subject_kind \<Rightarrow> adopted_fields result" where
  "adopt_first_level f mode kind =
     rbind (guard (mode \<noteq> ModeOptionGreeks) (ValueError ''request_mode_union_mismatch'')) (\<lambda>_.
     rbind (guard (kind \<noteq> OptionSubject) (ValueError ''subject_kind_mismatch'')) (\<lambda>_.
     rbind (require_ltpc (ff_ltpc f)) (\<lambda>ltpc.
     rbind (top_of_book (ff_first_depth f)) (\<lambda>book.
     rbind (reported_quantity (ff_vtt f)) (\<lambda>volume.
     rbind (reported_open_interest (ff_oi f)) (\<lambda>open_interest.
     fields_from_ltpc ltpc UnionFirstLevel book (Some volume) (Some open_interest)
       (if ff_first_depth f \<noteq> None then 1 else 0) (first_level_present_paths f)))))))"

definition adopt_index_full :: "index_full_feed \<Rightarrow> market_subject_kind \<Rightarrow> adopted_fields result" where
  "adopt_index_full x kind =
     rbind (guard (kind \<noteq> UnderlyingSubject) (ValueError ''subject_kind_mismatch'')) (\<lambda>_.
     rbind (require_ltpc (xf_ltpc x)) (\<lambda>ltpc.
     fields_from_ltpc ltpc UnionIndexFull (None, None, None, None) None None 0 (index_present_paths x)))"

definition adopt_market_full :: "market_full_feed \<Rightarrow> provider_request_mode \<Rightarrow> market_subject_kind \<Rightarrow> adopted_fields result" where
  "adopt_market_full m mode kind =
     rbind (guard (kind \<notin> {FutureSubject, OptionSubject}) (ValueError ''subject_kind_mismatch'')) (\<lambda>_.
     rbind (require_ltpc (mf_ltpc m)) (\<lambda>ltpc.
     let depth_count = market_level_count m in
     rbind (guard (UPSTOX_V3_MAX_DEPTH_LEVELS < depth_count) (ValueError ''depth_limit_exceeded'')) (\<lambda>_.
     rbind (guard (mode = ModeFullD5 \<and> 5 < depth_count) (ValueError ''request_mode_depth_mismatch'')) (\<lambda>_.
     rbind (top_of_book (case mf_market_level m of Some (level # _) \<Rightarrow> Some level | _ \<Rightarrow> None)) (\<lambda>book.
     rbind (reported_quantity (mf_vtt m)) (\<lambda>volume.
     rbind (reported_open_interest (mf_oi m)) (\<lambda>open_interest.
     fields_from_ltpc ltpc UnionMarketFull book (Some volume) (Some open_interest) (int depth_count)
       (sort (market_present_paths m)))))))))"

fun adopt_fields :: "feed_union \<Rightarrow> provider_request_mode \<Rightarrow> market_subject_kind \<Rightarrow> adopted_fields result" where
  "adopt_fields (LtpcFeed ltpc) mode kind =
     rbind (guard (mode \<noteq> ModeLtpc) (ValueError ''request_mode_union_mismatch'')) (\<lambda>_.
     fields_from_ltpc ltpc UnionLtpc (None, None, None, None) None None 0 [])"
| "adopt_fields (FirstLevelFeed f) mode kind = adopt_first_level f mode kind"
| "adopt_fields (FullFeed full) mode kind =
     rbind (guard (mode \<notin> {ModeFullD5, ModeFullD30}) (ValueError ''request_mode_union_mismatch'')) (\<lambda>_.
     case full of
       IndexFF x \<Rightarrow> adopt_index_full x kind
     | MarketFF m \<Rightarrow> adopt_market_full m mode kind
     | NoFullFeed \<Rightarrow> Inl (ValueError ''unsupported_feed_union''))"
| "adopt_fields NoFeed mode kind = Inl (ValueError ''unsupported_feed_union'')"

section \<open>One quote\<close>

definition request_mode_of :: "int \<Rightarrow> provider_request_mode option" where
  "request_mode_of = map_of [(0, ModeLtpc), (1, ModeFullD5), (2, ModeOptionGreeks), (3, ModeFullD30)]"

definition frame_event_time :: "raw_frame \<Rightarrow> pydatetime \<Rightarrow> normalized_event_time" where
  "frame_event_time frame provider_timestamp =
     \<lparr>nt_provider_timestamp = provider_timestamp, nt_received_at = rf_received_at frame,
      nt_available_at = rf_available_at frame, nt_recorded_at = rf_recorded_at frame,
      nt_availability_basis =
        (if rf_capture_basis frame = HistoricalImportCapture then AvailabilityHistorical else AvailabilityReceived)\<rparr>"

definition assemble_quote ::
  "raw_frame \<Rightarrow> resolved_subject \<Rightarrow> feed_response_type \<Rightarrow> provider_request_mode \<Rightarrow> adopted_fields \<Rightarrow> string
   \<Rightarrow> normalized_event_identity \<Rightarrow> normalized_event_time \<Rightarrow> string list \<Rightarrow> quote_observation" where
  "assemble_quote frame subject response_type mode adopted raw_id identity event_time secondary_paths =
       \<lparr>qn_class = rs_instrument_kind subject, qn_identity = identity, qn_raw_event_id = raw_id, qn_provider = rf_provider frame,
        qn_provider_contract_key = rs_provider_contract_key subject,
        qn_provider_mapping_id = rs_provider_mapping_id subject,
        qn_contract_version_id = rs_contract_version_id subject,
        qn_economic_subject_id = rs_economic_subject_id subject, qn_subject = subject, qn_event_time = event_time,
        qn_source_order_scope_id = fr_source_order_scope_id (rf_identity frame),
        qn_source_order = fr_source_order (rf_identity frame), qn_feed_response_type = response_type,
        qn_request_mode = mode, qn_feed_union = af_feed_union adopted,
        qn_is_snapshot = (response_type = InitialFeed), qn_presence_semantics = PRESENCE_SEMANTICS,
        qn_numeric_basis = NUMERIC_BASIS, qn_quantity_basis = QUANTITY_BASIS,
        qn_schema_version = NORMALIZATION_SCHEMA_VERSION,
        qn_implementation_version = NORMALIZER_IMPLEMENTATION_VERSION,
        qn_bid_price = map_option Finite (af_bid_price adopted), qn_bid_size = af_bid_size adopted,
        qn_ask_price = map_option Finite (af_ask_price adopted), qn_ask_size = af_ask_size adopted,
        qn_last_price = Some (Finite (af_last_price adopted)), qn_last_size = Some (af_last_size adopted),
        qn_last_trade_at = af_last_trade_at adopted,
        qn_previous_close_price = Some (Finite (af_previous_close_price adopted)),
        qn_reported_volume = af_reported_volume adopted, qn_open_interest = af_open_interest adopted,
        qn_provider_depth_levels_present = af_provider_depth_levels_present adopted,
        qn_normalized_depth_levels = af_normalized_depth_levels adopted,
        qn_unadopted_depth_level_count =
          af_provider_depth_levels_present adopted - af_normalized_depth_levels adopted,
        qn_unadopted_schema_paths = unadopted_schema_paths (af_feed_union adopted),
        qn_present_unadopted_message_paths = af_present_paths adopted,
        qn_secondary_payload_paths_present = secondary_paths\<rparr>"

definition normalize_quote ::
  "(string \<Rightarrow> string) \<Rightarrow> feed \<Rightarrow> raw_frame \<Rightarrow> resolved_subject \<Rightarrow> feed_response_type \<Rightarrow> pydatetime \<Rightarrow> string list
   \<Rightarrow> quote_observation result" where
  "normalize_quote sha256 fe frame subject response_type provider_timestamp secondary_paths =
     rbind (lift_opt (ValueError ''request_mode_union_mismatch'') (request_mode_of (fe_request_mode fe))) (\<lambda>mode.
     let kind = rs_instrument_kind subject in
     rbind (adopt_fields (fe_union fe) mode kind) (\<lambda>adopted.
     rbind (frame_raw_event_id sha256 (rf_identity frame)) (\<lambda>raw_id.
     rbind (make_normalized_identity sha256 raw_id (quote_event_type kind) (rs_economic_subject_id subject)
              NORMALIZATION_SCHEMA_VERSION) (\<lambda>identity.
     rbind (make_normalized_event_time (frame_event_time frame provider_timestamp)) (\<lambda>event_time.
     make_quote_observation sha256
       (assemble_quote frame subject response_type mode adopted raw_id identity event_time secondary_paths))))))"

section \<open>All quotes of a frame\<close>

definition ENTRY_REASONS :: "string list" where
  "ENTRY_REASONS =
     [''subject_kind_mismatch'', ''request_mode_union_mismatch'', ''unsupported_feed_union'',
      ''empty_supported_payload'', ''invalid_timestamp'', ''nonfinite_price'', ''negative_price'', ''invalid_quantity'',
      ''fractional_open_interest'', ''unsafe_open_interest'', ''depth_limit_exceeded'', ''request_mode_depth_mismatch'']"

definition entry_failure :: "feed \<Rightarrow> string \<Rightarrow> string \<Rightarrow> normalization_failure result" where
  "entry_failure fe key reason =
     (let s = structural_metadata (fe_union fe) in
      make_normalization_failure
        \<lparr>nf_scope = SubjectScope, nf_reason_code = reason, nf_provider_contract_key = Some key, nf_segment = None,
         nf_field_paths = [], nf_safe_detail_code = None, nf_selected_feed_union = es_selected s,
         nf_unadopted_schema_paths = es_unadopted s, nf_present_unadopted_message_paths = es_present s,
         nf_provider_depth_levels_present = es_depth_count s\<rparr>)"

type_synonym quotes_and_failures = "quote_observation list \<times> normalization_failure list"

definition normalize_entry ::
  "(string \<Rightarrow> string) \<Rightarrow> decoded_frame \<Rightarrow> raw_frame \<Rightarrow> resolution_batch \<Rightarrow> feed_response_type \<Rightarrow> string list \<Rightarrow> string
   \<Rightarrow> quotes_and_failures \<Rightarrow> quotes_and_failures result" where
  "normalize_entry sha256 decoded frame subjects response_type secondary_paths key acc =
     (let fe = feed_at (df_response decoded) key;
          failed = (\<lambda>reason. rbind (entry_failure fe key reason) (\<lambda>f. Inr (fst acc, snd acc @ [f]))) in
      case failure_for subjects key of
        Some failure \<Rightarrow> failed (failure_reason_value (sf_reason failure))
      | None \<Rightarrow>
          (case subject_for subjects key of
             None \<Rightarrow> failed ''unknown_provider_key''
           | Some subject \<Rightarrow>
               (case rbind (epoch_milliseconds (rp_current_ts (df_response decoded)) False) (\<lambda>t.
                       normalize_quote sha256 fe frame subject response_type (the t) secondary_paths) of
                  Inr event \<Rightarrow> Inr (fst acc @ [event], snd acc)
                | Inl (ValueError reason) \<Rightarrow>
                    if reason \<in> set ENTRY_REASONS then failed reason else Inl (ValueError reason)
                | Inl e \<Rightarrow> Inl e)))"

definition normalize_quotes ::
  "(string \<Rightarrow> string) \<Rightarrow> decoded_frame \<Rightarrow> raw_frame \<Rightarrow> resolution_batch \<Rightarrow> feed_response_type \<Rightarrow> string list
   \<Rightarrow> quotes_and_failures result" where
  "normalize_quotes sha256 decoded frame subjects response_type secondary_paths =
     rfold (normalize_entry sha256 decoded frame subjects response_type secondary_paths)
       (df_provider_contract_keys decoded) ([], [])"

section \<open>Segment statuses\<close>

definition normalize_status ::
  "(string \<Rightarrow> string) \<Rightarrow> decoded_frame \<Rightarrow> raw_frame \<Rightarrow> pydatetime \<Rightarrow> string \<Rightarrow> segment_status result" where
  "normalize_status sha256 decoded frame provider_timestamp segment =
     (let numeric = status_at (df_response decoded) segment;
          name = (case market_status_name numeric of Some name \<Rightarrow> name | None \<Rightarrow> ''UNKNOWN'') in
      rbind (market_segment_status_subject_id sha256 (rf_provider frame) segment) (\<lambda>subject_id.
      rbind (frame_raw_event_id sha256 (rf_identity frame)) (\<lambda>raw_id.
      rbind (make_normalized_identity sha256 raw_id SEGMENT_STATUS_EVENT_TYPE subject_id NORMALIZATION_SCHEMA_VERSION)
        (\<lambda>identity.
      make_segment_status sha256
        \<lparr>ms_identity = identity, ms_raw_event_id = raw_id, ms_provider = rf_provider frame, ms_segment = segment,
         ms_status_name = name, ms_status_numeric = numeric, ms_status_is_known = (market_status_name numeric \<noteq> None),
         ms_provider_timestamp = provider_timestamp, ms_received_at = rf_received_at frame,
         ms_available_at = rf_available_at frame, ms_recorded_at = rf_recorded_at frame,
         ms_source_order_scope_id = fr_source_order_scope_id (rf_identity frame),
         ms_source_order = fr_source_order (rf_identity frame), ms_schema_version = NORMALIZATION_SCHEMA_VERSION,
         ms_implementation_version = NORMALIZER_IMPLEMENTATION_VERSION\<rparr>))))"

definition normalize_statuses ::
  "(string \<Rightarrow> string) \<Rightarrow> decoded_frame \<Rightarrow> raw_frame \<Rightarrow> segment_status list result" where
  "normalize_statuses sha256 decoded frame =
     rbind (epoch_milliseconds (rp_current_ts (df_response decoded)) False) (\<lambda>t.
     rmap (normalize_status sha256 decoded frame (the t)) (df_status_segments decoded))"

section \<open>One frame\<close>

definition response_type_of :: "int \<Rightarrow> feed_response_type result" where
  "response_type_of n =
     lift_opt (KeyError '''') (map_of [(INITIAL_FEED, InitialFeed), (LIVE_FEED, LiveFeed), (MARKET_INFO, MarketInfoFeed)] n)"

definition secondary_payload_paths :: "decoded_frame \<Rightarrow> string list" where
  "secondary_payload_paths decoded =
     (if df_response_type decoded = MARKET_INFO \<and> rp_feeds (df_response decoded) \<noteq> [] then [''FeedResponse.feeds''] else [])
     @ (if df_response_type decoded \<in> {INITIAL_FEED, LIVE_FEED} \<and> rp_segment_status (df_response decoded) \<noteq> []
        then [''FeedResponse.marketInfo.segmentStatus''] else [])"

text \<open>Construction admits only these event types.\<close>

definition event_rank :: "string \<Rightarrow> int" where
  "event_rank event_type =
     (case map_of [(''market_segment_status_observation'', 3), (''underlying_quote_observation'', 4),
                   (''futures_quote_observation'', 5), (''option_quote_observation'', 6)] event_type of
        Some rank \<Rightarrow> rank | None \<Rightarrow> 0)"

fun event_order_key :: "market_observation \<Rightarrow> int \<times> string \<times> string \<times> string" where
  "event_order_key (StatusEvent m) =
     (event_rank (ne_event_type (ms_identity m)), ms_segment m, ne_subject_id (ms_identity m),
      ne_event_id (ms_identity m))"
| "event_order_key (QuoteEvent q) =
     (event_rank (ne_event_type (qn_identity q)),
      qn_provider_contract_key q, qn_economic_subject_id q, ne_event_id (qn_identity q))"

definition failure_order_key :: "normalization_failure \<Rightarrow> string \<times> string \<times> string" where
  "failure_order_key f =
     (let text = (\<lambda>s. case s of None \<Rightarrow> '''' | Some t \<Rightarrow> t) in
      (text (nf_provider_contract_key f), text (nf_segment f), nf_reason_code f))"

definition normalize_upstox_v3_frame ::
  "(string \<Rightarrow> string) \<Rightarrow> decoded_frame \<Rightarrow> raw_frame \<Rightarrow> resolution_batch option \<Rightarrow> frame_draft result" where
  "normalize_upstox_v3_frame sha256 decoded frame subjects =
     rbind (response_type_of (df_response_type decoded)) (\<lambda>response_type.
     let secondary_paths = secondary_payload_paths decoded in
     rbind (if response_type = MarketInfoFeed
            then rbind (normalize_statuses sha256 decoded frame) (\<lambda>statuses. Inr (map StatusEvent statuses, []))
            else rbind (lift_opt (ValueError ''quote normalization requires subject resolutions'') subjects) (\<lambda>batch.
                 rbind (normalize_quotes sha256 decoded frame batch response_type secondary_paths) (\<lambda>acc.
                 Inr (map QuoteEvent (fst acc), snd acc)))) (\<lambda>(events, failures).
     let structural = map (\<lambda>key. structural_metadata (fe_union (feed_at (df_response decoded) key)))
                        (df_provider_contract_keys decoded);
         ordered_events = sort_key event_order_key events;
         ordered_failures = sort_key failure_order_key failures in
     Inr \<lparr>fd_accepted_events = ordered_events, fd_entry_failures = ordered_failures,
          fd_unadopted_schema_paths = sorted_unique (concat (map es_unadopted structural)),
          fd_present_unadopted_message_paths = sorted_unique (concat (map es_present structural)),
          fd_secondary_payload_paths_present = secondary_paths,
          fd_decoded_entry_count =
            int (length ordered_events) + failed_entry_scope_count ordered_failures\<rparr>))"

end
