(* ===== verification/FrameService.thy ===== *)
theory FrameService
  imports Normalizer
begin

text \<open>
  \<open>app/services/market_frame_normalization_service.py\<close>: decode a frame, resolve its subjects, normalize it
  and build the validated result. The resolver of the service is the argument \<open>resolve\<close>, the method
  \<open>resolve_many\<close> of the port; the coroutine awaits nothing else.
\<close>

section \<open>The service\<close>

definition frame_failure_for :: "string \<Rightarrow> normalization_failure result" where
  "frame_failure_for reason =
     make_normalization_failure
       \<lparr>nf_scope = FrameScope, nf_reason_code = reason, nf_provider_contract_key = None, nf_segment = None,
        nf_field_paths = [], nf_safe_detail_code = None, nf_selected_feed_union = None,
        nf_unadopted_schema_paths = [], nf_present_unadopted_message_paths = [],
        nf_provider_depth_levels_present = None\<rparr>"

definition provenance_of :: "raw_frame \<Rightarrow> capture_provenance result" where
  "provenance_of frame =
     make_capture_provenance
       \<lparr>cp_provider_schema_sha256 = ''sha256:'' @ rf_provider_schema_sha256 frame,
        cp_received_at = rf_received_at frame, cp_available_at = rf_available_at frame,
        cp_recorded_at = rf_recorded_at frame, cp_capture_basis = rf_capture_basis frame,
        cp_source_file_id = rf_source_file_id frame, cp_source_record_id = rf_source_record_id frame\<rparr>"

definition build_result ::
  "(string \<Rightarrow> string) \<Rightarrow> raw_frame \<Rightarrow> feed_response_type option \<Rightarrow> market_observation list
   \<Rightarrow> normalization_failure option \<Rightarrow> normalization_failure list \<Rightarrow> string list \<Rightarrow> string list \<Rightarrow> string list \<Rightarrow> int
   \<Rightarrow> frame_result result" where
  "build_result sha256 frame response_type events frame_failure entry_failures unadopted present secondary decoded_count =
     rbind (adopted_semantics_hash sha256 events frame_failure entry_failures) (\<lambda>adopted_hash.
     rbind (provenance_of frame) (\<lambda>provenance.
     let r = \<lparr>nr_raw_frame_identity = rf_identity frame, nr_frame_content_hash = rf_frame_content_hash frame,
              nr_capture_provenance = provenance,
              nr_status = expected_status events frame_failure entry_failures, nr_response_type = response_type,
              nr_accepted_events = events, nr_frame_failure = frame_failure, nr_entry_failures = entry_failures,
              nr_unadopted_schema_paths = unadopted, nr_present_unadopted_message_paths = present,
              nr_secondary_payload_paths_present = secondary, nr_decoded_entry_count = decoded_count,
              nr_accepted_entry_count = int (length events),
              nr_failed_entry_count = failed_entry_scope_count entry_failures, nr_full_result_hash = '''',
              nr_adopted_semantics_hash = adopted_hash\<rparr> in
     rbind (full_result_hash sha256 r) (\<lambda>full_hash.
     make_frame_result sha256 (r\<lparr>nr_full_result_hash := full_hash\<rparr>))))"

definition batch_refused ::
  "raw_frame \<Rightarrow> decoded_frame \<Rightarrow> pydatetime \<Rightarrow> pydatetime \<Rightarrow> resolution_batch \<Rightarrow> bool" where
  "batch_refused frame decoded market_cutoff knowledge_cutoff subjects \<longleftrightarrow>
     batch_keys subjects \<noteq> df_provider_contract_keys decoded
     \<or> list_ex (\<lambda>s. rs_provider s \<noteq> rf_provider frame) (rb_resolved subjects)
     \<or> list_ex (\<lambda>s. instant (rs_market_as_of s) \<noteq> instant market_cutoff
         \<or> instant (rs_known_as_of s) \<noteq> instant knowledge_cutoff) (rb_resolved subjects)"

definition finish_draft ::
  "(string \<Rightarrow> string) \<Rightarrow> raw_frame \<Rightarrow> feed_response_type \<Rightarrow> frame_draft \<Rightarrow> frame_result result" where
  "finish_draft sha256 frame response_type draft =
     (if \<not> distinct (map observation_id (fd_accepted_events draft))
      then rbind (frame_failure_for ''duplicate_normalized_identity'') (\<lambda>failure.
           build_result sha256 frame (Some response_type) [] (Some failure) [] (fd_unadopted_schema_paths draft)
             (fd_present_unadopted_message_paths draft) (fd_secondary_payload_paths_present draft)
             (fd_decoded_entry_count draft))
      else build_result sha256 frame (Some response_type) (fd_accepted_events draft) None (fd_entry_failures draft)
             (fd_unadopted_schema_paths draft) (fd_present_unadopted_message_paths draft)
             (fd_secondary_payload_paths_present draft) (fd_decoded_entry_count draft))"

definition normalize_market_frame ::
  "(string \<Rightarrow> string) \<Rightarrow> (string \<Rightarrow> feed_response option)
   \<Rightarrow> (string \<Rightarrow> string list \<Rightarrow> pydatetime \<Rightarrow> pydatetime \<Rightarrow> resolution_batch result)
   \<Rightarrow> raw_frame \<Rightarrow> pydatetime \<Rightarrow> pydatetime \<Rightarrow> frame_result result" where
  "normalize_market_frame sha256 parse resolve frame market_as_of known_as_of =
     rbind (to_utc market_as_of ''market_as_of'') (\<lambda>market_cutoff.
     rbind (to_utc known_as_of ''known_as_of'') (\<lambda>knowledge_cutoff.
     case decode_upstox_v3_frame parse frame of
       Inl e \<Rightarrow>
         rbind (case de_response_type e of
                  None \<Rightarrow> Inr None
                | Some n \<Rightarrow> rbind (response_type_of n) (\<lambda>t. Inr (Some t))) (\<lambda>response_type.
         rbind (frame_failure_for (de_code e)) (\<lambda>failure.
         build_result sha256 frame response_type [] (Some failure) [] [] [] [] 0))
     | Inr decoded \<Rightarrow>
         rbind (response_type_of (df_response_type decoded)) (\<lambda>response_type.
         if df_response_type decoded = MARKET_INFO
         then rbind (normalize_upstox_v3_frame sha256 decoded frame None) (finish_draft sha256 frame response_type)
         else
           rbind (resolve (rf_provider frame) (df_provider_contract_keys decoded) market_cutoff knowledge_cutoff)
             (\<lambda>subjects.
           if batch_refused frame decoded market_cutoff knowledge_cutoff subjects
           then rbind (frame_failure_for ''invalid_subject_resolution_batch'') (\<lambda>failure.
                build_result sha256 frame (Some response_type) [] (Some failure) [] [] [] []
                  (int (length (df_provider_contract_keys decoded))))
           else rbind (normalize_upstox_v3_frame sha256 decoded frame (Some subjects))
                  (finish_draft sha256 frame response_type)))))"

end
