(* ===== verification/NormalizerFacts.thy ===== *)
theory NormalizerFacts
  imports Normalizer
begin

text \<open>
  Facts about the steps of \<open>app/market_data/upstox/v3_normalizer.py\<close>: what a valid frame and a valid
  subject provide, which errors the conversion of one entry may raise, and what its adopted fields
  satisfy. The collection \<open>entry_errors\<close> holds the error sets of the conversions.
\<close>

named_theorems entry_errors \<open>errors the conversion of an entry may raise\<close>

section \<open>Valid frames\<close>

lemma as_frame_error_Inr [result_simps]: "as_frame_error r = Inr x \<longleftrightarrow> r = Inr x"
  by (cases r) (auto simp: as_frame_error_def split: py_error.splits)

definition valid_frame :: "raw_frame \<Rightarrow> bool" where
  "valid_frame f \<longleftrightarrow>
     fr_provider (rf_identity f) = ''upstox''
     \<and> strip (fr_source_order_scope_id (rf_identity f)) \<noteq> []
     \<and> utf8_length (fr_source_order_scope_id (rf_identity f)) \<le> MAX_OPAQUE_IDENTIFIER_BYTES
     \<and> 0 \<le> fr_source_order (rf_identity f) \<and> fr_source_order (rf_identity f) \<le> MAX_SOURCE_ORDER
     \<and> in_utc (rf_available_at f) \<and> in_utc (rf_recorded_at f)
     \<and> \<not> earlier (rf_recorded_at f) (rf_available_at f)
     \<and> (case rf_received_at f of None \<Rightarrow> True | Some r \<Rightarrow> in_utc r \<and> \<not> earlier (rf_available_at f) r)
     \<and> rf_received_at f = (if rf_capture_basis f = HistoricalImportCapture then None else Some (rf_available_at f))
     \<and> (rf_source_file_id f = None) = (rf_source_record_id f = None)
     \<and> (case rf_source_file_id f of None \<Rightarrow> True | Some i \<Rightarrow> strip i \<noteq> [])
     \<and> (case rf_source_record_id f of None \<Rightarrow> True | Some i \<Rightarrow> strip i \<noteq> [])"

lemma made_frame_valid:
  assumes "make_raw_frame sha256 f0 = Inr f"
  shows "valid_frame f"
proof -
  have "\<exists>received available recorded i u.
    make_raw_frame_identity (rf_identity f0) = Inr i
    \<and> as_frame_error (to_utc (rf_available_at f0) ''available_at'') = Inr available
    \<and> as_frame_error (to_utc (rf_recorded_at f0) ''recorded_at'') = Inr recorded
    \<and> as_frame_error (optional_utc (rf_received_at f0) ''received_at'') = Inr received
    \<and> \<not> earlier recorded available \<and> \<not> (case received of None \<Rightarrow> False | Some r \<Rightarrow> earlier available r)
    \<and> \<not> (rf_capture_basis f0 = LiveReceived \<and> received \<noteq> Some available)
    \<and> \<not> (rf_capture_basis f0 = RecordedWithOriginalReceipt \<and> received \<noteq> Some available)
    \<and> \<not> (rf_capture_basis f0 = HistoricalImportCapture \<and> received \<noteq> None)
    \<and> \<not> (rf_source_file_id f0 = None) \<noteq> (rf_source_record_id f0 = None)
    \<and> (case (rf_source_file_id f0, rf_source_record_id f0) of
              (Some file, Some record_id) \<Rightarrow>
                rbind (as_frame_error (validate_opaque_identifier file ''source_file_id'')) (\<lambda>_.
                as_frame_error (validate_opaque_identifier record_id ''source_record_id''))
            | _ \<Rightarrow> Inr []) = Inr u
    \<and> Inr (f0\<lparr>rf_available_at := available, rf_recorded_at := recorded, rf_received_at := received\<rparr>)
        = (Inr f :: raw_frame result)"
    using assms unfolding make_raw_frame_def rbind_eq_Inr guard_eq_Inr
    by (elim exE conjE) (intro exI conjI; assumption)
  then obtain received available recorded i u where
    identity: "make_raw_frame_identity (rf_identity f0) = Inr i"
    and times: "as_frame_error (to_utc (rf_available_at f0) ''available_at'') = Inr available"
    "as_frame_error (to_utc (rf_recorded_at f0) ''recorded_at'') = Inr recorded"
    "as_frame_error (optional_utc (rf_received_at f0) ''received_at'') = Inr received"
    and order: "\<not> earlier recorded available" "\<not> (case received of None \<Rightarrow> False | Some r \<Rightarrow> earlier available r)"
    and basis: "\<not> (rf_capture_basis f0 = LiveReceived \<and> received \<noteq> Some available)"
    "\<not> (rf_capture_basis f0 = RecordedWithOriginalReceipt \<and> received \<noteq> Some available)"
    "\<not> (rf_capture_basis f0 = HistoricalImportCapture \<and> received \<noteq> None)"
    and pair: "\<not> (rf_source_file_id f0 = None) \<noteq> (rf_source_record_id f0 = None)"
    and ids: "(case (rf_source_file_id f0, rf_source_record_id f0) of
              (Some file, Some record_id) \<Rightarrow>
                rbind (as_frame_error (validate_opaque_identifier file ''source_file_id'')) (\<lambda>_.
                as_frame_error (validate_opaque_identifier record_id ''source_record_id''))
            | _ \<Rightarrow> Inr []) = Inr u"
    and made: "Inr (f0\<lparr>rf_available_at := available, rf_recorded_at := recorded, rf_received_at := received\<rparr>)
        = (Inr f :: raw_frame result)"
    by (elim exE conjE) (rule that; assumption)
  have f: "f = f0\<lparr>rf_available_at := available, rf_recorded_at := recorded, rf_received_at := received\<rparr>"
    using made by simp
  have "fr_provider (rf_identity f0) = ''upstox'' \<and> strip (fr_source_order_scope_id (rf_identity f0)) \<noteq> []
     \<and> utf8_length (fr_source_order_scope_id (rf_identity f0)) \<le> MAX_OPAQUE_IDENTIFIER_BYTES
     \<and> 0 \<le> fr_source_order (rf_identity f0) \<and> fr_source_order (rf_identity f0) \<le> MAX_SOURCE_ORDER"
    using identity unfolding make_raw_frame_identity_def by (auto simp: result_simps)
  moreover have "in_utc available" "in_utc recorded" "\<forall>r. received = Some r \<longrightarrow> in_utc r"
    using times by (auto simp: result_simps split: option.splits)
  moreover have "received = (if rf_capture_basis f0 = HistoricalImportCapture then None else Some available)"
    using basis by (cases "rf_capture_basis f0") auto
  moreover have "(case rf_source_file_id f0 of None \<Rightarrow> True | Some i \<Rightarrow> strip i \<noteq> [])"
    "(case rf_source_record_id f0 of None \<Rightarrow> True | Some i \<Rightarrow> strip i \<noteq> [])"
    using pair ids by (auto simp: result_simps split: option.splits)
  ultimately show ?thesis using order pair by (auto simp: valid_frame_def f split: option.splits)
qed

lemma frame_event_time_made:
  assumes "valid_frame frame" and "in_utc t"
  shows "make_normalized_event_time (frame_event_time frame t) = Inr (frame_event_time frame t)"
  using assms by (auto simp: valid_frame_def make_normalized_event_time_def frame_event_time_def split: if_splits option.splits)

section \<open>Errors of the conversions\<close>

lemma price_error [entry_errors]:
  "provider_double_to_price x = Inl e \<Longrightarrow> e \<in> {ValueError ''nonfinite_price'', ValueError ''negative_price''}"
  using decimal_of_float_finite [of x]
  by (auto simp: provider_double_to_price_def rbind_eq_Inl guard_eq_Inl result_simps split: if_splits)

lemma quantity_error [entry_errors]: "reported_quantity n = Inl e \<Longrightarrow> e = ValueError ''invalid_quantity''"
  by (auto simp: reported_quantity_def rbind_eq_Inl guard_eq_Inl)

lemma open_interest_error [entry_errors]:
  "reported_open_interest x = Inl e \<Longrightarrow>
   e \<in> {ValueError ''unsafe_open_interest'', ValueError ''fractional_open_interest''}"
  by (auto simp: reported_open_interest_def rbind_eq_Inl guard_eq_Inl split: pyfloat.splits)

lemma timestamp_error [entry_errors]: "epoch_milliseconds m z = Inl e \<Longrightarrow> e = ValueError ''invalid_timestamp''"
  by (auto simp: epoch_milliseconds_def rbind_eq_Inl guard_eq_Inl Let_def split: if_splits)

definition entry_error :: "py_error \<Rightarrow> bool" where
  "entry_error e \<longleftrightarrow> e \<in> ValueError ` set ENTRY_REASONS"

lemma entry_error_reasons:
  "entry_error (ValueError r) \<longleftrightarrow> r \<in> set ENTRY_REASONS"
  by (auto simp: entry_error_def)

lemma entry_error_sets:
  "provider_double_to_price x = Inl e \<Longrightarrow> entry_error e"
  "reported_quantity n = Inl e \<Longrightarrow> entry_error e"
  "reported_open_interest x = Inl e \<Longrightarrow> entry_error e"
  "epoch_milliseconds n z = Inl e \<Longrightarrow> entry_error e"
  by (auto dest!: entry_errors simp: entry_error_def ENTRY_REASONS_def)

lemma lift_opt_eq_Inl: "lift_opt e m = Inl e' \<longleftrightarrow> m = None \<and> e' = e"
  by (cases m) auto

lemma top_of_book_error: "top_of_book l = Inl e \<Longrightarrow> entry_error e"
  by (auto simp: top_of_book_def rbind_eq_Inl split: option.splits dest: entry_error_sets)

lemma fields_error: "fields_from_ltpc l u b v oi d p = Inl e \<Longrightarrow> entry_error e"
  by (auto simp: fields_from_ltpc_def rbind_eq_Inl split: prod.splits dest: entry_error_sets)

lemma adopt_error:
  assumes "adopt_fields u mode kind = Inl e"
  shows "entry_error e"
proof -
  have known: "entry_error (ValueError ''request_mode_union_mismatch'')" "entry_error (ValueError ''subject_kind_mismatch'')"
    "entry_error (ValueError ''unsupported_feed_union'')" "entry_error (ValueError ''empty_supported_payload'')"
    "entry_error (ValueError ''depth_limit_exceeded'')" "entry_error (ValueError ''request_mode_depth_mismatch'')"
    by (simp_all add: entry_error_reasons ENTRY_REASONS_def)
  have first: "entry_error e" if "adopt_first_level f mode kind = Inl e" for f
    using that known by (auto simp: adopt_first_level_def require_ltpc_def rbind_eq_Inl guard_eq_Inl lift_opt_eq_Inl
        dest: entry_error_sets top_of_book_error fields_error)
  have index: "entry_error e" if "adopt_index_full x kind = Inl e" for x
    using that known by (auto simp: adopt_index_full_def require_ltpc_def rbind_eq_Inl guard_eq_Inl lift_opt_eq_Inl
        dest: fields_error)
  have market: "entry_error e" if "adopt_market_full m mode kind = Inl e" for m
    using that known by (auto simp: adopt_market_full_def require_ltpc_def rbind_eq_Inl guard_eq_Inl lift_opt_eq_Inl Let_def
        dest: entry_error_sets top_of_book_error fields_error)
  show ?thesis
    using assms known first index market fields_error
    by (cases u) (auto simp: rbind_eq_Inl guard_eq_Inl split: full_feed.splits)
qed

section \<open>What the conversions return\<close>

lemma price_nonneg: "provider_double_to_price x = Inr p \<Longrightarrow> \<not> p < 0"
  by (auto simp: provider_double_to_price_def result_simps less_decimal_def split: if_splits)

lemma quantity_range: "reported_quantity n = Inr m \<Longrightarrow> m = n \<and> 0 \<le> m \<and> m \<le> MAX_REPORTED_QUANTITY"
  by (auto simp: reported_quantity_def result_simps MAX_REPORTED_QUANTITY_def INT64_MAX_def)

lemma open_interest_range: "reported_open_interest x = Inr n \<Longrightarrow> 0 \<le> n \<and> n \<le> MAX_SAFE_OPEN_INTEREST"
  by (auto simp: reported_open_interest_def result_simps MAX_SAFE_OPEN_INTEREST_def SAFE_INTEGER_MAX_def floor_le_iff
      split: pyfloat.splits)

lemma timestamp_utc: "epoch_milliseconds m z = Inr (Some t) \<Longrightarrow> in_utc t"
  by (auto simp: epoch_milliseconds_def result_simps Let_def split: if_splits)

fun price_ok :: "decimal option \<Rightarrow> bool" where
  "price_ok None = True"
| "price_ok (Some p) \<longleftrightarrow> \<not> p < 0"

fun quantity_ok :: "int \<Rightarrow> int option \<Rightarrow> bool" where
  "quantity_ok limit None = True"
| "quantity_ok limit (Some n) \<longleftrightarrow> 0 \<le> n \<and> n \<le> limit"

text \<open>Adopted fields of an entry: they agree with its structure, and their values, their depth and their
  combination of union, mode and kind are what a quote admits.\<close>

definition adopted_ok :: "feed_union \<Rightarrow> provider_request_mode \<Rightarrow> market_subject_kind \<Rightarrow> adopted_fields \<Rightarrow> bool" where
  "adopted_ok u mode kind a \<longleftrightarrow>
     structural_metadata u = selected_structure (af_feed_union a) (af_present_paths a)
       (af_provider_depth_levels_present a)
     \<and> sorted_wrt (<) (af_present_paths a)
     \<and> mode \<in> set (valid_modes (af_feed_union a)) \<and> kind \<in> set (valid_kinds (af_feed_union a))
     \<and> price_ok (af_bid_price a) \<and> price_ok (af_ask_price a) \<and> price_ok (Some (af_last_price a))
     \<and> price_ok (Some (af_previous_close_price a))
     \<and> quantity_ok MAX_REPORTED_QUANTITY (af_bid_size a) \<and> quantity_ok MAX_REPORTED_QUANTITY (af_ask_size a)
     \<and> quantity_ok MAX_REPORTED_QUANTITY (Some (af_last_size a))
     \<and> quantity_ok MAX_REPORTED_QUANTITY (af_reported_volume a)
     \<and> quantity_ok MAX_SAFE_OPEN_INTEREST (af_open_interest a)
     \<and> (\<forall>t. af_last_trade_at a = Some t \<longrightarrow> in_utc t)
     \<and> 0 \<le> af_provider_depth_levels_present a
     \<and> af_normalized_depth_levels a = (if af_provider_depth_levels_present a = 0 then 0 else 1)
     \<and> af_provider_depth_levels_present a \<le>
         (case af_feed_union a of UnionFirstLevel \<Rightarrow> 1 | UnionMarketFull \<Rightarrow> if mode = ModeFullD5 then 5 else 30 | _ \<Rightarrow> 0)"

lemma top_of_book_ok:
  "top_of_book l = Inr (bp, bs, ap, as) \<Longrightarrow> price_ok bp \<and> price_ok ap
     \<and> quantity_ok MAX_REPORTED_QUANTITY bs \<and> quantity_ok MAX_REPORTED_QUANTITY as"
  by (auto simp: top_of_book_def result_simps split: option.splits dest: price_nonneg quantity_range)

lemma fields_ok:
  assumes "fields_from_ltpc l sel (bp, bs, ap, as) v oi d ps = Inr a"
  shows "af_feed_union a = sel \<and> af_bid_price a = bp \<and> af_bid_size a = bs \<and> af_ask_price a = ap \<and> af_ask_size a = as
    \<and> af_reported_volume a = v \<and> af_open_interest a = oi \<and> af_provider_depth_levels_present a = d
    \<and> af_normalized_depth_levels a = (if d = 0 then 0 else 1) \<and> af_present_paths a = sorted_unique ps
    \<and> price_ok (Some (af_last_price a)) \<and> price_ok (Some (af_previous_close_price a))
    \<and> quantity_ok MAX_REPORTED_QUANTITY (Some (af_last_size a))
    \<and> (\<forall>t. af_last_trade_at a = Some t \<longrightarrow> in_utc t)"
  using assms by (auto simp: fields_from_ltpc_def result_simps dest: price_nonneg quantity_range timestamp_utc)

lemma present_paths_sorted:
  "sort (sorted_unique (market_present_paths m)) = sort (market_present_paths m)"
  "sort (sorted_unique (sort (market_present_paths m))) = sort (market_present_paths m)"
  "sort (sorted_unique (index_present_paths x)) = sort (index_present_paths x)"
  "sort (sorted_unique (first_level_present_paths f)) = sort (first_level_present_paths f)"
  "sort (sorted_unique ([] :: string list)) = []"
  by (simp_all add: sorted_unique_def market_present_paths_def index_present_paths_def first_level_present_paths_def)

lemma adopt_first_level_ok:
  assumes "adopt_first_level f mode kind = Inr a"
  shows "adopted_ok (FirstLevelFeed f) mode kind a"
proof -
  obtain ltpc bp bs ap as v oi where mode: "mode = ModeOptionGreeks" "kind = OptionSubject"
    and book: "top_of_book (ff_first_depth f) = Inr (bp, bs, ap, as)"
    and v: "reported_quantity (ff_vtt f) = Inr v" and oi: "reported_open_interest (ff_oi f) = Inr oi"
    and a: "fields_from_ltpc ltpc UnionFirstLevel (bp, bs, ap, as) (Some v) (Some oi)
       (if ff_first_depth f \<noteq> None then 1 else 0) (first_level_present_paths f) = Inr a"
    using assms by (auto simp: adopt_first_level_def result_simps)
  show ?thesis
    using fields_ok [OF a] mode top_of_book_ok [OF book] quantity_range [OF v] open_interest_range [OF oi]
    by (auto simp: adopted_ok_def selected_structure_def present_paths_sorted)
qed

lemma adopt_index_full_ok:
  assumes "adopt_index_full x kind = Inr a" and "mode \<in> {ModeFullD5, ModeFullD30}"
  shows "adopted_ok (FullFeed (IndexFF x)) mode kind a"
proof -
  obtain ltpc where kind: "kind = UnderlyingSubject"
    and a: "fields_from_ltpc ltpc UnionIndexFull (None, None, None, None) None None 0 (index_present_paths x) = Inr a"
    using assms(1) by (auto simp: adopt_index_full_def result_simps)
  show ?thesis using fields_ok [OF a] kind assms(2) by (auto simp: adopted_ok_def selected_structure_def present_paths_sorted)
qed

lemma adopt_market_full_ok:
  assumes "adopt_market_full m mode kind = Inr a" and "mode \<in> {ModeFullD5, ModeFullD30}"
  shows "adopted_ok (FullFeed (MarketFF m)) mode kind a"
proof -
  obtain ltpc bp bs ap as v oi where kind: "kind \<in> {FutureSubject, OptionSubject}"
    and depth: "\<not> UPSTOX_V3_MAX_DEPTH_LEVELS < market_level_count m" "\<not> (mode = ModeFullD5 \<and> 5 < market_level_count m)"
    and book: "top_of_book (case mf_market_level m of Some (level # _) \<Rightarrow> Some level | _ \<Rightarrow> None) = Inr (bp, bs, ap, as)"
    and v: "reported_quantity (mf_vtt m) = Inr v" and oi: "reported_open_interest (mf_oi m) = Inr oi"
    and a: "fields_from_ltpc ltpc UnionMarketFull (bp, bs, ap, as) (Some v) (Some oi) (int (market_level_count m))
       (sort (market_present_paths m)) = Inr a"
    using assms(1) unfolding adopt_market_full_def Let_def rbind_eq_Inr guard_eq_Inr by auto
  show ?thesis
    using fields_ok [OF a] kind depth top_of_book_ok [OF book] quantity_range [OF v] open_interest_range [OF oi] assms(2)
    by (auto simp: adopted_ok_def selected_structure_def present_paths_sorted UPSTOX_V3_MAX_DEPTH_LEVELS_def)
qed

lemma adopt_ok:
  assumes "adopt_fields u mode kind = Inr a"
  shows "adopted_ok u mode kind a"
proof (cases u)
  case (LtpcFeed l)
  then have mode: "mode = ModeLtpc" and a: "fields_from_ltpc l UnionLtpc (None, None, None, None) None None 0 [] = Inr a"
    using assms by (auto simp: result_simps)
  show ?thesis using fields_ok [OF a] mode LtpcFeed
    by (cases kind) (auto simp: adopted_ok_def selected_structure_def present_paths_sorted)
next
  case (FullFeed full)
  then show ?thesis using assms adopt_index_full_ok adopt_market_full_ok
    by (cases full) (auto simp: result_simps)
qed (use assms adopt_first_level_ok in auto)

section \<open>Paths\<close>

definition paths_ok :: "string list \<Rightarrow> bool" where
  "paths_ok paths \<longleftrightarrow> sorted_wrt (<) paths \<and> list_all controlled_path paths"

lemma paths_ok_sort: "distinct paths \<Longrightarrow> list_all controlled_path paths \<Longrightarrow> paths_ok (sort paths)"
  by (simp add: paths_ok_def strict_sorted_iff list_all_iff)

lemma declared_paths: "paths_ok (unadopted_schema_paths sel)"
proof (cases sel)
  case UnionLtpc
  then show ?thesis by (simp add: paths_ok_def)
next
  case UnionIndexFull
  then show ?thesis unfolding UnionIndexFull unadopted_schema_paths.simps by (intro paths_ok_sort; code_simp)
next
  case UnionMarketFull
  then show ?thesis unfolding UnionMarketFull unadopted_schema_paths.simps by (intro paths_ok_sort; code_simp)
next
  case UnionFirstLevel
  then show ?thesis unfolding UnionFirstLevel unadopted_schema_paths.simps by (intro paths_ok_sort; code_simp)
qed

lemma present_paths:
  "paths_ok (sort (market_present_paths m))" "paths_ok (sort (index_present_paths x))"
  "paths_ok (sort (first_level_present_paths f))"
proof -
  have "list_all controlled_path [''MarketFullFeed.optionGreeks'', ''MarketFullFeed.marketOHLC'',
    ''IndexFullFeed.marketOHLC'', ''FirstLevelWithGreeks.optionGreeks'']"
    by code_simp
  then show "paths_ok (sort (market_present_paths m))" "paths_ok (sort (index_present_paths x))"
    "paths_ok (sort (first_level_present_paths f))"
    by (auto simp: paths_ok_def market_present_paths_def index_present_paths_def first_level_present_paths_def)
qed

lemma structure_ok:
  "paths_ok (es_unadopted (structural_metadata u)) \<and> paths_ok (es_present (structural_metadata u))
   \<and> (\<forall>n. es_depth_count (structural_metadata u) = Some n \<longrightarrow> 0 \<le> n)"
proof -
  have nil: "paths_ok []" by (simp add: paths_ok_def)
  show ?thesis
    by (cases u rule: structural_metadata.cases)
       (simp_all add: selected_structure_def no_structure_def declared_paths present_paths nil
         del: unadopted_schema_paths.simps)
qed

lemma check_path_list_ok: "paths_ok paths \<Longrightarrow> check_path_list (name, paths) = Inr ()"
  by (simp add: check_path_list_def paths_ok_def sorted_unique_fixed list_ex_iff list_all_iff)

end
