(* ===== verification/NormalizerProperties.thy ===== *)
theory NormalizerProperties
  imports NormalizerFacts
begin

text \<open>
  What \<open>app/market_data/upstox/v3_normalizer.py\<close> does with the entries of a frame: every entry of a
  decoded frame becomes one valid observation or one valid failure, and no exception escapes.
\<close>

section \<open>One quote\<close>

lemma make_normalized_identity_total:
  assumes "raw_id \<noteq> []" and "event_type \<noteq> []" and "subject_id \<noteq> []"
  obtains i where "make_normalized_identity sha256 raw_id event_type subject_id NORMALIZATION_SCHEMA_VERSION = Inr i"
    and "ne_raw_event_id i = raw_id" and "ne_event_type i = event_type" and "ne_subject_id i = subject_id"
    and "ne_schema_version i = NORMALIZATION_SCHEMA_VERSION"
  using assms
  by (auto simp: make_normalized_identity_def NORMALIZATION_SCHEMA_VERSION_def stable_hash_def canonical_json_def
      str_dict_def event_payload_def)

lemma finite_price_ok:
  "(case map_option Finite p of None \<Rightarrow> False | Some d \<Rightarrow> non_finite_or_negative d) \<longleftrightarrow> \<not> price_ok p"
  by (cases p) auto

lemma quantity_out_of_range:
  "(case v of None \<Rightarrow> False | Some n \<Rightarrow> \<not> (0 \<le> n \<and> n \<le> limit)) \<longleftrightarrow> \<not> quantity_ok limit v"
  by (cases v) auto

lemma assembled_quote_valid:
  assumes frame: "valid_frame frame" and subject: "make_subject sha256 s = Inr s" and provider: "rs_provider s = ''upstox''"
    and response: "rt \<noteq> MarketInfoFeed" and adopted: "adopted_ok u mode (rs_instrument_kind s) a"
    and secondary: "paths_ok secondary"
    and identity: "ne_raw_event_id i = raw_id" "ne_event_type i = quote_event_type (rs_instrument_kind s)"
    "ne_subject_id i = rs_economic_subject_id s" "ne_schema_version i = NORMALIZATION_SCHEMA_VERSION"
    and raw: "strip raw_id \<noteq> []"
  shows "make_quote_observation sha256 (assemble_quote frame s rt mode a raw_id i t secondary)
    = Inr (assemble_quote frame s rt mode a raw_id i t secondary)"
proof -
  let ?q = "assemble_quote frame s rt mode a raw_id i t secondary"
  note s = subject_facts [OF subject]
  have f: "fr_provider (rf_identity frame) = ''upstox''" "strip (fr_source_order_scope_id (rf_identity frame)) \<noteq> []"
    "utf8_length (fr_source_order_scope_id (rf_identity frame)) \<le> MAX_OPAQUE_IDENTIFIER_BYTES"
    "0 \<le> fr_source_order (rf_identity frame)" "fr_source_order (rf_identity frame) \<le> MAX_SOURCE_ORDER"
    using frame by (simp_all add: valid_frame_def)
  have upstox: "strip ''upstox'' \<noteq> []" "utf8_length ''upstox'' \<le> MAX_OPAQUE_IDENTIFIER_BYTES"
    using s(6,9) provider by simp_all
  have "check_quote_provenance sha256 ?q = Inr ()"
    unfolding check_quote_provenance_def assemble_quote_def quote_observation.select_convs
    using s f upstox raw identity provider by (simp add: require_text_def validate_opaque_identifier_def)
  moreover have "check_quote_feed ?q = Inr ()"
    unfolding check_quote_feed_def assemble_quote_def quote_observation.select_convs
    using f response adopted identity by (simp add: adopted_ok_def validate_opaque_identifier_def validate_source_order_def)
  moreover have "optional_utc (af_last_trade_at a) ''last_trade_at'' = Inr (af_last_trade_at a)"
    using adopted by (cases "af_last_trade_at a") (simp_all add: adopted_ok_def)
  moreover have "check_quote_values ?q = Inr ()"
    unfolding check_quote_values_def assemble_quote_def quote_observation.select_convs
    using adopted by (cases "af_bid_price a"; cases "af_ask_price a"; cases "af_bid_size a"; cases "af_ask_size a";
      cases "af_reported_volume a"; cases "af_open_interest a") (simp_all add: adopted_ok_def)
  moreover have "check_quote_depth ?q = Inr ()"
    unfolding check_quote_depth_def depth_matches_union_def assemble_quote_def quote_observation.select_convs
    using adopted by (cases "af_feed_union a") (auto simp: adopted_ok_def MAX_PROVIDER_DEPTH_LEVELS_def Let_def)
  moreover have "sort (af_present_paths a) = af_present_paths a"
    using adopted by (simp add: adopted_ok_def strict_sorted_iff sorted_sort_id)
  then have "paths_ok (af_present_paths a)"
    using structure_ok [of u] adopted by (simp add: adopted_ok_def selected_structure_def)
  then have "rmap check_path_list
      [(''unadopted_schema_paths'', unadopted_schema_paths (af_feed_union a)),
       (''present_unadopted_message_paths'', af_present_paths a),
       (''secondary_payload_paths_present'', secondary)] = Inr [(), (), ()]"
    using secondary by (simp add: check_path_list_ok declared_paths del: unadopted_schema_paths.simps)
  ultimately show ?thesis
    unfolding make_quote_observation_def by (simp add: assemble_quote_def)
qed

text \<open>The adopted fields of an entry for a kind of subject, with its request mode.\<close>

definition converted_fields ::
  "feed \<Rightarrow> market_subject_kind \<Rightarrow> (provider_request_mode \<times> adopted_fields) result" where
  "converted_fields fe kind =
     rbind (lift_opt (ValueError ''request_mode_union_mismatch'') (request_mode_of (fe_request_mode fe))) (\<lambda>mode.
     rbind (adopt_fields (fe_union fe) mode kind) (\<lambda>a. Inr (mode, a)))"

definition quote_identity :: "(string \<Rightarrow> string) \<Rightarrow> raw_frame \<Rightarrow> resolved_subject \<Rightarrow> normalized_event_identity" where
  "quote_identity sha256 frame s =
     projr (make_normalized_identity sha256 (frame_id sha256 frame) (quote_event_type (rs_instrument_kind s))
       (rs_economic_subject_id s) NORMALIZATION_SCHEMA_VERSION)"

definition quote_for ::
  "(string \<Rightarrow> string) \<Rightarrow> raw_frame \<Rightarrow> resolved_subject \<Rightarrow> feed_response_type \<Rightarrow> pydatetime \<Rightarrow> string list
   \<Rightarrow> provider_request_mode \<times> adopted_fields \<Rightarrow> quote_observation" where
  "quote_for sha256 frame s rt t secondary ma =
     assemble_quote frame s rt (fst ma) (snd ma) (frame_id sha256 frame) (quote_identity sha256 frame s)
       (frame_event_time frame t) secondary"

lemma quote_identity_made:
  assumes "rs_economic_subject_id s \<noteq> []"
  shows "make_normalized_identity sha256 (frame_id sha256 frame) (quote_event_type (rs_instrument_kind s))
      (rs_economic_subject_id s) NORMALIZATION_SCHEMA_VERSION = Inr (quote_identity sha256 frame s)"
    and "ne_raw_event_id (quote_identity sha256 frame s) = frame_id sha256 frame"
    and "ne_event_type (quote_identity sha256 frame s) = quote_event_type (rs_instrument_kind s)"
    and "ne_subject_id (quote_identity sha256 frame s) = rs_economic_subject_id s"
    and "ne_schema_version (quote_identity sha256 frame s) = NORMALIZATION_SCHEMA_VERSION"
proof -
  have "quote_event_type (rs_instrument_kind s) \<noteq> []" by (cases "rs_instrument_kind s") simp_all
  from make_normalized_identity_total [OF frame_id_nonempty this assms]
  obtain i where i: "make_normalized_identity sha256 (frame_id sha256 frame) (quote_event_type (rs_instrument_kind s))
      (rs_economic_subject_id s) NORMALIZATION_SCHEMA_VERSION = Inr i"
    "ne_raw_event_id i = frame_id sha256 frame" "ne_event_type i = quote_event_type (rs_instrument_kind s)"
    "ne_subject_id i = rs_economic_subject_id s" "ne_schema_version i = NORMALIZATION_SCHEMA_VERSION" .
  have "quote_identity sha256 frame s = i" using i(1) by (simp add: quote_identity_def)
  then show "make_normalized_identity sha256 (frame_id sha256 frame) (quote_event_type (rs_instrument_kind s))
      (rs_economic_subject_id s) NORMALIZATION_SCHEMA_VERSION = Inr (quote_identity sha256 frame s)"
    "ne_raw_event_id (quote_identity sha256 frame s) = frame_id sha256 frame"
    "ne_event_type (quote_identity sha256 frame s) = quote_event_type (rs_instrument_kind s)"
    "ne_subject_id (quote_identity sha256 frame s) = rs_economic_subject_id s"
    "ne_schema_version (quote_identity sha256 frame s) = NORMALIZATION_SCHEMA_VERSION"
    using i by simp_all
qed

lemma frame_id_strip: "strip (frame_id sha256 frame) \<noteq> []"
  by (simp add: frame_id_def frame_raw_event_id_def frame_identity_payload_def stable_hash_def canonical_json_def
      str_dict_def strip_eq_Nil is_space_def)

lemma converted_ok:
  "converted_fields fe kind = Inr (mode, a) \<Longrightarrow> request_mode_of (fe_request_mode fe) = Some mode
     \<and> adopt_fields (fe_union fe) mode kind = Inr a \<and> adopted_ok (fe_union fe) mode kind a"
  by (cases "request_mode_of (fe_request_mode fe)") (auto simp: converted_fields_def rbind_eq_Inr dest: adopt_ok)

lemma converted_error: "converted_fields fe kind = Inl e \<Longrightarrow> entry_error e"
  by (auto simp: converted_fields_def rbind_eq_Inl lift_opt_eq_Inl entry_error_reasons ENTRY_REASONS_def
      dest: adopt_error)

lemma quote_for_valid:
  assumes "valid_frame frame" and "make_subject sha256 s = Inr s" and "rs_provider s = ''upstox''"
    and "rt \<noteq> MarketInfoFeed" and "paths_ok secondary" and "converted_fields fe (rs_instrument_kind s) = Inr ma"
  shows "make_quote_observation sha256 (quote_for sha256 frame s rt t secondary ma)
    = Inr (quote_for sha256 frame s rt t secondary ma)"
proof -
  obtain mode a where ma: "ma = (mode, a)" by fastforce
  have "rs_economic_subject_id s \<noteq> []" using subject_facts(2) [OF assms(2)] by (auto simp: strip_def)
  note id = quote_identity_made(2-5) [OF this, of sha256 frame]
  show ?thesis
    unfolding quote_for_def ma fst_conv snd_conv
    by (rule assembled_quote_valid [OF assms(1-4) _ assms(5) id frame_id_strip])
       (use converted_ok assms(6) ma in blast)
qed

lemma quote_normalized:
  assumes "valid_frame frame" and "make_subject sha256 s = Inr s" and "rs_provider s = ''upstox''"
    and "rt \<noteq> MarketInfoFeed" and "paths_ok secondary" and "in_utc t"
  shows "normalize_quote sha256 fe frame s rt t secondary =
    rbind (converted_fields fe (rs_instrument_kind s)) (\<lambda>ma. Inr (quote_for sha256 frame s rt t secondary ma))"
proof -
  have id: "rs_economic_subject_id s \<noteq> []" using subject_facts(2) [OF assms(2)] by (auto simp: strip_def)
  show ?thesis
  proof (cases "converted_fields fe (rs_instrument_kind s)")
    case (Inl e)
    then show ?thesis
      by (auto simp: normalize_quote_def converted_fields_def rbind_eq_Inl lift_opt_eq_Inl Let_def split: option.splits)
  next
    case (Inr ma)
    obtain mode a where ma: "ma = (mode, a)" by fastforce
    note c = converted_ok [OF Inr [unfolded ma]]
    have "make_quote_observation sha256 (assemble_quote frame s rt mode a (frame_id sha256 frame)
        (quote_identity sha256 frame s) (frame_event_time frame t) secondary) = Inr (quote_for sha256 frame s rt t secondary ma)"
      using quote_for_valid [OF assms(1-5) Inr] by (simp add: quote_for_def ma)
    then show ?thesis
      using c quote_identity_made(1) [OF id] frame_event_time_made [OF assms(1,6)]
      by (simp add: normalize_quote_def Inr frame_raw_event_id_total Let_def)
  qed
qed

section \<open>One entry\<close>

definition failure_record :: "feed \<Rightarrow> string \<Rightarrow> string \<Rightarrow> normalization_failure" where
  "failure_record fe key reason =
     (let s = structural_metadata (fe_union fe) in
      \<lparr>nf_scope = SubjectScope, nf_reason_code = reason, nf_provider_contract_key = Some key, nf_segment = None,
       nf_field_paths = [], nf_safe_detail_code = None, nf_selected_feed_union = es_selected s,
       nf_unadopted_schema_paths = es_unadopted s, nf_present_unadopted_message_paths = es_present s,
       nf_provider_depth_levels_present = es_depth_count s\<rparr>)"

definition known_reasons :: "string list" where
  "known_reasons = ENTRY_REASONS @ map failure_reason_value
     [UnknownProviderKey, StaleProviderMapping, AmbiguousProviderMapping, AmbiguousContractVersion]"

lemma reason_known [simp]:
  "failure_reason_value r \<in> set known_reasons" "''unknown_provider_key'' \<in> set known_reasons"
  "x \<in> set ENTRY_REASONS \<Longrightarrow> x \<in> set known_reasons"
  by (cases r) (simp_all add: known_reasons_def)

lemma known_reasons_controlled: "list_all (\<lambda>r. strip r \<noteq> [] \<and> controlled_code r) known_reasons"
  by code_simp

lemma controlled_path_strip: "controlled_path p \<Longrightarrow> strip p \<noteq> []"
  by (cases p) (auto simp: controlled_path_def strip_eq_Nil is_space_def Let_def)

lemma check_failure_paths_ok: "paths_ok ps \<Longrightarrow> check_failure_paths (name, ps) = Inr ()"
  by (auto simp: check_failure_paths_def paths_ok_def sorted_unique_fixed list_ex_iff list_all_iff guard_def
      dest: controlled_path_strip)

lemma entry_failure_made:
  assumes "validate_provider_contract_key key = Inr key" and "reason \<in> set known_reasons"
  shows "entry_failure fe key reason = Inr (failure_record fe key reason)"
proof -
  let ?s = "structural_metadata (fe_union fe)"
  have code: "strip reason \<noteq> []" "controlled_code reason"
    using known_reasons_controlled assms(2) by (auto simp: list_all_iff)
  have empty: "sorted_unique ([] :: string list) = []" by (simp add: sorted_unique_def)
  have paths: "rmap check_failure_paths [(''unadopted_schema_paths'', es_unadopted ?s),
      (''present_unadopted_message_paths'', es_present ?s)] = Inr [(), ()]"
    using structure_ok [of "fe_union fe"] by (simp add: check_failure_paths_ok)
  have depth: "\<not> (case es_depth_count ?s of None \<Rightarrow> False | Some n \<Rightarrow> n < 0)"
    using structure_ok [of "fe_union fe"] by (auto split: option.splits)
  show ?thesis
    unfolding entry_failure_def failure_record_def make_normalization_failure_def Let_def normalization_failure.select_convs paths
    using code empty depth assms(1) by (simp add: optional_blank_def check_failure_scope_def guard_def)
qed

lemma failure_record_made:
  assumes "validate_provider_contract_key key = Inr key" and "reason \<in> set known_reasons"
  shows "make_normalization_failure (failure_record fe key reason) = Inr (failure_record fe key reason)"
  using entry_failure_made [OF assms, of fe] by (simp add: entry_failure_def failure_record_def Let_def)

text \<open>What becomes of the entry of a key: the reason of its failure or its quote.\<close>

definition entry_outcome ::
  "(string \<Rightarrow> string) \<Rightarrow> decoded_frame \<Rightarrow> raw_frame \<Rightarrow> resolution_batch \<Rightarrow> feed_response_type \<Rightarrow> pydatetime \<Rightarrow> string list
   \<Rightarrow> string \<Rightarrow> string + quote_observation" where
  "entry_outcome sha256 d frame b rt t secondary key =
     (case failure_for b key of
        Some f \<Rightarrow> Inl (failure_reason_value (sf_reason f))
      | None \<Rightarrow>
          (case subject_for b key of
             None \<Rightarrow> Inl ''unknown_provider_key''
           | Some s \<Rightarrow>
               (case converted_fields (feed_at (df_response d) key) (rs_instrument_kind s) of
                  Inl e \<Rightarrow> Inl (case e of ValueError r \<Rightarrow> r | _ \<Rightarrow> '''')
                | Inr ma \<Rightarrow> Inr (quote_for sha256 frame s rt t secondary ma))))"

text \<open>A batch the service accepts for a frame of the provider.\<close>

definition usable_batch :: "(string \<Rightarrow> string) \<Rightarrow> resolution_batch \<Rightarrow> bool" where
  "usable_batch sha256 b \<longleftrightarrow> make_resolution_batch (rb_resolved b) (rb_failures b) = Inr b
     \<and> (\<forall>s \<in> set (rb_resolved b). valid_subject sha256 s \<and> rs_provider s = ''upstox'')"

lemma usable_subject:
  assumes "usable_batch sha256 b" and "subject_for b key = Some s"
  shows "make_subject sha256 s = Inr s" "valid_subject sha256 s" "rs_provider s = ''upstox''" "rs_provider_contract_key s = key"
  using assms batch_outcome(1) [of "rb_resolved b" "rb_failures b" b key s]
  by (auto simp: usable_batch_def dest: valid_subjectD)

lemma outcome_reason: "entry_outcome sha256 d frame b rt t secondary key = Inl r \<Longrightarrow> r \<in> set known_reasons"
  by (auto simp: entry_outcome_def entry_error_def split: option.splits sum.splits dest!: converted_error)

definition quote_context ::
  "(string \<Rightarrow> string) \<Rightarrow> decoded_frame \<Rightarrow> raw_frame \<Rightarrow> resolution_batch \<Rightarrow> feed_response_type \<Rightarrow> pydatetime \<Rightarrow> string list
   \<Rightarrow> bool" where
  "quote_context sha256 d frame b rt t secondary \<longleftrightarrow>
     valid_frame frame \<and> usable_batch sha256 b \<and> rt \<noteq> MarketInfoFeed \<and> paths_ok secondary
     \<and> epoch_milliseconds (rp_current_ts (df_response d)) False = Inr (Some t) \<and> in_utc t"

lemma outcome_quote:
  assumes "quote_context sha256 d frame b rt t secondary"
    and "entry_outcome sha256 d frame b rt t secondary key = Inr q"
  obtains s ma where "subject_for b key = Some s"
    and "converted_fields (feed_at (df_response d) key) (rs_instrument_kind s) = Inr ma"
    and "q = quote_for sha256 frame s rt t secondary ma" and "qn_provider_contract_key q = key"
    and "make_quote_observation sha256 q = Inr q"
proof -
  obtain s ma where s: "subject_for b key = Some s"
    and ma: "converted_fields (feed_at (df_response d) key) (rs_instrument_kind s) = Inr ma"
    and q: "q = quote_for sha256 frame s rt t secondary ma"
    using assms(2) by (auto simp: entry_outcome_def split: option.splits sum.splits)
  note u = usable_subject [OF _ s]
  have "qn_provider_contract_key q = key"
    using assms(1) u(4) by (auto simp: q quote_for_def assemble_quote_def quote_context_def)
  moreover have "make_quote_observation sha256 q = Inr q"
    using assms(1) u quote_for_valid ma unfolding q quote_context_def by blast
  ultimately show thesis using that s ma q by blast
qed

lemma entry_normalized:
  assumes ctx: "quote_context sha256 d frame b rt t secondary" and key: "validate_provider_contract_key key = Inr key"
  shows "normalize_entry sha256 d frame b rt secondary key acc = Inr
    (case entry_outcome sha256 d frame b rt t secondary key of
       Inl r \<Rightarrow> (fst acc, snd acc @ [failure_record (feed_at (df_response d) key) key r])
     | Inr q \<Rightarrow> (fst acc @ [q], snd acc))"
proof (cases "failure_for b key")
  case (Some f)
  then show ?thesis using entry_failure_made [OF key reason_known(1)]
    by (simp add: normalize_entry_def entry_outcome_def)
next
  case None
  note fails = None
  show ?thesis
  proof (cases "subject_for b key")
    case None
    then show ?thesis using fails entry_failure_made [OF key reason_known(2)]
      by (simp add: normalize_entry_def entry_outcome_def)
  next
    case (Some s)
    have c: "valid_frame frame" "usable_batch sha256 b" "rt \<noteq> MarketInfoFeed" "paths_ok secondary" "in_utc t"
      "epoch_milliseconds (rp_current_ts (df_response d)) False = Inr (Some t)"
      using ctx by (simp_all add: quote_context_def)
    note q = quote_normalized [OF c(1) usable_subject(1,3) [OF c(2) Some] c(3-5), of "feed_at (df_response d) key"]
    show ?thesis
    proof (cases "converted_fields (feed_at (df_response d) key) (rs_instrument_kind s)")
      case (Inl e)
      then obtain r where "e = ValueError r" "r \<in> set ENTRY_REASONS"
        using converted_error [OF Inl] by (auto simp: entry_error_def)
      then show ?thesis using fails Some Inl q c(6) entry_failure_made [OF key reason_known(3)]
        by (simp add: normalize_entry_def entry_outcome_def)
    next
      case (Inr ma)
      then show ?thesis using fails Some q c(6) by (simp add: normalize_entry_def entry_outcome_def)
    qed
  qed
qed

section \<open>All entries\<close>

definition accepted_quotes :: "(string \<Rightarrow> string + quote_observation) \<Rightarrow> string list \<Rightarrow> quote_observation list" where
  "accepted_quotes outcome = List.map_filter (\<lambda>k. case outcome k of Inl _ \<Rightarrow> None | Inr q \<Rightarrow> Some q)"

definition failed_entries ::
  "feed_response \<Rightarrow> (string \<Rightarrow> string + quote_observation) \<Rightarrow> string list \<Rightarrow> normalization_failure list" where
  "failed_entries r outcome = List.map_filter (\<lambda>k. case outcome k of Inl e \<Rightarrow> Some (failure_record (feed_at r k) k e) | Inr _ \<Rightarrow> None)"

lemma entries_normalized:
  assumes "quote_context sha256 d frame b rt t secondary" and "\<forall>k \<in> set ks. validate_provider_contract_key k = Inr k"
  shows "rfold (normalize_entry sha256 d frame b rt secondary) ks acc = Inr
    (fst acc @ accepted_quotes (entry_outcome sha256 d frame b rt t secondary) ks,
     snd acc @ failed_entries (df_response d) (entry_outcome sha256 d frame b rt t secondary) ks)"
  using assms(2)
  by (induction ks arbitrary: acc)
     (auto simp: entry_normalized [OF assms(1)] accepted_quotes_def failed_entries_def map_filter_simps split: sum.splits)

lemma failed_keys_distinct:
  assumes "distinct ks"
  shows "failed_entry_scope_count (failed_entries r outcome ks) = int (length (failed_entries r outcome ks))"
proof -
  have keys: "List.map_filter entry_scope_key (failed_entries r outcome ks) =
      map (\<lambda>k. (failure_scope_value SubjectScope, k)) (filter (\<lambda>k. \<exists>e. outcome k = Inl e) ks)"
    by (induction ks)
       (auto simp: failed_entries_def map_filter_simps entry_scope_key_def failure_record_def Let_def split: sum.splits)
  have len: "length (failed_entries r outcome ks) = length (filter (\<lambda>k. \<exists>e. outcome k = Inl e) ks)"
    by (induction ks) (auto simp: failed_entries_def map_filter_simps split: sum.splits)
  have "distinct (map (\<lambda>k. (failure_scope_value SubjectScope, k)) (filter (\<lambda>k. \<exists>e. outcome k = Inl e) ks))"
    using assms by (simp add: distinct_map inj_on_def)
  then show ?thesis unfolding failed_entry_scope_count_def keys len by (simp add: distinct_remdups_id)
qed

lemma entries_partition:
  "length (accepted_quotes outcome ks) + length (failed_entries r outcome ks) = length ks"
  by (induction ks) (auto simp: accepted_quotes_def failed_entries_def map_filter_simps split: sum.splits)

lemma accepted_quotes_set: "q \<in> set (accepted_quotes outcome ks) \<longleftrightarrow> (\<exists>k \<in> set ks. outcome k = Inr q)"
  by (induction ks) (auto simp: accepted_quotes_def map_filter_simps split: sum.splits)

lemma failed_entries_set:
  "f \<in> set (failed_entries r outcome ks) \<longleftrightarrow> (\<exists>k \<in> set ks. \<exists>e. outcome k = Inl e \<and> f = failure_record (feed_at r k) k e)"
  by (induction ks) (auto simp: failed_entries_def map_filter_simps split: sum.splits)

lemma entries_keys:
  assumes "\<And>k q. outcome k = Inr q \<Longrightarrow> qn_provider_contract_key q = k"
  shows "mset (map qn_provider_contract_key (accepted_quotes outcome ks))
    + mset (map (\<lambda>f. the (nf_provider_contract_key f)) (failed_entries r outcome ks)) = mset ks"
  using assms
  by (induction ks)
     (auto simp: accepted_quotes_def failed_entries_def map_filter_simps failure_record_def Let_def split: sum.splits)

lemma map_insort_key: "map f (insort_key (\<lambda>x. g (f x)) x xs) = insort_key g (f x) (map f xs)"
  by (induction xs) auto

lemma map_sort_key: "sort_key g (map f xs) = map f (sort_key (\<lambda>x. g (f x)) xs)"
  by (induction xs) (simp_all add: map_insort_key)

lemma response_types:
  "n \<in> {INITIAL_FEED, LIVE_FEED} \<Longrightarrow> \<exists>rt. response_type_of n = Inr rt \<and> rt \<noteq> MarketInfoFeed"
  "response_type_of MARKET_INFO = Inr MarketInfoFeed"
  by (auto simp: response_type_of_def INITIAL_FEED_def LIVE_FEED_def MARKET_INFO_def)

lemma secondary_ok: "paths_ok (secondary_payload_paths d)"
proof -
  have "list_all controlled_path [''FeedResponse.feeds'', ''FeedResponse.marketInfo.segmentStatus'']" by code_simp
  then show ?thesis by (auto simp: secondary_payload_paths_def paths_ok_def MARKET_INFO_def INITIAL_FEED_def LIVE_FEED_def)
qed

lemma quotes_normalized:
  assumes ctx: "quote_context sha256 d frame b rt t (secondary_payload_paths d)"
    and keys: "\<forall>k \<in> set (df_provider_contract_keys d). validate_provider_contract_key k = Inr k"
    and distinct: "distinct (df_provider_contract_keys d)"
    and rt: "response_type_of (df_response_type d) = Inr rt"
  obtains draft outcome where "normalize_upstox_v3_frame sha256 d frame (Some b) = Inr draft"
    and "outcome = entry_outcome sha256 d frame b rt t (secondary_payload_paths d)"
    and "fd_accepted_events draft
      = sort_key event_order_key (map QuoteEvent (accepted_quotes outcome (df_provider_contract_keys d)))"
    and "fd_entry_failures draft
      = sort_key failure_order_key (failed_entries (df_response d) outcome (df_provider_contract_keys d))"
    and "fd_decoded_entry_count draft = int (length (df_provider_contract_keys d))"
    and "fd_secondary_payload_paths_present draft = secondary_payload_paths d"
    and "sorted_wrt (<) (fd_unadopted_schema_paths draft)" and "sorted_wrt (<) (fd_present_unadopted_message_paths draft)"
proof -
  let ?ks = "df_provider_contract_keys d"
  define outcome where "outcome = entry_outcome sha256 d frame b rt t (secondary_payload_paths d)"
  let ?fails = "failed_entries (df_response d) outcome ?ks"
  have media: "rt \<noteq> MarketInfoFeed" using ctx by (simp add: quote_context_def)
  have run: "normalize_quotes sha256 d frame b rt (secondary_payload_paths d) = Inr (accepted_quotes outcome ?ks, ?fails)"
    unfolding normalize_quotes_def entries_normalized [OF ctx keys] outcome_def by simp
  have count: "failed_entry_scope_count (sort_key failure_order_key ?fails) = int (length ?fails)"
  proof -
    have "set (List.map_filter entry_scope_key (sort_key failure_order_key ?fails))
        = set (List.map_filter entry_scope_key ?fails)"
      by (auto simp: List.map_filter_def)
    then have "failed_entry_scope_count (sort_key failure_order_key ?fails) = failed_entry_scope_count ?fails"
      unfolding failed_entry_scope_count_def length_remdups_card_conv by simp
    then show ?thesis using failed_keys_distinct [OF distinct] by simp
  qed
  have total: "int (length (map QuoteEvent (accepted_quotes outcome ?ks))) + int (length ?fails) = int (length ?ks)"
    using entries_partition [of outcome ?ks "df_response d"] by simp
  show thesis
    by (rule that [OF _ outcome_def, of "\<lparr>fd_accepted_events = sort_key event_order_key (map QuoteEvent (accepted_quotes outcome ?ks)),
        fd_entry_failures = sort_key failure_order_key ?fails,
        fd_unadopted_schema_paths = sorted_unique (concat (map es_unadopted
          (map (\<lambda>key. structural_metadata (fe_union (feed_at (df_response d) key))) ?ks))),
        fd_present_unadopted_message_paths = sorted_unique (concat (map es_present
          (map (\<lambda>key. structural_metadata (fe_union (feed_at (df_response d) key))) ?ks))),
        fd_secondary_payload_paths_present = secondary_payload_paths d,
        fd_decoded_entry_count = int (length ?ks)\<rparr>"])
       (use media total in \<open>simp_all add: normalize_upstox_v3_frame_def rt run count Let_def\<close>)
qed

lemma made_quote_context:
  assumes "make_raw_frame sha256 f0 = Inr frame" and "decode_upstox_v3_frame parse frame = Inr d"
    and "df_response_type d \<noteq> MARKET_INFO" and "usable_batch sha256 b"
  obtains rt t where "response_type_of (df_response_type d) = Inr rt"
    and "quote_context sha256 d frame b rt t (secondary_payload_paths d)"
    and "\<forall>k \<in> set (df_provider_contract_keys d). validate_provider_contract_key k = Inr k"
    and "df_provider_contract_keys d = sort (map fst (rp_feeds (df_response d)))"
proof -
  have well: "well_decoded d" by (rule decoded_well(1) [OF assms(2)])
  obtain rt where "response_type_of (df_response_type d) = Inr rt" "rt \<noteq> MarketInfoFeed"
    using response_types(1) [of "df_response_type d"] well assms(3) by (auto simp: well_decoded_def)
  moreover obtain t where "epoch_milliseconds (rp_current_ts (df_response d)) False = Inr (Some t)"
    using well by (auto simp: well_decoded_def)
  moreover from this have "in_utc t" by (rule timestamp_utc)
  ultimately have "response_type_of (df_response_type d) = Inr rt"
    "quote_context sha256 d frame b rt t (secondary_payload_paths d)"
    using made_frame_valid [OF assms(1)] assms(4) secondary_ok by (simp_all add: quote_context_def)
  then show thesis using well assms(3) by (intro that) (simp_all add: well_decoded_def)
qed

text \<open>Nothing is lost and nothing escapes: a decoded feed frame with the answers of a resolver always
  becomes a draft; its quotes are valid, its failures are valid failures of one subject each, every
  key of the frame has exactly one of the two, and the count of decoded entries is the number of keys.\<close>

lemma frame_entries_accounted:
  assumes frame: "make_raw_frame sha256 f0 = Inr frame" and decoded: "decode_upstox_v3_frame parse frame = Inr d"
    and feed: "df_response_type d \<noteq> MARKET_INFO" and map_keys: "distinct (map fst (rp_feeds (df_response d)))"
    and batch: "answers sha256 ''upstox'' (df_provider_contract_keys d) market known b"
  shows "\<exists>draft quotes. normalize_upstox_v3_frame sha256 d frame (Some b) = Inr draft
    \<and> fd_accepted_events draft = map QuoteEvent quotes
    \<and> (\<forall>q \<in> set quotes. make_quote_observation sha256 q = Inr q)
    \<and> (\<forall>f \<in> set (fd_entry_failures draft). make_normalization_failure f = Inr f \<and> nf_scope f = SubjectScope)
    \<and> mset (map qn_provider_contract_key quotes)
        + mset (map (\<lambda>f. the (nf_provider_contract_key f)) (fd_entry_failures draft))
      = mset (map fst (rp_feeds (df_response d)))
    \<and> fd_decoded_entry_count draft = int (length (rp_feeds (df_response d)))"
proof -
  let ?ks = "df_provider_contract_keys d"
  have usable: "usable_batch sha256 b" using batch by (auto simp: answers_def usable_batch_def list_all_iff)
  obtain rt t where rt: "response_type_of (df_response_type d) = Inr rt"
    and ctx: "quote_context sha256 d frame b rt t (secondary_payload_paths d)"
    and keys: "\<forall>k \<in> set ?ks. validate_provider_contract_key k = Inr k"
    and ks: "?ks = sort (map fst (rp_feeds (df_response d)))"
    by (rule made_quote_context [OF frame decoded feed usable])
  have "distinct ?ks" using map_keys by (simp add: ks)
  from quotes_normalized [OF ctx keys this rt] obtain draft outcome where
    draft: "normalize_upstox_v3_frame sha256 d frame (Some b) = Inr draft"
    and outcome: "outcome = entry_outcome sha256 d frame b rt t (secondary_payload_paths d)"
    and events: "fd_accepted_events draft = sort_key event_order_key (map QuoteEvent (accepted_quotes outcome ?ks))"
    and fails: "fd_entry_failures draft = sort_key failure_order_key (failed_entries (df_response d) outcome ?ks)"
    and count: "fd_decoded_entry_count draft = int (length ?ks)" .
  define quotes where "quotes = sort_key (\<lambda>q. event_order_key (QuoteEvent q)) (accepted_quotes outcome ?ks)"
  have sorted: "fd_accepted_events draft = map QuoteEvent quotes"
    unfolding events quotes_def by (simp add: map_sort_key)
  have quote: "make_quote_observation sha256 q = Inr q" "qn_provider_contract_key q = k" if "outcome k = Inr q" for k q
    using outcome_quote [OF ctx] that unfolding outcome by blast+
  have "\<forall>q \<in> set quotes. make_quote_observation sha256 q = Inr q"
    using quote(1) by (auto simp: quotes_def accepted_quotes_set)
  moreover have "\<forall>f \<in> set (fd_entry_failures draft). make_normalization_failure f = Inr f \<and> nf_scope f = SubjectScope"
    using failure_record_made keys outcome_reason
    by (auto simp: fails failed_entries_set outcome failure_record_def Let_def)
  moreover have "mset (map qn_provider_contract_key quotes)
        + mset (map (\<lambda>f. the (nf_provider_contract_key f)) (fd_entry_failures draft)) = mset (map fst (rp_feeds (df_response d)))"
    using entries_keys [of outcome ?ks "df_response d"] quote(2)
    by (simp add: quotes_def fails ks mset_map)
  ultimately show ?thesis using draft sorted count by (auto simp: ks)
qed

end
