(* ===== verification/EntryAcceptance.thy ===== *)
theory EntryAcceptance
  imports NormalizerProperties
begin

text \<open>
  Which entries of a feed become quotes: \<open>acceptable\<close> states it for the values of an entry, without the
  order of the checks and without errors, and the conversions of \<open>v3_normalizer.py\<close> succeed exactly there.
  Floats come from a protobuf message, so they are binary64 numbers.
\<close>

section \<open>Acceptable values\<close>

fun price_valid :: "pyfloat \<Rightarrow> bool" where
  "price_valid (Fl q) \<longleftrightarrow> 0 \<le> q"
| "price_valid _ = False"

definition quantity_valid :: "int \<Rightarrow> bool" where
  "quantity_valid n \<longleftrightarrow> 0 \<le> n \<and> n < 2 ^ 63"

fun open_interest_valid :: "pyfloat \<Rightarrow> bool" where
  "open_interest_valid (Fl q) \<longleftrightarrow> (\<exists>n. 0 \<le> n \<and> n \<le> 2 ^ 53 \<and> q = of_int n)"
| "open_interest_valid _ = False"

text \<open>Milliseconds from the epoch up to the end of the year 9999; zero stands for no trade.\<close>

definition trade_time_valid :: "int \<Rightarrow> bool" where
  "trade_time_valid m \<longleftrightarrow> 0 \<le> m \<and> 719163 * day_us + m * 1000 < (max_ordinal + 1) * day_us"

definition ltpc_valid :: "ltpc_message \<Rightarrow> bool" where
  "ltpc_valid l \<longleftrightarrow> price_valid (lt_ltp l) \<and> quantity_valid (lt_ltq l) \<and> trade_time_valid (lt_ltt l) \<and> price_valid (lt_cp l)"

definition level_valid :: "quote_level \<Rightarrow> bool" where
  "level_valid l \<longleftrightarrow> price_valid (ql_bid_p l) \<and> quantity_valid (ql_bid_q l) \<and> price_valid (ql_ask_p l) \<and> quantity_valid (ql_ask_q l)"

definition some_valid :: "('a \<Rightarrow> bool) \<Rightarrow> 'a option \<Rightarrow> bool" where
  "some_valid P x \<longleftrightarrow> (case x of None \<Rightarrow> False | Some y \<Rightarrow> P y)"

definition best_level :: "market_full_feed \<Rightarrow> quote_level option" where
  "best_level m = (case mf_market_level m of Some (level # _) \<Rightarrow> Some level | _ \<Rightarrow> None)"

fun acceptable :: "feed_union \<Rightarrow> provider_request_mode \<Rightarrow> market_subject_kind \<Rightarrow> bool" where
  "acceptable (LtpcFeed l) mode kind \<longleftrightarrow> mode = ModeLtpc \<and> ltpc_valid l"
| "acceptable (FirstLevelFeed f) mode kind \<longleftrightarrow>
     mode = ModeOptionGreeks \<and> kind = OptionSubject \<and> some_valid ltpc_valid (ff_ltpc f)
     \<and> pred_option level_valid (ff_first_depth f) \<and> quantity_valid (ff_vtt f) \<and> open_interest_valid (ff_oi f)"
| "acceptable (FullFeed (IndexFF x)) mode kind \<longleftrightarrow>
     mode \<in> {ModeFullD5, ModeFullD30} \<and> kind = UnderlyingSubject \<and> some_valid ltpc_valid (xf_ltpc x)"
| "acceptable (FullFeed (MarketFF m)) mode kind \<longleftrightarrow>
     mode \<in> {ModeFullD5, ModeFullD30} \<and> kind \<in> {FutureSubject, OptionSubject} \<and> some_valid ltpc_valid (mf_ltpc m)
     \<and> market_level_count m \<le> (if mode = ModeFullD5 then 5 else 30)
     \<and> pred_option level_valid (best_level m) \<and> quantity_valid (mf_vtt m) \<and> open_interest_valid (mf_oi m)"
| "acceptable (FullFeed NoFullFeed) mode kind \<longleftrightarrow> False"
| "acceptable NoFeed mode kind \<longleftrightarrow> False"

text \<open>The floats an entry holds.\<close>

definition ltpc_floats :: "ltpc_message \<Rightarrow> pyfloat list" where
  "ltpc_floats l = [lt_ltp l, lt_cp l]"

definition level_floats :: "quote_level \<Rightarrow> pyfloat list" where
  "level_floats l = [ql_bid_p l, ql_ask_p l]"

definition optional_floats :: "('a \<Rightarrow> pyfloat list) \<Rightarrow> 'a option \<Rightarrow> pyfloat list" where
  "optional_floats f x = (case x of None \<Rightarrow> [] | Some y \<Rightarrow> f y)"

fun union_floats :: "feed_union \<Rightarrow> pyfloat list" where
  "union_floats (LtpcFeed l) = ltpc_floats l"
| "union_floats (FirstLevelFeed f) = optional_floats ltpc_floats (ff_ltpc f) @ optional_floats level_floats (ff_first_depth f)"
| "union_floats (FullFeed (IndexFF x)) = optional_floats ltpc_floats (xf_ltpc x)"
| "union_floats (FullFeed (MarketFF m)) = optional_floats ltpc_floats (mf_ltpc m) @ optional_floats level_floats (best_level m)"
| "union_floats (FullFeed NoFullFeed) = []"
| "union_floats NoFeed = []"

section \<open>The conversions succeed exactly there\<close>

lemma price_accepted:
  assumes "wf_float x"
  shows "(\<exists>p. provider_double_to_price x = Inr p) \<longleftrightarrow> price_valid x"
proof (cases x)
  case (Fl q)
  then obtain d where d: "decimal_of_float x = Inr d" using decimal_of_float_finite [of x] by auto
  have "0 \<le> q \<longleftrightarrow> 0 \<le> dval d"
    using decimal_of_float_nonneg [OF assms d] Fl by (auto simp: decimal_ops float_ops)
  then show ?thesis using d Fl by (auto simp: provider_double_to_price_def guard_def decimal_ops)
qed (simp_all add: provider_double_to_price_def guard_def)

lemma quantity_accepted: "(\<exists>m. reported_quantity n = Inr m) \<longleftrightarrow> quantity_valid n"
  by (auto simp: reported_quantity_def quantity_valid_def guard_def INT64_MAX_def)

lemma open_interest_accepted: "(\<exists>n. reported_open_interest x = Inr n) \<longleftrightarrow> open_interest_valid x"
proof (cases x)
  case (Fl q)
  have "(\<exists>n. reported_open_interest (Fl q) = Inr n) \<longleftrightarrow> 0 \<le> q \<and> q \<le> 2 ^ 53 \<and> of_int \<lfloor>q\<rfloor> = q"
    by (auto simp: reported_open_interest_def guard_def SAFE_INTEGER_MAX_def INT64_MAX_def)
  also have "\<dots> \<longleftrightarrow> (\<exists>n. 0 \<le> n \<and> n \<le> 2 ^ 53 \<and> q = of_int n)"
  proof
    assume q: "0 \<le> q \<and> q \<le> 2 ^ 53 \<and> of_int \<lfloor>q\<rfloor> = q"
    then have "of_int \<lfloor>q\<rfloor> \<le> (of_int (2 ^ 53) :: rat)" by simp
    then have "\<lfloor>q\<rfloor> \<le> 2 ^ 53" by (simp only: of_int_le_iff)
    moreover have "0 \<le> \<lfloor>q\<rfloor>" using q by simp
    ultimately show "\<exists>n. 0 \<le> n \<and> n \<le> 2 ^ 53 \<and> q = of_int n" using q by metis
  next
    assume "\<exists>n. 0 \<le> n \<and> n \<le> 2 ^ 53 \<and> q = of_int n"
    then obtain n where n: "0 \<le> n" "n \<le> 2 ^ 53" "q = of_int n" by blast
    then have "(of_int n :: rat) \<le> of_int (2 ^ 53)" by (simp only: of_int_le_iff)
    with n show "0 \<le> q \<and> q \<le> 2 ^ 53 \<and> of_int \<lfloor>q\<rfloor> = q" by simp
  qed
  finally show ?thesis using Fl by simp
qed (simp_all add: reported_open_interest_def)

lemma trade_time_accepted: "(\<exists>t. epoch_milliseconds m True = Inr t) \<longleftrightarrow> trade_time_valid m"
proof -
  have "m div 1000 * 1000000 + m mod 1000 * 1000 = m * 1000" using div_mult_mod_eq [of m 1000] by linarith
  then have "EPOCH_US + m div 1000 * 1000000 + m mod 1000 * 1000 = 719163 * day_us + m * 1000"
    by (simp add: EPOCH_US_def)
  then show ?thesis
    by (auto simp: epoch_milliseconds_def trade_time_valid_def guard_def Let_def max_ordinal_def day_us_def)
qed

lemma result_bind: "(\<exists>z. rbind r f = Inr z) \<longleftrightarrow> (\<exists>x. r = Inr x \<and> (\<exists>z. f x = Inr z))"
  by (cases r) auto

lemma fields_accepted:
  assumes "list_all wf_float (ltpc_floats l)"
  shows "(\<exists>a. fields_from_ltpc l sel book v oi depth ps = Inr a) \<longleftrightarrow> ltpc_valid l"
proof (cases book rule: prod_cases4)
  case (fields bp bs ap as)
  have "(\<exists>a. fields_from_ltpc l sel book v oi depth ps = Inr a) \<longleftrightarrow>
    (\<exists>p. provider_double_to_price (lt_ltp l) = Inr p) \<and> (\<exists>n. reported_quantity (lt_ltq l) = Inr n)
    \<and> (\<exists>t. epoch_milliseconds (lt_ltt l) True = Inr t) \<and> (\<exists>p. provider_double_to_price (lt_cp l) = Inr p)"
    by (auto simp: fields_from_ltpc_def fields result_bind)
  then show ?thesis
    using assms by (simp add: price_accepted quantity_accepted trade_time_accepted ltpc_valid_def ltpc_floats_def)
qed

lemma top_of_book_accepted:
  assumes "list_all wf_float (optional_floats level_floats l)"
  shows "(\<exists>b. top_of_book l = Inr b) \<longleftrightarrow> pred_option level_valid l"
proof (cases l)
  case (Some x)
  have "(\<exists>b. top_of_book l = Inr b) \<longleftrightarrow>
    (\<exists>p. provider_double_to_price (ql_bid_p x) = Inr p) \<and> (\<exists>n. reported_quantity (ql_bid_q x) = Inr n)
    \<and> (\<exists>p. provider_double_to_price (ql_ask_p x) = Inr p) \<and> (\<exists>n. reported_quantity (ql_ask_q x) = Inr n)"
    by (simp add: top_of_book_def Some result_bind del: split_paired_Ex)
  then show ?thesis
    using assms by (simp add: Some price_accepted quantity_accepted level_valid_def level_floats_def optional_floats_def)
qed (simp add: top_of_book_def)

lemma required_ltpc:
  "list_all wf_float (optional_floats ltpc_floats x) \<Longrightarrow>
   (\<exists>l. require_ltpc x = Inr l \<and> (\<exists>a. fields_from_ltpc l sel book v oi depth ps = Inr a)) \<longleftrightarrow> some_valid ltpc_valid x"
  by (cases x) (simp_all add: require_ltpc_def some_valid_def guard_eq_Inr optional_floats_def fields_accepted)

lemma adopt_accepted:
  assumes "list_all wf_float (union_floats u)"
  shows "(\<exists>a. adopt_fields u mode kind = Inr a) \<longleftrightarrow> acceptable u mode kind"
proof (cases u)
  case (LtpcFeed l)
  then show ?thesis using assms by (simp add: result_bind fields_accepted result_simps)
next
  case (FirstLevelFeed f)
  show ?thesis
  proof (cases "ff_ltpc f")
    case None
    then show ?thesis
      by (simp add: FirstLevelFeed adopt_first_level_def result_bind require_ltpc_def some_valid_def guard_eq_Inr del: split_paired_Ex)
  next
    case (Some l)
    then have "list_all wf_float (ltpc_floats l)" "list_all wf_float (optional_floats level_floats (ff_first_depth f))"
      using assms by (simp_all add: FirstLevelFeed optional_floats_def)
    note accepted = fields_accepted [OF this(1)] top_of_book_accepted [OF this(2)] quantity_accepted open_interest_accepted
    show ?thesis
      by (auto simp: FirstLevelFeed adopt_first_level_def result_bind require_ltpc_def some_valid_def guard_eq_Inr Some accepted
          simp del: split_paired_Ex)
  qed
next
  case (FullFeed full)
  show ?thesis
  proof (cases full)
    case NoFullFeed
    then show ?thesis by (simp add: FullFeed result_bind)
  next
    case (IndexFF x)
    show ?thesis
    proof (cases "xf_ltpc x")
      case None
      then show ?thesis by (simp add: FullFeed IndexFF adopt_index_full_def result_bind require_ltpc_def some_valid_def guard_eq_Inr)
    next
      case (Some l)
      then have "list_all wf_float (ltpc_floats l)" using assms by (simp add: FullFeed IndexFF optional_floats_def)
      note accepted = fields_accepted [OF this]
      show ?thesis
        by (auto simp: FullFeed IndexFF adopt_index_full_def result_bind require_ltpc_def some_valid_def guard_eq_Inr Some accepted)
    qed
  next
    case (MarketFF m)
    show ?thesis
    proof (cases "mf_ltpc m")
      case None
      then show ?thesis by (simp add: FullFeed MarketFF adopt_market_full_def result_bind require_ltpc_def some_valid_def guard_eq_Inr)
    next
      case (Some l)
      then have "list_all wf_float (ltpc_floats l)" "list_all wf_float (optional_floats level_floats (best_level m))"
        using assms by (simp_all add: FullFeed MarketFF optional_floats_def)
      note accepted = fields_accepted [OF this(1)] top_of_book_accepted [OF this(2), unfolded best_level_def]
        quantity_accepted open_interest_accepted
      show ?thesis
        by (auto simp: FullFeed MarketFF adopt_market_full_def result_bind require_ltpc_def some_valid_def guard_eq_Inr Some accepted
            best_level_def Let_def UPSTOX_V3_MAX_DEPTH_LEVELS_def simp del: split_paired_Ex split: if_splits)
    qed
  qed
next
  case NoFeed
  then show ?thesis by simp
qed

section \<open>What a quote reads from its entry\<close>

text \<open>The float a price stands for.\<close>

definition reads :: "pyfloat \<Rightarrow> decimal option \<Rightarrow> bool" where
  "reads x p \<longleftrightarrow> (case p of None \<Rightarrow> False | Some d \<Rightarrow> 0 \<le> d \<and> x = Fl (f64 (dval d)))"

fun union_ltpc :: "feed_union \<Rightarrow> ltpc_message option" where
  "union_ltpc (LtpcFeed l) = Some l"
| "union_ltpc (FirstLevelFeed f) = ff_ltpc f"
| "union_ltpc (FullFeed (IndexFF x)) = xf_ltpc x"
| "union_ltpc (FullFeed (MarketFF m)) = mf_ltpc m"
| "union_ltpc _ = None"

fun union_level :: "feed_union \<Rightarrow> quote_level option" where
  "union_level (FirstLevelFeed f) = ff_first_depth f"
| "union_level (FullFeed (MarketFF m)) = best_level m"
| "union_level _ = None"

fun union_totals :: "feed_union \<Rightarrow> (int \<times> pyfloat) option" where
  "union_totals (FirstLevelFeed f) = Some (ff_vtt f, ff_oi f)"
| "union_totals (FullFeed (MarketFF m)) = Some (mf_vtt m, mf_oi m)"
| "union_totals _ = None"

lemma price_reads:
  assumes "wf_float x" and "provider_double_to_price x = Inr p"
  shows "reads x (Some p)"
proof -
  obtain d where d: "decimal_of_float x = Inr d" using assms(2) by (auto simp: provider_double_to_price_def result_simps split: if_splits)
  have x: "x = Fl (f64 (dval d))" by (rule decimal_of_float_reads_back [OF assms(1) d])
  show ?thesis
    using assms(2) d x
    by (auto simp: provider_double_to_price_def guard_def reads_def decimal_ops f64.rnd_zero split: if_splits)
qed

lemma open_interest_reads: "reported_open_interest x = Inr n \<Longrightarrow> x = Fl (of_int n)"
  by (auto simp: reported_open_interest_def result_simps split: pyfloat.splits)

text \<open>The values the adopted fields hold, for the parts the entry has.\<close>

definition fields_read :: "feed_union \<Rightarrow> adopted_fields \<Rightarrow> bool" where
  "fields_read u a \<longleftrightarrow>
     (\<exists>l. union_ltpc u = Some l \<and> reads (lt_ltp l) (Some (af_last_price a)) \<and> af_last_size a = lt_ltq l
        \<and> epoch_milliseconds (lt_ltt l) True = Inr (af_last_trade_at a)
        \<and> reads (lt_cp l) (Some (af_previous_close_price a)))
     \<and> (case union_level u of
          None \<Rightarrow> af_bid_price a = None \<and> af_bid_size a = None \<and> af_ask_price a = None \<and> af_ask_size a = None
        | Some v \<Rightarrow> reads (ql_bid_p v) (af_bid_price a) \<and> af_bid_size a = Some (ql_bid_q v)
            \<and> reads (ql_ask_p v) (af_ask_price a) \<and> af_ask_size a = Some (ql_ask_q v))
     \<and> (case union_totals u of
          None \<Rightarrow> af_reported_volume a = None \<and> af_open_interest a = None
        | Some (vtt, oi) \<Rightarrow> af_reported_volume a = Some vtt \<and> (\<exists>n. af_open_interest a = Some n \<and> oi = Fl (of_int n)))"

lemma ltpc_read:
  assumes "list_all wf_float (ltpc_floats l)" and "fields_from_ltpc l sel (bp, bs, ap, as) v oi depth ps = Inr a"
  shows "reads (lt_ltp l) (Some (af_last_price a)) \<and> af_last_size a = lt_ltq l
    \<and> epoch_milliseconds (lt_ltt l) True = Inr (af_last_trade_at a) \<and> reads (lt_cp l) (Some (af_previous_close_price a))"
proof -
  obtain lp n t cp where "provider_double_to_price (lt_ltp l) = Inr lp" "reported_quantity (lt_ltq l) = Inr n"
    "epoch_milliseconds (lt_ltt l) True = Inr t" "provider_double_to_price (lt_cp l) = Inr cp"
    "af_last_price a = lp" "af_last_size a = n" "af_last_trade_at a = t" "af_previous_close_price a = cp"
    using assms(2) by (auto simp: fields_from_ltpc_def rbind_eq_Inr)
  then show ?thesis using assms(1) price_reads quantity_range by (auto simp: ltpc_floats_def)
qed

lemma level_read:
  assumes "list_all wf_float (optional_floats level_floats x)" and "top_of_book x = Inr (bp, bs, ap, as)"
  shows "case x of None \<Rightarrow> bp = None \<and> bs = None \<and> ap = None \<and> as = None
    | Some v \<Rightarrow> reads (ql_bid_p v) bp \<and> bs = Some (ql_bid_q v) \<and> reads (ql_ask_p v) ap \<and> as = Some (ql_ask_q v)"
proof (cases x)
  case None
  then show ?thesis using assms(2) by (simp add: top_of_book_def)
next
  case (Some v)
  then obtain p n q m where "provider_double_to_price (ql_bid_p v) = Inr p" "reported_quantity (ql_bid_q v) = Inr n"
    "provider_double_to_price (ql_ask_p v) = Inr q" "reported_quantity (ql_ask_q v) = Inr m"
    "bp = Some p" "bs = Some n" "ap = Some q" "as = Some m"
    using assms(2) by (auto simp: top_of_book_def rbind_eq_Inr)
  then show ?thesis
    using assms(1) price_reads quantity_range by (auto simp: Some level_floats_def optional_floats_def)
qed

lemma first_level_read:
  assumes "list_all wf_float (union_floats (FirstLevelFeed f))" and "adopt_first_level f mode kind = Inr a"
  shows "fields_read (FirstLevelFeed f) a"
proof -
  obtain l bp bs ap as v oi where l: "ff_ltpc f = Some l" and book: "top_of_book (ff_first_depth f) = Inr (bp, bs, ap, as)"
    and v: "reported_quantity (ff_vtt f) = Inr v" and oi: "reported_open_interest (ff_oi f) = Inr oi"
    and a: "fields_from_ltpc l UnionFirstLevel (bp, bs, ap, as) (Some v) (Some oi)
       (if ff_first_depth f \<noteq> None then 1 else 0) (first_level_present_paths f) = Inr a"
    using assms(2) by (auto simp: adopt_first_level_def require_ltpc_def result_simps)
  have wf: "list_all wf_float (ltpc_floats l)" "list_all wf_float (optional_floats level_floats (ff_first_depth f))"
    using assms(1) by (simp_all add: optional_floats_def l)
  show ?thesis
    using ltpc_read [OF wf(1) a] level_read [OF wf(2) book] fields_ok [OF a] quantity_range [OF v] open_interest_reads [OF oi] l
    by (auto simp: fields_read_def split: option.splits)
qed

lemma market_read:
  assumes "list_all wf_float (union_floats (FullFeed (MarketFF m)))" and "adopt_market_full m mode kind = Inr a"
  shows "fields_read (FullFeed (MarketFF m)) a"
proof -
  obtain l bp bs ap as v oi where l: "require_ltpc (mf_ltpc m) = Inr l" and book: "top_of_book (best_level m) = Inr (bp, bs, ap, as)"
    and v: "reported_quantity (mf_vtt m) = Inr v" and oi: "reported_open_interest (mf_oi m) = Inr oi"
    and a: "fields_from_ltpc l UnionMarketFull (bp, bs, ap, as) (Some v) (Some oi) (int (market_level_count m))
       (sort (market_present_paths m)) = Inr a"
    using assms(2) unfolding adopt_market_full_def Let_def rbind_eq_Inr guard_eq_Inr best_level_def by auto
  have l: "mf_ltpc m = Some l" using l by (cases "mf_ltpc m") (simp_all add: require_ltpc_def)
  have wf: "list_all wf_float (ltpc_floats l)" "list_all wf_float (optional_floats level_floats (best_level m))"
    using assms(1) by (simp_all add: optional_floats_def l)
  show ?thesis
    using ltpc_read [OF wf(1) a] level_read [OF wf(2) book] fields_ok [OF a] quantity_range [OF v] open_interest_reads [OF oi] l
    by (auto simp: fields_read_def split: option.splits)
qed

lemma adopted_read:
  assumes "list_all wf_float (union_floats u)" and "adopt_fields u mode kind = Inr a"
  shows "fields_read u a"
proof (cases u)
  case (LtpcFeed l)
  then have a: "fields_from_ltpc l UnionLtpc (None, None, None, None) None None 0 [] = Inr a"
    using assms(2) by (auto simp: result_simps)
  show ?thesis using ltpc_read [OF _ a] fields_ok [OF a] assms(1) by (simp add: fields_read_def LtpcFeed)
next
  case (FirstLevelFeed f)
  then show ?thesis using first_level_read assms by simp
next
  case (FullFeed full)
  show ?thesis
  proof (cases full)
    case (IndexFF x)
    then obtain l where l: "xf_ltpc x = Some l"
      and a: "fields_from_ltpc l UnionIndexFull (None, None, None, None) None None 0 (index_present_paths x) = Inr a"
      using assms(2) by (auto simp: FullFeed adopt_index_full_def require_ltpc_def result_simps)
    show ?thesis
      using ltpc_read [OF _ a] fields_ok [OF a] assms(1) l by (simp add: fields_read_def FullFeed IndexFF optional_floats_def)
  next
    case (MarketFF m)
    then show ?thesis using market_read assms by (auto simp: FullFeed result_simps)
  next
    case NoFullFeed
    then show ?thesis using assms(2) by (simp add: FullFeed result_simps)
  qed
next
  case NoFeed
  then show ?thesis using assms(2) by simp
qed

section \<open>The quotes of a frame\<close>

definition feed_floats_ok :: "feed_response \<Rightarrow> bool" where
  "feed_floats_ok r \<longleftrightarrow> (\<forall>(k, f) \<in> set (rp_feeds r). list_all wf_float (union_floats (fe_union f)))"

lemma feed_floats_at: "feed_floats_ok r \<Longrightarrow> list_all wf_float (union_floats (fe_union (feed_at r k)))"
  by (auto simp: feed_floats_ok_def feed_at_def split: option.splits dest: map_of_SomeD)

lemma key_of_value:
  "(\<And>j q. R j q \<Longrightarrow> key q = j) \<Longrightarrow> (\<exists>q. (\<exists>j \<in> S. R j q) \<and> key q = k) \<longleftrightarrow> k \<in> S \<and> (\<exists>q. R k q)"
  by metis

lemma converted_iff:
  assumes "list_all wf_float (union_floats (fe_union fe))"
  shows "(\<exists>ma. converted_fields fe kind = Inr ma) \<longleftrightarrow>
    (\<exists>mode. request_mode_of (fe_request_mode fe) = Some mode \<and> acceptable (fe_union fe) mode kind)"
  using adopt_accepted [OF assms]
  by (cases "request_mode_of (fe_request_mode fe)") (auto simp: converted_fields_def result_bind simp del: split_paired_Ex)

lemma quotes_of_draft:
  assumes frame: "make_raw_frame sha256 f0 = Inr frame" and decoded: "decode_upstox_v3_frame parse frame = Inr d"
    and feed: "df_response_type d \<noteq> MARKET_INFO" and map_keys: "distinct (map fst (rp_feeds (df_response d)))"
    and batch: "answers sha256 ''upstox'' (df_provider_contract_keys d) market known b"
    and draft: "normalize_upstox_v3_frame sha256 d frame (Some b) = Inr draft"
  shows "\<exists>rt t. response_type_of (df_response_type d) = Inr rt
    \<and> quote_context sha256 d frame b rt t (secondary_payload_paths d)
    \<and> (\<forall>q. QuoteEvent q \<in> set (fd_accepted_events draft) \<longleftrightarrow>
      (\<exists>k \<in> fst ` set (rp_feeds (df_response d)).
         entry_outcome sha256 d frame b rt t (secondary_payload_paths d) k = Inr q))"
proof -
  let ?ks = "df_provider_contract_keys d"
  have usable: "usable_batch sha256 b" using batch by (auto simp: answers_def usable_batch_def list_all_iff)
  obtain rt t where rt: "response_type_of (df_response_type d) = Inr rt"
    and ctx: "quote_context sha256 d frame b rt t (secondary_payload_paths d)"
    and keys: "\<forall>k \<in> set ?ks. validate_provider_contract_key k = Inr k"
    and ks: "?ks = sort (map fst (rp_feeds (df_response d)))"
    by (rule made_quote_context [OF frame decoded feed usable])
  have "distinct ?ks" using map_keys by (simp add: ks)
  from quotes_normalized [OF ctx keys this rt] draft have
    "fd_accepted_events draft = sort_key event_order_key (map QuoteEvent
      (accepted_quotes (entry_outcome sha256 d frame b rt t (secondary_payload_paths d)) ?ks))"
    by (metis sum.inject(2))
  then have "QuoteEvent q \<in> set (fd_accepted_events draft) \<longleftrightarrow>
      (\<exists>k \<in> fst ` set (rp_feeds (df_response d)).
         entry_outcome sha256 d frame b rt t (secondary_payload_paths d) k = Inr q)" for q
    using accepted_quotes_set [of q] by (simp add: image_iff ks)
  then show ?thesis using rt ctx by blast
qed

lemma accepted_exact:
  assumes frame: "make_raw_frame sha256 f0 = Inr frame" and decoded: "decode_upstox_v3_frame parse frame = Inr d"
    and feed: "df_response_type d \<noteq> MARKET_INFO" and map_keys: "distinct (map fst (rp_feeds (df_response d)))"
    and batch: "answers sha256 ''upstox'' (df_provider_contract_keys d) market known b"
    and draft: "normalize_upstox_v3_frame sha256 d frame (Some b) = Inr draft"
    and floats: "feed_floats_ok (df_response d)"
  shows "(\<exists>q. QuoteEvent q \<in> set (fd_accepted_events draft) \<and> qn_provider_contract_key q = k) \<longleftrightarrow>
    k \<in> fst ` set (rp_feeds (df_response d))
    \<and> (\<exists>s mode. subject_for b k = Some s
         \<and> request_mode_of (fe_request_mode (feed_at (df_response d) k)) = Some mode
         \<and> acceptable (fe_union (feed_at (df_response d) k)) mode (rs_instrument_kind s))"
proof -
  obtain rt t where ctx: "quote_context sha256 d frame b rt t (secondary_payload_paths d)"
    and quotes: "QuoteEvent q \<in> set (fd_accepted_events draft) \<longleftrightarrow>
      (\<exists>k \<in> fst ` set (rp_feeds (df_response d)).
         entry_outcome sha256 d frame b rt t (secondary_payload_paths d) k = Inr q)" for q
    using quotes_of_draft [OF frame decoded feed map_keys batch draft] by blast
  have own: "qn_provider_contract_key q = j"
    if "entry_outcome sha256 d frame b rt t (secondary_payload_paths d) j = Inr q" for j q
    using outcome_quote [OF ctx that] by blast
  have "failure_for b k = None" if "subject_for b k = Some s" for s
    using batch_outcome(3,4) [of "rb_resolved b" "rb_failures b" b k] batch that by (auto simp: answers_def)
  then have known: "(\<exists>q. entry_outcome sha256 d frame b rt t (secondary_payload_paths d) k = Inr q) \<longleftrightarrow>
    (\<exists>s. subject_for b k = Some s \<and> (\<exists>ma. converted_fields (feed_at (df_response d) k) (rs_instrument_kind s) = Inr ma))"
    by (auto simp: entry_outcome_def simp del: split_paired_Ex split: option.splits sum.splits)
  have "(\<exists>q. QuoteEvent q \<in> set (fd_accepted_events draft) \<and> qn_provider_contract_key q = k) \<longleftrightarrow>
    k \<in> fst ` set (rp_feeds (df_response d))
    \<and> (\<exists>q. entry_outcome sha256 d frame b rt t (secondary_payload_paths d) k = Inr q)"
    unfolding quotes by (rule key_of_value) (rule own)
  then show ?thesis
    unfolding known converted_iff [OF feed_floats_at [OF floats]] by blast
qed

lemma quote_reads:
  assumes frame: "make_raw_frame sha256 f0 = Inr frame" and decoded: "decode_upstox_v3_frame parse frame = Inr d"
    and feed: "df_response_type d \<noteq> MARKET_INFO" and map_keys: "distinct (map fst (rp_feeds (df_response d)))"
    and batch: "answers sha256 ''upstox'' (df_provider_contract_keys d) market known b"
    and draft: "normalize_upstox_v3_frame sha256 d frame (Some b) = Inr draft"
    and floats: "feed_floats_ok (df_response d)"
    and quote: "QuoteEvent q \<in> set (fd_accepted_events draft)"
  shows "\<exists>a. subject_for b (qn_provider_contract_key q) = Some (qn_subject q)
    \<and> fields_read (fe_union (feed_at (df_response d) (qn_provider_contract_key q))) a
    \<and> qn_bid_price q = map_option Finite (af_bid_price a) \<and> qn_bid_size q = af_bid_size a
    \<and> qn_ask_price q = map_option Finite (af_ask_price a) \<and> qn_ask_size q = af_ask_size a
    \<and> qn_last_price q = Some (Finite (af_last_price a)) \<and> qn_last_size q = Some (af_last_size a)
    \<and> qn_last_trade_at q = af_last_trade_at a
    \<and> qn_previous_close_price q = Some (Finite (af_previous_close_price a))
    \<and> qn_reported_volume q = af_reported_volume a \<and> qn_open_interest q = af_open_interest a
    \<and> qn_raw_event_id q = frame_id sha256 frame \<and> qn_is_snapshot q = (df_response_type d = INITIAL_FEED)"
proof -
  obtain rt t where rt: "response_type_of (df_response_type d) = Inr rt"
    and ctx: "quote_context sha256 d frame b rt t (secondary_payload_paths d)"
    and quotes: "QuoteEvent q \<in> set (fd_accepted_events draft) \<longleftrightarrow>
      (\<exists>k \<in> fst ` set (rp_feeds (df_response d)).
         entry_outcome sha256 d frame b rt t (secondary_payload_paths d) k = Inr q)" for q
    using quotes_of_draft [OF frame decoded feed map_keys batch draft] by blast
  then obtain k where "entry_outcome sha256 d frame b rt t (secondary_payload_paths d) k = Inr q"
    using quote by blast
  from outcome_quote [OF ctx this] obtain s ma where s: "subject_for b k = Some s"
    and ma: "converted_fields (feed_at (df_response d) k) (rs_instrument_kind s) = Inr ma"
    and q: "q = quote_for sha256 frame s rt t (secondary_payload_paths d) ma" and k: "qn_provider_contract_key q = k" .
  obtain mode a where pair: "ma = (mode, a)" by fastforce
  have "fields_read (fe_union (feed_at (df_response d) k)) a"
    using converted_ok [OF ma [unfolded pair]] adopted_read [OF feed_floats_at [OF floats]] by blast
  moreover have "rt = InitialFeed \<longleftrightarrow> df_response_type d = INITIAL_FEED"
    using rt by (auto simp: response_type_of_def INITIAL_FEED_def LIVE_FEED_def MARKET_INFO_def result_simps
        split: if_splits)
  ultimately show ?thesis
    using s k by (intro exI [of _ a]) (simp add: q quote_for_def assemble_quote_def pair)
qed

end
