(* ===== verification/FrameServiceProperties.thy ===== *)
theory FrameServiceProperties
  imports FrameService EntryAcceptance
begin

text \<open>
  \<open>app/services/market_frame_normalization_service.py\<close> as a whole: with any resolver that serves the port
  the service answers every frame of the adopted schema with one validated result. The resolver is the
  locale \<open>subject_resolver\<close>; the properties are its lemmas for the static resolver.
\<close>

section \<open>Payloads that can be hashed\<close>

definition hashable :: "py_value \<Rightarrow> bool" where
  "hashable v \<longleftrightarrow> (\<exists>j. normalize v = Inr j)"

lemma hashable_simps [simp]:
  "hashable PNone" "hashable (PBool p)" "hashable (PStr s)" "hashable (PInt n)" "hashable (PDecimal x)" "hashable (PDate y)"
  "hashable (PDateTime t) \<longleftrightarrow> tz_aware t"
  "hashable (PList vs) \<longleftrightarrow> (\<forall>v \<in> set vs. hashable v)"
  by (auto simp: hashable_def guard_def rmap_eq_map rbind_eq_Inr)

lemma hashable_dict [simp]: "hashable (str_dict kvs) \<longleftrightarrow> (\<forall>(k, v) \<in> set kvs. hashable v)"
proof -
  have "hashable (str_dict kvs) \<longleftrightarrow>
      (\<exists>items. rmap (\<lambda>kv. rbind (normalize (snd kv)) (\<lambda>v. rbind (string_key (fst kv)) (\<lambda>k. Inr (k, v))))
        (map (\<lambda>(k, v). (StrKey k, v)) kvs) = Inr items)"
    by (auto simp: hashable_def str_dict_def rbind_eq_Inr rmap_eq_map split: prod.splits)
  also have "\<dots> \<longleftrightarrow> (\<forall>(k, v) \<in> set kvs. hashable v)"
    by (auto simp: rmap_eq_map hashable_def rbind_eq_Inr split: prod.splits) 
  finally show ?thesis .
qed

lemma hashable_optional [simp]:
  "hashable (optional_value f x) \<longleftrightarrow> (\<forall>y. x = Some y \<longrightarrow> hashable (f y))" "hashable (optional_text s)"
  "hashable (optional_time t) \<longleftrightarrow> pred_option tz_aware t" "hashable (text_tuple ss)"
  by (auto simp: optional_value_def optional_text_def optional_time_def text_tuple_def split: option.splits)

lemma stable_hash_total: "(\<exists>h. stable_hash sha256 v = Inr h) \<longleftrightarrow> hashable v"
  by (auto simp: stable_hash_def canonical_json_def hashable_def rbind_eq_Inr)

lemma aware_times: "in_utc t \<Longrightarrow> tz_aware t"
  by (cases t) (auto simp: in_utc_def)

lemma hashable_economy: "hashable (economic_identity_payload e)"
  by (cases e) simp_all

lemma hashable_subject:
  assumes "valid_subject sha256 s"
  shows "hashable (subject_payload s)"
proof -
  have made: "make_subject sha256 s = Inr s" by (rule valid_subjectD [OF assms])
  note ids = subject_facts(7,8) [OF made]
  have "hashable (provider_mapping_payload (rs_provider_mapping s))"
    using assms ids(1) stable_hash_total [of sha256]
    by (force simp: provider_mapping_payload_def valid_subject_def mapping_id_def Let_def)
  moreover have "hashable (contract_version_payload (rs_contract_version s))"
    using assms ids(2) stable_hash_total [of sha256]
    by (force simp: contract_version_payload_def valid_subject_def version_id_def Let_def)
  ultimately show ?thesis
    using make_subject_made(2,3) [OF made] by (simp add: subject_payload_def hashable_economy aware_times)
qed

lemma hashable_failure: "hashable (failure_payload f)" "hashable (adopted_failure_payload f)"
  by (simp_all add: failure_payload_def adopted_failure_payload_def)

lemma hashable_identity: "hashable (identity_payload i)" "hashable (raw_identity_fields f)"
  by (simp_all add: identity_payload_def raw_identity_fields_def)

text \<open>Events whose payloads can be hashed.\<close>

definition sound_event :: "market_observation \<Rightarrow> bool" where
  "sound_event e \<longleftrightarrow> hashable (observation_payload e) \<and> hashable (adopted_event_payload e)"

lemma sound_quote:
  assumes "valid_frame frame" and "valid_subject sha256 s" and "in_utc t" and "adopted_ok u mode kind a"
  shows "sound_event (QuoteEvent (assemble_quote frame s rt mode a raw_id i (frame_event_time frame t) secondary))"
proof -
  have "hashable (event_time_payload (frame_event_time frame t))"
    using assms(1,3) by (auto simp: event_time_payload_def frame_event_time_def valid_frame_def aware_times split: option.splits)
  moreover have "tz_aware t" "\<forall>y. af_last_trade_at a = Some y \<longrightarrow> tz_aware y"
    using assms(3,4) by (auto simp: adopted_ok_def aware_times)
  ultimately show ?thesis
    using hashable_subject [OF assms(2)] hashable_identity
    by (auto simp: sound_event_def assemble_quote_def frame_event_time_def)
qed

section \<open>Segment statuses\<close>

lemma status_normalized:
  assumes frame: "valid_frame frame" and segment: "validate_market_segment segment = Inr segment" and time: "in_utc t"
  shows "\<exists>m. normalize_status sha256 d frame t segment = Inr m \<and> sound_event (StatusEvent m)"
proof -
  have f: "fr_provider (rf_identity frame) = ''upstox''" "strip (fr_source_order_scope_id (rf_identity frame)) \<noteq> []"
    "utf8_length (fr_source_order_scope_id (rf_identity frame)) \<le> MAX_OPAQUE_IDENTIFIER_BYTES"
    "0 \<le> fr_source_order (rf_identity frame)" "fr_source_order (rf_identity frame) \<le> MAX_SOURCE_ORDER"
    "in_utc (rf_available_at frame)" "in_utc (rf_recorded_at frame)" "\<not> earlier (rf_recorded_at frame) (rf_available_at frame)"
    "case rf_received_at frame of None \<Rightarrow> True | Some r \<Rightarrow> in_utc r \<and> \<not> earlier (rf_available_at frame) r"
    using frame unfolding valid_frame_def by blast+
  have upstox: "strip ''upstox'' \<noteq> []" "utf8_length ''upstox'' \<le> MAX_OPAQUE_IDENTIFIER_BYTES"
    by (simp_all add: strip_eq_Nil is_space_def utf8_length_def MAX_OPAQUE_IDENTIFIER_BYTES_def)
  have seg: "strip segment \<noteq> []" "segment \<noteq> []"
    using segment by (auto simp: validate_market_segment_def validate_provider_identifier_def result_simps Let_def strip_def)
  obtain subject where subject: "market_segment_status_subject_id sha256 ''upstox'' segment = Inr subject" "subject \<noteq> []"
    using segment upstox
    by (auto simp: market_segment_status_subject_id_def segment_subject_payload_def validate_opaque_identifier_def
        stable_hash_def canonical_json_def str_dict_def guard_def)
  have "SEGMENT_STATUS_EVENT_TYPE \<noteq> []" by (simp add: SEGMENT_STATUS_EVENT_TYPE_def)
  from make_normalized_identity_total [OF frame_id_nonempty this subject(2)] obtain i where
    i: "make_normalized_identity sha256 (frame_id sha256 frame) SEGMENT_STATUS_EVENT_TYPE subject NORMALIZATION_SCHEMA_VERSION = Inr i"
    "ne_raw_event_id i = frame_id sha256 frame" "ne_event_type i = SEGMENT_STATUS_EVENT_TYPE" "ne_subject_id i = subject"
    "ne_schema_version i = NORMALIZATION_SCHEMA_VERSION" .
  let ?n = "status_at (df_response d) segment"
  let ?name = "case market_status_name ?n of Some name \<Rightarrow> name | None \<Rightarrow> ''UNKNOWN''"
  let ?m = "\<lparr>ms_identity = i, ms_raw_event_id = frame_id sha256 frame, ms_provider = ''upstox'', ms_segment = segment,
         ms_status_name = ?name, ms_status_numeric = ?n, ms_status_is_known = (market_status_name ?n \<noteq> None),
         ms_provider_timestamp = t, ms_received_at = rf_received_at frame,
         ms_available_at = rf_available_at frame, ms_recorded_at = rf_recorded_at frame,
         ms_source_order_scope_id = fr_source_order_scope_id (rf_identity frame),
         ms_source_order = fr_source_order (rf_identity frame), ms_schema_version = NORMALIZATION_SCHEMA_VERSION,
         ms_implementation_version = NORMALIZER_IMPLEMENTATION_VERSION\<rparr>"
  have name: "?name \<noteq> []" by (auto simp: market_status_name_def split: if_splits)
  have received: "optional_utc (rf_received_at frame) n = Inr (rf_received_at frame)" for n
    using f(9) by (auto split: option.splits)
  have "make_segment_status sha256 ?m = Inr ?m"
    unfolding make_segment_status_def segment_status.select_convs subject(1) received
    using f upstox seg name i segment time
    by (simp add: require_text_def validate_opaque_identifier_def validate_source_order_def guard_def split: option.splits)
  then have "normalize_status sha256 d frame t segment = Inr ?m"
    by (simp add: normalize_status_def f(1) subject(1) frame_raw_event_id_total i(1) Let_def)
  moreover have "sound_event (StatusEvent ?m)"
    using f time hashable_identity by (auto simp: sound_event_def aware_times split: option.splits)
  ultimately show ?thesis by blast
qed

lemma statuses_normalized:
  assumes "valid_frame frame" and "well_decoded d" and "df_response_type d = MARKET_INFO"
  obtains ms where "normalize_statuses sha256 d frame = Inr ms" and "\<forall>m \<in> set ms. sound_event (StatusEvent m)"
    and "length ms = length (df_status_segments d)"
proof -
  obtain t where t: "epoch_milliseconds (rp_current_ts (df_response d)) False = Inr (Some t)"
    using assms(2) by (auto simp: well_decoded_def)
  then have "in_utc t" by (rule timestamp_utc)
  then have each: "\<exists>m. normalize_status sha256 d frame t segment = Inr m \<and> sound_event (StatusEvent m)"
    if "segment \<in> set (df_status_segments d)" for segment
    using status_normalized [OF assms(1)] that assms(2,3) by (auto simp: well_decoded_def)
  then obtain ms where run: "rmap (normalize_status sha256 d frame t) (df_status_segments d) = Inr ms"
    by (metis rmap_eq_map)
  have "sound_event (StatusEvent m)" if "m \<in> set ms" for m
    using rmap_set [OF run that] each by fastforce
  then show thesis using that [of ms] run t rmap_length [OF run] by (simp add: normalize_statuses_def)
qed

section \<open>Building a result\<close>

lemma provenance_made:
  assumes "valid_frame frame" and "canonical_sha256 (''sha256:'' @ rf_provider_schema_sha256 frame)"
  obtains p where "provenance_of frame = Inr p" and "hashable (provenance_payload p)"
proof -
  let ?p = "\<lparr>cp_provider_schema_sha256 = ''sha256:'' @ rf_provider_schema_sha256 frame,
        cp_received_at = rf_received_at frame, cp_available_at = rf_available_at frame,
        cp_recorded_at = rf_recorded_at frame, cp_capture_basis = rf_capture_basis frame,
        cp_source_file_id = rf_source_file_id frame, cp_source_record_id = rf_source_record_id frame\<rparr>"
  have f: "in_utc (rf_available_at frame)" "in_utc (rf_recorded_at frame)" "\<not> earlier (rf_recorded_at frame) (rf_available_at frame)"
    "case rf_received_at frame of None \<Rightarrow> True | Some r \<Rightarrow> in_utc r \<and> \<not> earlier (rf_available_at frame) r"
    "rf_received_at frame = (if rf_capture_basis frame = HistoricalImportCapture then None else Some (rf_available_at frame))"
    "(rf_source_file_id frame = None) = (rf_source_record_id frame = None)"
    "\<not> optional_blank (rf_source_file_id frame)" "\<not> optional_blank (rf_source_record_id frame)"
    using assms(1) by (auto simp: valid_frame_def optional_blank_def split: option.splits)
  have received: "optional_utc (rf_received_at frame) n = Inr (rf_received_at frame)" for n
    using f(4) by (auto split: option.splits)
  have "make_capture_provenance ?p = Inr ?p"
    unfolding make_capture_provenance_def capture_provenance.select_convs received
    using f assms(2) by (cases "rf_capture_basis frame") (auto simp: guard_def simp del: append.simps)
  moreover have "hashable (provenance_payload ?p)"
    using f by (auto simp: provenance_payload_def aware_times split: option.splits)
  ultimately show thesis using that by (simp add: provenance_of_def)
qed

text \<open>What a caller of \<open>build_result\<close> provides.\<close>

definition result_parts_ok ::
  "market_observation list \<Rightarrow> normalization_failure option \<Rightarrow> normalization_failure list \<Rightarrow> string list \<Rightarrow> string list
   \<Rightarrow> string list \<Rightarrow> int \<Rightarrow> bool" where
  "result_parts_ok events ff fails unadopted present secondary n \<longleftrightarrow>
     list_all sound_event events \<and> distinct (map observation_id events)
     \<and> (case ff of None \<Rightarrow> n = int (length events) + failed_entry_scope_count fails
        | Some f \<Rightarrow> nf_scope f = FrameScope \<and> events = [] \<and> fails = [] \<and> 0 \<le> n)
     \<and> list_all (\<lambda>f. nf_scope f = SubjectScope) fails
     \<and> sorted_wrt (<) unadopted \<and> sorted_wrt (<) present \<and> sorted_wrt (<) secondary"

lemma result_built:
  assumes frame: "valid_frame frame" and schema: "canonical_sha256 (''sha256:'' @ rf_provider_schema_sha256 frame)"
    and parts: "result_parts_ok events ff fails unadopted present secondary n"
  obtains r where "build_result sha256 frame rt events ff fails unadopted present secondary n = Inr r"
    and "make_frame_result sha256 r = Inr r" and "nr_raw_frame_identity r = rf_identity frame"
    and "nr_frame_failure r = ff" and "nr_accepted_events r = events" and "nr_entry_failures r = fails"
    and "nr_decoded_entry_count r = n" and "nr_response_type r = rt"
    and "nr_frame_content_hash r = rf_frame_content_hash frame"
proof -
  obtain p where p: "provenance_of frame = Inr p" "hashable (provenance_payload p)"
    by (rule provenance_made [OF frame schema])
  have sound: "hashable (observation_payload e)" "hashable (adopted_event_payload e)" if "e \<in> set events" for e
    using parts that by (auto simp: result_parts_ok_def list_all_iff sound_event_def)
  obtain h where h: "adopted_semantics_hash sha256 events ff fails = Inr h"
    using sound hashable_failure stable_hash_total [of sha256] unfolding adopted_semantics_hash_def by fastforce
  define r where "r = \<lparr>nr_raw_frame_identity = rf_identity frame, nr_frame_content_hash = rf_frame_content_hash frame,
              nr_capture_provenance = p, nr_status = expected_status events ff fails, nr_response_type = rt,
              nr_accepted_events = events, nr_frame_failure = ff, nr_entry_failures = fails,
              nr_unadopted_schema_paths = unadopted, nr_present_unadopted_message_paths = present,
              nr_secondary_payload_paths_present = secondary, nr_decoded_entry_count = n,
              nr_accepted_entry_count = int (length events),
              nr_failed_entry_count = failed_entry_scope_count fails, nr_full_result_hash = '''',
              nr_adopted_semantics_hash = h\<rparr>"
  have "hashable (full_hash_projection r)"
    using sound hashable_failure hashable_identity p(2) by (auto simp: full_hash_projection_def r_def)
  then obtain g where g: "full_result_hash sha256 r = Inr g"
    using stable_hash_total [of sha256] unfolding full_result_hash_def by blast
  define r' where "r' = r\<lparr>nr_full_result_hash := g\<rparr>"
  have g': "full_result_hash sha256 r' = Inr g"
    using g by (simp add: r'_def full_result_hash_def full_hash_projection_def)
  have fields: "nr_decoded_entry_count r' = n" "nr_accepted_entry_count r' = int (length events)"
    "nr_failed_entry_count r' = failed_entry_scope_count fails" "nr_accepted_events r' = events" "nr_entry_failures r' = fails"
    "nr_frame_failure r' = ff" "nr_status r' = expected_status events ff fails" "nr_unadopted_schema_paths r' = unadopted"
    "nr_present_unadopted_message_paths r' = present" "nr_secondary_payload_paths_present r' = secondary"
    "nr_adopted_semantics_hash r' = h" "nr_full_result_hash r' = g" "nr_raw_frame_identity r' = rf_identity frame"
    "nr_response_type r' = rt" "nr_frame_content_hash r' = rf_frame_content_hash frame"
    by (simp_all add: r'_def r_def)
  have paths: "sorted_unique unadopted = unadopted" "sorted_unique present = present" "sorted_unique secondary = secondary"
    using parts by (simp_all add: result_parts_ok_def sorted_unique_fixed)
  have counts: "0 \<le> n" "0 \<le> failed_entry_scope_count fails"
    using parts by (auto simp: result_parts_ok_def failed_entry_scope_count_def split: option.splits)
  have made: "make_frame_result sha256 r' = Inr r'"
    unfolding make_frame_result_def g' fields h
    using parts paths counts
    by (cases ff) (auto simp: result_parts_ok_def guard_def list_ex_iff list_all_iff)
  have "build_result sha256 frame rt events ff fails unadopted present secondary n = Inr r'"
    using made g unfolding build_result_def h p(1) rbind_Inr Let_def r_def [symmetric] r'_def by simp
  then show thesis using made fields by (intro that)
qed

section \<open>Failures of a frame\<close>

definition DECODE_CODES :: "string list" where
  "DECODE_CODES =
     [''protobuf_decode_failed'', ''unsupported_response_type'', ''missing_provider_timestamp'', ''invalid_provider_timestamp'',
      ''too_many_feeds'', ''too_many_status_segments'', ''empty_primary_payload'', ''invalid_market_segment'',
      ''invalid_provider_contract_key'']"

lemma frame_codes_controlled:
  "list_all (\<lambda>r. strip r \<noteq> [] \<and> controlled_code r) (''duplicate_normalized_identity'' # DECODE_CODES)"
  by code_simp

lemma frame_failure_made:
  assumes "reason \<in> set (''duplicate_normalized_identity'' # DECODE_CODES)"
  obtains f where "frame_failure_for reason = Inr f" and "nf_scope f = FrameScope" and "nf_reason_code f = reason"
proof -
  have "strip reason \<noteq> []" "controlled_code reason"
    using frame_codes_controlled assms unfolding list_all_iff by blast+
  moreover have "sorted_unique ([] :: string list) = []" by (simp add: sorted_unique_def)
  ultimately have "\<exists>f. frame_failure_for reason = Inr f \<and> nf_scope f = FrameScope \<and> nf_reason_code f = reason"
    by (simp add: frame_failure_for_def make_normalization_failure_def optional_blank_def
        check_failure_paths_def check_failure_scope_def guard_def)
  then show thesis using that by blast
qed

lemma decode_codes:
  assumes "decode_upstox_v3_frame parse frame = Inl e"
  shows "de_code e \<in> set DECODE_CODES \<and> (\<forall>n. de_response_type e = Some n \<longrightarrow> (\<exists>rt. response_type_of n = Inr rt))"
proof -
  have known: "\<exists>rt. response_type_of n = Inr rt" if "n \<in> {INITIAL_FEED, LIVE_FEED, MARKET_INFO}" for n
    using that by (auto simp: response_type_of_def INITIAL_FEED_def LIVE_FEED_def MARKET_INFO_def)
  show ?thesis
  proof (cases "parse (rf_frame_bytes frame)")
    case None
    then have "e = decode_error ''protobuf_decode_failed''"
      using assms unfolding decode_upstox_v3_frame_def by (simp split: if_splits)
    then show ?thesis by (simp add: DECODE_CODES_def decode_error_def)
  next
    case (Some response)
    have "e \<in> decode_error ` set DECODE_CODES \<or> (rp_type response \<in> {INITIAL_FEED, LIVE_FEED, MARKET_INFO}
        \<and> de_response_type e = Some (rp_type response) \<and> de_code e \<in> set DECODE_CODES)"
      using assms unfolding decode_upstox_v3_frame_def Let_def Some option.case
      by (simp add: DECODE_CODES_def split: if_splits) auto
    then show ?thesis using known by (auto simp: decode_error_def)
  qed
qed

section \<open>Drafts\<close>

definition draft_ok :: "frame_draft \<Rightarrow> bool" where
  "draft_ok x \<longleftrightarrow> list_all sound_event (fd_accepted_events x)
     \<and> fd_decoded_entry_count x = int (length (fd_accepted_events x)) + failed_entry_scope_count (fd_entry_failures x)
     \<and> list_all (\<lambda>f. nf_scope f = SubjectScope) (fd_entry_failures x)
     \<and> sorted_wrt (<) (fd_unadopted_schema_paths x) \<and> sorted_wrt (<) (fd_present_unadopted_message_paths x)
     \<and> sorted_wrt (<) (fd_secondary_payload_paths_present x)"

text \<open>A result of a frame: validated, about this frame, and either without a failure of the frame or with
  the given one and nothing else.\<close>

definition result_of :: "(string \<Rightarrow> string) \<Rightarrow> raw_frame \<Rightarrow> frame_result \<Rightarrow> bool" where
  "result_of sha256 frame r \<longleftrightarrow> make_frame_result sha256 r = Inr r \<and> nr_raw_frame_identity r = rf_identity frame
     \<and> nr_frame_content_hash r = rf_frame_content_hash frame"

definition failed_with :: "string \<Rightarrow> frame_result \<Rightarrow> bool" where
  "failed_with reason r \<longleftrightarrow> nr_accepted_events r = [] \<and> nr_entry_failures r = []
     \<and> (\<exists>f. nr_frame_failure r = Some f \<and> nf_reason_code f = reason)"

lemma failed_result:
  assumes "valid_frame frame" and "canonical_sha256 (''sha256:'' @ rf_provider_schema_sha256 frame)"
    and "nf_scope f = FrameScope" and "0 \<le> n"
    and "sorted_wrt (<) unadopted" and "sorted_wrt (<) present" and "sorted_wrt (<) secondary"
  shows "\<exists>r. build_result sha256 frame rt [] (Some f) [] unadopted present secondary n = Inr r
    \<and> result_of sha256 frame r \<and> failed_with (nf_reason_code f) r \<and> nr_decoded_entry_count r = n"
proof -
  have "result_parts_ok [] (Some f) [] unadopted present secondary n" using assms by (simp add: result_parts_ok_def)
  from result_built [OF assms(1,2) this, of sha256 rt] show ?thesis
    unfolding result_of_def failed_with_def by metis
qed

lemma draft_finished:
  assumes "valid_frame frame" and "canonical_sha256 (''sha256:'' @ rf_provider_schema_sha256 frame)" and ok: "draft_ok x"
  shows "\<exists>r. finish_draft sha256 frame rt x = Inr r \<and> result_of sha256 frame r
    \<and> (if distinct (map observation_id (fd_accepted_events x))
       then nr_frame_failure r = None \<and> nr_accepted_events r = fd_accepted_events x
         \<and> nr_entry_failures r = fd_entry_failures x
       else failed_with ''duplicate_normalized_identity'' r \<and> 2 \<le> fd_decoded_entry_count x)
    \<and> nr_decoded_entry_count r = fd_decoded_entry_count x"
proof (cases "distinct (map observation_id (fd_accepted_events x))")
  case True
  then have "result_parts_ok (fd_accepted_events x) None (fd_entry_failures x) (fd_unadopted_schema_paths x)
      (fd_present_unadopted_message_paths x) (fd_secondary_payload_paths_present x) (fd_decoded_entry_count x)"
    using ok by (simp add: result_parts_ok_def draft_ok_def)
  from result_built [OF assms(1,2) this, of sha256 "Some rt"] obtain r where
    "build_result sha256 frame (Some rt) (fd_accepted_events x) None (fd_entry_failures x) (fd_unadopted_schema_paths x)
      (fd_present_unadopted_message_paths x) (fd_secondary_payload_paths_present x) (fd_decoded_entry_count x) = Inr r"
    "make_frame_result sha256 r = Inr r" "nr_raw_frame_identity r = rf_identity frame" "nr_frame_failure r = None"
    "nr_accepted_events r = fd_accepted_events x" "nr_entry_failures r = fd_entry_failures x"
    "nr_decoded_entry_count r = fd_decoded_entry_count x" "nr_frame_content_hash r = rf_frame_content_hash frame" .
  then show ?thesis using True by (simp add: finish_draft_def result_of_def)
next
  case False
  obtain f where f: "frame_failure_for ''duplicate_normalized_identity'' = Inr f" "nf_scope f = FrameScope"
    "nf_reason_code f = ''duplicate_normalized_identity''"
    by (rule frame_failure_made [of "''duplicate_normalized_identity''"]) simp_all
  have n: "0 \<le> fd_decoded_entry_count x" using ok by (simp add: draft_ok_def failed_entry_scope_count_def)
  have "\<exists>r. build_result sha256 frame (Some rt) [] (Some f) [] (fd_unadopted_schema_paths x)
      (fd_present_unadopted_message_paths x) (fd_secondary_payload_paths_present x) (fd_decoded_entry_count x) = Inr r
    \<and> result_of sha256 frame r \<and> failed_with (nf_reason_code f) r \<and> nr_decoded_entry_count r = fd_decoded_entry_count x"
    using ok by (intro failed_result assms(1,2) f(2) n) (simp_all add: draft_ok_def)
  moreover have "2 \<le> length (fd_accepted_events x)"
    using False by (cases "fd_accepted_events x" rule: remdups_adj.cases) auto
  then have "2 \<le> fd_decoded_entry_count x" using ok by (simp add: draft_ok_def failed_entry_scope_count_def)
  ultimately show ?thesis using False f by (simp add: finish_draft_def)
qed

text \<open>The outcomes of the entries of a frame: statuses of segments, or quotes and failures of keys.\<close>

definition all_accounted :: "decoded_frame \<Rightarrow> market_observation list \<Rightarrow> normalization_failure list \<Rightarrow> bool" where
  "all_accounted d events fails \<longleftrightarrow>
     (if df_response_type d = MARKET_INFO
      then fails = [] \<and> (\<exists>ms. events = map StatusEvent ms \<and> length ms = length (rp_segment_status (df_response d)))
      else \<exists>quotes. events = map QuoteEvent quotes
        \<and> (\<forall>f \<in> set fails. make_normalization_failure f = Inr f \<and> nf_scope f = SubjectScope)
        \<and> mset (map qn_provider_contract_key quotes) + mset (map (\<lambda>f. the (nf_provider_contract_key f)) fails)
          = mset (map fst (rp_feeds (df_response d))))"

lemma draft_counts:
  assumes "normalize_upstox_v3_frame sha256 d frame subjects = Inr x"
  shows "fd_decoded_entry_count x = int (length (fd_accepted_events x)) + failed_entry_scope_count (fd_entry_failures x)
    \<and> sorted_wrt (<) (fd_unadopted_schema_paths x) \<and> sorted_wrt (<) (fd_present_unadopted_message_paths x)
    \<and> sorted_wrt (<) (fd_secondary_payload_paths_present x)"
  using assms secondary_ok [of d] by (auto simp: normalize_upstox_v3_frame_def rbind_eq_Inr Let_def paths_ok_def)

lemma status_draft:
  assumes "valid_frame frame" and "well_decoded d" and "df_response_type d = MARKET_INFO"
  shows "\<exists>x. normalize_upstox_v3_frame sha256 d frame None = Inr x \<and> draft_ok x
    \<and> all_accounted d (fd_accepted_events x) (fd_entry_failures x)
    \<and> fd_decoded_entry_count x = int (length (rp_segment_status (df_response d)))"
proof -
  obtain ms where run: "normalize_statuses sha256 d frame = Inr ms" and sound: "\<forall>m \<in> set ms. sound_event (StatusEvent m)"
    and len: "length ms = length (df_status_segments d)"
    by (rule statuses_normalized [OF assms])
  have segs: "df_status_segments d = sort (map fst (rp_segment_status (df_response d)))"
    using assms(2) by (simp add: well_decoded_def)
  define ms' where "ms' = sort_key (\<lambda>m. event_order_key (StatusEvent m)) ms"
  have events: "sort_key event_order_key (map StatusEvent ms) = map StatusEvent ms'"
    unfolding ms'_def by (simp add: map_sort_key)
  have type: "response_type_of (df_response_type d) = Inr MarketInfoFeed" using assms(3) response_types(2) by simp
  have secondary: "sorted_wrt (<) (secondary_payload_paths d)" using secondary_ok by (simp add: paths_ok_def)
  have count: "failed_entry_scope_count [] = 0" by (simp add: failed_entry_scope_count_def List.map_filter_def)
  show ?thesis
    using sound secondary len segs assms(3)
    unfolding normalize_upstox_v3_frame_def type rbind_Inr Let_def run
    by (auto simp: events count draft_ok_def all_accounted_def list_all_iff ms'_def)
qed

lemma quote_sound:
  assumes "quote_context sha256 d frame b rt t secondary" and "entry_outcome sha256 d frame b rt t secondary key = Inr q"
  shows "sound_event (QuoteEvent q)"
proof -
  obtain s ma where s: "subject_for b key = Some s"
    and ma: "converted_fields (feed_at (df_response d) key) (rs_instrument_kind s) = Inr ma"
    and q: "q = quote_for sha256 frame s rt t secondary ma"
    using outcome_quote [OF assms] by blast
  obtain mode a where pair: "ma = (mode, a)" by fastforce
  have c: "valid_frame frame" "usable_batch sha256 b" "in_utc t" using assms(1) by (simp_all add: quote_context_def)
  show ?thesis
    unfolding q quote_for_def pair fst_conv snd_conv
    by (rule sound_quote [OF c(1) usable_subject(2) [OF c(2) s] c(3)]) (use converted_ok ma pair in blast)
qed

lemma feed_draft:
  assumes frame: "make_raw_frame sha256 f0 = Inr frame" and decoded: "decode_upstox_v3_frame parse frame = Inr d"
    and feed: "df_response_type d \<noteq> MARKET_INFO" and map_keys: "distinct (map fst (rp_feeds (df_response d)))"
    and batch: "answers sha256 ''upstox'' (df_provider_contract_keys d) market known b"
  shows "\<exists>x. normalize_upstox_v3_frame sha256 d frame (Some b) = Inr x \<and> draft_ok x
    \<and> all_accounted d (fd_accepted_events x) (fd_entry_failures x)
    \<and> fd_decoded_entry_count x = int (length (rp_feeds (df_response d)))"
proof -
  obtain x quotes where x: "normalize_upstox_v3_frame sha256 d frame (Some b) = Inr x"
    and events: "fd_accepted_events x = map QuoteEvent quotes"
    and fails: "\<forall>f \<in> set (fd_entry_failures x). make_normalization_failure f = Inr f \<and> nf_scope f = SubjectScope"
    and keys: "mset (map qn_provider_contract_key quotes)
        + mset (map (\<lambda>f. the (nf_provider_contract_key f)) (fd_entry_failures x)) = mset (map fst (rp_feeds (df_response d)))"
    and count: "fd_decoded_entry_count x = int (length (rp_feeds (df_response d)))"
    using frame_entries_accounted [OF assms] by blast
  obtain rt t where ctx: "quote_context sha256 d frame b rt t (secondary_payload_paths d)"
    and quotes: "QuoteEvent q \<in> set (fd_accepted_events x) \<longleftrightarrow>
      (\<exists>k \<in> fst ` set (rp_feeds (df_response d)).
         entry_outcome sha256 d frame b rt t (secondary_payload_paths d) k = Inr q)" for q
    using quotes_of_draft [OF assms x] by blast
  have sound: "list_all sound_event (fd_accepted_events x)"
    using quotes quote_sound [OF ctx] by (auto simp: events list_all_iff)
  have "list_all (\<lambda>f. nf_scope f = SubjectScope) (fd_entry_failures x)" using fails by (simp add: list_all_iff)
  then have "draft_ok x" using draft_counts [OF x] sound by (simp add: draft_ok_def)
  moreover have "all_accounted d (fd_accepted_events x) (fd_entry_failures x)"
    using feed fails keys events by (auto simp: all_accounted_def)
  ultimately show ?thesis using x count by blast
qed

section \<open>The service over any resolver\<close>

definition distinct_feed_keys :: "(string \<Rightarrow> feed_response option) \<Rightarrow> bool" where
  "distinct_feed_keys parse \<longleftrightarrow> (\<forall>bytes response. parse bytes = Some response \<longrightarrow> distinct (map fst (rp_feeds response)))"

text \<open>What the service answers, told apart by what the decoder says.\<close>

definition service_answer ::
  "(string \<Rightarrow> string) \<Rightarrow> (string \<Rightarrow> feed_response option) \<Rightarrow> raw_frame \<Rightarrow> frame_result \<Rightarrow> bool" where
  "service_answer sha256 parse frame r \<longleftrightarrow> result_of sha256 frame r \<and>
     (case decode_upstox_v3_frame parse frame of
        Inl e \<Rightarrow> failed_with (de_code e) r \<and> nr_decoded_entry_count r = 0
      | Inr d \<Rightarrow>
          nr_decoded_entry_count r = int (if df_response_type d = MARKET_INFO
              then length (rp_segment_status (df_response d)) else length (rp_feeds (df_response d)))
          \<and> (failed_with ''duplicate_normalized_identity'' r \<and> 2 \<le> nr_decoded_entry_count r
             \<or> nr_frame_failure r = None \<and> all_accounted d (nr_accepted_events r) (nr_entry_failures r)))"

lemma undecoded_answer:
  assumes frame: "valid_frame frame" and schema: "canonical_sha256 (''sha256:'' @ rf_provider_schema_sha256 frame)"
    and utc: "in_utc market" "in_utc known" and decode: "decode_upstox_v3_frame parse frame = Inl e"
  shows "\<exists>r. normalize_market_frame sha256 parse resolve frame market known = Inr r \<and> service_answer sha256 parse frame r"
proof -
  note codes = decode_codes [OF decode]
  obtain f where f: "frame_failure_for (de_code e) = Inr f" "nf_scope f = FrameScope" "nf_reason_code f = de_code e"
    by (rule frame_failure_made [of "de_code e"]) (use codes in simp_all)
  obtain rt where rt: "(case de_response_type e of None \<Rightarrow> Inr None
      | Some n \<Rightarrow> rbind (response_type_of n) (\<lambda>t. Inr (Some t))) = (Inr rt :: feed_response_type option result)"
    using codes by (cases "de_response_type e") auto
  have "\<exists>r. build_result sha256 frame rt [] (Some f) [] [] [] [] 0 = Inr r
    \<and> result_of sha256 frame r \<and> failed_with (nf_reason_code f) r \<and> nr_decoded_entry_count r = 0"
    by (rule failed_result [OF frame schema f(2)]) simp_all
  then show ?thesis
    unfolding normalize_market_frame_def decode rt f service_answer_def sum.case
    by (simp add: utc f rt)
qed

lemma finished_answer:
  assumes frame: "valid_frame frame" and schema: "canonical_sha256 (''sha256:'' @ rf_provider_schema_sha256 frame)"
    and decode: "decode_upstox_v3_frame parse frame = Inr d" and ok: "draft_ok x"
    and all: "all_accounted d (fd_accepted_events x) (fd_entry_failures x)"
    and count: "fd_decoded_entry_count x = int (if df_response_type d = MARKET_INFO
        then length (rp_segment_status (df_response d)) else length (rp_feeds (df_response d)))"
  shows "\<exists>r. finish_draft sha256 frame rt x = Inr r \<and> service_answer sha256 parse frame r"
  using draft_finished [OF frame schema ok, of sha256 rt] all count
  unfolding service_answer_def decode sum.case by (auto split: if_splits)

context subject_resolver
begin

lemma service_answers:
  assumes ready: "ready r" and frame: "make_raw_frame sha256 f0 = Inr frame"
    and schema: "canonical_sha256 (''sha256:'' @ rf_provider_schema_sha256 frame)"
    and utc: "in_utc market" "in_utc known" and runtime: "distinct_feed_keys parse"
  shows "\<exists>res. normalize_market_frame sha256 parse (resolve_many r) frame market known = Inr res
    \<and> service_answer sha256 parse frame res"
proof (cases "decode_upstox_v3_frame parse frame")
  case (Inl e)
  then show ?thesis by (rule undecoded_answer [OF made_frame_valid [OF frame] schema utc])
next
  case (Inr d)
  note valid = made_frame_valid [OF frame]
  note well = decoded_well [OF Inr]
  obtain rt where rt: "response_type_of (df_response_type d) = Inr rt"
    using well(1) response_types by (auto simp: well_decoded_def)
  show ?thesis
  proof (cases "df_response_type d = MARKET_INFO")
    case True
    obtain x where "normalize_upstox_v3_frame sha256 d frame None = Inr x" "draft_ok x"
      "all_accounted d (fd_accepted_events x) (fd_entry_failures x)"
      "fd_decoded_entry_count x = int (length (rp_segment_status (df_response d)))"
      using status_draft [OF valid well(1) True] by blast
    then show ?thesis
      using finished_answer [OF valid schema Inr, of x sha256 rt] True rt utc
      by (simp add: normalize_market_frame_def Inr)
  next
    case False
    let ?ks = "df_provider_contract_keys d"
    have ks: "?ks = sort (map fst (rp_feeds (df_response d)))"
      and valid_keys: "\<forall>k \<in> set ?ks. validate_provider_contract_key k = Inr k"
      using well(1) False by (simp_all add: well_decoded_def)
    have distinct: "distinct (map fst (rp_feeds (df_response d)))"
      using runtime well(3) by (auto simp: distinct_feed_keys_def)
    have provider: "rf_provider frame = ''upstox''" using valid by (simp add: valid_frame_def)
    obtain b where b: "resolve_many r ''upstox'' ?ks market known = Inr b" and ok: "answers sha256 ''upstox'' ?ks market known b"
      by (rule every_key_has_one_outcome [OF ready utc valid_keys])
    have "sorted_wrt (<) ?ks" using distinct by (simp add: ks strict_sorted_iff)
    then have "sorted_unique ?ks = ?ks" by (simp add: sorted_unique_fixed)
    then have accepted: "\<not> batch_refused frame d market known b"
      using ok provider by (auto simp: batch_refused_def answers_def list_ex_iff list_all_iff)
    obtain x where "normalize_upstox_v3_frame sha256 d frame (Some b) = Inr x" "draft_ok x"
      "all_accounted d (fd_accepted_events x) (fd_entry_failures x)"
      "fd_decoded_entry_count x = int (length (rp_feeds (df_response d)))"
      using feed_draft [OF frame Inr False distinct ok] by blast
    then show ?thesis
      using finished_answer [OF valid schema Inr, of x sha256 rt] False rt utc b accepted provider
      by (simp add: normalize_market_frame_def Inr)
  qed
qed

end

end
