(* ===== verification/FrameSemantics.thy ===== *)
theory FrameSemantics
  imports FrameServiceProperties
begin

text \<open>
  The properties of the frame service, with an example frame on which each of them applies, and what the
  adopted hash depends on: two captures of the same message have the same adopted semantics.
\<close>

section \<open>Two captures of one message\<close>

lemma sort_key_refined:
  assumes "distinct (map h xs)" and "\<And>x y. x \<in> set xs \<Longrightarrow> y \<in> set xs \<Longrightarrow> h x < h y \<Longrightarrow> k x < k y"
  shows "sort_key k xs = sort_key (h :: 'a \<Rightarrow> 'b::linorder) (xs :: 'a list)"
proof -
  have inj: "inj_on h (set xs)" using assms(1) by (simp add: distinct_map)
  have "inj_on k (set xs)"
  proof (rule inj_onI)
    fix x y
    assume xy: "x \<in> set xs" "y \<in> set xs" "k x = k y"
    then have "\<not> h x < h y" "\<not> h y < h x" using assms(2) [of x y] assms(2) [of y x] by auto
    then show "x = y" using inj xy(1,2) by (auto dest: inj_onD)
  qed
  moreover have "sorted (map k (sort_key h xs))"
  proof -
    have "sorted (map h (sort_key h xs))" "distinct (map h (sort_key h xs))"
      using assms(1) by (auto simp: distinct_map)
    then have "sorted_wrt (\<lambda>x y. h x < h y) (sort_key h xs)"
      by (metis sorted_wrt_map strict_sorted_iff)
    then have "sorted_wrt (\<lambda>x y. k x \<le> k y) (sort_key h xs)"
      by (rule sorted_wrt_mono_rel [rotated]) (use assms(2) in \<open>simp add: less_imp_le\<close>)
    then show ?thesis by (simp add: sorted_wrt_map)
  qed
  ultimately show ?thesis by (intro sort_key_inj_key_eq) simp_all
qed

text \<open>What an accepted entry contributes besides the capture: its subject and its converted fields.\<close>

definition entry_content :: "decoded_frame \<Rightarrow> resolution_batch \<Rightarrow> string \<Rightarrow> (resolved_subject \<times> provider_request_mode \<times> adopted_fields) option" where
  "entry_content d b key =
     (case (failure_for b key, subject_for b key) of
        (None, Some s) \<Rightarrow>
          (case converted_fields (feed_at (df_response d) key) (rs_instrument_kind s) of Inr ma \<Rightarrow> Some (s, ma) | Inl _ \<Rightarrow> None)
      | _ \<Rightarrow> None)"

lemma accepted_content:
  "accepted_quotes (entry_outcome sha256 d frame b rt t secondary) ks =
   map (\<lambda>(s, ma). quote_for sha256 frame s rt t secondary ma) (List.map_filter (entry_content d b) ks)"
  by (induction ks)
     (auto simp: accepted_quotes_def map_filter_simps entry_outcome_def entry_content_def split: option.splits sum.splits)

lemma failed_content:
  "failed_entries r (entry_outcome sha256 d frame b rt t secondary) ks =
   failed_entries r (entry_outcome sha256 d frame' b rt t secondary) ks"
  by (induction ks)
     (auto simp: failed_entries_def map_filter_simps entry_outcome_def split: option.splits sum.splits)

lemma content_subject: "entry_content d b k = Some (s, ma) \<Longrightarrow> subject_for b k = Some s"
  by (auto simp: entry_content_def split: option.splits sum.splits)

lemma content_of_key:
  "(s, ma) \<in> set (List.map_filter (entry_content d b) ks) \<Longrightarrow> \<exists>k \<in> set ks. entry_content d b k = Some (s, ma)"
  by (force simp: List.map_filter_def)

lemma content_keys:
  assumes "usable_batch sha256 b" and "distinct ks"
  shows "distinct (map (\<lambda>(s, ma). (event_rank (quote_event_type (rs_instrument_kind s)), rs_provider_contract_key s))
    (List.map_filter (entry_content d b) ks))"
proof -
  have key: "rs_provider_contract_key s = k" if "entry_content d b k = Some (s, ma)" for k s ma
    by (rule usable_subject(4) [OF assms(1) content_subject [OF that]])
  have inside: "rs_provider_contract_key s \<in> set ks"
    if "(s, ma) \<in> set (List.map_filter (entry_content d b) ks)" for s ma ks
    using content_of_key [OF that] key by blast
  have "distinct (map (\<lambda>(s, ma). rs_provider_contract_key s) (List.map_filter (entry_content d b) ks))"
    using assms(2)
  proof (induction ks)
    case (Cons k ks)
    then show ?case using inside [where ks = ks] key
      by (cases "entry_content d b k") (auto simp: map_filter_simps)
  qed (simp add: map_filter_simps)
  moreover have "map (\<lambda>(s, ma). rs_provider_contract_key s) (List.map_filter (entry_content d b) ks)
    = map snd (map (\<lambda>(s, ma). (event_rank (quote_event_type (rs_instrument_kind s)), rs_provider_contract_key s))
        (List.map_filter (entry_content d b) ks))"
    by auto
  ultimately have "distinct (map snd (map (\<lambda>(s, ma). (event_rank (quote_event_type (rs_instrument_kind s)),
      rs_provider_contract_key s)) (List.map_filter (entry_content d b) ks)))"
    by (simp only:)
  then show ?thesis by (rule distinct_map [THEN iffD1, THEN conjunct1])
qed

lemma pair_less_extend: "(a, b) < (c, e) \<Longrightarrow> (a, b, x) < (c, e, y)"
  by (auto simp: less_prod_def)

text \<open>The order of the quotes and their adopted payloads do not depend on the capture.\<close>

lemma ordered_payloads:
  assumes "usable_batch sha256 b" and "distinct ks"
  shows "map adopted_event_payload (sort_key event_order_key
      (map QuoteEvent (accepted_quotes (entry_outcome sha256 d frame b rt t secondary) ks)))
    = map adopted_event_payload (sort_key event_order_key
      (map QuoteEvent (accepted_quotes (entry_outcome sha256 d frame' b rt t secondary) ks)))"
proof -
  let ?content = "List.map_filter (entry_content d b) ks"
  let ?h = "\<lambda>(s, ma :: provider_request_mode \<times> adopted_fields). (event_rank (quote_event_type (rs_instrument_kind s)), rs_provider_contract_key s)"
  let ?Q = "\<lambda>f (s, ma). QuoteEvent (quote_for sha256 f s rt t secondary ma)"
  have subjects: "rs_economic_subject_id s \<noteq> []" if "(s, ma) \<in> set ?content" for s ma
  proof -
    have "\<exists>k. subject_for b k = Some s" using content_of_key [OF that] content_subject by blast
    then show ?thesis using subject_facts(2) usable_subject(1) [OF assms(1)] by (fastforce simp: strip_def)
  qed
  have order: "event_order_key (?Q f (s, ma)) = (event_rank (quote_event_type (rs_instrument_kind s)),
      rs_provider_contract_key s, rs_economic_subject_id s, ne_event_id (quote_identity sha256 f s))"
    if "(s, ma) \<in> set ?content" for f s ma
    using quote_identity_made(3,4) [OF subjects [OF that]] by (simp add: quote_for_def assemble_quote_def)
  have content: "adopted_event_payload (?Q f x) = adopted_event_payload (?Q frame x)" if "x \<in> set ?content" for f x
  proof -
    obtain s ma where x: "x = (s, ma)" by (cases x)
    show ?thesis
      using quote_identity_made(3) [OF subjects [of s ma]] that
      by (simp add: x quote_for_def assemble_quote_def frame_event_time_def)
  qed
  have payload: "map adopted_event_payload (sort_key event_order_key
      (map QuoteEvent (accepted_quotes (entry_outcome sha256 d f b rt t secondary) ks)))
    = map (\<lambda>x. adopted_event_payload (?Q frame x)) (sort_key ?h ?content)" for f
  proof -
    have "sort_key event_order_key (map QuoteEvent (accepted_quotes (entry_outcome sha256 d f b rt t secondary) ks))
      = map (?Q f) (sort_key (\<lambda>x. event_order_key (?Q f x)) ?content)"
      unfolding accepted_content map_map by (simp add: map_sort_key comp_def case_prod_unfold)
    also have "sort_key (\<lambda>x. event_order_key (?Q f x)) ?content = sort_key ?h ?content"
    proof (rule sort_key_refined [OF content_keys [OF assms]])
      fix x y
      assume xy: "x \<in> set ?content" "y \<in> set ?content" "?h x < ?h y"
      obtain s ma s' ma' where pairs: "x = (s, ma)" "y = (s', ma')" by (cases x; cases y)
      have "event_order_key (?Q f (s, ma)) < event_order_key (?Q f (s', ma'))"
        unfolding order [OF xy(1) [unfolded pairs]] order [OF xy(2) [unfolded pairs]]
        using xy(3) unfolding pairs prod.case by (rule pair_less_extend)
      then show "event_order_key (?Q f x) < event_order_key (?Q f y)" by (simp only: pairs)
    qed
    finally have sorted: "sort_key event_order_key (map QuoteEvent
        (accepted_quotes (entry_outcome sha256 d f b rt t secondary) ks)) = map (?Q f) (sort_key ?h ?content)" .
    show ?thesis
      unfolding sorted map_map comp_def by (intro map_cong refl content) (simp only: set_sort)
  qed
  show ?thesis unfolding payload ..
qed

lemma built_parts:
  assumes "build_result sha256 frame rt events ff fails unadopted present secondary n = Inr r"
  shows "nr_frame_failure r = ff \<and> adopted_semantics_hash sha256 events ff fails = Inr (nr_adopted_semantics_hash r)"
proof -
  obtain h p g where h: "adopted_semantics_hash sha256 events ff fails = Inr h"
    and made: "make_frame_result sha256 \<lparr>nr_raw_frame_identity = rf_identity frame, nr_frame_content_hash = rf_frame_content_hash frame,
              nr_capture_provenance = p, nr_status = expected_status events ff fails, nr_response_type = rt,
              nr_accepted_events = events, nr_frame_failure = ff, nr_entry_failures = fails,
              nr_unadopted_schema_paths = unadopted, nr_present_unadopted_message_paths = present,
              nr_secondary_payload_paths_present = secondary, nr_decoded_entry_count = n,
              nr_accepted_entry_count = int (length events),
              nr_failed_entry_count = failed_entry_scope_count fails, nr_full_result_hash = g,
              nr_adopted_semantics_hash = h\<rparr> = Inr r"
    using assms unfolding build_result_def rbind_eq_Inr Let_def frame_result.update_convs by blast
  have "r = \<lparr>nr_raw_frame_identity = rf_identity frame, nr_frame_content_hash = rf_frame_content_hash frame,
              nr_capture_provenance = p, nr_status = expected_status events ff fails, nr_response_type = rt,
              nr_accepted_events = events, nr_frame_failure = ff, nr_entry_failures = fails,
              nr_unadopted_schema_paths = unadopted, nr_present_unadopted_message_paths = present,
              nr_secondary_payload_paths_present = secondary, nr_decoded_entry_count = n,
              nr_accepted_entry_count = int (length events),
              nr_failed_entry_count = failed_entry_scope_count fails, nr_full_result_hash = g,
              nr_adopted_semantics_hash = h\<rparr>"
    using made unfolding make_frame_result_def rbind_eq_Inr by blast
  then show ?thesis using h by simp
qed

text \<open>The adopted hash of a frame of quotes, as the subjects and the message determine it.\<close>

lemma feed_hash:
  assumes frame: "make_raw_frame sha256 f0 = Inr frame" and decoded: "decode_upstox_v3_frame parse frame = Inr d"
    and feed: "df_response_type d \<noteq> MARKET_INFO" and map_keys: "distinct (map fst (rp_feeds (df_response d)))"
    and utc: "in_utc market" "in_utc known"
    and resolved: "resolve ''upstox'' (df_provider_contract_keys d) market known = Inr b"
    and batch: "answers sha256 ''upstox'' (df_provider_contract_keys d) market known b"
    and result: "normalize_market_frame sha256 parse resolve frame market known = Inr r" and ok: "nr_frame_failure r = None"
  shows "\<exists>rt t. response_type_of (df_response_type d) = Inr rt
    \<and> epoch_milliseconds (rp_current_ts (df_response d)) False = Inr (Some t)
    \<and> (let outcome = entry_outcome sha256 d frame b rt t (secondary_payload_paths d) in
       adopted_semantics_hash sha256
         (sort_key event_order_key (map QuoteEvent (accepted_quotes outcome (df_provider_contract_keys d)))) None
         (sort_key failure_order_key (failed_entries (df_response d) outcome (df_provider_contract_keys d)))
       = Inr (nr_adopted_semantics_hash r))"
proof -
  let ?ks = "df_provider_contract_keys d"
  have usable: "usable_batch sha256 b" using batch by (auto simp: answers_def usable_batch_def list_all_iff)
  have provider: "rf_provider frame = ''upstox''" using made_frame_valid [OF frame] by (simp add: valid_frame_def)
  obtain rt t where rt: "response_type_of (df_response_type d) = Inr rt"
    and ctx: "quote_context sha256 d frame b rt t (secondary_payload_paths d)"
    and keys: "\<forall>k \<in> set ?ks. validate_provider_contract_key k = Inr k"
    and ks: "?ks = sort (map fst (rp_feeds (df_response d)))"
    by (rule made_quote_context [OF frame decoded feed usable])
  have "distinct ?ks" using map_keys by (simp add: ks)
  from quotes_normalized [OF ctx keys this rt] obtain x outcome where
    x: "normalize_upstox_v3_frame sha256 d frame (Some b) = Inr x"
    and outcome: "outcome = entry_outcome sha256 d frame b rt t (secondary_payload_paths d)"
    and events: "fd_accepted_events x = sort_key event_order_key (map QuoteEvent (accepted_quotes outcome ?ks))"
    and fails: "fd_entry_failures x = sort_key failure_order_key (failed_entries (df_response d) outcome ?ks)" .
  have "\<not> batch_refused frame d market known b"
    using result resolved rt utc feed provider ok
    by (auto simp: normalize_market_frame_def decoded rbind_eq_Inr dest!: built_parts)
  then have "finish_draft sha256 frame rt x = Inr r"
    using result resolved rt utc feed provider x by (simp add: normalize_market_frame_def decoded)
  then have "adopted_semantics_hash sha256 (fd_accepted_events x) None (fd_entry_failures x) = Inr (nr_adopted_semantics_hash r)"
    using ok by (auto simp: finish_draft_def rbind_eq_Inr dest: built_parts split: if_splits)
  moreover have "epoch_milliseconds (rp_current_ts (df_response d)) False = Inr (Some t)"
    using ctx by (simp add: quote_context_def)
  ultimately show ?thesis using rt events fails outcome by (auto simp: Let_def)
qed

context subject_resolver
begin

lemma recapture_same_hash:
  assumes ready: "ready r" and frames: "make_raw_frame sha256 f0 = Inr f" "make_raw_frame sha256 g0 = Inr g"
    and decoded: "decode_upstox_v3_frame parse f = Inr d" "decode_upstox_v3_frame parse g = Inr d"
    and feed: "df_response_type d \<noteq> MARKET_INFO" and runtime: "distinct_feed_keys parse"
    and utc: "in_utc market" "in_utc known"
    and results: "normalize_market_frame sha256 parse (resolve_many r) f market known = Inr x"
      "normalize_market_frame sha256 parse (resolve_many r) g market known = Inr y"
    and ok: "nr_frame_failure x = None" "nr_frame_failure y = None"
  shows "nr_adopted_semantics_hash x = nr_adopted_semantics_hash y"
proof -
  let ?ks = "df_provider_contract_keys d"
  note well = decoded_well [OF decoded(1)]
  have ks: "?ks = sort (map fst (rp_feeds (df_response d)))"
    and valid_keys: "\<forall>k \<in> set ?ks. validate_provider_contract_key k = Inr k"
    using well(1) feed by (simp_all add: well_decoded_def)
  have distinct: "distinct (map fst (rp_feeds (df_response d)))"
    using runtime well(3) by (auto simp: distinct_feed_keys_def)
  obtain b where b: "resolve_many r ''upstox'' ?ks market known = Inr b" and batch: "answers sha256 ''upstox'' ?ks market known b"
    by (rule every_key_has_one_outcome [OF ready utc valid_keys])
  have usable: "usable_batch sha256 b" using batch by (auto simp: answers_def usable_batch_def list_all_iff)
  have keys: "distinct ?ks" using distinct by (simp add: ks)
  obtain rt t where rt: "response_type_of (df_response_type d) = Inr rt"
    and t: "epoch_milliseconds (rp_current_ts (df_response d)) False = Inr (Some t)"
    and x: "adopted_semantics_hash sha256
      (sort_key event_order_key (map QuoteEvent (accepted_quotes (entry_outcome sha256 d f b rt t (secondary_payload_paths d)) ?ks))) None
      (sort_key failure_order_key (failed_entries (df_response d) (entry_outcome sha256 d f b rt t (secondary_payload_paths d)) ?ks))
      = Inr (nr_adopted_semantics_hash x)"
    using feed_hash [OF frames(1) decoded(1) feed distinct utc b batch results(1) ok(1)] unfolding Let_def by blast
  have y: "adopted_semantics_hash sha256
      (sort_key event_order_key (map QuoteEvent (accepted_quotes (entry_outcome sha256 d g b rt t (secondary_payload_paths d)) ?ks))) None
      (sort_key failure_order_key (failed_entries (df_response d) (entry_outcome sha256 d g b rt t (secondary_payload_paths d)) ?ks))
      = Inr (nr_adopted_semantics_hash y)"
    using feed_hash [OF frames(2) decoded(2) feed distinct utc b batch results(2) ok(2)] rt t unfolding Let_def by auto
  have "Inr (nr_adopted_semantics_hash x) = (Inr (nr_adopted_semantics_hash y) :: string result)"
    unfolding x [symmetric] y [symmetric] adopted_semantics_hash_def
      ordered_payloads [OF usable keys, where frame = f and frame' = g] failed_content [where frame = f and frame' = g] ..
  then show ?thesis by simp
qed

end

section \<open>Properties\<close>


text \<open>C11. The adopted semantics hash depends on the message and on the subjects only: the same quotes
  captured twice, in other sessions, at other times or on another basis, have the same hash.\<close>

theorem recapture_keeps_adopted_hash:
  assumes resolver: "make_static_resolver subjects = Inr r" "\<forall>s \<in> set subjects. valid_subject sha256 s"
    and frames: "make_raw_frame sha256 f0 = Inr f" "make_raw_frame sha256 g0 = Inr g"
    and decoded: "decode_upstox_v3_frame parse f = Inr d" "decode_upstox_v3_frame parse g = Inr d"
    and feed: "df_response_type d \<noteq> MARKET_INFO" and runtime: "distinct_feed_keys parse"
    and utc: "in_utc market" "in_utc known"
    and results: "normalize_market_frame sha256 parse (static_resolve_many r) f market known = Inr x"
      "normalize_market_frame sha256 parse (static_resolve_many r) g market known = Inr y"
    and ok: "nr_frame_failure x = None" "nr_frame_failure y = None"
  shows "nr_adopted_semantics_hash x = nr_adopted_semantics_hash y"
  by (rule static_subjects.recapture_same_hash [OF made_static_ready [OF resolver] frames decoded feed runtime utc results ok])

text \<open>C40. A frame whose schema hash is not 64 lower case hexadecimal digits is a valid frame and the
  decoder refuses it, but the service does not answer with that failure: building the result raises.\<close>

theorem foreign_schema_escapes:
  assumes frame: "make_raw_frame sha256 f0 = Inr frame"
    and schema: "\<not> canonical_sha256 (''sha256:'' @ rf_provider_schema_sha256 frame)"
    and utc: "in_utc market" "in_utc known"
  shows "decode_upstox_v3_frame parse frame = Inl (decode_error ''protobuf_decode_failed'')
    \<and> normalize_market_frame sha256 parse resolve frame market known
      = Inl (ValueError ''provider schema hash must be canonical SHA-256'')"
proof -
  have "canonical_sha256 (''sha256:'' @ UPSTOX_V3_SCHEMA_SHA256)" by code_simp
  then have "rf_provider_schema_sha256 frame \<noteq> UPSTOX_V3_SCHEMA_SHA256" using schema by metis
  then have decode: "decode_upstox_v3_frame parse frame = Inl (decode_error ''protobuf_decode_failed'')"
    by (simp add: decode_upstox_v3_frame_def)
  obtain f where f: "frame_failure_for ''protobuf_decode_failed'' = Inr f"
    by (rule frame_failure_made [of "''protobuf_decode_failed''"]) (simp_all add: DECODE_CODES_def)
  obtain h where h: "adopted_semantics_hash sha256 [] (Some f) [] = Inr h"
    using hashable_failure stable_hash_total [of sha256] unfolding adopted_semantics_hash_def by fastforce
  have "provenance_of frame = Inl (ValueError ''provider schema hash must be canonical SHA-256'')"
    using schema by (simp add: provenance_of_def make_capture_provenance_def guard_def del: append.simps)
  then show ?thesis
    using decode f h utc by (simp add: normalize_market_frame_def decode_error_def build_result_def)
qed

text \<open>C10. Exactly the acceptable entries become quotes: a key of the frame has a quote if and only if the
  resolver knows its subject, its request mode is known, and its values, its depth and its kind of feed
  are acceptable for that mode and that kind of subject.\<close>

theorem accepted_entries_exact:
  assumes frame: "make_raw_frame sha256 f0 = Inr frame" and decoded: "decode_upstox_v3_frame parse frame = Inr d"
    and feed: "df_response_type d \<noteq> MARKET_INFO" and map_keys: "distinct (map fst (rp_feeds (df_response d)))"
    and batch: "answers sha256 ''upstox'' (df_provider_contract_keys d) market known b"
    and draft: "normalize_upstox_v3_frame sha256 d frame (Some b) = Inr draft"
    and floats: "feed_floats_ok (df_response d)"
  shows "(\<exists>q. QuoteEvent q \<in> set (fd_accepted_events draft) \<and> qn_provider_contract_key q = k) \<longleftrightarrow>
    k \<in> fst ` set (rp_feeds (df_response d))
    \<and> (\<exists>s mode. subject_for b k = Some s
         \<and> request_mode_of (fe_request_mode (feed_at (df_response d) k)) = Some mode
         \<and> acceptable (fe_union (feed_at (df_response d) k)) mode (rs_instrument_kind s))"
  by (rule accepted_exact [OF frame decoded feed map_keys batch draft floats])

text \<open>C16. A quote reads back the provider's message: its prices are nonnegative decimals whose nearest
  doubles are the ones the provider sent, its sizes and its volume are the reported integers, its open
  interest is the reported double, its bid and ask come from the first level when there is one, and
  its subject is the one the resolver gave for its key.\<close>

theorem quote_reads_feed:
  assumes frame: "make_raw_frame sha256 f0 = Inr frame" and decoded: "decode_upstox_v3_frame parse frame = Inr d"
    and feed: "df_response_type d \<noteq> MARKET_INFO" and map_keys: "distinct (map fst (rp_feeds (df_response d)))"
    and batch: "answers sha256 ''upstox'' (df_provider_contract_keys d) market known b"
    and draft: "normalize_upstox_v3_frame sha256 d frame (Some b) = Inr draft"
    and floats: "feed_floats_ok (df_response d)"
    and quote: "QuoteEvent q \<in> set (fd_accepted_events draft)"
  shows "\<exists>a. subject_for b (qn_provider_contract_key q) = Some (qn_subject q)
    \<and> fields_read (fe_union (feed_at (df_response d) (qn_provider_contract_key q))) a
    \<and> qn_bid_price q = map_option Finite (af_bid_price a) \<and> qn_bid_size q = af_bid_size a
    \<and> qn_ask_price q = map_option Finite (af_ask_price a) \<and> qn_ask_size q = af_ask_size a
    \<and> qn_last_price q = Some (Finite (af_last_price a)) \<and> qn_last_size q = Some (af_last_size a)
    \<and> qn_last_trade_at q = af_last_trade_at a
    \<and> qn_previous_close_price q = Some (Finite (af_previous_close_price a))
    \<and> qn_reported_volume q = af_reported_volume a \<and> qn_open_interest q = af_open_interest a
    \<and> qn_raw_event_id q = frame_id sha256 frame \<and> qn_is_snapshot q = (df_response_type d = INITIAL_FEED)"
  by (rule quote_reads [OF frame decoded feed map_keys batch draft floats quote])

section \<open>An example\<close>

definition demo_raw :: "string \<Rightarrow> int \<Rightarrow> raw_frame" where
  "demo_raw schema order =
     \<lparr>rf_identity = \<lparr>fr_provider = ''upstox'', fr_provider_schema_id = ''upstox-market-data-feed-v3'',
        fr_connection_session_id = ''c'', fr_source_order_scope_id = ''s'', fr_source_order = order\<rparr>,
      rf_provider_schema_sha256 = schema, rf_frame_bytes = ''x'', rf_frame_content_hash = ''sha256:x'',
      rf_received_at = Some (Aware 5 0), rf_available_at = Aware 5 0, rf_recorded_at = Aware 6 0,
      rf_capture_basis = LiveReceived, rf_source_file_id = None, rf_source_record_id = None\<rparr>"

definition demo_feed :: feed where
  "demo_feed = \<lparr>fe_union = LtpcFeed \<lparr>lt_ltp = Fl 5, lt_ltt = 1000, lt_ltq = 3, lt_cp = Fl 4\<rparr>, fe_request_mode = 0\<rparr>"

definition demo_response :: feed_response where
  "demo_response = \<lparr>rp_type = 0, rp_feeds = [(''NSE|N'', demo_feed)], rp_current_ts = 1000, rp_segment_status = []\<rparr>"

definition demo_decoded :: decoded_frame where
  "demo_decoded = \<lparr>df_response = demo_response, df_response_type = 0, df_provider_contract_keys = [''NSE|N''],
     df_status_segments = []\<rparr>"

lemma demo_raw_made:
  assumes "strip schema \<noteq> []" and "0 \<le> order" and "order \<le> MAX_SOURCE_ORDER"
  shows "make_raw_frame id (demo_raw schema order) = Inr (demo_raw schema order)"
proof -
  have checks: "validate_opaque_identifier ''upstox-market-data-feed-v3'' name = Inr ''upstox-market-data-feed-v3''"
    "validate_opaque_identifier ''c'' name = Inr ''c''" "validate_opaque_identifier ''s'' name = Inr ''s''"
    "strip ''upstox'' \<noteq> []" "strip ''sha256:x'' \<noteq> []" for name
    by (simp_all add: validate_opaque_identifier_def require_text_def strip_eq_Nil is_space_def utf8_length_def
        MAX_OPAQUE_IDENTIFIER_BYTES_def)
  have "validate_source_order order = Inr order" using assms(2,3) by (simp add: validate_source_order_def)
  then show ?thesis
    using checks assms(1)
    by (simp add: make_raw_frame_def demo_raw_def make_raw_frame_identity_def frame_text_def require_text_def
        as_frame_error_Inr as_frame_error_def guard_def MAX_FRAME_BYTES_def earlier_def)
qed

lemma demo_decodes:
  "decode_upstox_v3_frame (\<lambda>_. Some demo_response) (demo_raw UPSTOX_V3_SCHEMA_SHA256 order) = Inr demo_decoded"
proof -
  have "keys_valid validate_provider_contract_key [''NSE|N'']" by code_simp
  moreover have "epoch_milliseconds 1000 False = Inr (Some (Aware (EPOCH_US + 1000000) 0))" by code_simp
  ultimately show ?thesis
    by (auto simp: decode_upstox_v3_frame_def demo_raw_def demo_response_def demo_decoded_def UPSTOX_V3_SCHEMA_ID_def Let_def
        INITIAL_FEED_def LIVE_FEED_def MARKET_INFO_def UPSTOX_V3_MAX_FEEDS_def UPSTOX_V3_MAX_STATUS_SEGMENTS_def)
qed

abbreviation demo_parse :: "string \<Rightarrow> feed_response option" where
  "demo_parse \<equiv> \<lambda>_. Some demo_response"

abbreviation demo_capture :: "int \<Rightarrow> raw_frame" where
  "demo_capture \<equiv> demo_raw UPSTOX_V3_SCHEMA_SHA256"

lemma demo_capture_made: "0 \<le> order \<Longrightarrow> order \<le> MAX_SOURCE_ORDER \<Longrightarrow> make_raw_frame id (demo_capture order) = Inr (demo_capture order)"
  by (rule demo_raw_made) (simp_all add: UPSTOX_V3_SCHEMA_SHA256_def strip_eq_Nil is_space_def)

lemma demo_runtime: "distinct_feed_keys demo_parse" "distinct (map fst (rp_feeds (df_response demo_decoded)))"
  "df_response_type demo_decoded \<noteq> MARKET_INFO" "feed_floats_ok (df_response demo_decoded)"
proof -
  have "f64 5 = 5" "f64 4 = 4" using f64_of_int [of 5] f64_of_int [of 4] by simp_all
  then show "feed_floats_ok (df_response demo_decoded)"
    by (simp add: feed_floats_ok_def demo_decoded_def demo_response_def demo_feed_def ltpc_floats_def flip: f64.rnd_fix_iff)
qed (simp_all add: distinct_feed_keys_def demo_response_def demo_decoded_def MARKET_INFO_def)

lemma demo_schema: "canonical_sha256 (''sha256:'' @ rf_provider_schema_sha256 (demo_capture order))"
proof -
  have "canonical_sha256 (''sha256:'' @ UPSTOX_V3_SCHEMA_SHA256)" by code_simp
  then show ?thesis by (simp add: demo_raw_def)
qed

lemma demo_key: "validate_provider_contract_key ''NSE|N'' = Inr ''NSE|N''"
  by code_simp

lemma demo_subjects: "\<forall>s \<in> set [demo_subject id ''NSE|N'']. valid_subject id s"
  using demo_subject_valid [OF demo_key] by simp

lemma demo_batch:
  obtains r b where "make_static_resolver [demo_subject id ''NSE|N''] = Inr r"
    and "static_resolve_many r ''upstox'' (df_provider_contract_keys demo_decoded) (Aware 9 0) (Aware 9 0) = Inr b"
    and "answers id ''upstox'' (df_provider_contract_keys demo_decoded) (Aware 9 0) (Aware 9 0) b"
    and "subject_for b ''NSE|N'' = Some (demo_subject id ''NSE|N'')"
proof -
  let ?r = "[(''NSE|N'', demo_subject id ''NSE|N'')]"
  have r: "make_static_resolver [demo_subject id ''NSE|N''] = Inr ?r"
    by (simp add: make_static_resolver_def demo_subject_def)
  have "static_subject ?r ''upstox'' (Aware 9 0) (Aware 9 0) ''NSE|N'' = Some (demo_subject id ''NSE|N'')"
    by (simp add: static_subject_def demo_subject_def)
  then show thesis
    using static_resolves [OF made_static_ready [OF r demo_subjects] in_utc_Aware [of 9] in_utc_Aware [of 9],
        of "[''NSE|N'']" "''upstox''"] demo_key that [OF r]
    by (auto simp: demo_decoded_def)
qed

lemma demo_result:
  assumes "service_answer id demo_parse (demo_capture order) res"
  shows "nr_frame_failure res = None \<and> nr_decoded_entry_count res = 1"
  using assms unfolding service_answer_def demo_decodes sum.case
  by (auto simp: demo_decoded_def demo_response_def MARKET_INFO_def)


theorem recapture_keeps_adopted_hash_witness:
  "\<exists>r x y. normalize_market_frame id demo_parse (static_resolve_many r) (demo_capture 0) (Aware 9 0) (Aware 9 0) = Inr x
     \<and> normalize_market_frame id demo_parse (static_resolve_many r) (demo_capture 1) (Aware 9 0) (Aware 9 0) = Inr y
     \<and> nr_raw_frame_identity x \<noteq> nr_raw_frame_identity y \<and> nr_adopted_semantics_hash x = nr_adopted_semantics_hash y"
proof -
  obtain r where r: "make_static_resolver [demo_subject id ''NSE|N''] = Inr r" by (rule demo_batch)
  have frames: "make_raw_frame id (demo_capture 0) = Inr (demo_capture 0)" "make_raw_frame id (demo_capture 1) = Inr (demo_capture 1)"
    by (rule demo_capture_made; simp add: MAX_SOURCE_ORDER_def)+
  note ready = made_static_ready [OF r demo_subjects] and utc = in_utc_Aware [of 9] in_utc_Aware [of 9]
  obtain x where x: "normalize_market_frame id demo_parse (static_resolve_many r) (demo_capture 0) (Aware 9 0) (Aware 9 0) = Inr x"
    "service_answer id demo_parse (demo_capture 0) x"
    using static_subjects.service_answers [OF ready frames(1) demo_schema utc demo_runtime(1)] by blast
  obtain y where y: "normalize_market_frame id demo_parse (static_resolve_many r) (demo_capture 1) (Aware 9 0) (Aware 9 0) = Inr y"
    "service_answer id demo_parse (demo_capture 1) y"
    using static_subjects.service_answers [OF ready frames(2) demo_schema utc demo_runtime(1)] by blast
  have ok: "nr_frame_failure x = None" "nr_frame_failure y = None"
    using demo_result [OF x(2)] demo_result [OF y(2)] by simp_all
  have "nr_raw_frame_identity x \<noteq> nr_raw_frame_identity y"
    using x(2) y(2) by (simp add: service_answer_def result_of_def demo_raw_def)
  then show ?thesis
    using recapture_keeps_adopted_hash [OF r demo_subjects frames demo_decodes demo_decodes demo_runtime(3,1) utc x(1) y(1) ok] x(1) y(1)
    by blast
qed

theorem foreign_schema_escapes_witness:
  "make_raw_frame id (demo_raw ''X'' 0) = Inr (demo_raw ''X'' 0)
   \<and> normalize_market_frame id demo_parse (static_resolve_many []) (demo_raw ''X'' 0) (Aware 9 0) (Aware 9 0)
     = Inl (ValueError ''provider schema hash must be canonical SHA-256'')"
proof -
  have frame: "make_raw_frame id (demo_raw ''X'' 0) = Inr (demo_raw ''X'' 0)"
    by (rule demo_raw_made) (simp_all add: strip_eq_Nil is_space_def MAX_SOURCE_ORDER_def)
  have "\<not> canonical_sha256 (''sha256:'' @ rf_provider_schema_sha256 (demo_raw ''X'' 0))"
    by (simp add: demo_raw_def canonical_sha256_def)
  then show ?thesis
    using foreign_schema_escapes [OF frame _ in_utc_Aware [of 9] in_utc_Aware [of 9]] frame by blast
qed

lemma demo_draft:
  obtains b draft where "answers id ''upstox'' (df_provider_contract_keys demo_decoded) (Aware 9 0) (Aware 9 0) b"
    and "subject_for b ''NSE|N'' = Some (demo_subject id ''NSE|N'')"
    and "normalize_upstox_v3_frame id demo_decoded (demo_capture 0) (Some b) = Inr draft"
proof -
  obtain r b where b: "answers id ''upstox'' (df_provider_contract_keys demo_decoded) (Aware 9 0) (Aware 9 0) b"
    "subject_for b ''NSE|N'' = Some (demo_subject id ''NSE|N'')"
    by (rule demo_batch)
  have frame: "make_raw_frame id (demo_capture 0) = Inr (demo_capture 0)" by (rule demo_capture_made) (simp_all add: MAX_SOURCE_ORDER_def)
  from frame_entries_accounted [OF frame demo_decodes demo_runtime(3,2) b(1)] b that show thesis by blast
qed

lemma demo_acceptable:
  "''NSE|N'' \<in> fst ` set (rp_feeds (df_response demo_decoded))"
  "request_mode_of (fe_request_mode (feed_at (df_response demo_decoded) ''NSE|N'')) = Some ModeLtpc"
  "acceptable (fe_union (feed_at (df_response demo_decoded) ''NSE|N'')) ModeLtpc (rs_instrument_kind (demo_subject id ''NSE|N''))"
  by (simp_all add: demo_decoded_def demo_response_def demo_feed_def feed_at_def request_mode_of_def ltpc_valid_def
      quantity_valid_def trade_time_valid_def max_ordinal_def day_us_def)

theorem accepted_entries_exact_witness:
  "\<exists>b draft q. normalize_upstox_v3_frame id demo_decoded (demo_capture 0) (Some b) = Inr draft
     \<and> QuoteEvent q \<in> set (fd_accepted_events draft) \<and> qn_provider_contract_key q = ''NSE|N''"
proof -
  obtain b draft where b: "answers id ''upstox'' (df_provider_contract_keys demo_decoded) (Aware 9 0) (Aware 9 0) b"
    "subject_for b ''NSE|N'' = Some (demo_subject id ''NSE|N'')"
    and draft: "normalize_upstox_v3_frame id demo_decoded (demo_capture 0) (Some b) = Inr draft"
    by (rule demo_draft)
  have frame: "make_raw_frame id (demo_capture 0) = Inr (demo_capture 0)" by (rule demo_capture_made) (simp_all add: MAX_SOURCE_ORDER_def)
  show ?thesis
    using accepted_entries_exact [OF frame demo_decodes demo_runtime(3,2) b(1) draft demo_runtime(4), of "''NSE|N''"]
      demo_acceptable b(2) draft by blast
qed

theorem quote_reads_feed_witness:
  "\<exists>b draft q p. normalize_upstox_v3_frame id demo_decoded (demo_capture 0) (Some b) = Inr draft
     \<and> QuoteEvent q \<in> set (fd_accepted_events draft) \<and> qn_last_price q = Some (Finite p) \<and> f64 (dval p) = 5
     \<and> qn_last_size q = Some 3"
proof -
  obtain b draft where b: "answers id ''upstox'' (df_provider_contract_keys demo_decoded) (Aware 9 0) (Aware 9 0) b"
    "subject_for b ''NSE|N'' = Some (demo_subject id ''NSE|N'')"
    and draft: "normalize_upstox_v3_frame id demo_decoded (demo_capture 0) (Some b) = Inr draft"
    by (rule demo_draft)
  have frame: "make_raw_frame id (demo_capture 0) = Inr (demo_capture 0)" by (rule demo_capture_made) (simp_all add: MAX_SOURCE_ORDER_def)
  obtain q where q: "QuoteEvent q \<in> set (fd_accepted_events draft)" "qn_provider_contract_key q = ''NSE|N''"
    using accepted_exact [OF frame demo_decodes demo_runtime(3,2) b(1) draft demo_runtime(4), of "''NSE|N''"]
      demo_acceptable b(2) by blast
  obtain a where a: "fields_read (fe_union (feed_at (df_response demo_decoded) ''NSE|N'')) a"
    and price: "qn_last_price q = Some (Finite (af_last_price a))" and size: "qn_last_size q = Some (af_last_size a)"
    using quote_reads_feed [OF frame demo_decodes demo_runtime(3,2) b(1) draft demo_runtime(4) q(1)] q(2) by auto
  have "f64 (dval (af_last_price a)) = 5" "af_last_size a = 3"
    using a by (simp_all add: fields_read_def reads_def demo_decoded_def demo_response_def demo_feed_def feed_at_def)
  then show ?thesis using draft q(1) price size by auto
qed

end
