(* ===== verification/Strategy.thy ===== *)
theory Strategy
  imports PyTime
begin

text \<open>
  \<open>app/strategy\<close>: the versioned strategy contract (\<open>models.py\<close>) and its registry
  (\<open>registry.py\<close>).

  Each pydantic model is a record; its \<open>Field\<close> bounds, literal types and model validator are the
  function \<open>validate_<model>\<close>, which raises \<open>ValueError\<close> (pydantic's \<open>ValidationError\<close> is one) on
  the first bound that fails, the model validator coming last as in pydantic. All models set
  \<open>allow_inf_nan=False\<close>, so every float must be finite. Dates of creation and YAML parsing
  are outside the model.
\<close>

definition field :: "bool \<Rightarrow> string \<Rightarrow> unit result" where
  "field ok name = guard (\<not> ok) (ValueError name)"

lemma field_Inr [result_simps]: "field ok name = Inr u \<longleftrightarrow> ok"
  by (simp add: field_def guard_eq_Inr)

lemma field_True [simp]: "field True name = Inr ()"
  by (simp add: field_def)

definition both :: "unit result \<Rightarrow> unit result \<Rightarrow> unit result" where
  "both a b = rbind a (\<lambda>_. b)"

lemma both_Inr [result_simps]: "both a b = Inr u \<longleftrightarrow> a = Inr () \<and> b = Inr u"
  by (cases a) (auto simp: both_def)

lemma both_Inr_unit [simp]: "both (Inr ()) b = b"
  by (simp add: both_def)

primrec all_of :: "unit result list \<Rightarrow> unit result" where
  "all_of [] = Inr ()"
| "all_of (c # cs) = both c (all_of cs)"

lemma all_of_Inr [result_simps]: "all_of cs = Inr u \<longleftrightarrow> (\<forall>c \<in> set cs. c = Inr ())"
  by (induction cs) (auto simp: both_Inr)

section \<open>The models\<close>

record underlying_config =
  uc_name :: string
  uc_instrument_key :: string
  uc_currency :: string

definition validate_underlying :: "underlying_config \<Rightarrow> unit result" where
  "validate_underlying c = all_of
     [field (uc_name c = ''NIFTY 50'') ''name'',
      field (uc_instrument_key c = ''NSE_INDEX|Nifty 50'') ''instrument_key'',
      field (uc_currency c = ''INR'') ''currency'']"

record signal_config =
  sg_origin :: string
  sg_forecast_horizon_sessions :: int

definition validate_signal :: "signal_config \<Rightarrow> unit result" where
  "validate_signal c = all_of
     [field (sg_origin c = ''end_of_finalized_session'') ''origin'',
      field (0 < sg_forecast_horizon_sessions c) ''forecast_horizon_sessions'']"

record entry_config =
  en_eligibility :: string
  en_entry_time_local :: pytime
  en_exchange_timezone :: string

definition validate_entry :: "zoneinfo \<Rightarrow> entry_config \<Rightarrow> unit result" where
  "validate_entry zones c = all_of
     [field (en_eligibility c = ''next_session'') ''eligibility'',
      field (zones (en_exchange_timezone c) \<noteq> None)
        ''entry exchange_timezone must be an IANA timezone'']"

record expiry_selection_config =
  ex_holding_horizon_sessions :: int
  ex_safety_buffer_sessions :: int
  ex_minimum_remaining_sessions :: int
  ex_maximum_remaining_sessions :: int
  ex_choose :: string
  ex_require_quote_quality :: bool
  ex_require_liquidity :: bool

definition validate_session_bounds :: "expiry_selection_config \<Rightarrow> unit result" where
  "validate_session_bounds c = all_of
     [field (0 < ex_holding_horizon_sessions c) ''holding_horizon_sessions'',
      field (0 \<le> ex_safety_buffer_sessions c) ''safety_buffer_sessions'',
      field (0 < ex_minimum_remaining_sessions c) ''minimum_remaining_sessions'',
      field (0 < ex_maximum_remaining_sessions c) ''maximum_remaining_sessions'',
      field (ex_choose c = ''earliest_eligible'') ''choose'',
      field (\<not> ex_minimum_remaining_sessions c
               < ex_holding_horizon_sessions c + ex_safety_buffer_sessions c)
        ''minimum_remaining_sessions must cover holding horizon and buffer'',
      field (\<not> ex_maximum_remaining_sessions c < ex_minimum_remaining_sessions c)
        ''maximum_remaining_sessions must not be below minimum'']"

record strike_selection_config =
  ss_method :: string
  ss_tie_breakers :: "string list"

definition tie_breaker_order :: "string list" where
  "tie_breaker_order =
     [''lowest_combined_relative_spread'', ''highest_combined_volume'',
      ''highest_combined_open_interest'', ''lower_strike'']"

definition validate_tie_breakers :: "strike_selection_config \<Rightarrow> unit result" where
  "validate_tie_breakers c = all_of
     [field (ss_method c = ''nearest_forward_atm'') ''method'',
      field (set (ss_tie_breakers c) \<subseteq> set tie_breaker_order) ''tie_breakers'',
      field (ss_tie_breakers c = tie_breaker_order)
        ''strike tie_breakers must use the v1 deterministic order'']"

record position_config =
  ps_structure :: string
  ps_direction :: string
  ps_call_quantity :: int
  ps_put_quantity :: int
  ps_units :: int
  ps_maximum_concurrent_positions :: int
  ps_exercise_style :: string
  ps_settlement_type :: string
  ps_require_same_strike :: bool
  ps_require_same_expiry :: bool
  ps_require_same_multiplier :: bool

definition validate_position :: "position_config \<Rightarrow> unit result" where
  "validate_position c = all_of
     [field (ps_structure c = ''long_straddle'') ''structure'',
      field (ps_direction c = ''long'') ''direction'',
      field (ps_call_quantity c = 1) ''call_quantity'',
      field (ps_put_quantity c = 1) ''put_quantity'',
      field (0 < ps_units c) ''units'',
      field (ps_maximum_concurrent_positions c = 1) ''maximum_concurrent_positions'',
      field (ps_exercise_style c = ''european'') ''exercise_style'',
      field (ps_settlement_type c = ''cash'') ''settlement_type'',
      field (ps_require_same_strike c) ''require_same_strike'',
      field (ps_require_same_expiry c) ''require_same_expiry'',
      field (ps_require_same_multiplier c) ''require_same_multiplier'']"

record fixed_interval_parameters =
  fi_interval_steps :: int
  fi_target_net_delta_units :: pyfloat

definition validate_fixed_interval :: "fixed_interval_parameters \<Rightarrow> unit result" where
  "validate_fixed_interval c = all_of
     [field (0 < fi_interval_steps c) ''interval_steps'',
      field (isfinite (fi_target_net_delta_units c)) ''target_net_delta_units'']"

record delta_threshold_parameters =
  dt_maximum_absolute_net_delta_units :: pyfloat
  dt_target_net_delta_units :: pyfloat

definition validate_delta_threshold :: "delta_threshold_parameters \<Rightarrow> unit result" where
  "validate_delta_threshold c = all_of
     [field (isfinite (dt_maximum_absolute_net_delta_units c)
             \<and> 0 \<le> dt_maximum_absolute_net_delta_units c) ''maximum_absolute_net_delta_units'',
      field (isfinite (dt_target_net_delta_units c)) ''target_net_delta_units'']"

record constant_band_parameters =
  cb_lower_net_delta_units :: pyfloat
  cb_upper_net_delta_units :: pyfloat
  cb_rebalance_target :: string

definition validate_boundaries :: "constant_band_parameters \<Rightarrow> unit result" where
  "validate_boundaries c = all_of
     [field (isfinite (cb_lower_net_delta_units c)) ''lower_net_delta_units'',
      field (isfinite (cb_upper_net_delta_units c)) ''upper_net_delta_units'',
      field (cb_rebalance_target c = ''nearest_boundary'') ''rebalance_target'',
      field (\<not> cb_upper_net_delta_units c \<le> cb_lower_net_delta_units c)
        ''constant-band lower boundary must be below upper boundary'']"

record whalley_wilmott_parameters =
  ww_transaction_cost_rate :: pyfloat
  ww_risk_aversion_per_inr :: pyfloat
  ww_rebalance_target :: string
  ww_maximum_half_width_delta_units :: pyfloat

definition validate_whalley_wilmott :: "whalley_wilmott_parameters \<Rightarrow> unit result" where
  "validate_whalley_wilmott c = all_of
     [field (isfinite (ww_transaction_cost_rate c) \<and> 0 \<le> ww_transaction_cost_rate c)
        ''transaction_cost_rate'',
      field (isfinite (ww_risk_aversion_per_inr c) \<and> 0 < ww_risk_aversion_per_inr c)
        ''risk_aversion_per_inr'',
      field (ww_rebalance_target c = ''nearest_boundary'') ''rebalance_target'',
      field (isfinite (ww_maximum_half_width_delta_units c) \<and> 0 < ww_maximum_half_width_delta_units c)
        ''maximum_half_width_delta_units'']"

definition hedge_policy_ids :: "string list" where
  "hedge_policy_ids =
     [''no_hedge'', ''fixed_interval'', ''delta_threshold'', ''constant_band'', ''whalley_wilmott'']"

record hedging_config =
  hc_instrument :: string
  hc_delta_unit :: string
  hc_default_policy :: string
  hc_benchmark_policies :: "string list"
  hc_fixed_interval :: fixed_interval_parameters
  hc_delta_threshold :: delta_threshold_parameters
  hc_constant_band :: constant_band_parameters
  hc_whalley_wilmott :: whalley_wilmott_parameters

definition validate_benchmarks :: "hedging_config \<Rightarrow> unit result" where
  "validate_benchmarks c = all_of
     [field (hc_instrument c = ''nifty_future'') ''instrument'',
      field (hc_delta_unit c = ''portfolio_underlying_equivalent_units'') ''delta_unit'',
      field (hc_default_policy c \<in> set hedge_policy_ids) ''default_policy'',
      field (set (hc_benchmark_policies c) \<subseteq> set hedge_policy_ids) ''benchmark_policies'',
      validate_fixed_interval (hc_fixed_interval c),
      validate_delta_threshold (hc_delta_threshold c),
      validate_boundaries (hc_constant_band c),
      validate_whalley_wilmott (hc_whalley_wilmott c),
      field (hc_benchmark_policies c = hedge_policy_ids)
        ''benchmark_policies must contain the complete v1 policy order'',
      field (hc_default_policy c \<in> set (hc_benchmark_policies c))
        ''default_policy must be included in benchmark_policies'']"

definition exit_precedence :: "string list" where
  "exit_precedence =
     [''invalid_market_state'', ''invalid_quote_state'', ''daily_loss_limit'', ''position_loss_limit'',
      ''maximum_hedge_count'', ''insufficient_time_to_expiry'', ''maximum_holding_period'',
      ''simulation_end'']"

record exit_config =
  xc_precedence :: "string list"

definition validate_precedence :: "exit_config \<Rightarrow> unit result" where
  "validate_precedence c = all_of
     [field (set (xc_precedence c) \<subseteq> set exit_precedence) ''precedence'',
      field (xc_precedence c = exit_precedence) ''exit precedence must use the complete v1 order'']"

record risk_policy_config =
  rp_starting_nav_inr :: pyfloat
  rp_maximum_concurrent_positions :: int
  rp_maximum_premium_at_risk_fraction :: pyfloat
  rp_maximum_daily_theta_fraction :: pyfloat
  rp_minimum_expected_net_edge_fraction :: pyfloat
  rp_maximum_position_loss_fraction :: pyfloat
  rp_maximum_daily_loss_fraction :: pyfloat
  rp_maximum_absolute_delta_units :: pyfloat
  rp_maximum_hedges_per_session :: int
  rp_maximum_option_relative_spread :: pyfloat
  rp_maximum_quote_age_seconds :: pyfloat
  rp_stale_data_lockout :: bool
  rp_missing_contract_lockout :: bool
  rp_reconciliation_lockout :: bool
  rp_manual_kill_switch :: bool

definition fraction :: "pyfloat \<Rightarrow> bool" where
  "fraction x \<longleftrightarrow> isfinite x \<and> 0 < x \<and> x \<le> 1"

definition validate_risk_policy :: "risk_policy_config \<Rightarrow> unit result" where
  "validate_risk_policy c = all_of
     [field (isfinite (rp_starting_nav_inr c) \<and> 0 < rp_starting_nav_inr c) ''starting_nav_inr'',
      field (rp_maximum_concurrent_positions c = 1) ''maximum_concurrent_positions'',
      field (fraction (rp_maximum_premium_at_risk_fraction c)) ''maximum_premium_at_risk_fraction'',
      field (fraction (rp_maximum_daily_theta_fraction c)) ''maximum_daily_theta_fraction'',
      field (isfinite (rp_minimum_expected_net_edge_fraction c)
             \<and> 0 \<le> rp_minimum_expected_net_edge_fraction c
             \<and> rp_minimum_expected_net_edge_fraction c \<le> 1) ''minimum_expected_net_edge_fraction'',
      field (fraction (rp_maximum_position_loss_fraction c)) ''maximum_position_loss_fraction'',
      field (fraction (rp_maximum_daily_loss_fraction c)) ''maximum_daily_loss_fraction'',
      field (isfinite (rp_maximum_absolute_delta_units c) \<and> 0 \<le> rp_maximum_absolute_delta_units c)
        ''maximum_absolute_delta_units'',
      field (0 < rp_maximum_hedges_per_session c) ''maximum_hedges_per_session'',
      field (fraction (rp_maximum_option_relative_spread c)) ''maximum_option_relative_spread'',
      field (isfinite (rp_maximum_quote_age_seconds c) \<and> 0 < rp_maximum_quote_age_seconds c)
        ''maximum_quote_age_seconds'',
      field (rp_stale_data_lockout c) ''stale_data_lockout'',
      field (rp_missing_contract_lockout c) ''missing_contract_lockout'',
      field (rp_reconciliation_lockout c) ''reconciliation_lockout'',
      field (rp_manual_kill_switch c) ''manual_kill_switch'']"

record strategy_contract =
  sc_schema_version :: int
  sc_strategy_id :: string
  sc_strategy_version :: int
  sc_created_at :: pydatetime
  sc_mode :: string
  sc_underlying :: underlying_config
  sc_signal :: signal_config
  sc_entry :: entry_config
  sc_expiry :: expiry_selection_config
  sc_strike :: strike_selection_config
  sc_position :: position_config
  sc_hedging :: hedging_config
  sc_exit :: exit_config
  sc_risk :: risk_policy_config

definition validate_strategy_contract :: "zoneinfo \<Rightarrow> strategy_contract \<Rightarrow> strategy_contract result" where
  "validate_strategy_contract zones c =
     rbind (all_of
       [field (sc_schema_version c = 1) ''schema_version'',
        field (sc_strategy_id c = ''nifty-long-gamma-straddle'') ''strategy_id'',
        field (sc_strategy_version c = 1) ''strategy_version'',
        field (sc_mode c = ''simulation'') ''mode'',
        validate_underlying (sc_underlying c), validate_signal (sc_signal c),
        validate_entry zones (sc_entry c), validate_session_bounds (sc_expiry c),
        validate_tie_breakers (sc_strike c), validate_position (sc_position c),
        validate_benchmarks (sc_hedging c), validate_precedence (sc_exit c),
        validate_risk_policy (sc_risk c),
        field (\<not> sg_forecast_horizon_sessions (sc_signal c) \<noteq> ex_holding_horizon_sessions (sc_expiry c))
          ''forecast and holding horizons must match in v1'',
        field (\<not> rp_maximum_concurrent_positions (sc_risk c)
                 \<noteq> ps_maximum_concurrent_positions (sc_position c))
          ''position and risk concurrency limits must match'']) (\<lambda>_.
     Inr c)"

section \<open>The registry\<close>

definition registry_get :: "strategy_contract list \<Rightarrow> string \<Rightarrow> int \<Rightarrow> strategy_contract result" where
  "registry_get contracts strategy_id strategy_version =
     lift_opt (KeyError (''unknown strategy contract: '' @ strategy_id @ ''@'' @ string_of_int strategy_version))
       (find (\<lambda>c. sc_strategy_id c = strategy_id \<and> sc_strategy_version c = strategy_version) contracts)"

section \<open>What a validated contract guarantees\<close>

lemmas strategy_validators =
  validate_strategy_contract_def validate_underlying_def validate_signal_def validate_entry_def
  validate_session_bounds_def validate_tie_breakers_def validate_position_def
  validate_benchmarks_def validate_fixed_interval_def validate_delta_threshold_def
  validate_boundaries_def validate_whalley_wilmott_def validate_precedence_def
  validate_risk_policy_def

text \<open>The facts the simulator relies on.\<close>

definition sound_strategy :: "strategy_contract \<Rightarrow> bool" where
  "sound_strategy c \<longleftrightarrow>
     0 < ex_holding_horizon_sessions (sc_expiry c) \<and> 0 \<le> ex_safety_buffer_sessions (sc_expiry c)
     \<and> ex_holding_horizon_sessions (sc_expiry c) + ex_safety_buffer_sessions (sc_expiry c)
         \<le> ex_minimum_remaining_sessions (sc_expiry c)
     \<and> ex_minimum_remaining_sessions (sc_expiry c) \<le> ex_maximum_remaining_sessions (sc_expiry c)
     \<and> 0 < ps_units (sc_position c)
     \<and> hc_benchmark_policies (sc_hedging c) = hedge_policy_ids
     \<and> 0 < fi_interval_steps (hc_fixed_interval (sc_hedging c))
     \<and> 0 \<le> dt_maximum_absolute_net_delta_units (hc_delta_threshold (sc_hedging c))
     \<and> \<not> cb_upper_net_delta_units (hc_constant_band (sc_hedging c))
           \<le> cb_lower_net_delta_units (hc_constant_band (sc_hedging c))
     \<and> xc_precedence (sc_exit c) = exit_precedence
     \<and> isfinite (rp_starting_nav_inr (sc_risk c)) \<and> 0 < rp_starting_nav_inr (sc_risk c)
     \<and> isfinite (rp_maximum_absolute_delta_units (sc_risk c))
     \<and> 0 \<le> rp_maximum_absolute_delta_units (sc_risk c)
     \<and> 0 < rp_maximum_hedges_per_session (sc_risk c)"

lemma validated_strategy_sound:
  "validate_strategy_contract zones c = Inr c' \<Longrightarrow> sound_strategy c \<and> c' = c"
  by (auto simp: strategy_validators result_simps sound_strategy_def)


section \<open>Properties\<close>


definition demo_zones :: zoneinfo where
  "demo_zones name = (if name = ''UTC'' then Some utc else None)"

definition demo_strategy :: strategy_contract where
  "demo_strategy =
     \<lparr>sc_schema_version = 1, sc_strategy_id = ''nifty-long-gamma-straddle'', sc_strategy_version = 1,
      sc_created_at = Aware 0 0, sc_mode = ''simulation'',
      sc_underlying = \<lparr>uc_name = ''NIFTY 50'', uc_instrument_key = ''NSE_INDEX|Nifty 50'', uc_currency = ''INR''\<rparr>,
      sc_signal = \<lparr>sg_origin = ''end_of_finalized_session'', sg_forecast_horizon_sessions = 1\<rparr>,
      sc_entry = \<lparr>en_eligibility = ''next_session'', en_entry_time_local = 34200000000,
                  en_exchange_timezone = ''UTC''\<rparr>,
      sc_expiry = \<lparr>ex_holding_horizon_sessions = 1, ex_safety_buffer_sessions = 0,
                   ex_minimum_remaining_sessions = 1, ex_maximum_remaining_sessions = 4,
                   ex_choose = ''earliest_eligible'', ex_require_quote_quality = True,
                   ex_require_liquidity = True\<rparr>,
      sc_strike = \<lparr>ss_method = ''nearest_forward_atm'', ss_tie_breakers = tie_breaker_order\<rparr>,
      sc_position = \<lparr>ps_structure = ''long_straddle'', ps_direction = ''long'', ps_call_quantity = 1,
                     ps_put_quantity = 1, ps_units = 1, ps_maximum_concurrent_positions = 1,
                     ps_exercise_style = ''european'', ps_settlement_type = ''cash'',
                     ps_require_same_strike = True, ps_require_same_expiry = True,
                     ps_require_same_multiplier = True\<rparr>,
      sc_hedging = \<lparr>hc_instrument = ''nifty_future'',
                    hc_delta_unit = ''portfolio_underlying_equivalent_units'',
                    hc_default_policy = ''no_hedge'', hc_benchmark_policies = hedge_policy_ids,
                    hc_fixed_interval = \<lparr>fi_interval_steps = 1, fi_target_net_delta_units = 0\<rparr>,
                    hc_delta_threshold = \<lparr>dt_maximum_absolute_net_delta_units = Fl 10,
                                          dt_target_net_delta_units = 0\<rparr>,
                    hc_constant_band = \<lparr>cb_lower_net_delta_units = Fl (-10),
                                        cb_upper_net_delta_units = Fl 10,
                                        cb_rebalance_target = ''nearest_boundary''\<rparr>,
                    hc_whalley_wilmott = \<lparr>ww_transaction_cost_rate = 0, ww_risk_aversion_per_inr = 1,
                                          ww_rebalance_target = ''nearest_boundary'',
                                          ww_maximum_half_width_delta_units = Fl 10\<rparr>\<rparr>,
      sc_exit = \<lparr>xc_precedence = exit_precedence\<rparr>,
      sc_risk = \<lparr>rp_starting_nav_inr = Fl 1000000, rp_maximum_concurrent_positions = 1,
                 rp_maximum_premium_at_risk_fraction = 1, rp_maximum_daily_theta_fraction = 1,
                 rp_minimum_expected_net_edge_fraction = 0, rp_maximum_position_loss_fraction = 1,
                 rp_maximum_daily_loss_fraction = 1, rp_maximum_absolute_delta_units = Fl 100,
                 rp_maximum_hedges_per_session = 10, rp_maximum_option_relative_spread = 1,
                 rp_maximum_quote_age_seconds = Fl 60, rp_stale_data_lockout = True,
                 rp_missing_contract_lockout = True, rp_reconciliation_lockout = True,
                 rp_manual_kill_switch = True\<rparr>\<rparr>"

lemma demo_strategy_parts:
  "validate_underlying (sc_underlying demo_strategy) = Inr ()"
  "validate_signal (sc_signal demo_strategy) = Inr ()"
  "validate_entry demo_zones (sc_entry demo_strategy) = Inr ()"
  "validate_session_bounds (sc_expiry demo_strategy) = Inr ()"
  "validate_tie_breakers (sc_strike demo_strategy) = Inr ()"
  "validate_position (sc_position demo_strategy) = Inr ()"
  "validate_precedence (sc_exit demo_strategy) = Inr ()"
  by (simp_all add: demo_strategy_def demo_zones_def validate_underlying_def validate_signal_def
      validate_entry_def validate_session_bounds_def validate_tie_breakers_def validate_position_def
      validate_precedence_def)

lemma demo_strategy_fields:
  "sc_schema_version demo_strategy = 1" "sc_strategy_version demo_strategy = 1"
  "sc_strategy_id demo_strategy = ''nifty-long-gamma-straddle''" "sc_mode demo_strategy = ''simulation''"
  "sg_forecast_horizon_sessions (sc_signal demo_strategy) = 1"
  "ex_holding_horizon_sessions (sc_expiry demo_strategy) = 1"
  "ps_maximum_concurrent_positions (sc_position demo_strategy) = 1"
  "rp_maximum_concurrent_positions (sc_risk demo_strategy) = 1"
  by (simp_all add: demo_strategy_def)

lemma demo_strategy_hedging: "validate_benchmarks (sc_hedging demo_strategy) = Inr ()"
  by (simp add: demo_strategy_def validate_benchmarks_def validate_fixed_interval_def
      validate_delta_threshold_def validate_boundaries_def validate_whalley_wilmott_def
      float_ops hedge_policy_ids_def)

lemma demo_strategy_risk: "validate_risk_policy (sc_risk demo_strategy) = Inr ()"
  by (simp add: demo_strategy_def validate_risk_policy_def fraction_def float_ops)

lemma demo_strategy_valid: "validate_strategy_contract demo_zones demo_strategy = Inr demo_strategy"
  unfolding validate_strategy_contract_def
  by (simp add: demo_strategy_parts demo_strategy_hedging demo_strategy_risk demo_strategy_fields)


text \<open>The registry returns the first contract with the requested identity and version, and
  raises \<open>KeyError\<close> exactly when no contract has it.\<close>

theorem registry_get_first_match:
  "(\<forall>c. registry_get contracts sid ver = Inr c \<longrightarrow>
      (\<exists>before after. contracts = before @ c # after \<and> sc_strategy_id c = sid \<and> sc_strategy_version c = ver
         \<and> (\<forall>b \<in> set before. sc_strategy_id b \<noteq> sid \<or> sc_strategy_version b \<noteq> ver)))
   \<and> ((\<exists>msg. registry_get contracts sid ver = Inl (KeyError msg))
      \<longleftrightarrow> (\<forall>c \<in> set contracts. sc_strategy_id c \<noteq> sid \<or> sc_strategy_version c \<noteq> ver))"
proof (intro conjI allI impI)
  fix c assume "registry_get contracts sid ver = Inr c"
  then have "find (\<lambda>c. sc_strategy_id c = sid \<and> sc_strategy_version c = ver) contracts = Some c"
    by (simp add: registry_get_def result_simps)
  then show "\<exists>before after. contracts = before @ c # after \<and> sc_strategy_id c = sid \<and> sc_strategy_version c = ver
         \<and> (\<forall>b \<in> set before. sc_strategy_id b \<noteq> sid \<or> sc_strategy_version b \<noteq> ver)"
  proof (induction contracts)
    case (Cons x xs)
    show ?case
    proof (cases "sc_strategy_id x = sid \<and> sc_strategy_version x = ver")
      case True
      with Cons.prems have "c = x" by simp
      with True show ?thesis by (intro exI [of _ "[]"] exI [of _ xs]) simp
    next
      case False
      with Cons.prems Cons.IH obtain before after where "xs = before @ c # after"
        "sc_strategy_id c = sid \<and> sc_strategy_version c = ver"
        "\<forall>b \<in> set before. sc_strategy_id b \<noteq> sid \<or> sc_strategy_version b \<noteq> ver" by auto
      with False show ?thesis by (intro exI [of _ "x # before"] exI [of _ after]) auto
    qed
  qed simp
next
  show "(\<exists>msg. registry_get contracts sid ver = Inl (KeyError msg))
      \<longleftrightarrow> (\<forall>c \<in> set contracts. sc_strategy_id c \<noteq> sid \<or> sc_strategy_version c \<noteq> ver)"
  proof -
    have "(\<exists>msg. registry_get contracts sid ver = Inl (KeyError msg))
        \<longleftrightarrow> find (\<lambda>c. sc_strategy_id c = sid \<and> sc_strategy_version c = ver) contracts = None"
      by (cases "find (\<lambda>c. sc_strategy_id c = sid \<and> sc_strategy_version c = ver) contracts")
        (simp_all add: registry_get_def)
    also have "\<dots> \<longleftrightarrow> (\<forall>c \<in> set contracts. sc_strategy_id c \<noteq> sid \<or> sc_strategy_version c \<noteq> ver)"
      unfolding find_None_iff by blast
    finally show ?thesis .
  qed
qed

theorem registry_get_first_match_witness:
  "registry_get [demo_strategy] ''nifty-long-gamma-straddle'' 1 = Inr demo_strategy
   \<and> (\<exists>before after. [demo_strategy] = before @ demo_strategy # after)"
proof -
  have "registry_get [demo_strategy] ''nifty-long-gamma-straddle'' 1 = Inr demo_strategy"
    by (simp add: registry_get_def demo_strategy_def)
  with registry_get_first_match [of "[demo_strategy]" "''nifty-long-gamma-straddle''" 1]
  show ?thesis by blast
qed

end
