(* ===== verification/Hedging.thy ===== *)
theory Hedging
  imports Strategy
begin

text \<open>
  \<open>app/hedging\<close>: the policy state and decision records (\<open>models.py\<close>), the trade and hold
  decisions and the four simple policies (\<open>policies.py\<close>), and the Whalley-Wilmott band
  (\<open>whalley_wilmott.py\<close>).

  A policy object is a value of \<open>hedge_policy\<close>, built by the constructors' checks, and \<open>decide\<close>
  dispatches on it. The locale \<open>hedging_rule\<close> is what the engine relies on in any policy: the
  decision describes the state it was taken in, inside the no-trade region it holds, and outside
  it is a trade towards a target. The locale is interpreted for each of the five policies.
\<close>

section \<open>States and decisions\<close>

record hedge_policy_state =
  hs_timestamp :: pydatetime
  hs_step_index :: int
  hs_session_index :: int
  hs_current_option_delta :: pyfloat
  hs_current_hedge_delta :: pyfloat
  hs_current_net_delta :: pyfloat
  hs_option_gamma :: pyfloat
  hs_spot :: pyfloat
  hs_time_to_expiry_years :: pyfloat
  hs_futures_delta_per_contract :: pyfloat
  hs_risk_free_rate :: pyfloat

definition make_hedge_policy_state :: "hedge_policy_state \<Rightarrow> hedge_policy_state result" where
  "make_hedge_policy_state s =
     rbind (guard (\<not> tz_aware (hs_timestamp s) \<or> hs_step_index s < 0 \<or> hs_session_index s < 0)
              (ValueError ''hedge policy timestamp and indexes are invalid'')) (\<lambda>_.
     rbind (guard (hs_spot s \<le> 0 \<or> hs_time_to_expiry_years s < 0 \<or> hs_futures_delta_per_contract s \<le> 0)
              (ValueError ''hedge policy market inputs are invalid'')) (\<lambda>_.
     Inr s))"

record hedge_decision =
  hd_timestamp :: pydatetime
  hd_policy_id :: string
  hd_option_delta_before_decision :: pyfloat
  hd_hedge_delta_before_decision :: pyfloat
  hd_net_delta_before_decision :: pyfloat
  hd_target_net_delta :: pyfloat
  hd_lower_boundary :: "pyfloat option"
  hd_upper_boundary :: "pyfloat option"
  hd_action :: string
  hd_continuous_target_futures_quantity :: pyfloat
  hd_rounded_requested_futures_quantity :: int
  hd_executed_futures_quantity :: int
  hd_option_delta_after_fill :: pyfloat
  hd_hedge_delta_after_fill :: pyfloat
  hd_net_delta_after_fill :: pyfloat
  hd_quantity_rounding_residual_delta :: pyfloat
  hd_portfolio_value_before_fill :: "decimal option"
  hd_portfolio_value_after_fill :: "decimal option"
  hd_session_hedge_count :: int
  hd_total_hedge_count :: int
  hd_reason_code :: string

section \<open>Trading and holding\<close>

text \<open>\<open>int(Decimal(str(x)).quantize(Decimal("1")))\<close>; a quiet NaN only fails in \<open>int\<close>.\<close>

definition rounded_quantity :: "pyfloat \<Rightarrow> int result" where
  "rounded_quantity x =
     (if x = NaN then Inl (ValueError ''cannot convert NaN to integer'')
      else rbind (decimal_of_float x) (\<lambda>d. rbind (quantize 0 d) (\<lambda>q. Inr \<lfloor>dval q\<rfloor>)))"

definition trade_to_target ::
  "hedge_policy_state \<Rightarrow> string \<Rightarrow> pyfloat \<Rightarrow> pyfloat option \<Rightarrow> pyfloat option \<Rightarrow> string
   \<Rightarrow> hedge_decision result" where
  "trade_to_target s policy_id target lower upper reason =
     rbind (float_div (target - hs_current_net_delta s) (hs_futures_delta_per_contract s)) (\<lambda>continuous.
     rbind (rounded_quantity continuous) (\<lambda>requested.
     let residual = hs_current_net_delta s + float_of_int requested * hs_futures_delta_per_contract s in
     if requested = 0
     then Inr \<lparr>hd_timestamp = hs_timestamp s, hd_policy_id = policy_id,
               hd_option_delta_before_decision = hs_current_option_delta s,
               hd_hedge_delta_before_decision = hs_current_hedge_delta s,
               hd_net_delta_before_decision = hs_current_net_delta s,
               hd_target_net_delta = target, hd_lower_boundary = lower, hd_upper_boundary = upper,
               hd_action = ''hold'', hd_continuous_target_futures_quantity = continuous,
               hd_rounded_requested_futures_quantity = 0, hd_executed_futures_quantity = 0,
               hd_option_delta_after_fill = hs_current_option_delta s,
               hd_hedge_delta_after_fill = hs_current_hedge_delta s,
               hd_net_delta_after_fill = residual,
               hd_quantity_rounding_residual_delta = residual - target,
               hd_portfolio_value_before_fill = None, hd_portfolio_value_after_fill = None,
               hd_session_hedge_count = 0, hd_total_hedge_count = 0,
               hd_reason_code = ''rounded_quantity_zero''\<rparr>
     else Inr \<lparr>hd_timestamp = hs_timestamp s, hd_policy_id = policy_id,
               hd_option_delta_before_decision = hs_current_option_delta s,
               hd_hedge_delta_before_decision = hs_current_hedge_delta s,
               hd_net_delta_before_decision = hs_current_net_delta s,
               hd_target_net_delta = target, hd_lower_boundary = lower, hd_upper_boundary = upper,
               hd_action = (if 0 < requested then ''buy_hedge'' else ''sell_hedge''),
               hd_continuous_target_futures_quantity = continuous,
               hd_rounded_requested_futures_quantity = requested,
               hd_executed_futures_quantity = requested,
               hd_option_delta_after_fill = hs_current_option_delta s,
               hd_hedge_delta_after_fill =
                 hs_current_hedge_delta s + float_of_int requested * hs_futures_delta_per_contract s,
               hd_net_delta_after_fill = residual,
               hd_quantity_rounding_residual_delta = residual - target,
               hd_portfolio_value_before_fill = None, hd_portfolio_value_after_fill = None,
               hd_session_hedge_count = 0, hd_total_hedge_count = 0,
               hd_reason_code = reason\<rparr>))"

definition hold_decision ::
  "hedge_policy_state \<Rightarrow> string \<Rightarrow> pyfloat \<Rightarrow> pyfloat option \<Rightarrow> pyfloat option \<Rightarrow> string
   \<Rightarrow> hedge_decision" where
  "hold_decision s policy_id target lower upper reason =
     \<lparr>hd_timestamp = hs_timestamp s, hd_policy_id = policy_id,
      hd_option_delta_before_decision = hs_current_option_delta s,
      hd_hedge_delta_before_decision = hs_current_hedge_delta s,
      hd_net_delta_before_decision = hs_current_net_delta s,
      hd_target_net_delta = target, hd_lower_boundary = lower, hd_upper_boundary = upper,
      hd_action = ''hold'', hd_continuous_target_futures_quantity = 0,
      hd_rounded_requested_futures_quantity = 0, hd_executed_futures_quantity = 0,
      hd_option_delta_after_fill = hs_current_option_delta s,
      hd_hedge_delta_after_fill = hs_current_hedge_delta s,
      hd_net_delta_after_fill = hs_current_net_delta s,
      hd_quantity_rounding_residual_delta = hs_current_net_delta s - target,
      hd_portfolio_value_before_fill = None, hd_portfolio_value_after_fill = None,
      hd_session_hedge_count = 0, hd_total_hedge_count = 0, hd_reason_code = reason\<rparr>"

definition force_delta_reduction :: "hedge_policy_state \<Rightarrow> string \<Rightarrow> hedge_decision result" where
  "force_delta_reduction s policy_id =
     trade_to_target s policy_id 0 (Some 0) (Some 0) ''absolute_delta_forced_hedge''"

section \<open>The Whalley-Wilmott band\<close>

record whalley_wilmott_band =
  wb_raw_half_width_delta_units :: pyfloat
  wb_half_width_delta_units :: pyfloat
  wb_lower_net_delta_units :: pyfloat
  wb_upper_net_delta_units :: pyfloat
  wb_capped :: bool

definition whalley_wilmott_half_band ::
  "libm \<Rightarrow> pyfloat \<Rightarrow> pyfloat \<Rightarrow> pyfloat \<Rightarrow> pyfloat \<Rightarrow> pyfloat result" where
  "whalley_wilmott_half_band L transaction_cost_rate spot_inr portfolio_gamma risk_aversion =
     rbind (guard (\<not> list_all isfinite [transaction_cost_rate, spot_inr, portfolio_gamma, risk_aversion])
              (ValueError ''Whalley-Wilmott inputs must be finite'')) (\<lambda>_.
     rbind (guard (transaction_cost_rate < 0 \<or> portfolio_gamma < 0)
              (ValueError ''transaction cost and portfolio gamma must be non-negative'')) (\<lambda>_.
     rbind (guard (risk_aversion \<le> 0 \<or> spot_inr \<le> 0)
              (ValueError ''risk aversion and spot must be positive'')) (\<lambda>_.
     rbind (m_pow L portfolio_gamma (Fl 2)) (\<lambda>gamma_squared.
     rbind (float_div (Fl 3 * transaction_cost_rate * spot_inr * gamma_squared) (Fl 2 * risk_aversion))
       (m_cbrt L)))))"

definition make_whalley_wilmott_band ::
  "libm \<Rightarrow> pyfloat \<Rightarrow> pyfloat \<Rightarrow> pyfloat \<Rightarrow> pyfloat \<Rightarrow> pyfloat \<Rightarrow> whalley_wilmott_band result" where
  "make_whalley_wilmott_band L transaction_cost_rate risk_aversion spot_inr portfolio_gamma maximum_half_width =
     rbind (guard (\<not> isfinite maximum_half_width \<or> maximum_half_width \<le> 0)
              (ValueError ''maximum half-width must be positive and finite'')) (\<lambda>_.
     rbind (whalley_wilmott_half_band L transaction_cost_rate spot_inr portfolio_gamma risk_aversion) (\<lambda>raw.
     let half_width = pymin raw maximum_half_width in
     Inr \<lparr>wb_raw_half_width_delta_units = raw, wb_half_width_delta_units = half_width,
          wb_lower_net_delta_units = - half_width, wb_upper_net_delta_units = half_width,
          wb_capped = half_width < raw\<rparr>))"

section \<open>The policies\<close>

datatype hedge_policy =
    NoHedgePolicy
  | FixedIntervalPolicy int pyfloat
  | DeltaThresholdPolicy pyfloat pyfloat
  | ConstantBandPolicy pyfloat pyfloat
  | WhalleyWilmottPolicy whalley_wilmott_parameters

definition decide_fixed_interval ::
  "int \<Rightarrow> pyfloat \<Rightarrow> hedge_policy_state \<Rightarrow> hedge_decision result" where
  "decide_fixed_interval interval_steps target s =
     (if hs_step_index s mod interval_steps \<noteq> 0
      then Inr (hold_decision s ''fixed_interval'' target None None ''outside_scheduled_step'')
      else trade_to_target s ''fixed_interval'' target None None ''scheduled_rebalance'')"

definition decide_delta_threshold ::
  "pyfloat \<Rightarrow> pyfloat \<Rightarrow> hedge_policy_state \<Rightarrow> hedge_decision result" where
  "decide_delta_threshold maximum target s =
     (if \<bar>hs_current_net_delta s\<bar> \<le> maximum
      then Inr (hold_decision s ''delta_threshold'' target (Some (- maximum)) (Some maximum)
                  ''inside_delta_threshold'')
      else trade_to_target s ''delta_threshold'' target (Some (- maximum)) (Some maximum)
             ''delta_threshold_breached'')"

definition decide_constant_band ::
  "pyfloat \<Rightarrow> pyfloat \<Rightarrow> hedge_policy_state \<Rightarrow> hedge_decision result" where
  "decide_constant_band lower upper s =
     (if lower \<le> hs_current_net_delta s \<and> hs_current_net_delta s \<le> upper
      then Inr (hold_decision s ''constant_band'' (hs_current_net_delta s) (Some lower) (Some upper)
                  ''inside_constant_band'')
      else trade_to_target s ''constant_band'' (if hs_current_net_delta s < lower then lower else upper)
             (Some lower) (Some upper) ''constant_band_breached'')"

definition decide_whalley_wilmott ::
  "libm \<Rightarrow> whalley_wilmott_parameters \<Rightarrow> hedge_policy_state \<Rightarrow> hedge_decision result" where
  "decide_whalley_wilmott L params s =
     rbind (make_whalley_wilmott_band L (ww_transaction_cost_rate params) (ww_risk_aversion_per_inr params)
              (hs_spot s) \<bar>hs_option_gamma s\<bar> (ww_maximum_half_width_delta_units params)) (\<lambda>band.
     let lower = wb_lower_net_delta_units band; upper = wb_upper_net_delta_units band in
     if lower \<le> hs_current_net_delta s \<and> hs_current_net_delta s \<le> upper
     then Inr (hold_decision s ''whalley_wilmott'' (hs_current_net_delta s) (Some lower) (Some upper)
                 ''inside_whalley_wilmott_band'')
     else trade_to_target s ''whalley_wilmott'' (if hs_current_net_delta s < lower then lower else upper)
            (Some lower) (Some upper) ''whalley_wilmott_band_breached'')"

fun decide :: "libm \<Rightarrow> hedge_policy \<Rightarrow> hedge_policy_state \<Rightarrow> hedge_decision result" where
  "decide L NoHedgePolicy s =
     Inr (hold_decision s ''no_hedge'' (hs_current_net_delta s) None None ''policy_never_hedges'')"
| "decide L (FixedIntervalPolicy interval_steps target) s = decide_fixed_interval interval_steps target s"
| "decide L (DeltaThresholdPolicy maximum target) s = decide_delta_threshold maximum target s"
| "decide L (ConstantBandPolicy lower upper) s = decide_constant_band lower upper s"
| "decide L (WhalleyWilmottPolicy params) s = decide_whalley_wilmott L params s"

definition make_fixed_interval_policy :: "int \<Rightarrow> pyfloat \<Rightarrow> hedge_policy result" where
  "make_fixed_interval_policy interval_steps target =
     rbind (guard (interval_steps \<le> 0) (ValueError ''fixed hedge interval must be positive'')) (\<lambda>_.
     Inr (FixedIntervalPolicy interval_steps target))"

definition make_delta_threshold_policy :: "pyfloat \<Rightarrow> pyfloat \<Rightarrow> hedge_policy result" where
  "make_delta_threshold_policy maximum target =
     rbind (guard (maximum < 0) (ValueError ''delta threshold must be non-negative'')) (\<lambda>_.
     Inr (DeltaThresholdPolicy maximum target))"

definition make_constant_band_policy :: "pyfloat \<Rightarrow> pyfloat \<Rightarrow> hedge_policy result" where
  "make_constant_band_policy lower upper =
     rbind (guard (upper \<le> lower) (ValueError ''constant hedge band is invalid'')) (\<lambda>_.
     Inr (ConstantBandPolicy lower upper))"

definition build_hedge_policy :: "string \<Rightarrow> hedging_config \<Rightarrow> hedge_policy result" where
  "build_hedge_policy policy_id config =
     rbind (guard (policy_id \<notin> set (hc_benchmark_policies config))
              (ValueError (''unsupported hedge policy: '' @ policy_id))) (\<lambda>_.
     if policy_id = ''no_hedge'' then Inr NoHedgePolicy
     else if policy_id = ''fixed_interval''
     then make_fixed_interval_policy (fi_interval_steps (hc_fixed_interval config))
            (fi_target_net_delta_units (hc_fixed_interval config))
     else if policy_id = ''delta_threshold''
     then make_delta_threshold_policy (dt_maximum_absolute_net_delta_units (hc_delta_threshold config))
            (dt_target_net_delta_units (hc_delta_threshold config))
     else if policy_id = ''constant_band''
     then make_constant_band_policy (cb_lower_net_delta_units (hc_constant_band config))
            (cb_upper_net_delta_units (hc_constant_band config))
     else if policy_id = ''whalley_wilmott'' then Inr (WhalleyWilmottPolicy (hc_whalley_wilmott config))
     else Inl (ValueError (''unsupported hedge policy: '' @ policy_id)))"


section \<open>Rounding to whole contracts\<close>

lemma rounded_quantity_cases:
  assumes "rounded_quantity x = Inr q"
  obtains d where "decimal_of_float x = Inr d" and "q = round_half_even (dval d)"
  using assms
  by (auto simp: rounded_quantity_def quantize_def result_simps Let_def split: if_splits)

lemma wf_float_div: "float_div x y = Inr z \<Longrightarrow> wf_float z"
proof (cases y)
  case (Fl b)
  then show "float_div x y = Inr z \<Longrightarrow> wf_float z"
    by (cases x) (auto simp: inf_of_sign_def split: if_splits)
qed (auto simp: wf_zero split: pyfloat.splits)

lemma decimal_sign:
  assumes "wf_float x" and "decimal_of_float x = Inr d"
  shows "0 < dval d \<Longrightarrow> 0 < x" and "dval d < 0 \<Longrightarrow> x < 0"
proof -
  have z: "wf_float 0" "decimal_of_float 0 = Inr 0"
    by (auto simp: zero_pyfloat_def wf_zero zero_decimal_def)
  have n: "x \<noteq> NaN" using assms(2) by (auto simp: decimal_of_float_def)
  have zn: "(0::pyfloat) \<noteq> NaN" by (simp add: zero_pyfloat_def)
  show "0 < dval d \<Longrightarrow> 0 < x"
    using decimal_of_float_mono [OF assms(1) z(1) _ assms(2) z(2)] float_not_less [OF zn n]
    by (auto simp: decimal_ops)
  show "dval d < 0 \<Longrightarrow> x < 0"
    using decimal_of_float_mono [OF z(1) assms(1) _ z(2) assms(2)] float_not_less [OF n zn]
    by (auto simp: decimal_ops)
qed

lemma float_div_sign:
  assumes "float_div x y = Inr z" and "0 < y"
  shows "0 < z \<Longrightarrow> 0 < x" and "z < 0 \<Longrightarrow> x < 0"
proof -
  have neg: "0 < float_of_rat q \<Longrightarrow> 0 < q" "float_of_rat q < 0 \<Longrightarrow> q < 0" for q
    using float_of_rat_nonpos [of q] float_of_rat_nonneg [of q]
    by (auto simp: not_less [symmetric] dest: float_less_asym)
      (metis float_less_irrefl float_of_rat_not_NaN float_not_less zero_pyfloat_def pyfloat.distinct(6) linorder_not_less)+
  show "0 < z \<Longrightarrow> 0 < x" "z < 0 \<Longrightarrow> x < 0"
    using assms neg
    by (cases x; cases y; force simp: zero_pyfloat_def less_pyfloat_def inf_of_sign_def
        zero_less_divide_iff divide_less_0_iff split: if_splits)+
qed

lemma float_diff_sign:
  fixes a b :: pyfloat
  shows "0 < a - b \<Longrightarrow> b < a" and "a - b < 0 \<Longrightarrow> a < b"
proof -
  have "0 < float_of_rat q \<Longrightarrow> 0 < q" "float_of_rat q < 0 \<Longrightarrow> q < 0" for q
    using float_div_sign [of "Fl q" 1 "float_of_rat q"] by (simp_all add: float_ops)
  then show "0 < a - b \<Longrightarrow> b < a" "a - b < 0 \<Longrightarrow> a < b"
    by (cases a; cases b; force simp: float_ops)+
qed

lemma trade_direction:
  assumes d: "trade_to_target s pid target lo hi r = Inr d" and pos: "0 < hs_futures_delta_per_contract s"
  shows "0 < hd_rounded_requested_futures_quantity d \<Longrightarrow> hs_current_net_delta s < target"
    and "hd_rounded_requested_futures_quantity d < 0 \<Longrightarrow> target < hs_current_net_delta s"
proof -
  from d obtain c where c: "float_div (target - hs_current_net_delta s) (hs_futures_delta_per_contract s) = Inr c"
    "rounded_quantity c = Inr (hd_rounded_requested_futures_quantity d)"
    by (auto simp: trade_to_target_def Let_def result_simps split: if_splits)
  from rounded_quantity_cases [OF c(2)] obtain x where x: "decimal_of_float c = Inr x"
    "hd_rounded_requested_futures_quantity d = round_half_even (dval x)" .
  note signs = decimal_sign [OF wf_float_div [OF c(1)] x(1)] float_div_sign [OF c(1) pos] float_diff_sign
  show "hs_current_net_delta s < target" if "0 < hd_rounded_requested_futures_quantity d"
  proof -
    from that x(2) round_half_even_mono [of "dval x" 0] have "0 < dval x" by fastforce
    then show ?thesis by (rule signs(5) [OF signs(3) [OF signs(1)]])
  qed
  show "target < hs_current_net_delta s" if "hd_rounded_requested_futures_quantity d < 0"
  proof -
    from that x(2) round_half_even_mono [of 0 "dval x"] have "dval x < 0" by fastforce
    then show ?thesis by (rule signs(6) [OF signs(4) [OF signs(2)]])
  qed
qed

section \<open>The contract of a policy\<close>

text \<open>A decision describes the state it was taken in and is consistent in itself.\<close>

definition decision_of :: "hedge_policy_state \<Rightarrow> string \<Rightarrow> hedge_decision \<Rightarrow> bool" where
  "decision_of s pid d \<longleftrightarrow>
     hd_timestamp d = hs_timestamp s \<and> hd_policy_id d = pid
     \<and> hd_option_delta_before_decision d = hs_current_option_delta s
     \<and> hd_hedge_delta_before_decision d = hs_current_hedge_delta s
     \<and> hd_net_delta_before_decision d = hs_current_net_delta s
     \<and> hd_option_delta_after_fill d = hs_current_option_delta s
     \<and> hd_executed_futures_quantity d = hd_rounded_requested_futures_quantity d
     \<and> hd_action d = (if 0 < hd_rounded_requested_futures_quantity d then ''buy_hedge''
                      else if hd_rounded_requested_futures_quantity d < 0 then ''sell_hedge'' else ''hold'')
     \<and> (hd_rounded_requested_futures_quantity d \<noteq> 0 \<longrightarrow>
          hd_net_delta_after_fill d = hs_current_net_delta s
            + float_of_int (hd_rounded_requested_futures_quantity d) * hs_futures_delta_per_contract s
          \<and> hd_hedge_delta_after_fill d = hs_current_hedge_delta s
            + float_of_int (hd_rounded_requested_futures_quantity d) * hs_futures_delta_per_contract s)
     \<and> hd_portfolio_value_before_fill d = None \<and> hd_portfolio_value_after_fill d = None"

lemma trade_decision_of:
  "trade_to_target s pid target lo hi r = Inr d \<Longrightarrow> decision_of s pid d \<and> hd_target_net_delta d = target"
  by (auto simp: trade_to_target_def decision_of_def Let_def result_simps split: if_splits)

lemma hold_decision_of: "decision_of s pid (hold_decision s pid target lo hi r)"
  by (simp add: hold_decision_def decision_of_def)

locale hedging_rule =
  fixes rule :: "hedge_policy_state \<Rightarrow> hedge_decision result"
    and pid :: string
    and quiet :: "hedge_policy_state \<Rightarrow> bool"
  assumes quiet_holds: "quiet s \<Longrightarrow> rule s = Inr d \<Longrightarrow> \<exists>t lo hi r. d = hold_decision s pid t lo hi r"
    and loud_trades: "\<not> quiet s \<Longrightarrow> rule s = Inr d \<Longrightarrow> \<exists>t lo hi r. trade_to_target s pid t lo hi r = Inr d"
begin

lemma rule_decision: "rule s = Inr d \<Longrightarrow> decision_of s pid d"
  using quiet_holds [of s d] loud_trades [of s d] trade_decision_of hold_decision_of
  by (cases "quiet s") blast+

lemma quiet_quantity: "quiet s \<Longrightarrow> rule s = Inr d \<Longrightarrow>
    hd_rounded_requested_futures_quantity d = 0 \<and> hd_net_delta_after_fill d = hs_current_net_delta s"
  using quiet_holds [of s d] by (auto simp: hold_decision_def)

lemma rule_direction:
  assumes "rule s = Inr d" and "0 < hs_futures_delta_per_contract s"
  shows "0 < hd_rounded_requested_futures_quantity d \<Longrightarrow> \<not> quiet s \<and> hs_current_net_delta s < hd_target_net_delta d"
    and "hd_rounded_requested_futures_quantity d < 0 \<Longrightarrow> \<not> quiet s \<and> hd_target_net_delta d < hs_current_net_delta s"
proof -
  have "\<not> quiet s \<Longrightarrow> \<exists>lo hi r. trade_to_target s pid (hd_target_net_delta d) lo hi r = Inr d"
    using loud_trades [OF _ assms(1)] trade_decision_of by metis
  with trade_direction [OF _ assms(2)] quiet_quantity [OF _ assms(1)]
  show "0 < hd_rounded_requested_futures_quantity d \<Longrightarrow> \<not> quiet s \<and> hs_current_net_delta s < hd_target_net_delta d"
    "hd_rounded_requested_futures_quantity d < 0 \<Longrightarrow> \<not> quiet s \<and> hd_target_net_delta d < hs_current_net_delta s"
    by (metis less_irrefl)+
qed

end

interpretation no_hedge: hedging_rule "decide L NoHedgePolicy" "''no_hedge''" "\<lambda>_. True" for L
  by unfold_locales auto

interpretation fixed_interval: hedging_rule "decide L (FixedIntervalPolicy n t)" "''fixed_interval''"
    "\<lambda>s. hs_step_index s mod n \<noteq> 0" for L n t
  by unfold_locales (auto simp: decide_fixed_interval_def)

interpretation delta_threshold: hedging_rule "decide L (DeltaThresholdPolicy m t)" "''delta_threshold''"
    "\<lambda>s. \<bar>hs_current_net_delta s\<bar> \<le> m" for L m t
  by unfold_locales (auto simp: decide_delta_threshold_def)

interpretation constant_band: hedging_rule "decide L (ConstantBandPolicy lower upper)" "''constant_band''"
    "\<lambda>s. lower \<le> hs_current_net_delta s \<and> hs_current_net_delta s \<le> upper" for L lower upper
  by unfold_locales (simp_all add: decide_constant_band_def split: if_splits, blast+)

definition band_at :: "libm \<Rightarrow> whalley_wilmott_parameters \<Rightarrow> hedge_policy_state \<Rightarrow> whalley_wilmott_band result" where
  "band_at L params s =
     make_whalley_wilmott_band L (ww_transaction_cost_rate params) (ww_risk_aversion_per_inr params)
       (hs_spot s) \<bar>hs_option_gamma s\<bar> (ww_maximum_half_width_delta_units params)"

definition in_band :: "whalley_wilmott_band result \<Rightarrow> pyfloat \<Rightarrow> bool" where
  "in_band b x \<longleftrightarrow>
     (case b of Inl _ \<Rightarrow> False
      | Inr w \<Rightarrow> wb_lower_net_delta_units w \<le> x \<and> x \<le> wb_upper_net_delta_units w)"

interpretation whalley_wilmott: hedging_rule "decide L (WhalleyWilmottPolicy params)" "''whalley_wilmott''"
    "\<lambda>s. in_band (band_at L params s) (hs_current_net_delta s)" for L params
  by unfold_locales
    (auto simp: decide_whalley_wilmott_def band_at_def [symmetric] in_band_def Let_def result_simps
      split: if_splits)

text \<open>Where a policy does not trade.\<close>

fun no_trade_region :: "libm \<Rightarrow> hedge_policy \<Rightarrow> hedge_policy_state \<Rightarrow> bool" where
  "no_trade_region L NoHedgePolicy s \<longleftrightarrow> True"
| "no_trade_region L (FixedIntervalPolicy n t) s \<longleftrightarrow> hs_step_index s mod n \<noteq> 0"
| "no_trade_region L (DeltaThresholdPolicy m t) s \<longleftrightarrow> \<bar>hs_current_net_delta s\<bar> \<le> m"
| "no_trade_region L (ConstantBandPolicy lower upper) s \<longleftrightarrow>
     lower \<le> hs_current_net_delta s \<and> hs_current_net_delta s \<le> upper"
| "no_trade_region L (WhalleyWilmottPolicy params) s \<longleftrightarrow>
     in_band (band_at L params s) (hs_current_net_delta s)"

fun policy_name :: "hedge_policy \<Rightarrow> string" where
  "policy_name NoHedgePolicy = ''no_hedge''"
| "policy_name (FixedIntervalPolicy _ _) = ''fixed_interval''"
| "policy_name (DeltaThresholdPolicy _ _) = ''delta_threshold''"
| "policy_name (ConstantBandPolicy _ _) = ''constant_band''"
| "policy_name (WhalleyWilmottPolicy _) = ''whalley_wilmott''"

lemma no_trade_region_fun:
  "no_trade_region L NoHedgePolicy = (\<lambda>_. True)"
  "no_trade_region L (FixedIntervalPolicy n t) = (\<lambda>s. hs_step_index s mod n \<noteq> 0)"
  "no_trade_region L (DeltaThresholdPolicy m t) = (\<lambda>s. \<bar>hs_current_net_delta s\<bar> \<le> m)"
  "no_trade_region L (ConstantBandPolicy lower upper)
     = (\<lambda>s. lower \<le> hs_current_net_delta s \<and> hs_current_net_delta s \<le> upper)"
  "no_trade_region L (WhalleyWilmottPolicy params)
     = (\<lambda>s. in_band (band_at L params s) (hs_current_net_delta s))"
  by (simp_all add: fun_eq_iff)

lemma decide_is_rule: "hedging_rule (decide L p) (policy_name p) (no_trade_region L p)"
  using no_hedge.hedging_rule_axioms fixed_interval.hedging_rule_axioms delta_threshold.hedging_rule_axioms
    constant_band.hedging_rule_axioms whalley_wilmott.hedging_rule_axioms
  by (cases p) (simp_all only: no_trade_region_fun policy_name.simps)

interpretation policy: hedging_rule "decide L p" "policy_name p" "no_trade_region L p" for L p
  by (rule decide_is_rule)

lemma build_hedge_policy_name: "build_hedge_policy pid c = Inr p \<Longrightarrow> policy_name p = pid"
  by (auto simp: build_hedge_policy_def make_fixed_interval_policy_def make_delta_threshold_policy_def
      make_constant_band_policy_def result_simps split: if_splits)


section \<open>Properties\<close>

text \<open>C18. Every policy trades only outside its no-trade region and only towards its target. The
  decision is consistent: buy, sell and hold match the sign of the requested quantity, the
  executed quantity is the requested one, and the predicted delta of a trade is the net delta plus
  the contracts traded. Inside the region the decision is to hold with the delta unchanged.\<close>

theorem decision_trades_outside_region:
  assumes "decide L p s = Inr d" and "0 < hs_futures_delta_per_contract s"
  shows "decision_of s (policy_name p) d
    \<and> (no_trade_region L p s \<longrightarrow>
         hd_action d = ''hold'' \<and> hd_net_delta_after_fill d = hs_current_net_delta s)
    \<and> (hd_action d = ''buy_hedge'' \<longrightarrow>
         \<not> no_trade_region L p s \<and> hs_current_net_delta s < hd_target_net_delta d)
    \<and> (hd_action d = ''sell_hedge'' \<longrightarrow>
         \<not> no_trade_region L p s \<and> hd_target_net_delta d < hs_current_net_delta s)"
proof -
  have d: "decision_of s (policy_name p) d" by (rule policy.rule_decision [OF assms(1)])
  then have act: "hd_action d = (if 0 < hd_rounded_requested_futures_quantity d then ''buy_hedge''
      else if hd_rounded_requested_futures_quantity d < 0 then ''sell_hedge'' else ''hold'')"
    by (simp only: decision_of_def)
  consider "0 < hd_rounded_requested_futures_quantity d" | "hd_rounded_requested_futures_quantity d < 0"
    | "hd_rounded_requested_futures_quantity d = 0" by linarith
  then show ?thesis
  proof cases
    case 1
    with act policy.rule_direction(1) [OF assms 1] d show ?thesis by simp
  next
    case 2
    with act policy.rule_direction(2) [OF assms 2] d show ?thesis by simp
  next
    case 3
    with act policy.quiet_quantity [OF _ assms(1)] d show ?thesis by simp
  qed
qed

definition demo_hedge_state :: "pyfloat \<Rightarrow> hedge_policy_state" where
  "demo_hedge_state net =
     \<lparr>hs_timestamp = Aware 0 0, hs_step_index = 0, hs_session_index = 0, hs_current_option_delta = net,
      hs_current_hedge_delta = 0, hs_current_net_delta = net, hs_option_gamma = 1, hs_spot = Fl 100,
      hs_time_to_expiry_years = 1, hs_futures_delta_per_contract = 1, hs_risk_free_rate = 0\<rparr>"

lemmas hedge_eval =
  trade_to_target_def hold_decision_def rounded_quantity_def demo_hedge_state_def Let_def
  float_ops float_of_int_def quantize_def decimal_of_float_numeral

theorem decision_trades_outside_region_witness:
  "\<exists>d. decide flat_libm (ConstantBandPolicy (Fl (-10)) (Fl 10)) (demo_hedge_state (Fl (-14))) = Inr d
     \<and> hd_action d = ''buy_hedge'' \<and> hd_rounded_requested_futures_quantity d = 4
     \<and> Fl (-14) < hd_target_net_delta d"
proof -
  let ?p = "ConstantBandPolicy (Fl (-10)) (Fl 10)" and ?s = "demo_hedge_state (Fl (-14))"
  have "round_half_even 4 = 4" using round_half_even_of_int [of 4] by simp
  then have "\<exists>d. decide flat_libm ?p ?s = Inr d \<and> hd_action d = ''buy_hedge''
      \<and> hd_rounded_requested_futures_quantity d = 4"
    by (simp add: decide_constant_band_def hedge_eval)
  then obtain d where d: "decide flat_libm ?p ?s = Inr d" "hd_action d = ''buy_hedge''"
    "hd_rounded_requested_futures_quantity d = 4" by blast
  from decision_trades_outside_region [OF d(1)] d show ?thesis
    by (auto simp: demo_hedge_state_def float_ops)
qed

text \<open>The traded quantity is the nearest whole number of contracts to the continuous target
  quantity: the rounding error is at most half a contract, and a tie goes to the even number.\<close>

theorem trade_quantity_is_nearest:
  assumes "trade_to_target s pid target lower upper reason = Inr d"
  shows "\<exists>x. decimal_of_float (hd_continuous_target_futures_quantity d) = Inr x
     \<and> \<bar>dval x - of_int (hd_rounded_requested_futures_quantity d)\<bar> \<le> 1/2
     \<and> (\<bar>dval x - of_int (hd_rounded_requested_futures_quantity d)\<bar> < 1/2
        \<or> even (hd_rounded_requested_futures_quantity d))"
proof -
  from assms obtain q where q: "rounded_quantity (hd_continuous_target_futures_quantity d) = Inr q"
    "hd_rounded_requested_futures_quantity d = q"
    by (auto simp: trade_to_target_def Let_def result_simps split: if_splits)
  from rounded_quantity_cases [OF q(1)] obtain x
    where x: "decimal_of_float (hd_continuous_target_futures_quantity d) = Inr x" "q = round_half_even (dval x)" .
  have tie: "\<bar>dval x - of_int q\<bar> < 1/2 \<or> even q"
    unfolding x(2) round_half_even_def Let_def using floor_correct [of "dval x"]
    by (auto simp: abs_if) (meson of_int_floor_le not_le)
  have "\<bar>dval x - of_int q\<bar> \<le> 1/2"
    using round_half_even_near [of "dval x"] by (simp add: x(2) abs_minus_commute)
  with x(1) tie show ?thesis unfolding q(2) by (intro exI [of _ x] conjI)
qed

theorem trade_quantity_is_nearest_witness:
  "\<exists>d x. trade_to_target (demo_hedge_state (Fl 7)) ''demo'' 0 None None ''why'' = Inr d
     \<and> decimal_of_float (hd_continuous_target_futures_quantity d) = Inr x
     \<and> \<bar>dval x - of_int (hd_rounded_requested_futures_quantity d)\<bar> \<le> 1/2"
proof -
  have "round_half_even (- 7) = - 7" using round_half_even_of_int [of "- 7"] by simp
  moreover have "decimal_of_float (Fl (- 7)) = Inr (Dec (- 7))"
    using decimal_of_float_int [of "- 7"] by simp
  ultimately have "\<exists>d. trade_to_target (demo_hedge_state (Fl 7)) ''demo'' 0 None None ''why'' = Inr d"
    by (simp add: hedge_eval)
  then show ?thesis using trade_quantity_is_nearest by blast
qed

text \<open>A validated strategy can build exactly the five policies by their identifiers, and the
  object built has the requested policy identifier; any other identifier raises \<open>ValueError\<close>.\<close>

theorem validated_strategy_builds_policies:
  assumes "validate_strategy_contract zones c = Inr c'"
  shows "(if pid \<in> set hedge_policy_ids
          then \<exists>p. build_hedge_policy pid (sc_hedging c') = Inr p \<and> policy_name p = pid
          else \<exists>msg. build_hedge_policy pid (sc_hedging c') = Inl (ValueError msg))"
proof -
  have sound: "sound_strategy c'" using validated_strategy_sound [OF assms] by simp
  show ?thesis
  proof (cases "pid \<in> set hedge_policy_ids")
    case True
    have "\<not> dt_maximum_absolute_net_delta_units (hc_delta_threshold (sc_hedging c')) < 0"
      using sound float_le_not_less by (auto simp: sound_strategy_def)
    with True sound have "\<exists>p. build_hedge_policy pid (sc_hedging c') = Inr p"
      by (auto simp: build_hedge_policy_def sound_strategy_def hedge_policy_ids_def
          make_fixed_interval_policy_def make_delta_threshold_policy_def make_constant_band_policy_def)
    with True build_hedge_policy_name show ?thesis by auto
  next
    case False
    with sound show ?thesis by (auto simp: build_hedge_policy_def sound_strategy_def)
  qed
qed

theorem validated_strategy_builds_policies_witness:
  "\<exists>p. build_hedge_policy ''whalley_wilmott'' (sc_hedging demo_strategy) = Inr p
     \<and> policy_name p = ''whalley_wilmott''"
  using validated_strategy_builds_policies [OF demo_strategy_valid, of "''whalley_wilmott''"]
  by (simp add: hedge_policy_ids_def)

text \<open>The Whalley-Wilmott band is symmetric, never wider than the configured maximum and
  capped exactly when the raw width exceeds it. With a square and a cube root that do not turn a
  non-negative number negative (as the C library's), zero is inside the band. A band is only
  computed from finite inputs with a positive spot and risk aversion and non-negative cost.\<close>

theorem whalley_band_symmetric_and_capped:
  assumes "make_whalley_wilmott_band L rate aversion spot gamma maximum = Inr b"
    and "\<And>x y. m_pow L x (Fl 2) = Inr y \<Longrightarrow> \<not> y < 0"
    and "\<And>x y. \<not> x < 0 \<Longrightarrow> m_cbrt L x = Inr y \<Longrightarrow> \<not> y < 0"
  shows "wb_upper_net_delta_units b = wb_half_width_delta_units b
    \<and> wb_lower_net_delta_units b = - wb_half_width_delta_units b
    \<and> \<not> maximum < wb_half_width_delta_units b
    \<and> (wb_capped b \<longleftrightarrow> maximum < wb_raw_half_width_delta_units b)
    \<and> \<not> 0 < wb_lower_net_delta_units b \<and> \<not> wb_upper_net_delta_units b < 0
    \<and> isfinite spot \<and> 0 < spot \<and> isfinite aversion \<and> 0 < aversion \<and> isfinite rate \<and> 0 \<le> rate"
proof -
  from assms(1) obtain raw where max: "isfinite maximum" "\<not> maximum \<le> 0"
    and raw: "whalley_wilmott_half_band L rate spot gamma aversion = Inr raw"
    and b: "b = \<lparr>wb_raw_half_width_delta_units = raw, wb_half_width_delta_units = pymin raw maximum,
        wb_lower_net_delta_units = - pymin raw maximum, wb_upper_net_delta_units = pymin raw maximum,
        wb_capped = pymin raw maximum < raw\<rparr>"
    by (auto simp: make_whalley_wilmott_band_def result_simps Let_def)
  from raw obtain sq v where sq: "m_pow L gamma (Fl 2) = Inr sq"
    and v: "float_div (Fl 3 * rate * spot * sq) (Fl 2 * aversion) = Inr v" "m_cbrt L v = Inr raw"
    and inputs: "isfinite rate" "isfinite spot" "isfinite aversion"
      "\<not> rate < 0" "\<not> aversion \<le> 0" "\<not> spot \<le> 0"
    by (auto simp: whalley_wilmott_half_band_def result_simps)
  have sgn: "0 \<le> rate" "0 < aversion" "0 < spot"
    using inputs by (cases rate; cases aversion; cases spot; force simp: float_ops)+
  have rat: "\<not> float_of_rat q < 0" if "0 \<le> q" for q
    using float_of_rat_nonneg [OF that] by (auto simp: less_eq_pyfloat_def float_eq_def
        simp flip: less_pyfloat_def dest: float_less_asym)
  have mult: "\<not> x * y < 0" if "\<not> x < 0" "\<not> y < 0" for x y :: pyfloat
    using that rat by (cases x; cases y) (auto simp: float_ops inf_of_sign_def)
  have div: "\<not> z < 0" if "\<not> x < 0" "\<not> y < 0" "float_div x y = Inr z" for x y z :: pyfloat
    using that rat by (cases x; cases y) (auto simp: float_ops inf_of_sign_def split: if_splits)
  have num: "\<not> Fl 3 * rate * spot * sq < 0"
    using inputs(4) assms(2) [OF sq] float_less_asym [OF sgn(3)] by (intro mult) (simp_all add: float_ops)
  have den: "\<not> Fl 2 * aversion < 0"
    using float_less_asym [OF sgn(2)] by (intro mult) (simp_all add: float_ops)
  have "\<not> v < 0" by (rule div [OF num den v(1)])
  then have "\<not> raw < 0" using assms(3) v(2) by blast
  with max sgn inputs show ?thesis
    unfolding b
    by (cases raw; cases maximum) (auto simp: pymin_def float_ops)
qed

theorem whalley_band_symmetric_and_capped_witness:
  "\<exists>b. make_whalley_wilmott_band flat_libm 0 1 (Fl 100) 1 (Fl 10) = Inr b \<and> \<not> 0 < wb_lower_net_delta_units b"
proof -
  have "\<exists>b. make_whalley_wilmott_band flat_libm 0 1 (Fl 100) 1 (Fl 10) = Inr b"
    by (simp add: make_whalley_wilmott_band_def whalley_wilmott_half_band_def flat_libm_def float_ops
        Let_def)
  then obtain b where b: "make_whalley_wilmott_band flat_libm 0 1 (Fl 100) 1 (Fl 10) = Inr b" ..
  let ?L = "flat_libm\<lparr>m_pow := (\<lambda>x _. Inr \<bar>x\<bar>)\<rparr>"
  have b': "make_whalley_wilmott_band ?L 0 1 (Fl 100) 1 (Fl 10) = Inr b"
    using b by (simp add: make_whalley_wilmott_band_def whalley_wilmott_half_band_def flat_libm_def float_ops)
  have "\<not> \<bar>x\<bar> < 0" for x :: pyfloat by (cases x) (auto simp: float_ops)
  then have "\<not> 0 < wb_lower_net_delta_units b"
    using whalley_band_symmetric_and_capped [OF b'] by (auto simp: flat_libm_def)
  with b show ?thesis by blast
qed

text \<open>The forced reduction aims at zero: it sells only from a positive net delta and buys only
  from a negative one, whatever the policy.\<close>

theorem forced_reduction_opposes_delta:
  assumes "force_delta_reduction s pid = Inr d" and "0 < hs_futures_delta_per_contract s"
  shows "hd_target_net_delta d = 0 \<and> hd_policy_id d = pid
    \<and> (0 < hd_rounded_requested_futures_quantity d \<longrightarrow> hs_current_net_delta s < 0)
    \<and> (hd_rounded_requested_futures_quantity d < 0 \<longrightarrow> 0 < hs_current_net_delta s)"
  using trade_direction [OF assms(1) [unfolded force_delta_reduction_def] assms(2)]
    trade_decision_of [OF assms(1) [unfolded force_delta_reduction_def]]
  by (auto simp: decision_of_def)

theorem forced_reduction_opposes_delta_witness:
  "\<exists>d. force_delta_reduction (demo_hedge_state (Fl 7)) ''no_hedge'' = Inr d
     \<and> hd_rounded_requested_futures_quantity d = -7 \<and> 0 < (Fl 7 :: pyfloat)"
proof -
  have "round_half_even (- 7) = - 7" using round_half_even_of_int [of "- 7"] by simp
  moreover have "decimal_of_float (Fl (- 7)) = Inr (Dec (- 7))"
    using decimal_of_float_int [of "- 7"] by simp
  ultimately have "\<exists>d. force_delta_reduction (demo_hedge_state (Fl 7)) ''no_hedge'' = Inr d
      \<and> hd_rounded_requested_futures_quantity d = -7"
    by (simp add: force_delta_reduction_def hedge_eval)
  then obtain d where d: "force_delta_reduction (demo_hedge_state (Fl 7)) ''no_hedge'' = Inr d"
    "hd_rounded_requested_futures_quantity d = -7" by blast
  have "0 < hs_futures_delta_per_contract (demo_hedge_state (Fl 7))"
    by (simp add: demo_hedge_state_def float_ops)
  from forced_reduction_opposes_delta [OF d(1) this] d show ?thesis
    by (simp add: demo_hedge_state_def)
qed

end
