(* ===== verification/Options.thy ===== *)
theory Options
  imports PyTime
begin

text \<open>
  \<open>app/options\<close>: option contracts (\<open>contracts.py\<close>), Black-Scholes values and Greeks
  (\<open>black_scholes.py\<close>), the implied-volatility bisection (\<open>implied_volatility.py\<close>) and the
  synthetic chain with its straddle selection (\<open>selection.py\<close>).

  All arithmetic is binary64 in the operator order of the source. \<open>value\<close> takes the C library
  \<open>L\<close> as a parameter; a division that may meet an underflowed zero divisor raises
  \<open>ZeroDivisionError\<close> as in Python. The bisection is a recursion on the number of iterations
  left, so it ends for every input; \<open>iv_bracket\<close> is its loop invariant.
\<close>

section \<open>Contracts\<close>

record option_contract =
  oc_contract_id :: string
  oc_underlying :: string
  oc_option_type :: string
  oc_strike :: pyfloat
  oc_expiry :: pydate
  oc_multiplier :: int
  oc_exercise_style :: string
  oc_settlement_type :: string
  oc_currency :: string

definition is_option_type :: "string \<Rightarrow> bool" where
  "is_option_type t \<longleftrightarrow> t = ''call'' \<or> t = ''put''"

definition make_option_contract ::
  "string \<Rightarrow> string \<Rightarrow> string \<Rightarrow> pyfloat \<Rightarrow> pydate \<Rightarrow> int \<Rightarrow> option_contract result" where
  "make_option_contract cid underlying option_type strike expiry multiplier =
     rbind (guard (cid = [] \<or> underlying = [])
              (ValueError ''contract identity and underlying are required'')) (\<lambda>_.
     rbind (guard (\<not> is_option_type option_type)
              (ValueError ''option_type must be call or put'')) (\<lambda>_.
     rbind (guard (strike \<le> 0 \<or> multiplier \<le> 0)
              (ValueError ''strike and multiplier must be positive'')) (\<lambda>_.
     Inr \<lparr>oc_contract_id = cid, oc_underlying = underlying, oc_option_type = option_type,
          oc_strike = strike, oc_expiry = expiry, oc_multiplier = multiplier,
          oc_exercise_style = ''european'', oc_settlement_type = ''cash'', oc_currency = ''INR''\<rparr>)))"

section \<open>Black-Scholes\<close>

record option_greeks =
  g_delta :: pyfloat
  g_gamma :: pyfloat
  g_theta_per_year :: pyfloat
  g_vega_per_unit_volatility :: pyfloat
  g_rho_per_unit_rate :: pyfloat

record option_valuation =
  ov_price :: pyfloat
  ov_intrinsic_value :: pyfloat
  ov_time_value :: pyfloat
  ov_greeks :: option_greeks

definition math_pi :: pyfloat where
  "math_pi = Fl (884279719003555 / 281474976710656)"

definition SQRT_TWO_PI :: "libm \<Rightarrow> pyfloat result" where
  "SQRT_TWO_PI L = m_sqrt L (Fl 2 * math_pi)"

definition validate_option_inputs ::
  "string \<Rightarrow> pyfloat \<Rightarrow> pyfloat \<Rightarrow> pyfloat \<Rightarrow> pyfloat \<Rightarrow> pyfloat \<Rightarrow> pyfloat \<Rightarrow> unit result" where
  "validate_option_inputs option_type spot strike time_to_expiry_years risk_free_rate dividend_yield volatility =
     rbind (guard (\<not> is_option_type option_type)
              (ValueError ''option_type must be call or put'')) (\<lambda>_.
     rbind (guard (\<not> isfinite spot \<or> spot \<le> 0)
              (ValueError ''spot must be positive and finite'')) (\<lambda>_.
     rbind (guard (\<not> isfinite strike \<or> strike \<le> 0)
              (ValueError ''strike must be positive and finite'')) (\<lambda>_.
     rbind (guard (\<not> isfinite time_to_expiry_years \<or> time_to_expiry_years < 0)
              (ValueError ''time to expiry must be non-negative and finite'')) (\<lambda>_.
     rbind (guard (\<not> isfinite risk_free_rate)
              (ValueError ''risk-free rate must be finite'')) (\<lambda>_.
     rbind (guard (\<not> isfinite dividend_yield)
              (ValueError ''dividend yield must be finite'')) (\<lambda>_.
     guard (\<not> isfinite volatility \<or> volatility < 0)
              (ValueError ''volatility must be non-negative and finite'')))))))"

definition intrinsic_value :: "string \<Rightarrow> pyfloat \<Rightarrow> pyfloat \<Rightarrow> pyfloat result" where
  "intrinsic_value option_type spot strike =
     rbind (validate_option_inputs option_type spot strike 0 0 0 0) (\<lambda>_.
     Inr (if option_type = ''call'' then pymax (spot - strike) 0 else pymax (strike - spot) 0))"

definition expiry_delta :: "string \<Rightarrow> pyfloat \<Rightarrow> pyfloat \<Rightarrow> pyfloat" where
  "expiry_delta option_type spot strike =
     (if float_eq spot strike then (if option_type = ''call'' then Fl (1/2) else Fl (-1/2))
      else if option_type = ''call'' then (if strike < spot then 1 else 0)
      else if spot < strike then Fl (-1) else 0)"

definition zero_volatility_value ::
  "libm \<Rightarrow> string \<Rightarrow> pyfloat \<Rightarrow> pyfloat \<Rightarrow> pyfloat \<Rightarrow> pyfloat \<Rightarrow> pyfloat \<Rightarrow> pyfloat \<Rightarrow> option_valuation result" where
  "zero_volatility_value L option_type spot strike time_to_expiry_years risk_free_rate dividend_yield intrinsic =
     rbind (m_exp L (- dividend_yield * time_to_expiry_years)) (\<lambda>spot_exp.
     rbind (m_exp L (- risk_free_rate * time_to_expiry_years)) (\<lambda>strike_exp.
     let discounted_spot = spot * spot_exp;
         discounted_strike = strike * strike_exp;
         forward_difference = discounted_spot - discounted_strike;
         in_money = (if option_type = ''call'' then 0 < forward_difference else forward_difference < 0);
         option_price = (if option_type = ''call'' then pymax forward_difference 0
                         else pymax (- forward_difference) 0);
         delta = (if in_money then spot_exp * (if option_type = ''call'' then 1 else Fl (-1)) else 0);
         theta = (if in_money
                  then if option_type = ''call''
                       then dividend_yield * discounted_spot - risk_free_rate * discounted_strike
                       else risk_free_rate * discounted_strike - dividend_yield * discounted_spot
                  else 0);
         rho = (if in_money
                then if option_type = ''call'' then time_to_expiry_years * discounted_strike
                     else - time_to_expiry_years * discounted_strike
                else 0)
     in Inr \<lparr>ov_price = option_price, ov_intrinsic_value = intrinsic,
             ov_time_value = option_price - intrinsic,
             ov_greeks = \<lparr>g_delta = delta, g_gamma = 0, g_theta_per_year = theta,
                          g_vega_per_unit_volatility = 0, g_rho_per_unit_rate = rho\<rparr>\<rparr>))"

definition black_scholes_value ::
  "libm \<Rightarrow> string \<Rightarrow> pyfloat \<Rightarrow> pyfloat \<Rightarrow> pyfloat \<Rightarrow> pyfloat \<Rightarrow> pyfloat \<Rightarrow> pyfloat \<Rightarrow> pyfloat \<Rightarrow> option_valuation result" where
  "black_scholes_value L option_type spot strike time_to_expiry_years risk_free_rate dividend_yield volatility intrinsic =
     rbind (m_sqrt L time_to_expiry_years) (\<lambda>sqrt_time.
     rbind (float_div spot strike) (\<lambda>moneyness.
     rbind (m_log L moneyness) (\<lambda>log_moneyness.
     rbind (float_div
              (log_moneyness
               + (risk_free_rate - dividend_yield + Fl (1/2) * volatility * volatility) * time_to_expiry_years)
              (volatility * sqrt_time)) (\<lambda>d1.
     let d2 = d1 - volatility * sqrt_time in
     rbind (m_exp L (- dividend_yield * time_to_expiry_years)) (\<lambda>spot_discount.
     rbind (m_exp L (- risk_free_rate * time_to_expiry_years)) (\<lambda>strike_discount.
     rbind (m_exp L (Fl (-1/2) * d1 * d1)) (\<lambda>pdf_exp.
     rbind (SQRT_TWO_PI L) (\<lambda>sqrt_two_pi.
     rbind (float_div pdf_exp sqrt_two_pi) (\<lambda>pdf_d1.
     rbind (float_div (- (spot * spot_discount * pdf_d1 * volatility)) (Fl 2 * sqrt_time)) (\<lambda>decay.
     rbind (float_div (spot_discount * pdf_d1) (spot * volatility * sqrt_time)) (\<lambda>gamma.
     let N = m_ncdf L;
         call = (option_type = ''call'');
         option_price =
           (if call then spot * spot_discount * N d1 - strike * strike_discount * N d2
            else strike * strike_discount * N (- d2) - spot * spot_discount * N (- d1));
         delta = (if call then spot_discount * N d1 else spot_discount * (N d1 - 1));
         theta =
           (if call
            then decay - risk_free_rate * strike * strike_discount * N d2
                   + dividend_yield * spot * spot_discount * N d1
            else decay + risk_free_rate * strike * strike_discount * N (- d2)
                   - dividend_yield * spot * spot_discount * N (- d1));
         rho =
           (if call then strike * time_to_expiry_years * strike_discount * N d2
            else - strike * time_to_expiry_years * strike_discount * N (- d2));
         vega = spot * spot_discount * pdf_d1 * sqrt_time
     in Inr \<lparr>ov_price = pymax option_price 0, ov_intrinsic_value = intrinsic,
             ov_time_value = option_price - intrinsic,
             ov_greeks = \<lparr>g_delta = delta, g_gamma = gamma, g_theta_per_year = theta,
                          g_vega_per_unit_volatility = vega, g_rho_per_unit_rate = rho\<rparr>\<rparr>)))))))))))"

definition option_value ::
  "libm \<Rightarrow> string \<Rightarrow> pyfloat \<Rightarrow> pyfloat \<Rightarrow> pyfloat \<Rightarrow> pyfloat \<Rightarrow> pyfloat \<Rightarrow> pyfloat \<Rightarrow> option_valuation result" where
  "option_value L option_type spot strike time_to_expiry_years risk_free_rate dividend_yield volatility =
     rbind (validate_option_inputs option_type spot strike time_to_expiry_years
              risk_free_rate dividend_yield volatility) (\<lambda>_.
     rbind (intrinsic_value option_type spot strike) (\<lambda>intrinsic.
     if time_to_expiry_years = 0
     then Inr \<lparr>ov_price = intrinsic, ov_intrinsic_value = intrinsic, ov_time_value = 0,
               ov_greeks = \<lparr>g_delta = expiry_delta option_type spot strike, g_gamma = 0,
                            g_theta_per_year = 0, g_vega_per_unit_volatility = 0,
                            g_rho_per_unit_rate = 0\<rparr>\<rparr>
     else if volatility = 0
     then zero_volatility_value L option_type spot strike time_to_expiry_years
            risk_free_rate dividend_yield intrinsic
     else black_scholes_value L option_type spot strike time_to_expiry_years
            risk_free_rate dividend_yield volatility intrinsic))"

definition option_price ::
  "libm \<Rightarrow> string \<Rightarrow> pyfloat \<Rightarrow> pyfloat \<Rightarrow> pyfloat \<Rightarrow> pyfloat \<Rightarrow> pyfloat \<Rightarrow> pyfloat \<Rightarrow> pyfloat result" where
  "option_price L option_type spot strike t r q vol =
     rbind (option_value L option_type spot strike t r q vol) (\<lambda>v. Inr (ov_price v))"

definition option_time_value ::
  "libm \<Rightarrow> string \<Rightarrow> pyfloat \<Rightarrow> pyfloat \<Rightarrow> pyfloat \<Rightarrow> pyfloat \<Rightarrow> pyfloat \<Rightarrow> pyfloat \<Rightarrow> pyfloat result" where
  "option_time_value L option_type spot strike t r q vol =
     rbind (option_value L option_type spot strike t r q vol) (\<lambda>v. Inr (ov_time_value v))"

definition greeks ::
  "libm \<Rightarrow> string \<Rightarrow> pyfloat \<Rightarrow> pyfloat \<Rightarrow> pyfloat \<Rightarrow> pyfloat \<Rightarrow> pyfloat \<Rightarrow> pyfloat \<Rightarrow> option_greeks result" where
  "greeks L option_type spot strike t r q vol =
     rbind (option_value L option_type spot strike t r q vol) (\<lambda>v. Inr (ov_greeks v))"

section \<open>Implied volatility\<close>

record implied_volatility_result =
  iv_implied_volatility :: "pyfloat option"
  iv_converged :: bool
  iv_iterations :: nat
  iv_final_price_error :: pyfloat
  iv_reason_code :: string

text \<open>
  The bisection loop: \<open>price_error\<close> is the model price minus the observed price at a volatility,
  \<open>iteration\<close> the number of iterations done and the last argument the number left.
\<close>

fun iv_bisect ::
  "(pyfloat \<Rightarrow> pyfloat result) \<Rightarrow> pyfloat \<Rightarrow> pyfloat \<Rightarrow> pyfloat \<Rightarrow> pyfloat \<Rightarrow> pyfloat \<Rightarrow> nat \<Rightarrow> nat
   \<Rightarrow> implied_volatility_result result" where
  "iv_bisect price_error tolerance low high midpoint error iteration 0 =
     Inr \<lparr>iv_implied_volatility = Some midpoint, iv_converged = False, iv_iterations = iteration,
          iv_final_price_error = error, iv_reason_code = ''maximum_iterations_reached''\<rparr>"
| "iv_bisect price_error tolerance low high midpoint error iteration (Suc left) =
     rbind (float_div (low + high) (Fl 2)) (\<lambda>mid.
     rbind (price_error mid) (\<lambda>err.
     if \<bar>err\<bar> \<le> tolerance
     then Inr \<lparr>iv_implied_volatility = Some mid, iv_converged = True, iv_iterations = Suc iteration,
               iv_final_price_error = err, iv_reason_code = ''converged''\<rparr>
     else if err < 0 then iv_bisect price_error tolerance mid high mid err (Suc iteration) left
     else iv_bisect price_error tolerance low mid mid err (Suc iteration) left))"

definition iv_price_error ::
  "libm \<Rightarrow> string \<Rightarrow> pyfloat \<Rightarrow> pyfloat \<Rightarrow> pyfloat \<Rightarrow> pyfloat \<Rightarrow> pyfloat \<Rightarrow> pyfloat \<Rightarrow> pyfloat \<Rightarrow> pyfloat result" where
  "iv_price_error L option_type observed_price spot strike t r q vol =
     rbind (option_price L option_type spot strike t r q vol) (\<lambda>p. Inr (p - observed_price))"

definition solve_implied_volatility ::
  "libm \<Rightarrow> string \<Rightarrow> pyfloat \<Rightarrow> pyfloat \<Rightarrow> pyfloat \<Rightarrow> pyfloat \<Rightarrow> pyfloat \<Rightarrow> pyfloat \<Rightarrow> pyfloat \<Rightarrow> pyfloat \<Rightarrow> pyfloat \<Rightarrow> int
   \<Rightarrow> implied_volatility_result result" where
  "solve_implied_volatility L option_type observed_price spot strike t r q
       lower_volatility upper_volatility price_tolerance maximum_iterations =
     rbind (guard (\<not> list_all isfinite [observed_price, spot, strike, t, r, q,
                      lower_volatility, upper_volatility, price_tolerance])
              (ValueError ''implied-volatility inputs must be finite'')) (\<lambda>_.
     rbind (guard (observed_price < 0)
              (ValueError ''observed price must be non-negative and finite'')) (\<lambda>_.
     rbind (guard (lower_volatility < 0 \<or> upper_volatility \<le> lower_volatility)
              (ValueError ''volatility bounds are invalid'')) (\<lambda>_.
     rbind (guard (price_tolerance \<le> 0 \<or> maximum_iterations \<le> 0)
              (ValueError ''solver tolerance and iteration count are invalid'')) (\<lambda>_.
     rbind (option_price L option_type spot strike t r q 0) (\<lambda>lower_price.
     rbind (if option_type = ''call''
            then rbind (m_exp L (- q * t)) (\<lambda>d. Inr (spot * d))
            else rbind (m_exp L (- r * t)) (\<lambda>d. Inr (strike * d))) (\<lambda>upper_static.
     rbind (guard (observed_price < lower_price - price_tolerance
                     \<or> upper_static + price_tolerance < observed_price)
              (ValueError ''observed price violates static no-arbitrage bounds'')) (\<lambda>_.
     if \<bar>observed_price - lower_price\<bar> \<le> price_tolerance
     then Inr \<lparr>iv_implied_volatility = Some 0, iv_converged = True, iv_iterations = 0,
               iv_final_price_error = lower_price - observed_price,
               iv_reason_code = ''intrinsic_boundary''\<rparr>
     else
       let price_error = iv_price_error L option_type observed_price spot strike t r q in
       rbind (price_error lower_volatility) (\<lambda>low_error.
       rbind (price_error upper_volatility) (\<lambda>high_error.
       if 0 < low_error \<or> high_error < 0
       then Inr \<lparr>iv_implied_volatility = None, iv_converged = False, iv_iterations = 0,
                 iv_final_price_error = pymin \<bar>low_error\<bar> \<bar>high_error\<bar>,
                 iv_reason_code = ''root_not_bracketed''\<rparr>
       else iv_bisect price_error price_tolerance lower_volatility upper_volatility
              lower_volatility low_error 0 (nat maximum_iterations))))))))))"

section \<open>Expiry and strike selection\<close>

record synthetic_option_pair =
  sp_strike :: pyfloat
  sp_call :: option_contract
  sp_put :: option_contract
  sp_combined_relative_spread :: pyfloat
  sp_combined_volume :: int
  sp_combined_open_interest :: int

text \<open>A dictionary from expiry dates to sessions, as its items in insertion order.\<close>

definition select_expiry :: "(pydate \<times> int) list \<Rightarrow> int \<Rightarrow> int \<Rightarrow> pydate result" where
  "select_expiry remaining_sessions_by_expiry minimum_remaining_sessions maximum_remaining_sessions =
     (let eligible = [expiry. (expiry, sessions) \<leftarrow> remaining_sessions_by_expiry,
                       minimum_remaining_sessions \<le> sessions \<and> sessions \<le> maximum_remaining_sessions]
      in if eligible = [] then Inl (ValueError ''no eligible expiry'')
         else Inr (foldl min (hd eligible) (tl eligible)))"

definition continuous_forward ::
  "libm \<Rightarrow> pyfloat \<Rightarrow> pyfloat \<Rightarrow> pyfloat \<Rightarrow> pyfloat \<Rightarrow> pyfloat result" where
  "continuous_forward L spot risk_free_rate dividend_yield time_years =
     rbind (guard (spot \<le> 0 \<or> time_years < 0)
              (ValueError ''spot must be positive and time non-negative'')) (\<lambda>_.
     rbind (m_exp L ((risk_free_rate - dividend_yield) * time_years)) (\<lambda>growth.
     Inr (spot * growth)))"

text \<open>\<open>round(x)\<close> of a float: the nearest integer, ties to even.\<close>

definition py_round :: "pyfloat \<Rightarrow> int result" where
  "py_round x = (case x of Fl r \<Rightarrow> Inr (round_half_even r)
                 | NaN \<Rightarrow> Inl (ValueError ''cannot convert float NaN to integer'')
                 | _ \<Rightarrow> Inl OverflowError)"

definition contract_id :: "string \<Rightarrow> pydate \<Rightarrow> string \<Rightarrow> pyfloat \<Rightarrow> string" where
  "contract_id underlying expiry letter strike =
     underlying @ ''-'' @ isodate expiry @ ''-'' @ letter @ ''-'' @ format_g strike"

definition synthetic_pair ::
  "string \<Rightarrow> pydate \<Rightarrow> int \<Rightarrow> pyfloat \<Rightarrow> int \<Rightarrow> int \<Rightarrow> pyfloat \<Rightarrow> synthetic_option_pair result" where
  "synthetic_pair underlying expiry multiplier relative_spread volume_base open_interest_base strike =
     rbind (make_option_contract (contract_id underlying expiry ''C'' strike)
              underlying ''call'' strike expiry multiplier) (\<lambda>call.
     rbind (make_option_contract (contract_id underlying expiry ''P'' strike)
              underlying ''put'' strike expiry multiplier) (\<lambda>put.
     Inr \<lparr>sp_strike = strike, sp_call = call, sp_put = put,
          sp_combined_relative_spread = relative_spread, sp_combined_volume = volume_base,
          sp_combined_open_interest = open_interest_base\<rparr>))"

definition synthetic_strikes :: "pyfloat \<Rightarrow> pyfloat \<Rightarrow> int \<Rightarrow> int \<Rightarrow> pyfloat list" where
  "synthetic_strikes center strike_interval strikes_below strikes_above =
     map (\<lambda>offset. center + float_of_int offset * strike_interval)
       [- strikes_below .. strikes_above]"

definition synthetic_chain ::
  "string \<Rightarrow> pyfloat \<Rightarrow> pyfloat \<Rightarrow> int \<Rightarrow> int \<Rightarrow> pydate \<Rightarrow> int \<Rightarrow> pyfloat \<Rightarrow> int \<Rightarrow> int
   \<Rightarrow> synthetic_option_pair list result" where
  "synthetic_chain underlying forward strike_interval strikes_below strikes_above expiry
       multiplier relative_spread volume_base open_interest_base =
     rbind (guard (forward \<le> 0 \<or> strike_interval \<le> 0 \<or> strikes_below < 0 \<or> strikes_above < 0
                     \<or> \<not> (0 \<le> relative_spread \<and> relative_spread \<le> 1)
                     \<or> volume_base < 0 \<or> open_interest_base < 0)
              (ValueError ''synthetic-chain parameters are invalid'')) (\<lambda>_.
     rbind (float_div forward strike_interval) (\<lambda>ratio.
     rbind (py_round ratio) (\<lambda>n.
     let center = float_of_int n * strike_interval;
         strikes = synthetic_strikes center strike_interval strikes_below strikes_above
     in rmap (synthetic_pair underlying expiry multiplier relative_spread volume_base open_interest_base)
          (filter (\<lambda>strike. 0 < strike) strikes))))"

type_synonym straddle_key = "pyfloat \<times> pyfloat \<times> int \<times> int \<times> pyfloat"

fun straddle_key_less :: "straddle_key \<Rightarrow> straddle_key \<Rightarrow> bool" where
  "straddle_key_less (d, s, v, oi, k) (d', s', v', oi', k') =
     (if d \<noteq> d' then d < d' else if s \<noteq> s' then s < s' else if v \<noteq> v' then v < v'
      else if oi \<noteq> oi' then oi < oi' else k < k')"

definition straddle_key :: "pyfloat \<Rightarrow> synthetic_option_pair \<Rightarrow> straddle_key" where
  "straddle_key forward pair =
     (\<bar>sp_strike pair - forward\<bar>, sp_combined_relative_spread pair,
      - sp_combined_volume pair, - sp_combined_open_interest pair, sp_strike pair)"

definition better_pair ::
  "pyfloat \<Rightarrow> synthetic_option_pair \<Rightarrow> synthetic_option_pair \<Rightarrow> synthetic_option_pair" where
  "better_pair forward best pair =
     (if straddle_key_less (straddle_key forward pair) (straddle_key forward best) then pair else best)"

fun select_straddle :: "synthetic_option_pair list \<Rightarrow> pyfloat \<Rightarrow> synthetic_option_pair result" where
  "select_straddle [] forward = Inl (ValueError ''option chain is empty'')"
| "select_straddle (p # chain) forward = Inr (foldl (better_pair forward) p chain)"

section \<open>Black-Scholes: validation and limits\<close>

definition valid_option_inputs ::
  "string \<Rightarrow> pyfloat \<Rightarrow> pyfloat \<Rightarrow> pyfloat \<Rightarrow> pyfloat \<Rightarrow> pyfloat \<Rightarrow> pyfloat \<Rightarrow> bool" where
  "valid_option_inputs option_type spot strike t r q vol \<longleftrightarrow>
     is_option_type option_type \<and> isfinite spot \<and> 0 < spot \<and> isfinite strike \<and> 0 < strike
     \<and> isfinite t \<and> 0 \<le> t \<and> isfinite r \<and> isfinite q \<and> isfinite vol \<and> 0 \<le> vol"

lemma isfinite_cases: "isfinite x \<longleftrightarrow> (\<exists>r. x = Fl r)"
  by (cases x) auto

lemma validate_option_inputs_iff:
  "validate_option_inputs ty s k t r q v = Inr u \<longleftrightarrow> valid_option_inputs ty s k t r q v"
  by (auto simp: validate_option_inputs_def valid_option_inputs_def result_simps isfinite_cases
      float_ops not_le not_less)

lemma validate_option_inputs_error:
  "validate_option_inputs ty s k t r q v = Inl e \<Longrightarrow> \<exists>msg. e = ValueError msg"
  by (auto simp: validate_option_inputs_def rbind_eq_Inl guard_eq_Inl)

lemma validate_valid: "valid_option_inputs ty s k t r q v \<Longrightarrow> validate_option_inputs ty s k t r q v = Inr ()"
  by (simp add: validate_option_inputs_iff)

lemma valid_inputs_intrinsic:
  "valid_option_inputs ty s k t r q v \<Longrightarrow>
     intrinsic_value ty s k = Inr (if ty = ''call'' then pymax (s - k) 0 else pymax (k - s) 0)"
proof -
  assume "valid_option_inputs ty s k t r q v"
  then have "validate_option_inputs ty s k 0 0 0 0 = Inr ()"
    by (auto simp: validate_option_inputs_iff valid_option_inputs_def zero_pyfloat_def float_ops)
  then show ?thesis by (simp add: intrinsic_value_def)
qed

lemma option_value_cases:
  assumes "option_value L ty s k t r q v = Inr ov"
  obtains i where "valid_option_inputs ty s k t r q v" "intrinsic_value ty s k = Inr i"
    and "t = 0 \<Longrightarrow> ov_price ov = i \<and> ov_time_value ov = 0"
    and "t \<noteq> 0 \<Longrightarrow> v = 0 \<Longrightarrow> zero_volatility_value L ty s k t r q i = Inr ov"
    and "t \<noteq> 0 \<Longrightarrow> v \<noteq> 0 \<Longrightarrow> black_scholes_value L ty s k t r q v i = Inr ov"
  using assms
  by (auto simp: option_value_def result_simps validate_option_inputs_iff split: if_splits)

lemma zero_volatility_price:
  "zero_volatility_value L ty s k t r q i = Inr ov \<Longrightarrow> \<exists>x. ov_price ov = pymax x 0"
  by (auto simp: zero_volatility_value_def result_simps Let_def)

lemma black_scholes_price:
  "black_scholes_value L ty s k t r q v i = Inr ov \<Longrightarrow> \<exists>x. ov_price ov = pymax x 0"
  by (auto simp: black_scholes_value_def result_simps Let_def)

lemma intrinsic_value_shape: "intrinsic_value ty s k = Inr i \<Longrightarrow> \<exists>x. i = pymax x 0"
  by (auto simp: intrinsic_value_def result_simps)

lemma option_value_price_shape:
  assumes "option_value L ty s k t r q v = Inr ov"
  shows "\<exists>x. ov_price ov = pymax x 0"
  using assms
proof (rule option_value_cases)
  fix i
  assume i: "intrinsic_value ty s k = Inr i"
    and c: "t = 0 \<Longrightarrow> ov_price ov = i \<and> ov_time_value ov = 0"
      "t \<noteq> 0 \<Longrightarrow> v = 0 \<Longrightarrow> zero_volatility_value L ty s k t r q i = Inr ov"
      "t \<noteq> 0 \<Longrightarrow> v \<noteq> 0 \<Longrightarrow> black_scholes_value L ty s k t r q v i = Inr ov"
  show ?thesis
    by (cases "t = 0"; cases "v = 0")
      (use c intrinsic_value_shape [OF i] in \<open>auto dest: zero_volatility_price black_scholes_price\<close>)
qed

section \<open>The bisection keeps its bracket\<close>

definition iv_bracket :: "pyfloat \<Rightarrow> pyfloat \<Rightarrow> bool" where
  "iv_bracket low high \<longleftrightarrow>
     (\<exists>a b. low = Fl a \<and> high = Fl b \<and> f64_grid a \<and> f64_grid b \<and> a \<le> b
            \<and> \<bar>a\<bar> \<le> 2 ^ 1022 \<and> \<bar>b\<bar> \<le> 2 ^ 1022)"

lemma iv_bracket_halves:
  assumes "iv_bracket low high"
  obtains mid where "float_div (low + high) (Fl 2) = Inr mid" "iv_bracket low mid" "iv_bracket mid high"
    "low \<le> mid" "mid \<le> high"
proof -
  from assms obtain a b where ab: "low = Fl a" "high = Fl b" "f64_grid a" "f64_grid b" "a \<le> b"
    "\<bar>a\<bar> \<le> 2 ^ 1022" "\<bar>b\<bar> \<le> 2 ^ 1022"
    by (auto simp: iv_bracket_def)
  then obtain m where m: "float_div (low + high) (Fl 2) = Inr (Fl m)" "a \<le> m" "m \<le> b" "f64_grid m"
    using midpoint_between [of a b] by auto
  moreover have "\<bar>m\<bar> \<le> 2 ^ 1022"
    using m ab unfolding abs_le_iff by linarith
  ultimately show ?thesis
    using ab by (intro that [of "Fl m"]) (auto simp: iv_bracket_def float_ops)
qed

lemma iv_bracket_le: "iv_bracket low high \<Longrightarrow> low \<le> high"
  by (auto simp: iv_bracket_def float_ops)

definition iv_outcome ::
  "(pyfloat \<Rightarrow> pyfloat result) \<Rightarrow> pyfloat \<Rightarrow> pyfloat \<Rightarrow> pyfloat \<Rightarrow> nat \<Rightarrow> nat \<Rightarrow> implied_volatility_result \<Rightarrow> bool" where
  "iv_outcome price_error tolerance low high iteration left res \<longleftrightarrow>
     (\<exists>v. iv_implied_volatility res = Some v \<and> low \<le> v \<and> v \<le> high
          \<and> price_error v = Inr (iv_final_price_error res))
     \<and> iv_iterations res \<le> iteration + left
     \<and> (if iv_converged res
        then \<bar>iv_final_price_error res\<bar> \<le> tolerance \<and> iv_reason_code res = ''converged''
        else iv_iterations res = iteration + left
             \<and> iv_reason_code res = ''maximum_iterations_reached'')"

lemma iv_bisect_outcome:
  assumes "iv_bracket low high" and "low \<le> midpoint" and "midpoint \<le> high"
    and "price_error midpoint = Inr error"
    and "iv_bisect price_error tolerance low high midpoint error iteration left = Inr res"
  shows "iv_outcome price_error tolerance low high iteration left res"
  using assms
proof (induction left arbitrary: low high midpoint error iteration)
  case 0
  then show ?case by (auto simp: iv_outcome_def)
next
  case (Suc left)
  from iv_bracket_halves [OF Suc.prems(1)] obtain mid where
    mid: "float_div (low + high) (Fl 2) = Inr mid" "iv_bracket low mid" "iv_bracket mid high"
      "low \<le> mid" "mid \<le> high" .
  from Suc.prems(5) mid(1) obtain err where err: "price_error mid = Inr err"
    by (auto simp: result_simps)
  have refl: "mid \<le> mid" using mid(2) by (auto simp: iv_bracket_def float_ops)
  show ?case
  proof (cases "\<bar>err\<bar> \<le> tolerance")
    case True
    with Suc.prems(5) mid err have "res = \<lparr>iv_implied_volatility = Some mid, iv_converged = True,
        iv_iterations = Suc iteration, iv_final_price_error = err, iv_reason_code = ''converged''\<rparr>"
      by simp
    with True mid err show ?thesis by (auto simp: iv_outcome_def)
  next
    case False
    show ?thesis
    proof (cases "err < 0")
      case True
      with False Suc.prems(5) mid(1) err have "iv_outcome price_error tolerance mid high (Suc iteration) left res"
        by (intro Suc.IH [OF mid(3) refl mid(5) err]) simp
      with mid(4) show ?thesis by (auto simp: iv_outcome_def intro: float_le_trans)
    next
      case nonneg: False
      with False Suc.prems(5) mid(1) err have "iv_outcome price_error tolerance low mid (Suc iteration) left res"
        by (intro Suc.IH [OF mid(2) mid(4) refl err]) simp
      with mid(5) show ?thesis by (auto simp: iv_outcome_def intro: float_le_trans)
    qed
  qed
qed

lemma iv_bisect_total:
  assumes "iv_bracket low high"
    and "\<And>v. low \<le> v \<Longrightarrow> v \<le> high \<Longrightarrow> \<exists>e. price_error v = Inr e"
  shows "\<exists>res. iv_bisect price_error tolerance low high midpoint error iteration left = Inr res"
  using assms
proof (induction left arbitrary: low high midpoint error iteration)
  case 0
  then show ?case by simp
next
  case (Suc left)
  from iv_bracket_halves [OF Suc.prems(1)] obtain mid where
    mid: "float_div (low + high) (Fl 2) = Inr mid" "iv_bracket low mid" "iv_bracket mid high"
      "low \<le> mid" "mid \<le> high" .
  with Suc.prems(2) obtain err where err: "price_error mid = Inr err" by blast
  have lowIH: "\<exists>res. iv_bisect price_error tolerance low mid mid err (Suc iteration) left = Inr res"
    using Suc.IH [OF mid(2)] Suc.prems(2) mid(5) by (meson float_le_trans)
  have highIH: "\<exists>res. iv_bisect price_error tolerance mid high mid err (Suc iteration) left = Inr res"
    using Suc.IH [OF mid(3)] Suc.prems(2) mid(4) by (meson float_le_trans)
  from lowIH highIH mid(1) err show ?case by auto
qed

section \<open>Selection\<close>

lemma straddle_key_less_irrefl [simp]: "\<not> straddle_key_less k k"
  by (cases k) simp

lemma straddle_key_less_trans:
  "straddle_key_less a b \<Longrightarrow> straddle_key_less b c \<Longrightarrow> straddle_key_less a c"
  by (cases a; cases b; cases c)
    (auto split: if_splits intro: float_less_trans dest: float_less_asym)

lemma better_pair_cases: "better_pair f b p = b \<or> better_pair f b p = p"
  by (simp add: better_pair_def)

lemma foldl_better_pair_in: "foldl (better_pair f) p ps \<in> insert p (set ps)"
proof (induction ps arbitrary: p)
  case (Cons q ps)
  from Cons.IH [of "better_pair f p q"] better_pair_cases [of f p q] show ?case by auto
qed simp

lemma foldl_better_pair_improves:
  "foldl (better_pair f) p ps = p
   \<or> straddle_key_less (straddle_key f (foldl (better_pair f) p ps)) (straddle_key f p)"
proof (induction ps arbitrary: p)
  case (Cons q ps)
  from Cons.IH [of "better_pair f p q"] show ?case
    by (auto simp: better_pair_def split: if_splits intro: straddle_key_less_trans)
qed simp

lemma foldl_better_pair_optimal:
  "x \<in> insert p (set ps) \<Longrightarrow>
     \<not> straddle_key_less (straddle_key f x) (straddle_key f (foldl (better_pair f) p ps))"
proof (induction ps arbitrary: p x)
  case Nil
  then show ?case by simp
next
  case (Cons q ps)
  define b where "b = better_pair f p q"
  define final where "final = foldl (better_pair f) b ps"
  have improves: "final = b \<or> straddle_key_less (straddle_key f final) (straddle_key f b)"
    unfolding final_def by (rule foldl_better_pair_improves)
  have "\<not> straddle_key_less (straddle_key f x) (straddle_key f final)" if x: "x = p \<or> x = q"
  proof
    assume "straddle_key_less (straddle_key f x) (straddle_key f final)"
    with improves have "straddle_key_less (straddle_key f x) (straddle_key f b)"
      by (auto intro: straddle_key_less_trans)
    with x show False
      by (auto simp: b_def better_pair_def split: if_splits dest: straddle_key_less_trans)
  qed
  with Cons.IH [of x b] Cons.prems show ?case by (auto simp: final_def b_def)
qed

lemma select_straddle_Inr:
  assumes "select_straddle chain forward = Inr sel"
  shows "sel \<in> set chain"
    and "p \<in> set chain \<Longrightarrow> \<not> straddle_key_less (straddle_key forward p) (straddle_key forward sel)"
  using assms foldl_better_pair_in foldl_better_pair_optimal
  by (cases chain; force)+

definition matched_pair :: "synthetic_option_pair \<Rightarrow> bool" where
  "matched_pair p \<longleftrightarrow>
     oc_strike (sp_call p) = sp_strike p \<and> oc_strike (sp_put p) = sp_strike p
     \<and> oc_expiry (sp_call p) = oc_expiry (sp_put p)
     \<and> oc_multiplier (sp_call p) = oc_multiplier (sp_put p)
     \<and> oc_option_type (sp_call p) = ''call'' \<and> oc_option_type (sp_put p) = ''put''
     \<and> oc_contract_id (sp_call p) \<noteq> oc_contract_id (sp_put p)"

lemma synthetic_pair_Inr:
  assumes "synthetic_pair u e m spread vol oi strike = Inr p"
  shows "matched_pair p" and "sp_strike p = strike" and "oc_multiplier (sp_call p) = m" and "0 < m"
    and "oc_expiry (sp_call p) = e"
    and "sp_combined_relative_spread p = spread" and "sp_combined_volume p = vol"
    and "sp_combined_open_interest p = oi"
  using assms
  by (auto simp: synthetic_pair_def make_option_contract_def result_simps matched_pair_def contract_id_def)

lemma synthetic_chain_Inr:
  assumes "synthetic_chain u f interval nb na e m spread vol oi = Inr chain"
    and "p \<in> set chain"
  shows "matched_pair p" and "0 < sp_strike p" and "oc_multiplier (sp_call p) = m" and "0 < m"
    and "oc_expiry (sp_call p) = e"
    and "sp_combined_relative_spread p = spread" and "sp_combined_volume p = vol"
    and "sp_combined_open_interest p = oi"
proof -
  from assms obtain strike where "0 < strike" "synthetic_pair u e m spread vol oi strike = Inr p"
    by (auto simp: synthetic_chain_def result_simps Let_def dest!: rmap_set)
  then show "matched_pair p" "0 < sp_strike p" "oc_multiplier (sp_call p) = m" "0 < m"
    "oc_expiry (sp_call p) = e" "sp_combined_relative_spread p = spread" "sp_combined_volume p = vol"
    "sp_combined_open_interest p = oi"
    by (auto dest: synthetic_pair_Inr)
qed

lemma foldl_min_in: "foldl min (x :: int) xs \<in> insert x (set xs)"
proof (induction xs arbitrary: x)
  case (Cons y xs)
  from Cons.IH [of "min x y"] show ?case by (auto simp: min_def split: if_splits)
qed simp

lemma foldl_min_le: "y \<in> insert x (set xs) \<Longrightarrow> foldl min (x :: int) xs \<le> y"
proof (induction xs arbitrary: x y)
  case (Cons z xs)
  have "foldl min (min x z) xs \<le> min x z" by (rule Cons.IH) simp
  with Cons show ?case by auto
qed simp

lemma select_expiry_Inr:
  assumes "select_expiry items lo hi = Inr d"
  shows "\<exists>n. (d, n) \<in> set items \<and> lo \<le> n \<and> n \<le> hi"
    and "(d', n') \<in> set items \<Longrightarrow> lo \<le> n' \<Longrightarrow> n' \<le> hi \<Longrightarrow> d \<le> d'"
proof -
  define el where "el = [expiry. (expiry, sessions) \<leftarrow> items, lo \<le> sessions \<and> sessions \<le> hi]"
  have ne: "el \<noteq> []" and d: "d = foldl min (hd el) (tl el)"
    using assms by (auto simp: select_expiry_def Let_def simp flip: el_def split: if_splits)
  have set_el: "insert (hd el) (set (tl el)) = set el"
    using ne by (cases el) auto
  have "d \<in> set el" using foldl_min_in [of "hd el" "tl el"] by (simp add: d set_el)
  then show "\<exists>n. (d, n) \<in> set items \<and> lo \<le> n \<and> n \<le> hi" by (auto simp: el_def split: if_splits)
  assume "(d', n') \<in> set items" "lo \<le> n'" "n' \<le> hi"
  then have "d' \<in> set el" by (force simp: el_def)
  then show "d \<le> d'" using foldl_min_le [of d' "hd el" "tl el"] by (simp add: d set_el)
qed

section \<open>Properties\<close>

lemmas option_eval =
  option_price_def option_value_def validate_option_inputs_def is_option_type_def intrinsic_value_def
  zero_volatility_value_def Let_def flat_libm_def float_ops pymax_def

text \<open>C27. No option is ever valued below zero: whatever branch computes the price (expiry payoff,
  zero volatility, Black-Scholes), and whatever the C library returns, the price is not less
  than zero.\<close>

theorem option_price_never_negative:
  assumes "option_value L option_type spot strike t r q vol = Inr v"
  shows "\<not> ov_price v < 0"
proof -
  from option_value_price_shape [OF assms] obtain x where "ov_price v = pymax x 0" ..
  then show ?thesis by (simp add: pymax_float_not_less)
qed

theorem option_price_never_negative_witness:
  "\<exists>v. option_value flat_libm ''put'' (Fl 100) (Fl 90) 1 0 0 0 = Inr v \<and> \<not> ov_price v < 0"
proof -
  have "\<exists>v. option_value flat_libm ''put'' (Fl 100) (Fl 90) 1 0 0 0 = Inr v"
    by (simp add: option_eval)
  then show ?thesis using option_price_never_negative by blast
qed

text \<open>At expiry the valuation is the exact payoff and put-call parity holds to the last bit:
  for every valid spot and strike, call price minus put price equals spot minus strike in
  binary64.\<close>

theorem expiry_put_call_parity:
  assumes "valid_option_inputs ''call'' spot strike 0 r q vol"
  shows "\<exists>c p. option_price L ''call'' spot strike 0 r q vol = Inr c
           \<and> option_price L ''put'' spot strike 0 r q vol = Inr p
           \<and> intrinsic_value ''call'' spot strike = Inr c
           \<and> intrinsic_value ''put'' spot strike = Inr p
           \<and> c - p = spot - strike"
proof -
  have put: "valid_option_inputs ''put'' spot strike 0 r q vol"
    using assms by (simp add: valid_option_inputs_def is_option_type_def)
  from assms obtain a b where ab: "spot = Fl a" "strike = Fl b"
    by (auto simp: valid_option_inputs_def isfinite_cases)
  have "pymax (Fl a - Fl b) 0 - pymax (Fl b - Fl a) 0 = Fl a - Fl b"
  proof (cases "Fl a - Fl b")
    case (Fl d)
    then have "wf_float (Fl d)" by (metis minus_pyfloat_def float_neg.simps(1) float_add.simps(1) wf_float_of_rat)
    then have "float_of_rat d = Fl d" "float_of_rat (- (- d)) = Fl d"
      by (simp_all add: float_of_rat_wf del: wf_float.simps)
    then show ?thesis unfolding float_diff_antisym [of b a] Fl
      by (auto simp: pymax_def float_ops)
  qed (simp_all add: float_diff_antisym [of b a] pymax_def uminus_pyfloat_def, simp_all add: float_ops)
  with assms put show ?thesis
    unfolding option_price_def option_value_def
    by (simp add: valid_inputs_intrinsic validate_valid ab)
qed

theorem expiry_put_call_parity_witness:
  "\<exists>c p. option_price flat_libm ''call'' (Fl 105) (Fl 100) 0 0 0 (Fl (1/2)) = Inr c
      \<and> option_price flat_libm ''put'' (Fl 105) (Fl 100) 0 0 0 (Fl (1/2)) = Inr p
      \<and> c - p = Fl 5"
proof -
  have "valid_option_inputs ''call'' (Fl 105) (Fl 100) 0 0 0 (Fl (1/2))"
    by (simp add: valid_option_inputs_def is_option_type_def float_ops)
  from expiry_put_call_parity [OF this, of flat_libm] show ?thesis
    by (fastforce simp: float_ops)
qed

text \<open>Option valuation rejects the invalid inputs: a wrong option type, a non-finite or
  non-positive spot or strike, a non-finite or negative time or volatility, or a non-finite rate
  raises \<open>ValueError\<close>. At expiry it returns exactly on the valid inputs.\<close>

theorem option_value_rejects_invalid:
  "(valid_option_inputs option_type spot strike t r q vol
    \<or> (\<exists>msg. option_value L option_type spot strike t r q vol = Inl (ValueError msg)))
   \<and> ((\<exists>v. option_value L option_type spot strike 0 r q vol = Inr v)
      \<longleftrightarrow> valid_option_inputs option_type spot strike 0 r q vol)"
proof
  show "valid_option_inputs option_type spot strike t r q vol
    \<or> (\<exists>msg. option_value L option_type spot strike t r q vol = Inl (ValueError msg))"
  proof (cases "valid_option_inputs option_type spot strike t r q vol")
    case True
    then show ?thesis ..
  next
    case False
    then obtain e where e: "validate_option_inputs option_type spot strike t r q vol = Inl e"
      using validate_option_inputs_iff by (metis sum.exhaust)
    then show ?thesis
      using validate_option_inputs_error [OF e] by (auto simp: option_value_def)
  qed
  show "(\<exists>v. option_value L option_type spot strike 0 r q vol = Inr v)
      \<longleftrightarrow> valid_option_inputs option_type spot strike 0 r q vol"
    by (auto simp: option_value_def validate_valid valid_inputs_intrinsic validate_option_inputs_iff
        result_simps)
qed



text \<open>The implied-volatility solver ends with an answer: for inputs that pass its checks and a
  pricing function that returns at zero and on the search interval, it returns a result rather
  than raising or looping.\<close>

theorem implied_volatility_returns:
  assumes "list_all isfinite [observed, spot, strike, t, r, q, lower, upper, tolerance]"
    and "0 \<le> observed" and "0 \<le> lower" and "lower < upper" and "0 < tolerance" and "0 < maximum"
    and "wf_float lower" and "wf_float upper" and "upper \<le> Fl (2 ^ 1022)"
    and "option_price L option_type spot strike t r q 0 = Inr p0"
    and "\<And>v. lower \<le> v \<Longrightarrow> v \<le> upper \<Longrightarrow> \<exists>p. option_price L option_type spot strike t r q v = Inr p"
    and "(if option_type = ''call'' then m_exp L (- q * t) else m_exp L (- r * t)) = Inr discount"
    and "\<not> observed < p0 - tolerance"
    and "\<not> (if option_type = ''call'' then spot else strike) * discount + tolerance < observed"
  shows "\<exists>res. solve_implied_volatility L option_type observed spot strike t r q lower upper tolerance maximum = Inr res"
proof -
  let ?err = "iv_price_error L option_type observed spot strike t r q"
  have bracket: "iv_bracket lower upper"
    using assms(1,3,4,7-9) by (auto simp: isfinite_cases iv_bracket_def float_ops)
  have err: "\<exists>e. ?err v = Inr e" if "lower \<le> v" "v \<le> upper" for v
    using assms(11) [OF that] by (auto simp: iv_price_error_def)
  have "lower \<le> lower" "upper \<le> upper" "lower \<le> upper"
    using bracket by (auto simp: iv_bracket_def float_ops)
  then obtain le he where "?err lower = Inr le" "?err upper = Inr he"
    using err by meson
  moreover have "\<exists>res. iv_bisect ?err tolerance lower upper lower le 0 (nat maximum) = Inr res"
    by (rule iv_bisect_total [OF bracket]) (rule err)
  moreover have "\<not> observed < 0" "\<not> (lower < 0 \<or> upper \<le> lower)" "\<not> (tolerance \<le> 0 \<or> maximum \<le> 0)"
    using assms(1-6) by (auto simp: isfinite_cases float_ops)
  moreover have "(if option_type = ''call'' then rbind (m_exp L (- q * t)) (\<lambda>d. Inr (spot * d))
      else rbind (m_exp L (- r * t)) (\<lambda>d. Inr (strike * d)))
    = Inr ((if option_type = ''call'' then spot else strike) * discount)"
    using assms(12) by (auto split: if_splits)
  ultimately show ?thesis
    unfolding solve_implied_volatility_def using assms(1,10,13,14) by (simp add: Let_def)
qed

theorem implied_volatility_returns_witness:
  "\<exists>res. solve_implied_volatility flat_libm ''call'' (Fl 5) (Fl 100) (Fl 105) 0 0 0 0 (Fl 5) (Fl 8) 4 = Inr res"
proof -
  have val: "validate_option_inputs ''call'' (Fl 100) (Fl 105) 0 0 0 v = Inr ()" if "0 \<le> v" "v \<le> Fl 5" for v
    using that by (cases v) (auto simp: option_eval)
  have price: "\<exists>p. option_price flat_libm ''call'' (Fl 100) (Fl 105) 0 0 0 v = Inr p" if "0 \<le> v" "v \<le> Fl 5" for v
    unfolding option_price_def option_value_def val [OF that]
    by (auto simp: option_eval)
  have wf: "wf_float 0" "wf_float (Fl 5)" by (simp_all add: float_ops flip: f64.rnd_fix_iff)
  show ?thesis
    by (rule implied_volatility_returns [where ?p0.0 = 0 and discount = 1, OF _ _ _ _ _ _ wf _ _ price])
      (auto simp: option_eval)
qed


definition demo_pair :: "pyfloat \<Rightarrow> synthetic_option_pair" where
  "demo_pair strike =
     (let c = \<lparr>oc_contract_id = ''N-C'', oc_underlying = ''N'', oc_option_type = ''call'', oc_strike = strike,
               oc_expiry = 739831, oc_multiplier = 1, oc_exercise_style = ''european'',
               oc_settlement_type = ''cash'', oc_currency = ''INR''\<rparr>
      in \<lparr>sp_strike = strike, sp_call = c, sp_put = c\<lparr>oc_contract_id := ''N-P'', oc_option_type := ''put''\<rparr>,
          sp_combined_relative_spread = Fl (1/4), sp_combined_volume = 1000,
          sp_combined_open_interest = 5000\<rparr>)"


text \<open>Every pair of a synthetic chain is a matched straddle: call and put share a positive
  strike, the expiry and the multiplier, are a call and a put, and have different contract
  identities.\<close>

theorem synthetic_chain_matched:
  assumes "synthetic_chain underlying forward interval below_n above_n expiry multiplier spread volume oi = Inr chain"
    and "p \<in> set chain"
  shows "matched_pair p \<and> 0 < sp_strike p \<and> oc_expiry (sp_call p) = expiry
     \<and> oc_multiplier (sp_call p) = multiplier"
  using synthetic_chain_Inr [OF assms] by simp

lemmas chain_eval =
  synthetic_chain_def synthetic_pair_def make_option_contract_def synthetic_strikes_def py_round_def
  is_option_type_def contract_id_def float_ops

theorem synthetic_chain_matched_witness:
  "\<exists>chain p. synthetic_chain ''NIFTY'' (Fl 110) (Fl 50) 0 0 739831 1 (Fl (1/4)) 1000 5000 = Inr chain
      \<and> p \<in> set chain \<and> matched_pair p \<and> 0 < sp_strike p"
proof -
  obtain p where p: "synthetic_chain ''NIFTY'' (Fl 110) (Fl 50) 0 0 739831 1 (Fl (1/4)) 1000 5000 = Inr [p]"
    by (simp add: chain_eval float_eval Let_def upto.simps)
  have "p \<in> set [p]" by simp
  from synthetic_chain_matched [OF p this] p show ?thesis by fastforce
qed

end
