(* ===== verification/Portfolio.thy ===== *)
theory Portfolio
  imports Execution "HOL-Library.AList"
begin

text \<open>
  \<open>app/portfolio\<close>: positions (\<open>positions.py\<close>), the ledger (\<open>ledger.py\<close>), cash and market
  value (\<open>cash.py\<close>, \<open>valuation.py\<close>).

  The ledger is a record threaded through the operations. Its \<open>positions\<close> dict is an
  association list in insertion order: \<open>AList.update\<close> replaces in place or appends, as a Python
  dict does, and \<open>map_of\<close> looks up. An operation that raises ends the run, so the half-updated
  ledger it would leave is not part of the result.

  The locale \<open>fill_book\<close> is the contract between a book of fills and its clients: a recorded
  fill moves the cash by its signed notional minus its cost and the holding of its instrument by
  its signed quantity, and nothing else. It is interpreted on the ledger.
\<close>

record instrument_position =
  ip_instrument_id :: string
  ip_quantity :: int
  ip_multiplier :: int
  ip_average_price :: decimal
  ip_mark_price :: decimal
  ip_realized_pnl :: decimal

definition market_value :: "instrument_position \<Rightarrow> decimal result" where
  "market_value p =
     money (ip_mark_price p * decimal_of_int (ip_quantity p) * decimal_of_int (ip_multiplier p))"

definition unrealized_pnl :: "instrument_position \<Rightarrow> decimal result" where
  "unrealized_pnl p =
     money ((ip_mark_price p - ip_average_price p) * decimal_of_int (ip_quantity p)
              * decimal_of_int (ip_multiplier p))"

definition apply_fill :: "instrument_position option \<Rightarrow> simulated_fill \<Rightarrow> instrument_position result" where
  "apply_fill position fill =
     (let signed = (if fl_side fill = ''buy'' then fl_quantity fill else - fl_quantity fill) in
      case position of
        None \<Rightarrow> Inr \<lparr>ip_instrument_id = fl_instrument_id fill, ip_quantity = signed,
                     ip_multiplier = fl_multiplier fill,
                     ip_average_price = fl_reference_price fill,
                     ip_mark_price = fl_reference_price fill, ip_realized_pnl = 0\<rparr>
      | Some p \<Rightarrow>
          rbind (guard (ip_multiplier p \<noteq> fl_multiplier fill)
                   (ValueError ''fill multiplier does not match position'')) (\<lambda>_.
          let old_quantity = ip_quantity p; new_quantity = old_quantity + signed in
          rbind (if old_quantity = 0 \<or> 0 < old_quantity * signed
                 then let total_cost = ip_average_price p * decimal_of_int \<bar>old_quantity\<bar>
                                       + fl_reference_price fill * decimal_of_int \<bar>signed\<bar>
                      in rbind (decimal_div total_cost (decimal_of_int \<bar>new_quantity\<bar>)) (\<lambda>average.
                         Inr (average, ip_realized_pnl p))
                 else let closed = min \<bar>old_quantity\<bar> \<bar>signed\<bar>;
                          direction = decimal_of_int (if 0 < old_quantity then 1 else -1)
                      in rbind (money ((fl_reference_price fill - ip_average_price p)
                                         * decimal_of_int closed * decimal_of_int (fl_multiplier fill)
                                         * direction)) (\<lambda>gain.
                         Inr (if new_quantity = 0 then 0
                              else if old_quantity * new_quantity < 0 then fl_reference_price fill
                              else ip_average_price p,
                              ip_realized_pnl p + gain))) (\<lambda>(average, realized).
          rbind (money average) (\<lambda>average_price.
          rbind (money realized) (\<lambda>realized_pnl.
          Inr \<lparr>ip_instrument_id = ip_instrument_id p, ip_quantity = new_quantity,
               ip_multiplier = ip_multiplier p, ip_average_price = average_price,
               ip_mark_price = fl_reference_price fill, ip_realized_pnl = realized_pnl\<rparr>)))))"

record ledger_entry =
  le_entry_id :: string
  le_timestamp :: pydatetime
  le_entry_type :: string
  le_instrument_id :: "string option"
  le_quantity_change :: int
  le_cash_change :: decimal
  le_cost :: decimal
  le_reference_id :: string
  le_strategy_position_id :: string

record portfolio_ledger =
  pl_starting_nav :: decimal
  pl_entries :: "ledger_entry list"
  pl_positions :: "(string \<times> instrument_position) list"

definition make_ledger :: "decimal \<Rightarrow> pydatetime \<Rightarrow> string \<Rightarrow> portfolio_ledger result" where
  "make_ledger starting_nav opened_at strategy_position_id =
     rbind (guard (starting_nav \<le> 0 \<or> \<not> tz_aware opened_at)
              (ValueError ''ledger starting NAV and timestamp are invalid'')) (\<lambda>_.
     rbind (money starting_nav) (\<lambda>nav.
     Inr \<lparr>pl_starting_nav = nav,
          pl_entries = [\<lparr>le_entry_id = ''ledger-initial'', le_timestamp = opened_at,
                         le_entry_type = ''initial_capital'', le_instrument_id = None,
                         le_quantity_change = 0, le_cash_change = nav, le_cost = 0,
                         le_reference_id = ''initial-capital'',
                         le_strategy_position_id = strategy_position_id\<rparr>],
          pl_positions = []\<rparr>))"

definition ledger_cash :: "portfolio_ledger \<Rightarrow> decimal result" where
  "ledger_cash l = money (decimal_sum (map le_cash_change (pl_entries l)))"

definition transaction_costs :: "portfolio_ledger \<Rightarrow> decimal result" where
  "transaction_costs l = money (decimal_sum (map le_cost (pl_entries l)))"

definition record_fill ::
  "simulated_fill \<Rightarrow> string \<Rightarrow> string \<Rightarrow> portfolio_ledger \<Rightarrow> portfolio_ledger result" where
  "record_fill fill entry_type strategy_position_id l =
     (let sign = (if fl_side fill = ''buy'' then decimal_of_int (-1) else decimal_of_int 1);
          quantity_change = (if fl_side fill = ''buy'' then fl_quantity fill else - fl_quantity fill)
      in
      rbind (money (sign * fl_gross_notional fill)) (\<lambda>cash_change.
      let trade = \<lparr>le_entry_id = ''ledger-'' @ fl_fill_id fill @ ''-trade'',
                   le_timestamp = fl_timestamp fill, le_entry_type = entry_type,
                   le_instrument_id = Some (fl_instrument_id fill),
                   le_quantity_change = quantity_change, le_cash_change = cash_change, le_cost = 0,
                   le_reference_id = fl_fill_id fill,
                   le_strategy_position_id = strategy_position_id\<rparr>;
          cost = \<lparr>le_entry_id = ''ledger-'' @ fl_fill_id fill @ ''-cost'',
                  le_timestamp = fl_timestamp fill, le_entry_type = ''transaction_cost'',
                  le_instrument_id = Some (fl_instrument_id fill),
                  le_quantity_change = 0, le_cash_change = - fl_total_cost fill,
                  le_cost = fl_total_cost fill, le_reference_id = fl_fill_id fill,
                  le_strategy_position_id = strategy_position_id\<rparr>
      in
      rbind (apply_fill (map_of (pl_positions l) (fl_instrument_id fill)) fill) (\<lambda>p.
      Inr (l\<lparr>pl_entries := pl_entries l @ [trade, cost],
             pl_positions := AList.update (fl_instrument_id fill) p (pl_positions l)\<rparr>))))"

definition ledger_mark :: "string \<Rightarrow> price \<Rightarrow> portfolio_ledger \<Rightarrow> portfolio_ledger result" where
  "ledger_mark instrument_id price l =
     rbind (lift_opt (KeyError instrument_id) (map_of (pl_positions l) instrument_id)) (\<lambda>p.
     rbind (decimal_of_price price) (\<lambda>d.
     rbind (money d) (\<lambda>mark_price.
     Inr (l\<lparr>pl_positions := AList.update instrument_id (p\<lparr>ip_mark_price := mark_price\<rparr>) (pl_positions l)\<rparr>))))"

definition portfolio_value :: "portfolio_ledger \<Rightarrow> decimal result" where
  "portfolio_value l =
     rbind (ledger_cash l) (\<lambda>cash.
     rbind (rmap (\<lambda>(_, p). market_value p) (pl_positions l)) (\<lambda>values.
     money (cash + decimal_sum values)))"

definition ledger_terminal_pnl :: "portfolio_ledger \<Rightarrow> decimal result" where
  "ledger_terminal_pnl l = rbind (portfolio_value l) (\<lambda>v. money (v - pl_starting_nav l))"

definition cash_balance :: "decimal list \<Rightarrow> decimal" where
  "cash_balance changes = decimal_sum changes"

definition portfolio_market_value :: "instrument_position list \<Rightarrow> decimal result" where
  "portfolio_market_value positions =
     rbind (rmap market_value positions) (\<lambda>values. Inr (decimal_sum values))"

section \<open>Positions\<close>

definition holding :: "portfolio_ledger \<Rightarrow> string \<Rightarrow> int" where
  "holding l i = (case map_of (pl_positions l) i of None \<Rightarrow> 0 | Some p \<Rightarrow> ip_quantity p)"

lemma apply_fill_quantity:
  assumes "apply_fill position fill = Inr p"
  shows "ip_quantity p = (case position of None \<Rightarrow> 0 | Some q \<Rightarrow> ip_quantity q) + signed_quantity fill"
    and "ip_multiplier p = fl_multiplier fill"
    and "ip_mark_price p = fl_reference_price fill"
    and "ip_instrument_id p
      = (case position of None \<Rightarrow> fl_instrument_id fill | Some q \<Rightarrow> ip_instrument_id q)"
  using assms
  by (auto simp: apply_fill_def signed_quantity_def Let_def result_simps split: option.splits)

lemma market_value_flat: "ip_quantity p = 0 \<Longrightarrow> market_value p = Inr 0"
  by (simp add: market_value_def money_def quantize_cents decimal_ops decimal_of_int_def cents_bound_def)

section \<open>The contract of a book of fills\<close>

locale fill_book =
  fixes cash :: "'book \<Rightarrow> rat"
    and held :: "'book \<Rightarrow> string \<Rightarrow> int"
    and post :: "simulated_fill \<times> 'kind \<Rightarrow> 'book \<Rightarrow> 'book result"
    and ok :: "simulated_fill \<Rightarrow> bool"
  assumes post_cash: "ok (fst x) \<Longrightarrow> post x b = Inr b' \<Longrightarrow>
      cash b' = cash b + signed_gross (fst x) - dval (fl_total_cost (fst x))"
    and post_held: "post x b = Inr b' \<Longrightarrow>
      held b' i = held b i + (if i = fl_instrument_id (fst x) then signed_quantity (fst x) else 0)"
begin

lemma posts_cash:
  assumes "rfold post xs b = Inr b'" and "\<forall>x \<in> set xs. ok (fst x)"
  shows "cash b' = cash b + sum_list (map (signed_gross \<circ> fst) xs)
                          - sum_list (map (dval \<circ> fl_total_cost \<circ> fst) xs)"
  using assms
proof (induction xs arbitrary: b)
  case (Cons x xs)
  then obtain b1 where b1: "post x b = Inr b1" "rfold post xs b1 = Inr b'"
    by (auto simp: result_simps)
  with Cons.IH [of b1] Cons.prems post_cash [of x b b1] show ?case by simp
qed simp

lemma posts_held:
  assumes "rfold post xs b = Inr b'"
  shows "held b' i = held b i
      + sum_list (map (signed_quantity \<circ> fst) (filter (\<lambda>x. fl_instrument_id (fst x) = i) xs))"
  using assms
proof (induction xs arbitrary: b)
  case (Cons x xs)
  then obtain b1 where b1: "post x b = Inr b1" "rfold post xs b1 = Inr b'"
    by (auto simp: result_simps)
  with Cons.IH [of b1] post_held [of x b b1 i] show ?case by auto
qed simp

text \<open>Opposite fills of one instrument cancel: a round trip leaves the holding unchanged.\<close>

lemma round_trip_held:
  assumes "rfold post [x, y] b = Inr b'"
    and "fl_instrument_id (fst y) = fl_instrument_id (fst x)"
    and "signed_quantity (fst y) = - signed_quantity (fst x)"
  shows "held b' i = held b i"
  using posts_held [OF assms(1), of i] assms(2,3) by (simp split: if_splits)

end

section \<open>The ledger keeps the contract\<close>

definition exact_cash :: "portfolio_ledger \<Rightarrow> rat" where
  "exact_cash l = sum_list (map (dval \<circ> le_cash_change) (pl_entries l))"

definition exact_costs :: "portfolio_ledger \<Rightarrow> rat" where
  "exact_costs l = sum_list (map (dval \<circ> le_cost) (pl_entries l))"

definition exact_fill :: "simulated_fill \<Rightarrow> bool" where
  "exact_fill f \<longleftrightarrow> sound_fill f \<and> fill_size f < cents_bound"

text \<open>The two entries of a fill, as the ledger writes them for an exact fill.\<close>

definition trade_entry :: "simulated_fill \<Rightarrow> string \<Rightarrow> string \<Rightarrow> ledger_entry" where
  "trade_entry fill entry_type position_id =
     \<lparr>le_entry_id = ''ledger-'' @ fl_fill_id fill @ ''-trade'', le_timestamp = fl_timestamp fill,
      le_entry_type = entry_type, le_instrument_id = Some (fl_instrument_id fill),
      le_quantity_change = signed_quantity fill, le_cash_change = Dec (signed_gross fill),
      le_cost = 0, le_reference_id = fl_fill_id fill, le_strategy_position_id = position_id\<rparr>"

definition cost_entry :: "simulated_fill \<Rightarrow> string \<Rightarrow> ledger_entry" where
  "cost_entry fill position_id =
     \<lparr>le_entry_id = ''ledger-'' @ fl_fill_id fill @ ''-cost'', le_timestamp = fl_timestamp fill,
      le_entry_type = ''transaction_cost'', le_instrument_id = Some (fl_instrument_id fill),
      le_quantity_change = 0, le_cash_change = Dec (- dval (fl_total_cost fill)),
      le_cost = fl_total_cost fill, le_reference_id = fl_fill_id fill,
      le_strategy_position_id = position_id\<rparr>"

lemma exact_fill_parts:
  assumes "exact_fill f"
  shows "in_cents (signed_gross f)" and "\<bar>signed_gross f\<bar> = dval (fl_gross_notional f)"
    and "dval (fl_gross_notional f) < cents_bound" and "0 \<le> dval (fl_gross_notional f)"
    and "in_cents (dval (fl_total_cost f))" and "dval (fl_total_cost f) < cents_bound"
    and "0 \<le> dval (fl_total_cost f)"
    and "dval (fl_gross_notional f) + dval (fl_total_cost f) = fill_size f"
  using assms sound_fill_cost [of f]
  by (auto simp: exact_fill_def signed_gross_def sound_fill_def cents_def in_cents_minus)

lemma record_fill_Inr:
  assumes "record_fill f ty pid l = Inr l'" and "exact_fill f"
  shows "pl_entries l' = pl_entries l @ [trade_entry f ty pid, cost_entry f pid]"
    and "pl_starting_nav l' = pl_starting_nav l"
    and "\<exists>p. apply_fill (map_of (pl_positions l) (fl_instrument_id f)) f = Inr p
           \<and> pl_positions l' = AList.update (fl_instrument_id f) p (pl_positions l)"
proof -
  note parts = exact_fill_parts [OF assms(2)]
  have g: "ctx (dval (fl_gross_notional f)) = dval (fl_gross_notional f)"
    using assms(2) parts by (intro ctx_cents) (auto simp: exact_fill_def sound_fill_def cents_def)
  have c: "ctx (- dval (fl_total_cost f)) = - dval (fl_total_cost f)"
    using parts by (intro ctx_cents) (auto intro: in_cents_minus)
  have s: "dval ((if fl_side f = ''buy'' then decimal_of_int (-1) else decimal_of_int 1)
      * fl_gross_notional f) = signed_gross f"
    using g by (simp add: decimal_ops decimal_of_int_def signed_gross_def ctx.rnd_minus)
  have m: "money ((if fl_side f = ''buy'' then decimal_of_int (-1) else decimal_of_int 1)
      * fl_gross_notional f) = Inr (Dec (signed_gross f))"
    using money_exact [of "(if fl_side f = ''buy'' then decimal_of_int (-1) else decimal_of_int 1)
      * fl_gross_notional f"] parts unfolding s by simp
  have q: "(if fl_side f = ''buy'' then fl_quantity f else - fl_quantity f) = signed_quantity f"
    by (simp add: signed_quantity_def)
  have neg: "- fl_total_cost f = Dec (- dval (fl_total_cost f))"
    using c by (simp add: uminus_decimal_def)
  from assms(1) show "pl_entries l' = pl_entries l @ [trade_entry f ty pid, cost_entry f pid]"
    "pl_starting_nav l' = pl_starting_nav l"
    "\<exists>p. apply_fill (map_of (pl_positions l) (fl_instrument_id f)) f = Inr p
       \<and> pl_positions l' = AList.update (fl_instrument_id f) p (pl_positions l)"
    by (auto simp: record_fill_def Let_def m q neg result_simps trade_entry_def cost_entry_def)
qed

lemma record_fill_holding:
  assumes "record_fill f ty pid l = Inr l'"
  shows "holding l' i = holding l i + (if i = fl_instrument_id f then signed_quantity f else 0)"
proof -
  from assms obtain p where p: "apply_fill (map_of (pl_positions l) (fl_instrument_id f)) f = Inr p"
    "pl_positions l' = AList.update (fl_instrument_id f) p (pl_positions l)"
    by (auto simp: record_fill_def Let_def result_simps)
  with apply_fill_quantity(1) [OF p(1)] show ?thesis
    by (auto simp: holding_def update_conv' split: option.splits)
qed

definition post_fill :: "simulated_fill \<times> string \<times> string \<Rightarrow> portfolio_ledger \<Rightarrow> portfolio_ledger result" where
  "post_fill x l = record_fill (fst x) (fst (snd x)) (snd (snd x)) l"

interpretation ledger: fill_book exact_cash holding post_fill exact_fill
proof
  show "exact_cash l' = exact_cash l + signed_gross (fst x) - dval (fl_total_cost (fst x))"
    if "exact_fill (fst x)" "post_fill x l = Inr l'" for x l l'
    using record_fill_Inr(1) that
    by (auto simp: exact_cash_def post_fill_def trade_entry_def cost_entry_def)
  show "holding l' i = holding l i + (if i = fl_instrument_id (fst x) then signed_quantity (fst x) else 0)"
    if "post_fill x l = Inr l'" for x l l' i
    using record_fill_holding that by (simp add: post_fill_def)
qed


lemma posts_entries:
  assumes "rfold post_fill xs l = Inr l'" and "\<forall>x \<in> set xs. exact_fill (fst x)"
  shows "pl_entries l' = pl_entries l
           @ concat (map (\<lambda>x. [trade_entry (fst x) (fst (snd x)) (snd (snd x)), cost_entry (fst x) (snd (snd x))]) xs)
         \<and> pl_starting_nav l' = pl_starting_nav l"
  using assms
proof (induction xs arbitrary: l)
  case (Cons x xs)
  then obtain l1 where l1: "post_fill x l = Inr l1" "rfold post_fill xs l1 = Inr l'"
    by (auto simp: result_simps)
  from record_fill_Inr [OF l1(1) [unfolded post_fill_def]] Cons.prems(2)
  have "pl_entries l1 = pl_entries l @ [trade_entry (fst x) (fst (snd x)) (snd (snd x)), cost_entry (fst x) (snd (snd x))]"
    "pl_starting_nav l1 = pl_starting_nav l" by auto
  with Cons.IH [OF l1(2)] Cons.prems(2) show ?case by simp
qed simp

text \<open>A ledger that holds exactly the fills \<open>fs\<close>, opened with \<open>nav\<close>.\<close>

definition books :: "decimal \<Rightarrow> simulated_fill list \<Rightarrow> portfolio_ledger \<Rightarrow> bool" where
  "books nav fs l \<longleftrightarrow>
     pl_starting_nav l = nav \<and> cents nav \<and> 0 \<le> dval nav \<and> (\<forall>f \<in> set fs. exact_fill f)
     \<and> map (dval \<circ> le_cash_change) (pl_entries l)
         = dval nav # concat (map (\<lambda>f. [signed_gross f, - dval (fl_total_cost f)]) fs)
     \<and> map (dval \<circ> le_cost) (pl_entries l)
         = 0 # concat (map (\<lambda>f. [0, dval (fl_total_cost f)]) fs)
     \<and> (\<forall>i. holding l i = sum_list (map signed_quantity (filter (\<lambda>f. fl_instrument_id f = i) fs)))
     \<and> distinct (map fst (pl_positions l)) \<and> fst ` set (pl_positions l) = fl_instrument_id ` set fs"

lemma make_ledger_books:
  assumes "make_ledger nav0 t pid = Inr l"
  shows "books (pl_starting_nav l) [] l" and "money nav0 = Inr (pl_starting_nav l)"
    and "pl_positions l = []" and "0 < nav0"
    and "\<exists>e. pl_entries l = [e] \<and> le_entry_type e = ''initial_capital''"
  using assms
  by (auto simp: make_ledger_def result_simps books_def holding_def cents_def cent.rnd_grid
      cent.rnd_nonneg decimal_ops)

lemma record_fill_books:
  assumes "books nav fs l" and "record_fill f ty pid l = Inr l'" and "exact_fill f"
  shows "books nav (fs @ [f]) l'"
proof -
  obtain p where "pl_positions l' = AList.update (fl_instrument_id f) p (pl_positions l)"
    using record_fill_Inr(3) [OF assms(2,3)] by blast
  then have "distinct (map fst (pl_positions l)) \<Longrightarrow> distinct (map fst (pl_positions l'))"
    "fst ` set (pl_positions l') = insert (fl_instrument_id f) (fst ` set (pl_positions l))"
    by (simp_all add: distinct_update dom_update)
  with assms(1,3) record_fill_Inr(1,2) [OF assms(2,3)] record_fill_holding [OF assms(2)] show ?thesis
    by (auto simp: books_def trade_entry_def cost_entry_def)
qed

lemma ledger_mark_books:
  assumes "books nav fs l" and "ledger_mark i p l = Inr l'"
  shows "books nav fs l'"
proof -
  from assms(2) obtain q d where q: "map_of (pl_positions l) i = Some q"
    and l': "l' = l\<lparr>pl_positions := AList.update i (q\<lparr>ip_mark_price := d\<rparr>) (pl_positions l)\<rparr>"
    by (auto simp: ledger_mark_def result_simps)
  have "holding l' j = holding l j" for j
    using q by (simp add: l' holding_def update_conv')
  moreover have "fst ` set (pl_positions l') = fst ` set (pl_positions l)"
    using q by (auto simp: l' dom_update dest: map_of_SomeD intro: rev_image_eqI)
  ultimately show ?thesis using assms(1) by (simp add: books_def l' distinct_update)
qed

lemma sum_list_sizes:
  assumes "\<forall>f \<in> set fs. exact_fill f"
  shows "sum_list (map abs (concat (map (\<lambda>f. [signed_gross f, - dval (fl_total_cost f)]) fs)))
           = sum_list (map fill_size fs)"
    and "sum_list (concat (map (\<lambda>f. [signed_gross f, - dval (fl_total_cost f)]) fs))
           = sum_list (map signed_gross fs) - sum_list (map (dval \<circ> fl_total_cost) fs)"
    and "0 \<le> sum_list (map fill_size fs)"
proof -
  show "sum_list (map abs (concat (map (\<lambda>f. [signed_gross f, - dval (fl_total_cost f)]) fs)))
      = sum_list (map fill_size fs)"
    using assms exact_fill_parts by (induction fs) (fastforce+)
  show "sum_list (concat (map (\<lambda>f. [signed_gross f, - dval (fl_total_cost f)]) fs))
      = sum_list (map signed_gross fs) - sum_list (map (dval \<circ> fl_total_cost) fs)"
    by (induction fs) auto
  show "0 \<le> sum_list (map fill_size fs)"
    using assms by (intro sum_list_nonneg) (auto simp: exact_fill_def fill_size_nonneg)
qed

text \<open>Cash and costs as the ledger computes them are the exact sums.\<close>

lemma books_cash:
  assumes b: "books nav fs l" and bound: "dval nav + sum_list (map fill_size fs) < cents_bound"
  shows "ledger_cash l = Inr (Dec (dval nav + sum_list (map signed_gross fs)
                                     - sum_list (map (dval \<circ> fl_total_cost) fs)))"
    and "transaction_costs l = Inr (Dec (sum_list (map (dval \<circ> fl_total_cost) fs)))"
proof -
  have ex: "\<forall>f \<in> set fs. exact_fill f" and nav: "cents nav" "0 \<le> dval nav"
    and cash: "map dval (map le_cash_change (pl_entries l))
        = dval nav # concat (map (\<lambda>f. [signed_gross f, - dval (fl_total_cost f)]) fs)"
    and cost: "map dval (map le_cost (pl_entries l)) = 0 # concat (map (\<lambda>f. [0, dval (fl_total_cost f)]) fs)"
    using b by (auto simp: books_def)
  let ?xs = "map le_cash_change (pl_entries l)" and ?cs = "map le_cost (pl_entries l)"
  have "\<forall>x \<in> dval ` set ?xs. in_cents x"
    using nav ex exact_fill_parts
    unfolding list.set_map [symmetric] cash by (auto simp: cents_def in_cents_minus)
  moreover have "sum_list (map abs (map dval ?xs)) < cents_bound"
    unfolding cash using sum_list_sizes(1) [OF ex] nav bound by simp
  ultimately have "money (decimal_sum ?xs) = Inr (Dec (sum_list (map dval ?xs)))"
    by (intro money_sum_exact) (auto simp: comp_def)
  then show "ledger_cash l = Inr (Dec (dval nav + sum_list (map signed_gross fs)
                                     - sum_list (map (dval \<circ> fl_total_cost) fs)))"
    unfolding cash ledger_cash_def using sum_list_sizes(2) [OF ex] by (simp add: algebra_simps)
  have costs: "sum_list (map abs (concat (map (\<lambda>f. [0, dval (fl_total_cost f)]) fs)))
      = sum_list (map (dval \<circ> fl_total_cost) fs)"
    "sum_list (concat (map (\<lambda>f. [0, dval (fl_total_cost f)]) fs)) = sum_list (map (dval \<circ> fl_total_cost) fs)"
    using ex exact_fill_parts(7) by (induction fs) auto
  have "sum_list (map (dval \<circ> fl_total_cost) fs) \<le> sum_list (map fill_size fs)"
  proof (rule sum_list_mono)
    fix f assume "f \<in> set fs"
    with ex exact_fill_parts(4,8) [of f] show "(dval \<circ> fl_total_cost) f \<le> fill_size f" by auto
  qed
  then have "sum_list (map abs (map dval ?cs)) < cents_bound"
    unfolding cost using costs nav bound by simp
  moreover have "\<forall>x \<in> dval ` set ?cs. in_cents x"
    using ex exact_fill_parts unfolding list.set_map [symmetric] cost by auto
  ultimately have "money (decimal_sum ?cs) = Inr (Dec (sum_list (map dval ?cs)))"
    by (intro money_sum_exact) (auto simp: comp_def)
  then show "transaction_costs l = Inr (Dec (sum_list (map (dval \<circ> fl_total_cost) fs)))"
    unfolding cost transaction_costs_def using costs by simp
qed

text \<open>With every position flat the portfolio is worth its cash.\<close>

lemma portfolio_value_flat:
  assumes "\<forall>(i, p) \<in> set (pl_positions l). ip_quantity p = 0" and "ledger_cash l = Inr c"
    and "cents c" and "\<bar>dval c\<bar> < cents_bound"
  shows "portfolio_value l = Inr c"
proof -
  have "rmap (\<lambda>(_, p). market_value p) ps = Inr (map (\<lambda>_. 0) ps)"
    if "\<forall>(i, p) \<in> set ps. ip_quantity p = 0" for ps :: "(string \<times> instrument_position) list"
    using that by (induction ps) (auto simp: market_value_flat)
  then have vals: "rmap (\<lambda>(_, p). market_value p) (pl_positions l) = Inr (map (\<lambda>_. 0) (pl_positions l))"
    using assms(1) by blast
  have "foldl (+) 0 (map (\<lambda>_. 0) ps) = (0 :: decimal)" for ps :: "(string \<times> instrument_position) list"
    by (induction ps) (auto simp: decimal_ops)
  then have "decimal_sum (map (\<lambda>_. 0) (pl_positions l)) = 0" by (simp add: decimal_sum_def)
  moreover have "c + 0 = c"
    using assms(3,4) ctx_cents [of "dval c"] by (simp add: decimal_ops cents_def)
  ultimately show ?thesis
    using assms(2) money_fix [OF assms(3,4)] vals by (simp add: portfolio_value_def)
qed


section \<open>The average price\<close>

lemma weighted_average_between:
  fixes a r m n :: rat
  assumes "0 \<le> m" and "0 < n"
  shows "min a r \<le> (a * m + r * n) / (m + n)" and "(a * m + r * n) / (m + n) \<le> max a r"
proof -
  have "min a r * m + min a r * n \<le> a * m + r * n" "a * m + r * n \<le> max a r * m + max a r * n"
    using assms by (auto intro!: add_mono mult_right_mono)
  then show "min a r \<le> (a * m + r * n) / (m + n)" "(a * m + r * n) / (m + n) \<le> max a r"
    using assms by (simp_all add: pos_le_divide_eq pos_divide_le_eq distrib_left)
qed

lemma in_cents_of_int_mult: "in_cents x \<Longrightarrow> in_cents (x * of_int n)"
proof -
  assume "in_cents x"
  then obtain k where "x = of_int k / 100" by (auto simp: in_cents_def)
  then show ?thesis unfolding in_cents_def by (intro exI [of _ "k * n"]) simp
qed

lemma in_cents_grid: "in_cents x \<Longrightarrow> \<bar>x\<bar> < cents_bound \<Longrightarrow> ctx_grid x"
  using ctx_cents ctx.rnd_fix_iff by blast

lemma average_step:
  assumes a: "cents a" and r: "cents r" and m: "0 \<le> m" and n: "0 < n"
    and bound: "\<bar>dval a\<bar> * of_int m + \<bar>dval r\<bar> * of_int n < cents_bound"
    and abound: "\<bar>dval a\<bar> < cents_bound"
    and avg: "decimal_div (a * decimal_of_int m + r * decimal_of_int n) (decimal_of_int (m + n)) = Inr v"
    and res: "money v = Inr w"
  shows "min a r \<le> w \<and> w \<le> max a r"
proof -
  let ?am = "dval a * of_int m" and ?rn = "dval r * of_int n"
  have c: "in_cents ?am" "in_cents ?rn"
    using a r by (auto simp: cents_def in_cents_of_int_mult)
  have nn: "(0::rat) \<le> of_int m" "(0::rat) < of_int n" using m n by auto
  have abs: "\<bar>?am\<bar> = \<bar>dval a\<bar> * of_int m" "\<bar>?rn\<bar> = \<bar>dval r\<bar> * of_int n"
    using nn by (simp_all add: abs_mult)
  have sizes: "0 \<le> \<bar>?am\<bar>" "0 \<le> \<bar>?rn\<bar>" "\<bar>?am\<bar> + \<bar>?rn\<bar> < cents_bound"
    using bound abs by simp_all
  have "\<bar>?am\<bar> < cents_bound" "\<bar>?rn\<bar> < cents_bound" "\<bar>?am + ?rn\<bar> < cents_bound"
    using sizes abs_triangle_ineq [of ?am ?rn] by linarith+
  then have e: "ctx ?am = ?am" "ctx ?rn = ?rn" "ctx (?am + ?rn) = ?am + ?rn"
    using c in_cents_add [OF c] by (auto intro: ctx_cents)
  have "\<bar>dval r\<bar> * 1 \<le> \<bar>dval r\<bar> * of_int n"
    using n by (intro mult_left_mono) auto
  then have rb: "\<bar>dval r\<bar> < cents_bound"
    using bound mult_nonneg_nonneg [OF abs_ge_zero [of "dval a"] nn(1)] by linarith
  have grids: "ctx_grid (dval a)" "ctx_grid (dval r)"
    using a r abound rb by (auto simp: cents_def in_cents_grid)
  then have mgrids: "ctx_grid (min (dval a) (dval r))" "ctx_grid (max (dval a) (dval r))"
    by (auto simp: min_def max_def)
  have v: "dval v = ctx ((?am + ?rn) / (of_int m + of_int n))"
    using avg m n e by (auto simp: decimal_div_def decimal_ops decimal_of_int_def split: if_splits)
  have vb: "min (dval a) (dval r) \<le> dval v" "dval v \<le> max (dval a) (dval r)"
    unfolding v using weighted_average_between [OF nn, of "dval a" "dval r"] mgrids
    by (auto intro: ctx.rnd_above ctx.rnd_below)
  have "in_cents (min (dval a) (dval r))" "in_cents (max (dval a) (dval r))"
    using a r by (auto simp: cents_def min_def max_def)
  then have "min (dval a) (dval r) \<le> dval w" "dval w \<le> max (dval a) (dval r)"
    using res vb by (auto simp: money_Inr intro: cent.rnd_above cent.rnd_below)
  then show ?thesis by (auto simp: less_eq_decimal_def min_def max_def split: if_splits)
qed

section \<open>Properties\<close>

text \<open>C3. The ledger's cash is the starting NAV plus what sales brought in, minus what purchases
  and transaction costs took, to the last paisa; its cost total is the sum of the fills' costs;
  its holdings are the net traded quantities; and it has two entries for each fill after the
  opening one.\<close>

theorem ledger_cash_identity:
  assumes "make_ledger nav opened_at pid = Inr l0" and "rfold post_fill xs l0 = Inr l"
    and "\<forall>x \<in> set xs. exact_fill (fst x)"
    and "dval (pl_starting_nav l0) + sum_list (map (fill_size \<circ> fst) xs) < cents_bound"
  shows "ledger_cash l = Inr (Dec (dval (pl_starting_nav l0) + sum_list (map (signed_gross \<circ> fst) xs)
                                     - sum_list (map (dval \<circ> fl_total_cost \<circ> fst) xs)))
    \<and> transaction_costs l = Inr (Dec (sum_list (map (dval \<circ> fl_total_cost \<circ> fst) xs)))
    \<and> holding l i = sum_list (map (signed_quantity \<circ> fst) (filter (\<lambda>x. fl_instrument_id (fst x) = i) xs))
    \<and> length (pl_entries l) = 1 + 2 * length xs"
proof -
  have step: "books nav (map fst ys) l \<Longrightarrow> post_fill x l = Inr l' \<Longrightarrow> exact_fill (fst x)
      \<Longrightarrow> books nav (map fst (ys @ [x])) l'" for nav ys x l l'
    using record_fill_books by (auto simp: post_fill_def)
  have "books (pl_starting_nav l0) (map fst (ys @ xs)) l"
    if "books (pl_starting_nav l0) (map fst ys) l1" "rfold post_fill xs l1 = Inr l" for ys l1
    using that assms(3)
  proof (induction xs arbitrary: ys l1)
    case (Cons x xs)
    then obtain l2 where l2: "post_fill x l1 = Inr l2" "rfold post_fill xs l2 = Inr l"
      by (auto simp: result_simps)
    with Cons.prems step [OF Cons.prems(1) l2(1)] Cons.IH [of "ys @ [x]" l2] show ?case by simp
  qed simp
  from this [of "[]" l0] have b: "books (pl_starting_nav l0) (map fst xs) l"
    using make_ledger_books(1) [OF assms(1)] assms(2) by simp
  have len: "length (pl_entries l) = length (pl_entries l0) + 2 * length xs"
    using posts_entries [OF assms(2,3)] by (simp add: length_concat comp_def sum_list_triv)
  have "length (pl_entries l0) = 1"
    using make_ledger_books(5) [OF assms(1)] by auto
  moreover have "holding l0 i = 0"
    using make_ledger_books(3) [OF assms(1)] by (simp add: holding_def)
  ultimately show ?thesis
    using books_cash [OF b] assms(4) len ledger.posts_held [OF assms(2), of i]
    by (simp add: comp_def)
qed

definition demo_fill :: "string \<Rightarrow> string \<Rightarrow> decimal \<Rightarrow> simulated_fill" where
  "demo_fill instrument side amount =
     \<lparr>fl_fill_id = ''fill-1'', fl_intent_id = ''1'', fl_timestamp = Aware 0 0,
      fl_instrument_id = instrument, fl_side = side, fl_quantity = 1, fl_multiplier = 1,
      fl_reference_price = amount, fl_fill_price = amount, fl_gross_notional = amount,
      fl_half_spread_cost = 1, fl_slippage_cost = 0, fl_fixed_cost = 0, fl_proportional_cost = 0,
      fl_total_cost = 1\<rparr>"

lemma in_cents_numeral [simp]: "in_cents (numeral k)" "in_cents 1" "in_cents (- numeral k)"
  using in_cents_of_int [of "numeral k"] in_cents_of_int [of 1] in_cents_of_int [of "- numeral k"]
  by simp_all

lemmas ledger_eval =
  make_ledger_def post_fill_def record_fill_def apply_fill_def ledger_mark_def market_value_def
  portfolio_value_def ledger_cash_def decimal_sum_def decimal_div_def money_eval cents_bound_def
  decimal_ops decimal_of_int_def pymax_def Let_def

theorem ledger_cash_identity_witness:
  "\<exists>l0 l. make_ledger (Dec 1000) (Aware 0 0) ''p'' = Inr l0
     \<and> rfold post_fill [(demo_fill ''X'' ''buy'' (Dec 10), ''option_entry'', ''p''),
                        (demo_fill ''X'' ''sell'' (Dec 12), ''option_exit'', ''p'')] l0 = Inr l
     \<and> ledger_cash l = Inr (Dec 1000) \<and> holding l ''X'' = 0"
proof -
  let ?xs = "[(demo_fill ''X'' ''buy'' (Dec 10), ''option_entry'', ''p''),
              (demo_fill ''X'' ''sell'' (Dec 12), ''option_exit'', ''p'')]"
  obtain l0 where l0: "make_ledger (Dec 1000) (Aware 0 0) ''p'' = Inr l0" "pl_starting_nav l0 = Dec 1000"
    "pl_positions l0 = []"
    by (simp add: ledger_eval)
  have fills: "\<forall>x \<in> set ?xs. exact_fill (fst x)"
    by (simp add: exact_fill_def sound_fill_def fill_size_def demo_fill_def cents_def decimal_ops
        cents_bound_def)
  obtain l where l: "rfold post_fill ?xs l0 = Inr l"
    using l0(2,3) by (simp add: ledger_eval demo_fill_def)
  have "dval (pl_starting_nav l0) + sum_list (map (fill_size \<circ> fst) ?xs) < cents_bound"
    by (simp add: l0 fill_size_def demo_fill_def cents_bound_def)
  from ledger_cash_identity [OF l0(1) l fills this, of "''X''"] l0 l show ?thesis
    by (auto simp: signed_gross_def signed_quantity_def demo_fill_def)
qed



end
