(* ===== verification/Risk.thy ===== *)
theory Risk
  imports Options Portfolio Strategy
begin

text \<open>
  \<open>app/simulation/risk.py\<close> and the valuation record of \<open>app/simulation/results.py\<close>.

  The risk state keeps two references, the portfolio value the position was opened from and the
  one its current session started from, together with the profit against each, and counts the
  hedges of the session and of the run. \<open>mark_risk_state\<close> is the transition on a new portfolio
  value: it starts a new session when the date changes. \<open>risk_accounts\<close> is the invariant that
  ties both profits to the value last marked.

  Observed values and limits are of several types in the source (\<open>risk_value\<close>).
\<close>

section \<open>Valuation records\<close>

record option_valuation_record =
  val_contract_id :: string
  val_timestamp :: pydatetime
  val_quantity :: int
  val_multiplier :: int
  val_unit_price :: pyfloat
  val_unit_intrinsic_value :: pyfloat
  val_unit_time_value :: pyfloat
  val_unit_delta :: pyfloat
  val_unit_gamma :: pyfloat
  val_unit_theta_per_year :: pyfloat
  val_unit_vega_per_volatility_unit :: pyfloat
  val_market_value :: decimal
  val_portfolio_delta :: pyfloat
  val_portfolio_gamma :: pyfloat
  val_portfolio_theta_per_year :: pyfloat
  val_portfolio_vega_per_volatility_unit :: pyfloat

section \<open>Decisions\<close>

datatype risk_value =
    RiskFloat pyfloat
  | RiskDecimal decimal
  | RiskBool bool
  | RiskInt int
  | RiskText string

record risk_decision =
  rd_timestamp :: pydatetime
  rd_session_date :: pydate
  rd_rule_id :: string
  rd_observed_value :: risk_value
  rd_configured_limit :: risk_value
  rd_decision :: string
  rd_reason_code :: string
  rd_position_pnl_from_entry :: decimal
  rd_session_pnl :: decimal
  rd_session_hedge_count :: int
  rd_total_hedge_count :: int

section \<open>The risk state\<close>

record risk_state =
  rs_position_reference_portfolio_value :: decimal
  rs_position_pnl_from_entry :: decimal
  rs_session_reference_portfolio_value :: decimal
  rs_session_pnl :: decimal
  rs_previous_marked_portfolio_value :: decimal
  rs_hedges_in_current_session :: int
  rs_total_hedges :: int
  rs_current_session_date :: pydate

definition initialize_risk_state :: "decimal \<Rightarrow> decimal \<Rightarrow> pydate \<Rightarrow> risk_state" where
  "initialize_risk_state position_reference initial_marked session_date =
     \<lparr>rs_position_reference_portfolio_value = position_reference,
      rs_position_pnl_from_entry = initial_marked - position_reference,
      rs_session_reference_portfolio_value = position_reference,
      rs_session_pnl = initial_marked - position_reference,
      rs_previous_marked_portfolio_value = initial_marked,
      rs_hedges_in_current_session = 0, rs_total_hedges = 0,
      rs_current_session_date = session_date\<rparr>"

definition mark_risk_state :: "risk_state \<Rightarrow> decimal \<Rightarrow> pydate \<Rightarrow> risk_state" where
  "mark_risk_state s marked_value session_date =
     (if session_date \<noteq> rs_current_session_date s
      then \<lparr>rs_position_reference_portfolio_value = rs_position_reference_portfolio_value s,
            rs_position_pnl_from_entry = marked_value - rs_position_reference_portfolio_value s,
            rs_session_reference_portfolio_value = rs_previous_marked_portfolio_value s,
            rs_session_pnl = marked_value - rs_previous_marked_portfolio_value s,
            rs_previous_marked_portfolio_value = marked_value,
            rs_hedges_in_current_session = 0, rs_total_hedges = rs_total_hedges s,
            rs_current_session_date = session_date\<rparr>
      else s\<lparr>rs_position_pnl_from_entry := marked_value - rs_position_reference_portfolio_value s,
             rs_session_pnl := marked_value - rs_session_reference_portfolio_value s,
             rs_previous_marked_portfolio_value := marked_value\<rparr>)"

definition record_risk_hedge :: "risk_state \<Rightarrow> risk_state" where
  "record_risk_hedge s =
     s\<lparr>rs_hedges_in_current_session := rs_hedges_in_current_session s + 1,
       rs_total_hedges := rs_total_hedges s + 1\<rparr>"

section \<open>Entry rules\<close>

text \<open>A rule is its identifier, observed value, limit, whether it is met, and its reason prefix.\<close>

type_synonym risk_rule = "string \<times> risk_value \<times> risk_value \<times> bool \<times> string"

definition straddle_integrity :: "synthetic_option_pair \<Rightarrow> bool" where
  "straddle_integrity selected \<longleftrightarrow>
     float_eq (oc_strike (sp_call selected)) (oc_strike (sp_put selected))
     \<and> oc_expiry (sp_call selected) = oc_expiry (sp_put selected)
     \<and> oc_multiplier (sp_call selected) = oc_multiplier (sp_put selected)"

definition entry_rules ::
  "decimal \<Rightarrow> decimal \<Rightarrow> decimal \<Rightarrow> decimal \<Rightarrow> synthetic_option_pair \<Rightarrow> risk_policy_config \<Rightarrow> bool \<Rightarrow> bool
   \<Rightarrow> risk_rule list" where
  "entry_rules premium_at_risk premium_limit theta theta_limit selected policy
       require_quote_quality require_liquidity =
     [(''maximum_premium_at_risk'', RiskDecimal premium_at_risk, RiskDecimal premium_limit,
       premium_at_risk \<le> premium_limit, ''premium_at_risk''),
      (''option_spread_quality'', RiskFloat (sp_combined_relative_spread selected),
       RiskFloat (rp_maximum_option_relative_spread policy),
       \<not> require_quote_quality
         \<or> sp_combined_relative_spread selected \<le> rp_maximum_option_relative_spread policy,
       ''option_spread''),
      (''option_volume_quality'', RiskInt (sp_combined_volume selected), RiskInt 1,
       \<not> require_liquidity \<or> 0 < sp_combined_volume selected, ''option_volume''),
      (''option_open_interest_quality'', RiskInt (sp_combined_open_interest selected), RiskInt 1,
       \<not> require_liquidity \<or> 0 < sp_combined_open_interest selected, ''option_open_interest''),
      (''matched_straddle_integrity'', RiskBool (straddle_integrity selected), RiskBool True,
       straddle_integrity selected, ''matched_straddle_integrity''),
      (''maximum_daily_theta'', RiskDecimal theta, RiskDecimal theta_limit,
       theta \<le> theta_limit, ''daily_theta'')]"

definition entry_decision :: "pydatetime \<Rightarrow> pydate \<Rightarrow> risk_rule \<Rightarrow> risk_decision" where
  "entry_decision timestamp session_date rule =
     (let (rule_id, observed, limit, approved, reason) = rule in
      \<lparr>rd_timestamp = timestamp, rd_session_date = session_date, rd_rule_id = rule_id,
       rd_observed_value = observed, rd_configured_limit = limit,
       rd_decision = (if approved then ''approve'' else ''reject''),
       rd_reason_code = reason @ (if approved then ''_within_limit'' else ''_breached''),
       rd_position_pnl_from_entry = 0, rd_session_pnl = 0,
       rd_session_hedge_count = 0, rd_total_hedge_count = 0\<rparr>)"

definition fraction_of_nav :: "risk_policy_config \<Rightarrow> pyfloat \<Rightarrow> decimal result" where
  "fraction_of_nav policy x =
     rbind (decimal_of_float (rp_starting_nav_inr policy)) (\<lambda>nav.
     rbind (decimal_of_float x) (\<lambda>d. money (nav * d)))"

definition entry_risk_decisions ::
  "pydatetime \<Rightarrow> pydate \<Rightarrow> decimal \<Rightarrow> decimal \<Rightarrow> synthetic_option_pair \<Rightarrow> risk_policy_config \<Rightarrow> bool \<Rightarrow> bool
   \<Rightarrow> risk_decision list result" where
  "entry_risk_decisions timestamp session_date premium_at_risk theta selected policy
       require_quote_quality require_liquidity =
     rbind (fraction_of_nav policy (rp_maximum_premium_at_risk_fraction policy)) (\<lambda>premium_limit.
     rbind (fraction_of_nav policy (rp_maximum_daily_theta_fraction policy)) (\<lambda>theta_limit.
     Inr (map (entry_decision timestamp session_date)
            (entry_rules premium_at_risk premium_limit theta theta_limit selected policy
               require_quote_quality require_liquidity)
          @ [\<lparr>rd_timestamp = timestamp, rd_session_date = session_date,
              rd_rule_id = ''minimum_expected_net_edge'',
              rd_observed_value = RiskText ''not_available_in_sim_1'',
              rd_configured_limit = RiskFloat (rp_minimum_expected_net_edge_fraction policy),
              rd_decision = ''not_evaluated'', rd_reason_code = ''deferred_to_edge_1'',
              rd_position_pnl_from_entry = 0, rd_session_pnl = 0,
              rd_session_hedge_count = 0, rd_total_hedge_count = 0\<rparr>])))"

definition absolute_daily_theta :: "option_valuation_record list \<Rightarrow> int \<Rightarrow> decimal result" where
  "absolute_daily_theta valuations trading_periods_per_year =
     (let annual_theta = float_sum (map val_portfolio_theta_per_year valuations) in
      rbind (float_div \<bar>annual_theta\<bar> (float_of_int trading_periods_per_year)) (\<lambda>daily.
      rbind (decimal_of_float daily) money))"

definition option_entry_premium_at_risk :: "simulated_fill list \<Rightarrow> decimal result" where
  "option_entry_premium_at_risk fills =
     rbind (guard (list_ex (\<lambda>f. fl_side f \<noteq> ''buy'') fills)
              (ValueError ''premium-at-risk fills must be long option entries'')) (\<lambda>_.
     money (decimal_sum (map (\<lambda>f. fl_gross_notional f + fl_total_cost f) fills)))"

section \<open>Rules at every state\<close>

definition state_rules ::
  "risk_state \<Rightarrow> pyfloat \<Rightarrow> risk_policy_config \<Rightarrow> bool \<Rightarrow> decimal \<Rightarrow> decimal \<Rightarrow> risk_rule list" where
  "state_rules s net_delta policy kill_switch_engaged daily_loss_limit position_loss_limit =
     [(''manual_kill_switch'', RiskBool kill_switch_engaged, RiskBool False,
       kill_switch_engaged, ''manual_kill_switch_engaged''),
      (''daily_loss_limit'', RiskDecimal (pymax (- rs_session_pnl s) 0), RiskDecimal daily_loss_limit,
       rs_session_pnl s \<le> - daily_loss_limit, ''daily_loss_limit_breached''),
      (''position_loss_limit'', RiskDecimal (pymax (- rs_position_pnl_from_entry s) 0),
       RiskDecimal position_loss_limit,
       rs_position_pnl_from_entry s \<le> - position_loss_limit, ''position_loss_limit_breached''),
      (''maximum_hedge_count'', RiskInt (rs_hedges_in_current_session s),
       RiskInt (rp_maximum_hedges_per_session policy),
       rp_maximum_hedges_per_session policy \<le> rs_hedges_in_current_session s,
       ''maximum_hedge_count_breached''),
      (''maximum_absolute_delta'', RiskFloat \<bar>net_delta\<bar>,
       RiskFloat (rp_maximum_absolute_delta_units policy),
       rp_maximum_absolute_delta_units policy < \<bar>net_delta\<bar>, ''maximum_absolute_delta_breached'')]"

definition state_decision :: "pydatetime \<Rightarrow> risk_state \<Rightarrow> risk_rule \<Rightarrow> risk_decision" where
  "state_decision timestamp s rule =
     (let (rule_id, observed, limit, breached, reason) = rule in
      \<lparr>rd_timestamp = timestamp, rd_session_date = rs_current_session_date s, rd_rule_id = rule_id,
       rd_observed_value = observed, rd_configured_limit = limit,
       rd_decision = (if breached \<and> rule_id \<noteq> ''maximum_absolute_delta'' then ''exit''
                      else if breached then ''record'' else ''pass''),
       rd_reason_code = (if breached then reason else rule_id @ ''_within_limit''),
       rd_position_pnl_from_entry = rs_position_pnl_from_entry s,
       rd_session_pnl = rs_session_pnl s,
       rd_session_hedge_count = rs_hedges_in_current_session s,
       rd_total_hedge_count = rs_total_hedges s\<rparr>)"

definition state_risk_decisions ::
  "pydatetime \<Rightarrow> risk_state \<Rightarrow> pyfloat \<Rightarrow> risk_policy_config \<Rightarrow> bool \<Rightarrow> risk_decision list result" where
  "state_risk_decisions timestamp s net_delta policy kill_switch_engaged =
     rbind (decimal_of_float (rp_starting_nav_inr policy * rp_maximum_position_loss_fraction policy))
       (\<lambda>position_loss_limit.
     rbind (decimal_of_float (rp_starting_nav_inr policy * rp_maximum_daily_loss_fraction policy))
       (\<lambda>daily_loss_limit.
     Inr (map (state_decision timestamp s)
            (state_rules s net_delta policy kill_switch_engaged daily_loss_limit position_loss_limit))))"

definition post_hedge_delta_risk_decision ::
  "pydatetime \<Rightarrow> risk_state \<Rightarrow> pyfloat \<Rightarrow> pyfloat \<Rightarrow> string \<Rightarrow> risk_decision" where
  "post_hedge_delta_risk_decision timestamp s residual_delta limit disposition =
     \<lparr>rd_timestamp = timestamp, rd_session_date = rs_current_session_date s,
      rd_rule_id = ''maximum_absolute_delta_post_fill'',
      rd_observed_value = RiskFloat \<bar>residual_delta\<bar>, rd_configured_limit = RiskFloat limit,
      rd_decision = (if disposition = ''within_limit'' then ''pass''
                     else if disposition = ''forced_hedge'' then ''override'' else ''exit''),
      rd_reason_code = ''absolute_delta_'' @ disposition,
      rd_position_pnl_from_entry = rs_position_pnl_from_entry s, rd_session_pnl = rs_session_pnl s,
      rd_session_hedge_count = rs_hedges_in_current_session s,
      rd_total_hedge_count = rs_total_hedges s\<rparr>"


lemmas risk_state_simps =
  initialize_risk_state_def mark_risk_state_def record_risk_hedge_def

section \<open>Which rules ask for an exit\<close>

definition exit_rules :: "risk_decision list \<Rightarrow> string set" where
  "exit_rules ds = {rd_rule_id d | d. d \<in> set ds \<and> rd_decision d = ''exit''}"

lemma in_exit_rules:
  "rid \<in> exit_rules (map (state_decision t s) rules)
     \<longleftrightarrow> rid \<noteq> ''maximum_absolute_delta'' \<and> (\<exists>observed limit reason. (rid, observed, limit, True, reason) \<in> set rules)"
  by (force simp: exit_rules_def state_decision_def split: if_splits)

lemma state_risk_exit_rules:
  assumes "state_risk_decisions t s net_delta policy kill = Inr ds"
  shows "''manual_kill_switch'' \<in> exit_rules ds \<longleftrightarrow> kill"
    and "''maximum_hedge_count'' \<in> exit_rules ds
           \<longleftrightarrow> rp_maximum_hedges_per_session policy \<le> rs_hedges_in_current_session s"
    and "exit_rules ds \<subseteq> {''manual_kill_switch'', ''daily_loss_limit'', ''position_loss_limit'',
           ''maximum_hedge_count''}"
    and "decimal_of_float (rp_starting_nav_inr policy * rp_maximum_daily_loss_fraction policy) = Inr daily
           \<Longrightarrow> ''daily_loss_limit'' \<in> exit_rules ds \<longleftrightarrow> rs_session_pnl s \<le> - daily"
    and "decimal_of_float (rp_starting_nav_inr policy * rp_maximum_position_loss_fraction policy) = Inr whole
           \<Longrightarrow> ''position_loss_limit'' \<in> exit_rules ds \<longleftrightarrow> rs_position_pnl_from_entry s \<le> - whole"
proof -
  from assms obtain position_limit daily_limit where
    limits: "decimal_of_float (rp_starting_nav_inr policy * rp_maximum_position_loss_fraction policy) = Inr position_limit"
    "decimal_of_float (rp_starting_nav_inr policy * rp_maximum_daily_loss_fraction policy) = Inr daily_limit"
    and ds: "ds = map (state_decision t s) (state_rules s net_delta policy kill daily_limit position_limit)"
    by (auto simp: state_risk_decisions_def result_simps)
  have ex: "rid \<in> exit_rules ds \<longleftrightarrow> rid \<noteq> ''maximum_absolute_delta'' \<and> (\<exists>observed limit reason.
      (rid, observed, limit, True, reason) \<in> set (state_rules s net_delta policy kill daily_limit position_limit))" for rid
    unfolding ds by (rule in_exit_rules)
  show "''manual_kill_switch'' \<in> exit_rules ds \<longleftrightarrow> kill"
    "''maximum_hedge_count'' \<in> exit_rules ds
       \<longleftrightarrow> rp_maximum_hedges_per_session policy \<le> rs_hedges_in_current_session s"
    by (simp_all add: ex state_rules_def)
  show "''daily_loss_limit'' \<in> exit_rules ds \<longleftrightarrow> rs_session_pnl s \<le> - daily"
    if "decimal_of_float (rp_starting_nav_inr policy * rp_maximum_daily_loss_fraction policy) = Inr daily"
    using that limits by (simp add: ex state_rules_def)
  show "''position_loss_limit'' \<in> exit_rules ds \<longleftrightarrow> rs_position_pnl_from_entry s \<le> - whole"
    if "decimal_of_float (rp_starting_nav_inr policy * rp_maximum_position_loss_fraction policy) = Inr whole"
    using that limits by (simp add: ex state_rules_def)
  show "exit_rules ds \<subseteq> {''manual_kill_switch'', ''daily_loss_limit'', ''position_loss_limit'',
           ''maximum_hedge_count''}"
  proof
    fix rid assume "rid \<in> exit_rules ds"
    then show "rid \<in> {''manual_kill_switch'', ''daily_loss_limit'', ''position_loss_limit'',
           ''maximum_hedge_count''}"
      unfolding ex state_rules_def by force
  qed
qed

text \<open>An entry that is not rejected met every rule.\<close>

lemma entry_decision_rejects:
  "rd_decision (entry_decision t d rule) = ''reject'' \<longleftrightarrow> \<not> fst (snd (snd (snd rule)))"
  by (cases rule) (simp add: entry_decision_def)

lemma entry_accepted:
  assumes "entry_risk_decisions t d premium theta selected policy quality liquidity = Inr ds"
    and ok: "\<forall>r \<in> set ds. rd_decision r \<noteq> ''reject''"
  shows "straddle_integrity selected"
    and "\<exists>limit. fraction_of_nav policy (rp_maximum_premium_at_risk_fraction policy) = Inr limit \<and> premium \<le> limit"
    and "\<exists>limit. fraction_of_nav policy (rp_maximum_daily_theta_fraction policy) = Inr limit \<and> theta \<le> limit"
    and "liquidity \<Longrightarrow> 0 < sp_combined_volume selected \<and> 0 < sp_combined_open_interest selected"
proof -
  from assms(1) obtain pl tl final where
    lim: "fraction_of_nav policy (rp_maximum_premium_at_risk_fraction policy) = Inr pl"
    "fraction_of_nav policy (rp_maximum_daily_theta_fraction policy) = Inr tl"
    and ds: "ds = map (entry_decision t d) (entry_rules premium pl theta tl selected policy quality liquidity) @ [final]"
    by (auto simp: entry_risk_decisions_def result_simps)
  from ok have "\<forall>rule \<in> set (entry_rules premium pl theta tl selected policy quality liquidity).
      fst (snd (snd (snd rule)))"
    unfolding ds using entry_decision_rejects by auto
  then have met: "premium \<le> pl" "straddle_integrity selected" "theta \<le> tl"
    "liquidity \<longrightarrow> 0 < sp_combined_volume selected" "liquidity \<longrightarrow> 0 < sp_combined_open_interest selected"
    by (simp_all add: entry_rules_def)
  then show "straddle_integrity selected"
    "liquidity \<Longrightarrow> 0 < sp_combined_volume selected \<and> 0 < sp_combined_open_interest selected" by simp_all
  from met lim show "\<exists>limit. fraction_of_nav policy (rp_maximum_premium_at_risk_fraction policy) = Inr limit \<and> premium \<le> limit"
    "\<exists>limit. fraction_of_nav policy (rp_maximum_daily_theta_fraction policy) = Inr limit \<and> theta \<le> limit"
    by simp_all
qed

section \<open>The risk state against its history\<close>

datatype risk_op = Marked decimal pydate | Hedged

fun risk_step :: "risk_op \<Rightarrow> risk_state \<Rightarrow> risk_state" where
  "risk_step (Marked v d) s = mark_risk_state s v d"
| "risk_step Hedged s = record_risk_hedge s"

fun marks_of :: "risk_op list \<Rightarrow> (decimal \<times> pydate) list" where
  "marks_of [] = []"
| "marks_of (Marked v d # ops) = (v, d) # marks_of ops"
| "marks_of (Hedged # ops) = marks_of ops"

text \<open>The session of each hedge: the date last marked before it.\<close>

fun hedge_sessions :: "pydate \<Rightarrow> risk_op list \<Rightarrow> pydate list" where
  "hedge_sessions d [] = []"
| "hedge_sessions d (Marked v d' # ops) = hedge_sessions d' ops"
| "hedge_sessions d (Hedged # ops) = d # hedge_sessions d ops"

text \<open>The value a session starts from: the last one marked before its date.\<close>

definition session_reference :: "decimal \<Rightarrow> (decimal \<times> pydate) list \<Rightarrow> pydate \<Rightarrow> decimal" where
  "session_reference opening history today = last (opening # [v. (v, d) \<leftarrow> history, d < today])"

lemma marks_of_snoc [simp]: "marks_of (ops @ [Marked v d]) = marks_of ops @ [(v, d)]"
  and marks_of_snoc_hedge [simp]: "marks_of (ops @ [Hedged]) = marks_of ops"
  by (induction ops rule: marks_of.induct) auto

lemma hedge_sessions_snoc [simp]: "hedge_sessions d0 (ops @ [Marked v d]) = hedge_sessions d0 ops"
  by (induction d0 ops rule: hedge_sessions.induct) auto

lemma hedge_sessions_snoc_hedge [simp]:
  "hedge_sessions d0 (ops @ [Hedged]) = hedge_sessions d0 ops @ [last (d0 # map snd (marks_of ops))]"
  by (induction d0 ops rule: hedge_sessions.induct) (auto split: if_splits)

lemma hedge_sessions_range: "set (hedge_sessions d0 ops) \<subseteq> insert d0 (snd ` set (marks_of ops))"
  by (induction d0 ops rule: hedge_sessions.induct) auto

lemma sorted_le_last:
  fixes xs :: "'a :: linorder list"
  shows "sorted xs \<Longrightarrow> x \<in> set xs \<Longrightarrow> x \<le> last xs"
  by (induction xs) (auto split: if_splits)

definition follows_history :: "decimal \<Rightarrow> (decimal \<times> pydate) list \<Rightarrow> pydate list \<Rightarrow> risk_state \<Rightarrow> bool" where
  "follows_history opening history hedges s \<longleftrightarrow>
     (let today = snd (last history); marked_value = fst (last history);
          reference = session_reference opening history today in
      rs_current_session_date s = today \<and> rs_previous_marked_portfolio_value s = marked_value
      \<and> rs_position_reference_portfolio_value s = opening
      \<and> rs_position_pnl_from_entry s = marked_value - opening
      \<and> rs_session_reference_portfolio_value s = reference
      \<and> rs_session_pnl s = marked_value - reference
      \<and> rs_hedges_in_current_session s = int (length (filter (\<lambda>d. d = today) hedges))
      \<and> rs_total_hedges s = int (length hedges))"

lemma session_reference_same_day:
  "session_reference opening (history @ [(v, d)]) d = session_reference opening history d"
  by (simp add: session_reference_def)

lemma session_reference_new_day:
  assumes "history \<noteq> []" and "\<forall>x \<in> set history. snd x < d"
  shows "session_reference opening (history @ [(v, d)]) d = fst (last history)"
proof -
  have "[v. (v, d') \<leftarrow> h, d' < d] = map fst h" if "\<forall>x \<in> set h. snd x < d" for h :: "(decimal \<times> pydate) list"
    using that by (induction h) auto
  then have "[v. (v, d') \<leftarrow> history, d' < d] = map fst history" using assms(2) by blast
  then show ?thesis using assms(1) by (simp add: session_reference_def last_map)
qed

section \<open>Properties\<close>

text \<open>C8. The risk state is determined by its history: whatever marks (on dates that never go
  back) and hedges the run performed, the session profit is measured from the last portfolio value
  marked before the current session, or from the opening value in the first one, the position
  profit from the opening value, the session counter counts exactly the hedges of the current
  session and the total counter all hedges.\<close>

theorem risk_state_follows_history:
  assumes "sorted (d0 # map snd (marks_of ops))"
  shows "follows_history opening ((first, d0) # marks_of ops) (hedge_sessions d0 ops)
           (fold risk_step ops (initialize_risk_state opening first d0))"
  using assms
proof (induction ops rule: rev_induct)
  case Nil
  show ?case by (simp add: follows_history_def session_reference_def initialize_risk_state_def)
next
  case (snoc op ops)
  let ?h = "(first, d0) # marks_of ops" and ?s = "fold risk_step ops (initialize_risk_state opening first d0)"
  have sorted: "sorted (map snd ?h)" using snoc.prems by (cases op) (auto simp: sorted_append)
  then have IH: "follows_history opening ?h (hedge_sessions d0 ops) ?s" using snoc.IH by simp
  show ?case
  proof (cases op)
    case Hedged
    have "snd (last ?h) = last (d0 # map snd (marks_of ops))" by (simp add: last_map)
    with IH Hedged show ?thesis
      by (simp add: follows_history_def Let_def record_risk_hedge_def)
  next
    case (Marked v d)
    have le: "snd x \<le> snd (last ?h)" if "x \<in> set ?h" for x
      using sorted_le_last [OF sorted, of "snd x"] that by (auto simp: last_map)
    have "snd (last ?h) \<in> set (map snd ?h)" using last_in_set [of ?h] by fastforce
    then have ge: "snd (last ?h) \<le> d" using snoc.prems Marked by (auto simp: sorted_append)
    show ?thesis
    proof (cases "d = snd (last ?h)")
      case True
      then have "session_reference opening (?h @ [(v, d)]) d = session_reference opening ?h d"
        by (simp only: session_reference_same_day)
      with IH Marked True show ?thesis
        by (simp add: follows_history_def Let_def mark_risk_state_def)
    next
      case False
      with le ge have lt: "\<forall>x \<in> set ?h. snd x < d" by force
      have "session_reference opening (?h @ [(v, d)]) d = fst (last ?h)"
        using lt by (intro session_reference_new_day) auto
      moreover have "filter (\<lambda>e. e = d) (hedge_sessions d0 ops) = []"
        using hedge_sessions_range [of d0 ops] lt by (fastforce simp: filter_empty_conv)
      ultimately show ?thesis using IH Marked False
        by (simp add: follows_history_def Let_def mark_risk_state_def)
    qed
  qed
qed

theorem risk_state_follows_history_witness:
  "follows_history (Dec 100) [(Dec 90, 1), (Dec 95, 1), (Dec 80, 2)] [1]
     (fold risk_step [Marked (Dec 95) 1, Hedged, Marked (Dec 80) 2]
        (initialize_risk_state (Dec 100) (Dec 90) 1))
   \<and> session_reference (Dec 100) [(Dec 90, 1), (Dec 95, 1), (Dec 80, 2)] 2 = Dec 95"
  using risk_state_follows_history [of 1 "[Marked (Dec 95) 1, Hedged, Marked (Dec 80) 2]" "Dec 100" "Dec 90"]
  by (simp add: session_reference_def)

end
