(* ===== verification/SimConfig.thy ===== *)
theory SimConfig
  imports Strategy Execution Hashing
begin

text \<open>
  \<open>app/simulation/config.py\<close>: the market and run configuration models with their validators,
  and \<open>app/strategy/hashing.py\<close>.

  \<open>env\<close> gathers what is outside the repository: the C library, the time-zone database, SHA-256,
  numpy's normal generator and pydantic's \<open>model_dump\<close> of the models that are hashed. The hashes
  themselves are computed by the modelled code from those dumps.
\<close>

record simulation_clock_config =
  ck_timezone :: string
  ck_trading_periods_per_year :: int
  ck_calendar_mode :: string
  ck_decision_times_local :: "pytime list"

definition validate_clock :: "zoneinfo \<Rightarrow> simulation_clock_config \<Rightarrow> unit result" where
  "validate_clock zones c = all_of
     [field (zones (ck_timezone c) \<noteq> None) ''clock timezone must be an IANA timezone'',
      field (0 < ck_trading_periods_per_year c) ''trading_periods_per_year'',
      field (ck_calendar_mode c = ''weekdays'') ''calendar_mode'',
      field (\<not> (ck_decision_times_local c = [] \<or> sort (ck_decision_times_local c) \<noteq> ck_decision_times_local c
                 \<or> \<not> distinct (ck_decision_times_local c)))
        ''decision times must be non-empty, unique, and ordered'']"

record synthetic_option_market_config =
  om_multiplier :: int
  om_strike_interval :: pyfloat
  om_strikes_below :: int
  om_strikes_above :: int
  om_eligible_expiry_sessions :: "int list"
  om_relative_spread :: pyfloat
  om_synthetic_volume_base :: int
  om_synthetic_open_interest_base :: int

definition validate_option_market :: "synthetic_option_market_config \<Rightarrow> unit result" where
  "validate_option_market c = all_of
     [field (0 < om_multiplier c) ''multiplier'',
      field (isfinite (om_strike_interval c) \<and> 0 < om_strike_interval c) ''strike_interval'',
      field (0 \<le> om_strikes_below c) ''strikes_below'',
      field (0 \<le> om_strikes_above c) ''strikes_above'',
      field (\<not> (om_eligible_expiry_sessions c = [] \<or> list_ex (\<lambda>n. n \<le> 0) (om_eligible_expiry_sessions c)
                 \<or> sort (remdups (om_eligible_expiry_sessions c)) \<noteq> om_eligible_expiry_sessions c))
        ''eligible expiry sessions must be positive, unique, and ordered'',
      field (isfinite (om_relative_spread c) \<and> 0 \<le> om_relative_spread c \<and> om_relative_spread c \<le> 1)
        ''relative_spread'',
      field (0 \<le> om_synthetic_volume_base c) ''synthetic_volume_base'',
      field (0 \<le> om_synthetic_open_interest_base c) ''synthetic_open_interest_base'']"

record synthetic_futures_market_config =
  fm_instrument_id :: string
  fm_multiplier :: int
  fm_delta_per_contract :: pyfloat
  fm_expiry_rule :: string
  fm_expiry_buffer_sessions :: int

definition validate_futures_market :: "synthetic_futures_market_config \<Rightarrow> unit result" where
  "validate_futures_market c = all_of
     [field (fm_instrument_id c \<noteq> []) ''instrument_id'',
      field (0 < fm_multiplier c) ''multiplier'',
      field (isfinite (fm_delta_per_contract c) \<and> 0 < fm_delta_per_contract c) ''delta_per_contract'',
      field (fm_expiry_rule c = ''holding_horizon_plus_buffer'') ''expiry_rule'',
      field (0 \<le> fm_expiry_buffer_sessions c) ''expiry_buffer_sessions'']"

record simulation_market_config =
  mc_schema_version :: int
  mc_market_id :: string
  mc_underlying :: string
  mc_clock :: simulation_clock_config
  mc_options :: synthetic_option_market_config
  mc_futures :: synthetic_futures_market_config

definition validate_market :: "zoneinfo \<Rightarrow> simulation_market_config \<Rightarrow> simulation_market_config result" where
  "validate_market zones c =
     rbind (all_of
       [field (mc_schema_version c = 2) ''schema_version'',
        field (mc_market_id c \<noteq> []) ''market_id'',
        field (mc_underlying c \<noteq> []) ''underlying'',
        validate_clock zones (mc_clock c), validate_option_market (mc_options c),
        validate_futures_market (mc_futures c)]) (\<lambda>_.
     Inr c)"

text \<open>\<open>load_simulation_market_config\<close> after YAML parsing: the version is checked first.\<close>

definition load_market_payload ::
  "zoneinfo \<Rightarrow> simulation_market_config \<Rightarrow> simulation_market_config result" where
  "load_market_payload zones c =
     rbind (guard (mc_schema_version c \<noteq> 2)
              (ValueError (''unsupported simulation-market schema version: ''
                             @ string_of_int (mc_schema_version c)))) (\<lambda>_.
     validate_market zones c)"

record cost_model_config =
  cm_fixed_cost_per_order :: decimal
  cm_proportional_notional_rate :: decimal
  cm_half_spread_per_unit :: decimal
  cm_slippage_per_unit :: decimal

definition cost_model_from_parameters :: "execution_cost_parameters \<Rightarrow> cost_model_config result" where
  "cost_model_from_parameters p =
     rbind (all_of
       [field (0 \<le> ec_fixed_cost_per_order p) ''fixed_cost_per_order'',
        field (0 \<le> ec_proportional_notional_rate p) ''proportional_notional_rate'',
        field (0 \<le> ec_half_spread_per_unit p) ''half_spread_per_unit'',
        field (0 \<le> ec_slippage_per_unit p) ''slippage_per_unit'']) (\<lambda>_.
     Inr \<lparr>cm_fixed_cost_per_order = ec_fixed_cost_per_order p,
          cm_proportional_notional_rate = ec_proportional_notional_rate p,
          cm_half_spread_per_unit = ec_half_spread_per_unit p,
          cm_slippage_per_unit = ec_slippage_per_unit p\<rparr>)"

definition cost_model_to_parameters :: "cost_model_config \<Rightarrow> execution_cost_parameters result" where
  "cost_model_to_parameters c =
     make_execution_costs (Finite (cm_fixed_cost_per_order c)) (Finite (cm_proportional_notional_rate c))
       (Finite (cm_half_spread_per_unit c)) (Finite (cm_slippage_per_unit c))"

record simulation_run_config =
  rc_schema_version :: int
  rc_simulator_version :: string
  rc_strategy_config_hash :: string
  rc_market_config_hash :: string
  rc_path_config_hash :: string
  rc_path_hash :: string
  rc_policy_id :: string
  rc_policy_parameters :: "(string \<times> py_value) list"
  rc_option_cost_model :: cost_model_config
  rc_futures_cost_model :: cost_model_config
  rc_manual_kill_switch_engaged :: bool
  rc_edge_gate_mode :: string
  rc_accounting_tolerance :: decimal
  rc_quantity_rounding :: string

definition sha256_identity :: "string \<Rightarrow> bool" where
  "sha256_identity h \<longleftrightarrow> take 7 h = ''sha256:'' \<and> length h = 71"

definition validate_run_config :: "simulation_run_config \<Rightarrow> simulation_run_config result" where
  "validate_run_config c =
     rbind (all_of
       [field (rc_schema_version c = 2) ''schema_version'',
        field (rc_edge_gate_mode c = ''not_evaluated_hedge_policy_benchmark'') ''edge_gate_mode'',
        field (0 < rc_accounting_tolerance c) ''accounting_tolerance'',
        field (rc_quantity_rounding c = ''nearest_integer_half_even'') ''quantity_rounding'',
        field (list_all sha256_identity
                 [rc_strategy_config_hash c, rc_market_config_hash c, rc_path_config_hash c, rc_path_hash c])
          ''run configuration hashes must be SHA-256 identities'']) (\<lambda>_.
     Inr c)"

section \<open>What is outside the repository\<close>

record env =
  ev_libm :: libm
  ev_zones :: zoneinfo
  ev_sha256 :: "string \<Rightarrow> string"
  ev_standard_normal :: "int \<Rightarrow> nat \<Rightarrow> pyfloat list"
  ev_dump_strategy :: "strategy_contract \<Rightarrow> py_value"
  ev_dump_hedging :: "hedging_config \<Rightarrow> (string \<times> py_value) list"
  ev_dump_market :: "simulation_market_config \<Rightarrow> py_value"
  ev_dump_run_config :: "simulation_run_config \<Rightarrow> py_value"

section \<open>Hashes of the configurations\<close>

text \<open>
  \<open>strategy/hashing.py\<close> has a canonical JSON of its own: floats become text, everything else is
  left to \<open>json.dumps\<close>, so integers stay numbers there. Its payload, \<open>ev_dump_strategy\<close>, is the
  dump of the contract without its creation time.
\<close>

fun strategy_normalize :: "py_value \<Rightarrow> json result" where
  "strategy_normalize PNone = Inr JNull"
| "strategy_normalize (PBool b) = Inr (JBool b)"
| "strategy_normalize (PStr s) = Inr (JStr s)"
| "strategy_normalize (PInt n) = Inr (JInt n)"
| "strategy_normalize (PFloat x) = rbind (decimal_of_float x) (\<lambda>d. Inr (JStr (decimal_text d)))"
| "strategy_normalize (PList vs) = rbind (rmap strategy_normalize vs) (\<lambda>items. Inr (JList items))"
| "strategy_normalize (PDict kvs) =
     rbind (rmap (\<lambda>kv. rbind (strategy_normalize (snd kv)) (\<lambda>v.
                        rbind (string_key (fst kv)) (\<lambda>k. Inr (k, v)))) kvs) (\<lambda>items.
     Inr (JObj items))"
| "strategy_normalize _ = Inl (TypeError ''Object is not JSON serializable'')"

definition strategy_canonical_json :: "py_value \<Rightarrow> string result" where
  "strategy_canonical_json payload = rbind (strategy_normalize payload) (\<lambda>v. Inr (json_dumps v))"

definition strategy_config_hash :: "env \<Rightarrow> strategy_contract \<Rightarrow> string result" where
  "strategy_config_hash E c =
     rbind (strategy_canonical_json (ev_dump_strategy E c)) (\<lambda>t. Inr (''sha256:'' @ ev_sha256 E t))"

definition simulation_market_config_hash :: "env \<Rightarrow> simulation_market_config \<Rightarrow> string result" where
  "simulation_market_config_hash E c = stable_hash (ev_sha256 E) (ev_dump_market E c)"

definition simulation_run_config_hash :: "env \<Rightarrow> simulation_run_config \<Rightarrow> string result" where
  "simulation_run_config_hash E c = stable_hash (ev_sha256 E) (ev_dump_run_config E c)"

definition policy_config_hash :: "env \<Rightarrow> string \<Rightarrow> (string \<times> py_value) list \<Rightarrow> string result" where
  "policy_config_hash E policy_id parameters =
     stable_hash (ev_sha256 E)
       (str_dict [(''policy_id'', PStr policy_id), (''parameters'', str_dict parameters)])"

definition sound_market :: "simulation_market_config \<Rightarrow> bool" where
  "sound_market c \<longleftrightarrow>
     0 < ck_trading_periods_per_year (mc_clock c)
     \<and> ck_decision_times_local (mc_clock c) \<noteq> []
     \<and> sorted_wrt (<) (ck_decision_times_local (mc_clock c))
     \<and> 0 < om_multiplier (mc_options c)
     \<and> om_eligible_expiry_sessions (mc_options c) \<noteq> []
     \<and> (\<forall>n \<in> set (om_eligible_expiry_sessions (mc_options c)). 0 < n)
     \<and> sorted_wrt (<) (om_eligible_expiry_sessions (mc_options c))
     \<and> 0 < fm_multiplier (mc_futures c)
     \<and> isfinite (fm_delta_per_contract (mc_futures c)) \<and> 0 < fm_delta_per_contract (mc_futures c)
     \<and> 0 \<le> fm_expiry_buffer_sessions (mc_futures c)"

lemma sort_distinct_strict:
  fixes xs :: "int list"
  shows "sort xs = xs \<Longrightarrow> distinct xs \<Longrightarrow> sorted_wrt (<) xs"
  by (metis sorted_sort strict_sorted_iff)

lemma sort_remdups_strict:
  fixes xs :: "int list"
  shows "sort (remdups xs) = xs \<Longrightarrow> sorted_wrt (<) xs"
  by (metis distinct_remdups distinct_sort sorted_sort strict_sorted_iff)

lemma validated_market_sound: "validate_market zones c = Inr c' \<Longrightarrow> sound_market c \<and> c' = c"
  by (auto simp: validate_market_def validate_clock_def validate_option_market_def
      validate_futures_market_def result_simps sound_market_def list_ex_iff not_le
      intro: sort_distinct_strict sort_remdups_strict)

end
