(* ===== verification/Clock.thy ===== *)
theory Clock
  imports SimConfig
begin

text \<open>
  \<open>app/simulation/clock.py\<close>: trading dates (weekdays), the decision sessions of a simulation and
  option expiries counted in trading sessions.

  The \<open>while\<close> loop of \<open>_trading_dates\<close> is the recursion \<open>trading_dates_loop\<close>; adding a day to the
  last representable date raises \<open>OverflowError\<close>, which is what makes the loop end.
\<close>

record simulation_session =
  ss_session_index :: int
  ss_decision_index :: int
  ss_session_date :: pydate
  ss_local_decision_at :: pydatetime
  ss_decision_at :: pydatetime
  ss_year_fraction_from_previous :: pyfloat

record simulation_expiry =
  se_expiry_session_date :: pydate
  se_remaining_trading_sessions :: int
  se_time_to_expiry_years :: pyfloat

function trading_dates_loop :: "int \<Rightarrow> pydate \<Rightarrow> pydate list \<Rightarrow> pydate list result" where
  "trading_dates_loop wanted current dates =
     (if wanted \<le> int (length dates) then Inr dates
      else if max_ordinal \<le> current then Inl OverflowError
      else trading_dates_loop wanted (current + 1) (if weekday current < 5 then dates @ [current] else dates))"
  by pat_completeness auto
termination
  by (relation "measure (\<lambda>(_, current, _). nat (max_ordinal - current))") auto

declare trading_dates_loop.simps [simp del]

definition trading_dates :: "pydate \<Rightarrow> int \<Rightarrow> pydate list result" where
  "trading_dates start wanted = trading_dates_loop wanted start []"

text \<open>The slots of the nested loops: session index, date, decision index and time.\<close>

definition session_slots :: "pydate list \<Rightarrow> pytime list \<Rightarrow> pytime \<Rightarrow> (nat \<times> pydate \<times> nat \<times> pytime) list" where
  "session_slots dates decision_times entry_time =
     [(i, d, j, t). (i, d) \<leftarrow> enumerate 0 dates, (j, t) \<leftarrow> enumerate 0 decision_times, \<not> (i = 0 \<and> t < entry_time)]"

definition session_at ::
  "tzone \<Rightarrow> pyfloat \<Rightarrow> nat \<times> nat \<times> pydate \<times> nat \<times> pytime \<Rightarrow> simulation_session" where
  "session_at z year_fraction slot =
     (let (sequence, i, d, j, t) = slot; local = combine d t z in
      \<lparr>ss_session_index = int i, ss_decision_index = int j, ss_session_date = d,
       ss_local_decision_at = local, ss_decision_at = astimezone utc local,
       ss_year_fraction_from_previous = (if sequence = 0 then 0 else year_fraction)\<rparr>)"

definition generate_simulation_sessions ::
  "zoneinfo \<Rightarrow> pydate \<Rightarrow> int \<Rightarrow> simulation_clock_config \<Rightarrow> pytime \<Rightarrow> simulation_session list result" where
  "generate_simulation_sessions zones start_session_date session_count config entry_time_local =
     rbind (guard (session_count \<le> 0) (ValueError ''session count must be positive'')) (\<lambda>_.
     rbind (guard (entry_time_local \<notin> set (ck_decision_times_local config))
              (ValueError ''strategy entry time must be a configured decision time'')) (\<lambda>_.
     rbind (trading_dates start_session_date session_count) (\<lambda>dates.
     rbind (lift_opt (KeyError (ck_timezone config)) (zones (ck_timezone config))) (\<lambda>z.
     rbind (int_true_div 1 (ck_trading_periods_per_year config
                              * int (length (ck_decision_times_local config)))) (\<lambda>year_fraction.
     Inr (map (session_at z year_fraction)
            (enumerate 0 (session_slots dates (ck_decision_times_local config) entry_time_local))))))))"

definition expiry_for_remaining_sessions ::
  "pydate \<Rightarrow> int \<Rightarrow> simulation_clock_config \<Rightarrow> simulation_expiry result" where
  "expiry_for_remaining_sessions entry_session_date remaining_trading_sessions config =
     rbind (guard (remaining_trading_sessions \<le> 0)
              (ValueError ''remaining expiry sessions must be positive'')) (\<lambda>_.
     rbind (trading_dates entry_session_date (remaining_trading_sessions + 1)) (\<lambda>dates.
     rbind (int_true_div remaining_trading_sessions (ck_trading_periods_per_year config)) (\<lambda>years.
     Inr \<lparr>se_expiry_session_date = last dates,
          se_remaining_trading_sessions = remaining_trading_sessions,
          se_time_to_expiry_years = years\<rparr>)))"

definition remaining_time_to_expiry :: "simulation_expiry \<Rightarrow> pyfloat \<Rightarrow> pyfloat result" where
  "remaining_time_to_expiry expiry elapsed =
     rbind (guard (elapsed < 0) (ValueError ''elapsed year fraction must be non-negative'')) (\<lambda>_.
     Inr (pymax (se_time_to_expiry_years expiry - elapsed) 0))"

section \<open>Trading dates\<close>

definition trading_day :: "pydate \<Rightarrow> bool" where
  "trading_day d \<longleftrightarrow> weekday d < 5"

text \<open>The dates found so far are all trading days from \<open>start\<close> up to \<open>current\<close>.\<close>

definition dates_upto :: "pydate \<Rightarrow> pydate \<Rightarrow> pydate list \<Rightarrow> bool" where
  "dates_upto start current dates \<longleftrightarrow>
     start \<le> current \<and> sorted_wrt (<) dates \<and> set dates = {d. start \<le> d \<and> d < current \<and> trading_day d}"

lemma dates_upto_step:
  assumes "dates_upto start current dates"
  shows "dates_upto start (current + 1) (if weekday current < 5 then dates @ [current] else dates)"
proof -
  have s: "start \<le> current" "sorted_wrt (<) dates"
    and d: "set dates = {d. start \<le> d \<and> d < current \<and> trading_day d}"
    using assms by (simp_all add: dates_upto_def)
  show ?thesis
  proof (cases "weekday current < 5")
    case True
    then have "insert current (set dates) = {d. start \<le> d \<and> d < current + 1 \<and> trading_day d}"
      using s(1) unfolding d by (auto simp: trading_day_def order_le_less)
    then show ?thesis using True s d by (simp add: dates_upto_def sorted_wrt_snoc)
  next
    case False
    then have "{d. start \<le> d \<and> d < current + 1 \<and> trading_day d} = set dates"
      unfolding d by (auto simp: trading_day_def order_le_less)
    then show ?thesis using False s by (simp add: dates_upto_def)
  qed
qed

lemma trading_dates_loop_spec:
  assumes "trading_dates_loop wanted current dates = Inr ds" and "dates_upto start current dates"
    and "int (length dates) \<le> wanted"
  shows "int (length ds) = wanted \<and> (\<exists>stop. dates_upto start stop ds)"
  using assms
proof (induction wanted current dates rule: trading_dates_loop.induct)
  case (1 wanted current dates)
  show ?case
  proof (cases "wanted \<le> int (length dates)")
    case True
    with "1.prems" show ?thesis by (auto simp: trading_dates_loop.simps [of wanted current dates])
  next
    case False
    with "1.prems"(1) have run: "\<not> max_ordinal \<le> current"
      "trading_dates_loop wanted (current + 1) (if weekday current < 5 then dates @ [current] else dates) = Inr ds"
      by (auto simp: trading_dates_loop.simps [of wanted current dates] split: if_splits)
    show ?thesis
      by (rule "1.IH" [OF False run(1) run(2) dates_upto_step [OF "1.prems"(2)]]) (use False in auto)
  qed
qed

lemma trading_dates_Inr:
  assumes "trading_dates start wanted = Inr ds" and "0 \<le> wanted"
  shows "int (length ds) = wanted" and "sorted_wrt (<) ds" and "\<forall>d \<in> set ds. start \<le> d \<and> trading_day d"
    and "d \<in> set ds \<Longrightarrow> start \<le> d' \<Longrightarrow> d' < d \<Longrightarrow> trading_day d' \<Longrightarrow> d' \<in> set ds"
proof -
  have "dates_upto start start []" by (auto simp: dates_upto_def)
  from trading_dates_loop_spec [OF assms(1) [unfolded trading_dates_def] this] assms(2)
  obtain stop where "int (length ds) = wanted" "dates_upto start stop ds" by auto
  then show "int (length ds) = wanted" "sorted_wrt (<) ds" "\<forall>d \<in> set ds. start \<le> d \<and> trading_day d"
    "d \<in> set ds \<Longrightarrow> start \<le> d' \<Longrightarrow> d' < d \<Longrightarrow> trading_day d' \<Longrightarrow> d' \<in> set ds"
    by (auto simp: dates_upto_def)
qed

text \<open>Days to wait for the next trading day.\<close>

definition weekend_wait :: "pydate \<Rightarrow> int" where
  "weekend_wait d = (if weekday d < 5 then 0 else 7 - weekday d)"

lemma weekend_wait_step:
  "weekday d < 5 \<Longrightarrow> weekend_wait (d + 1) \<le> 2"
  "\<not> weekday d < 5 \<Longrightarrow> weekend_wait (d + 1) = weekend_wait d - 1"
  unfolding weekend_wait_def weekday_def by presburger+

lemma trading_dates_loop_total:
  assumes "current + weekend_wait current + 3 * (wanted - int (length dates)) \<le> max_ordinal"
  shows "\<exists>ds. trading_dates_loop wanted current dates = Inr ds"
  using assms
proof (induction wanted current dates rule: trading_dates_loop.induct)
  case (1 wanted current dates)
  show ?case
  proof (cases "wanted \<le> int (length dates)")
    case True
    then show ?thesis by (simp add: trading_dates_loop.simps [of wanted current dates])
  next
    case False
    have "0 \<le> weekend_wait current"
      using weekday_range [of current] by (simp add: weekend_wait_def)
    with False "1.prems" have lt: "\<not> max_ordinal \<le> current" by simp
    let ?dates = "if weekday current < 5 then dates @ [current] else dates"
    have "current + 1 + weekend_wait (current + 1) + 3 * (wanted - int (length ?dates)) \<le> max_ordinal"
      using "1.prems" weekend_wait_step [of current] by (cases "weekday current < 5") (auto simp: weekend_wait_def)
    from "1.IH" [OF False lt this] False lt show ?thesis
      by (simp add: trading_dates_loop.simps [of wanted current dates])
  qed
qed


section \<open>Sessions\<close>

definition slot_less :: "nat \<times> pydate \<times> nat \<times> pytime \<Rightarrow> nat \<times> pydate \<times> nat \<times> pytime \<Rightarrow> bool" where
  "slot_less a b \<longleftrightarrow>
     (case (a, b) of ((i, d, j, t), (i', d', j', t')) \<Rightarrow>
        (i < i' \<and> d < d') \<or> (i = i' \<and> d = d' \<and> j < j' \<and> t < t'))"

lemma session_slots_concat:
  "session_slots dates decision_times entry =
     concat (map (\<lambda>(i, d). map (\<lambda>(j, t). (i, d, j, t))
                    (filter (\<lambda>(j, t). \<not> (i = 0 \<and> t < entry)) (enumerate 0 decision_times)))
               (enumerate 0 dates))"
proof -
  have "concat (map (\<lambda>(j, t). if \<not> (i = 0 \<and> t < entry) then [(i, d, j, t)] else []) xs)
      = map (\<lambda>(j, t). (i, d, j, t)) (filter (\<lambda>(j, t). \<not> (i = 0 \<and> t < entry)) xs)"
    for i :: nat and d :: int and xs :: "(nat \<times> int) list"
    by (induction xs) auto
  then show ?thesis by (auto simp: session_slots_def intro!: arg_cong [where f = concat])
qed

lemma session_slots_sorted:
  assumes "sorted_wrt (<) dates" and "sorted_wrt (<) decision_times"
  shows "sorted_wrt slot_less (session_slots dates decision_times entry)"
  unfolding session_slots_concat
proof (rule sorted_wrt_concat)
  have inner: "sorted_wrt slot_less (map (\<lambda>(j, t). (i, d, j, t)) (filter P (enumerate 0 decision_times)))" for i d P
  proof -
    have "sorted_wrt (\<lambda>(j, t) (j', t'). j < j' \<and> t < t') (filter P (enumerate 0 decision_times))"
      by (intro sorted_wrt_filter sorted_wrt_enumerate assms)
    then show ?thesis
      unfolding sorted_wrt_map by (rule sorted_wrt_mono_rel [rotated]) (auto simp: slot_less_def)
  qed
  then show "\<forall>xs \<in> set (map (\<lambda>(i, d). map (\<lambda>(j, t). (i, d, j, t))
        (filter (\<lambda>(j, t). \<not> (i = 0 \<and> t < entry)) (enumerate 0 decision_times))) (enumerate 0 dates)).
      sorted_wrt slot_less xs" by auto
  have "sorted_wrt (\<lambda>(i, d) (i', d'). i < i' \<and> d < d') (enumerate 0 dates)"
    by (intro sorted_wrt_enumerate assms)
  then show "sorted_wrt (\<lambda>xs ys. \<forall>x \<in> set xs. \<forall>y \<in> set ys. slot_less x y)
      (map (\<lambda>(i, d). map (\<lambda>(j, t). (i, d, j, t))
        (filter (\<lambda>(j, t). \<not> (i = 0 \<and> t < entry)) (enumerate 0 decision_times))) (enumerate 0 dates))"
    unfolding sorted_wrt_map by (rule sorted_wrt_mono_rel [rotated]) (auto simp: slot_less_def)
qed

lemma in_session_slots:
  "(i, d, j, t) \<in> set (session_slots dates decision_times entry) \<Longrightarrow>
     d \<in> set dates \<and> t \<in> set decision_times \<and> (i = 0 \<longrightarrow> entry \<le> t)"
  unfolding session_slots_concat by (auto simp: in_set_enumerate_eq not_less)

lemma sessions_Inr:
  assumes "generate_simulation_sessions zones start n config entry = Inr ss"
  obtains dates z yf where "trading_dates start n = Inr dates" and "0 < n"
    and "zones (ck_timezone config) = Some z" and "entry \<in> set (ck_decision_times_local config)"
    and "int_true_div 1 (ck_trading_periods_per_year config * int (length (ck_decision_times_local config))) = Inr yf"
    and "ss = map (session_at z yf) (enumerate 0 (session_slots dates (ck_decision_times_local config) entry))"
  using assms by (auto simp: generate_simulation_sessions_def result_simps)

section \<open>Properties\<close>

text \<open>The trading dates are exactly the requested number of weekdays from the start on, in
  order, with no weekday skipped; and the loop returns them whenever they fit before the last
  representable date.\<close>

theorem trading_dates_complete:
  assumes "0 \<le> n"
  shows "(\<forall>ds. trading_dates start n = Inr ds \<longrightarrow>
            int (length ds) = n \<and> sorted_wrt (<) ds
            \<and> (\<forall>d. d \<in> set ds \<longrightarrow> start \<le> d \<and> weekday d < 5)
            \<and> (\<forall>d \<in> set ds. \<forall>d'. start \<le> d' \<and> d' < d \<and> weekday d' < 5 \<longrightarrow> d' \<in> set ds))
    \<and> (start + weekend_wait start + 3 * n \<le> max_ordinal \<longrightarrow> (\<exists>ds. trading_dates start n = Inr ds))"
proof (intro conjI allI impI)
  fix ds assume ds: "trading_dates start n = Inr ds"
  note spec = trading_dates_Inr [OF ds assms]
  from spec show "int (length ds) = n" "sorted_wrt (<) ds" by simp_all
  from spec(3) show "start \<le> d" "weekday d < 5" if "d \<in> set ds" for d
    using that by (simp_all add: trading_day_def)
  from spec(4) show "\<forall>d \<in> set ds. \<forall>d'. start \<le> d' \<and> d' < d \<and> weekday d' < 5 \<longrightarrow> d' \<in> set ds"
    by (simp add: trading_day_def)
next
  assume "start + weekend_wait start + 3 * n \<le> max_ordinal"
  then show "\<exists>ds. trading_dates start n = Inr ds"
    unfolding trading_dates_def by (intro trading_dates_loop_total) simp
qed

theorem trading_dates_complete_witness:
  "\<exists>ds. trading_dates 739831 3 = Inr ds \<and> length ds = 3 \<and> (\<forall>d \<in> set ds. weekday d < 5)"
proof -
  have "(739831 :: int) + weekend_wait 739831 + 3 * 3 \<le> max_ordinal"
    by (simp add: weekend_wait_def weekday_def max_ordinal_def)
  with trading_dates_complete [of 3 739831] obtain ds where "trading_dates 739831 3 = Inr ds" by auto
  with trading_dates_complete [of 3 739831] show ?thesis by fastforce
qed

lemma expiry_counts:
  assumes "expiry_for_remaining_sessions entry n config = Inr e"
  shows "weekday (se_expiry_session_date e) < 5 \<and> se_remaining_trading_sessions e = n \<and> 0 < n
    \<and> entry < se_expiry_session_date e
    \<and> int (card {d. entry \<le> d \<and> d < se_expiry_session_date e \<and> weekday d < 5}) = n"
proof -
  from assms obtain ds where n: "0 < n" and ds: "trading_dates entry (n + 1) = Inr ds"
    and e: "se_expiry_session_date e = last ds" "se_remaining_trading_sessions e = n"
    by (auto simp: expiry_for_remaining_sessions_def result_simps)
  have pos: "0 \<le> n + 1" using n by simp
  note spec = trading_dates_Inr [OF ds pos]
  from spec(1) n have ne: "ds \<noteq> []" by auto
  then have split: "ds = butlast ds @ [last ds]" by simp
  then have last: "sorted_wrt (<) (butlast ds)" "\<forall>d \<in> set (butlast ds). d < last ds"
    using spec(2) by (metis sorted_wrt_snoc)+
  have "{d. entry \<le> d \<and> d < last ds \<and> weekday d < 5} = set (butlast ds)"
  proof (intro equalityI subsetI)
    fix d assume d: "d \<in> {d. entry \<le> d \<and> d < last ds \<and> weekday d < 5}"
    then have "d \<in> set ds" using spec(4) [of "last ds" d] ne by (auto simp: trading_day_def)
    moreover have "set ds = insert (last ds) (set (butlast ds))"
      by (subst split) simp
    ultimately show "d \<in> set (butlast ds)" using d by auto
  next
    fix d assume "d \<in> set (butlast ds)"
    then show "d \<in> {d. entry \<le> d \<and> d < last ds \<and> weekday d < 5}"
      using spec(3) last by (auto simp: trading_day_def dest: in_set_butlastD)
  qed
  moreover have "card (set (butlast ds)) = length (butlast ds)"
    using last(1) by (simp add: distinct_card strict_sorted_iff)
  moreover have "int (length (butlast ds)) = n" using spec(1) ne by (cases ds rule: rev_cases) auto
  ultimately have card: "int (card {d. entry \<le> d \<and> d < last ds \<and> weekday d < 5}) = n" by simp
  have "butlast ds \<noteq> []"
  proof
    assume "butlast ds = []"
    with \<open>int (length (butlast ds)) = n\<close> n show False by (simp only: list.size)
  qed
  then obtain d0 where "d0 \<in> set (butlast ds)" by (cases "butlast ds") auto
  then have "entry < last ds" using spec(3) last(2) by (fastforce dest: in_set_butlastD)
  with card n ne e spec(3) show ?thesis by (simp add: trading_day_def)
qed

text \<open>An expiry is exactly the requested number of trading sessions away: it is a weekday, and
  the number of weekdays from the entry date up to the day before it is the count asked for.\<close>

theorem expiry_counts_sessions:
  assumes "expiry_for_remaining_sessions entry n config = Inr e"
  shows "weekday (se_expiry_session_date e) < 5 \<and> se_remaining_trading_sessions e = n \<and> 0 < n
    \<and> entry < se_expiry_session_date e
    \<and> int (card {d. entry \<le> d \<and> d < se_expiry_session_date e \<and> weekday d < 5}) = n"
  using expiry_counts [OF assms] .

definition demo_clock :: simulation_clock_config where
  "demo_clock = \<lparr>ck_timezone = ''UTC'', ck_trading_periods_per_year = 256, ck_calendar_mode = ''weekdays'',
     ck_decision_times_local = [34200000000]\<rparr>"

lemmas trading_dates_eval = trading_dates_def trading_dates_loop.simps weekday_def max_ordinal_def

lemma demo_expiry_date:
  "expiry_for_remaining_sessions 739831 4 demo_clock
     = Inr \<lparr>se_expiry_session_date = 739835, se_remaining_trading_sessions = 4,
            se_time_to_expiry_years = Fl (1/64)\<rparr>"
  by (simp add: expiry_for_remaining_sessions_def trading_dates_eval demo_clock_def int_true_div_def
      float_eval Let_def)

theorem expiry_counts_sessions_witness:
  "\<exists>e. expiry_for_remaining_sessions 739831 4 demo_clock = Inr e \<and> weekday (se_expiry_session_date e) < 5
     \<and> int (card {d. 739831 \<le> d \<and> d < se_expiry_session_date e \<and> weekday d < 5}) = 4"
  using expiry_counts_sessions [OF demo_expiry_date] demo_expiry_date by blast

text \<open>The sessions of a simulation run forward: weekdays from the start date on, ordered by date
  and then by decision time, the first day starting no earlier than the entry time; the first step
  has no elapsed time and every other the same year fraction. In a zone of constant offset (India
  has no daylight saving) the decision instants are strictly increasing.\<close>

theorem simulation_sessions_ordered:
  assumes "generate_simulation_sessions zones start n config entry = Inr ss"
    and "sorted_wrt (<) (ck_decision_times_local config)"
  shows "(\<forall>s \<in> set ss. start \<le> ss_session_date s \<and> weekday (ss_session_date s) < 5)
    \<and> sorted_wrt (\<lambda>a b. (ss_session_index a < ss_session_index b \<and> ss_session_date a < ss_session_date b)
         \<or> (ss_session_index a = ss_session_index b \<and> ss_session_date a = ss_session_date b
            \<and> ss_decision_index a < ss_decision_index b)) ss
    \<and> (\<exists>yf. \<forall>k < length ss. ss_year_fraction_from_previous (ss ! k) = (if k = 0 then 0 else yf))
    \<and> (\<forall>z off. zones (ck_timezone config) = Some z \<and> (\<forall>w. tz_local_offset z w = off)
         \<and> (\<forall>t \<in> set (ck_decision_times_local config). 0 \<le> t \<and> t < day_us) \<longrightarrow>
         sorted_wrt (\<lambda>a b. instant (ss_decision_at a) < instant (ss_decision_at b)) ss)"
proof -
  from sessions_Inr [OF assms(1)] obtain dates z yf where dates: "trading_dates start n = Inr dates" "0 < n"
    and z: "zones (ck_timezone config) = Some z"
    and ss: "ss = map (session_at z yf) (enumerate 0 (session_slots dates (ck_decision_times_local config) entry))" .
  have d: "sorted_wrt (<) dates" "\<forall>d \<in> set dates. start \<le> d \<and> trading_day d"
    using trading_dates_Inr(2,3) [OF dates(1)] dates(2) by simp_all
  let ?slots = "session_slots dates (ck_decision_times_local config) entry"
  have order: "sorted_wrt (\<lambda>(k, a) (k', b). k < k' \<and> slot_less a b \<and> a \<in> set ?slots \<and> b \<in> set ?slots) (enumerate 0 ?slots)"
    using sorted_wrt_enumerate [OF session_slots_sorted [OF d(1) assms(2)], of 0 entry]
    by (rule sorted_wrt_mono_rel [rotated]) (auto dest: in_set_enumerate)
  have "start \<le> ss_session_date s \<and> weekday (ss_session_date s) < 5" if s: "s \<in> set ss" for s
  proof -
    from s obtain k i dd j t where "(i, dd, j, t) \<in> set ?slots" "s = session_at z yf (k, i, dd, j, t)"
      unfolding ss by (auto dest: in_set_enumerate)
    with in_session_slots [of i dd j t] d(2) show ?thesis
      by (auto simp: session_at_def Let_def trading_day_def)
  qed
  moreover have "sorted_wrt (\<lambda>a b. (ss_session_index a < ss_session_index b \<and> ss_session_date a < ss_session_date b)
         \<or> (ss_session_index a = ss_session_index b \<and> ss_session_date a = ss_session_date b
            \<and> ss_decision_index a < ss_decision_index b)) ss"
    unfolding ss sorted_wrt_map using order
    by (rule sorted_wrt_mono_rel [rotated]) (auto simp: session_at_def slot_less_def Let_def)
  moreover have "ss_year_fraction_from_previous (ss ! k) = (if k = 0 then 0 else yf)" if "k < length ss" for k
    using that unfolding ss by (simp add: nth_enumerate_eq session_at_def Let_def split: prod.splits)
  moreover have "sorted_wrt (\<lambda>a b. instant (ss_decision_at a) < instant (ss_decision_at b)) ss"
    if off: "\<forall>w. tz_local_offset z w = off" and bnd: "\<forall>t \<in> set (ck_decision_times_local config). 0 \<le> t \<and> t < day_us"
    for off
  proof -
    have day: "(dd :: int) * day_us + t < dd' * day_us + t'"
      if "dd < dd'" "t < day_us" "0 \<le> t'" for dd dd' t t'
    proof -
      have "(dd + 1) * day_us \<le> dd' * day_us" using that(1) by (intro mult_right_mono) (auto simp: day_us_def)
      then show ?thesis using that by (simp add: distrib_right)
    qed
    show ?thesis
      unfolding ss sorted_wrt_map using order
      by (rule sorted_wrt_mono_rel [rotated])
        (use off bnd in \<open>auto simp: session_at_def slot_less_def Let_def combine_def astimezone_def
            dest!: in_session_slots intro!: day\<close>)
  qed
  ultimately show ?thesis using z by (intro conjI) auto
qed

theorem simulation_sessions_ordered_witness:
  "\<exists>s t. generate_simulation_sessions demo_zones 739831 2 demo_clock 34200000000 = Inr [s, t]
     \<and> ss_session_date s < ss_session_date t \<and> instant (ss_decision_at s) < instant (ss_decision_at t)"
proof -
  obtain s t where run: "generate_simulation_sessions demo_zones 739831 2 demo_clock 34200000000 = Inr [s, t]"
    and dates: "ss_session_date s \<noteq> ss_session_date t"
    by (simp add: generate_simulation_sessions_def trading_dates_eval demo_clock_def int_true_div_def
        float_eval Let_def demo_zones_def session_slots_def session_at_def)
  have "sorted_wrt (<) (ck_decision_times_local demo_clock)" by (simp add: demo_clock_def)
  from simulation_sessions_ordered [OF run this] have
    "(ss_session_date s < ss_session_date t \<or> ss_session_date s = ss_session_date t)"
    "instant (ss_decision_at s) < instant (ss_decision_at t)"
    by (auto simp: demo_clock_def demo_zones_def utc_def day_us_def)
  with run dates show ?thesis by auto
qed

end
