(* ===== verification/Paths.thy ===== *)
theory Paths
  imports Clock
begin

text \<open>
  \<open>app/simulation/paths.py\<close> (path configurations, generators, validation and hashes),
  \<open>app/simulation/market.py\<close> (market states) and \<open>app/simulation/state_builder.py\<close> (the executable
  states of a path and the check of the path against the clock).

  numpy's generator is the parameter \<open>ev_standard_normal\<close>; the array arithmetic on its shocks is
  elementwise binary64 and is modelled. The loop over volatility regimes updates a list of NaNs
  by index, as the source does.
\<close>

section \<open>Paths\<close>

record path_config =
  pc_initial_spot :: pyfloat
  pc_drift :: pyfloat
  pc_number_of_steps :: int
  pc_step_year_fraction :: pyfloat
  pc_seed :: int
  pc_risk_free_rate :: pyfloat
  pc_dividend_yield :: pyfloat
  pc_implied_volatility :: pyfloat

record gbm_path_config = path_config +
  gb_realized_volatility :: pyfloat

record volatility_regime =
  vr_start_step :: int
  vr_end_step :: int
  vr_volatility :: pyfloat

record piecewise_path_config = path_config +
  pw_volatility_regimes :: "volatility_regime list"

record underlying_path_point =
  up_timestamp :: pydatetime
  up_session_date :: pydate
  up_session_index :: int
  up_step_index :: int
  up_spot :: pyfloat
  up_realized_step_year_fraction :: pyfloat
  up_risk_free_rate :: pyfloat
  up_dividend_yield :: pyfloat
  up_implied_volatility :: pyfloat

record generated_path =
  gp_generator_id :: string
  gp_generator_version :: int
  gp_seed :: "int option"
  gp_canonical_parameters :: "(string \<times> py_value) list"
  gp_points :: "underlying_path_point list"
  gp_path_hash :: string

definition point_payload :: "underlying_path_point \<Rightarrow> py_value" where
  "point_payload p = str_dict
     [(''timestamp'', PDateTime (up_timestamp p)), (''session_date'', PDate (up_session_date p)),
      (''session_index'', PInt (up_session_index p)), (''step_index'', PInt (up_step_index p)),
      (''spot'', PFloat (up_spot p)),
      (''realized_step_year_fraction'', PFloat (up_realized_step_year_fraction p)),
      (''risk_free_rate'', PFloat (up_risk_free_rate p)),
      (''dividend_yield'', PFloat (up_dividend_yield p)),
      (''implied_volatility'', PFloat (up_implied_volatility p))]"

definition underlying_path_hash ::
  "env \<Rightarrow> string \<Rightarrow> int \<Rightarrow> int option \<Rightarrow> (string \<times> py_value) list \<Rightarrow> underlying_path_point list
   \<Rightarrow> string result" where
  "underlying_path_hash E generator_id generator_version seed parameters points =
     stable_hash (ev_sha256 E) (str_dict
       [(''generator_id'', PStr generator_id), (''generator_version'', PInt generator_version),
        (''seed'', case seed of None \<Rightarrow> PNone | Some n \<Rightarrow> PInt n),
        (''parameters'', str_dict parameters), (''points'', PList (map point_payload points))])"

definition validate_common :: "'a path_config_scheme \<Rightarrow> simulation_session list \<Rightarrow> unit result" where
  "validate_common config sessions =
     rbind (guard (\<not> list_all isfinite [pc_initial_spot config, pc_drift config, pc_step_year_fraction config,
                      pc_risk_free_rate config, pc_dividend_yield config, pc_implied_volatility config])
              (ValueError ''path inputs must be finite'')) (\<lambda>_.
     rbind (guard (pc_initial_spot config \<le> 0 \<or> pc_number_of_steps config \<le> 0
                     \<or> pc_step_year_fraction config \<le> 0)
              (ValueError ''path price, step count, and year fraction must be positive'')) (\<lambda>_.
     rbind (guard (pc_implied_volatility config < 0)
              (ValueError ''implied volatility must be non-negative'')) (\<lambda>_.
     rbind (guard (int (length sessions) \<noteq> pc_number_of_steps config + 1)
              (ValueError ''simulation clock point count must match generated path'')) (\<lambda>_.
     guard (list_ex (\<lambda>s. \<not> float_eq (ss_year_fraction_from_previous s) (pc_step_year_fraction config))
              (tl sessions))
       (ValueError ''path year fraction must match simulation clock'')))))"

definition validate_point :: "underlying_path_point list \<Rightarrow> nat \<Rightarrow> unit result" where
  "validate_point points index =
     (let point = points ! index in
      rbind (guard (\<not> tz_aware (up_timestamp point)
                      \<or> \<not> list_all isfinite [up_spot point, up_realized_step_year_fraction point,
                            up_risk_free_rate point, up_dividend_yield point, up_implied_volatility point])
               (ValueError ''underlying path points must be timezone-aware and finite'')) (\<lambda>_.
      rbind (guard (up_spot point \<le> 0 \<or> up_realized_step_year_fraction point < 0
                      \<or> up_implied_volatility point < 0)
               (ValueError ''underlying path point values are invalid'')) (\<lambda>_.
      rbind (guard (up_step_index point \<noteq> int index)
               (ValueError ''underlying path step indexes must be contiguous'')) (\<lambda>_.
      rbind (guard (index = 0 \<and> up_realized_step_year_fraction point \<noteq> 0)
               (ValueError ''initial underlying path point must have zero elapsed time'')) (\<lambda>_.
      guard (index \<noteq> 0 \<and> instant (up_timestamp point) \<le> instant (up_timestamp (points ! (index - 1))))
        (ValueError ''underlying path timestamps must be strictly increasing''))))))"

definition validate_points :: "underlying_path_point list \<Rightarrow> unit result" where
  "validate_points points = rbind (rmap (validate_point points) [0..<length points]) (\<lambda>_. Inr ())"

definition normal_returns :: "env \<Rightarrow> pyfloat \<Rightarrow> pyfloat list \<Rightarrow> pyfloat \<Rightarrow> int \<Rightarrow> pyfloat list result" where
  "normal_returns E drift volatilities dt seed =
     (let shocks = ev_standard_normal E seed (length volatilities) in
      rbind (m_sqrt (ev_libm E) dt) (\<lambda>sqrt_dt.
      Inr (map2 (\<lambda>v shock. (drift - Fl (1/2) * (v * v)) * dt + v * sqrt_dt * shock) volatilities shocks)))"

fun spot_path :: "libm \<Rightarrow> pyfloat \<Rightarrow> pyfloat list \<Rightarrow> pyfloat list result" where
  "spot_path L spot [] = Inr [spot]"
| "spot_path L spot (r # returns) =
     rbind (m_exp L r) (\<lambda>growth.
     rbind (spot_path L (spot * growth) returns) (\<lambda>spots. Inr (spot # spots)))"

definition path_point ::
  "'a path_config_scheme \<Rightarrow> nat \<times> pyfloat \<times> simulation_session \<Rightarrow> underlying_path_point" where
  "path_point config x =
     (let (step, spot, session) = x in
      \<lparr>up_timestamp = ss_decision_at session, up_session_date = ss_session_date session,
       up_session_index = ss_session_index session, up_step_index = int step, up_spot = spot,
       up_realized_step_year_fraction = ss_year_fraction_from_previous session,
       up_risk_free_rate = pc_risk_free_rate config, up_dividend_yield = pc_dividend_yield config,
       up_implied_volatility = pc_implied_volatility config\<rparr>)"

definition build_path ::
  "env \<Rightarrow> string \<Rightarrow> 'a path_config_scheme \<Rightarrow> (string \<times> py_value) list \<Rightarrow> pyfloat list
   \<Rightarrow> simulation_session list \<Rightarrow> generated_path result" where
  "build_path E generator_id config parameters returns sessions =
     rbind (spot_path (ev_libm E) (pc_initial_spot config) returns) (\<lambda>spots.
     rbind (guard (length spots \<noteq> length sessions)
              (ValueError ''zip() arguments have different lengths'')) (\<lambda>_.
     let points = map (path_point config) (enumerate 0 (zip spots sessions)) in
     rbind (validate_points points) (\<lambda>_.
     rbind (underlying_path_hash E generator_id 2 (Some (pc_seed config)) parameters points) (\<lambda>path_hash.
     Inr \<lparr>gp_generator_id = generator_id, gp_generator_version = 2, gp_seed = Some (pc_seed config),
          gp_canonical_parameters = parameters, gp_points = points, gp_path_hash = path_hash\<rparr>))))"

text \<open>\<open>_canonical_parameters\<close>: the fields of the configuration in declaration order, without the seed.\<close>

definition gbm_parameters :: "gbm_path_config \<Rightarrow> (string \<times> py_value) list" where
  "gbm_parameters c =
     [(''initial_spot'', PFloat (pc_initial_spot c)), (''drift'', PFloat (pc_drift c)),
      (''realized_volatility'', PFloat (gb_realized_volatility c)),
      (''number_of_steps'', PInt (pc_number_of_steps c)),
      (''step_year_fraction'', PFloat (pc_step_year_fraction c)),
      (''risk_free_rate'', PFloat (pc_risk_free_rate c)),
      (''dividend_yield'', PFloat (pc_dividend_yield c)),
      (''implied_volatility'', PFloat (pc_implied_volatility c))]"

definition piecewise_parameters :: "piecewise_path_config \<Rightarrow> (string \<times> py_value) list" where
  "piecewise_parameters c =
     [(''initial_spot'', PFloat (pc_initial_spot c)), (''drift'', PFloat (pc_drift c)),
      (''volatility_regimes'', PList (map (\<lambda>r. str_dict
         [(''start_step'', PInt (vr_start_step r)), (''end_step'', PInt (vr_end_step r)),
          (''volatility'', PFloat (vr_volatility r))]) (pw_volatility_regimes c))),
      (''number_of_steps'', PInt (pc_number_of_steps c)),
      (''step_year_fraction'', PFloat (pc_step_year_fraction c)),
      (''risk_free_rate'', PFloat (pc_risk_free_rate c)),
      (''dividend_yield'', PFloat (pc_dividend_yield c)),
      (''implied_volatility'', PFloat (pc_implied_volatility c))]"

definition generate_gbm_path ::
  "env \<Rightarrow> gbm_path_config \<Rightarrow> simulation_session list \<Rightarrow> generated_path result" where
  "generate_gbm_path E config sessions =
     rbind (validate_common config sessions) (\<lambda>_.
     rbind (guard (\<not> isfinite (gb_realized_volatility config) \<or> gb_realized_volatility config < 0)
              (ValueError ''realized volatility must be non-negative and finite'')) (\<lambda>_.
     rbind (normal_returns E (pc_drift config)
              (replicate (nat (pc_number_of_steps config)) (gb_realized_volatility config))
              (pc_step_year_fraction config) (pc_seed config)) (\<lambda>returns.
     build_path E ''gbm'' config (gbm_parameters config) returns sessions)))"

definition assign_step :: "pyfloat \<Rightarrow> int \<Rightarrow> pyfloat list \<Rightarrow> pyfloat list result" where
  "assign_step volatility step volatilities =
     rbind (guard (volatilities ! nat (step - 1) \<noteq> NaN) (ValueError ''volatility regimes overlap'')) (\<lambda>_.
     Inr (volatilities[nat (step - 1) := volatility]))"

definition assign_regime :: "int \<Rightarrow> volatility_regime \<Rightarrow> pyfloat list \<Rightarrow> pyfloat list result" where
  "assign_regime number_of_steps regime volatilities =
     rbind (guard (vr_start_step regime < 1 \<or> vr_end_step regime < vr_start_step regime
                     \<or> \<not> isfinite (vr_volatility regime) \<or> vr_volatility regime < 0)
              (ValueError ''volatility regime is invalid'')) (\<lambda>_.
     rfold (assign_step (vr_volatility regime))
       [vr_start_step regime .. min (vr_end_step regime) number_of_steps] volatilities)"

definition piecewise_volatilities :: "piecewise_path_config \<Rightarrow> pyfloat list result" where
  "piecewise_volatilities config =
     rbind (rfold (assign_regime (pc_number_of_steps config)) (pw_volatility_regimes config)
              (replicate (nat (pc_number_of_steps config)) NaN)) (\<lambda>volatilities.
     rbind (guard (list_ex (\<lambda>v. v = NaN) volatilities)
              (ValueError ''volatility regimes must cover every generated step'')) (\<lambda>_.
     Inr volatilities))"

definition generate_piecewise_path ::
  "env \<Rightarrow> piecewise_path_config \<Rightarrow> simulation_session list \<Rightarrow> generated_path result" where
  "generate_piecewise_path E config sessions =
     rbind (validate_common config sessions) (\<lambda>_.
     rbind (piecewise_volatilities config) (\<lambda>volatilities.
     rbind (normal_returns E (pc_drift config) volatilities (pc_step_year_fraction config) (pc_seed config))
       (\<lambda>returns.
     build_path E ''piecewise_volatility'' config (piecewise_parameters config) returns sessions)))"

definition load_user_path :: "env \<Rightarrow> underlying_path_point list \<Rightarrow> generated_path result" where
  "load_user_path E points =
     rbind (guard (points = []) (ValueError ''user-provided path cannot be empty'')) (\<lambda>_.
     rbind (validate_points points) (\<lambda>_.
     let parameters = [(''point_count'', PInt (int (length points)))] in
     rbind (underlying_path_hash E ''user_provided'' 2 None parameters points) (\<lambda>path_hash.
     Inr \<lparr>gp_generator_id = ''user_provided'', gp_generator_version = 2, gp_seed = None,
          gp_canonical_parameters = parameters, gp_points = points, gp_path_hash = path_hash\<rparr>)))"

definition replace_path_points ::
  "env \<Rightarrow> generated_path \<Rightarrow> underlying_path_point list \<Rightarrow> generated_path result" where
  "replace_path_points E path points =
     rbind (underlying_path_hash E (gp_generator_id path) (gp_generator_version path) (gp_seed path)
              (gp_canonical_parameters path) points) (\<lambda>path_hash.
     Inr (path\<lparr>gp_points := points, gp_path_hash := path_hash\<rparr>))"

section \<open>Market states\<close>

record market_state =
  ms_timestamp :: pydatetime
  ms_session_index :: int
  ms_step_index :: int
  ms_spot :: pyfloat
  ms_futures_price :: pyfloat
  ms_risk_free_rate :: pyfloat
  ms_dividend_yield :: pyfloat
  ms_implied_volatility :: pyfloat
  ms_time_to_expiry_years :: pyfloat
  ms_futures_time_to_expiry_years :: pyfloat
  ms_step_year_fraction :: pyfloat
  ms_session_date :: "pydate option"
  ms_local_timestamp :: "pydatetime option"

definition make_market_state :: "market_state \<Rightarrow> market_state result" where
  "make_market_state s =
     rbind (guard (\<not> tz_aware (ms_timestamp s))
              (ValueError ''market-state timestamp must be timezone-aware'')) (\<lambda>_.
     rbind (guard (case ms_local_timestamp s of None \<Rightarrow> False | Some t \<Rightarrow> \<not> tz_aware t)
              (ValueError ''market-state local timestamp must be timezone-aware'')) (\<lambda>_.
     rbind (guard (ms_session_index s < 0 \<or> ms_step_index s < 0)
              (ValueError ''market-state indexes must be non-negative'')) (\<lambda>_.
     rbind (guard (\<not> list_all isfinite [ms_spot s, ms_futures_price s, ms_risk_free_rate s,
                      ms_dividend_yield s, ms_implied_volatility s, ms_time_to_expiry_years s,
                      ms_futures_time_to_expiry_years s, ms_step_year_fraction s])
              (ValueError ''market-state values must be finite'')) (\<lambda>_.
     rbind (guard (ms_spot s \<le> 0 \<or> ms_futures_price s \<le> 0)
              (ValueError ''market prices must be positive'')) (\<lambda>_.
     rbind (guard (ms_implied_volatility s < 0 \<or> ms_time_to_expiry_years s < 0
                     \<or> ms_futures_time_to_expiry_years s < 0)
              (ValueError ''volatility and times to expiry must be non-negative'')) (\<lambda>_.
     rbind (guard (ms_step_year_fraction s < 0)
              (ValueError ''step year fraction must be non-negative'')) (\<lambda>_.
     Inr s)))))))"

definition carry_futures_price :: "libm \<Rightarrow> pyfloat \<Rightarrow> pyfloat \<Rightarrow> pyfloat \<Rightarrow> pyfloat \<Rightarrow> pyfloat result" where
  "carry_futures_price L spot risk_free_rate dividend_yield maturity_years =
     rbind (guard (spot \<le> 0 \<or> maturity_years < 0)
              (ValueError ''spot must be positive and maturity non-negative'')) (\<lambda>_.
     rbind (m_exp L ((risk_free_rate - dividend_yield) * maturity_years)) (\<lambda>growth.
     Inr (spot * growth)))"

section \<open>Executable states\<close>

definition check_clock_point ::
  "nat \<times> underlying_path_point \<times> simulation_session \<Rightarrow> unit result" where
  "check_clock_point x =
     (let (step_index, point, session) = x in
      rbind (guard (utcoffset (up_timestamp point) \<noteq> utcoffset (ss_decision_at session))
               (ValueError ''underlying path timestamps must use UTC'')) (\<lambda>_.
      rbind (guard (instant (up_timestamp point) \<noteq> instant (ss_decision_at session))
               (ValueError ''underlying path timestamp does not match simulation clock'')) (\<lambda>_.
      rbind (guard (up_session_date point \<noteq> ss_session_date session
                      \<or> up_session_index point \<noteq> ss_session_index session)
               (ValueError ''underlying path session identity does not match simulation clock'')) (\<lambda>_.
      rbind (guard (up_step_index point \<noteq> int step_index)
               (ValueError ''underlying path step index does not match simulation clock'')) (\<lambda>_.
      guard (\<not> float_eq (up_realized_step_year_fraction point) (ss_year_fraction_from_previous session))
        (ValueError ''underlying path year fraction does not match simulation clock''))))))"

definition validate_underlying_path_clock ::
  "env \<Rightarrow> strategy_contract \<Rightarrow> simulation_market_config \<Rightarrow> generated_path \<Rightarrow> unit result" where
  "validate_underlying_path_clock E strategy market path =
     (let points = gp_points path; clock = mc_clock market in
      rbind (guard (points = []) (ValueError ''simulation path cannot be empty'')) (\<lambda>_.
      rbind (lift_opt (KeyError (ck_timezone clock)) (ev_zones E (ck_timezone clock))) (\<lambda>z.
      rbind (generate_simulation_sessions (ev_zones E) (date_of (astimezone z (up_timestamp (hd points))))
               (int (length points) div int (length (ck_decision_times_local clock)) + 2) clock
               (en_entry_time_local (sc_entry strategy))) (\<lambda>sessions.
      let expected = take (length points) sessions in
      rbind (guard (length expected \<noteq> length points)
               (ValueError ''underlying path exceeds generated clock'')) (\<lambda>_.
      rbind (rmap check_clock_point (enumerate 0 (zip points expected))) (\<lambda>_. Inr ()))))))"

text \<open>The state of a point, given the elapsed year fraction including its own step.\<close>

definition executable_state ::
  "libm \<Rightarrow> tzone \<Rightarrow> pyfloat \<Rightarrow> simulation_expiry \<Rightarrow> pyfloat \<Rightarrow> underlying_path_point \<Rightarrow> market_state result" where
  "executable_state L z futures_maturity option_expiry elapsed point =
     (let remaining_futures_maturity = pymax (futures_maturity - elapsed) 0 in
      rbind (carry_futures_price L (up_spot point) (up_risk_free_rate point) (up_dividend_yield point)
               remaining_futures_maturity) (\<lambda>futures_price.
      rbind (remaining_time_to_expiry option_expiry elapsed) (\<lambda>time_to_expiry.
      make_market_state
        \<lparr>ms_timestamp = up_timestamp point, ms_session_index = up_session_index point,
         ms_step_index = up_step_index point, ms_spot = up_spot point,
         ms_futures_price = futures_price, ms_risk_free_rate = up_risk_free_rate point,
         ms_dividend_yield = up_dividend_yield point,
         ms_implied_volatility = up_implied_volatility point,
         ms_time_to_expiry_years = time_to_expiry,
         ms_futures_time_to_expiry_years = remaining_futures_maturity,
         ms_step_year_fraction = up_realized_step_year_fraction point,
         ms_session_date = Some (up_session_date point),
         ms_local_timestamp = Some (astimezone z (up_timestamp point))\<rparr>)))"

fun executable_states ::
  "libm \<Rightarrow> tzone \<Rightarrow> pyfloat \<Rightarrow> simulation_expiry \<Rightarrow> pyfloat \<Rightarrow> underlying_path_point list
   \<Rightarrow> market_state list result" where
  "executable_states L z futures_maturity option_expiry elapsed [] = Inr []"
| "executable_states L z futures_maturity option_expiry elapsed (point # points) =
     (let elapsed' = elapsed + up_realized_step_year_fraction point in
      rbind (executable_state L z futures_maturity option_expiry elapsed' point) (\<lambda>s.
      rbind (executable_states L z futures_maturity option_expiry elapsed' points) (\<lambda>states.
      Inr (s # states))))"

definition build_executable_market_states ::
  "env \<Rightarrow> strategy_contract \<Rightarrow> simulation_market_config \<Rightarrow> generated_path \<Rightarrow> simulation_expiry
   \<Rightarrow> market_state list result" where
  "build_executable_market_states E strategy market path option_expiry =
     rbind (validate_underlying_path_clock E strategy market path) (\<lambda>_.
     rbind (int_true_div (ex_holding_horizon_sessions (sc_expiry strategy)
                            + fm_expiry_buffer_sessions (mc_futures market))
              (ck_trading_periods_per_year (mc_clock market))) (\<lambda>futures_maturity.
     rbind (lift_opt (KeyError (ck_timezone (mc_clock market))) (ev_zones E (ck_timezone (mc_clock market)))) (\<lambda>z.
     executable_states (ev_libm E) z futures_maturity option_expiry 0 (gp_points path))))"

definition state_payload :: "market_state \<Rightarrow> py_value" where
  "state_payload s = str_dict
     [(''timestamp'', PDateTime (ms_timestamp s)), (''session_index'', PInt (ms_session_index s)),
      (''step_index'', PInt (ms_step_index s)), (''spot'', PFloat (ms_spot s)),
      (''futures_price'', PFloat (ms_futures_price s)),
      (''risk_free_rate'', PFloat (ms_risk_free_rate s)),
      (''dividend_yield'', PFloat (ms_dividend_yield s)),
      (''implied_volatility'', PFloat (ms_implied_volatility s)),
      (''time_to_expiry_years'', PFloat (ms_time_to_expiry_years s)),
      (''futures_time_to_expiry_years'', PFloat (ms_futures_time_to_expiry_years s)),
      (''step_year_fraction'', PFloat (ms_step_year_fraction s)),
      (''session_date'', case ms_session_date s of None \<Rightarrow> PNone | Some d \<Rightarrow> PDate d),
      (''local_timestamp'', case ms_local_timestamp s of None \<Rightarrow> PNone | Some t \<Rightarrow> PDateTime t)]"

definition executable_market_state_hash :: "env \<Rightarrow> market_state list \<Rightarrow> string result" where
  "executable_market_state_hash E states = stable_hash (ev_sha256 E) (PList (map state_payload states))"


section \<open>Well-formed paths\<close>

definition valid_points :: "underlying_path_point list \<Rightarrow> bool" where
  "valid_points ps \<longleftrightarrow>
     (\<forall>k < length ps. tz_aware (up_timestamp (ps ! k)) \<and> up_step_index (ps ! k) = int k
        \<and> isfinite (up_spot (ps ! k)) \<and> 0 < up_spot (ps ! k)
        \<and> isfinite (up_realized_step_year_fraction (ps ! k)) \<and> 0 \<le> up_realized_step_year_fraction (ps ! k)
        \<and> isfinite (up_implied_volatility (ps ! k)) \<and> 0 \<le> up_implied_volatility (ps ! k)
        \<and> (k = 0 \<longrightarrow> up_realized_step_year_fraction (ps ! k) = 0)
        \<and> (0 < k \<longrightarrow> instant (up_timestamp (ps ! (k - 1))) < instant (up_timestamp (ps ! k))))"

lemma finite_order: "isfinite x \<Longrightarrow> \<not> x < 0 \<Longrightarrow> 0 \<le> x" "isfinite x \<Longrightarrow> \<not> x \<le> 0 \<Longrightarrow> 0 < x"
  by (cases x; force simp: float_ops)+

lemma validate_points_Inr:
  assumes "validate_points ps = Inr u"
  shows "valid_points ps"
proof -
  have "validate_point ps k = Inr ()" if "k < length ps" for k
    using assms that by (auto simp: validate_points_def result_simps rmap_eq_map)
  then show ?thesis
    by (auto simp: valid_points_def validate_point_def Let_def result_simps finite_order not_le)
qed

lemma consecutive_increasing:
  assumes "\<forall>k < length xs. 0 < k \<longrightarrow> f (xs ! (k - 1)) < (f (xs ! k) :: int)"
  shows "sorted_wrt (\<lambda>a b. f a < f b) xs"
  unfolding sorted_wrt_iff_nth_less
proof (intro allI impI)
  fix i j assume "i < j" "j < length xs"
  then show "f (xs ! i) < f (xs ! j)"
  proof (induction j)
    case (Suc j)
    from assms Suc.prems have "f (xs ! j) < f (xs ! Suc j)" by force
    with Suc show ?case by (cases "i = j") auto
  qed simp
qed

lemma valid_points_increasing:
  "valid_points ps \<Longrightarrow> sorted_wrt (\<lambda>a b. instant (up_timestamp a) < instant (up_timestamp b)) ps"
  by (rule consecutive_increasing [where f = "\<lambda>p. instant (up_timestamp p)"]) (simp add: valid_points_def)

lemma build_path_Inr:
  assumes "build_path E gid config params returns sessions = Inr path"
  shows "valid_points (gp_points path)" and "length (gp_points path) = length sessions"
    and "length sessions = length returns + 1" and "gp_generator_id path = gid"
proof -
  have "length spots = length rs + 1" if "spot_path L x rs = Inr spots" for L x rs spots
    using that by (induction rs arbitrary: x spots) (auto simp: result_simps)
  with assms show "length (gp_points path) = length sessions" "length sessions = length returns + 1"
    by (auto simp: build_path_def result_simps Let_def)
  from assms show "valid_points (gp_points path)" "gp_generator_id path = gid"
    by (auto simp: build_path_def result_simps Let_def intro: validate_points_Inr)
qed

section \<open>Volatility regimes\<close>

definition covers :: "int \<Rightarrow> volatility_regime \<Rightarrow> bool" where
  "covers step r \<longleftrightarrow> vr_start_step r \<le> step \<and> step \<le> vr_end_step r"

lemma assign_steps_Inr:
  assumes "rfold (assign_step v) [a..b] vs = Inr ws" and "1 \<le> a" and "b \<le> int (length vs)"
  shows "length ws = length vs
    \<and> (\<forall>k < length vs. if a \<le> int k + 1 \<and> int k + 1 \<le> b then vs ! k = NaN \<and> ws ! k = v else ws ! k = vs ! k)"
  using assms
proof (induction "nat (b - a + 1)" arbitrary: a vs)
  case 0
  then have "[a..b] = []" by simp
  with 0 show ?case by auto
next
  case (Suc n)
  then have ab: "a \<le> b" by simp
  then have "[a..b] = a # [a + 1..b]" by (simp add: upto_rec1)
  with Suc.prems(1) have nan: "vs ! nat (a - 1) = NaN"
    and rest: "rfold (assign_step v) [a + 1..b] (vs[nat (a - 1) := v]) = Inr ws"
    by (auto simp: assign_step_def result_simps)
  have "length ws = length vs \<and> (\<forall>k < length vs. if a + 1 \<le> int k + 1 \<and> int k + 1 \<le> b
      then (vs[nat (a - 1) := v]) ! k = NaN \<and> ws ! k = v else ws ! k = (vs[nat (a - 1) := v]) ! k)"
    using Suc.hyps(1) [of "a + 1", OF _ rest] Suc.hyps(2) Suc.prems by simp
  moreover have "k = nat (a - 1) \<longleftrightarrow> int k + 1 = a" for k using Suc.prems(2) by auto
  ultimately show ?case
    using nan ab Suc.prems(2,3) by (auto simp: nth_list_update split: if_splits)
qed

definition regimes_assigned :: "volatility_regime list \<Rightarrow> nat \<Rightarrow> pyfloat list \<Rightarrow> bool" where
  "regimes_assigned rs n vs \<longleftrightarrow>
     length vs = n
     \<and> (\<forall>k < n. (vs ! k = NaN \<and> filter (covers (int k + 1)) rs = [])
          \<or> (isfinite (vs ! k) \<and> 0 \<le> vs ! k
             \<and> (\<exists>r. filter (covers (int k + 1)) rs = [r] \<and> vs ! k = vr_volatility r)))"

lemma assign_regime_step:
  assumes inv: "regimes_assigned rs n vs" and run: "assign_regime (int n) r vs = Inr ws"
  shows "regimes_assigned (rs @ [r]) n ws"
proof -
  from run have r: "1 \<le> vr_start_step r" "isfinite (vr_volatility r)" "0 \<le> vr_volatility r"
    and fold: "rfold (assign_step (vr_volatility r)) [vr_start_step r .. min (vr_end_step r) (int n)] vs = Inr ws"
    by (auto simp: assign_regime_def result_simps finite_order)
  have len: "length vs = n" using inv by (simp add: regimes_assigned_def)
  note spec = assign_steps_Inr [OF fold r(1)]
  show ?thesis
    unfolding regimes_assigned_def
  proof (intro conjI allI impI)
    show "length ws = n" using spec len by simp
    fix k assume k: "k < n"
    have v: "(vs ! k = NaN \<and> filter (covers (int k + 1)) rs = [])
          \<or> (isfinite (vs ! k) \<and> 0 \<le> vs ! k
             \<and> (\<exists>r. filter (covers (int k + 1)) rs = [r] \<and> vs ! k = vr_volatility r))"
      using inv k by (simp add: regimes_assigned_def)
    have cov: "covers (int k + 1) r \<longleftrightarrow> vr_start_step r \<le> int k + 1 \<and> int k + 1 \<le> min (vr_end_step r) (int n)"
      using k by (auto simp: covers_def)
    show "(ws ! k = NaN \<and> filter (covers (int k + 1)) (rs @ [r]) = [])
          \<or> (isfinite (ws ! k) \<and> 0 \<le> ws ! k
             \<and> (\<exists>r'. filter (covers (int k + 1)) (rs @ [r]) = [r'] \<and> ws ! k = vr_volatility r'))"
    proof (cases "covers (int k + 1) r")
      case True
      then have "vs ! k = NaN" "ws ! k = vr_volatility r" using spec k len cov by auto
      with v True r show ?thesis by auto
    next
      case False
      then have "ws ! k = vs ! k" using spec k len cov by auto
      with v False show ?thesis by auto
    qed
  qed
qed

lemma assign_regimes:
  assumes "rfold (assign_regime (int n)) rs vs = Inr ws" and "regimes_assigned done_rs n vs"
  shows "regimes_assigned (done_rs @ rs) n ws"
  using assms
proof (induction rs arbitrary: vs done_rs)
  case (Cons r rs)
  then obtain us where "assign_regime (int n) r vs = Inr us" "rfold (assign_regime (int n)) rs us = Inr ws"
    by (auto simp: result_simps)
  with Cons.IH [of us "done_rs @ [r]"] assign_regime_step [OF Cons.prems(2)] show ?case by simp
qed simp

section \<open>Executable states\<close>

definition valid_state :: "market_state \<Rightarrow> bool" where
  "valid_state s \<longleftrightarrow>
     tz_aware (ms_timestamp s) \<and> 0 \<le> ms_session_index s \<and> 0 \<le> ms_step_index s
     \<and> isfinite (ms_spot s) \<and> 0 < ms_spot s \<and> isfinite (ms_futures_price s) \<and> 0 < ms_futures_price s
     \<and> isfinite (ms_risk_free_rate s) \<and> isfinite (ms_dividend_yield s)
     \<and> isfinite (ms_implied_volatility s) \<and> 0 \<le> ms_implied_volatility s
     \<and> isfinite (ms_time_to_expiry_years s) \<and> 0 \<le> ms_time_to_expiry_years s
     \<and> isfinite (ms_step_year_fraction s) \<and> 0 \<le> ms_step_year_fraction s"

lemma make_market_state_Inr: "make_market_state s = Inr s' \<Longrightarrow> s' = s \<and> valid_state s"
  by (auto simp: make_market_state_def result_simps valid_state_def finite_order not_less)

definition state_of_point :: "underlying_path_point \<Rightarrow> market_state \<Rightarrow> bool" where
  "state_of_point p s \<longleftrightarrow>
     ms_timestamp s = up_timestamp p \<and> ms_step_index s = up_step_index p
     \<and> ms_session_index s = up_session_index p \<and> ms_spot s = up_spot p
     \<and> ms_session_date s = Some (up_session_date p) \<and> ms_risk_free_rate s = up_risk_free_rate p
     \<and> ms_dividend_yield s = up_dividend_yield p \<and> ms_implied_volatility s = up_implied_volatility p
     \<and> ms_step_year_fraction s = up_realized_step_year_fraction p \<and> valid_state s"

lemma executable_state_Inr:
  assumes "executable_state L z m e elapsed p = Inr s"
  shows "state_of_point p s" and "ms_time_to_expiry_years s = pymax (se_time_to_expiry_years e - elapsed) 0"
proof -
  from assms obtain f t where t: "remaining_time_to_expiry e elapsed = Inr t"
    and s: "make_market_state
        \<lparr>ms_timestamp = up_timestamp p, ms_session_index = up_session_index p,
         ms_step_index = up_step_index p, ms_spot = up_spot p,
         ms_futures_price = f, ms_risk_free_rate = up_risk_free_rate p,
         ms_dividend_yield = up_dividend_yield p,
         ms_implied_volatility = up_implied_volatility p,
         ms_time_to_expiry_years = t,
         ms_futures_time_to_expiry_years = pymax (m - elapsed) 0,
         ms_step_year_fraction = up_realized_step_year_fraction p,
         ms_session_date = Some (up_session_date p),
         ms_local_timestamp = Some (astimezone z (up_timestamp p))\<rparr> = Inr s"
    by (auto simp: executable_state_def Let_def result_simps)
  from t have "t = pymax (se_time_to_expiry_years e - elapsed) 0"
    by (auto simp: remaining_time_to_expiry_def result_simps)
  with make_market_state_Inr [OF s]
  show "state_of_point p s" "ms_time_to_expiry_years s = pymax (se_time_to_expiry_years e - elapsed) 0"
    by (auto simp: state_of_point_def)
qed

lemma float_add_nonneg:
  assumes "wf_float x" "0 \<le> x" "0 \<le> y"
  shows "x \<le> x + y" and "0 \<le> x + y"
proof -
  show le: "x \<le> x + y"
  proof (cases x)
    case x: (Fl a)
    show ?thesis
    proof (cases y)
      case (Fl b)
      with assms(3) have "0 \<le> b" by (auto simp: float_ops)
      then have "float_of_rat a \<le> float_of_rat (a + b)" by (intro float_of_rat_mono) simp
      moreover have "float_of_rat a = x" using assms(1) x by (simp add: float_of_rat_wf del: wf_float.simps)
      moreover have "x + y = float_of_rat (a + b)" by (simp add: x Fl plus_pyfloat_def)
      ultimately show ?thesis by simp
    qed (use x assms(3) in \<open>auto simp: float_ops\<close>)
  qed (use assms in \<open>(cases y; auto simp: float_ops)+\<close>)
  show "0 \<le> x + y" using float_le_trans [OF assms(2) le] .
qed

lemma float_diff_antimono:
  fixes a b t :: pyfloat
  assumes "isfinite t" "a \<le> b" "0 \<le> a"
  shows "t - b \<le> t - a"
proof -
  from assms(1) obtain q where t: "t = Fl q" by (cases t) auto
  show ?thesis
  proof (cases a)
    case a: (Fl r)
    show ?thesis
    proof (cases b)
      case (Fl s)
      with assms(2) a have "r \<le> s" by (auto simp: float_ops)
      then have "float_of_rat (q - s) \<le> float_of_rat (q - r)" by (intro float_of_rat_mono) simp
      then show ?thesis by (simp add: t a Fl minus_pyfloat_def)
    next
      case PInf
      have "t - a = float_of_rat (q - r)" "t - b = NInf" by (simp_all add: t a PInf minus_pyfloat_def)
      then show ?thesis by (auto simp: float_of_rat_def Let_def float_ops)
    qed (use assms(2) a in \<open>auto simp: float_ops\<close>)
  qed (use assms t in \<open>(cases b; auto simp: float_ops)+\<close>)
qed

lemma pymax_zero_mono: "(a :: pyfloat) \<le> b \<Longrightarrow> pymax a 0 \<le> pymax b 0"
  by (cases a; cases b) (auto simp: pymax_def float_ops)

lemma executable_states_Inr:
  assumes "executable_states L z m e elapsed ps = Inr ss" and "isfinite (se_time_to_expiry_years e)"
    and "\<forall>p \<in> set ps. wf_float (up_realized_step_year_fraction p) \<and> 0 \<le> up_realized_step_year_fraction p"
    and "wf_float elapsed" and "0 \<le> elapsed"
  shows "list_all2 state_of_point ps ss
    \<and> sorted_wrt (\<lambda>a b. ms_time_to_expiry_years b \<le> ms_time_to_expiry_years a) ss
    \<and> (\<forall>s \<in> set ss. \<exists>x. elapsed \<le> x \<and> ms_time_to_expiry_years s = pymax (se_time_to_expiry_years e - x) 0)"
  using assms
proof (induction ps arbitrary: elapsed ss)
  case (Cons p ps)
  let ?el = "elapsed + up_realized_step_year_fraction p"
  from Cons.prems(1) obtain s rest where s: "executable_state L z m e ?el p = Inr s"
    and rest: "executable_states L z m e ?el ps = Inr rest" and ss: "ss = s # rest"
    by (auto simp: Let_def result_simps)
  have el: "elapsed \<le> ?el" "0 \<le> ?el" "wf_float ?el"
    using Cons.prems(3-5) float_add_nonneg wf_float_add by auto
  have IH: "list_all2 state_of_point ps rest
    \<and> sorted_wrt (\<lambda>a b. ms_time_to_expiry_years b \<le> ms_time_to_expiry_years a) rest
    \<and> (\<forall>s \<in> set rest. \<exists>x. ?el \<le> x \<and> ms_time_to_expiry_years s = pymax (se_time_to_expiry_years e - x) 0)"
    using Cons.IH [OF rest Cons.prems(2) _ el(3,2)] Cons.prems(3) by simp
  note this_state = executable_state_Inr [OF s]
  have "ms_time_to_expiry_years t \<le> ms_time_to_expiry_years s" if "t \<in> set rest" for t
  proof -
    from IH that obtain x where "?el \<le> x" "ms_time_to_expiry_years t = pymax (se_time_to_expiry_years e - x) 0"
      by blast
    with this_state(2) show ?thesis
      by (simp add: pymax_zero_mono float_diff_antimono [OF Cons.prems(2) _ el(2)])
  qed
  moreover have "\<forall>t \<in> set ss. \<exists>x. elapsed \<le> x \<and> ms_time_to_expiry_years t = pymax (se_time_to_expiry_years e - x) 0"
    using IH this_state(2) el(1) unfolding ss by (auto intro: float_le_trans)
  ultimately show ?case using IH this_state(1) ss by auto
qed simp


lemma int_true_div_Inr:
  assumes "int_true_div a b = Inr q"
  shows "wf_float q" and "isfinite q" and "0 \<le> a \<Longrightarrow> 0 < b \<Longrightarrow> 0 \<le> q"
  using assms by (auto simp: int_true_div_def Let_def float_of_rat_nonneg split: if_splits)

text \<open>A path accepted by the clock check agrees with the generated sessions point by point.\<close>

lemma path_clock_Inr:
  assumes "validate_underlying_path_clock E strategy market path = Inr u"
  obtains sessions d n where
    "generate_simulation_sessions (ev_zones E) d n (mc_clock market)
       (en_entry_time_local (sc_entry strategy)) = Inr sessions"
    and "gp_points path \<noteq> []" and "length (gp_points path) \<le> length sessions"
    and "\<forall>k < length (gp_points path).
           utcoffset (up_timestamp (gp_points path ! k)) = utcoffset (ss_decision_at (sessions ! k))
           \<and> instant (up_timestamp (gp_points path ! k)) = instant (ss_decision_at (sessions ! k))
           \<and> up_session_date (gp_points path ! k) = ss_session_date (sessions ! k)
           \<and> up_session_index (gp_points path ! k) = ss_session_index (sessions ! k)
           \<and> up_step_index (gp_points path ! k) = int k
           \<and> up_realized_step_year_fraction (gp_points path ! k)
               = ss_year_fraction_from_previous (sessions ! k)"
proof -
  let ?ps = "gp_points path"
  from assms obtain d n sessions where ne: "?ps \<noteq> []"
    and gen: "generate_simulation_sessions (ev_zones E) d n (mc_clock market)
          (en_entry_time_local (sc_entry strategy)) = Inr sessions"
    and len: "length (take (length ?ps) sessions) = length ?ps"
    and all: "\<exists>us. rmap check_clock_point (enumerate 0 (zip ?ps (take (length ?ps) sessions))) = Inr us"
    by (auto simp: validate_underlying_path_clock_def Let_def result_simps)
  from len have le: "length ?ps \<le> length sessions" by simp
  have chk: "check_clock_point (k, ?ps ! k, sessions ! k) = Inr ()" if k: "k < length ?ps" for k
  proof -
    have "(k, ?ps ! k, sessions ! k) \<in> set (enumerate 0 (zip ?ps (take (length ?ps) sessions)))"
      using k le by (auto simp: in_set_enumerate_eq)
    with all show ?thesis by (auto simp: rmap_eq_map)
  qed
  show ?thesis
  proof (rule that [OF gen ne le])
    show "\<forall>k < length ?ps.
           utcoffset (up_timestamp (?ps ! k)) = utcoffset (ss_decision_at (sessions ! k))
           \<and> instant (up_timestamp (?ps ! k)) = instant (ss_decision_at (sessions ! k))
           \<and> up_session_date (?ps ! k) = ss_session_date (sessions ! k)
           \<and> up_session_index (?ps ! k) = ss_session_index (sessions ! k)
           \<and> up_step_index (?ps ! k) = int k
           \<and> up_realized_step_year_fraction (?ps ! k) = ss_year_fraction_from_previous (sessions ! k)"
      using chk by (auto simp: check_clock_point_def Let_def result_simps float_eq_def)
  qed
qed


lemma built_states:
  assumes run: "build_executable_market_states E strategy market path expiry = Inr states"
    and market: "sound_market market" and expiry: "isfinite (se_time_to_expiry_years expiry)"
  shows "list_all2 state_of_point (gp_points path) states"
    and "sorted_wrt (\<lambda>a b. ms_time_to_expiry_years b \<le> ms_time_to_expiry_years a) states"
    and "states \<noteq> []" and "\<forall>k < length states. ms_step_index (states ! k) = int k"
proof -
  from run obtain u z m where chk: "validate_underlying_path_clock E strategy market path = Inr u"
    and ex: "executable_states (ev_libm E) z m expiry 0 (gp_points path) = Inr states"
    by (auto simp: build_executable_market_states_def result_simps)
  from path_clock_Inr [OF chk] obtain sessions d n where
    gen: "generate_simulation_sessions (ev_zones E) d n (mc_clock market)
       (en_entry_time_local (sc_entry strategy)) = Inr sessions"
    and ne: "gp_points path \<noteq> []" and len: "length (gp_points path) \<le> length sessions"
    and pts: "\<forall>k < length (gp_points path).
           utcoffset (up_timestamp (gp_points path ! k)) = utcoffset (ss_decision_at (sessions ! k))
           \<and> instant (up_timestamp (gp_points path ! k)) = instant (ss_decision_at (sessions ! k))
           \<and> up_session_date (gp_points path ! k) = ss_session_date (sessions ! k)
           \<and> up_session_index (gp_points path ! k) = ss_session_index (sessions ! k)
           \<and> up_step_index (gp_points path ! k) = int k
           \<and> up_realized_step_year_fraction (gp_points path ! k)
               = ss_year_fraction_from_previous (sessions ! k)" .
  from sessions_Inr [OF gen] obtain dates z' yf where
    yf: "int_true_div 1 (ck_trading_periods_per_year (mc_clock market)
                           * int (length (ck_decision_times_local (mc_clock market)))) = Inr yf"
    and ss: "sessions = map (session_at z' yf) (enumerate 0 (session_slots dates
        (ck_decision_times_local (mc_clock market)) (en_entry_time_local (sc_entry strategy))))" .
  have yf_ok: "wf_float yf" "0 \<le> yf"
    using int_true_div_Inr [OF yf] market by (auto simp: sound_market_def)
  have "wf_float (ss_year_fraction_from_previous s) \<and> 0 \<le> ss_year_fraction_from_previous s"
    if "s \<in> set sessions" for s
  proof -
    have "wf_float 0" "(0 :: pyfloat) \<le> 0" by (simp_all add: float_ops)
    with that yf_ok show ?thesis unfolding ss by (auto simp: session_at_def Let_def)
  qed
  moreover have "\<exists>s \<in> set sessions. up_realized_step_year_fraction p = ss_year_fraction_from_previous s"
    if "p \<in> set (gp_points path)" for p
  proof -
    from that obtain k where "k < length (gp_points path)" "p = gp_points path ! k"
      by (auto simp: in_set_conv_nth)
    with pts len show ?thesis by (intro bexI [of _ "sessions ! k"]) auto
  qed
  ultimately have "\<forall>p \<in> set (gp_points path).
      wf_float (up_realized_step_year_fraction p) \<and> 0 \<le> up_realized_step_year_fraction p"
    by metis
  from executable_states_Inr [OF ex expiry this]
  have built: "list_all2 state_of_point (gp_points path) states"
    "sorted_wrt (\<lambda>a b. ms_time_to_expiry_years b \<le> ms_time_to_expiry_years a) states"
    by (auto simp: float_ops)
  then show "list_all2 state_of_point (gp_points path) states"
    "sorted_wrt (\<lambda>a b. ms_time_to_expiry_years b \<le> ms_time_to_expiry_years a) states" by simp_all
  show "states \<noteq> []" using built(1) ne by auto
  show "\<forall>k < length states. ms_step_index (states ! k) = int k"
    using built(1) pts by (auto simp: list_all2_conv_all_nth state_of_point_def)
qed

section \<open>Finite payloads have a hash\<close>

lemma normalize_finite: "isfinite x \<Longrightarrow> \<exists>j. normalize (PFloat x) = Inr j"
  by (cases x) (auto simp: decimal_of_float_def)

lemma normalize_str_dict:
  "(\<And>k v. (k, v) \<in> set kvs \<Longrightarrow> \<exists>j. normalize v = Inr j) \<Longrightarrow> \<exists>j. normalize (str_dict kvs) = Inr j"
proof -
  assume ok: "\<And>k v. (k, v) \<in> set kvs \<Longrightarrow> \<exists>j. normalize v = Inr j"
  let ?item = "\<lambda>kv. rbind (normalize (snd kv)) (\<lambda>v. rbind (string_key (fst kv)) (\<lambda>k. Inr (k, v)))"
  let ?kvs = "map (\<lambda>(k, v). (StrKey k, v)) kvs"
  have "\<exists>y. ?item kv = Inr y" if "kv \<in> set ?kvs" for kv
    using that ok by fastforce
  then have items: "rmap ?item ?kvs = Inr (map (\<lambda>kv. projr (?item kv)) ?kvs)"
    unfolding rmap_eq_map by blast
  have "rmap (\<lambda>kv. string_key (fst kv)) ?kvs = Inr (map fst kvs)"
    by (induction kvs) auto
  with items show ?thesis by (simp add: str_dict_def)
qed

lemma normalize_point:
  assumes "tz_aware (up_timestamp p)" and "isfinite (up_spot p)" "isfinite (up_realized_step_year_fraction p)"
    "isfinite (up_risk_free_rate p)" "isfinite (up_dividend_yield p)" "isfinite (up_implied_volatility p)"
  shows "\<exists>j. normalize (point_payload p) = Inr j"
  unfolding point_payload_def using assms normalize_finite
  by (intro normalize_str_dict) (auto simp del: normalize.simps(8))

section \<open>Properties\<close>

text \<open>A piecewise path uses each regime on exactly its steps: when the regimes are accepted,
  every step is covered by exactly one regime and gets that regime's volatility. Gaps, overlaps and
  bad volatilities are refused.\<close>

theorem piecewise_regimes_partition:
  assumes "piecewise_volatilities config = Inr vs" and "0 \<le> pc_number_of_steps config"
    and "k < nat (pc_number_of_steps config)"
  shows "length vs = nat (pc_number_of_steps config)
    \<and> (\<exists>r. filter (\<lambda>r. vr_start_step r \<le> int k + 1 \<and> int k + 1 \<le> vr_end_step r)
             (pw_volatility_regimes config) = [r]
           \<and> vs ! k = vr_volatility r \<and> isfinite (vs ! k) \<and> 0 \<le> vs ! k)"
proof -
  let ?n = "nat (pc_number_of_steps config)"
  from assms(1,2) have fold: "rfold (assign_regime (int ?n)) (pw_volatility_regimes config) (replicate ?n NaN) = Inr vs"
    and cov: "\<not> list_ex (\<lambda>v. v = NaN) vs"
    by (auto simp: piecewise_volatilities_def result_simps)
  have "regimes_assigned [] ?n (replicate ?n NaN)" by (simp add: regimes_assigned_def)
  from assign_regimes [OF fold this] have inv: "regimes_assigned (pw_volatility_regimes config) ?n vs" by simp
  then have len: "length vs = ?n" by (simp add: regimes_assigned_def)
  then have "vs ! k \<in> set vs" using assms(3) by simp
  then have "vs ! k \<noteq> NaN" using cov by (auto simp: list_ex_iff)
  with inv assms(3) len show ?thesis by (auto simp: regimes_assigned_def covers_def [abs_def])
qed

definition demo_piecewise :: piecewise_path_config where
  "demo_piecewise =
     \<lparr>pc_initial_spot = Fl 100, pc_drift = 0, pc_number_of_steps = 2, pc_step_year_fraction = Fl (1/256),
      pc_seed = 7, pc_risk_free_rate = 0, pc_dividend_yield = 0, pc_implied_volatility = Fl (1/4),
      pw_volatility_regimes = [\<lparr>vr_start_step = 2, vr_end_step = 9, vr_volatility = Fl (1/2)\<rparr>,
                               \<lparr>vr_start_step = 1, vr_end_step = 1, vr_volatility = Fl (1/8)\<rparr>]\<rparr>"

theorem piecewise_regimes_partition_witness:
  "piecewise_volatilities demo_piecewise = Inr [Fl (1/8), Fl (1/2)]
   \<and> (\<exists>r :: volatility_regime. [Fl (1/8), Fl (1/2)] ! 1 = vr_volatility r
        \<and> vr_start_step r \<le> 2 \<and> 2 \<le> vr_end_step r)"
proof -
  have run: "piecewise_volatilities demo_piecewise = Inr [Fl (1/8), Fl (1/2)]"
    by (simp add: piecewise_volatilities_def demo_piecewise_def assign_regime_def assign_step_def
        upto.simps float_ops numeral_2_eq_2)
  have "pc_number_of_steps demo_piecewise = 2" by (simp add: demo_piecewise_def)
  with piecewise_regimes_partition [OF run, of 1] obtain r where
    r: "filter (\<lambda>r. vr_start_step r \<le> 2 \<and> 2 \<le> vr_end_step r) (pw_volatility_regimes demo_piecewise) = [r]"
    "[Fl (1/8), Fl (1/2)] ! 1 = vr_volatility r"
    by auto
  from r(1) have "vr_start_step r \<le> 2 \<and> 2 \<le> vr_end_step r" by (auto simp: filter_eq_Cons_iff)
  with run r(2) show ?thesis by blast
qed

text \<open>C33. Whatever produced it (the GBM generator, the piecewise generator or a user), a path that
  is returned is well-formed: aware, strictly increasing timestamps, contiguous step indexes from
  zero, positive finite spots, no elapsed time at the first point; and its hash is the hash of its
  own contents.\<close>

theorem returned_paths_are_valid:
  assumes "generate_gbm_path E gbm sessions = Inr path \<or> generate_piecewise_path E piecewise sessions = Inr path
     \<or> load_user_path E points = Inr path"
  shows "valid_points (gp_points path)
    \<and> sorted_wrt (\<lambda>a b. instant (up_timestamp a) < instant (up_timestamp b)) (gp_points path)
    \<and> underlying_path_hash E (gp_generator_id path) (gp_generator_version path) (gp_seed path)
        (gp_canonical_parameters path) (gp_points path) = Inr (gp_path_hash path)"
proof -
  have built: "valid_points (gp_points path) \<and> underlying_path_hash E (gp_generator_id path)
      (gp_generator_version path) (gp_seed path) (gp_canonical_parameters path) (gp_points path) = Inr (gp_path_hash path)"
    if "build_path E gid (c :: 'x path_config_scheme) ps rs ss = Inr path" for gid c ps rs ss
    using build_path_Inr(1) [OF that] that by (auto simp: build_path_def result_simps Let_def)
  have "valid_points (gp_points path) \<and> underlying_path_hash E (gp_generator_id path)
      (gp_generator_version path) (gp_seed path) (gp_canonical_parameters path) (gp_points path) = Inr (gp_path_hash path)"
    using assms
  proof (elim disjE)
    assume "generate_gbm_path E gbm sessions = Inr path"
    then show ?thesis
      by (auto simp: generate_gbm_path_def result_simps build_path_def Let_def intro: validate_points_Inr)
  next
    assume "generate_piecewise_path E piecewise sessions = Inr path"
    then show ?thesis
      by (auto simp: generate_piecewise_path_def result_simps build_path_def Let_def intro: validate_points_Inr)
  next
    assume "load_user_path E points = Inr path"
    then show ?thesis
      by (auto simp: load_user_path_def result_simps Let_def intro: validate_points_Inr)
  qed
  then show ?thesis using valid_points_increasing by blast
qed

definition demo_env :: env where
  "demo_env =
     \<lparr>ev_libm = flat_libm, ev_zones = demo_zones, ev_sha256 = (\<lambda>_. replicate 64 (CHR ''0'')),
      ev_standard_normal = (\<lambda>_ n. replicate n 0), ev_dump_strategy = (\<lambda>_. PNone),
      ev_dump_hedging = (\<lambda>_. []), ev_dump_market = (\<lambda>_. PNone), ev_dump_run_config = (\<lambda>_. PNone)\<rparr>"

definition demo_point :: underlying_path_point where
  "demo_point =
     \<lparr>up_timestamp = Aware (739831 * 86400000000 + 34200000000) 0, up_session_date = 739831,
      up_session_index = 0, up_step_index = 0, up_spot = Fl 110, up_realized_step_year_fraction = 0,
      up_risk_free_rate = 0, up_dividend_yield = 0, up_implied_volatility = 0\<rparr>"

theorem returned_paths_are_valid_witness:
  "\<exists>path. load_user_path demo_env [demo_point] = Inr path \<and> valid_points (gp_points path)"
proof -
  have "validate_points [demo_point] = Inr ()"
    by (simp add: validate_points_def validate_point_def demo_point_def Let_def float_ops)
  moreover have "\<exists>j. normalize (point_payload demo_point) = Inr j"
    by (rule normalize_point) (simp_all add: demo_point_def zero_pyfloat_def)
  then have "\<exists>h. underlying_path_hash demo_env ''user_provided'' 2 None [(''point_count'', PInt 1)] [demo_point] = Inr h"
    by (auto simp: underlying_path_hash_def stable_hash_def canonical_json_def str_dict_def simp del: json_dumps.simps)
  ultimately have "\<exists>path. load_user_path demo_env [demo_point] = Inr path"
    by (auto simp: load_user_path_def)
  with returned_paths_are_valid show ?thesis by blast
qed


text \<open>C31. The executable states follow the path: one state for each point, with its time, session
  and prices, all values finite and prices positive, the step indexes counting up from zero, and
  the time to expiry never increasing from one state to the next.\<close>

theorem executable_states_follow_path:
  assumes "build_executable_market_states E strategy market path expiry = Inr states"
    and "sound_market market" and "isfinite (se_time_to_expiry_years expiry)"
  shows "length states = length (gp_points path) \<and> states \<noteq> []
    \<and> (\<forall>k < length states. valid_state (states ! k) \<and> ms_step_index (states ! k) = int k
         \<and> ms_timestamp (states ! k) = up_timestamp (gp_points path ! k)
         \<and> ms_spot (states ! k) = up_spot (gp_points path ! k)
         \<and> ms_session_date (states ! k) = Some (up_session_date (gp_points path ! k)))
    \<and> sorted_wrt (\<lambda>a b. ms_time_to_expiry_years b \<le> ms_time_to_expiry_years a) states"
  using built_states [OF assms] by (auto simp: list_all2_conv_all_nth state_of_point_def)

definition demo_market :: simulation_market_config where
  "demo_market =
     \<lparr>mc_schema_version = 2, mc_market_id = ''demo'', mc_underlying = ''NIFTY'', mc_clock = demo_clock,
      mc_options = \<lparr>om_multiplier = 1, om_strike_interval = Fl 50, om_strikes_below = 0,
                    om_strikes_above = 0, om_eligible_expiry_sessions = [4],
                    om_relative_spread = Fl (1/4), om_synthetic_volume_base = 1000,
                    om_synthetic_open_interest_base = 5000\<rparr>,
      mc_futures = \<lparr>fm_instrument_id = ''FUT-NIFTY'', fm_multiplier = 1, fm_delta_per_contract = 1,
                    fm_expiry_rule = ''holding_horizon_plus_buffer'', fm_expiry_buffer_sessions = 0\<rparr>\<rparr>"

lemma demo_market_sound: "sound_market demo_market"
  by (simp add: sound_market_def demo_market_def demo_clock_def one_pyfloat_def float_ops)

definition demo_point2 :: underlying_path_point where
  "demo_point2 = demo_point
     \<lparr>up_timestamp := Aware (739832 * 86400000000 + 34200000000) 0, up_session_date := 739832,
      up_session_index := 1, up_step_index := 1, up_spot := Fl 120,
      up_realized_step_year_fraction := Fl (1/256)\<rparr>"

definition demo_path :: generated_path where
  "demo_path = \<lparr>gp_generator_id = ''user_provided'', gp_generator_version = 2, gp_seed = None,
     gp_canonical_parameters = [(''point_count'', PInt 2)], gp_points = [demo_point, demo_point2],
     gp_path_hash = ''sha256:'' @ replicate 64 (CHR ''0'')\<rparr>"

definition demo_expiry :: simulation_expiry where
  "demo_expiry = \<lparr>se_expiry_session_date = 739835, se_remaining_trading_sessions = 4,
     se_time_to_expiry_years = Fl (1/64)\<rparr>"

lemma demo_entry_time: "en_entry_time_local (sc_entry demo_strategy) = 34200000000"
  "ex_holding_horizon_sessions (sc_expiry demo_strategy) = 1"
  by (simp_all add: demo_strategy_def)

definition demo_session :: "int \<Rightarrow> pyfloat \<Rightarrow> simulation_session" where
  "demo_session k elapsed =
     \<lparr>ss_session_index = k, ss_decision_index = 0, ss_session_date = 739831 + k,
      ss_local_decision_at = Aware ((739831 + k) * 86400000000 + 34200000000) 0,
      ss_decision_at = Aware ((739831 + k) * 86400000000 + 34200000000) 0,
      ss_year_fraction_from_previous = elapsed\<rparr>"

lemma demo_sessions:
  "generate_simulation_sessions demo_zones 739831 4 demo_clock 34200000000
     = Inr [demo_session 0 0, demo_session 1 (Fl (1/256)), demo_session 2 (Fl (1/256)),
            demo_session 3 (Fl (1/256))]"
  by (simp add: generate_simulation_sessions_def trading_dates_eval demo_clock_def int_true_div_def
      float_eval demo_zones_def session_slots_def session_at_def combine_def astimezone_def utc_def day_us_def
      demo_session_def)

lemma demo_clock_accepts: "validate_underlying_path_clock demo_env demo_strategy demo_market demo_path = Inr ()"
  using demo_sessions
  by (simp add: validate_underlying_path_clock_def demo_path_def demo_market_def demo_env_def
      demo_entry_time demo_point_def demo_point2_def date_of_def astimezone_def utc_def day_us_def Let_def
      check_clock_point_def float_ops demo_clock_def demo_zones_def demo_session_def)

definition demo_state :: market_state where
  "demo_state =
     \<lparr>ms_timestamp = Aware (739831 * 86400000000 + 34200000000) 0, ms_session_index = 0,
      ms_step_index = 0, ms_spot = Fl 110, ms_futures_price = Fl 110, ms_risk_free_rate = 0,
      ms_dividend_yield = 0, ms_implied_volatility = 0, ms_time_to_expiry_years = Fl (1/64),
      ms_futures_time_to_expiry_years = Fl (1/256), ms_step_year_fraction = 0,
      ms_session_date = Some 739831,
      ms_local_timestamp = Some (Aware (739831 * 86400000000 + 34200000000) 0)\<rparr>"

definition demo_state2 :: market_state where
  "demo_state2 = demo_state
     \<lparr>ms_timestamp := Aware (739832 * 86400000000 + 34200000000) 0, ms_session_index := 1,
      ms_step_index := 1, ms_spot := Fl 120, ms_futures_price := Fl 120,
      ms_time_to_expiry_years := Fl (3/256), ms_futures_time_to_expiry_years := 0,
      ms_step_year_fraction := Fl (1/256), ms_session_date := Some 739832,
      ms_local_timestamp := Some (Aware (739832 * 86400000000 + 34200000000) 0)\<rparr>"

lemma demo_states:
  "build_executable_market_states demo_env demo_strategy demo_market demo_path demo_expiry
     = Inr [demo_state, demo_state2]"
  by (simp add: build_executable_market_states_def demo_clock_accepts)
    (simp add: demo_market_def demo_entry_time demo_clock_def demo_env_def demo_zones_def demo_path_def
      demo_point_def demo_point2_def demo_expiry_def demo_state_def demo_state2_def executable_state_def
      carry_futures_price_def flat_libm_def remaining_time_to_expiry_def make_market_state_def
      int_true_div_def float_ops pymax_def astimezone_def utc_def float_eval)

theorem executable_states_follow_path_witness:
  "build_executable_market_states demo_env demo_strategy demo_market demo_path demo_expiry
     = Inr [demo_state, demo_state2]
   \<and> valid_state demo_state \<and> ms_time_to_expiry_years demo_state2 \<le> ms_time_to_expiry_years demo_state"
  using executable_states_follow_path [OF demo_states demo_market_sound] demo_states
  by (auto simp: demo_expiry_def)

end
