(* ===== verification/Attribution.thy ===== *)
theory Attribution
  imports Risk Paths
begin

text \<open>
  \<open>app/attribution\<close>: the reconciliation of the terminal profit with the fills, and the Greek
  attribution of the option marks; the records \<open>SimulationReconciliation\<close> of
  \<open>app/simulation/results.py\<close> and \<open>GreekAttributionRecord\<close>.

  The reconciliation splits the fills by instrument and subtracts what they earned and cost from
  the terminal profit. \<open>reconcile_exact\<close> computes its residual exactly, under the bound that keeps
  cents exact, for any fills; the residual is then what the fills of other instruments moved.
\<close>

section \<open>Reconciliation\<close>

record simulation_reconciliation =
  rn_terminal_pnl :: decimal
  rn_gross_option_pnl :: decimal
  rn_gross_futures_pnl :: decimal
  rn_cash_financing_pnl :: decimal
  rn_option_costs :: decimal
  rn_futures_costs :: decimal
  rn_residual :: decimal
  rn_reconciled :: bool

definition gross_pnl :: "simulated_fill \<Rightarrow> decimal" where
  "gross_pnl fill = (if fl_side fill = ''sell'' then fl_gross_notional fill else - fl_gross_notional fill)"

definition reconcile ::
  "decimal \<Rightarrow> instrument_position list \<Rightarrow> simulated_fill list \<Rightarrow> string list \<Rightarrow> string \<Rightarrow> decimal
   \<Rightarrow> simulation_reconciliation result" where
  "reconcile terminal_pnl positions fills option_ids futures_id tolerance =
     (let option_fills = filter (\<lambda>f. fl_instrument_id f \<in> set option_ids) fills;
          futures_fills = filter (\<lambda>f. fl_instrument_id f = futures_id) fills
      in
      rbind (money (decimal_sum (map gross_pnl option_fills))) (\<lambda>option_pnl.
      rbind (money (decimal_sum (map gross_pnl futures_fills))) (\<lambda>futures_pnl.
      rbind (money (decimal_sum (map fl_total_cost option_fills))) (\<lambda>option_costs.
      rbind (money (decimal_sum (map fl_total_cost futures_fills))) (\<lambda>futures_costs.
      let financing = 0 in
      rbind (money (terminal_pnl - (option_pnl + futures_pnl + financing - option_costs - futures_costs)))
        (\<lambda>residual.
      Inr \<lparr>rn_terminal_pnl = terminal_pnl, rn_gross_option_pnl = option_pnl,
           rn_gross_futures_pnl = futures_pnl, rn_cash_financing_pnl = financing,
           rn_option_costs = option_costs, rn_futures_costs = futures_costs, rn_residual = residual,
           rn_reconciled = (\<bar>residual\<bar> \<le> tolerance)\<rparr>))))))"

section \<open>Greek attribution\<close>

record greek_attribution_record =
  ga_interval_start :: pydatetime
  ga_interval_end :: pydatetime
  ga_exact_option_mark_change :: pyfloat
  ga_delta_contribution :: pyfloat
  ga_gamma_contribution :: pyfloat
  ga_theta_contribution :: pyfloat
  ga_vega_contribution :: pyfloat
  ga_residual :: pyfloat

text \<open>The dictionary \<open>by_timestamp\<close>: the last record of an instant and a contract.\<close>

definition same_time :: "pydatetime \<Rightarrow> pydatetime \<Rightarrow> bool" where
  "same_time a b \<longleftrightarrow> tz_aware a = tz_aware b \<and> instant a = instant b"

definition by_timestamp ::
  "option_valuation_record list \<Rightarrow> pydatetime \<Rightarrow> string \<Rightarrow> option_valuation_record result" where
  "by_timestamp valuations timestamp cid =
     lift_opt (KeyError cid)
       (find (\<lambda>v. same_time (val_timestamp v) timestamp \<and> val_contract_id v = cid) (rev valuations))"

text \<open>The running contributions of an interval: delta, gamma, theta, vega, exact change.\<close>

type_synonym contributions = "pyfloat \<times> pyfloat \<times> pyfloat \<times> pyfloat \<times> pyfloat"

definition add_contribution ::
  "libm \<Rightarrow> option_valuation_record list \<Rightarrow> market_state \<Rightarrow> market_state \<Rightarrow> option_contract
   \<Rightarrow> contributions \<Rightarrow> contributions result" where
  "add_contribution L valuations previous_state current_state contract acc =
     (let (delta, gamma, theta, vega, exact) = acc;
          spot_change = ms_spot current_state - ms_spot previous_state;
          volatility_change = ms_implied_volatility current_state - ms_implied_volatility previous_state
      in
      rbind (by_timestamp valuations (ms_timestamp previous_state) (oc_contract_id contract)) (\<lambda>previous.
      rbind (by_timestamp valuations (ms_timestamp current_state) (oc_contract_id contract)) (\<lambda>current.
      rbind (m_pow L spot_change (Fl 2)) (\<lambda>spot_change_squared.
      Inr (delta + val_portfolio_delta previous * spot_change,
           gamma + Fl (1/2) * val_portfolio_gamma previous * spot_change_squared,
           theta + val_portfolio_theta_per_year previous * ms_step_year_fraction current_state,
           vega + val_portfolio_vega_per_volatility_unit previous * volatility_change,
           exact + (val_unit_price current - val_unit_price previous)
                     * float_of_int (val_quantity previous) * float_of_int (val_multiplier previous))))))"

definition interval_attribution ::
  "libm \<Rightarrow> option_valuation_record list \<Rightarrow> option_contract list \<Rightarrow> market_state \<times> market_state
   \<Rightarrow> greek_attribution_record result" where
  "interval_attribution L valuations contracts interval =
     (let (previous_state, current_state) = interval in
      rbind (rfold (add_contribution L valuations previous_state current_state) contracts (0, 0, 0, 0, 0))
        (\<lambda>(delta, gamma, theta, vega, exact).
      let approximation = delta + gamma + theta + vega in
      Inr \<lparr>ga_interval_start = ms_timestamp previous_state, ga_interval_end = ms_timestamp current_state,
           ga_exact_option_mark_change = exact, ga_delta_contribution = delta,
           ga_gamma_contribution = gamma, ga_theta_contribution = theta, ga_vega_contribution = vega,
           ga_residual = exact - approximation\<rparr>))"

definition calculate_greek_attribution ::
  "libm \<Rightarrow> market_state list \<Rightarrow> option_valuation_record list \<Rightarrow> option_contract \<Rightarrow> option_contract
   \<Rightarrow> greek_attribution_record list result" where
  "calculate_greek_attribution L states valuations call_contract put_contract =
     rmap (interval_attribution L valuations [call_contract, put_contract]) (zip states (tl states))"

section \<open>The exact reconciliation\<close>

lemma gross_pnl_exact: "exact_fill f \<Longrightarrow> dval (gross_pnl f) = signed_gross f"
  using exact_fill_parts [of f]
  by (auto simp: gross_pnl_def signed_gross_def exact_fill_def sound_fill_def decimal_ops cents_def
      in_cents_minus intro!: ctx_cents)

lemma sum_list_filter_le:
  fixes f :: "'a \<Rightarrow> rat"
  assumes "\<And>x. x \<in> set xs \<Longrightarrow> 0 \<le> f x"
  shows "sum_list (map f (filter P xs)) \<le> sum_list (map f xs)"
  using assms by (induction xs) (auto simp: add_increasing add_increasing2)

lemma money_sum_fills:
  assumes "\<forall>f \<in> set fs. exact_fill f" and "sum_list (map fill_size fs) < cents_bound"
  shows "money (decimal_sum (map gross_pnl fs)) = Inr (Dec (sum_list (map signed_gross fs)))"
    and "money (decimal_sum (map fl_total_cost fs)) = Inr (Dec (sum_list (map (dval \<circ> fl_total_cost) fs)))"
proof -
  have e: "map (dval \<circ> gross_pnl) fs = map signed_gross fs"
    using assms(1) gross_pnl_exact by auto
  have le: "sum_list (map (\<lambda>f. \<bar>signed_gross f\<bar>) fs) \<le> sum_list (map fill_size fs)"
    "sum_list (map (\<lambda>f. \<bar>dval (fl_total_cost f)\<bar>) fs) \<le> sum_list (map fill_size fs)"
    using assms(1) exact_fill_parts by (fastforce intro!: sum_list_mono)+
  have abs: "map (\<lambda>x. \<bar>dval x\<bar>) (map gross_pnl fs) = map (\<lambda>f. \<bar>signed_gross f\<bar>) fs"
    using assms(1) gross_pnl_exact by auto
  have "money (decimal_sum (map gross_pnl fs)) = Inr (Dec (sum_list (map dval (map gross_pnl fs))))"
    using assms le abs exact_fill_parts(1) gross_pnl_exact
    by (intro money_sum_exact) (auto simp del: map_map)
  then show "money (decimal_sum (map gross_pnl fs)) = Inr (Dec (sum_list (map signed_gross fs)))"
    using e by simp
  have "money (decimal_sum (map fl_total_cost fs)) = Inr (Dec (sum_list (map dval (map fl_total_cost fs))))"
    using assms le exact_fill_parts(5) by (intro money_sum_exact) (auto simp: comp_def)
  then show "money (decimal_sum (map fl_total_cost fs)) = Inr (Dec (sum_list (map (dval \<circ> fl_total_cost) fs)))"
    by simp
qed


lemma sums_bound:
  assumes "\<forall>f \<in> set fs. exact_fill f"
  shows "\<bar>sum_list (map signed_gross fs)\<bar> + sum_list (map (dval \<circ> fl_total_cost) fs) \<le> sum_list (map fill_size fs)"
    and "0 \<le> sum_list (map (dval \<circ> fl_total_cost) fs)"
    and "in_cents (sum_list (map signed_gross fs))" and "in_cents (sum_list (map (dval \<circ> fl_total_cost) fs))"
proof -
  show "\<bar>sum_list (map signed_gross fs)\<bar> + sum_list (map (dval \<circ> fl_total_cost) fs) \<le> sum_list (map fill_size fs)"
    using assms
  proof (induction fs)
    case (Cons f fs)
    from Cons.prems exact_fill_parts(2,8) [of f] Cons.IH show ?case by auto
  qed simp
  show "0 \<le> sum_list (map (dval \<circ> fl_total_cost) fs)"
    using assms exact_fill_parts(7) by (intro sum_list_nonneg) auto
  show "in_cents (sum_list (map signed_gross fs))" "in_cents (sum_list (map (dval \<circ> fl_total_cost) fs))"
    using assms exact_fill_parts(1,5) by (auto intro!: in_cents_sum_list)
qed

text \<open>The fills of a reconciliation are those of its options and its future.\<close>

definition covered :: "string list \<Rightarrow> string \<Rightarrow> simulated_fill \<Rightarrow> bool" where
  "covered option_ids futures_id f \<longleftrightarrow> fl_instrument_id f \<in> set option_ids \<or> fl_instrument_id f = futures_id"

definition net_of_fills :: "simulated_fill list \<Rightarrow> rat" where
  "net_of_fills fs = sum_list (map signed_gross fs) - sum_list (map (dval \<circ> fl_total_cost) fs)"

lemma sum_list_split:
  fixes g :: "'a \<Rightarrow> rat"
  assumes "\<forall>x \<in> set xs. P x \<noteq> Q x"
  shows "sum_list (map g (filter P xs)) + sum_list (map g (filter Q xs)) = sum_list (map g xs)"
  using assms by (induction xs) auto

lemma reconcile_exact:
  assumes ex: "\<forall>f \<in> set fs. exact_fill f" and cov: "\<forall>f \<in> set fs. covered option_ids futures_id f"
    and sep: "futures_id \<notin> set option_ids" and t: "cents terminal"
    and bound: "\<bar>dval terminal\<bar> + sum_list (map fill_size fs) < cents_bound"
  shows "\<exists>r. reconcile terminal ps fs option_ids futures_id tol = Inr r
     \<and> rn_terminal_pnl r = terminal \<and> rn_residual r = Dec (dval terminal - net_of_fills fs)
     \<and> dval (rn_gross_option_pnl r) + dval (rn_gross_futures_pnl r) + dval (rn_cash_financing_pnl r)
         - dval (rn_option_costs r) - dval (rn_futures_costs r) = net_of_fills fs
     \<and> (rn_reconciled r \<longleftrightarrow> \<bar>dval terminal - net_of_fills fs\<bar> \<le> dval tol)"
proof -
  define os where "os = filter (\<lambda>f. fl_instrument_id f \<in> set option_ids) fs"
  define hs where "hs = filter (\<lambda>f. fl_instrument_id f = futures_id) fs"
  have eo: "\<forall>f \<in> set os. exact_fill f" and eh: "\<forall>f \<in> set hs. exact_fill f"
    using ex by (auto simp: os_def hs_def)
  have split: "\<forall>f \<in> set fs. (fl_instrument_id f \<in> set option_ids) \<noteq> (fl_instrument_id f = futures_id)"
    using cov sep by (auto simp: covered_def)
  have parts: "sum_list (map g os) + sum_list (map g hs) = sum_list (map g fs)" for g :: "simulated_fill \<Rightarrow> rat"
    unfolding os_def hs_def by (rule sum_list_split [OF split])
  define A where "A = sum_list (map signed_gross os)"
  define B where "B = sum_list (map signed_gross hs)"
  define C where "C = sum_list (map (dval \<circ> fl_total_cost) os)"
  define D where "D = sum_list (map (dval \<circ> fl_total_cost) hs)"
  note o = sums_bound [OF eo, folded A_def C_def] and h = sums_bound [OF eh, folded B_def D_def]
  have sizes: "sum_list (map fill_size os) + sum_list (map fill_size hs) = sum_list (map fill_size fs)"
    by (rule parts)
  have net: "net_of_fills fs = A + B - C - D"
    using parts [of signed_gross] parts [of "dval \<circ> fl_total_cost"]
    by (simp add: net_of_fills_def A_def B_def C_def D_def)
  have nn: "0 \<le> \<bar>dval terminal\<bar>" "0 \<le> C" "0 \<le> D" using o h by auto
  have bo: "sum_list (map fill_size os) < cents_bound" "sum_list (map fill_size hs) < cents_bound"
    using o h sizes bound nn by linarith+
  have sum: "\<bar>A\<bar> + \<bar>B\<bar> + C + D + \<bar>dval terminal\<bar> < cents_bound" using o(1) h(1) sizes bound by linarith
  have cents: "in_cents A" "in_cents B" "in_cents C" "in_cents D" "in_cents (dval terminal)"
    using o h t by (auto simp: cents_def)
  have c1: "ctx (A + B) = A + B" using cents sum nn by (intro ctx_cents in_cents_add) linarith+
  have c2: "ctx (A + B - C) = A + B - C"
    using cents sum nn by (intro ctx_cents in_cents_diff in_cents_add) linarith+
  have c3: "ctx (A + B - C - D) = A + B - C - D"
    using cents sum nn by (intro ctx_cents in_cents_diff in_cents_add) linarith+
  have "\<bar>A + B - C - D\<bar> \<le> \<bar>A\<bar> + \<bar>B\<bar> + C + D" using nn by linarith
  then have "\<bar>dval terminal - (A + B - C - D)\<bar> < cents_bound"
    using sum abs_triangle_ineq4 [of "dval terminal" "A + B - C - D"] by linarith
  moreover have "in_cents (dval terminal - (A + B - C - D))"
    using cents by (intro in_cents_diff in_cents_add)
  ultimately have cr: "in_cents (dval terminal - (A + B - C - D))"
    "\<bar>dval terminal - (A + B - C - D)\<bar> < cents_bound" by simp_all
  have c4: "ctx (dval terminal - (A + B - C - D)) = dval terminal - (A + B - C - D)"
    using cr by (rule ctx_cents)
  have e: "Dec A + Dec B + 0 - Dec C - Dec D = Dec (A + B - C - D)"
    using c1 c2 c3 by (simp add: decimal_ops)
  have res: "money (terminal - Dec (A + B - C - D)) = Inr (Dec (dval terminal - (A + B - C - D)))"
    using money_exact [of "terminal - Dec (A + B - C - D)"] cr c4 by (simp add: decimal_ops)
  have cabs: "ctx \<bar>dval terminal - (A + B - C - D)\<bar> = \<bar>dval terminal - (A + B - C - D)\<bar>"
    using cr in_cents_minus [OF cr(1)] by (intro ctx_cents) (auto simp only: abs_if split: if_splits)
  show ?thesis
    using money_sum_fills [OF eo bo(1)] money_sum_fills [OF eh bo(2)] e res cabs
    unfolding reconcile_def Let_def os_def [symmetric] hs_def [symmetric] A_def [symmetric] B_def [symmetric]
      C_def [symmetric] D_def [symmetric]
    by (simp add: net decimal_ops)
qed



end
