(* ===== verification/Engine.thy ===== *)
theory Engine
  imports Hedging Attribution
begin

text \<open>
  \<open>app/simulation/engine.py\<close>: contract and expiry selection, the run configuration and its
  identity, and \<open>run_simulation\<close>.

  \<open>run_simulation\<close> is one long function in the source. Here its local variables that change are
  the record \<open>run_state\<close>, those that do not the record \<open>run_setup\<close>, and its body is cut at its own
  seams: \<open>open_position\<close> (valuation, entry fills and entry risk rules), \<open>observe_state\<close> (marks and
  risk rules of one market state), \<open>require_exit\<close>, \<open>control_delta\<close> (the policy's decision and the
  forced reduction), \<open>record_unhedgeable\<close>, \<open>execute_decision\<close>, and the close-out. \<open>simulate_state\<close>
  is the loop body; it also says whether the loop breaks.
\<close>

section \<open>Valuation of the straddle\<close>

definition value_record ::
  "libm \<Rightarrow> market_state \<Rightarrow> int \<Rightarrow> option_contract \<Rightarrow> option_valuation_record result" where
  "value_record L state quantity contract =
     rbind (option_value L (oc_option_type contract) (ms_spot state) (oc_strike contract)
              (ms_time_to_expiry_years state) (ms_risk_free_rate state) (ms_dividend_yield state)
              (ms_implied_volatility state)) (\<lambda>valuation.
     rbind (decimal_of_float (ov_price valuation)) (\<lambda>unit_price.
     rbind (money (unit_price * decimal_of_int quantity * decimal_of_int (oc_multiplier contract)))
       (\<lambda>market_value.
     let g = ov_greeks valuation;
         scaled = (\<lambda>x. x * float_of_int quantity * float_of_int (oc_multiplier contract)) in
     Inr \<lparr>val_contract_id = oc_contract_id contract, val_timestamp = ms_timestamp state,
          val_quantity = quantity, val_multiplier = oc_multiplier contract,
          val_unit_price = ov_price valuation,
          val_unit_intrinsic_value = ov_intrinsic_value valuation,
          val_unit_time_value = ov_time_value valuation,
          val_unit_delta = g_delta g, val_unit_gamma = g_gamma g,
          val_unit_theta_per_year = g_theta_per_year g,
          val_unit_vega_per_volatility_unit = g_vega_per_unit_volatility g,
          val_market_value = market_value,
          val_portfolio_delta = scaled (g_delta g), val_portfolio_gamma = scaled (g_gamma g),
          val_portfolio_theta_per_year = scaled (g_theta_per_year g),
          val_portfolio_vega_per_volatility_unit = scaled (g_vega_per_unit_volatility g)\<rparr>)))"

definition value_pair ::
  "libm \<Rightarrow> option_contract \<Rightarrow> option_contract \<Rightarrow> market_state \<Rightarrow> int \<Rightarrow> option_valuation_record list result" where
  "value_pair L call put state quantity = rmap (value_record L state quantity) [call, put]"

section \<open>Selection of expiry and contracts\<close>

text \<open>The dictionary comprehension: a later key with the same date overwrites the value.\<close>

definition expiry_candidates ::
  "simulation_market_config \<Rightarrow> pydate \<Rightarrow> (pydate \<times> int) list result" where
  "expiry_candidates market entry_session_date =
     rfold (\<lambda>sessions items.
              rbind (expiry_for_remaining_sessions entry_session_date sessions (mc_clock market)) (\<lambda>e.
              Inr (AList.update (se_expiry_session_date e) sessions items)))
       (om_eligible_expiry_sessions (mc_options market)) []"

definition select_simulation_expiry ::
  "strategy_contract \<Rightarrow> simulation_market_config \<Rightarrow> pydate \<Rightarrow> simulation_expiry result" where
  "select_simulation_expiry strategy market entry_session_date =
     rbind (expiry_candidates market entry_session_date) (\<lambda>candidates.
     rbind (select_expiry candidates (ex_minimum_remaining_sessions (sc_expiry strategy))
              (ex_maximum_remaining_sessions (sc_expiry strategy))) (\<lambda>selected_date.
     rbind (lift_opt (KeyError ''expiry'') (map_of candidates selected_date)) (\<lambda>selected_sessions.
     expiry_for_remaining_sessions entry_session_date selected_sessions (mc_clock market))))"

definition select_simulation_contracts ::
  "env \<Rightarrow> strategy_contract \<Rightarrow> simulation_market_config \<Rightarrow> generated_path
   \<Rightarrow> (simulation_expiry \<times> synthetic_option_pair) result" where
  "select_simulation_contracts E strategy market path =
     rbind (lift_opt IndexError (case gp_points path of [] \<Rightarrow> None | p # _ \<Rightarrow> Some p)) (\<lambda>initial.
     rbind (select_simulation_expiry strategy market (up_session_date initial)) (\<lambda>expiry.
     rbind (continuous_forward (ev_libm E) (up_spot initial) (up_risk_free_rate initial)
              (up_dividend_yield initial) (se_time_to_expiry_years expiry)) (\<lambda>forward.
     let options = mc_options market in
     rbind (synthetic_chain (mc_underlying market) forward (om_strike_interval options)
              (om_strikes_below options) (om_strikes_above options) (se_expiry_session_date expiry)
              (om_multiplier options) (om_relative_spread options) (om_synthetic_volume_base options)
              (om_synthetic_open_interest_base options)) (\<lambda>chain.
     rbind (select_straddle chain forward) (\<lambda>selected.
     Inr (expiry, selected))))))"

definition validate_contract_alignment ::
  "strategy_contract \<Rightarrow> simulation_market_config \<Rightarrow> unit result" where
  "validate_contract_alignment strategy market =
     rbind (guard (ck_timezone (mc_clock market) \<noteq> en_exchange_timezone (sc_entry strategy))
              (ValueError ''simulation clock timezone must match the strategy contract'')) (\<lambda>_.
     guard (en_entry_time_local (sc_entry strategy) \<notin> set (ck_decision_times_local (mc_clock market)))
       (ValueError ''strategy entry time must be available in the simulation clock''))"

section \<open>The run configuration\<close>

definition SIMULATOR_VERSION :: string where
  "SIMULATOR_VERSION = ''sim-1.2''"

text \<open>The parameters of the policy in the dump of the hedging configuration, if it has a mapping.\<close>

definition policy_parameters :: "(string \<times> py_value) list \<Rightarrow> string \<Rightarrow> (string \<times> py_value) list" where
  "policy_parameters dump policy_id =
     (case map_of dump policy_id of
        Some (PDict kvs) \<Rightarrow> [(k, v). (StrKey k, v) \<leftarrow> kvs]
      | _ \<Rightarrow> [])"

definition build_simulation_run_config ::
  "env \<Rightarrow> strategy_contract \<Rightarrow> simulation_market_config \<Rightarrow> generated_path \<Rightarrow> string
   \<Rightarrow> execution_cost_parameters \<Rightarrow> execution_cost_parameters \<Rightarrow> bool \<Rightarrow> decimal
   \<Rightarrow> simulation_run_config result" where
  "build_simulation_run_config E strategy market path policy_id option_costs futures_costs
       manual_kill_switch_engaged accounting_tolerance =
     rbind (strategy_config_hash E strategy) (\<lambda>strategy_hash.
     rbind (simulation_market_config_hash E market) (\<lambda>market_hash.
     rbind (stable_hash (ev_sha256 E) (str_dict (gp_canonical_parameters path))) (\<lambda>path_config_hash.
     rbind (cost_model_from_parameters option_costs) (\<lambda>option_model.
     rbind (cost_model_from_parameters futures_costs) (\<lambda>futures_model.
     validate_run_config
       \<lparr>rc_schema_version = 2, rc_simulator_version = SIMULATOR_VERSION,
        rc_strategy_config_hash = strategy_hash, rc_market_config_hash = market_hash,
        rc_path_config_hash = path_config_hash, rc_path_hash = gp_path_hash path,
        rc_policy_id = policy_id,
        rc_policy_parameters = policy_parameters (ev_dump_hedging E (sc_hedging strategy)) policy_id,
        rc_option_cost_model = option_model, rc_futures_cost_model = futures_model,
        rc_manual_kill_switch_engaged = manual_kill_switch_engaged,
        rc_edge_gate_mode = ''not_evaluated_hedge_policy_benchmark'',
        rc_accounting_tolerance = accounting_tolerance,
        rc_quantity_rounding = ''nearest_integer_half_even''\<rparr>)))))"

definition removeprefix :: "string \<Rightarrow> string \<Rightarrow> string" where
  "removeprefix prefix s = (if take (length prefix) s = prefix then drop (length prefix) s else s)"

definition simulation_run_id :: "env \<Rightarrow> simulation_run_config \<Rightarrow> string result" where
  "simulation_run_id E run_config =
     rbind (simulation_run_config_hash E run_config) (\<lambda>h.
     Inr (''sim-'' @ take 20 (removeprefix ''sha256:'' h)))"

section \<open>Events and the state of a run\<close>

record simulation_event =
  evt_sequence :: int
  evt_timestamp :: pydatetime
  evt_event_type :: string
  evt_entity_id :: string
  evt_details :: "(string \<times> py_value) list"

text \<open>\<open>str(d)\<close> of an amount of money: two decimals.\<close>

definition money_text :: "decimal \<Rightarrow> string" where
  "money_text d =
     (let n = \<lfloor>\<bar>dval d\<bar> * 100\<rfloor> in
      (if dval d < 0 then ''-'' else '''') @ string_of_int (n div 100) @ ''.''
        @ pad_left 2 (string_of_int (n mod 100)))"

text \<open>What the prologue fixes for the whole run.\<close>

record run_setup =
  su_env :: env
  su_strategy :: strategy_contract
  su_market :: simulation_market_config
  su_policy :: hedge_policy
  su_policy_id :: string
  su_option_costs :: execution_cost_parameters
  su_futures_costs :: execution_cost_parameters
  su_kill_switch :: bool
  su_run_id :: string
  su_position_id :: string
  su_selected :: synthetic_option_pair

definition su_futures :: "run_setup \<Rightarrow> synthetic_futures_market_config" where
  "su_futures S = mc_futures (su_market S)"

definition su_futures_id :: "run_setup \<Rightarrow> string" where
  "su_futures_id S = fm_instrument_id (su_futures S)"

definition su_contracts :: "run_setup \<Rightarrow> option_contract list" where
  "su_contracts S = [sp_call (su_selected S), sp_put (su_selected S)]"

definition su_units :: "run_setup \<Rightarrow> int" where
  "su_units S = ps_units (sc_position (su_strategy S))"

definition su_risk :: "run_setup \<Rightarrow> risk_policy_config" where
  "su_risk S = sc_risk (su_strategy S)"

record run_state =
  st_ledger :: portfolio_ledger
  st_valuations :: "option_valuation_record list"
  st_decisions :: "hedge_decision list"
  st_risk_records :: "risk_decision list"
  st_intents :: "order_intent list"
  st_fills :: "simulated_fill list"
  st_events :: "simulation_event list"
  st_risk_state :: risk_state
  st_exit_reason :: string
  st_processed :: "market_state list"

definition session_date_of :: "market_state \<Rightarrow> pydate" where
  "session_date_of state =
     (case ms_session_date state of Some d \<Rightarrow> d | None \<Rightarrow> date_of (ms_timestamp state))"

definition append_event ::
  "run_setup \<Rightarrow> pydatetime \<Rightarrow> string \<Rightarrow> (string \<times> py_value) list \<Rightarrow> run_state \<Rightarrow> run_state" where
  "append_event S timestamp event_type details st =
     st\<lparr>st_events := st_events st
         @ [\<lparr>evt_sequence = int (length (st_events st)) + 1, evt_timestamp = timestamp,
              evt_event_type = event_type, evt_entity_id = su_position_id S, evt_details = details\<rparr>]\<rparr>"

text \<open>Fill an intent, record the fill in the ledger, and keep both.\<close>

definition fill_and_record ::
  "run_setup \<Rightarrow> order_intent \<Rightarrow> price \<Rightarrow> execution_cost_parameters \<Rightarrow> string \<Rightarrow> run_state \<Rightarrow> run_state result" where
  "fill_and_record S intent reference_price costs entry_type st =
     rbind (simulate_fill intent reference_price costs None) (\<lambda>fill.
     rbind (record_fill fill entry_type (su_position_id S) (st_ledger st)) (\<lambda>ledger.
     Inr (st\<lparr>st_ledger := ledger, st_intents := st_intents st @ [intent], st_fills := st_fills st @ [fill]\<rparr>)))"

section \<open>Opening the position\<close>

definition entry_intent :: "run_setup \<Rightarrow> market_state \<Rightarrow> option_contract \<Rightarrow> order_intent result" where
  "entry_intent S initial contract =
     make_order_intent (su_run_id S @ ''-entry-'' @ oc_option_type contract) (ms_timestamp initial)
       (oc_contract_id contract) ''buy'' (su_units S) (oc_multiplier contract) ''open_long_straddle''
       (su_position_id S) (su_policy_id S)"

definition record_entry ::
  "run_setup \<Rightarrow> order_intent \<times> simulated_fill \<Rightarrow> run_state \<Rightarrow> run_state result" where
  "record_entry S x st =
     rbind (record_fill (snd x) ''option_entry'' (su_position_id S) (st_ledger st)) (\<lambda>ledger.
     Inr (st\<lparr>st_ledger := ledger, st_intents := st_intents st @ [fst x], st_fills := st_fills st @ [snd x]\<rparr>))"

definition open_position :: "run_setup \<Rightarrow> market_state \<Rightarrow> run_state result" where
  "open_position S initial =
     rbind (decimal_of_float (rp_starting_nav_inr (su_risk S))) (\<lambda>nav.
     rbind (make_ledger nav (ms_timestamp initial) (su_position_id S)) (\<lambda>ledger0.
     rbind (value_pair (ev_libm (su_env S)) (sp_call (su_selected S)) (sp_put (su_selected S)) initial
              (su_units S)) (\<lambda>entry_values.
     rbind (rmap (entry_intent S initial) (su_contracts S)) (\<lambda>entry_intents.
     rbind (rmap (\<lambda>(intent, valuation).
                    simulate_fill intent (FloatPrice (val_unit_price valuation)) (su_option_costs S) None)
              (zip entry_intents entry_values)) (\<lambda>entry_fills.
     rbind (option_entry_premium_at_risk entry_fills) (\<lambda>premium_at_risk.
     rbind (absolute_daily_theta entry_values
              (ck_trading_periods_per_year (mc_clock (su_market S)))) (\<lambda>daily_theta.
     rbind (entry_risk_decisions (ms_timestamp initial) (session_date_of initial) premium_at_risk
              daily_theta (su_selected S) (su_risk S)
              (ex_require_quote_quality (sc_expiry (su_strategy S)))
              (ex_require_liquidity (sc_expiry (su_strategy S)))) (\<lambda>entry_risks.
     rbind (case find (\<lambda>r. rd_decision r = ''reject'') entry_risks of
              Some r \<Rightarrow> Inl (ValueError (rd_reason_code r)) | None \<Rightarrow> Inr ()) (\<lambda>_.
     rbind (rfold (record_entry S) (zip entry_intents entry_fills)
              \<lparr>st_ledger = ledger0, st_valuations = [], st_decisions = [], st_risk_records = entry_risks,
               st_intents = [], st_fills = [], st_events = [],
               st_risk_state = initialize_risk_state 0 0 0, st_exit_reason = ''simulation_end'',
               st_processed = []\<rparr>) (\<lambda>st.
     rbind (portfolio_value (st_ledger st)) (\<lambda>opened.
     Inr (st\<lparr>st_risk_state := initialize_risk_state (pl_starting_nav (st_ledger st)) opened
                                (session_date_of initial)\<rparr>))))))))))))"

section \<open>One market state\<close>

record observation =
  ob_state :: market_state
  ob_option_delta :: pyfloat
  ob_option_gamma :: pyfloat
  ob_hedge_delta :: pyfloat
  ob_net_delta :: pyfloat
  ob_state_risks :: "risk_decision list"

definition hedge_delta_of :: "run_setup \<Rightarrow> portfolio_ledger \<Rightarrow> pyfloat" where
  "hedge_delta_of S l =
     (case map_of (pl_positions l) (su_futures_id S) of
        None \<Rightarrow> 0
      | Some p \<Rightarrow> float_of_int (ip_quantity p) * fm_delta_per_contract (su_futures S))"

definition mark_positions ::
  "run_setup \<Rightarrow> market_state \<Rightarrow> option_valuation_record list \<Rightarrow> portfolio_ledger \<Rightarrow> portfolio_ledger result" where
  "mark_positions S state pair_values l =
     rbind (rfold (\<lambda>v. ledger_mark (val_contract_id v) (FloatPrice (val_unit_price v))) pair_values l) (\<lambda>l1.
     if map_of (pl_positions l1) (su_futures_id S) \<noteq> None
     then ledger_mark (su_futures_id S) (FloatPrice (ms_futures_price state)) l1
     else Inr l1)"

definition observe_state :: "run_setup \<Rightarrow> market_state \<Rightarrow> run_state \<Rightarrow> (observation \<times> run_state) result" where
  "observe_state S state st =
     rbind (value_pair (ev_libm (su_env S)) (sp_call (su_selected S)) (sp_put (su_selected S)) state
              (su_units S)) (\<lambda>pair_values.
     rbind (mark_positions S state pair_values (st_ledger st)) (\<lambda>ledger.
     let option_delta = float_sum (map val_portfolio_delta pair_values);
         option_gamma = float_sum (map val_portfolio_gamma pair_values);
         hedge_delta = hedge_delta_of S ledger;
         net_delta = option_delta + hedge_delta
     in
     rbind (portfolio_value ledger) (\<lambda>marked_value.
     let risk = mark_risk_state (st_risk_state st) marked_value (session_date_of state) in
     rbind (state_risk_decisions (ms_timestamp state) risk net_delta (su_risk S) (su_kill_switch S))
       (\<lambda>state_risks.
     Inr (\<lparr>ob_state = state, ob_option_delta = option_delta, ob_option_gamma = option_gamma,
           ob_hedge_delta = hedge_delta, ob_net_delta = net_delta, ob_state_risks = state_risks\<rparr>,
          st\<lparr>st_ledger := ledger, st_valuations := st_valuations st @ pair_values,
             st_risk_records := st_risk_records st @ state_risks, st_risk_state := risk,
             st_processed := st_processed st @ [state]\<rparr>)))))"

definition exit_reason_at_state ::
  "risk_decision list \<Rightarrow> strategy_contract \<Rightarrow> simulation_market_config \<Rightarrow> market_state \<Rightarrow> bool
   \<Rightarrow> string option result" where
  "exit_reason_at_state records strategy market state is_final_state =
     (let breached = [rd_rule_id r. r \<leftarrow> records, rd_decision r = ''exit''] in
      if ''manual_kill_switch'' \<in> set breached then Inr (Some ''manual_kill_switch'')
      else
        rbind (int_true_div (ex_safety_buffer_sessions (sc_expiry strategy))
                 (ck_trading_periods_per_year (mc_clock market))) (\<lambda>minimum_time.
        let all_breached =
              breached
              @ (if ms_time_to_expiry_years state < minimum_time then [''insufficient_time_to_expiry''] else [])
              @ (if ex_holding_horizon_sessions (sc_expiry strategy) \<le> ms_session_index state
                 then [''maximum_holding_period''] else [])
              @ (if is_final_state then [''simulation_end''] else [])
        in Inr (find (\<lambda>reason. reason \<in> set all_breached) (xc_precedence (sc_exit strategy)))))"

definition require_exit :: "run_setup \<Rightarrow> observation \<Rightarrow> string \<Rightarrow> run_state \<Rightarrow> run_state result" where
  "require_exit S ob reason st =
     rbind (portfolio_value (st_ledger st)) (\<lambda>v.
     Inr (append_event S (ms_timestamp (ob_state ob)) ''exit_required''
            [(''exit_reason'', PStr reason), (''net_delta'', PFloat (ob_net_delta ob)),
             (''portfolio_value'', PStr (money_text v))]
            (st\<lparr>st_exit_reason := reason\<rparr>)))"

definition policy_state :: "run_setup \<Rightarrow> observation \<Rightarrow> hedge_policy_state result" where
  "policy_state S ob =
     (let state = ob_state ob in
      make_hedge_policy_state
        \<lparr>hs_timestamp = ms_timestamp state, hs_step_index = ms_step_index state,
         hs_session_index = ms_session_index state, hs_current_option_delta = ob_option_delta ob,
         hs_current_hedge_delta = ob_hedge_delta ob, hs_current_net_delta = ob_net_delta ob,
         hs_option_gamma = ob_option_gamma ob, hs_spot = ms_spot state,
         hs_time_to_expiry_years = ms_time_to_expiry_years state,
         hs_futures_delta_per_contract = fm_delta_per_contract (su_futures S),
         hs_risk_free_rate = ms_risk_free_rate state\<rparr>)"

text \<open>
  The hard delta cap. A decision whose predicted delta breaks the cap is replaced by the forced
  reduction when that one trades, brings the delta closer to zero and keeps the cap.
\<close>

datatype delta_control = Proceed hedge_decision bool | Unhedgeable hedge_decision

definition control_delta :: "run_setup \<Rightarrow> observation \<Rightarrow> delta_control result" where
  "control_delta S ob =
     rbind (policy_state S ob) (\<lambda>state.
     rbind (decide (ev_libm (su_env S)) (su_policy S) state) (\<lambda>decision.
     if rp_maximum_absolute_delta_units (su_risk S) < \<bar>hd_net_delta_after_fill decision\<bar>
     then rbind (force_delta_reduction state (su_policy_id S)) (\<lambda>forced.
          let forced_reduces_delta =
                hd_rounded_requested_futures_quantity forced \<noteq> 0
                \<and> \<bar>hd_net_delta_after_fill forced\<bar> < \<bar>ob_net_delta ob\<bar>
          in if \<not> forced_reduces_delta
                \<or> rp_maximum_absolute_delta_units (su_risk S) < \<bar>hd_net_delta_after_fill forced\<bar>
             then Inr (Unhedgeable forced)
             else Inr (Proceed forced True))
     else Inr (Proceed decision False)))"

definition decision_details ::
  "hedge_decision \<Rightarrow> observation \<Rightarrow> decimal \<Rightarrow> decimal \<Rightarrow> (string \<times> py_value) list" where
  "decision_details d ob value_before value_after =
     [(''option_delta_before_decision'', PFloat (ob_option_delta ob)),
      (''hedge_delta_before_decision'', PFloat (ob_hedge_delta ob)),
      (''net_delta_before_decision'', PFloat (ob_net_delta ob)),
      (''continuous_target_futures_quantity'', PFloat (hd_continuous_target_futures_quantity d)),
      (''rounded_requested_futures_quantity'', PInt (hd_rounded_requested_futures_quantity d)),
      (''executed_futures_quantity'', PInt (hd_executed_futures_quantity d)),
      (''option_delta_after_fill'', PFloat (hd_option_delta_after_fill d)),
      (''hedge_delta_after_fill'', PFloat (hd_hedge_delta_after_fill d)),
      (''net_delta_after_fill'', PFloat (hd_net_delta_after_fill d)),
      (''portfolio_value_before_fill'', PStr (money_text value_before)),
      (''portfolio_value_after_fill'', PStr (money_text value_after)),
      (''action'', PStr (hd_action d))]"

definition record_unhedgeable :: "run_setup \<Rightarrow> observation \<Rightarrow> hedge_decision \<Rightarrow> run_state \<Rightarrow> run_state result" where
  "record_unhedgeable S ob forced st =
     (let t = ms_timestamp (ob_state ob); risk = st_risk_state st in
      rbind (portfolio_value (st_ledger st)) (\<lambda>v.
      let failed_decision = forced
            \<lparr>hd_action := ''hold'', hd_rounded_requested_futures_quantity := 0,
             hd_executed_futures_quantity := 0, hd_option_delta_after_fill := ob_option_delta ob,
             hd_hedge_delta_after_fill := ob_hedge_delta ob, hd_net_delta_after_fill := ob_net_delta ob,
             hd_quantity_rounding_residual_delta := ob_net_delta ob,
             hd_portfolio_value_before_fill := Some v, hd_portfolio_value_after_fill := Some v,
             hd_session_hedge_count := rs_hedges_in_current_session risk,
             hd_total_hedge_count := rs_total_hedges risk,
             hd_reason_code := ''absolute_delta_unhedgeable''\<rparr>;
          st1 = st\<lparr>st_exit_reason := ''absolute_delta_unhedgeable'',
                  st_risk_records := st_risk_records st
                    @ [post_hedge_delta_risk_decision t risk (hd_net_delta_after_fill forced)
                         (rp_maximum_absolute_delta_units (su_risk S)) ''unhedgeable''],
                  st_decisions := st_decisions st @ [failed_decision]\<rparr>;
          st2 = append_event S t ''decision_completed'' (decision_details failed_decision ob v v) st1;
          st3 = append_event S t ''risk_control_failed''
                  [(''reason_code'', PStr ''absolute_delta_unhedgeable''),
                   (''net_delta_before_decision'', PFloat (ob_net_delta ob)),
                   (''predicted_residual_delta'', PFloat (hd_net_delta_after_fill forced))] st2
      in Inr (append_event S t ''exit_required''
                [(''exit_reason'', PStr ''absolute_delta_unhedgeable''),
                 (''net_delta'', PFloat (ob_net_delta ob))] st3)))"

text \<open>The futures order of a decision, if it asks for one; returns the executed quantity.\<close>

definition place_hedge :: "run_setup \<Rightarrow> observation \<Rightarrow> hedge_decision \<Rightarrow> run_state \<Rightarrow> (int \<times> run_state) result" where
  "place_hedge S ob decision st =
     (let quantity = hd_rounded_requested_futures_quantity decision; state = ob_state ob in
      if quantity = 0 then Inr (0, st)
      else
        let side = (if 0 < quantity then ''buy'' else ''sell'') in
        rbind (make_order_intent
                 (su_run_id S @ ''-hedge-'' @ string_of_int (ms_step_index state) @ ''-''
                    @ string_of_int (rs_total_hedges (st_risk_state st)))
                 (ms_timestamp state) (su_futures_id S) side \<bar>quantity\<bar> (fm_multiplier (su_futures S))
                 (hd_reason_code decision) (su_position_id S) (su_policy_id S)) (\<lambda>intent.
        rbind (fill_and_record S intent (FloatPrice (ms_futures_price state)) (su_futures_costs S)
                 (if side = ''buy'' then ''futures_hedge_buy'' else ''futures_hedge_sell'') st) (\<lambda>st1.
        Inr (quantity, st1\<lparr>st_risk_state := record_risk_hedge (st_risk_state st1)\<rparr>))))"

definition execute_decision ::
  "run_setup \<Rightarrow> observation \<Rightarrow> hedge_decision \<Rightarrow> bool \<Rightarrow> run_state \<Rightarrow> run_state result" where
  "execute_decision S ob decision forced_delta_control st =
     (let state = ob_state ob; t = ms_timestamp state in
      rbind (portfolio_value (st_ledger st)) (\<lambda>value_before.
      rbind (place_hedge S ob decision st) (\<lambda>(executed_quantity, st1).
      let hedge_delta_after_fill =
            ob_hedge_delta ob + float_of_int executed_quantity * fm_delta_per_contract (su_futures S);
          net_delta_after_fill = ob_option_delta ob + hedge_delta_after_fill;
          risk = st_risk_state st1
      in
      rbind (portfolio_value (st_ledger st1)) (\<lambda>value_after.
      let recorded = decision
            \<lparr>hd_executed_futures_quantity := executed_quantity,
             hd_option_delta_after_fill := ob_option_delta ob,
             hd_hedge_delta_after_fill := hedge_delta_after_fill,
             hd_net_delta_after_fill := net_delta_after_fill,
             hd_quantity_rounding_residual_delta := net_delta_after_fill - hd_target_net_delta decision,
             hd_portfolio_value_before_fill := Some value_before,
             hd_portfolio_value_after_fill := Some value_after,
             hd_session_hedge_count := rs_hedges_in_current_session risk,
             hd_total_hedge_count := rs_total_hedges risk\<rparr>;
          st2 = st1\<lparr>st_risk_records := st_risk_records st1
                     @ [post_hedge_delta_risk_decision t risk net_delta_after_fill
                          (rp_maximum_absolute_delta_units (su_risk S))
                          (if forced_delta_control then ''forced_hedge'' else ''within_limit'')],
                   st_risk_state := mark_risk_state risk value_after (session_date_of state),
                   st_decisions := st_decisions st1 @ [recorded]\<rparr>
      in Inr (append_event S t ''decision_completed''
                (decision_details recorded ob value_before value_after) st2)))))"

text \<open>The loop body; the flag says that the loop breaks.\<close>

definition simulate_state ::
  "run_setup \<Rightarrow> bool \<Rightarrow> market_state \<Rightarrow> run_state \<Rightarrow> (bool \<times> run_state) result" where
  "simulate_state S is_final_state state st =
     rbind (observe_state S state st) (\<lambda>(ob, st1).
     rbind (exit_reason_at_state (ob_state_risks ob) (su_strategy S) (su_market S) state is_final_state)
       (\<lambda>risk_exit.
     case risk_exit of
       Some reason \<Rightarrow> rbind (require_exit S ob reason st1) (\<lambda>st2. Inr (True, st2))
     | None \<Rightarrow>
         rbind (control_delta S ob) (\<lambda>control.
         case control of
           Unhedgeable forced \<Rightarrow> rbind (record_unhedgeable S ob forced st1) (\<lambda>st2. Inr (True, st2))
         | Proceed decision forced_delta_control \<Rightarrow>
             rbind (execute_decision S ob decision forced_delta_control st1) (\<lambda>st2. Inr (False, st2)))))"

fun simulate_states :: "run_setup \<Rightarrow> market_state list \<Rightarrow> run_state \<Rightarrow> run_state result" where
  "simulate_states S [] st = Inr st"
| "simulate_states S (state # states) st =
     rbind (simulate_state S (states = []) state st) (\<lambda>(stop, st1).
     if stop then Inr st1 else simulate_states S states st1)"

section \<open>Closing the position\<close>

definition close_option ::
  "run_setup \<Rightarrow> market_state \<Rightarrow> option_contract \<times> option_valuation_record \<Rightarrow> run_state \<Rightarrow> run_state result" where
  "close_option S final_state x st =
     (let (contract, valuation) = x in
      rbind (lift_opt (KeyError (oc_contract_id contract))
               (map_of (pl_positions (st_ledger st)) (oc_contract_id contract))) (\<lambda>position.
      if ip_quantity position = 0 then Inr st
      else
        rbind (make_order_intent (su_run_id S @ ''-exit-'' @ oc_option_type contract)
                 (ms_timestamp final_state) (oc_contract_id contract) ''sell'' \<bar>ip_quantity position\<bar>
                 (oc_multiplier contract) (st_exit_reason st) (su_position_id S) (su_policy_id S)) (\<lambda>intent.
        fill_and_record S intent (FloatPrice (val_unit_price valuation)) (su_option_costs S)
          ''option_exit'' st)))"

definition close_futures :: "run_setup \<Rightarrow> market_state \<Rightarrow> run_state \<Rightarrow> run_state result" where
  "close_futures S final_state st =
     (case map_of (pl_positions (st_ledger st)) (su_futures_id S) of
        None \<Rightarrow> Inr st
      | Some position \<Rightarrow>
          if ip_quantity position = 0 then Inr st
          else
            rbind (make_order_intent (su_run_id S @ ''-futures-close'') (ms_timestamp final_state)
                     (su_futures_id S) (if 0 < ip_quantity position then ''sell'' else ''buy'')
                     \<bar>ip_quantity position\<bar> (ip_multiplier position) (st_exit_reason st)
                     (su_position_id S) (su_policy_id S)) (\<lambda>intent.
            fill_and_record S intent (FloatPrice (ms_futures_price final_state)) (su_futures_costs S)
              ''futures_close'' st))"

definition close_position :: "run_setup \<Rightarrow> run_state \<Rightarrow> run_state result" where
  "close_position S st =
     rbind (guard (st_processed st = []) IndexError) (\<lambda>_.
     let final_state = last (st_processed st) in
     rbind (value_pair (ev_libm (su_env S)) (sp_call (su_selected S)) (sp_put (su_selected S)) final_state
              (su_units S)) (\<lambda>final_values.
     rbind (rfold (close_option S final_state) (zip (su_contracts S) final_values) st) (\<lambda>st1.
     close_futures S final_state st1)))"

section \<open>The run\<close>

record simulation_result =
  sr_run_id :: string
  sr_run_config :: simulation_run_config
  sr_status :: string
  sr_strategy_config_hash :: string
  sr_market_config_hash :: string
  sr_path_hash :: string
  sr_executable_market_state_hash :: string
  sr_policy_id :: string
  sr_call_contract :: option_contract
  sr_put_contract :: option_contract
  sr_futures_instrument_id :: string
  sr_futures_multiplier :: int
  sr_futures_delta_per_contract :: pyfloat
  sr_market_states :: "market_state list"
  sr_option_valuations :: "option_valuation_record list"
  sr_hedge_decisions :: "hedge_decision list"
  sr_risk_decisions :: "risk_decision list"
  sr_order_intents :: "order_intent list"
  sr_fills :: "simulated_fill list"
  sr_ledger_entries :: "ledger_entry list"
  sr_events :: "simulation_event list"
  sr_pnl_attribution :: "greek_attribution_record list"
  sr_starting_nav :: decimal
  sr_terminal_portfolio_value :: decimal
  sr_exit_reason :: string
  sr_hedge_count :: int
  sr_reconciliation :: simulation_reconciliation

text \<open>From the closed position to the result: terminal profit, reconciliation, attribution, status.\<close>

definition finish_run ::
  "run_setup \<Rightarrow> simulation_run_config \<Rightarrow> string \<Rightarrow> string \<Rightarrow> string \<Rightarrow> string \<Rightarrow> market_state list \<Rightarrow> decimal
   \<Rightarrow> run_state \<Rightarrow> simulation_result result" where
  "finish_run S run_config config_hash market_hash path_hash market_state_hash market_states
       accounting_tolerance st =
     (let ledger = st_ledger st; call = sp_call (su_selected S); put = sp_put (su_selected S) in
      rbind (portfolio_value ledger) (\<lambda>terminal_value.
      let terminal_pnl = terminal_value - pl_starting_nav ledger in
      rbind (reconcile terminal_pnl (map snd (pl_positions ledger)) (st_fills st)
               [oc_contract_id call, oc_contract_id put] (su_futures_id S) accounting_tolerance)
        (\<lambda>reconciliation.
      rbind (calculate_greek_attribution (ev_libm (su_env S)) (st_processed st) (st_valuations st) call put)
        (\<lambda>attribution.
      Inr \<lparr>sr_run_id = su_run_id S, sr_run_config = run_config,
           sr_status = (if rn_reconciled reconciliation then ''complete'' else ''failed''),
           sr_strategy_config_hash = config_hash, sr_market_config_hash = market_hash,
           sr_path_hash = path_hash, sr_executable_market_state_hash = market_state_hash,
           sr_policy_id = su_policy_id S, sr_call_contract = call, sr_put_contract = put,
           sr_futures_instrument_id = su_futures_id S,
           sr_futures_multiplier = fm_multiplier (su_futures S),
           sr_futures_delta_per_contract = fm_delta_per_contract (su_futures S),
           sr_market_states = market_states, sr_option_valuations = st_valuations st,
           sr_hedge_decisions = st_decisions st, sr_risk_decisions = st_risk_records st,
           sr_order_intents = st_intents st, sr_fills = st_fills st,
           sr_ledger_entries = pl_entries ledger, sr_events = st_events st,
           sr_pnl_attribution = attribution, sr_starting_nav = pl_starting_nav ledger,
           sr_terminal_portfolio_value = terminal_value,
           sr_exit_reason = (if rn_reconciled reconciliation then st_exit_reason st
                             else ''reconciliation_failure''),
           sr_hedge_count = rs_total_hedges (st_risk_state st),
           sr_reconciliation = reconciliation\<rparr>))))"

text \<open>The straddle, the loop over the market states, the close-out.\<close>

definition run_position :: "run_setup \<Rightarrow> market_state list \<Rightarrow> run_state result" where
  "run_position S states =
     rbind (lift_opt IndexError (case states of [] \<Rightarrow> None | s # _ \<Rightarrow> Some s)) (\<lambda>initial.
     rbind (open_position S initial) (\<lambda>st.
     rbind (simulate_states S states st) (close_position S)))"

definition run_simulation ::
  "env \<Rightarrow> strategy_contract \<Rightarrow> simulation_market_config \<Rightarrow> generated_path \<Rightarrow> string
   \<Rightarrow> execution_cost_parameters \<Rightarrow> execution_cost_parameters \<Rightarrow> bool \<Rightarrow> decimal
   \<Rightarrow> simulation_result result" where
  "run_simulation E strategy market path policy_id option_costs futures_costs
       manual_kill_switch_engaged accounting_tolerance =
     rbind (guard (gp_points path = []) (ValueError ''simulation path cannot be empty'')) (\<lambda>_.
     rbind (validate_contract_alignment strategy market) (\<lambda>_.
     rbind (build_hedge_policy policy_id (sc_hedging strategy)) (\<lambda>policy.
     rbind (strategy_config_hash E strategy) (\<lambda>config_hash.
     rbind (simulation_market_config_hash E market) (\<lambda>market_hash.
     rbind (build_simulation_run_config E strategy market path policy_id option_costs futures_costs
              manual_kill_switch_engaged accounting_tolerance) (\<lambda>run_config.
     rbind (simulation_run_id E run_config) (\<lambda>run_id.
     rbind (select_simulation_contracts E strategy market path) (\<lambda>(expiry, selected).
     rbind (build_executable_market_states E strategy market path expiry) (\<lambda>market_states.
     rbind (executable_market_state_hash E market_states) (\<lambda>market_state_hash.
     let S = \<lparr>su_env = E, su_strategy = strategy, su_market = market, su_policy = policy,
              su_policy_id = policy_id, su_option_costs = option_costs,
              su_futures_costs = futures_costs, su_kill_switch = manual_kill_switch_engaged,
              su_run_id = run_id, su_position_id = ''position-'' @ run_id, su_selected = selected\<rparr>
     in
     rbind (run_position S market_states) (\<lambda>st.
     finish_run S run_config config_hash market_hash (gp_path_hash path) market_state_hash
       market_states accounting_tolerance st)))))))))))"

end
