(* ===== verification/Run.thy ===== *)
theory Run
  imports Engine
begin

text \<open>
  What a simulation run guarantees: the invariants of \<open>run_simulation\<close>'s loop.

  \<open>trades\<close> is the step relation on the ledger: a run only marks positions and records sound fills.
  Every operation of the engine is shown to be a path of this relation together with what it adds
  to the fills, events, decisions and counters (the \<open>_Inr\<close> lemmas); the properties follow by
  induction over the market states.
\<close>

section \<open>What a run does to its ledger\<close>

inductive trades :: "portfolio_ledger \<Rightarrow> simulated_fill list \<Rightarrow> portfolio_ledger \<Rightarrow> bool" where
  none: "trades l [] l"
| mark: "trades l fs l1 \<Longrightarrow> ledger_mark i p l1 = Inr l2 \<Longrightarrow> trades l fs l2"
| fill: "trades l fs l1 \<Longrightarrow> record_fill f ty pid l1 = Inr l2 \<Longrightarrow> sound_fill f \<Longrightarrow> trades l (fs @ [f]) l2"

lemma trades_trans: "trades l1 gs l2 \<Longrightarrow> trades l fs l1 \<Longrightarrow> trades l (fs @ gs) l2"
proof (induction rule: trades.induct)
  case (fill l' gs' l1 f ty pid l2)
  then show ?case using trades.fill [of l "fs @ gs'" l1 f ty pid l2] by simp
qed (auto intro: trades.mark)

lemma trades_fill1: "record_fill f ty pid l = Inr l' \<Longrightarrow> sound_fill f \<Longrightarrow> trades l [f] l'"
  using trades.fill [OF trades.none] by fastforce

lemma trades_mark1: "ledger_mark i p l = Inr l' \<Longrightarrow> trades l [] l'"
  by (rule trades.mark [OF trades.none])

lemma trades_books:
  assumes "trades l fs l'" and "books nav gs l" and "\<forall>f \<in> set fs. exact_fill f"
  shows "books nav (gs @ fs) l'"
  using assms
proof (induction rule: trades.induct)
  case (fill l fs l1 f ty pid l2)
  then show ?case using record_fill_books [of nav "gs @ fs" l1 f ty pid l2] by simp
qed (auto intro: ledger_mark_books)

lemma trades_sound: "trades l fs l' \<Longrightarrow> \<forall>f \<in> set fs. sound_fill f"
  by (induction rule: trades.induct) auto

lemma ledger_mark_holding: "ledger_mark i p l = Inr l' \<Longrightarrow> holding l' j = holding l j"
  by (auto simp: ledger_mark_def result_simps holding_def update_conv')

lemma ledger_mark_keys:
  "ledger_mark i p l = Inr l' \<Longrightarrow> map_of (pl_positions l') j = None \<longleftrightarrow> map_of (pl_positions l) j = None"
  by (auto simp: ledger_mark_def result_simps update_conv' split: if_splits)

definition net_quantity :: "string \<Rightarrow> simulated_fill list \<Rightarrow> int" where
  "net_quantity i fs = sum_list (map signed_quantity (filter (\<lambda>f. fl_instrument_id f = i) fs))"

lemma net_quantity_simps [simp]:
  "net_quantity i [] = 0"
  "net_quantity i (f # fs) = (if fl_instrument_id f = i then signed_quantity f else 0) + net_quantity i fs"
  "net_quantity i (fs @ gs) = net_quantity i fs + net_quantity i gs"
  by (simp_all add: net_quantity_def)

lemma trades_holding: "trades l fs l' \<Longrightarrow> holding l' i = holding l i + net_quantity i fs"
proof (induction rule: trades.induct)
  case (fill l fs l1 f ty pid l2)
  then show ?case using record_fill_holding [of f ty pid l1 l2 i] by simp
qed (auto simp: ledger_mark_holding)

text \<open>Nothing is ever forgotten: an instrument that has a position keeps one.\<close>

lemma trades_keys:
  assumes "trades l fs l'"
  shows "map_of (pl_positions l') i = None
     \<longleftrightarrow> map_of (pl_positions l) i = None \<and> i \<notin> fl_instrument_id ` set fs"
  using assms
proof (induction rule: trades.induct)
  case (fill l fs l1 f ty pid l2)
  from fill.hyps(2) obtain p where "pl_positions l2 = AList.update (fl_instrument_id f) p (pl_positions l1)"
    by (auto simp: record_fill_def Let_def result_simps)
  with fill.IH show ?case by (auto simp: update_conv')
qed (auto simp: ledger_mark_keys)

section \<open>The operations of the engine\<close>

lemma fill_and_record_Inr:
  assumes "fill_and_record S intent p costs ty st = Inr st'" and "valid_intent intent" and "sound_costs costs"
  shows "\<exists>f. trades (st_ledger st) [f] (st_ledger st') \<and> sound_fill f
     \<and> st' = st\<lparr>st_ledger := st_ledger st', st_intents := st_intents st @ [intent], st_fills := st_fills st @ [f]\<rparr>
     \<and> fl_instrument_id f = in_instrument_id intent
     \<and> signed_quantity f = (if in_side intent = ''buy'' then in_quantity intent else - in_quantity intent)"
proof -
  from assms(1) obtain f l where f: "simulate_fill intent p costs None = Inr f"
    and l: "record_fill f ty (su_position_id S) (st_ledger st) = Inr l"
    and st': "st' = st\<lparr>st_ledger := l, st_intents := st_intents st @ [intent], st_fills := st_fills st @ [f]\<rparr>"
    by (auto simp: fill_and_record_def result_simps)
  have "sound_fill f" by (rule simulate_fill_sound [OF f assms(2,3)])
  with l st' simulate_fill_Inr(1,2,3) [OF f] show ?thesis
    by (intro exI [of _ f]) (simp add: signed_quantity_def trades_fill1)
qed

lemma mark_positions_trades: "mark_positions S state vs l = Inr l' \<Longrightarrow> trades l [] l'"
proof -
  have marks: "trades l [] l1"
    if "rfold (\<lambda>v. ledger_mark (val_contract_id v) (FloatPrice (val_unit_price v))) vs l = Inr l1" for l1
    using that
  proof (induction vs arbitrary: l)
    case (Cons v vs)
    then obtain l2 where "ledger_mark (val_contract_id v) (FloatPrice (val_unit_price v)) l = Inr l2"
      "rfold (\<lambda>v. ledger_mark (val_contract_id v) (FloatPrice (val_unit_price v))) vs l2 = Inr l1"
      by (auto simp: result_simps)
    with Cons.IH [of l2] trades_trans [of l2 "[]" l1 l "[]"] trades_mark1 show ?case by auto
  qed (simp add: trades.none)
  show "mark_positions S state vs l = Inr l' \<Longrightarrow> trades l [] l'"
    using marks by (auto simp: mark_positions_def result_simps intro: trades.mark split: if_splits)
qed

lemma observe_state_Inr:
  assumes "observe_state S state st = Inr (ob, st')"
  shows "trades (st_ledger st) [] (st_ledger st')"
    and "\<exists>v. portfolio_value (st_ledger st') = Inr v
           \<and> st_risk_state st' = mark_risk_state (st_risk_state st) v (session_date_of state)"
    and "state_risk_decisions (ms_timestamp state) (st_risk_state st') (ob_net_delta ob) (su_risk S)
           (su_kill_switch S) = Inr (ob_state_risks ob)"
    and "ob_state ob = state" and "st_processed st' = st_processed st @ [state]"
    and "st_fills st' = st_fills st" and "st_events st' = st_events st" and "st_decisions st' = st_decisions st"
    and "st_intents st' = st_intents st" and "st_exit_reason st' = st_exit_reason st"
    and "ob_net_delta ob = ob_option_delta ob + ob_hedge_delta ob"
    and "ob_hedge_delta ob = hedge_delta_of S (st_ledger st')"
  using assms by (auto simp: observe_state_def Let_def result_simps mark_positions_trades)

lemma require_exit_Inr:
  assumes "require_exit S ob reason st = Inr st'"
  shows "\<exists>e. st' = st\<lparr>st_exit_reason := reason, st_events := st_events st @ [e]\<rparr>
     \<and> evt_sequence e = int (length (st_events st)) + 1 \<and> evt_event_type e = ''exit_required''
     \<and> evt_timestamp e = ms_timestamp (ob_state ob) \<and> evt_entity_id e = su_position_id S
     \<and> map_of (evt_details e) ''exit_reason'' = Some (PStr reason)"
  using assms by (auto simp: require_exit_def append_event_def result_simps)

text \<open>The log of a run: numbered from one, every entry about the position.\<close>

definition numbered :: "run_setup \<Rightarrow> simulation_event list \<Rightarrow> bool" where
  "numbered S es \<longleftrightarrow>
     map evt_sequence es = map int [1..<Suc (length es)] \<and> (\<forall>e \<in> set es. evt_entity_id e = su_position_id S)"

lemma numbered_snoc:
  "numbered S (es @ [e]) \<longleftrightarrow>
     numbered S es \<and> evt_sequence e = int (length es) + 1 \<and> evt_entity_id e = su_position_id S"
  by (auto simp: numbered_def)

definition event_types :: "run_state \<Rightarrow> string list" where
  "event_types st = map evt_event_type (st_events st)"

lemma append_event_simps [simp]:
  "st_ledger (append_event S t ty details st) = st_ledger st"
  "st_fills (append_event S t ty details st) = st_fills st"
  "st_intents (append_event S t ty details st) = st_intents st"
  "st_decisions (append_event S t ty details st) = st_decisions st"
  "st_risk_records (append_event S t ty details st) = st_risk_records st"
  "st_risk_state (append_event S t ty details st) = st_risk_state st"
  "st_exit_reason (append_event S t ty details st) = st_exit_reason st"
  "st_processed (append_event S t ty details st) = st_processed st"
  "st_valuations (append_event S t ty details st) = st_valuations st"
  "numbered S (st_events (append_event S t ty details st)) = numbered S (st_events st)"
  "event_types (append_event S t ty details st) = event_types st @ [ty]"
  by (simp_all add: append_event_def numbered_snoc event_types_def)

lemma event_types_update [simp]:
  "event_types (st\<lparr>st_ledger := l\<rparr>) = event_types st" "event_types (st\<lparr>st_fills := fs\<rparr>) = event_types st"
  "event_types (st\<lparr>st_intents := is\<rparr>) = event_types st" "event_types (st\<lparr>st_decisions := ds\<rparr>) = event_types st"
  "event_types (st\<lparr>st_risk_records := rr\<rparr>) = event_types st" "event_types (st\<lparr>st_risk_state := r\<rparr>) = event_types st"
  "event_types (st\<lparr>st_exit_reason := x\<rparr>) = event_types st" "event_types (st\<lparr>st_processed := ps\<rparr>) = event_types st"
  "event_types (st\<lparr>st_valuations := vs\<rparr>) = event_types st"
  by (simp_all add: event_types_def)

lemma place_hedge_Inr:
  assumes "place_hedge S ob d st = Inr (q, st')" and "sound_costs (su_futures_costs S)"
  shows "q = hd_rounded_requested_futures_quantity d"
    and "if q = 0 then st' = st
         else \<exists>i f. valid_intent i \<and> trades (st_ledger st) [f] (st_ledger st') \<and> sound_fill f
           \<and> fl_instrument_id f = su_futures_id S \<and> signed_quantity f = q
           \<and> st' = st\<lparr>st_ledger := st_ledger st', st_intents := st_intents st @ [i],
                      st_fills := st_fills st @ [f], st_risk_state := record_risk_hedge (st_risk_state st)\<rparr>"
proof -
  show q: "q = hd_rounded_requested_futures_quantity d"
    using assms(1) by (auto simp: place_hedge_def Let_def result_simps split: if_splits)
  show "if q = 0 then st' = st
         else \<exists>i f. valid_intent i \<and> trades (st_ledger st) [f] (st_ledger st') \<and> sound_fill f
           \<and> fl_instrument_id f = su_futures_id S \<and> signed_quantity f = q
           \<and> st' = st\<lparr>st_ledger := st_ledger st', st_intents := st_intents st @ [i],
                      st_fills := st_fills st @ [f], st_risk_state := record_risk_hedge (st_risk_state st)\<rparr>"
  proof (cases "q = 0")
    case True
    with assms(1) q show ?thesis by (auto simp: place_hedge_def Let_def)
  next
    case False
    define side where "side = (if 0 < q then ''buy'' else ''sell'')"
    from assms(1) False q obtain i st1 where
      i: "make_order_intent (su_run_id S @ ''-hedge-'' @ string_of_int (ms_step_index (ob_state ob)) @ ''-''
            @ string_of_int (rs_total_hedges (st_risk_state st))) (ms_timestamp (ob_state ob)) (su_futures_id S)
            side \<bar>q\<bar> (fm_multiplier (su_futures S)) (hd_reason_code d) (su_position_id S) (su_policy_id S) = Inr i"
      and st1: "fill_and_record S i (FloatPrice (ms_futures_price (ob_state ob))) (su_futures_costs S)
            (if side = ''buy'' then ''futures_hedge_buy'' else ''futures_hedge_sell'') st = Inr st1"
      and st': "st' = st1\<lparr>st_risk_state := record_risk_hedge (st_risk_state st1)\<rparr>"
      by (auto simp: place_hedge_def Let_def result_simps side_def split: if_splits)
    note i' = make_order_intent_Inr [OF i]
    from fill_and_record_Inr [OF st1 i'(1) assms(2)] obtain f where
      f: "trades (st_ledger st) [f] (st_ledger st1)" "sound_fill f"
      "st1 = st\<lparr>st_ledger := st_ledger st1, st_intents := st_intents st @ [i], st_fills := st_fills st @ [f]\<rparr>"
      "fl_instrument_id f = in_instrument_id i"
      "signed_quantity f = (if in_side i = ''buy'' then in_quantity i else - in_quantity i)" by blast
    have "signed_quantity f = q" using f(5) i' False by (simp add: side_def)
    moreover have "st_risk_state st1 = st_risk_state st" by (subst f(3)) simp
    ultimately show ?thesis
      using False i'(1,4) f(1,2,4) st' by (subst (asm) f(3)) (auto intro!: exI [of _ i] exI [of _ f])
  qed
qed

section \<open>Reasons to exit\<close>

lemma find_first:
  "find P xs = Some x \<longleftrightarrow> (\<exists>before after. xs = before @ x # after \<and> P x \<and> (\<forall>y \<in> set before. \<not> P y))"
proof
  assume "find P xs = Some x"
  then obtain k where "k < length xs" "P (xs ! k)" "x = xs ! k" "\<forall>j < k. \<not> P (xs ! j)"
    by (auto simp: find_Some_iff)
  then show "\<exists>before after. xs = before @ x # after \<and> P x \<and> (\<forall>y \<in> set before. \<not> P y)"
    by (intro exI [of _ "take k xs"] exI [of _ "drop (Suc k) xs"])
      (auto simp: id_take_nth_drop [symmetric] in_set_conv_nth)
next
  assume "\<exists>before after. xs = before @ x # after \<and> P x \<and> (\<forall>y \<in> set before. \<not> P y)"
  then obtain before after where "xs = before @ x # after" "P x" "\<forall>y \<in> set before. \<not> P y" by blast
  then show "find P xs = Some x" by (induction before arbitrary: xs) auto
qed

text \<open>Everything that asks for an exit at a state.\<close>

definition exit_causes ::
  "risk_decision list \<Rightarrow> strategy_contract \<Rightarrow> market_state \<Rightarrow> pyfloat \<Rightarrow> bool \<Rightarrow> string set" where
  "exit_causes records strategy state minimum_time final =
     exit_rules records
     \<union> (if ms_time_to_expiry_years state < minimum_time then {''insufficient_time_to_expiry''} else {})
     \<union> (if ex_holding_horizon_sessions (sc_expiry strategy) \<le> ms_session_index state
        then {''maximum_holding_period''} else {})
     \<union> (if final then {''simulation_end''} else {})"

lemma exit_reason_Inr:
  assumes "exit_reason_at_state records strategy market state final = Inr r"
    and "''manual_kill_switch'' \<notin> exit_rules records"
  shows "\<exists>minimum_time. int_true_div (ex_safety_buffer_sessions (sc_expiry strategy))
            (ck_trading_periods_per_year (mc_clock market)) = Inr minimum_time
     \<and> r = find (\<lambda>reason. reason \<in> exit_causes records strategy state minimum_time final)
             (xc_precedence (sc_exit strategy))"
proof -
  define breached where "breached = [rd_rule_id r. r \<leftarrow> records, rd_decision r = ''exit'']"
  have set: "set breached = exit_rules records" by (auto simp: breached_def exit_rules_def)
  have "''manual_kill_switch'' \<notin> set breached" using assms(2) set by simp
  with assms(1) obtain minimum_time where
    m: "int_true_div (ex_safety_buffer_sessions (sc_expiry strategy))
          (ck_trading_periods_per_year (mc_clock market)) = Inr minimum_time"
    and r: "r = find (\<lambda>reason. reason \<in> set (breached
              @ (if ms_time_to_expiry_years state < minimum_time then [''insufficient_time_to_expiry''] else [])
              @ (if ex_holding_horizon_sessions (sc_expiry strategy) \<le> ms_session_index state
                 then [''maximum_holding_period''] else [])
              @ (if final then [''simulation_end''] else []))) (xc_precedence (sc_exit strategy))"
    unfolding exit_reason_at_state_def Let_def breached_def [symmetric] by (auto simp: result_simps)
  have "set (breached
              @ (if ms_time_to_expiry_years state < minimum_time then [''insufficient_time_to_expiry''] else [])
              @ (if ex_holding_horizon_sessions (sc_expiry strategy) \<le> ms_session_index state
                 then [''maximum_holding_period''] else [])
              @ (if final then [''simulation_end''] else []))
      = exit_causes records strategy state minimum_time final"
    by (simp add: exit_causes_def set Un_assoc)
  with m r show ?thesis by metis
qed

lemma exit_reason_kill:
  assumes "''manual_kill_switch'' \<in> exit_rules records"
  shows "exit_reason_at_state records strategy market state final = Inr (Some ''manual_kill_switch'')"
  using assms by (auto simp: exit_reason_at_state_def Let_def exit_rules_def)

lemma exit_reason_None:
  assumes "exit_reason_at_state records strategy market state final = Inr None"
    and "xc_precedence (sc_exit strategy) = exit_precedence"
  shows "''manual_kill_switch'' \<notin> exit_rules records" and "''maximum_hedge_count'' \<notin> exit_rules records"
    and "''daily_loss_limit'' \<notin> exit_rules records" and "''position_loss_limit'' \<notin> exit_rules records"
    and "\<not> final" and "ms_session_index state < ex_holding_horizon_sessions (sc_expiry strategy)"
proof -
  show k: "''manual_kill_switch'' \<notin> exit_rules records"
    using exit_reason_kill [of records strategy market state final] assms(1) by auto
  from exit_reason_Inr [OF assms(1) k] obtain m where
    "find (\<lambda>reason. reason \<in> exit_causes records strategy state m final) exit_precedence = None"
    using assms(2) by metis
  then have "\<forall>reason \<in> set exit_precedence. reason \<notin> exit_causes records strategy state m final"
    by (simp add: find_None_iff)
  then show "''maximum_hedge_count'' \<notin> exit_rules records" "''daily_loss_limit'' \<notin> exit_rules records"
    "''position_loss_limit'' \<notin> exit_rules records" "\<not> final"
    "ms_session_index state < ex_holding_horizon_sessions (sc_expiry strategy)"
    by (auto simp: exit_precedence_def exit_causes_def not_le [symmetric])
qed

section \<open>One iteration of the loop\<close>

lemma mark_risk_state_simps [simp]:
  "rs_current_session_date (mark_risk_state r v d) = d"
  "rs_total_hedges (mark_risk_state r v d) = rs_total_hedges r"
  "rs_hedges_in_current_session (mark_risk_state r v d)
     = (if d = rs_current_session_date r then rs_hedges_in_current_session r else 0)"
  "rs_position_reference_portfolio_value (mark_risk_state r v d) = rs_position_reference_portfolio_value r"
  by (auto simp: mark_risk_state_def)

lemma record_risk_hedge_simps [simp]:
  "rs_current_session_date (record_risk_hedge r) = rs_current_session_date r"
  "rs_total_hedges (record_risk_hedge r) = rs_total_hedges r + 1"
  "rs_hedges_in_current_session (record_risk_hedge r) = rs_hedges_in_current_session r + 1"
  by (simp_all add: record_risk_hedge_def)

lemma execute_decision_Inr:
  assumes "execute_decision S ob d forced st = Inr st'" and "sound_costs (su_futures_costs S)"
    and "rs_current_session_date (st_risk_state st) = session_date_of (ob_state ob)"
  shows "\<exists>fs d'. trades (st_ledger st) fs (st_ledger st') \<and> st_fills st' = st_fills st @ fs
     \<and> (\<forall>f \<in> set fs. fl_instrument_id f = su_futures_id S \<and> sound_fill f) \<and> length fs \<le> 1
     \<and> net_quantity (su_futures_id S) fs = hd_rounded_requested_futures_quantity d
     \<and> st_decisions st' = st_decisions st @ [d']
     \<and> hd_executed_futures_quantity d' = hd_rounded_requested_futures_quantity d
     \<and> hd_session_hedge_count d' = rs_hedges_in_current_session (st_risk_state st) + int (length fs)
     \<and> hd_total_hedge_count d' = rs_total_hedges (st_risk_state st) + int (length fs)
     \<and> rs_hedges_in_current_session (st_risk_state st') = hd_session_hedge_count d'
     \<and> rs_total_hedges (st_risk_state st') = hd_total_hedge_count d'
     \<and> rs_current_session_date (st_risk_state st') = rs_current_session_date (st_risk_state st)
     \<and> event_types st' = event_types st @ [''decision_completed'']
     \<and> numbered S (st_events st') = numbered S (st_events st)
     \<and> st_processed st' = st_processed st \<and> st_exit_reason st' = st_exit_reason st"
proof -
  from assms(1) obtain q st1 where ph: "place_hedge S ob d st = Inr (q, st1)"
    by (auto simp: execute_decision_def Let_def result_simps)
  note hedge = place_hedge_Inr [OF ph assms(2)]
  from assms(1) ph obtain v v' where st':
    "execute_decision S ob d forced st = Inr st'" "portfolio_value (st_ledger st) = Inr v"
    "portfolio_value (st_ledger st1) = Inr v'"
    by (auto simp: execute_decision_def Let_def result_simps)
  show ?thesis
  proof (cases "q = 0")
    case True
    then have "st1 = st" using hedge(2) by simp
    with st' ph True hedge(1) assms(3) show ?thesis
      by (intro exI [of _ "[]"]) (auto simp: execute_decision_def Let_def result_simps trades.none)
  next
    case False
    then obtain i f where f: "trades (st_ledger st) [f] (st_ledger st1)" "sound_fill f"
      "fl_instrument_id f = su_futures_id S" "signed_quantity f = q"
      and st1: "st1 = st\<lparr>st_ledger := st_ledger st1, st_intents := st_intents st @ [i],
                      st_fills := st_fills st @ [f], st_risk_state := record_risk_hedge (st_risk_state st)\<rparr>"
      using hedge(2) by auto
    have fields: "st_fills st1 = st_fills st @ [f]" "st_decisions st1 = st_decisions st"
      "st_risk_state st1 = record_risk_hedge (st_risk_state st)" "event_types st1 = event_types st"
      "st_events st1 = st_events st" "st_processed st1 = st_processed st" "st_exit_reason st1 = st_exit_reason st"
      by (subst st1, simp)+
    from st' ph f hedge(1) assms(3) show ?thesis
      by (intro exI [of _ "[f]"]) (auto simp: execute_decision_def Let_def result_simps fields)
  qed
qed

lemma record_unhedgeable_Inr:
  assumes "record_unhedgeable S ob forced st = Inr st'"
  shows "\<exists>d'. st_ledger st' = st_ledger st \<and> st_fills st' = st_fills st
     \<and> st_decisions st' = st_decisions st @ [d'] \<and> hd_executed_futures_quantity d' = 0
     \<and> hd_session_hedge_count d' = rs_hedges_in_current_session (st_risk_state st)
     \<and> hd_total_hedge_count d' = rs_total_hedges (st_risk_state st)
     \<and> st_risk_state st' = st_risk_state st
     \<and> event_types st' = event_types st @ [''decision_completed'', ''risk_control_failed'', ''exit_required'']
     \<and> numbered S (st_events st') = numbered S (st_events st)
     \<and> st_processed st' = st_processed st \<and> st_exit_reason st' = ''absolute_delta_unhedgeable''"
  using assms by (auto simp: record_unhedgeable_def Let_def result_simps)

text \<open>What one iteration adds, whichever way it goes.\<close>

definition iteration ::
  "run_setup \<Rightarrow> bool \<Rightarrow> bool \<Rightarrow> market_state \<Rightarrow> run_state \<Rightarrow> run_state \<Rightarrow> bool" where
  "iteration S final stop state st st' \<longleftrightarrow>
     (\<exists>fs ds.
        trades (st_ledger st) fs (st_ledger st') \<and> st_fills st' = st_fills st @ fs
        \<and> (\<forall>f \<in> set fs. fl_instrument_id f = su_futures_id S) \<and> length fs \<le> (if stop then 0 else 1)
        \<and> st_processed st' = st_processed st @ [state]
        \<and> st_decisions st' = st_decisions st @ ds
        \<and> (\<forall>d \<in> set ds. hd_session_hedge_count d \<le> rp_maximum_hedges_per_session (su_risk S)
              \<and> hd_total_hedge_count d = rs_total_hedges (st_risk_state st'))
        \<and> map hd_executed_futures_quantity ds
            = (if stop then map (\<lambda>_. 0) ds else [net_quantity (su_futures_id S) fs])
        \<and> rs_total_hedges (st_risk_state st') = rs_total_hedges (st_risk_state st) + int (length fs)
        \<and> rs_hedges_in_current_session (st_risk_state st') \<le> rp_maximum_hedges_per_session (su_risk S)
        \<and> rs_current_session_date (st_risk_state st') = session_date_of state
        \<and> event_types st' = event_types st
            @ (if \<not> stop then [''decision_completed'']
               else if ds = [] then [''exit_required'']
               else [''decision_completed'', ''risk_control_failed'', ''exit_required''])
        \<and> length ds \<le> 1
        \<and> numbered S (st_events st') = numbered S (st_events st)
        \<and> (final \<longrightarrow> stop) \<and> (su_kill_switch S \<longrightarrow> stop \<and> ds = [] \<and> st_exit_reason st' = ''manual_kill_switch''))"

definition sound_setup :: "run_setup \<Rightarrow> bool" where
  "sound_setup S \<longleftrightarrow>
     xc_precedence (sc_exit (su_strategy S)) = exit_precedence
     \<and> 0 < rp_maximum_hedges_per_session (su_risk S)
     \<and> sound_costs (su_option_costs S) \<and> sound_costs (su_futures_costs S)"

definition within_budget :: "run_setup \<Rightarrow> run_state \<Rightarrow> bool" where
  "within_budget S st \<longleftrightarrow>
     rs_hedges_in_current_session (st_risk_state st) \<le> rp_maximum_hedges_per_session (su_risk S)"

lemma simulate_state_iteration:
  assumes run: "simulate_state S final state st = Inr (stop, st')"
    and S: "sound_setup S" and st: "within_budget S st"
  shows "iteration S final stop state st st'"
proof -
  from run obtain ob st1 reason where
    ob: "observe_state S state st = Inr (ob, st1)"
    and reason: "exit_reason_at_state (ob_state_risks ob) (su_strategy S) (su_market S) state final = Inr reason"
    by (auto simp: simulate_state_def result_simps)
  note o = observe_state_Inr [OF ob]
  note rules = state_risk_exit_rules [OF o(3)]
  obtain v where risk1: "st_risk_state st1 = mark_risk_state (st_risk_state st) v (session_date_of state)"
    using o(2) by blast
  have max: "0 < rp_maximum_hedges_per_session (su_risk S)" and prec: "xc_precedence (sc_exit (su_strategy S)) = exit_precedence"
    and costs: "sound_costs (su_futures_costs S)"
    using S by (simp_all add: sound_setup_def)
  have budget1: "rs_hedges_in_current_session (st_risk_state st1) \<le> rp_maximum_hedges_per_session (su_risk S)"
    using st max by (simp add: risk1 within_budget_def)
  have types1: "event_types st1 = event_types st" by (simp add: event_types_def o)
  have kill: "su_kill_switch S \<Longrightarrow> reason = Some ''manual_kill_switch''"
    using exit_reason_kill [of "ob_state_risks ob"] rules(1) reason by auto
  show ?thesis
  proof (cases reason)
    case (Some r)
    from run ob reason Some obtain st2 where
      st2: "require_exit S ob r st1 = Inr st2" "st' = st2" "stop"
      by (auto simp: simulate_state_def result_simps)
    from require_exit_Inr [OF st2(1)] obtain e where
      e: "st2 = st1\<lparr>st_exit_reason := r, st_events := st_events st1 @ [e]\<rparr>"
      "evt_sequence e = int (length (st_events st1)) + 1" "evt_event_type e = ''exit_required''"
      "evt_entity_id e = su_position_id S" by blast
    show ?thesis
      unfolding iteration_def
      using st2 e o risk1 budget1 kill Some types1
      by (intro exI [of _ "[]"] exI [of _ "[]"]) (auto simp: event_types_def numbered_snoc)
  next
    case None
    note none = exit_reason_None [OF reason [unfolded None] prec]
    have nokill: "\<not> su_kill_switch S" using kill None by auto
    have room: "rs_hedges_in_current_session (st_risk_state st1) < rp_maximum_hedges_per_session (su_risk S)"
      using none(2) rules(2) by simp
    from run ob reason None obtain control where control: "control_delta S ob = Inr control"
      by (auto simp: simulate_state_def result_simps)
    show ?thesis
    proof (cases control)
      case (Unhedgeable forced)
      with run ob reason None control have st2: "record_unhedgeable S ob forced st1 = Inr st'" "stop"
        by (auto simp: simulate_state_def result_simps)
      from record_unhedgeable_Inr [OF st2(1)] obtain d' where d':
        "st_ledger st' = st_ledger st1" "st_fills st' = st_fills st1"
        "st_decisions st' = st_decisions st1 @ [d']" "hd_executed_futures_quantity d' = 0"
        "hd_session_hedge_count d' = rs_hedges_in_current_session (st_risk_state st1)"
        "hd_total_hedge_count d' = rs_total_hedges (st_risk_state st1)"
        "st_risk_state st' = st_risk_state st1"
        "event_types st' = event_types st1 @ [''decision_completed'', ''risk_control_failed'', ''exit_required'']"
        "numbered S (st_events st') = numbered S (st_events st1)"
        "st_processed st' = st_processed st1" by blast
      show ?thesis
        unfolding iteration_def
        using st2 d' o risk1 budget1 nokill types1
        by (intro exI [of _ "[]"] exI [of _ "[d']"]) auto
    next
      case (Proceed d forced)
      with run ob reason None control have st2: "execute_decision S ob d forced st1 = Inr st'" "\<not> stop"
        by (auto simp: simulate_state_def result_simps)
      have "rs_current_session_date (st_risk_state st1) = session_date_of (ob_state ob)"
        by (simp add: risk1 o(4))
      from execute_decision_Inr [OF st2(1) costs this] obtain fs d' where d':
        "trades (st_ledger st1) fs (st_ledger st')" "st_fills st' = st_fills st1 @ fs"
        "\<forall>f \<in> set fs. fl_instrument_id f = su_futures_id S \<and> sound_fill f" "length fs \<le> 1"
        "net_quantity (su_futures_id S) fs = hd_rounded_requested_futures_quantity d"
        "st_decisions st' = st_decisions st1 @ [d']"
        "hd_executed_futures_quantity d' = hd_rounded_requested_futures_quantity d"
        "hd_session_hedge_count d' = rs_hedges_in_current_session (st_risk_state st1) + int (length fs)"
        "hd_total_hedge_count d' = rs_total_hedges (st_risk_state st1) + int (length fs)"
        "rs_hedges_in_current_session (st_risk_state st') = hd_session_hedge_count d'"
        "rs_total_hedges (st_risk_state st') = hd_total_hedge_count d'"
        "rs_current_session_date (st_risk_state st') = rs_current_session_date (st_risk_state st1)"
        "event_types st' = event_types st1 @ [''decision_completed'']"
        "numbered S (st_events st') = numbered S (st_events st1)"
        "st_processed st' = st_processed st1" by blast
      have "trades (st_ledger st) fs (st_ledger st')"
        using trades_trans [OF d'(1) o(1)] by simp
      then show ?thesis
        unfolding iteration_def
        using st2 d' o risk1 room nokill types1 none(5)
        by (intro exI [of _ fs] exI [of _ "[d']"]) auto
    qed
  qed
qed

section \<open>The loop\<close>

text \<open>
  \<open>progress\<close> is what the loop as a whole adds: futures fills only, one decision event for each
  decision, the hedge counter counting the fills, and every decision inside the hedge budget.
\<close>

definition progress :: "run_setup \<Rightarrow> run_state \<Rightarrow> run_state \<Rightarrow> bool" where
  "progress S st st' \<longleftrightarrow>
     (\<exists>fs ds.
        trades (st_ledger st) fs (st_ledger st') \<and> st_fills st' = st_fills st @ fs
        \<and> (\<forall>f \<in> set fs. fl_instrument_id f = su_futures_id S)
        \<and> st_decisions st' = st_decisions st @ ds
        \<and> (\<forall>d \<in> set ds. hd_session_hedge_count d \<le> rp_maximum_hedges_per_session (su_risk S))
        \<and> sum_list (map hd_executed_futures_quantity ds) = net_quantity (su_futures_id S) fs
        \<and> rs_total_hedges (st_risk_state st') = rs_total_hedges (st_risk_state st) + int (length fs)
        \<and> within_budget S st'
        \<and> numbered S (st_events st') = numbered S (st_events st)
        \<and> length (filter (\<lambda>t. t = ''decision_completed'') (event_types st'))
            = length (filter (\<lambda>t. t = ''decision_completed'') (event_types st)) + length ds)"

lemma iteration_progress:
  assumes "iteration S final stop state st st'"
  shows "progress S st st'"
proof -
  from assms obtain fs ds where i:
    "trades (st_ledger st) fs (st_ledger st')" "st_fills st' = st_fills st @ fs"
    "\<forall>f \<in> set fs. fl_instrument_id f = su_futures_id S" "length fs \<le> (if stop then 0 else 1)"
    "st_decisions st' = st_decisions st @ ds"
    "\<forall>d \<in> set ds. hd_session_hedge_count d \<le> rp_maximum_hedges_per_session (su_risk S)"
    "map hd_executed_futures_quantity ds
       = (if stop then map (\<lambda>_. 0) ds else [net_quantity (su_futures_id S) fs])"
    "rs_total_hedges (st_risk_state st') = rs_total_hedges (st_risk_state st) + int (length fs)"
    "rs_hedges_in_current_session (st_risk_state st') \<le> rp_maximum_hedges_per_session (su_risk S)"
    "event_types st' = event_types st
            @ (if \<not> stop then [''decision_completed'']
               else if ds = [] then [''exit_required'']
               else [''decision_completed'', ''risk_control_failed'', ''exit_required''])"
    "length ds \<le> 1" "numbered S (st_events st') = numbered S (st_events st)"
    unfolding iteration_def by blast
  have "length (map hd_executed_futures_quantity ds)
      = length (if stop then map (\<lambda>_. 0) ds else [net_quantity (su_futures_id S) fs])"
    unfolding i(7) ..
  then have len: "\<not> stop \<Longrightarrow> length ds = 1" by simp
  have "sum_list (map hd_executed_futures_quantity ds) = net_quantity (su_futures_id S) fs"
    unfolding i(7) using i(4) by (cases stop) (simp_all add: sum_list_triv)
  moreover have "stop \<Longrightarrow> ds \<noteq> [] \<Longrightarrow> length ds = 1" using i(11) by (cases ds) auto
  ultimately show ?thesis
    unfolding progress_def within_budget_def using i len
    by (intro exI [of _ fs] exI [of _ ds]) auto
qed

lemma progress_refl: "within_budget S st \<Longrightarrow> progress S st st"
  unfolding progress_def by (intro exI [of _ "[]"]) (auto simp: trades.none)

lemma progress_trans:
  assumes "progress S st1 st2" and "progress S st2 st3"
  shows "progress S st1 st3"
proof -
  from assms(1) obtain fs1 ds1 where a:
    "trades (st_ledger st1) fs1 (st_ledger st2)" "st_fills st2 = st_fills st1 @ fs1"
    "\<forall>f \<in> set fs1. fl_instrument_id f = su_futures_id S" "st_decisions st2 = st_decisions st1 @ ds1"
    "\<forall>d \<in> set ds1. hd_session_hedge_count d \<le> rp_maximum_hedges_per_session (su_risk S)"
    "sum_list (map hd_executed_futures_quantity ds1) = net_quantity (su_futures_id S) fs1"
    "rs_total_hedges (st_risk_state st2) = rs_total_hedges (st_risk_state st1) + int (length fs1)"
    "numbered S (st_events st2) = numbered S (st_events st1)"
    "length (filter (\<lambda>t. t = ''decision_completed'') (event_types st2))
       = length (filter (\<lambda>t. t = ''decision_completed'') (event_types st1)) + length ds1"
    unfolding progress_def by blast
  from assms(2) obtain fs2 ds2 where b:
    "trades (st_ledger st2) fs2 (st_ledger st3)" "st_fills st3 = st_fills st2 @ fs2"
    "\<forall>f \<in> set fs2. fl_instrument_id f = su_futures_id S" "st_decisions st3 = st_decisions st2 @ ds2"
    "\<forall>d \<in> set ds2. hd_session_hedge_count d \<le> rp_maximum_hedges_per_session (su_risk S)"
    "sum_list (map hd_executed_futures_quantity ds2) = net_quantity (su_futures_id S) fs2"
    "rs_total_hedges (st_risk_state st3) = rs_total_hedges (st_risk_state st2) + int (length fs2)"
    "within_budget S st3" "numbered S (st_events st3) = numbered S (st_events st2)"
    "length (filter (\<lambda>t. t = ''decision_completed'') (event_types st3))
       = length (filter (\<lambda>t. t = ''decision_completed'') (event_types st2)) + length ds2"
    unfolding progress_def by blast
  show ?thesis
    unfolding progress_def using a b trades_trans [OF b(1) a(1)]
    by (intro exI [of _ "fs1 @ fs2"] exI [of _ "ds1 @ ds2"]) auto
qed

lemma simulate_states_progress:
  assumes "simulate_states S states st = Inr st'" and "sound_setup S" and "within_budget S st"
  shows "progress S st st'"
  using assms
proof (induction states arbitrary: st)
  case Nil
  then show ?case by (simp add: progress_refl)
next
  case (Cons state states)
  from Cons.prems(1) obtain stop st1 where
    step: "simulate_state S (states = []) state st = Inr (stop, st1)"
    and rest: "if stop then st' = st1 else simulate_states S states st1 = Inr st'"
    by (auto simp: result_simps split: if_splits)
  have p: "progress S st st1"
    by (rule iteration_progress [OF simulate_state_iteration [OF step Cons.prems(2,3)]])
  then have "within_budget S st1" by (auto simp: progress_def)
  with rest p Cons.IH [of st1] Cons.prems(2) show ?case
    by (auto intro: progress_trans split: if_splits)
qed

text \<open>
  How the loop ends: after some hedging decisions it requires an exit, once, in its last event,
  unless it runs out of states, which only happens when the last state does not require one.
\<close>

definition exit_tail :: "string list \<Rightarrow> bool" where
  "exit_tail t \<longleftrightarrow> t = [''exit_required''] \<or> t = [''decision_completed'', ''risk_control_failed'', ''exit_required'']"

lemma simulate_states_log:
  assumes "simulate_states S states st = Inr st'" and "sound_setup S" and "within_budget S st"
    and "states \<noteq> []"
  shows "\<exists>k tail. k < length states \<and> exit_tail tail
     \<and> event_types st' = event_types st @ replicate k ''decision_completed'' @ tail
     \<and> st_processed st' = st_processed st @ take (Suc k) states
     \<and> (su_kill_switch S \<longrightarrow> k = 0 \<and> st_fills st' = st_fills st \<and> st_decisions st' = st_decisions st
          \<and> st_exit_reason st' = ''manual_kill_switch'')"
  using assms
proof (induction states arbitrary: st)
  case Nil
  then show ?case by simp
next
  case (Cons state states)
  from Cons.prems(1) obtain stop st1 where
    step: "simulate_state S (states = []) state st = Inr (stop, st1)"
    and rest: "if stop then st' = st1 else simulate_states S states st1 = Inr st'"
    by (auto simp: result_simps split: if_splits)
  note i = simulate_state_iteration [OF step Cons.prems(2,3)]
  from i obtain fs ds where it: "st_fills st1 = st_fills st @ fs" "length fs \<le> (if stop then 0 else 1)"
    "st_processed st1 = st_processed st @ [state]" "st_decisions st1 = st_decisions st @ ds"
    "event_types st1 = event_types st
            @ (if \<not> stop then [''decision_completed'']
               else if ds = [] then [''exit_required'']
               else [''decision_completed'', ''risk_control_failed'', ''exit_required''])"
    "states = [] \<longrightarrow> stop"
    "su_kill_switch S \<longrightarrow> stop \<and> ds = [] \<and> st_exit_reason st1 = ''manual_kill_switch''"
    unfolding iteration_def by blast
  show ?case
  proof (cases stop)
    case True
    with it have "fs = []" by simp
    with True rest it show ?thesis
      by (cases "ds = []")
        (intro exI [of _ 0] exI [of _ "[''exit_required'']"],
         simp add: exit_tail_def,
         intro exI [of _ 0] exI [of _ "[''decision_completed'', ''risk_control_failed'', ''exit_required'']"],
         simp add: exit_tail_def)
  next
    case False
    have "within_budget S st1" using iteration_progress [OF i] by (auto simp: progress_def)
    moreover have "states \<noteq> []" using it False by auto
    ultimately obtain k tail where IH: "k < length states" "exit_tail tail"
      "event_types st' = event_types st1 @ replicate k ''decision_completed'' @ tail"
      "st_processed st' = st_processed st1 @ take (Suc k) states"
      using Cons.IH [of st1] rest False Cons.prems(2) by auto
    then show ?thesis using it False
      by (intro exI [of _ "Suc k"] exI [of _ tail]) auto
  qed
qed

section \<open>Opening\<close>

lemma entry_intent_Inr:
  assumes "entry_intent S initial c = Inr i"
  shows "valid_intent i" and "in_instrument_id i = oc_contract_id c" and "in_side i = ''buy''"
    and "in_quantity i = su_units S"
  using assms by (auto simp: entry_intent_def dest: make_order_intent_Inr)

definition opened :: "run_setup \<Rightarrow> market_state \<Rightarrow> portfolio_ledger \<Rightarrow> simulated_fill list \<Rightarrow> run_state \<Rightarrow> bool" where
  "opened S initial l0 fs st \<longleftrightarrow>
     (\<exists>nav. make_ledger nav (ms_timestamp initial) (su_position_id S) = Inr l0)
     \<and> trades l0 fs (st_ledger st) \<and> st_fills st = fs
     \<and> map fl_instrument_id fs = map oc_contract_id (su_contracts S)
     \<and> map signed_quantity fs = [su_units S, su_units S] \<and> 0 < su_units S
     \<and> st_events st = [] \<and> st_decisions st = [] \<and> st_processed st = []
     \<and> rs_total_hedges (st_risk_state st) = 0 \<and> rs_hedges_in_current_session (st_risk_state st) = 0"

lemma record_entry_Inr:
  assumes "record_entry S (i, f) st = Inr st'" and "sound_fill f"
  shows "trades (st_ledger st) [f] (st_ledger st')" and "st_fills st' = st_fills st @ [f]"
    and "st_events st' = st_events st" and "st_decisions st' = st_decisions st" and "st_processed st' = st_processed st"
  using assms by (auto simp: record_entry_def result_simps trades_fill1)

lemma open_position_Inr:
  assumes "open_position S initial = Inr st" and "sound_costs (su_option_costs S)"
  shows "\<exists>l0 fs. opened S initial l0 fs st"
proof -
  from assms(1) obtain nav l0 entry_values intents fills entry_risks st1 v where
    l0: "make_ledger nav (ms_timestamp initial) (su_position_id S) = Inr l0"
    and vals: "value_pair (ev_libm (su_env S)) (sp_call (su_selected S)) (sp_put (su_selected S)) initial
              (su_units S) = Inr entry_values"
    and intents: "rmap (entry_intent S initial) (su_contracts S) = Inr intents"
    and fills: "rmap (\<lambda>(intent, valuation).
                    simulate_fill intent (FloatPrice (val_unit_price valuation)) (su_option_costs S) None)
              (zip intents entry_values) = Inr fills"
    and run: "rfold (record_entry S) (zip intents fills)
              \<lparr>st_ledger = l0, st_valuations = [], st_decisions = [], st_risk_records = entry_risks,
               st_intents = [], st_fills = [], st_events = [],
               st_risk_state = initialize_risk_state 0 0 0, st_exit_reason = ''simulation_end'',
               st_processed = []\<rparr> = Inr st1"
    and st: "st = st1\<lparr>st_risk_state := initialize_risk_state (pl_starting_nav (st_ledger st1)) v
                                (session_date_of initial)\<rparr>"
    unfolding open_position_def by (auto simp: result_simps split: option.splits)
  from intents obtain i1 i2 where i: "intents = [i1, i2]"
    "entry_intent S initial (sp_call (su_selected S)) = Inr i1" "entry_intent S initial (sp_put (su_selected S)) = Inr i2"
    by (auto simp: su_contracts_def result_simps)
  from vals obtain v1 v2 where v: "entry_values = [v1, v2]" by (auto simp: value_pair_def result_simps)
  from fills i v obtain f1 f2 where f: "fills = [f1, f2]"
    "simulate_fill i1 (FloatPrice (val_unit_price v1)) (su_option_costs S) None = Inr f1"
    "simulate_fill i2 (FloatPrice (val_unit_price v2)) (su_option_costs S) None = Inr f2"
    by (auto simp: result_simps)
  note i1 = entry_intent_Inr [OF i(2)] and i2 = entry_intent_Inr [OF i(3)]
  have sound: "sound_fill f1" "sound_fill f2"
    using simulate_fill_sound f(2,3) i1(1) i2(1) assms(2) by blast+
  let ?st0 = "\<lparr>st_ledger = l0, st_valuations = [], st_decisions = [], st_risk_records = entry_risks,
               st_intents = [], st_fills = [], st_events = [],
               st_risk_state = initialize_risk_state 0 0 0, st_exit_reason = ''simulation_end'',
               st_processed = []\<rparr>"
  from run i f obtain sta where sta: "record_entry S (i1, f1) ?st0 = Inr sta" "record_entry S (i2, f2) sta = Inr st1"
    by (auto simp: result_simps)
  note a = record_entry_Inr [OF sta(1) sound(1)] and b = record_entry_Inr [OF sta(2) sound(2)]
  have "trades l0 [f1, f2] (st_ledger st1)" using trades_trans [OF b(1) a(1)] by simp
  moreover have "st_fills st1 = [f1, f2]" "st_events st1 = []" "st_decisions st1 = []" "st_processed st1 = []"
    using a(2-) b(2-) by simp_all
  moreover have "0 < su_units S" using i1(1,4) by (simp add: valid_intent_def)
  ultimately show ?thesis
    using l0 simulate_fill_Inr(1,2,3) [OF f(2)] simulate_fill_Inr(1,2,3) [OF f(3)] i1 i2
    by (intro exI [of _ l0] exI [of _ "[f1, f2]"])
      (auto simp: opened_def st su_contracts_def signed_quantity_def initialize_risk_state_def)
qed

section \<open>Closing\<close>

lemma fill_side_negative: "sound_fill f \<Longrightarrow> signed_quantity f = 0 \<Longrightarrow> False"
  by (auto simp: sound_fill_def signed_quantity_def split: if_splits)

lemma close_option_Inr:
  assumes "close_option S final (c, v) st = Inr st'" and "sound_costs (su_option_costs S)"
    and "0 \<le> holding (st_ledger st) (oc_contract_id c)"
  shows "\<exists>fs. trades (st_ledger st) fs (st_ledger st') \<and> st_fills st' = st_fills st @ fs
     \<and> (\<forall>f \<in> set fs. fl_instrument_id f = oc_contract_id c) \<and> holding (st_ledger st') (oc_contract_id c) = 0
     \<and> st_events st' = st_events st \<and> st_decisions st' = st_decisions st
     \<and> st_risk_state st' = st_risk_state st \<and> st_exit_reason st' = st_exit_reason st
     \<and> st_processed st' = st_processed st"
proof -
  from assms(1) obtain p where p: "map_of (pl_positions (st_ledger st)) (oc_contract_id c) = Some p"
    by (auto simp: close_option_def result_simps)
  show ?thesis
  proof (cases "ip_quantity p = 0")
    case True
    with assms(1) p have "st' = st" by (simp add: close_option_def)
    with True p show ?thesis by (intro exI [of _ "[]"]) (simp add: trades.none holding_def)
  next
    case False
    with assms(1) p obtain i where
      i: "make_order_intent (su_run_id S @ ''-exit-'' @ oc_option_type c) (ms_timestamp final) (oc_contract_id c)
            ''sell'' \<bar>ip_quantity p\<bar> (oc_multiplier c) (st_exit_reason st) (su_position_id S) (su_policy_id S) = Inr i"
      and st': "fill_and_record S i (FloatPrice (val_unit_price v)) (su_option_costs S) ''option_exit'' st = Inr st'"
      by (auto simp: close_option_def result_simps)
    note i' = make_order_intent_Inr [OF i]
    from fill_and_record_Inr [OF st' i'(1) assms(2)] obtain f where f:
      "trades (st_ledger st) [f] (st_ledger st')" "fl_instrument_id f = in_instrument_id i"
      "st' = st\<lparr>st_ledger := st_ledger st', st_intents := st_intents st @ [i], st_fills := st_fills st @ [f]\<rparr>"
      "signed_quantity f = (if in_side i = ''buy'' then in_quantity i else - in_quantity i)" by blast
    have "holding (st_ledger st) (oc_contract_id c) = ip_quantity p" using p by (simp add: holding_def)
    then have "holding (st_ledger st') (oc_contract_id c) = 0"
      using trades_holding [OF f(1), of "oc_contract_id c"] f(2,4) i' assms(3) by simp
    moreover have "st_fills st' = st_fills st @ [f]" "st_events st' = st_events st" "st_decisions st' = st_decisions st"
      "st_risk_state st' = st_risk_state st" "st_exit_reason st' = st_exit_reason st" "st_processed st' = st_processed st"
      by (subst f(3), simp)+
    ultimately show ?thesis using f(1,2) i' by (intro exI [of _ "[f]"]) simp
  qed
qed

lemma close_futures_Inr:
  assumes "close_futures S final st = Inr st'" and "sound_costs (su_futures_costs S)"
  shows "\<exists>fs. trades (st_ledger st) fs (st_ledger st') \<and> st_fills st' = st_fills st @ fs
     \<and> (\<forall>f \<in> set fs. fl_instrument_id f = su_futures_id S) \<and> length fs \<le> 1
     \<and> holding (st_ledger st') (su_futures_id S) = 0
     \<and> st_events st' = st_events st \<and> st_decisions st' = st_decisions st
     \<and> st_risk_state st' = st_risk_state st \<and> st_exit_reason st' = st_exit_reason st
     \<and> st_processed st' = st_processed st"
proof (cases "holding (st_ledger st) (su_futures_id S) = 0")
  case True
  with assms(1) have "st' = st"
    by (auto simp: close_futures_def holding_def split: option.splits)
  with True show ?thesis by (intro exI [of _ "[]"]) (simp add: trades.none)
next
  case False
  then obtain p where p: "map_of (pl_positions (st_ledger st)) (su_futures_id S) = Some p"
    "ip_quantity p \<noteq> 0" "holding (st_ledger st) (su_futures_id S) = ip_quantity p"
    by (auto simp: holding_def split: option.splits)
  with assms(1) obtain i where
    i: "make_order_intent (su_run_id S @ ''-futures-close'') (ms_timestamp final) (su_futures_id S)
          (if 0 < ip_quantity p then ''sell'' else ''buy'') \<bar>ip_quantity p\<bar> (ip_multiplier p) (st_exit_reason st)
          (su_position_id S) (su_policy_id S) = Inr i"
    and st': "fill_and_record S i (FloatPrice (ms_futures_price final)) (su_futures_costs S) ''futures_close'' st = Inr st'"
    by (auto simp: close_futures_def result_simps)
  note i' = make_order_intent_Inr [OF i]
  from fill_and_record_Inr [OF st' i'(1) assms(2)] obtain f where f:
    "trades (st_ledger st) [f] (st_ledger st')" "fl_instrument_id f = in_instrument_id i"
    "st' = st\<lparr>st_ledger := st_ledger st', st_intents := st_intents st @ [i], st_fills := st_fills st @ [f]\<rparr>"
    "signed_quantity f = (if in_side i = ''buy'' then in_quantity i else - in_quantity i)" by blast
  have "holding (st_ledger st') (su_futures_id S) = 0"
    using trades_holding [OF f(1), of "su_futures_id S"] f(2,4) i' p(2,3) by (simp split: if_splits)
  moreover have "st_fills st' = st_fills st @ [f]" "st_events st' = st_events st" "st_decisions st' = st_decisions st"
    "st_risk_state st' = st_risk_state st" "st_exit_reason st' = st_exit_reason st" "st_processed st' = st_processed st"
    by (subst f(3), simp)+
  ultimately show ?thesis using f(1,2) i' by (intro exI [of _ "[f]"]) simp
qed

lemma net_quantity_other: "\<forall>f \<in> set fs. fl_instrument_id f \<noteq> i \<Longrightarrow> net_quantity i fs = 0"
  by (induction fs) auto

lemma close_position_Inr:
  assumes "close_position S st = Inr st'" and S: "sound_setup S"
    and nonneg: "\<forall>c \<in> set (su_contracts S). 0 \<le> holding (st_ledger st) (oc_contract_id c)"
    and sep: "su_futures_id S \<notin> oc_contract_id ` set (su_contracts S)"
  shows "\<exists>fs. trades (st_ledger st) fs (st_ledger st') \<and> st_fills st' = st_fills st @ fs
     \<and> (\<forall>f \<in> set fs. covered (map oc_contract_id (su_contracts S)) (su_futures_id S) f)
     \<and> holding (st_ledger st') (su_futures_id S) = 0
     \<and> (\<forall>c \<in> set (su_contracts S). holding (st_ledger st') (oc_contract_id c) = 0)
     \<and> st_events st' = st_events st \<and> st_decisions st' = st_decisions st
     \<and> st_risk_state st' = st_risk_state st \<and> st_exit_reason st' = st_exit_reason st
     \<and> st_processed st' = st_processed st"
proof -
  let ?call = "sp_call (su_selected S)" and ?put = "sp_put (su_selected S)"
  let ?final = "last (st_processed st)"
  have costs: "sound_costs (su_option_costs S)" "sound_costs (su_futures_costs S)"
    using S by (simp_all add: sound_setup_def)
  from assms(1) obtain vals st3 where
    "value_pair (ev_libm (su_env S)) ?call ?put ?final (su_units S) = Inr vals"
    and run: "rfold (close_option S ?final) (zip (su_contracts S) vals) st = Inr st3"
    and cf: "close_futures S ?final st3 = Inr st'"
    by (auto simp: close_position_def Let_def result_simps)
  then obtain v1 v2 where v: "vals = [v1, v2]" by (auto simp: value_pair_def result_simps)
  with run obtain st2 where c1: "close_option S ?final (?call, v1) st = Inr st2"
    and c2: "close_option S ?final (?put, v2) st2 = Inr st3"
    by (auto simp: su_contracts_def result_simps)
  from close_option_Inr [OF c1 costs(1)] nonneg obtain fs1 where a:
    "trades (st_ledger st) fs1 (st_ledger st2)" "st_fills st2 = st_fills st @ fs1"
    "\<forall>f \<in> set fs1. fl_instrument_id f = oc_contract_id ?call" "holding (st_ledger st2) (oc_contract_id ?call) = 0"
    "st_events st2 = st_events st" "st_decisions st2 = st_decisions st" "st_risk_state st2 = st_risk_state st"
    "st_exit_reason st2 = st_exit_reason st" "st_processed st2 = st_processed st"
    by (auto simp: su_contracts_def)
  have put: "0 \<le> holding (st_ledger st2) (oc_contract_id ?put)"
  proof (cases "oc_contract_id ?put = oc_contract_id ?call")
    case False
    then have "net_quantity (oc_contract_id ?put) fs1 = 0" using a(3) by (intro net_quantity_other) auto
    then show ?thesis using trades_holding [OF a(1), of "oc_contract_id ?put"] nonneg by (simp add: su_contracts_def)
  qed (simp add: a(4))
  from close_option_Inr [OF c2 costs(1) put] obtain fs2 where b:
    "trades (st_ledger st2) fs2 (st_ledger st3)" "st_fills st3 = st_fills st2 @ fs2"
    "\<forall>f \<in> set fs2. fl_instrument_id f = oc_contract_id ?put" "holding (st_ledger st3) (oc_contract_id ?put) = 0"
    "st_events st3 = st_events st2" "st_decisions st3 = st_decisions st2" "st_risk_state st3 = st_risk_state st2"
    "st_exit_reason st3 = st_exit_reason st2" "st_processed st3 = st_processed st2"
    by blast
  have call: "holding (st_ledger st3) (oc_contract_id ?call) = 0"
  proof (cases "oc_contract_id ?put = oc_contract_id ?call")
    case False
    then have "net_quantity (oc_contract_id ?call) fs2 = 0" using b(3) by (intro net_quantity_other) auto
    then show ?thesis using trades_holding [OF b(1), of "oc_contract_id ?call"] a(4) by simp
  next
    case True
    then show ?thesis using b(4) by simp
  qed
  from close_futures_Inr [OF cf costs(2)] obtain fs3 where c:
    "trades (st_ledger st3) fs3 (st_ledger st')" "st_fills st' = st_fills st3 @ fs3"
    "\<forall>f \<in> set fs3. fl_instrument_id f = su_futures_id S" "holding (st_ledger st') (su_futures_id S) = 0"
    "st_events st' = st_events st3" "st_decisions st' = st_decisions st3" "st_risk_state st' = st_risk_state st3"
    "st_exit_reason st' = st_exit_reason st3" "st_processed st' = st_processed st3"
    by blast
  have other: "net_quantity (oc_contract_id x) fs3 = 0" if "x \<in> set (su_contracts S)" for x
    using c(3) sep that by (intro net_quantity_other) auto
  have flat: "\<forall>x \<in> set (su_contracts S). holding (st_ledger st') (oc_contract_id x) = 0"
  proof
    fix x assume x: "x \<in> set (su_contracts S)"
    then have "holding (st_ledger st3) (oc_contract_id x) = 0"
      using call b(4) by (auto simp: su_contracts_def)
    then show "holding (st_ledger st') (oc_contract_id x) = 0"
      using trades_holding [OF c(1), of "oc_contract_id x"] other [OF x] by simp
  qed
  have "trades (st_ledger st) (fs1 @ fs2 @ fs3) (st_ledger st')"
    using trades_trans [OF c(1) trades_trans [OF b(1) a(1)]] by simp
  with a b c flat show ?thesis
    by (intro exI [of _ "fs1 @ fs2 @ fs3"]) (auto simp: covered_def su_contracts_def)
qed

section \<open>A whole run\<close>

text \<open>
  \<open>closed_run\<close> collects what \<open>run_position\<close> leaves behind: the entry fills \<open>es\<close>, the hedge fills
  \<open>hs\<close> and the closing fills \<open>cs\<close> on a ledger that started as \<open>l0\<close>.
\<close>

definition closed_run ::
  "run_setup \<Rightarrow> market_state list \<Rightarrow> portfolio_ledger \<Rightarrow> simulated_fill list \<Rightarrow> simulated_fill list
   \<Rightarrow> simulated_fill list \<Rightarrow> nat \<Rightarrow> string list \<Rightarrow> run_state \<Rightarrow> bool" where
  "closed_run S states l0 es hs cs k tail st \<longleftrightarrow>
     (\<exists>nav t. make_ledger nav t (su_position_id S) = Inr l0)
     \<and> trades l0 (es @ hs @ cs) (st_ledger st) \<and> st_fills st = es @ hs @ cs
     \<and> map fl_instrument_id es = map oc_contract_id (su_contracts S)
     \<and> map signed_quantity es = [su_units S, su_units S]
     \<and> (\<forall>f \<in> set hs. fl_instrument_id f = su_futures_id S)
     \<and> (\<forall>f \<in> set cs. covered (map oc_contract_id (su_contracts S)) (su_futures_id S) f)
     \<and> (\<forall>i. holding (st_ledger st) i = 0)
     \<and> rs_total_hedges (st_risk_state st) = int (length hs)
     \<and> (\<forall>d \<in> set (st_decisions st). hd_session_hedge_count d \<le> rp_maximum_hedges_per_session (su_risk S))
     \<and> sum_list (map hd_executed_futures_quantity (st_decisions st)) = net_quantity (su_futures_id S) hs
     \<and> k < length states \<and> exit_tail tail \<and> event_types st = replicate k ''decision_completed'' @ tail
     \<and> st_processed st = take (Suc k) states
     \<and> length (filter (\<lambda>t. t = ''decision_completed'') (event_types st)) = length (st_decisions st)
     \<and> numbered S (st_events st)
     \<and> (su_kill_switch S \<longrightarrow> hs = [] \<and> st_decisions st = [] \<and> k = 0
          \<and> st_exit_reason st = ''manual_kill_switch'')"

lemma run_position_closed:
  assumes "run_position S states = Inr st" and S: "sound_setup S"
    and sep: "su_futures_id S \<notin> oc_contract_id ` set (su_contracts S)"
  shows "\<exists>l0 es hs cs k tail. closed_run S states l0 es hs cs k tail st"
proof -
  from assms(1) obtain initial rest st1 st2 where
    states: "states = initial # rest" and op: "open_position S initial = Inr st1"
    and loop: "simulate_states S states st1 = Inr st2" and close: "close_position S st2 = Inr st"
    by (auto simp: run_position_def result_simps split: list.splits)
  have costs: "sound_costs (su_option_costs S)" using S by (simp add: sound_setup_def)
  obtain l0 es where "opened S initial l0 es st1" using open_position_Inr [OF op costs] by blast
  then have o: "\<exists>nav. make_ledger nav (ms_timestamp initial) (su_position_id S) = Inr l0"
    "trades l0 es (st_ledger st1)" "st_fills st1 = es"
    "map fl_instrument_id es = map oc_contract_id (su_contracts S)"
    "map signed_quantity es = [su_units S, su_units S]" "0 < su_units S"
    "st_events st1 = []" "st_decisions st1 = []" "st_processed st1 = []"
    "rs_total_hedges (st_risk_state st1) = 0" "rs_hedges_in_current_session (st_risk_state st1) = 0"
    unfolding opened_def by blast+
  have budget: "within_budget S st1" using S o(11) by (simp add: within_budget_def sound_setup_def)
  from simulate_states_progress [OF loop S budget] obtain hs ds where p:
    "trades (st_ledger st1) hs (st_ledger st2)" "st_fills st2 = st_fills st1 @ hs"
    "\<forall>f \<in> set hs. fl_instrument_id f = su_futures_id S" "st_decisions st2 = st_decisions st1 @ ds"
    "\<forall>d \<in> set ds. hd_session_hedge_count d \<le> rp_maximum_hedges_per_session (su_risk S)"
    "sum_list (map hd_executed_futures_quantity ds) = net_quantity (su_futures_id S) hs"
    "rs_total_hedges (st_risk_state st2) = rs_total_hedges (st_risk_state st1) + int (length hs)"
    "numbered S (st_events st2) = numbered S (st_events st1)"
    "length (filter (\<lambda>t. t = ''decision_completed'') (event_types st2))
       = length (filter (\<lambda>t. t = ''decision_completed'') (event_types st1)) + length ds"
    unfolding progress_def by blast
  from simulate_states_log [OF loop S budget] states obtain k tail where log:
    "k < length states" "exit_tail tail"
    "event_types st2 = event_types st1 @ replicate k ''decision_completed'' @ tail"
    "st_processed st2 = st_processed st1 @ take (Suc k) states"
    "su_kill_switch S \<longrightarrow> k = 0 \<and> st_fills st2 = st_fills st1 \<and> st_decisions st2 = st_decisions st1
          \<and> st_exit_reason st2 = ''manual_kill_switch''"
    by auto
  have open_trades: "trades l0 (es @ hs) (st_ledger st2)" by (rule trades_trans [OF p(1) o(2)])
  have l0: "holding l0 i = 0" for i using o(1) make_ledger_books(3) by (fastforce simp: holding_def)
  obtain e1 e2 where es: "es = [e1, e2]" using o(5) by (cases es; cases "tl es") auto
  have nonneg: "\<forall>c \<in> set (su_contracts S). 0 \<le> holding (st_ledger st2) (oc_contract_id c)"
  proof
    fix c assume c: "c \<in> set (su_contracts S)"
    have "net_quantity (oc_contract_id c) hs = 0"
      using p(3) sep c by (intro net_quantity_other) auto
    then show "0 \<le> holding (st_ledger st2) (oc_contract_id c)"
      using trades_holding [OF open_trades, of "oc_contract_id c"] l0 o(5,6) es by simp
  qed
  from close_position_Inr [OF close S nonneg sep] obtain cs where c:
    "trades (st_ledger st2) cs (st_ledger st)" "st_fills st = st_fills st2 @ cs"
    "\<forall>f \<in> set cs. covered (map oc_contract_id (su_contracts S)) (su_futures_id S) f"
    "holding (st_ledger st) (su_futures_id S) = 0"
    "\<forall>c \<in> set (su_contracts S). holding (st_ledger st) (oc_contract_id c) = 0"
    "st_events st = st_events st2" "st_decisions st = st_decisions st2"
    "st_risk_state st = st_risk_state st2" "st_exit_reason st = st_exit_reason st2"
    "st_processed st = st_processed st2"
    by blast
  have all: "trades l0 (es @ hs @ cs) (st_ledger st)" using trades_trans [OF c(1) open_trades] by simp
  have flat: "holding (st_ledger st) i = 0" for i
  proof (cases "i = su_futures_id S \<or> i \<in> oc_contract_id ` set (su_contracts S)")
    case False
    have "\<forall>f \<in> set (es @ hs @ cs). fl_instrument_id f \<noteq> i"
      using False c(3) p(3) o(4) es by (auto simp: covered_def su_contracts_def)
    then have "net_quantity i (es @ hs @ cs) = 0" by (rule net_quantity_other)
    then show ?thesis using trades_holding [OF all, of i] l0 by simp
  qed (use c(4,5) in auto)
  have types: "event_types st = event_types st2" "event_types st1 = []" "numbered S (st_events st1)"
    using c(6) o(7) by (simp_all add: event_types_def numbered_def)
  have "closed_run S states l0 es hs cs k tail st"
    unfolding closed_run_def
    by (intro conjI; (use o(1) in blast | (use o(3-11) c p log all flat types in simp)))
  then show ?thesis by blast
qed

end
