(* ===== verification/Simulation.thy ===== *)
theory Simulation
  imports Run
begin

text \<open>
  The properties of \<open>run_simulation\<close> as a whole: every position it opens is closed, its accounts
  reconcile to the last paisa, its event log is complete and ends with the exit, and its hedging
  stays inside the budget and behind the kill switch. This theory carries the invariants of \<open>Run\<close>
  over to \<open>run_simulation\<close>; the properties are stated in \<open>RunProperties\<close>.
\<close>

section \<open>From the result back to the run\<close>

lemma run_simulation_Inr:
  assumes "run_simulation E strategy market path policy_id option_costs futures_costs kill tol = Inr r"
  shows "\<exists>S run_config h1 h2 h3 h4 states st.
     su_strategy S = strategy \<and> su_market S = market \<and> su_option_costs S = option_costs
     \<and> su_futures_costs S = futures_costs \<and> su_kill_switch S = kill \<and> su_env S = E
     \<and> su_position_id S = ''position-'' @ sr_run_id r
     \<and> run_position S states = Inr st
     \<and> finish_run S run_config h1 h2 h3 h4 states tol st = Inr r
     \<and> 0 < tol"
proof -
  from assms obtain policy h1 h2 run_config run_id expiry selected states h4 st where
    cfg: "build_simulation_run_config E strategy market path policy_id option_costs futures_costs kill tol = Inr run_config"
    and run: "run_position \<lparr>su_env = E, su_strategy = strategy, su_market = market, su_policy = policy,
              su_policy_id = policy_id, su_option_costs = option_costs,
              su_futures_costs = futures_costs, su_kill_switch = kill,
              su_run_id = run_id, su_position_id = ''position-'' @ run_id, su_selected = selected\<rparr> states = Inr st"
    and fin: "finish_run \<lparr>su_env = E, su_strategy = strategy, su_market = market, su_policy = policy,
              su_policy_id = policy_id, su_option_costs = option_costs,
              su_futures_costs = futures_costs, su_kill_switch = kill,
              su_run_id = run_id, su_position_id = ''position-'' @ run_id, su_selected = selected\<rparr>
              run_config h1 h2 (gp_path_hash path) h4 states tol st = Inr r"
    by (auto simp: run_simulation_def Let_def result_simps)
  have "0 < tol" using cfg by (auto simp: build_simulation_run_config_def validate_run_config_def result_simps)
  moreover have "sr_run_id r = run_id" using fin by (auto simp: finish_run_def Let_def result_simps)
  ultimately show ?thesis
    by (intro exI [of _ "\<lparr>su_env = E, su_strategy = strategy, su_market = market, su_policy = policy,
              su_policy_id = policy_id, su_option_costs = option_costs,
              su_futures_costs = futures_costs, su_kill_switch = kill,
              su_run_id = run_id, su_position_id = ''position-'' @ run_id, su_selected = selected\<rparr>"]
            exI [of _ run_config] exI [of _ h1] exI [of _ h2] exI [of _ "gp_path_hash path"] exI [of _ h4]
            exI [of _ states] exI [of _ st]) (use run fin in simp)
qed

lemma finish_run_fields:
  assumes "finish_run S cfg h1 h2 h3 h4 states tol st = Inr r"
  shows "sr_call_contract r = sp_call (su_selected S)" and "sr_put_contract r = sp_put (su_selected S)"
    and "sr_futures_instrument_id r = su_futures_id S" and "sr_fills r = st_fills st"
    and "sr_events r = st_events st" and "sr_hedge_decisions r = st_decisions st"
    and "sr_hedge_count r = rs_total_hedges (st_risk_state st)" and "sr_market_states r = states"
    and "sr_starting_nav r = pl_starting_nav (st_ledger st)" and "sr_run_id r = su_run_id S"
    and "portfolio_value (st_ledger st) = Inr (sr_terminal_portfolio_value r)"
    and "reconcile (sr_terminal_portfolio_value r - sr_starting_nav r) (map snd (pl_positions (st_ledger st)))
           (sr_fills r) (map oc_contract_id (su_contracts S)) (su_futures_id S) tol = Inr (sr_reconciliation r)"
    and "sr_status r = (if rn_reconciled (sr_reconciliation r) then ''complete'' else ''failed'')"
    and "sr_exit_reason r = (if rn_reconciled (sr_reconciliation r) then st_exit_reason st else ''reconciliation_failure'')"
    and "sr_ledger_entries r = pl_entries (st_ledger st)"
  using assms by (auto simp: finish_run_def Let_def result_simps su_contracts_def)

text \<open>The premises a run is judged under: a validated strategy and non-negative costs.\<close>

definition sound_run :: "strategy_contract \<Rightarrow> execution_cost_parameters \<Rightarrow> execution_cost_parameters \<Rightarrow> bool" where
  "sound_run strategy option_costs futures_costs \<longleftrightarrow>
     sound_strategy strategy \<and> sound_costs option_costs \<and> sound_costs futures_costs"

definition option_ids :: "simulation_result \<Rightarrow> string list" where
  "option_ids r = [oc_contract_id (sr_call_contract r), oc_contract_id (sr_put_contract r)]"

lemma simulation_closed:
  assumes "run_simulation E strategy market path policy_id option_costs futures_costs kill tol = Inr r"
    and "sound_run strategy option_costs futures_costs"
    and "sr_futures_instrument_id r \<notin> set (option_ids r)"
  shows "\<exists>S l0 es hs cs k tail st cfg h1 h2 h3 h4.
     closed_run S (sr_market_states r) l0 es hs cs k tail st
     \<and> finish_run S cfg h1 h2 h3 h4 (sr_market_states r) tol st = Inr r \<and> 0 < tol
     \<and> su_strategy S = strategy \<and> su_kill_switch S = kill \<and> su_position_id S = ''position-'' @ sr_run_id r"
proof -
  from run_simulation_Inr [OF assms(1)] obtain S cfg h1 h2 h3 h4 states st where
    S: "su_strategy S = strategy" "su_option_costs S = option_costs" "su_futures_costs S = futures_costs"
    "su_kill_switch S = kill" "su_position_id S = ''position-'' @ sr_run_id r"
    and run: "run_position S states = Inr st" and fin: "finish_run S cfg h1 h2 h3 h4 states tol st = Inr r"
    and tol: "0 < tol"
    by blast
  have sound: "sound_setup S"
    using assms(2) S by (simp add: sound_setup_def sound_run_def sound_strategy_def su_risk_def)
  have "su_futures_id S \<notin> oc_contract_id ` set (su_contracts S)"
    using assms(3) finish_run_fields(1,2,3) [OF fin] by (simp add: option_ids_def su_contracts_def)
  from run_position_closed [OF run sound this] S fin tol finish_run_fields(8) [OF fin] show ?thesis
    by metis
qed

section \<open>Accounts\<close>

lemma closed_run_fills:
  assumes "closed_run S states l0 es hs cs k tail st"
  shows "\<forall>f \<in> set (st_fills st). sound_fill f \<and> covered (map oc_contract_id (su_contracts S)) (su_futures_id S) f"
    and "net_quantity i (st_fills st) = 0"
proof -
  from assms have tr: "trades l0 (es @ hs @ cs) (st_ledger st)" and fills: "st_fills st = es @ hs @ cs"
    and ids: "map fl_instrument_id es = map oc_contract_id (su_contracts S)"
    and hs: "\<forall>f \<in> set hs. fl_instrument_id f = su_futures_id S"
    and cs: "\<forall>f \<in> set cs. covered (map oc_contract_id (su_contracts S)) (su_futures_id S) f"
    and flat: "holding (st_ledger st) i = 0" and l0: "\<exists>nav t. make_ledger nav t (su_position_id S) = Inr l0"
    by (simp_all add: closed_run_def)
  have "fl_instrument_id ` set es = set (map oc_contract_id (su_contracts S))"
    unfolding ids [symmetric] by simp
  then have "\<forall>f \<in> set es. covered (map oc_contract_id (su_contracts S)) (su_futures_id S) f"
    by (auto simp: covered_def)
  with hs cs trades_sound [OF tr] show "\<forall>f \<in> set (st_fills st). sound_fill f
      \<and> covered (map oc_contract_id (su_contracts S)) (su_futures_id S) f"
    by (auto simp: fills covered_def)
  have "holding l0 i = 0" using l0 make_ledger_books(3) by (fastforce simp: holding_def)
  with trades_holding [OF tr, of i] flat fills show "net_quantity i (st_fills st) = 0" by simp
qed

lemma flat_positions:
  assumes "\<forall>i. holding l i = 0" and "distinct (map fst (pl_positions l))"
  shows "\<forall>(i, p) \<in> set (pl_positions l). ip_quantity p = 0"
proof clarify
  fix i p assume "(i, p) \<in> set (pl_positions l)"
  then have "map_of (pl_positions l) i = Some p" using assms(2) by simp
  with assms(1) show "ip_quantity p = 0" by (auto simp: holding_def dest: spec [of _ i])
qed

lemma closed_run_accounts:
  assumes c: "closed_run S states l0 es hs cs k tail st"
    and bound: "dval (pl_starting_nav (st_ledger st)) + 2 * sum_list (map fill_size (st_fills st)) < cents_bound"
  shows "portfolio_value (st_ledger st)
      = Inr (Dec (dval (pl_starting_nav (st_ledger st)) + net_of_fills (st_fills st)))"
    and "\<forall>f \<in> set (st_fills st). exact_fill f" and "cents (pl_starting_nav (st_ledger st))"
    and "0 \<le> dval (pl_starting_nav (st_ledger st))"
    and "length (pl_entries (st_ledger st)) = 1 + 2 * length (st_fills st)"
proof -
  from c have tr: "trades l0 (st_fills st) (st_ledger st)" and l0: "\<exists>nav t. make_ledger nav t (su_position_id S) = Inr l0"
    and flat: "\<forall>i. holding (st_ledger st) i = 0"
    by (simp_all add: closed_run_def)
  let ?fs = "st_fills st" and ?nav = "pl_starting_nav l0"
  have sound: "\<forall>f \<in> set ?fs. sound_fill f" by (rule trades_sound [OF tr])
  have nn: "0 \<le> sum_list (map fill_size ?fs)"
    using sound fill_size_nonneg by (intro sum_list_nonneg) auto
  from l0 obtain nav t where mk: "make_ledger nav t (su_position_id S) = Inr l0" by blast
  note b0 = make_ledger_books [OF mk]
  have nav0: "0 \<le> dval ?nav" "cents ?nav" using b0(1) by (simp_all add: books_def)
  have nav_eq: "pl_starting_nav (st_ledger st) = ?nav"
    using tr by (induction rule: trades.induct)
      (auto simp: ledger_mark_def record_fill_def Let_def result_simps)
  have bnd: "dval ?nav + 2 * sum_list (map fill_size ?fs) < cents_bound" using bound nav_eq by simp
  show ex: "\<forall>f \<in> set ?fs. exact_fill f"
  proof
    fix f assume f: "f \<in> set ?fs"
    have "\<forall>x \<in> set (map fill_size ?fs). 0 \<le> x" using sound fill_size_nonneg by auto
    then have "fill_size f \<le> sum_list (map fill_size ?fs)"
      using f by (intro member_le_sum_list) auto
    moreover have "sound_fill f" using sound f by blast
    ultimately show "exact_fill f" using bnd nav0(1) nn by (simp add: exact_fill_def)
  qed
  have b: "books ?nav ?fs (st_ledger st)" using trades_books [OF tr b0(1)] ex by simp
  have cash: "ledger_cash (st_ledger st) = Inr (Dec (dval ?nav + net_of_fills ?fs))"
    using books_cash(1) [OF b] bnd nn by (simp add: net_of_fills_def algebra_simps)
  note sb = sums_bound [OF ex]
  have "\<bar>net_of_fills ?fs\<bar> \<le> sum_list (map fill_size ?fs)"
    unfolding net_of_fills_def using sb(1,2) by linarith
  then have "\<bar>dval ?nav + net_of_fills ?fs\<bar> < cents_bound" using bnd nav0(1) nn by linarith
  moreover have "cents (Dec (dval ?nav + net_of_fills ?fs))"
    using nav0(2) sb(3,4) by (simp add: cents_def net_of_fills_def in_cents_add in_cents_diff)
  moreover have "\<forall>(i, p) \<in> set (pl_positions (st_ledger st)). ip_quantity p = 0"
    using b flat by (intro flat_positions) (simp_all add: books_def)
  ultimately show "portfolio_value (st_ledger st)
      = Inr (Dec (dval (pl_starting_nav (st_ledger st)) + net_of_fills ?fs))"
    unfolding nav_eq using cash by (intro portfolio_value_flat) simp_all
  show "cents (pl_starting_nav (st_ledger st))" "0 \<le> dval (pl_starting_nav (st_ledger st))"
    using nav0 nav_eq by simp_all
  have two: "length (concat (map (\<lambda>f. [a f, b f]) fs)) = 2 * length fs" for a b :: "simulated_fill \<Rightarrow> rat" and fs
    by (induction fs) auto
  have "length (map (dval \<circ> le_cash_change) (pl_entries (st_ledger st))) = 1 + 2 * length ?fs"
    using b two by (simp add: books_def del: length_map length_concat)
  then show "length (pl_entries (st_ledger st)) = 1 + 2 * length ?fs" by simp
qed

end
