(* ===== verification/Example.thy ===== *)
theory Example
  imports Simulation
begin

text \<open>
  A concrete run of the simulator, evaluated step by step: the demonstration strategy, market and
  two-day path of the other theories, a zero-volatility straddle whose call is in the money, and the
  fixed-interval policy. The run buys the straddle, sells one future on the first day, exits on the
  second because the holding period is over, and closes everything. \<open>demo_run_result\<close> is the
  outcome; it is what shows that the properties of \<open>run_simulation\<close> are about something.
\<close>

section \<open>A concrete run\<close>

text \<open>
  Two days, a call in the money: on the first day the fixed-interval policy sells one future
  against the straddle's delta of one, on the second day the holding period is over.
\<close>

definition demo_costs :: execution_cost_parameters where
  "demo_costs = \<lparr>ec_fixed_cost_per_order = 1, ec_proportional_notional_rate = 0,
     ec_half_spread_per_unit = 0, ec_slippage_per_unit = 0\<rparr>"

definition demo_option :: "string \<Rightarrow> string \<Rightarrow> option_contract" where
  "demo_option letter option_type =
     \<lparr>oc_contract_id = contract_id ''NIFTY'' 739835 letter (Fl 100), oc_underlying = ''NIFTY'',
      oc_option_type = option_type, oc_strike = Fl 100, oc_expiry = 739835, oc_multiplier = 1,
      oc_exercise_style = ''european'', oc_settlement_type = ''cash'', oc_currency = ''INR''\<rparr>"

definition demo_straddle :: synthetic_option_pair where
  "demo_straddle =
     \<lparr>sp_strike = Fl 100, sp_call = demo_option ''C'' ''call'', sp_put = demo_option ''P'' ''put'',
      sp_combined_relative_spread = Fl (1/4), sp_combined_volume = 1000, sp_combined_open_interest = 5000\<rparr>"

lemma demo_contract_ids [simp]:
  "contract_id ''NIFTY'' d ''C'' x \<noteq> contract_id ''NIFTY'' d ''P'' x"
  "contract_id ''NIFTY'' d ''P'' x \<noteq> contract_id ''NIFTY'' d ''C'' x"
  "contract_id ''NIFTY'' d l x \<noteq> ''FUT-NIFTY''" "''FUT-NIFTY'' \<noteq> contract_id ''NIFTY'' d l x"
  "contract_id ''NIFTY'' d l x \<noteq> []"
  by (simp_all add: contract_id_def)

lemma demo_selection:
  "select_simulation_contracts demo_env demo_strategy demo_market demo_path = Inr (demo_expiry, demo_straddle)"
proof -
  have e: "expiry_for_remaining_sessions 739831 4 demo_clock = Inr demo_expiry"
    using demo_expiry_date by (simp add: demo_expiry_def)
  have clock: "mc_clock demo_market = demo_clock" and opts: "om_eligible_expiry_sessions (mc_options demo_market) = [4]"
    by (simp_all add: demo_market_def)
  have c: "expiry_candidates demo_market 739831 = Inr [(739835, 4)]"
    by (simp add: expiry_candidates_def clock opts e demo_expiry_def)
  have bounds: "ex_minimum_remaining_sessions (sc_expiry demo_strategy) = 1"
    "ex_maximum_remaining_sessions (sc_expiry demo_strategy) = 4"
    by (simp_all add: demo_strategy_def)
  have x: "select_simulation_expiry demo_strategy demo_market 739831 = Inr demo_expiry"
    by (simp add: select_simulation_expiry_def c select_expiry_def bounds clock e)
  have f: "continuous_forward flat_libm (Fl 110) 0 0 (Fl (1/64)) = Inr (Fl 110)"
    by (simp add: continuous_forward_def flat_libm_def float_ops float_eval)
  have chain: "synthetic_chain ''NIFTY'' (Fl 110) (Fl 50) 0 0 739835 1 (Fl (1/4)) 1000 5000 = Inr [demo_straddle]"
    by (simp add: synthetic_chain_def py_round_def float_ops float_eval synthetic_strikes_def upto.simps
        synthetic_pair_def make_option_contract_def is_option_type_def demo_straddle_def demo_option_def)
  show ?thesis
    by (simp add: select_simulation_contracts_def demo_path_def demo_point_def x demo_expiry_def f [unfolded zero_pyfloat_def]
        demo_env_def)
      (simp add: demo_market_def chain f demo_expiry_def demo_point_def)
qed

definition demo_setup :: "string \<Rightarrow> run_setup" where
  "demo_setup run_id =
     \<lparr>su_env = demo_env, su_strategy = demo_strategy, su_market = demo_market,
      su_policy = FixedIntervalPolicy 1 0, su_policy_id = ''fixed_interval'', su_option_costs = demo_costs,
      su_futures_costs = demo_costs, su_kill_switch = False, su_run_id = run_id,
      su_position_id = ''position-'' @ run_id, su_selected = demo_straddle\<rparr>"

definition demo_value :: "market_state \<Rightarrow> string \<Rightarrow> pyfloat \<Rightarrow> pyfloat \<Rightarrow> option_valuation_record" where
  "demo_value state letter value_per_unit delta =
     \<lparr>val_contract_id = contract_id ''NIFTY'' 739835 letter (Fl 100), val_timestamp = ms_timestamp state,
      val_quantity = 1, val_multiplier = 1, val_unit_price = value_per_unit,
      val_unit_intrinsic_value = value_per_unit, val_unit_time_value = 0, val_unit_delta = delta,
      val_unit_gamma = 0, val_unit_theta_per_year = 0, val_unit_vega_per_volatility_unit = 0,
      val_market_value = (case value_per_unit of Fl q \<Rightarrow> Dec q | _ \<Rightarrow> 0), val_portfolio_delta = delta,
      val_portfolio_gamma = 0, val_portfolio_theta_per_year = 0, val_portfolio_vega_per_volatility_unit = 0\<rparr>"

lemma demo_decimals: "decimal_of_float (Fl 0) = Inr (Dec 0)" "decimal_of_float (Fl 10) = Inr (Dec 10)"
  "decimal_of_float (Fl 20) = Inr (Dec 20)" "decimal_of_float (Fl 110) = Inr (Dec 110)"
  "decimal_of_float (Fl 120) = Inr (Dec 120)" "decimal_of_float (Fl (-1)) = Inr (Dec (-1))"
  "decimal_of_float (Fl 1000000) = Inr (Dec 1000000)" "decimal_of_float (Fl 1) = Inr (Dec 1)"
  by (simp_all add: decimal_of_float_def shortest_def decimal_candidate_def float_eval numeral_eq_Suc)


lemma demo_option_values:
  "\<exists>rho. option_value flat_libm ''call'' (Fl 110) (Fl 100) (Fl (1/64)) 0 0 0
     = Inr \<lparr>ov_price = Fl 10, ov_intrinsic_value = Fl 10, ov_time_value = 0,
            ov_greeks = \<lparr>g_delta = 1, g_gamma = 0, g_theta_per_year = 0,
                         g_vega_per_unit_volatility = 0, g_rho_per_unit_rate = rho\<rparr>\<rparr>"
  "\<exists>rho. option_value flat_libm ''call'' (Fl 120) (Fl 100) (Fl (3/256)) 0 0 0
     = Inr \<lparr>ov_price = Fl 20, ov_intrinsic_value = Fl 20, ov_time_value = 0,
            ov_greeks = \<lparr>g_delta = 1, g_gamma = 0, g_theta_per_year = 0,
                         g_vega_per_unit_volatility = 0, g_rho_per_unit_rate = rho\<rparr>\<rparr>"
  "\<exists>rho. option_value flat_libm ''put'' (Fl 110) (Fl 100) (Fl (1/64)) 0 0 0
     = Inr \<lparr>ov_price = Fl 0, ov_intrinsic_value = Fl 0, ov_time_value = 0,
            ov_greeks = \<lparr>g_delta = 0, g_gamma = 0, g_theta_per_year = 0,
                         g_vega_per_unit_volatility = 0, g_rho_per_unit_rate = rho\<rparr>\<rparr>"
  "\<exists>rho. option_value flat_libm ''put'' (Fl 120) (Fl 100) (Fl (3/256)) 0 0 0
     = Inr \<lparr>ov_price = Fl 0, ov_intrinsic_value = Fl 0, ov_time_value = 0,
            ov_greeks = \<lparr>g_delta = 0, g_gamma = 0, g_theta_per_year = 0,
                         g_vega_per_unit_volatility = 0, g_rho_per_unit_rate = rho\<rparr>\<rparr>"
  by (simp_all add: option_value_def validate_option_inputs_def is_option_type_def intrinsic_value_def
      zero_volatility_value_def flat_libm_def float_ops float_eval pymax_def)

lemma demo_value_record:
  assumes "option_value L (oc_option_type c) (ms_spot state) (oc_strike c) (ms_time_to_expiry_years state)
      (ms_risk_free_rate state) (ms_dividend_yield state) (ms_implied_volatility state)
      = Inr \<lparr>ov_price = Fl q, ov_intrinsic_value = Fl q, ov_time_value = 0,
            ov_greeks = \<lparr>g_delta = delta, g_gamma = 0, g_theta_per_year = 0,
                         g_vega_per_unit_volatility = 0, g_rho_per_unit_rate = rho\<rparr>\<rparr>"
    and "decimal_of_float (Fl q) = Inr (Dec q)" and "in_cents q" and "\<bar>q\<bar> < 1000" and "delta \<in> {0, 1}"
    and "oc_multiplier c = 1" and "oc_contract_id c = contract_id ''NIFTY'' 739835 letter (Fl 100)"
  shows "value_record L state 1 c = Inr (demo_value state letter (Fl q) delta)"
proof -
  have "\<bar>q\<bar> < cents_bound" using assms(4) by (simp add: cents_bound_def)
  then have q: "ctx q = q" "round_cents q = q" "\<bar>q\<bar> < cents_bound"
    using assms(3) by (auto intro: ctx_cents cent.rnd_fix)
  have one: "float_of_int 1 = 1" by (simp add: float_of_int_def one_pyfloat_def float_eval)
  have m: "(0 :: pyfloat) * 1 = 0" "(1 :: pyfloat) * 1 = 1" by (simp_all add: float_ops float_eval)
  have "money (Dec q * decimal_of_int 1 * decimal_of_int 1) = Inr (Dec q)"
    using q by (simp add: money_eval decimal_ops decimal_of_int_def)
  with assms m show ?thesis by (auto simp: value_record_def Let_def one demo_value_def)
qed

lemma demo_values:
  "value_pair flat_libm (demo_option ''C'' ''call'') (demo_option ''P'' ''put'') demo_state 1
     = Inr [demo_value demo_state ''C'' (Fl 10) 1, demo_value demo_state ''P'' (Fl 0) 0]"
  "value_pair flat_libm (demo_option ''C'' ''call'') (demo_option ''P'' ''put'') demo_state2 1
     = Inr [demo_value demo_state2 ''C'' (Fl 20) 1, demo_value demo_state2 ''P'' (Fl 0) 0]"
proof -
  have cents: "in_cents 10" "in_cents 20" "in_cents 0" by simp_all
  have c1: "value_record flat_libm demo_state 1 (demo_option ''C'' ''call'') = Inr (demo_value demo_state ''C'' (Fl 10) 1)"
    by (rule exE [OF demo_option_values(1)], rule demo_value_record)
      (simp_all add: demo_option_def demo_state_def demo_decimals cents)
  have c2: "value_record flat_libm demo_state2 1 (demo_option ''C'' ''call'') = Inr (demo_value demo_state2 ''C'' (Fl 20) 1)"
    by (rule exE [OF demo_option_values(2)], rule demo_value_record)
      (simp_all add: demo_option_def demo_state_def demo_state2_def demo_decimals cents)
  have p1: "value_record flat_libm demo_state 1 (demo_option ''P'' ''put'') = Inr (demo_value demo_state ''P'' (Fl 0) 0)"
    by (rule exE [OF demo_option_values(3)], rule demo_value_record)
      (simp_all add: demo_option_def demo_state_def demo_decimals cents)
  have p2: "value_record flat_libm demo_state2 1 (demo_option ''P'' ''put'') = Inr (demo_value demo_state2 ''P'' (Fl 0) 0)"
    by (rule exE [OF demo_option_values(4)], rule demo_value_record)
      (simp_all add: demo_option_def demo_state_def demo_state2_def demo_decimals cents)
  show "value_pair flat_libm (demo_option ''C'' ''call'') (demo_option ''P'' ''put'') demo_state 1
     = Inr [demo_value demo_state ''C'' (Fl 10) 1, demo_value demo_state ''P'' (Fl 0) 0]"
    "value_pair flat_libm (demo_option ''C'' ''call'') (demo_option ''P'' ''put'') demo_state2 1
     = Inr [demo_value demo_state2 ''C'' (Fl 20) 1, demo_value demo_state2 ''P'' (Fl 0) 0]"
    by (simp_all add: value_pair_def c1 c2 p1 p2)
qed

definition demo_trade :: "order_intent \<Rightarrow> rat \<Rightarrow> simulated_fill" where
  "demo_trade intent amount =
     \<lparr>fl_fill_id = ''fill-'' @ in_intent_id intent, fl_intent_id = in_intent_id intent,
      fl_timestamp = in_timestamp intent, fl_instrument_id = in_instrument_id intent,
      fl_side = in_side intent, fl_quantity = 1, fl_multiplier = 1,
      fl_reference_price = Dec amount, fl_fill_price = Dec amount, fl_gross_notional = Dec amount,
      fl_half_spread_cost = 0, fl_slippage_cost = 0, fl_fixed_cost = 1, fl_proportional_cost = 0,
      fl_total_cost = 1\<rparr>"

lemma demo_simulate_fill:
  assumes "decimal_of_float (Fl q) = Inr (Dec q)" and "in_cents q" and "0 \<le> q" and "q < 1000"
    and "in_quantity i = 1" and "in_multiplier i = 1"
  shows "simulate_fill i (FloatPrice (Fl q)) demo_costs None = Inr (demo_trade i q)"
proof -
  have "\<bar>q\<bar> < cents_bound" using assms(3,4) by (simp add: cents_bound_def)
  then have "ctx q = q" "round_cents q = q" using assms(2) by (auto intro: ctx_cents cent.rnd_fix)
  then show ?thesis using assms
    by (simp add: fill_eval demo_costs_def demo_trade_def ctx_of_int)
qed

lemma demo_trade_exact:
  assumes "in_cents q" and "0 \<le> q" and "q < 1000" and "in_side i = ''buy'' \<or> in_side i = ''sell''"
    and "tz_aware (in_timestamp i)"
  shows "exact_fill (demo_trade i q)"
  using assms
  by (auto simp: exact_fill_def sound_fill_def fill_size_def demo_trade_def cents_def decimal_ops
      cents_bound_def ctx_of_int)


section \<open>The ledger of the example\<close>

definition demo_book :: "simulated_fill list \<Rightarrow> (string \<times> instrument_position) list \<Rightarrow> portfolio_ledger \<Rightarrow> bool" where
  "demo_book fs ps l \<longleftrightarrow> books (Dec 1000000) fs l \<and> pl_positions l = ps"

definition held_at :: "string \<Rightarrow> int \<Rightarrow> rat \<Rightarrow> rat \<Rightarrow> instrument_position" where
  "held_at i n average mark_value =
     \<lparr>ip_instrument_id = i, ip_quantity = n, ip_multiplier = 1, ip_average_price = Dec average,
      ip_mark_price = Dec mark_value, ip_realized_pnl = 0\<rparr>"

lemma demo_book_record:
  assumes b: "demo_book fs ps l" and q: "in_cents q" "0 \<le> q" "q < 1000"
    and i: "in_side i = ''buy'' \<or> in_side i = ''sell''" "tz_aware (in_timestamp i)"
    and p: "apply_fill (map_of ps (in_instrument_id i)) (demo_trade i q) = Inr p"
  shows "\<exists>l'. record_fill (demo_trade i q) ty pid l = Inr l'
     \<and> demo_book (fs @ [demo_trade i q]) (AList.update (in_instrument_id i) p ps) l'"
proof -
  have small: "\<bar>q\<bar> < cents_bound" "\<bar>- q\<bar> < cents_bound" using q by (simp_all add: cents_bound_def)
  then have e: "ctx q = q" "round_cents q = q" "ctx (- q) = - q" "round_cents (- q) = - q"
    using q in_cents_minus [OF q(1)] by (auto intro: ctx_cents cent.rnd_fix)
  have inst: "fl_instrument_id (demo_trade i q) = in_instrument_id i" by (simp add: demo_trade_def)
  have "money ((if fl_side (demo_trade i q) = ''buy'' then decimal_of_int (-1) else decimal_of_int 1)
      * fl_gross_notional (demo_trade i q)) = Inr (if in_side i = ''buy'' then Dec (- q) else Dec q)"
    using e small by (simp add: demo_trade_def money_eval decimal_ops decimal_of_int_def)
  then obtain l' where l': "record_fill (demo_trade i q) ty pid l = Inr l'"
    using b p by (auto simp: record_fill_def Let_def inst demo_book_def)
  have ex: "exact_fill (demo_trade i q)" using q i by (intro demo_trade_exact) auto
  from record_fill_books [OF _ l' ex] record_fill_Inr(3) [OF l' ex] b p inst l' show ?thesis
    by (auto simp: demo_book_def)
qed

lemma demo_book_mark:
  assumes "demo_book fs ps l" and "map_of ps i = Some p" and "decimal_of_float (Fl q) = Inr (Dec q)"
    and q: "in_cents q" "0 \<le> q" "q < 1000"
  shows "\<exists>l'. ledger_mark i (FloatPrice (Fl q)) l = Inr l'
     \<and> demo_book fs (AList.update i (p\<lparr>ip_mark_price := Dec q\<rparr>) ps) l'"
proof -
  have "\<bar>q\<bar> < cents_bound" using q by (simp add: cents_bound_def)
  then have "money (Dec q) = Inr (Dec q)" using q by (simp add: money_eval cent.rnd_fix)
  with assms obtain l' where l': "ledger_mark i (FloatPrice (Fl q)) l = Inr l'"
    "pl_positions l' = AList.update i (p\<lparr>ip_mark_price := Dec q\<rparr>) ps"
    by (auto simp: ledger_mark_def demo_book_def)
  with ledger_mark_books [of "Dec 1000000" fs l] assms(1) show ?thesis by (auto simp: demo_book_def)
qed

lemma demo_book_value:
  assumes b: "demo_book fs ps l" and "sum_list (map fill_size fs) < 1000"
    and "rmap (\<lambda>(_, p). market_value p) ps = Inr vs"
    and "decimal_sum vs = Dec x" and "in_cents x" and "\<bar>x\<bar> < 1000"
  shows "portfolio_value l = Inr (Dec (1000000 + net_of_fills fs + x))"
proof -
  have bound: "dval (Dec 1000000) + sum_list (map fill_size fs) < cents_bound"
    using assms(2) by (simp add: cents_bound_def)
  have bk: "books (Dec 1000000) fs l" using b by (simp add: demo_book_def)
  then have ex: "\<forall>f \<in> set fs. exact_fill f" by (simp add: books_def)
  note sb = sums_bound [OF ex]
  have n: "\<bar>net_of_fills fs\<bar> < 1000" "in_cents (net_of_fills fs)"
    using sb assms(2) unfolding net_of_fills_def by (linarith, auto intro: in_cents_diff)
  have "in_cents (1000000 + net_of_fills fs + x)" using n(2) assms(5) by (intro in_cents_add) auto
  moreover have "\<bar>1000000 + net_of_fills fs + x\<bar> < cents_bound"
    using n(1) assms(6) by (simp add: cents_bound_def)
  ultimately have e: "ctx (1000000 + net_of_fills fs + x) = 1000000 + net_of_fills fs + x"
    "round_cents (1000000 + net_of_fills fs + x) = 1000000 + net_of_fills fs + x"
    "\<bar>1000000 + net_of_fills fs + x\<bar> < cents_bound"
    by (auto intro: ctx_cents cent.rnd_fix)
  have "ledger_cash l = Inr (Dec (1000000 + net_of_fills fs))"
    using books_cash(1) [OF bk bound] by (simp add: net_of_fills_def algebra_simps)
  with assms(3,4) b e show ?thesis
    by (simp add: portfolio_value_def demo_book_def money_eval plus_decimal_def)
qed

lemma demo_market_value:
  assumes "in_cents m" and "\<bar>m\<bar> < 1000" and "n \<in> {0, 1, -1}"
  shows "market_value (held_at i n a m) = Inr (Dec (m * of_int n))"
proof -
  have m: "in_cents m" "in_cents (- m)" "\<bar>m\<bar> < cents_bound" "\<bar>- m\<bar> < cents_bound"
    using assms(1,2) by (auto simp: cents_bound_def in_cents_minus)
  then have "ctx m = m" "ctx (- m) = - m" "round_cents m = m" "round_cents (- m) = - m"
    by (auto intro: ctx_cents cent.rnd_fix)
  with assms(3) m show ?thesis
    by (auto simp: market_value_def held_at_def money_eval decimal_ops decimal_of_int_def cents_bound_def ctx_of_int)
qed


lemma demo_apply_open:
  "in_quantity i = 1 \<Longrightarrow> in_multiplier i = 1 \<Longrightarrow>
   apply_fill None (demo_trade i q) = Inr (held_at (in_instrument_id i) (if in_side i = ''buy'' then 1 else -1) q q)"
  by (simp add: apply_fill_def demo_trade_def held_at_def Let_def)

lemma demo_apply_close:
  assumes "n = (if in_side i = ''buy'' then -1 else 1)"
    and "in_cents q" "0 \<le> q" "q < 1000" "in_cents a" "0 \<le> a" "a < 1000"
  shows "\<exists>p. apply_fill (Some (held_at x n a m)) (demo_trade i q) = Inr p"
proof -
  have d: "in_cents (q - a)" "in_cents (- (q - a))" "\<bar>q - a\<bar> < cents_bound" "\<bar>- (q - a)\<bar> < cents_bound"
    using assms in_cents_diff [of q a] in_cents_minus [of "q - a"] by (auto simp: cents_bound_def)
  then have e: "ctx (q - a) = q - a" "ctx (- (q - a)) = - (q - a)" "round_cents (q - a) = q - a"
    "round_cents (- (q - a)) = - (q - a)" by (auto intro: ctx_cents cent.rnd_fix simp del: minus_diff_eq)
  show ?thesis
    using assms(1) d e
    by (cases "in_side i = ''buy''")
      (simp_all add: apply_fill_def demo_trade_def held_at_def Let_def money_eval decimal_ops
        decimal_of_int_def cents_bound_def ctx_of_int)
qed

section \<open>Opening\<close>

definition call_id :: string where
  "call_id = contract_id ''NIFTY'' 739835 ''C'' (Fl 100)"

definition put_id :: string where
  "put_id = contract_id ''NIFTY'' 739835 ''P'' (Fl 100)"

lemma demo_ids [simp]: "call_id \<noteq> put_id" "put_id \<noteq> call_id" "call_id \<noteq> ''FUT-NIFTY''"
  "''FUT-NIFTY'' \<noteq> call_id" "put_id \<noteq> ''FUT-NIFTY''" "''FUT-NIFTY'' \<noteq> put_id"
  by (simp_all add: call_id_def put_id_def)

lemma demo_setup_simps [simp]:
  "su_env (demo_setup rid) = demo_env" "su_strategy (demo_setup rid) = demo_strategy"
  "su_market (demo_setup rid) = demo_market" "su_policy (demo_setup rid) = FixedIntervalPolicy 1 0"
  "su_policy_id (demo_setup rid) = ''fixed_interval''" "su_option_costs (demo_setup rid) = demo_costs"
  "su_futures_costs (demo_setup rid) = demo_costs" "su_kill_switch (demo_setup rid) = False"
  "su_run_id (demo_setup rid) = rid" "su_position_id (demo_setup rid) = ''position-'' @ rid"
  "su_selected (demo_setup rid) = demo_straddle" "su_futures_id (demo_setup rid) = ''FUT-NIFTY''"
  "su_units (demo_setup rid) = 1" "su_risk (demo_setup rid) = sc_risk demo_strategy"
  "su_contracts (demo_setup rid) = [demo_option ''C'' ''call'', demo_option ''P'' ''put'']"
  "fm_delta_per_contract (su_futures (demo_setup rid)) = 1" "fm_multiplier (su_futures (demo_setup rid)) = 1"
  "sp_call demo_straddle = demo_option ''C'' ''call''" "sp_put demo_straddle = demo_option ''P'' ''put''"
  "ev_libm demo_env = flat_libm"
  by (simp_all add: demo_setup_def demo_straddle_def su_futures_id_def su_futures_def su_units_def
      su_risk_def su_contracts_def demo_market_def demo_strategy_def demo_env_def)

lemma demo_option_simps [simp]:
  "oc_contract_id (demo_option ''C'' ty) = call_id" "oc_contract_id (demo_option ''P'' ty) = put_id"
  "oc_option_type (demo_option l ty) = ty" "oc_multiplier (demo_option l ty) = 1" "oc_strike (demo_option l ty) = Fl 100"
  "oc_expiry (demo_option l ty) = 739835"
  by (simp_all add: demo_option_def call_id_def put_id_def)

lemma demo_value_simps [simp]:
  "val_contract_id (demo_value st ''C'' x d) = call_id" "val_contract_id (demo_value st ''P'' x d) = put_id"
  "val_unit_price (demo_value st l x d) = x" "val_portfolio_delta (demo_value st l x d) = d"
  "val_portfolio_gamma (demo_value st l x d) = 0" "val_portfolio_theta_per_year (demo_value st l x d) = 0"
  "val_portfolio_vega_per_volatility_unit (demo_value st l x d) = 0" "val_timestamp (demo_value st l x d) = ms_timestamp st"
  "val_quantity (demo_value st l x d) = 1" "val_multiplier (demo_value st l x d) = 1"
  by (simp_all add: demo_value_def call_id_def put_id_def)

lemma demo_state_simps [simp]:
  "ms_timestamp demo_state = Aware (739831 * 86400000000 + 34200000000) 0" "session_date_of demo_state = 739831"
  "ms_futures_price demo_state = Fl 110" "ms_session_index demo_state = 0" "ms_step_index demo_state = 0"
  "ms_timestamp demo_state2 = Aware (739832 * 86400000000 + 34200000000) 0" "session_date_of demo_state2 = 739832"
  "ms_futures_price demo_state2 = Fl 120" "ms_session_index demo_state2 = 1" "ms_step_index demo_state2 = 1"
  by (simp_all add: demo_state_def demo_state2_def session_date_of_def)

definition demo_order :: "string \<Rightarrow> market_state \<Rightarrow> string \<Rightarrow> string \<Rightarrow> string \<Rightarrow> string \<Rightarrow> order_intent" where
  "demo_order rid state label instrument side reason =
     \<lparr>in_intent_id = rid @ label, in_timestamp = ms_timestamp state, in_instrument_id = instrument,
      in_side = side, in_quantity = 1, in_multiplier = 1, in_reason_code = reason,
      in_strategy_position_id = ''position-'' @ rid, in_policy_id = ''fixed_interval''\<rparr>"

lemma demo_order_simps [simp]:
  "in_intent_id (demo_order rid s l i d r) = rid @ l" "in_timestamp (demo_order rid s l i d r) = ms_timestamp s"
  "in_instrument_id (demo_order rid s l i d r) = i" "in_side (demo_order rid s l i d r) = d"
  "in_quantity (demo_order rid s l i d r) = 1" "in_multiplier (demo_order rid s l i d r) = 1"
  by (simp_all add: demo_order_def)

definition demo_open_fills :: "string \<Rightarrow> simulated_fill list" where
  "demo_open_fills rid =
     [demo_trade (demo_order rid demo_state ''-entry-call'' call_id ''buy'' ''open_long_straddle'') 10,
      demo_trade (demo_order rid demo_state ''-entry-put'' put_id ''buy'' ''open_long_straddle'') 0]"

lemma demo_trade_simps [simp]:
  "fill_size (demo_trade i q) = q + 1" "signed_gross (demo_trade i q) = (if in_side i = ''buy'' then - q else q)"
  "dval (fl_total_cost (demo_trade i q)) = 1" "fl_instrument_id (demo_trade i q) = in_instrument_id i"
  "fl_side (demo_trade i q) = in_side i" "fl_gross_notional (demo_trade i q) = Dec q" "fl_total_cost (demo_trade i q) = 1"
  by (simp_all add: demo_trade_def fill_size_def signed_gross_def)

lemma demo_entry_risks:
  "\<exists>ds. entry_risk_decisions t d (Dec 12) 0 demo_straddle (sc_risk demo_strategy) True True = Inr ds
     \<and> find (\<lambda>r. rd_decision r = ''reject'') ds = None"
proof -
  have one: "decimal_of_float 1 = Inr (Dec 1)" by (simp add: one_pyfloat_def demo_decimals)
  have f: "fraction_of_nav (sc_risk demo_strategy) 1 = Inr (Dec 1000000)"
    by (simp add: fraction_of_nav_def demo_strategy_def one demo_decimals money_eval decimal_ops ctx_of_int cents_bound_def)
  have p: "rp_maximum_premium_at_risk_fraction (sc_risk demo_strategy) = 1"
    "rp_maximum_daily_theta_fraction (sc_risk demo_strategy) = 1"
    "rp_maximum_option_relative_spread (sc_risk demo_strategy) = 1"
    by (simp_all add: demo_strategy_def)
  have i: "straddle_integrity demo_straddle" by (simp add: straddle_integrity_def float_eq_def)
  have sp: "sp_combined_relative_spread demo_straddle = Fl (1/4)" "sp_combined_volume demo_straddle = 1000"
    "sp_combined_open_interest demo_straddle = 5000" by (simp_all add: demo_straddle_def)
  show ?thesis
    by (simp add: entry_risk_decisions_def f f [unfolded one_pyfloat_def] p entry_rules_def entry_decision_def i sp float_ops decimal_ops)
qed


definition demo_legs :: "rat \<Rightarrow> rat \<Rightarrow> (string \<times> instrument_position) list" where
  "demo_legs c p = [(call_id, held_at call_id 1 10 c), (put_id, held_at put_id 1 0 p)]"

lemma demo_sum_decimals:
  "decimal_sum [Dec 10, Dec 0] = Dec 10" "decimal_sum [Dec 10, Dec 0, Dec (- 110)] = Dec (- 100)"
  "decimal_sum [Dec 20, Dec 0, Dec (- 120)] = Dec (- 100)"
  "decimal_sum [Dec 11, Dec 1] = Dec 12"
  using ctx_of_int [of 10] ctx_of_int [of "-100"]
  by (simp_all add: decimal_sum_def decimal_ops ctx_of_int)

lemma demo_legs_value:
  assumes "demo_book fs (demo_legs 10 0) l" and "sum_list (map fill_size fs) < 1000"
  shows "portfolio_value l = Inr (Dec (1000000 + net_of_fills fs + 10))"
  using assms demo_market_value [of 10 1 call_id 10] demo_market_value [of 0 1 put_id 0]
  by (intro demo_book_value) (auto simp: demo_legs_def demo_sum_decimals)

lemma demo_theta: "absolute_daily_theta [demo_value s l x d, demo_value s' l' x' d'] 256 = Inr 0"
proof -
  have "float_sum [0, 0 :: pyfloat] = 0" by (simp add: float_sum_def float_ops float_eval)
  then show ?thesis
    by (simp add: absolute_daily_theta_def float_ops float_eval demo_decimals money_eval decimal_ops cents_bound_def
        cent.rnd_zero)
qed

lemma demo_open:
  "\<exists>st. open_position (demo_setup rid) demo_state = Inr st
     \<and> demo_book (demo_open_fills rid) (demo_legs 10 0) (st_ledger st)
     \<and> st_fills st = demo_open_fills rid
     \<and> st_risk_state st = initialize_risk_state (Dec 1000000) (Dec 999998) 739831
     \<and> st_valuations st = [] \<and> st_processed st = []"
proof -
  let ?S = "demo_setup rid"
  let ?i1 = "demo_order rid demo_state ''-entry-call'' call_id ''buy'' ''open_long_straddle''"
  let ?i2 = "demo_order rid demo_state ''-entry-put'' put_id ''buy'' ''open_long_straddle''"
  obtain l0 where l0: "make_ledger (Dec 1000000) (ms_timestamp demo_state) (''position-'' @ rid) = Inr l0"
    and nav: "pl_starting_nav l0 = Dec 1000000"
    by (simp add: ledger_eval)
  have b0: "demo_book [] [] l0"
    using make_ledger_books(1,3) [OF l0] nav by (simp add: demo_book_def)
  have i: "entry_intent ?S demo_state (demo_option ''C'' ''call'') = Inr ?i1"
    "entry_intent ?S demo_state (demo_option ''P'' ''put'') = Inr ?i2"
    by (simp_all add: entry_intent_def make_order_intent_def demo_order_def)
  have f: "simulate_fill ?i1 (FloatPrice (Fl 10)) demo_costs None = Inr (demo_trade ?i1 10)"
    "simulate_fill ?i2 (FloatPrice (Fl 0)) demo_costs None = Inr (demo_trade ?i2 0)"
    by (auto intro!: demo_simulate_fill simp: demo_decimals)
  from demo_book_record [OF b0, of 10 ?i1 "held_at call_id 1 10 10" "''option_entry''" "''position-'' @ rid"] obtain l1 where
    l1: "record_fill (demo_trade ?i1 10) ''option_entry'' (''position-'' @ rid) l0 = Inr l1"
    "demo_book [demo_trade ?i1 10] [(call_id, held_at call_id 1 10 10)] l1"
    using demo_apply_open [of ?i1 10] by auto
  from demo_book_record [OF l1(2), of 0 ?i2 "held_at put_id 1 0 0" "''option_entry''" "''position-'' @ rid"] obtain l2 where
    l2: "record_fill (demo_trade ?i2 0) ''option_entry'' (''position-'' @ rid) l1 = Inr l2"
    "demo_book (demo_open_fills rid) (demo_legs 10 0) l2"
    using demo_apply_open [of ?i2 0] by (auto simp: demo_open_fills_def demo_legs_def)
  have v: "portfolio_value l2 = Inr (Dec 999998)"
    using demo_legs_value [OF l2(2)] by (simp add: demo_open_fills_def net_of_fills_def)
  have nav2: "pl_starting_nav l2 = Dec 1000000" using l2(2) by (simp add: demo_book_def books_def)
  have prem: "option_entry_premium_at_risk [demo_trade ?i1 10, demo_trade ?i2 0] = Inr (Dec 12)"
    using demo_sum_decimals(4)
    by (simp add: option_entry_premium_at_risk_def decimal_ops ctx_of_int money_eval cents_bound_def)
  obtain ds where ds: "entry_risk_decisions (ms_timestamp demo_state) 739831 (Dec 12) 0 demo_straddle
      (sc_risk demo_strategy) True True = Inr ds" "find (\<lambda>r. rd_decision r = ''reject'') ds = None"
    using demo_entry_risks by blast
  have misc: "rp_starting_nav_inr (sc_risk demo_strategy) = Fl 1000000"
    "ck_trading_periods_per_year (mc_clock demo_market) = 256"
    "ex_require_quote_quality (sc_expiry demo_strategy) = True" "ex_require_liquidity (sc_expiry demo_strategy) = True"
    by (simp_all add: demo_strategy_def demo_market_def demo_clock_def)
  show ?thesis
    using l0 l1 l2 v f i prem ds nav2 demo_values(1) demo_theta
    by (simp add: open_position_def misc demo_decimals record_entry_def demo_open_fills_def del: demo_state_simps(1))
qed


section \<open>The first day\<close>

lemma demo_float_sums:
  "float_sum [1, 0] = 1" "float_sum [0, 0] = 0" "(1 :: pyfloat) + 0 = 1" "(1 :: pyfloat) + - 1 = 0"
  "(0 :: pyfloat) + 0 = 0" "(- 1 :: pyfloat) * 1 = - 1" "(0 :: pyfloat) + - 1 = - 1" "(0 :: pyfloat) - 1 = - 1"
  "(- 1 :: pyfloat) = Fl (- 1)"
  by (simp_all add: float_sum_def float_ops float_eval)

lemma demo_one: "float_of_int (- 1) = - 1" "float_of_int 1 = 1"
  by (simp_all add: float_of_int_def float_ops float_eval)

lemma demo_limits:
  "rp_starting_nav_inr (sc_risk demo_strategy) * rp_maximum_position_loss_fraction (sc_risk demo_strategy) = Fl 1000000"
  "rp_starting_nav_inr (sc_risk demo_strategy) * rp_maximum_daily_loss_fraction (sc_risk demo_strategy) = Fl 1000000"
  by (simp_all add: demo_strategy_def float_ops float_eval)

lemma demo_state_risks:
  assumes "rs_session_pnl s = Dec x" and "rs_position_pnl_from_entry s = Dec y" and "- 1000 < x" and "- 1000 < y"
    and "rs_hedges_in_current_session s < 10"
  shows "\<exists>ds. state_risk_decisions t s d (sc_risk demo_strategy) False = Inr ds \<and> exit_rules ds = {}"
proof -
  obtain ds where ds: "state_risk_decisions t s d (sc_risk demo_strategy) False = Inr ds"
    by (simp add: state_risk_decisions_def demo_limits demo_decimals)
  note rules = state_risk_exit_rules [OF ds]
  have lim: "decimal_of_float (rp_starting_nav_inr (sc_risk demo_strategy) * rp_maximum_daily_loss_fraction (sc_risk demo_strategy)) = Inr (Dec 1000000)"
    "decimal_of_float (rp_starting_nav_inr (sc_risk demo_strategy) * rp_maximum_position_loss_fraction (sc_risk demo_strategy)) = Inr (Dec 1000000)"
    by (simp_all add: demo_limits demo_decimals)
  have neg: "- Dec 1000000 = Dec (- 1000000)"
    using ctx_of_int [of "-1000000"] by (simp add: decimal_ops)
  have "rp_maximum_hedges_per_session (sc_risk demo_strategy) = 10" by (simp add: demo_strategy_def)
  then have "exit_rules ds = {}"
    using rules(1,2,3) rules(4) [OF lim(1)] rules(5) [OF lim(2)] assms neg
    by (auto simp: less_eq_decimal_def)
  with ds show ?thesis by blast
qed

lemma demo_exit_reason:
  assumes "exit_rules ds = {}" and "ms_time_to_expiry_years state = Fl q" and "0 < q"
  shows "exit_reason_at_state ds demo_strategy demo_market state final
     = Inr (if 1 \<le> ms_session_index state then Some ''maximum_holding_period''
            else if final then Some ''simulation_end'' else None)"
proof -
  have e: "[rd_rule_id r. r \<leftarrow> ds, rd_decision r = ''exit''] = []"
    using assms(1) by (auto simp: exit_rules_def)
  have "int_true_div (ex_safety_buffer_sessions (sc_expiry demo_strategy))
      (ck_trading_periods_per_year (mc_clock demo_market)) = Inr (Fl 0)"
    by (simp add: demo_strategy_def demo_market_def demo_clock_def int_true_div_def float_eval)
  moreover have "xc_precedence (sc_exit demo_strategy) = exit_precedence"
    "ex_holding_horizon_sessions (sc_expiry demo_strategy) = 1" by (simp_all add: demo_strategy_def)
  ultimately show ?thesis
    unfolding exit_reason_at_state_def e using assms(2,3) by (simp add: float_ops exit_precedence_def)
qed

lemma demo_mark_pair:
  assumes "demo_book fs (demo_legs c 0 @ rest) l" and "decimal_of_float (Fl c') = Inr (Dec c')"
    and "in_cents c'" "0 \<le> c'" "c' < 1000"
  shows "\<exists>l'. rfold (\<lambda>v. ledger_mark (val_contract_id v) (FloatPrice (val_unit_price v)))
       [demo_value s ''C'' (Fl c') d, demo_value s ''P'' (Fl 0) 0] l = Inr l'
     \<and> demo_book fs (demo_legs c' 0 @ rest) l'"
proof -
  have "map_of (demo_legs c 0 @ rest) call_id = Some (held_at call_id 1 10 c)" by (simp add: demo_legs_def)
  from demo_book_mark [OF assms(1) this assms(2-)] obtain l1 where
    l1: "ledger_mark call_id (FloatPrice (Fl c')) l = Inr l1" "demo_book fs (demo_legs c' 0 @ rest) l1"
    by (auto simp: demo_legs_def held_at_def)
  have "map_of (demo_legs c' 0 @ rest) put_id = Some (held_at put_id 1 0 0)" by (simp add: demo_legs_def)
  from demo_book_mark [OF l1(2) this, of 0] obtain l2 where
    l2: "ledger_mark put_id (FloatPrice (Fl 0)) l1 = Inr l2" "demo_book fs (demo_legs c' 0 @ rest) l2"
    by (auto simp: demo_legs_def held_at_def demo_decimals)
  from l1 l2 show ?thesis by simp
qed

lemma demo_control:
  assumes "ob_state ob = demo_state" and "ob_option_delta ob = 1" and "ob_hedge_delta ob = 0" and "ob_net_delta ob = 1"
  shows "\<exists>d. control_delta (demo_setup rid) ob = Inr (Proceed d False)
     \<and> hd_rounded_requested_futures_quantity d = - 1 \<and> hd_reason_code d = ''scheduled_rebalance''"
proof -
  have m: "\<not> rp_maximum_absolute_delta_units (sc_risk demo_strategy) < \<bar>Fl 0\<bar>"
    by (simp add: demo_strategy_def float_ops)
  have st: "\<not> ms_spot demo_state \<le> 0" "\<not> ms_time_to_expiry_years demo_state < 0" "\<not> (1 :: pyfloat) \<le> 0"
    by (simp_all add: demo_state_def float_ops)
  have dv: "float_div (0 - 1) 1 = Inr (Fl (- 1))" by (simp add: float_ops float_eval)
  have rq: "rounded_quantity (Fl (- 1)) = Inr (- 1)"
    using floor_of_int [of "-1", where 'a = rat]
    by (simp add: rounded_quantity_def demo_decimals quantize_def round_half_even_def Let_def)
  have r: "(1 :: pyfloat) + float_of_int (- 1) * 1 = Fl 0" by (simp add: demo_one float_ops float_eval)
  show ?thesis
    using assms st m
    by (simp add: control_delta_def policy_state_def make_hedge_policy_state_def decide_fixed_interval_def
        trade_to_target_def dv rq r Let_def)
qed

definition demo_hedge_order :: "string \<Rightarrow> order_intent" where
  "demo_hedge_order rid = demo_order rid demo_state (''-hedge-'' @ string_of_int 0 @ ''-'' @ string_of_int 0)
     ''FUT-NIFTY'' ''sell'' ''scheduled_rebalance''"

definition demo_fills1 :: "string \<Rightarrow> simulated_fill list" where
  "demo_fills1 rid = demo_open_fills rid @ [demo_trade (demo_hedge_order rid) 110]"

lemma demo_dec_minus:
  "Dec 999998 - Dec 1000000 = Dec (- 2)" "Dec 999997 - Dec 999997 = Dec 0" "Dec 999997 - Dec 1000000 = Dec (- 3)"
  using ctx_of_int [of "-2"] ctx_of_int [of "-3"] by (simp_all add: decimal_ops)

lemma demo_day1:
  assumes b: "demo_book (demo_open_fills rid) (demo_legs 10 0) (st_ledger st)"
    and fills: "st_fills st = demo_open_fills rid" and vals: "st_valuations st = []" and proc: "st_processed st = []"
    and risk: "st_risk_state st = initialize_risk_state (Dec 1000000) (Dec 999998) 739831"
  shows "\<exists>st'. simulate_state (demo_setup rid) False demo_state st = Inr (False, st')
     \<and> demo_book (demo_fills1 rid) (demo_legs 10 0 @ [(''FUT-NIFTY'', held_at ''FUT-NIFTY'' (- 1) 110 110)]) (st_ledger st')
     \<and> st_fills st' = demo_fills1 rid
     \<and> st_valuations st' = [demo_value demo_state ''C'' (Fl 10) 1, demo_value demo_state ''P'' (Fl 0) 0]
     \<and> st_processed st' = [demo_state]
     \<and> rs_previous_marked_portfolio_value (st_risk_state st') = Dec 999997
     \<and> rs_position_reference_portfolio_value (st_risk_state st') = Dec 1000000
     \<and> rs_current_session_date (st_risk_state st') = 739831"
proof -
  let ?S = "demo_setup rid" and ?fid = "''FUT-NIFTY''"
  let ?vs = "[demo_value demo_state ''C'' (Fl 10) 1, demo_value demo_state ''P'' (Fl 0) 0]"
  obtain l1 where l1: "rfold (\<lambda>v. ledger_mark (val_contract_id v) (FloatPrice (val_unit_price v))) ?vs (st_ledger st) = Inr l1"
    "demo_book (demo_open_fills rid) (demo_legs 10 0) l1"
    using demo_mark_pair [of "demo_open_fills rid" 10 "[]" "st_ledger st" 10] b by (auto simp: demo_decimals)
  have ps1: "pl_positions l1 = demo_legs 10 0" using l1(2) by (simp add: demo_book_def)
  have mark: "mark_positions ?S demo_state ?vs (st_ledger st) = Inr l1"
    using l1(1) ps1 by (simp add: mark_positions_def demo_legs_def)
  have v1: "portfolio_value l1 = Inr (Dec 999998)"
    using demo_legs_value [OF l1(2)] by (simp add: demo_open_fills_def net_of_fills_def)
  let ?r1 = "mark_risk_state (st_risk_state st) (Dec 999998) 739831"
  have r1: "rs_session_pnl ?r1 = Dec (- 2)" "rs_position_pnl_from_entry ?r1 = Dec (- 2)"
    "rs_hedges_in_current_session ?r1 = 0" "rs_total_hedges ?r1 = 0" "rs_current_session_date ?r1 = 739831"
    by (simp_all add: risk mark_risk_state_def initialize_risk_state_def demo_dec_minus)
  obtain ds where ds: "state_risk_decisions (ms_timestamp demo_state) ?r1 1 (sc_risk demo_strategy) False = Inr ds"
    "exit_rules ds = {}"
    using demo_state_risks [OF r1(1,2), of "ms_timestamp demo_state" 1] unfolding r1(3) by auto
  define ob where "ob = \<lparr>ob_state = demo_state, ob_option_delta = 1, ob_option_gamma = 0,
      ob_hedge_delta = 0, ob_net_delta = 1, ob_state_risks = ds\<rparr>"
  define st1 where "st1 = st\<lparr>st_ledger := l1, st_valuations := ?vs, st_risk_records := st_risk_records st @ ds,
      st_risk_state := ?r1, st_processed := [demo_state]\<rparr>"
  have hd: "hedge_delta_of ?S l1 = 0" by (simp add: hedge_delta_of_def ps1 demo_legs_def)
  have obs: "observe_state ?S demo_state st = Inr (ob, st1)"
    using demo_values(1) mark v1 ds hd
    by (simp add: observe_state_def Let_def demo_float_sums ob_def st1_def vals proc del: demo_state_simps(1))
  have noexit: "exit_reason_at_state (ob_state_risks ob) demo_strategy demo_market demo_state False = Inr None"
    using demo_exit_reason [of ds demo_state "1/64" False] ds(2) by (simp add: ob_def demo_state_def)
  obtain d where d: "control_delta ?S ob = Inr (Proceed d False)" "hd_rounded_requested_futures_quantity d = - 1"
    "hd_reason_code d = ''scheduled_rebalance''"
    using demo_control [of ob rid] by (auto simp: ob_def)
  let ?i = "demo_hedge_order rid"
  have i: "make_order_intent (rid @ ''-hedge-'' @ string_of_int 0 @ ''-'' @ string_of_int 0) (ms_timestamp demo_state) ?fid
      ''sell'' 1 1 ''scheduled_rebalance'' (''position-'' @ rid) ''fixed_interval'' = Inr ?i"
    by (simp add: make_order_intent_def demo_hedge_order_def demo_order_def)
  have f: "simulate_fill ?i (FloatPrice (Fl 110)) demo_costs None = Inr (demo_trade ?i 110)"
    by (rule demo_simulate_fill) (simp_all add: demo_decimals demo_hedge_order_def)
  have ap: "apply_fill (map_of (demo_legs 10 0) (in_instrument_id ?i)) (demo_trade ?i 110) = Inr (held_at ?fid (- 1) 110 110)"
    using demo_apply_open [of ?i 110] by (simp add: demo_hedge_order_def demo_legs_def)
  from demo_book_record [OF l1(2) _ _ _ _ _ ap, of "''futures_hedge_sell''" "''position-'' @ rid"] obtain l2 where
    l2: "record_fill (demo_trade ?i 110) ''futures_hedge_sell'' (''position-'' @ rid) l1 = Inr l2"
    "demo_book (demo_fills1 rid) (demo_legs 10 0 @ [(?fid, held_at ?fid (- 1) 110 110)]) l2"
    by (auto simp: demo_hedge_order_def demo_legs_def demo_fills1_def)
  define st2 where "st2 = st1\<lparr>st_ledger := l2, st_intents := st_intents st @ [?i],
      st_fills := demo_fills1 rid, st_risk_state := record_risk_hedge ?r1\<rparr>"
  have ph: "place_hedge ?S ob d st1 = Inr (- 1, st2)"
    using i f l2(1) d(2,3) r1(4)
    by (simp add: place_hedge_def fill_and_record_def ob_def st1_def st2_def fills demo_fills1_def Let_def)
  have "rmap (\<lambda>(_, p). market_value p) (demo_legs 10 0 @ [(?fid, held_at ?fid (- 1) 110 110)])
      = Inr [Dec 10, Dec 0, Dec (- 110)]"
    using demo_market_value [of 10 1 call_id 10] demo_market_value [of 0 1 put_id 0]
      demo_market_value [of 110 "-1" ?fid 110] by (simp add: demo_legs_def)
  from demo_book_value [OF l2(2) _ this, of "- 100"] have v2: "portfolio_value l2 = Inr (Dec 999997)"
    by (simp add: demo_fills1_def demo_open_fills_def net_of_fills_def demo_sum_decimals demo_hedge_order_def)
  obtain st3 where ex: "execute_decision ?S ob d False st1 = Inr st3"
    and st3: "st_ledger st3 = l2" "st_fills st3 = demo_fills1 rid" "st_valuations st3 = ?vs" "st_processed st3 = [demo_state]"
    "st_risk_state st3 = mark_risk_state (record_risk_hedge ?r1) (Dec 999997) 739831"
    using ph v1 v2 by (simp add: execute_decision_def ob_def st1_def st2_def Let_def)
  show ?thesis
    using obs noexit d(1) ex st3 l2(2)
    by (intro exI [of _ st3]) (simp add: simulate_state_def risk mark_risk_state_def record_risk_hedge_def initialize_risk_state_def)
qed


section \<open>The second day and the close-out\<close>

lemma demo_day2:
  assumes b: "demo_book (demo_fills1 rid) (demo_legs 10 0 @ [(''FUT-NIFTY'', held_at ''FUT-NIFTY'' (- 1) 110 110)]) (st_ledger st)"
    and fills: "st_fills st = demo_fills1 rid"
    and vals: "st_valuations st = [demo_value demo_state ''C'' (Fl 10) 1, demo_value demo_state ''P'' (Fl 0) 0]"
    and proc: "st_processed st = [demo_state]"
    and risk: "rs_previous_marked_portfolio_value (st_risk_state st) = Dec 999997"
      "rs_position_reference_portfolio_value (st_risk_state st) = Dec 1000000"
      "rs_current_session_date (st_risk_state st) = 739831"
  shows "\<exists>st'. simulate_state (demo_setup rid) True demo_state2 st = Inr (True, st')
     \<and> demo_book (demo_fills1 rid) (demo_legs 20 0 @ [(''FUT-NIFTY'', held_at ''FUT-NIFTY'' (- 1) 110 120)]) (st_ledger st')
     \<and> st_fills st' = demo_fills1 rid \<and> st_exit_reason st' = ''maximum_holding_period''
     \<and> st_valuations st' = [demo_value demo_state ''C'' (Fl 10) 1, demo_value demo_state ''P'' (Fl 0) 0,
          demo_value demo_state2 ''C'' (Fl 20) 1, demo_value demo_state2 ''P'' (Fl 0) 0]
     \<and> st_processed st' = [demo_state, demo_state2]"
proof -
  let ?S = "demo_setup rid" and ?fid = "''FUT-NIFTY''"
  let ?vs = "[demo_value demo_state2 ''C'' (Fl 20) 1, demo_value demo_state2 ''P'' (Fl 0) 0]"
  obtain l1 where l1: "rfold (\<lambda>v. ledger_mark (val_contract_id v) (FloatPrice (val_unit_price v))) ?vs (st_ledger st) = Inr l1"
    "demo_book (demo_fills1 rid) (demo_legs 20 0 @ [(?fid, held_at ?fid (- 1) 110 110)]) l1"
    using demo_mark_pair [OF b, of 20] by (auto simp: demo_decimals)
  have ps1: "map_of (demo_legs 20 0 @ [(?fid, held_at ?fid (- 1) 110 110)]) ?fid = Some (held_at ?fid (- 1) 110 110)"
    by (simp add: demo_legs_def)
  from demo_book_mark [OF l1(2) ps1, of 120] obtain l2 where
    l2: "ledger_mark ?fid (FloatPrice (Fl 120)) l1 = Inr l2"
    "demo_book (demo_fills1 rid) (demo_legs 20 0 @ [(?fid, held_at ?fid (- 1) 110 120)]) l2"
    by (auto simp: demo_decimals demo_legs_def held_at_def)
  have "map_of (pl_positions l1) ?fid \<noteq> None" using l1(2) ps1 by (simp add: demo_book_def)
  then have mark: "mark_positions ?S demo_state2 ?vs (st_ledger st) = Inr l2"
    using l1(1) l2(1) by (simp add: mark_positions_def)
  have "rmap (\<lambda>(_, p). market_value p) (demo_legs 20 0 @ [(?fid, held_at ?fid (- 1) 110 120)])
      = Inr [Dec 20, Dec 0, Dec (- 120)]"
    using demo_market_value [of 20 1 call_id 10] demo_market_value [of 0 1 put_id 0]
      demo_market_value [of 120 "-1" ?fid 110] by (simp add: demo_legs_def)
  from demo_book_value [OF l2(2) _ this, of "- 100"] have v2: "portfolio_value l2 = Inr (Dec 999997)"
    by (simp add: demo_fills1_def demo_open_fills_def net_of_fills_def demo_sum_decimals demo_hedge_order_def)
  let ?r = "mark_risk_state (st_risk_state st) (Dec 999997) 739832"
  have r: "rs_session_pnl ?r = Dec 0" "rs_position_pnl_from_entry ?r = Dec (- 3)" "rs_hedges_in_current_session ?r = 0"
    by (simp_all add: risk mark_risk_state_def demo_dec_minus)
  obtain ds where ds: "state_risk_decisions (ms_timestamp demo_state2) ?r 0 (sc_risk demo_strategy) False = Inr ds"
    "exit_rules ds = {}"
    using demo_state_risks [OF r(1,2), of "ms_timestamp demo_state2" 0] unfolding r(3) by auto
  have "map_of (pl_positions l2) ?fid = Some (held_at ?fid (- 1) 110 120)"
    using l2(2) by (simp add: demo_book_def demo_legs_def)
  then have hd: "hedge_delta_of ?S l2 = - 1" by (simp add: hedge_delta_of_def held_at_def demo_one demo_float_sums(6))
  define ob where "ob = \<lparr>ob_state = demo_state2, ob_option_delta = 1, ob_option_gamma = 0,
      ob_hedge_delta = - 1, ob_net_delta = 0, ob_state_risks = ds\<rparr>"
  obtain st1 where obs: "observe_state ?S demo_state2 st = Inr (ob, st1)" and st1: "st_ledger st1 = l2"
    "st_fills st1 = demo_fills1 rid" "st_processed st1 = [demo_state, demo_state2]"
    "st_valuations st1 = st_valuations st @ ?vs"
    using demo_values(2) mark v2 ds hd
    by (simp add: observe_state_def Let_def demo_float_sums(1-5) ob_def fills proc del: demo_state_simps(6))
  have reason: "exit_reason_at_state (ob_state_risks ob) demo_strategy demo_market demo_state2 True
      = Inr (Some ''maximum_holding_period'')"
    using demo_exit_reason [of ds demo_state2 "3/256" True] ds(2) by (simp add: ob_def demo_state2_def)
  obtain st2 where st2: "require_exit ?S ob ''maximum_holding_period'' st1 = Inr st2" "st_ledger st2 = l2"
    "st_fills st2 = demo_fills1 rid" "st_processed st2 = [demo_state, demo_state2]"
    "st_valuations st2 = st_valuations st @ ?vs" "st_exit_reason st2 = ''maximum_holding_period''"
    using v2 st1 by (simp add: require_exit_def)
  show ?thesis
    using obs reason st2 l2(2) by (simp add: simulate_state_def vals)
qed

lemma demo_close:
  assumes b: "demo_book (demo_fills1 rid) (demo_legs 20 0 @ [(''FUT-NIFTY'', held_at ''FUT-NIFTY'' (- 1) 110 120)]) (st_ledger st)"
    and fills: "st_fills st = demo_fills1 rid" and proc: "st_processed st = [demo_state, demo_state2]"
    and reason: "st_exit_reason st = ''maximum_holding_period''"
  shows "\<exists>st'. close_position (demo_setup rid) st = Inr st'
     \<and> st_fills st' = demo_fills1 rid @
         [demo_trade (demo_order rid demo_state2 ''-exit-call'' call_id ''sell'' ''maximum_holding_period'') 20,
          demo_trade (demo_order rid demo_state2 ''-exit-put'' put_id ''sell'' ''maximum_holding_period'') 0,
          demo_trade (demo_order rid demo_state2 ''-futures-close'' ''FUT-NIFTY'' ''buy'' ''maximum_holding_period'') 120]
     \<and> st_valuations st' = st_valuations st \<and> st_processed st' = st_processed st
     \<and> pl_starting_nav (st_ledger st') = Dec 1000000"
proof -
  let ?S = "demo_setup rid" and ?fid = "''FUT-NIFTY''"
  let ?c = "demo_order rid demo_state2 ''-exit-call'' call_id ''sell'' ''maximum_holding_period''"
  let ?p = "demo_order rid demo_state2 ''-exit-put'' put_id ''sell'' ''maximum_holding_period''"
  let ?f = "demo_order rid demo_state2 ''-futures-close'' ?fid ''buy'' ''maximum_holding_period''"
  let ?ps = "demo_legs 20 0 @ [(?fid, held_at ?fid (- 1) 110 120)]"
  have sim: "simulate_fill ?c (FloatPrice (Fl 20)) demo_costs None = Inr (demo_trade ?c 20)"
    "simulate_fill ?p (FloatPrice (Fl 0)) demo_costs None = Inr (demo_trade ?p 0)"
    "simulate_fill ?f (FloatPrice (Fl 120)) demo_costs None = Inr (demo_trade ?f 120)"
    by (auto intro!: demo_simulate_fill simp: demo_decimals)
  obtain q1 where q1: "apply_fill (map_of ?ps (in_instrument_id ?c)) (demo_trade ?c 20) = Inr q1"
    using demo_apply_close [of 1 ?c 20 10 call_id 20] by (auto simp: demo_legs_def)
  from demo_book_record [OF b _ _ _ _ _ q1, of "''option_exit''" "''position-'' @ rid"] obtain l1 where
    l1: "record_fill (demo_trade ?c 20) ''option_exit'' (''position-'' @ rid) (st_ledger st) = Inr l1"
    "demo_book (demo_fills1 rid @ [demo_trade ?c 20]) (AList.update call_id q1 ?ps) l1" by auto
  obtain q2 where q2: "apply_fill (map_of (AList.update call_id q1 ?ps) (in_instrument_id ?p)) (demo_trade ?p 0) = Inr q2"
    using demo_apply_close [of 1 ?p 0 0 put_id 0] by (auto simp: demo_legs_def)
  from demo_book_record [OF l1(2) _ _ _ _ _ q2, of "''option_exit''" "''position-'' @ rid"] obtain l2 where
    l2: "record_fill (demo_trade ?p 0) ''option_exit'' (''position-'' @ rid) l1 = Inr l2"
    "demo_book ((demo_fills1 rid @ [demo_trade ?c 20]) @ [demo_trade ?p 0]) (AList.update put_id q2 (AList.update call_id q1 ?ps)) l2"
    by auto
  obtain q3 where q3: "apply_fill (map_of (AList.update put_id q2 (AList.update call_id q1 ?ps)) (in_instrument_id ?f)) (demo_trade ?f 120) = Inr q3"
    using demo_apply_close [of "- 1" ?f 120 110 ?fid 120] by (auto simp: demo_legs_def)
  from demo_book_record [OF l2(2) _ _ _ _ _ q3, of "''futures_close''" "''position-'' @ rid"] obtain l3 where
    l3: "record_fill (demo_trade ?f 120) ''futures_close'' (''position-'' @ rid) l2 = Inr l3"
    and nav: "pl_starting_nav l3 = Dec 1000000" by (auto simp: demo_book_def books_def)
  have pos: "map_of (pl_positions (st_ledger st)) call_id = Some (held_at call_id 1 10 20)"
    "map_of (pl_positions l1) put_id = Some (held_at put_id 1 0 0)"
    "map_of (pl_positions l2) ?fid = Some (held_at ?fid (- 1) 110 120)"
    using b l1(2) l2(2) by (simp_all add: demo_book_def demo_legs_def)
  have orders: "make_order_intent (rid @ ''-exit-call'') (ms_timestamp demo_state2) call_id ''sell'' 1 1
      ''maximum_holding_period'' (''position-'' @ rid) ''fixed_interval'' = Inr ?c"
    "make_order_intent (rid @ ''-exit-put'') (ms_timestamp demo_state2) put_id ''sell'' 1 1
      ''maximum_holding_period'' (''position-'' @ rid) ''fixed_interval'' = Inr ?p"
    "make_order_intent (rid @ ''-futures-close'') (ms_timestamp demo_state2) ?fid ''buy'' 1 1
      ''maximum_holding_period'' (''position-'' @ rid) ''fixed_interval'' = Inr ?f"
    by (simp_all add: make_order_intent_def demo_order_def)
  show ?thesis
    using demo_values(2) sim l1(1) l2(1) l3 pos orders nav
    by (simp add: close_position_def proc close_option_def close_futures_def fill_and_record_def reason fills
        Let_def held_at_def del: demo_state_simps(6))
qed


section \<open>The whole example\<close>

definition demo_final_fills :: "string \<Rightarrow> simulated_fill list" where
  "demo_final_fills rid = demo_fills1 rid @
     [demo_trade (demo_order rid demo_state2 ''-exit-call'' call_id ''sell'' ''maximum_holding_period'') 20,
      demo_trade (demo_order rid demo_state2 ''-exit-put'' put_id ''sell'' ''maximum_holding_period'') 0,
      demo_trade (demo_order rid demo_state2 ''-futures-close'' ''FUT-NIFTY'' ''buy'' ''maximum_holding_period'') 120]"

lemma demo_position:
  "\<exists>st. run_position (demo_setup rid) [demo_state, demo_state2] = Inr st
     \<and> st_fills st = demo_final_fills rid \<and> st_processed st = [demo_state, demo_state2]
     \<and> pl_starting_nav (st_ledger st) = Dec 1000000
     \<and> st_valuations st = [demo_value demo_state ''C'' (Fl 10) 1, demo_value demo_state ''P'' (Fl 0) 0,
          demo_value demo_state2 ''C'' (Fl 20) 1, demo_value demo_state2 ''P'' (Fl 0) 0]"
proof -
  let ?S = "demo_setup rid"
  from demo_open [of rid] obtain st0 where st0: "open_position ?S demo_state = Inr st0"
    "demo_book (demo_open_fills rid) (demo_legs 10 0) (st_ledger st0)" "st_fills st0 = demo_open_fills rid"
    "st_risk_state st0 = initialize_risk_state (Dec 1000000) (Dec 999998) 739831"
    "st_valuations st0 = []" "st_processed st0 = []" by blast
  from demo_day1 [OF st0(2,3,5,6,4)] obtain st1 where st1:
    "simulate_state ?S False demo_state st0 = Inr (False, st1)"
    "demo_book (demo_fills1 rid) (demo_legs 10 0 @ [(''FUT-NIFTY'', held_at ''FUT-NIFTY'' (- 1) 110 110)]) (st_ledger st1)"
    "st_fills st1 = demo_fills1 rid"
    "st_valuations st1 = [demo_value demo_state ''C'' (Fl 10) 1, demo_value demo_state ''P'' (Fl 0) 0]"
    "st_processed st1 = [demo_state]" "rs_previous_marked_portfolio_value (st_risk_state st1) = Dec 999997"
    "rs_position_reference_portfolio_value (st_risk_state st1) = Dec 1000000"
    "rs_current_session_date (st_risk_state st1) = 739831" by blast
  from demo_day2 [OF st1(2-8)] obtain st2 where st2:
    "simulate_state ?S True demo_state2 st1 = Inr (True, st2)"
    "demo_book (demo_fills1 rid) (demo_legs 20 0 @ [(''FUT-NIFTY'', held_at ''FUT-NIFTY'' (- 1) 110 120)]) (st_ledger st2)"
    "st_fills st2 = demo_fills1 rid" "st_exit_reason st2 = ''maximum_holding_period''"
    "st_valuations st2 = [demo_value demo_state ''C'' (Fl 10) 1, demo_value demo_state ''P'' (Fl 0) 0,
          demo_value demo_state2 ''C'' (Fl 20) 1, demo_value demo_state2 ''P'' (Fl 0) 0]"
    "st_processed st2 = [demo_state, demo_state2]" by blast
  from demo_close [OF st2(2,3,6,4)] obtain st3 where st3: "close_position ?S st2 = Inr st3"
    "st_fills st3 = demo_final_fills rid" "st_valuations st3 = st_valuations st2" "st_processed st3 = st_processed st2"
    "pl_starting_nav (st_ledger st3) = Dec 1000000"
    unfolding demo_final_fills_def by blast
  from st0(1) st1(1) st2(1,5,6) st3 show ?thesis by (simp add: run_position_def)
qed

lemma demo_sound: "sound_run demo_strategy demo_costs demo_costs"
proof -
  have "sound_strategy demo_strategy" using validated_strategy_sound [OF demo_strategy_valid] by simp
  then show ?thesis by (simp add: sound_run_def sound_costs_def demo_costs_def)
qed

lemma demo_final_size: "sum_list (map fill_size (demo_final_fills rid)) = 266"
  by (simp add: demo_final_fills_def demo_fills1_def demo_open_fills_def demo_hedge_order_def)

lemma demo_attribution:
  "\<exists>a. calculate_greek_attribution flat_libm [demo_state, demo_state2]
     [demo_value demo_state ''C'' (Fl 10) 1, demo_value demo_state ''P'' (Fl 0) 0,
      demo_value demo_state2 ''C'' (Fl 20) 1, demo_value demo_state2 ''P'' (Fl 0) 0]
     (demo_option ''C'' ''call'') (demo_option ''P'' ''put'') = Inr a"
  by (simp add: calculate_greek_attribution_def interval_attribution_def add_contribution_def by_timestamp_def
      same_time_def flat_libm_def Let_def)

lemma demo_finish:
  assumes run: "run_position (demo_setup rid) [demo_state, demo_state2] = Inr st"
    and st: "st_fills st = demo_final_fills rid" "st_processed st = [demo_state, demo_state2]"
    "pl_starting_nav (st_ledger st) = Dec 1000000"
    "st_valuations st = [demo_value demo_state ''C'' (Fl 10) 1, demo_value demo_state ''P'' (Fl 0) 0,
          demo_value demo_state2 ''C'' (Fl 20) 1, demo_value demo_state2 ''P'' (Fl 0) 0]"
  shows "\<exists>r. finish_run (demo_setup rid) cfg h1 h2 h3 h4 [demo_state, demo_state2] tol st = Inr r
     \<and> sr_fills r = demo_final_fills rid \<and> sr_starting_nav r = Dec 1000000
     \<and> option_ids r = [call_id, put_id] \<and> sr_futures_instrument_id r = ''FUT-NIFTY''"
proof -
  let ?S = "demo_setup rid"
  have sound: "sound_setup ?S"
    using demo_sound by (simp add: sound_setup_def sound_run_def sound_strategy_def)
  have sep: "su_futures_id ?S \<notin> oc_contract_id ` set (su_contracts ?S)" by simp
  from run_position_closed [OF run sound sep] obtain l0 es hs cs k tail where
    c: "closed_run ?S [demo_state, demo_state2] l0 es hs cs k tail st" by blast
  have net: "net_of_fills (st_fills st) = - 6"
    by (simp add: st net_of_fills_def demo_final_fills_def demo_fills1_def demo_open_fills_def demo_hedge_order_def)
  have "dval (pl_starting_nav (st_ledger st)) + 2 * sum_list (map fill_size (st_fills st)) < cents_bound"
    by (simp add: st demo_final_size cents_bound_def)
  note acc = closed_run_accounts [OF c this]
  have v: "portfolio_value (st_ledger st) = Inr (Dec 999994)"
    using acc(1) net st(3) by simp
  have pnl: "Dec 999994 - Dec 1000000 = Dec (- 6)"
    using ctx_of_int [of "-6"] by (simp add: decimal_ops)
  have cov: "\<forall>f \<in> set (st_fills st). covered [call_id, put_id] ''FUT-NIFTY'' f"
    using closed_run_fills(1) [OF c] by simp
  obtain rc where "reconcile (Dec (- 6)) (map snd (pl_positions (st_ledger st))) (st_fills st)
      [call_id, put_id] ''FUT-NIFTY'' tol = Inr rc"
    using reconcile_exact [OF acc(2) cov, of "Dec (- 6)" "map snd (pl_positions (st_ledger st))" tol]
    by (auto simp: st(1) demo_final_size cents_def cents_bound_def)
  moreover obtain a where "calculate_greek_attribution flat_libm (st_processed st) (st_valuations st)
     (demo_option ''C'' ''call'') (demo_option ''P'' ''put'') = Inr a"
    using demo_attribution st(2,4) by auto
  ultimately show ?thesis
    using v pnl st(1,3) by (simp add: finish_run_def Let_def option_ids_def)
qed

lemma normalize_state:
  assumes "tz_aware (ms_timestamp s)" and "list_all isfinite [ms_spot s, ms_futures_price s, ms_risk_free_rate s,
      ms_dividend_yield s, ms_implied_volatility s, ms_time_to_expiry_years s, ms_futures_time_to_expiry_years s,
      ms_step_year_fraction s]"
    and "ms_session_date s = Some d" and "ms_local_timestamp s = Some t" and "tz_aware t"
  shows "\<exists>j. normalize (state_payload s) = Inr j"
  unfolding state_payload_def using assms normalize_finite
  by (intro normalize_str_dict) (auto simp del: normalize.simps(8))

definition demo_hash :: string where
  "demo_hash = ''sha256:'' @ replicate 64 (CHR ''0'')"

lemma demo_stable_hash: "normalize v = Inr j \<Longrightarrow> stable_hash (ev_sha256 demo_env) v = Inr demo_hash"
  by (simp add: stable_hash_def canonical_json_def demo_env_def demo_hash_def del: json_dumps.simps)

lemma demo_hashes:
  "strategy_config_hash demo_env demo_strategy = Inr demo_hash"
  "simulation_market_config_hash demo_env demo_market = Inr demo_hash"
  "simulation_run_config_hash demo_env cfg = Inr demo_hash"
  "stable_hash (ev_sha256 demo_env) (str_dict (gp_canonical_parameters demo_path)) = Inr demo_hash"
  "executable_market_state_hash demo_env [demo_state, demo_state2] = Inr demo_hash"
  "gp_path_hash demo_path = demo_hash" "sha256_identity demo_hash"
proof -
  show "strategy_config_hash demo_env demo_strategy = Inr demo_hash"
    by (simp add: strategy_config_hash_def strategy_canonical_json_def demo_env_def demo_hash_def)
  have "normalize PNone = Inr JNull" by simp
  from demo_stable_hash [OF this] show "simulation_market_config_hash demo_env demo_market = Inr demo_hash"
    "simulation_run_config_hash demo_env cfg = Inr demo_hash"
    by (simp_all add: simulation_market_config_hash_def simulation_run_config_hash_def demo_env_def)
  show "stable_hash (ev_sha256 demo_env) (str_dict (gp_canonical_parameters demo_path)) = Inr demo_hash"
    by (rule demo_stable_hash) (simp add: demo_path_def str_dict_def)
  have "\<exists>j. normalize (state_payload demo_state) = Inr j"
    by (rule normalize_state [where d = 739831 and t = "ms_timestamp demo_state"])
      (simp_all add: demo_state_def zero_pyfloat_def)
  moreover have "\<exists>j. normalize (state_payload demo_state2) = Inr j"
    by (rule normalize_state [where d = 739832 and t = "ms_timestamp demo_state2"])
      (simp_all add: demo_state2_def demo_state_def zero_pyfloat_def)
  ultimately obtain j1 j2 where "normalize (state_payload demo_state) = Inr j1" "normalize (state_payload demo_state2) = Inr j2"
    by blast
  then show "executable_market_state_hash demo_env [demo_state, demo_state2] = Inr demo_hash"
    unfolding executable_market_state_hash_def by (intro demo_stable_hash) simp
  show "gp_path_hash demo_path = demo_hash" by (simp add: demo_path_def demo_hash_def)
  show "sha256_identity demo_hash" by (simp add: sha256_identity_def demo_hash_def)
qed

definition demo_run :: "simulation_result result" where
  "demo_run = run_simulation demo_env demo_strategy demo_market demo_path ''fixed_interval'' demo_costs demo_costs
     False (Dec (1/100))"

lemma demo_run_result:
  "\<exists>r. demo_run = Inr r \<and> sound_run demo_strategy demo_costs demo_costs
     \<and> sr_starting_nav r = Dec 1000000 \<and> sum_list (map fill_size (sr_fills r)) = 266
     \<and> sr_futures_instrument_id r \<notin> set (option_ids r)
     \<and> net_of_fills (sr_fills r) = - 6"
proof -
  have pts: "gp_points demo_path \<noteq> []" by (simp add: demo_path_def)
  have align: "validate_contract_alignment demo_strategy demo_market = Inr ()"
    by (simp add: validate_contract_alignment_def demo_market_def demo_clock_def demo_strategy_def)
  have policy: "build_hedge_policy ''fixed_interval'' (sc_hedging demo_strategy) = Inr (FixedIntervalPolicy 1 0)"
    by (simp add: build_hedge_policy_def demo_strategy_def hedge_policy_ids_def make_fixed_interval_policy_def)
  have costs: "\<exists>m. cost_model_from_parameters demo_costs = Inr m"
    by (simp add: cost_model_from_parameters_def demo_costs_def decimal_ops)
  obtain cfg where cfg: "build_simulation_run_config demo_env demo_strategy demo_market demo_path ''fixed_interval''
      demo_costs demo_costs False (Dec (1/100)) = Inr cfg"
    using costs by (auto simp: build_simulation_run_config_def demo_hashes validate_run_config_def decimal_ops)
  obtain rid where rid: "simulation_run_id demo_env cfg = Inr rid"
    by (simp add: simulation_run_id_def demo_hashes)
  obtain st where st: "run_position (demo_setup rid) [demo_state, demo_state2] = Inr st"
     "st_fills st = demo_final_fills rid" "st_processed st = [demo_state, demo_state2]"
     "pl_starting_nav (st_ledger st) = Dec 1000000"
     "st_valuations st = [demo_value demo_state ''C'' (Fl 10) 1, demo_value demo_state ''P'' (Fl 0) 0,
          demo_value demo_state2 ''C'' (Fl 20) 1, demo_value demo_state2 ''P'' (Fl 0) 0]"
    using demo_position by blast
  obtain r where r: "finish_run (demo_setup rid) cfg demo_hash demo_hash demo_hash demo_hash [demo_state, demo_state2]
        (Dec (1/100)) st = Inr r" "sr_fills r = demo_final_fills rid" "sr_starting_nav r = Dec 1000000"
     "option_ids r = [call_id, put_id]" "sr_futures_instrument_id r = ''FUT-NIFTY''"
    using demo_finish [OF st] by blast
  have "demo_run = Inr r"
    using pts align policy cfg rid demo_selection demo_states st(1) r(1) demo_hashes(1,2,5,6)
    unfolding demo_run_def run_simulation_def demo_setup_def by simp
  then show ?thesis
    using r demo_sound demo_final_size [of rid]
    by (intro exI [of _ r]) (simp add: net_of_fills_def demo_final_fills_def demo_fills1_def demo_open_fills_def
        demo_hedge_order_def)
qed

end
