(* ===== verification/RunProperties.thy ===== *)
theory RunProperties
  imports Example
begin

text \<open>
  The properties of the simulation engine: selection of the expiry, the exit rules, the hard delta
  cap, and what a completed \<open>run_simulation\<close> guarantees. The witnesses are the concrete run of
  \<open>Example\<close>.
\<close>

section \<open>Selection\<close>

lemma expiry_candidates_Inr:
  assumes "expiry_candidates market d = Inr items"
  shows "(x, n) \<in> set items \<Longrightarrow> n \<in> set (om_eligible_expiry_sessions (mc_options market))
           \<and> (\<exists>e. expiry_for_remaining_sessions d n (mc_clock market) = Inr e \<and> se_expiry_session_date e = x)"
    and "n \<in> set (om_eligible_expiry_sessions (mc_options market))
           \<Longrightarrow> \<exists>x. (x, n) \<in> set items"
    and "distinct (map fst items)"
proof -
  define step where "step = (\<lambda>sessions items.
      rbind (expiry_for_remaining_sessions d sessions (mc_clock market)) (\<lambda>e.
      Inr (AList.update (se_expiry_session_date e) sessions items)))"
  define good where "good = (\<lambda>x n. \<exists>e. expiry_for_remaining_sessions d n (mc_clock market) = Inr e
      \<and> se_expiry_session_date e = x)"
  have same: "n = n'" if g: "good x n" "good x n'" for x n n'
  proof -
    from g obtain e e' where e: "expiry_for_remaining_sessions d n (mc_clock market) = Inr e" "se_expiry_session_date e = x"
      "expiry_for_remaining_sessions d n' (mc_clock market) = Inr e'" "se_expiry_session_date e' = x"
      by (auto simp: good_def)
    from expiry_counts [OF e(1)] expiry_counts [OF e(3)] e(2,4) show "n = n'" by simp
  qed
  have inv: "(\<forall>(x, n) \<in> set items. good x n \<and> n \<in> set ns0 \<union> set ns) \<and> distinct (map fst items)
      \<and> (\<forall>n \<in> set ns0 \<union> set ns. \<exists>x. (x, n) \<in> set items)"
    if "rfold step ns items0 = Inr items" "\<forall>(x, n) \<in> set items0. good x n \<and> n \<in> set ns0"
      "distinct (map fst items0)" "\<forall>n \<in> set ns0. \<exists>x. (x, n) \<in> set items0" for ns ns0 items0 items
    using that
  proof (induction ns arbitrary: ns0 items0)
    case (Cons n ns)
    from Cons.prems(1) obtain e where e: "expiry_for_remaining_sessions d n (mc_clock market) = Inr e"
      and rest: "rfold step ns (AList.update (se_expiry_session_date e) n items0) = Inr items"
      by (auto simp: step_def result_simps)
    let ?x = "se_expiry_session_date e"
    have gx: "good ?x n" using e by (auto simp: good_def)
    have kept: "(y, m) \<in> set (AList.update ?x n items0) \<longleftrightarrow> (y, m) = (?x, n) \<or> (y \<noteq> ?x \<and> (y, m) \<in> set items0)" for y m
    proof -
      have "distinct (map fst (AList.update ?x n items0))" using Cons.prems(3) by (rule distinct_update)
      then have "(y, m) \<in> set (AList.update ?x n items0) \<longleftrightarrow> map_of (AList.update ?x n items0) y = Some m" by simp
      also have "\<dots> \<longleftrightarrow> (y, m) = (?x, n) \<or> (y \<noteq> ?x \<and> map_of items0 y = Some m)" by (auto simp: update_conv')
      also have "map_of items0 y = Some m \<longleftrightarrow> (y, m) \<in> set items0" using Cons.prems(3) by simp
      finally show ?thesis .
    qed
    have "\<forall>(x, m) \<in> set (AList.update ?x n items0). good x m \<and> m \<in> set (n # ns0)"
      using Cons.prems(2) gx kept by auto
    moreover have "distinct (map fst (AList.update ?x n items0))" using Cons.prems(3) by (rule distinct_update)
    moreover have "\<forall>m \<in> set (n # ns0). \<exists>x. (x, m) \<in> set (AList.update ?x n items0)"
    proof
      fix m assume m: "m \<in> set (n # ns0)"
      show "\<exists>x. (x, m) \<in> set (AList.update ?x n items0)"
      proof (cases "m = n")
        case False
        with m Cons.prems(4) obtain x where x: "(x, m) \<in> set items0" by auto
        with Cons.prems(2) have "good x m" by auto
        with same gx False have "x \<noteq> ?x" by blast
        with x kept show ?thesis by blast
      qed (use kept in blast)
    qed
    ultimately show ?case using Cons.IH [OF rest, of "n # ns0"] by auto
  qed auto
  have run: "rfold step (om_eligible_expiry_sessions (mc_options market)) [] = Inr items"
    using assms by (simp add: expiry_candidates_def step_def)
  note i = inv [OF run, of "[]", simplified]
  from i show "(x, n) \<in> set items \<Longrightarrow> n \<in> set (om_eligible_expiry_sessions (mc_options market))
           \<and> (\<exists>e. expiry_for_remaining_sessions d n (mc_clock market) = Inr e \<and> se_expiry_session_date e = x)"
    "n \<in> set (om_eligible_expiry_sessions (mc_options market)) \<Longrightarrow> \<exists>x. (x, n) \<in> set items"
    "distinct (map fst items)"
    by (auto simp: good_def)
qed

text \<open>The expiry of the straddle covers the holding period and the safety buffer: it is one of
  the configured expiries, the number of weekdays before it is at least horizon plus buffer and at
  most the configured maximum, and no configured expiry inside those limits is nearer.\<close>

theorem selected_expiry_covers_holding:
  assumes "select_simulation_expiry strategy market d = Inr e" and "sound_strategy strategy"
  shows "se_remaining_trading_sessions e \<in> set (om_eligible_expiry_sessions (mc_options market))
    \<and> ex_holding_horizon_sessions (sc_expiry strategy) + ex_safety_buffer_sessions (sc_expiry strategy)
        \<le> se_remaining_trading_sessions e
    \<and> se_remaining_trading_sessions e \<le> ex_maximum_remaining_sessions (sc_expiry strategy)
    \<and> int (card {x. d \<le> x \<and> x < se_expiry_session_date e \<and> weekday x < 5}) = se_remaining_trading_sessions e
    \<and> (\<forall>n \<in> set (om_eligible_expiry_sessions (mc_options market)).
         ex_minimum_remaining_sessions (sc_expiry strategy) \<le> n
         \<and> n \<le> ex_maximum_remaining_sessions (sc_expiry strategy) \<longrightarrow> se_remaining_trading_sessions e \<le> n)"
proof -
  let ?min = "ex_minimum_remaining_sessions (sc_expiry strategy)"
  let ?max = "ex_maximum_remaining_sessions (sc_expiry strategy)"
  from assms(1) obtain items x n where
    items: "expiry_candidates market d = Inr items" and sel: "select_expiry items ?min ?max = Inr x"
    and n: "map_of items x = Some n" and e: "expiry_for_remaining_sessions d n (mc_clock market) = Inr e"
    by (auto simp: select_simulation_expiry_def result_simps)
  note c = expiry_candidates_Inr [OF items]
  note ce = expiry_counts [OF e]
  from c(1) [OF map_of_SomeD [OF n]] e have ex: "n \<in> set (om_eligible_expiry_sessions (mc_options market))"
    "se_expiry_session_date e = x" by auto
  from select_expiry_Inr(1) [OF sel] obtain m where m: "(x, m) \<in> set items" "?min \<le> m" "m \<le> ?max" by blast
  with map_of_is_SomeI [OF c(3), of x m] n have range: "?min \<le> n" "n \<le> ?max" by simp_all
  have near: "n \<le> m" if m: "m \<in> set (om_eligible_expiry_sessions (mc_options market))" "?min \<le> m" "m \<le> ?max" for m
  proof -
    from c(2) [OF m(1)] obtain y where y: "(y, m) \<in> set items" by blast
    with c(1) obtain e' where e': "expiry_for_remaining_sessions d m (mc_clock market) = Inr e'"
      "se_expiry_session_date e' = y" by blast
    have "x \<le> y" by (rule select_expiry_Inr(2) [OF sel y m(2,3)])
    then have "card {z. d \<le> z \<and> z < x \<and> weekday z < 5} \<le> card {z. d \<le> z \<and> z < y \<and> weekday z < 5}"
      by (intro card_mono) (auto intro: finite_subset [of _ "{d..<y}"])
    with expiry_counts [OF e'(1)] e'(2) ce ex(2) show "n \<le> m" by simp
  qed
  with ce ex range assms(2) show ?thesis by (auto simp: sound_strategy_def)
qed

theorem selected_expiry_covers_holding_witness:
  "select_simulation_expiry demo_strategy demo_market 739831 = Inr demo_expiry
   \<and> ex_holding_horizon_sessions (sc_expiry demo_strategy) + ex_safety_buffer_sessions (sc_expiry demo_strategy)
       \<le> se_remaining_trading_sessions demo_expiry"
proof -
  from demo_selection have x: "select_simulation_expiry demo_strategy demo_market 739831 = Inr demo_expiry"
    by (auto simp: select_simulation_contracts_def demo_path_def demo_point_def result_simps Let_def)
  have "sound_strategy demo_strategy" using demo_sound by (simp add: sound_run_def)
  with selected_expiry_covers_holding [OF x] x show ?thesis by blast
qed


section \<open>One state\<close>

text \<open>C21. Exit reasons obey their precedence: the kill switch comes before everything; otherwise the
  reason is the first one of the configured order that holds (a breached risk rule, too little time
  to expiry, the end of the holding period, the end of the data), and there is none only when none
  holds, so the last state always exits.\<close>

theorem exit_reason_precedence:
  assumes "exit_reason_at_state records strategy market state final = Inr reason"
    and "sound_strategy strategy"
  shows "(''manual_kill_switch'' \<in> exit_rules records \<longrightarrow> reason = Some ''manual_kill_switch'')
    \<and> (''manual_kill_switch'' \<notin> exit_rules records \<longrightarrow>
        (\<exists>minimum_time. int_true_div (ex_safety_buffer_sessions (sc_expiry strategy))
              (ck_trading_periods_per_year (mc_clock market)) = Inr minimum_time
           \<and> (case reason of
                Some r \<Rightarrow> \<exists>before after. exit_precedence = before @ r # after
                    \<and> r \<in> exit_causes records strategy state minimum_time final
                    \<and> set before \<inter> exit_causes records strategy state minimum_time final = {}
              | None \<Rightarrow> set exit_precedence \<inter> exit_causes records strategy state minimum_time final = {})))
    \<and> (final \<longrightarrow> reason \<noteq> None)"
proof -
  have prec: "xc_precedence (sc_exit strategy) = exit_precedence" using assms(2) by (simp add: sound_strategy_def)
  have "final \<longrightarrow> reason \<noteq> None"
  proof (intro impI notI)
    assume "final" "reason = None"
    with exit_reason_None(5) [of records strategy market state final, OF _ prec] assms(1) show False by simp
  qed
  moreover have "''manual_kill_switch'' \<in> exit_rules records \<longrightarrow> reason = Some ''manual_kill_switch''"
    using exit_reason_kill assms(1) by fastforce
  moreover have "\<exists>minimum_time. int_true_div (ex_safety_buffer_sessions (sc_expiry strategy))
              (ck_trading_periods_per_year (mc_clock market)) = Inr minimum_time
           \<and> (case reason of
                Some r \<Rightarrow> \<exists>before after. exit_precedence = before @ r # after
                    \<and> r \<in> exit_causes records strategy state minimum_time final
                    \<and> set before \<inter> exit_causes records strategy state minimum_time final = {}
              | None \<Rightarrow> set exit_precedence \<inter> exit_causes records strategy state minimum_time final = {})"
    if k: "''manual_kill_switch'' \<notin> exit_rules records"
  proof -
    from exit_reason_Inr [OF assms(1) k] prec obtain m where
      m: "int_true_div (ex_safety_buffer_sessions (sc_expiry strategy))
            (ck_trading_periods_per_year (mc_clock market)) = Inr m"
      and r: "reason = find (\<lambda>x. x \<in> exit_causes records strategy state m final) exit_precedence" by auto
    show ?thesis
    proof (intro exI [of _ m] conjI m)
      show "case reason of
                Some r \<Rightarrow> \<exists>before after. exit_precedence = before @ r # after
                    \<and> r \<in> exit_causes records strategy state m final
                    \<and> set before \<inter> exit_causes records strategy state m final = {}
              | None \<Rightarrow> set exit_precedence \<inter> exit_causes records strategy state m final = {}"
      proof (cases reason)
        case None
        with r have "\<forall>x \<in> set exit_precedence. x \<notin> exit_causes records strategy state m final"
          by (metis find_None_iff)
        with None show ?thesis by auto
      next
        case (Some x)
        with r find_first [of "\<lambda>x. x \<in> exit_causes records strategy state m final" exit_precedence x]
        show ?thesis by (fastforce simp: disjoint_iff)
      qed
    qed
  qed
  ultimately show ?thesis by blast
qed

theorem exit_reason_precedence_witness:
  "exit_reason_at_state [] demo_strategy demo_market demo_state2 True = Inr (Some ''maximum_holding_period'')
   \<and> ''simulation_end'' \<in> exit_causes [] demo_strategy demo_state2 0 True
   \<and> (\<exists>before after. exit_precedence = before @ ''maximum_holding_period'' # after \<and> ''simulation_end'' \<notin> set before)"
proof -
  have r: "exit_reason_at_state [] demo_strategy demo_market demo_state2 True = Inr (Some ''maximum_holding_period'')"
    using demo_exit_reason [of "[]" demo_state2 "3/256" True] by (simp add: exit_rules_def demo_state2_def)
  have "sound_strategy demo_strategy" using demo_sound by (simp add: sound_run_def)
  from exit_reason_precedence [OF r this] obtain m before after where
    "exit_precedence = before @ ''maximum_holding_period'' # after"
    "set before \<inter> exit_causes [] demo_strategy demo_state2 m True = {}"
    by (auto simp: exit_rules_def)
  moreover have "''simulation_end'' \<in> exit_causes [] demo_strategy demo_state2 x True" for x
    by (simp add: exit_causes_def)
  ultimately have "''simulation_end'' \<in> exit_causes [] demo_strategy demo_state2 0 True
     \<and> (\<exists>before after. exit_precedence = before @ ''maximum_holding_period'' # after \<and> ''simulation_end'' \<notin> set before)"
    by (metis disjoint_iff)
  with r show ?thesis by blast
qed


definition demo_observation :: observation where
  "demo_observation = \<lparr>ob_state = demo_state, ob_option_delta = 1, ob_option_gamma = 0,
     ob_hedge_delta = 0, ob_net_delta = 1, ob_state_risks = []\<rparr>"


section \<open>The whole run\<close>

text \<open>C2. A run that completes has closed everything it opened: every fill is well formed and of one
  of its two options or its future, and the quantities bought and sold of every instrument cancel.\<close>

theorem run_closes_every_position:
  assumes "run_simulation E strategy market path policy_id option_costs futures_costs kill tol = Inr r"
    and "sound_run strategy option_costs futures_costs"
    and "sr_futures_instrument_id r \<notin> set (option_ids r)"
  shows "(\<forall>f \<in> set (sr_fills r). sound_fill f \<and> covered (option_ids r) (sr_futures_instrument_id r) f)
    \<and> (\<forall>i. net_quantity i (sr_fills r) = 0)"
proof -
  from simulation_closed [OF assms] obtain S l0 es hs cs k tail st cfg h1 h2 h3 h4 where
    c: "closed_run S (sr_market_states r) l0 es hs cs k tail st"
    and fin: "finish_run S cfg h1 h2 h3 h4 (sr_market_states r) tol st = Inr r" by blast
  note f = finish_run_fields [OF fin]
  have "option_ids r = map oc_contract_id (su_contracts S)" by (simp add: option_ids_def su_contracts_def f)
  with closed_run_fills [OF c] f(3,4) show ?thesis by simp
qed

theorem run_closes_every_position_witness:
  "\<exists>r. demo_run = Inr r \<and> net_quantity (sr_futures_instrument_id r) (sr_fills r) = 0"
  using demo_run_result run_closes_every_position unfolding demo_run_def by blast

text \<open>C1. The accounts of a run reconcile to the last paisa: as long as nothing overflows the cents
  the decimals can hold, the terminal portfolio value is the starting NAV plus what the fills
  brought in net of costs, the reconciliation has residual zero, the status is \<open>complete\<close>, the exit
  reason is not \<open>reconciliation_failure\<close>, and the ledger has one entry for the capital and two for
  each fill.\<close>

theorem run_reconciles:
  assumes "run_simulation E strategy market path policy_id option_costs futures_costs kill tol = Inr r"
    and "sound_run strategy option_costs futures_costs"
    and "sr_futures_instrument_id r \<notin> set (option_ids r)"
    and "dval (sr_starting_nav r) + 2 * sum_list (map fill_size (sr_fills r)) < cents_bound"
  shows "sr_status r = ''complete'' \<and> rn_residual (sr_reconciliation r) = 0
    \<and> dval (sr_terminal_portfolio_value r) = dval (sr_starting_nav r) + net_of_fills (sr_fills r)
    \<and> dval (rn_terminal_pnl (sr_reconciliation r)) = net_of_fills (sr_fills r)
    \<and> length (sr_ledger_entries r) = 1 + 2 * length (sr_fills r)"
proof -
  from simulation_closed [OF assms(1-3)] obtain S l0 es hs cs k tail st cfg h1 h2 h3 h4 where
    c: "closed_run S (sr_market_states r) l0 es hs cs k tail st"
    and fin: "finish_run S cfg h1 h2 h3 h4 (sr_market_states r) tol st = Inr r" and tol: "0 < tol" by blast
  note f = finish_run_fields [OF fin]
  have bound: "dval (pl_starting_nav (st_ledger st)) + 2 * sum_list (map fill_size (st_fills st)) < cents_bound"
    using assms(4) f(4,9) by simp
  note a = closed_run_accounts [OF c bound]
  have tv: "sr_terminal_portfolio_value r = Dec (dval (sr_starting_nav r) + net_of_fills (sr_fills r))"
    using a(1) f(4,9,11) by simp
  have ex: "\<forall>f \<in> set (sr_fills r). exact_fill f" using a(2) f(4) by simp
  note sb = sums_bound [OF ex]
  have net: "\<bar>net_of_fills (sr_fills r)\<bar> \<le> sum_list (map fill_size (sr_fills r))"
    "in_cents (net_of_fills (sr_fills r))"
    using sb unfolding net_of_fills_def by (linarith, auto intro: in_cents_diff)
  have nn: "0 \<le> dval (sr_starting_nav r)" using a(4) f(9) by simp
  then have "\<bar>net_of_fills (sr_fills r)\<bar> < cents_bound" using net(1) assms(4) by linarith
  then have pnl: "sr_terminal_portfolio_value r - sr_starting_nav r = Dec (net_of_fills (sr_fills r))"
    using net(2) by (simp add: tv minus_decimal_def ctx_cents)
  have cov: "\<forall>x \<in> set (sr_fills r). covered (map oc_contract_id (su_contracts S)) (su_futures_id S) x"
    using closed_run_fills(1) [OF c] f(4) by simp
  have sep: "su_futures_id S \<notin> set (map oc_contract_id (su_contracts S))"
    using assms(3) f(1-3) by (simp add: option_ids_def su_contracts_def)
  have "\<bar>net_of_fills (sr_fills r)\<bar> + sum_list (map fill_size (sr_fills r)) < cents_bound"
    using net(1) nn assms(4) by linarith
  then obtain rc where rc: "reconcile (Dec (net_of_fills (sr_fills r))) (map snd (pl_positions (st_ledger st))) (sr_fills r)
      (map oc_contract_id (su_contracts S)) (su_futures_id S) tol = Inr rc" "rn_residual rc = 0"
    "rn_terminal_pnl rc = Dec (net_of_fills (sr_fills r))" "rn_reconciled rc"
    using reconcile_exact [OF ex cov sep, of "Dec (net_of_fills (sr_fills r))" _ tol] net(2) tol
    by (auto simp: cents_def zero_decimal_def less_decimal_def)
  with f(12) pnl have "sr_reconciliation r = rc" by simp
  then show ?thesis using rc f(4,13,15) tv a(5) by simp
qed

theorem run_reconciles_witness:
  "\<exists>r. demo_run = Inr r \<and> sr_status r = ''complete'' \<and> dval (sr_terminal_portfolio_value r) = 999994"
proof -
  from demo_run_result obtain r where r: "demo_run = Inr r" "sound_run demo_strategy demo_costs demo_costs"
    "sr_futures_instrument_id r \<notin> set (option_ids r)" "sr_starting_nav r = Dec 1000000"
    "sum_list (map fill_size (sr_fills r)) = 266" "net_of_fills (sr_fills r) = - 6" by blast
  have "dval (sr_starting_nav r) + 2 * sum_list (map fill_size (sr_fills r)) < cents_bound"
    by (simp add: r cents_bound_def)
  from run_reconciles [OF r(1) [unfolded demo_run_def] r(2,3) this] r show ?thesis by auto
qed

text \<open>C19. The event log of a run is complete: its entries are numbered from one and all about the
  position; there is one \<open>decision_completed\<close> for each recorded hedge decision; and it ends, at one
  of the market states, with the only \<open>exit_required\<close>, preceded by \<open>risk_control_failed\<close> when the
  delta could not be hedged. With the kill switch engaged the run exits at the first state without
  any hedge.\<close>

theorem run_log_ends_with_exit:
  assumes "run_simulation E strategy market path policy_id option_costs futures_costs kill tol = Inr r"
    and "sound_run strategy option_costs futures_costs"
    and "sr_futures_instrument_id r \<notin> set (option_ids r)"
  shows "map evt_sequence (sr_events r) = map int [1..<Suc (length (sr_events r))]
    \<and> (\<forall>e \<in> set (sr_events r). evt_entity_id e = ''position-'' @ sr_run_id r)
    \<and> (\<exists>k < length (sr_market_states r). \<exists>tail \<in> {[''exit_required''],
          [''decision_completed'', ''risk_control_failed'', ''exit_required'']}.
         map evt_event_type (sr_events r) = replicate k ''decision_completed'' @ tail
         \<and> int (length (sr_hedge_decisions r)) = int k + (if tail = [''exit_required''] then 0 else 1)
         \<and> (kill \<longrightarrow> k = 0 \<and> sr_hedge_decisions r = [] \<and> sr_hedge_count r = 0))"
proof -
  from simulation_closed [OF assms] obtain S l0 es hs cs k tail st cfg h1 h2 h3 h4 where
    c: "closed_run S (sr_market_states r) l0 es hs cs k tail st"
    and fin: "finish_run S cfg h1 h2 h3 h4 (sr_market_states r) tol st = Inr r"
    and S: "su_kill_switch S = kill" "su_position_id S = ''position-'' @ sr_run_id r" by blast
  note f = finish_run_fields [OF fin]
  from c have log: "k < length (sr_market_states r)" "exit_tail tail"
    "map evt_event_type (sr_events r) = replicate k ''decision_completed'' @ tail"
    "length (filter (\<lambda>t. t = ''decision_completed'') (map evt_event_type (sr_events r))) = length (sr_hedge_decisions r)"
    "numbered S (sr_events r)" "kill \<longrightarrow> hs = [] \<and> sr_hedge_decisions r = [] \<and> k = 0"
    "sr_hedge_count r = int (length hs)"
    unfolding closed_run_def event_types_def S(1) f(5,6,7) by blast+
  have "length (sr_hedge_decisions r) = k + length (filter (\<lambda>t. t = ''decision_completed'') tail)"
    using log(4) unfolding log(3) by simp
  then have n: "int (length (sr_hedge_decisions r)) = int k + (if tail = [''exit_required''] then 0 else 1)"
    using log(2) by (auto simp: exit_tail_def)
  have "tail \<in> {[''exit_required''], [''decision_completed'', ''risk_control_failed'', ''exit_required'']}"
    using log(2) by (simp add: exit_tail_def)
  moreover have "kill \<longrightarrow> k = 0 \<and> sr_hedge_decisions r = [] \<and> sr_hedge_count r = 0" using log(6,7) by auto
  ultimately have "\<exists>k < length (sr_market_states r). \<exists>tail \<in> {[''exit_required''],
          [''decision_completed'', ''risk_control_failed'', ''exit_required'']}.
         map evt_event_type (sr_events r) = replicate k ''decision_completed'' @ tail
         \<and> int (length (sr_hedge_decisions r)) = int k + (if tail = [''exit_required''] then 0 else 1)
         \<and> (kill \<longrightarrow> k = 0 \<and> sr_hedge_decisions r = [] \<and> sr_hedge_count r = 0)"
    using log(1,3) n by blast
  then show ?thesis using log(5) S(2) by (simp add: numbered_def)
qed

theorem run_log_ends_with_exit_witness:
  "\<exists>r. demo_run = Inr r \<and> (\<exists>k tail. map evt_event_type (sr_events r) = replicate k ''decision_completed'' @ tail
     \<and> last tail = ''exit_required'')"
proof -
  from demo_run_result obtain r where r: "demo_run = Inr r" "sound_run demo_strategy demo_costs demo_costs"
    "sr_futures_instrument_id r \<notin> set (option_ids r)" by blast
  from run_log_ends_with_exit [OF r(1) [unfolded demo_run_def] r(2,3)] r(1) show ?thesis by fastforce
qed



end
