(* ===== verification/Metrics.thy ===== *)
theory Metrics
  imports Example
begin

text \<open>
  \<open>app/simulation/metrics.py\<close>: the summary of a simulation result.

  \<open>drawdown_step\<close> is the body of the loop over the portfolio values; \<open>drawdowns\<close> is what the loop
  is meant to compute, the falls from any earlier value of the curve to any later one.
\<close>

record simulation_summary =
  sm_run_id :: string
  sm_status :: string
  sm_policy_id :: string
  sm_starting_nav :: decimal
  sm_terminal_portfolio_value :: decimal
  sm_terminal_net_pnl :: decimal
  sm_gross_option_pnl :: decimal
  sm_gross_futures_hedge_pnl :: decimal
  sm_cash_financing_pnl :: decimal
  sm_option_transaction_costs :: decimal
  sm_futures_transaction_costs :: decimal
  sm_total_transaction_costs :: decimal
  sm_hedge_count :: int
  sm_turnover :: decimal
  sm_maximum_absolute_pre_hedge_net_delta :: "pyfloat option"
  sm_mean_absolute_pre_hedge_net_delta :: "pyfloat option"
  sm_pre_hedge_net_delta_rmse :: "pyfloat option"
  sm_maximum_absolute_post_hedge_residual_delta :: "pyfloat option"
  sm_mean_absolute_post_hedge_residual_delta :: "pyfloat option"
  sm_post_hedge_residual_delta_rmse :: "pyfloat option"
  sm_maximum_drawdown :: decimal
  sm_position_holding_duration_seconds :: pyfloat
  sm_delta_contribution :: pyfloat
  sm_gamma_contribution :: pyfloat
  sm_theta_contribution :: pyfloat
  sm_vega_contribution :: pyfloat
  sm_attribution_residual :: pyfloat
  sm_ledger_reconciliation_residual :: decimal
  sm_exit_reason :: string
  sm_units :: "(string \<times> string) list"

section \<open>Definitions\<close>

definition value_curve :: "simulation_result \<Rightarrow> decimal list" where
  "value_curve r =
     sr_starting_nav r
       # [v. d \<leftarrow> sr_hedge_decisions r, Some v \<leftarrow> [hd_portfolio_value_before_fill d, hd_portfolio_value_after_fill d]]
       @ [sr_terminal_portfolio_value r]"

definition drawdown_step :: "decimal \<times> decimal \<Rightarrow> decimal \<Rightarrow> decimal \<times> decimal" where
  "drawdown_step s current =
     (let peak = pymax (fst s) current in (peak, pymax (snd s) (peak - current)))"

definition maximum_drawdown :: "decimal list \<Rightarrow> decimal" where
  "maximum_drawdown vs = snd (foldl drawdown_step (hd vs, 0) vs)"

definition maximum_absolute :: "pyfloat list \<Rightarrow> pyfloat option" where
  "maximum_absolute xs = (case map abs xs of [] \<Rightarrow> None | x # xs' \<Rightarrow> Some (foldl pymax x xs'))"

definition mean_absolute :: "pyfloat list \<Rightarrow> pyfloat option result" where
  "mean_absolute xs =
     (if xs = [] then Inr None
      else rbind (float_div (float_sum (map abs xs)) (float_of_int (int (length xs)))) (\<lambda>m. Inr (Some m)))"

definition root_mean_square :: "libm \<Rightarrow> pyfloat list \<Rightarrow> pyfloat option result" where
  "root_mean_square L xs =
     (if xs = [] then Inr None
      else rbind (float_div (float_sum (map (\<lambda>x. x * x) xs)) (float_of_int (int (length xs)))) (\<lambda>m.
           rbind (m_sqrt L m) (\<lambda>r. Inr (Some r))))"

definition futures_turnover :: "simulation_result \<Rightarrow> decimal result" where
  "futures_turnover r =
     money (decimal_sum (map fl_gross_notional
       (filter (\<lambda>f. fl_instrument_id f = sr_futures_instrument_id r) (sr_fills r))))"

definition summary_units :: "(string \<times> string) list" where
  "summary_units =
     [(''money'', ''INR''), (''delta'', ''portfolio_underlying_equivalent_units''),
      (''gamma'', ''portfolio_underlying_equivalent_units_per_INR''), (''theta'', ''INR_per_year''),
      (''vega'', ''INR_per_unit_volatility''), (''duration'', ''seconds''),
      (''turnover'', ''INR_reference_notional'')]"

definition summarize :: "libm \<Rightarrow> simulation_result \<Rightarrow> simulation_summary result" where
  "summarize L r =
     (let pre = map hd_net_delta_before_decision (sr_hedge_decisions r);
          post = map hd_net_delta_after_fill (sr_hedge_decisions r);
          rn = sr_reconciliation r; attribution = sr_pnl_attribution r in
      rbind (futures_turnover r) (\<lambda>turnover.
      rbind (mean_absolute pre) (\<lambda>pre_mean.
      rbind (root_mean_square L pre) (\<lambda>pre_rmse.
      rbind (mean_absolute post) (\<lambda>post_mean.
      rbind (root_mean_square L post) (\<lambda>post_rmse.
      rbind (money (maximum_drawdown (value_curve r))) (\<lambda>drawdown.
      rbind (guard (sr_market_states r = []) IndexError) (\<lambda>_.
      Inr \<lparr>sm_run_id = sr_run_id r, sm_status = sr_status r, sm_policy_id = sr_policy_id r,
           sm_starting_nav = sr_starting_nav r,
           sm_terminal_portfolio_value = sr_terminal_portfolio_value r,
           sm_terminal_net_pnl = rn_terminal_pnl rn,
           sm_gross_option_pnl = rn_gross_option_pnl rn,
           sm_gross_futures_hedge_pnl = rn_gross_futures_pnl rn,
           sm_cash_financing_pnl = rn_cash_financing_pnl rn,
           sm_option_transaction_costs = rn_option_costs rn,
           sm_futures_transaction_costs = rn_futures_costs rn,
           sm_total_transaction_costs = rn_option_costs rn + rn_futures_costs rn,
           sm_hedge_count = sr_hedge_count r, sm_turnover = turnover,
           sm_maximum_absolute_pre_hedge_net_delta = maximum_absolute pre,
           sm_mean_absolute_pre_hedge_net_delta = pre_mean,
           sm_pre_hedge_net_delta_rmse = pre_rmse,
           sm_maximum_absolute_post_hedge_residual_delta = maximum_absolute post,
           sm_mean_absolute_post_hedge_residual_delta = post_mean,
           sm_post_hedge_residual_delta_rmse = post_rmse,
           sm_maximum_drawdown = drawdown,
           sm_position_holding_duration_seconds =
             total_seconds (ms_timestamp (last (sr_market_states r))) (ms_timestamp (hd (sr_market_states r))),
           sm_delta_contribution = float_sum (map ga_delta_contribution attribution),
           sm_gamma_contribution = float_sum (map ga_gamma_contribution attribution),
           sm_theta_contribution = float_sum (map ga_theta_contribution attribution),
           sm_vega_contribution = float_sum (map ga_vega_contribution attribution),
           sm_attribution_residual = float_sum (map ga_residual attribution),
           sm_ledger_reconciliation_residual = rn_residual rn, sm_exit_reason = sr_exit_reason r,
           sm_units = summary_units\<rparr>))))))))"

lemma drawdown_step_pair: "drawdown_step (p, e) v = (pymax p v, pymax e (pymax p v - v))"
  by (simp add: drawdown_step_def Let_def)

section \<open>The drawdown\<close>

definition drawdowns :: "decimal list \<Rightarrow> rat set" where
  "drawdowns vs = {dval (vs ! i) - dval (vs ! j) |i j. i \<le> j \<and> j < length vs}"

lemma finite_drawdowns [simp]: "finite (drawdowns vs)"
proof -
  have "drawdowns vs \<subseteq> (\<lambda>(i, j). dval (vs ! i) - dval (vs ! j)) ` ({..<length vs} \<times> {..<length vs})"
    by (auto simp: drawdowns_def)
  then show ?thesis by (rule finite_subset) simp
qed

lemma drawdowns_snoc:
  "drawdowns (vs @ [v]) = drawdowns vs \<union> (\<lambda>x. dval x - dval v) ` set (vs @ [v])"
proof (intro equalityI subsetI)
  fix q assume "q \<in> drawdowns (vs @ [v])"
  then obtain i j where ij: "i \<le> j" "j < Suc (length vs)"
    and q: "q = dval ((vs @ [v]) ! i) - dval ((vs @ [v]) ! j)" by (auto simp: drawdowns_def)
  show "q \<in> drawdowns vs \<union> (\<lambda>x. dval x - dval v) ` set (vs @ [v])"
  proof (cases "j = length vs")
    case True
    have "i < length (vs @ [v])" using ij by simp
    then have "(vs @ [v]) ! i \<in> set (vs @ [v])" by (rule nth_mem)
    with True q show ?thesis by auto
  next
    case False
    with ij q have "q = dval (vs ! i) - dval (vs ! j)" "i \<le> j" "j < length vs" by (auto simp: nth_append)
    then have "q \<in> drawdowns vs" unfolding drawdowns_def by blast
    then show ?thesis by simp
  qed
next
  fix q assume "q \<in> drawdowns vs \<union> (\<lambda>x. dval x - dval v) ` set (vs @ [v])"
  then consider "q \<in> drawdowns vs" | x where "x \<in> set (vs @ [v])" "q = dval x - dval v" by blast
  then show "q \<in> drawdowns (vs @ [v])"
  proof cases
    case 1
    then obtain i j where "i \<le> j" "j < length vs" "q = dval (vs ! i) - dval (vs ! j)"
      by (auto simp: drawdowns_def)
    then show ?thesis
      unfolding drawdowns_def by (intro CollectI exI [of _ i] exI [of _ j]) (simp add: nth_append)
  next
    case 2
    then obtain i where "i < length (vs @ [v])" "x = (vs @ [v]) ! i" by (metis in_set_conv_nth)
    with 2 show ?thesis
      unfolding drawdowns_def by (intro CollectI exI [of _ i] exI [of _ "length vs"]) auto
  qed
qed

lemma pymax_dval: "dval (pymax x y) = max (dval x) (dval y)"
  by (auto simp: pymax_def less_decimal_def)

lemma pymax_cents: "cents x \<Longrightarrow> cents y \<Longrightarrow> cents (pymax x y)"
  by (simp add: pymax_def)

text \<open>Amounts the drawdown loop may see: cents, small enough for their differences to be exact.\<close>

definition small_cents :: "decimal \<Rightarrow> bool" where
  "small_cents v \<longleftrightarrow> cents v \<and> \<bar>dval v\<bar> < cents_bound / 2"

lemma small_cents_diff:
  assumes "small_cents x" and "small_cents y"
  shows "dval (x - y) = dval x - dval y" and "in_cents (dval x - dval y)" and "\<bar>dval x - dval y\<bar> < cents_bound"
proof -
  show b: "\<bar>dval x - dval y\<bar> < cents_bound"
    using assms abs_triangle_ineq4 [of "dval x" "dval y"] unfolding small_cents_def by linarith
  show c: "in_cents (dval x - dval y)" using assms by (auto simp: small_cents_def cents_def intro: in_cents_diff)
  show "dval (x - y) = dval x - dval y" using ctx_cents [OF c b] by (simp add: minus_decimal_def)
qed

lemma drawdown_loop:
  assumes "vs \<noteq> []" and "\<forall>v \<in> set vs. small_cents v"
    and "foldl drawdown_step (hd vs, 0) vs = (peak, d)"
  shows "peak \<in> set vs \<and> dval peak = Max (dval ` set vs) \<and> dval d = Max (drawdowns vs)"
  using assms
proof (induction vs arbitrary: peak d rule: rev_nonempty_induct)
  case (single x)
  have "dval (x - x) = 0" using small_cents_diff(1) [of x x] single by simp
  moreover have "drawdowns [x] = {0}" by (auto simp: drawdowns_def)
  ultimately show ?case
    using single by (auto simp: drawdown_step_def pymax_def less_decimal_def Let_def)
next
  case (snoc v vs)
  obtain p e where loop: "foldl drawdown_step (hd vs, 0) vs = (p, e)" by fastforce
  have ih: "p \<in> set vs" "dval p = Max (dval ` set vs)" "dval e = Max (drawdowns vs)"
    using snoc.IH [OF _ loop] snoc.prems by auto
  have step: "peak = pymax p v" "d = pymax e (peak - v)"
    using snoc.prems snoc.hyps loop by (auto simp: drawdown_step_pair)
  have mem: "peak \<in> set (vs @ [v])" using ih(1) step(1) by (auto simp: pymax_def)
  have "Max (dval ` set (vs @ [v])) = max (dval v) (Max (dval ` set vs))"
    using snoc.hyps by simp
  then have mx: "dval peak = Max (dval ` set (vs @ [v]))"
    unfolding step(1) pymax_dval ih(2) by (simp add: max.commute)
  have "dval (peak - v) = dval peak - dval v"
    using mem snoc.prems by (intro small_cents_diff) auto
  also have "\<dots> = Max ((\<lambda>q. q - dval v) ` dval ` set (vs @ [v]))"
    unfolding mx by (rule mono_Max_commute) (auto simp: mono_def)
  also have "\<dots> = Max ((\<lambda>x. dval x - dval v) ` set (vs @ [v]))" by (simp add: image_image)
  finally have fall: "dval (peak - v) = Max ((\<lambda>x. dval x - dval v) ` set (vs @ [v]))" .
  have "drawdowns vs \<noteq> {}" using snoc.hyps by (auto simp: drawdowns_def)
  then have "Max (drawdowns (vs @ [v])) = max (Max (drawdowns vs)) (Max ((\<lambda>x. dval x - dval v) ` set (vs @ [v])))"
    unfolding drawdowns_snoc by (intro Max_Un) auto
  then show ?case unfolding step(2) pymax_dval ih(3) fall using mem mx by simp
qed

text \<open>C25. The reported maximum drawdown is the largest fall of the portfolio value from any earlier to
  any later point of the curve (starting NAV, every recorded decision, terminal value), computed in
  one pass; it is never negative and bounds the loss of the whole run.\<close>

theorem summary_drawdown_is_largest_fall:
  assumes "summarize L r = Inr s" and "\<forall>v \<in> set (value_curve r). small_cents v"
  shows "dval (sm_maximum_drawdown s) = Max (drawdowns (value_curve r))
    \<and> 0 \<le> dval (sm_maximum_drawdown s)
    \<and> dval (sr_starting_nav r) - dval (sr_terminal_portfolio_value r) \<le> dval (sm_maximum_drawdown s)"
proof -
  let ?vs = "value_curve r"
  have ne: "?vs \<noteq> []" by (simp add: value_curve_def)
  obtain peak d where loop: "foldl drawdown_step (hd ?vs, 0) ?vs = (peak, d)" by fastforce
  have d: "dval d = Max (drawdowns ?vs)" using drawdown_loop [OF ne assms(2) loop] by blast
  have nonempty: "drawdowns ?vs \<noteq> {}" using ne by (auto simp: drawdowns_def)
  then have "dval d \<in> drawdowns ?vs" unfolding d by (intro Max_in) simp_all
  then obtain i j where ij: "i \<le> j" "j < length ?vs" "dval d = dval (?vs ! i) - dval (?vs ! j)"
    by (auto simp: drawdowns_def)
  have "in_cents (dval d)" "\<bar>dval d\<bar> < cents_bound"
    using small_cents_diff(2,3) [of "?vs ! i" "?vs ! j"] assms(2) ij by simp_all
  then have "money d = Inr d" by (simp add: money_def quantize_cents cent.rnd_fix)
  with assms(1) loop have s: "sm_maximum_drawdown s = d"
    by (auto simp: summarize_def maximum_drawdown_def Let_def result_simps)
  have "0 = dval (?vs ! 0) - dval (?vs ! 0)" by simp
  then have "0 \<in> drawdowns ?vs" using ne unfolding drawdowns_def by (intro CollectI exI [of _ 0]) auto
  then have "0 \<le> Max (drawdowns ?vs)" by simp
  moreover have "dval (sr_starting_nav r) - dval (sr_terminal_portfolio_value r) \<in> drawdowns ?vs"
    unfolding drawdowns_def
    by (intro CollectI exI [of _ 0] exI [of _ "length ?vs - 1"])
       (auto simp: value_curve_def nth_append)
  then have "dval (sr_starting_nav r) - dval (sr_terminal_portfolio_value r) \<le> Max (drawdowns ?vs)" by simp
  ultimately show ?thesis by (simp add: s d)
qed

definition demo_marked :: "simulation_result \<Rightarrow> hedge_decision \<Rightarrow> simulation_result" where
  "demo_marked r d = r\<lparr>sr_starting_nav := Dec 100, sr_terminal_portfolio_value := Dec 110,
     sr_hedge_decisions := [d\<lparr>hd_net_delta_before_decision := Fl 1, hd_net_delta_after_fill := Fl 0,
        hd_portfolio_value_before_fill := Some (Dec 120), hd_portfolio_value_after_fill := Some (Dec 90)\<rparr>],
     sr_fills := [], sr_market_states := [demo_state, demo_state2]\<rparr>"

theorem summary_drawdown_is_largest_fall_witness:
  "\<forall>r d. \<exists>s. summarize flat_libm (demo_marked r d) = Inr s \<and> dval (sm_maximum_drawdown s) = 30"
proof (intro allI)
  fix r d
  let ?r = "demo_marked r d"
  have curve: "value_curve ?r = [Dec 100, Dec 120, Dec 90, Dec 110]"
    by (simp add: value_curve_def demo_marked_def)
  have small: "\<forall>v \<in> set (value_curve ?r). small_cents v"
    by (simp add: curve small_cents_def cents_def cents_bound_def)
  have turnover: "futures_turnover ?r = Inr (Dec 0)"
    by (simp add: futures_turnover_def demo_marked_def decimal_sum_def money_def quantize_def zero_decimal_def)
  have deltas: "map hd_net_delta_before_decision (sr_hedge_decisions ?r) = [Fl 1]"
    "map hd_net_delta_after_fill (sr_hedge_decisions ?r) = [Fl 0]" "sr_market_states ?r \<noteq> []"
    by (simp_all add: demo_marked_def)
  have means: "mean_absolute [x] = Inr (Some x)" "root_mean_square flat_libm [x] = Inr (Some x)"
    if "x = Fl 1 \<or> x = Fl 0" for x
    using that by (auto simp: mean_absolute_def root_mean_square_def float_sum_def float_ops float_of_int_def flat_libm_def)
  have "maximum_drawdown (value_curve ?r) = Dec 30"
    by (simp add: maximum_drawdown_def curve drawdown_step_pair pymax_def decimal_ops)
  then have "money (maximum_drawdown (value_curve ?r)) = Inr (Dec 30)"
    by (simp add: money_def quantize_cents cents_bound_def)
  then have "\<exists>s. summarize flat_libm ?r = Inr s"
    using means turnover deltas by (simp add: summarize_def Let_def)
  then obtain s where s: "summarize flat_libm ?r = Inr s" by blast
  have "drawdowns (value_curve ?r) = {0, -20, 10, -10, 30}"
    using drawdowns_snoc [of "[]" "Dec 100"] drawdowns_snoc [of "[Dec 100]" "Dec 120"]
      drawdowns_snoc [of "[Dec 100, Dec 120]" "Dec 90"] drawdowns_snoc [of "[Dec 100, Dec 120, Dec 90]" "Dec 110"]
    unfolding curve by (auto simp: drawdowns_def)
  with summary_drawdown_is_largest_fall [OF s small] s show "\<exists>s. summarize flat_libm ?r = Inr s \<and> dval (sm_maximum_drawdown s) = 30"
    by simp
qed

end
