(* ===== verification/Sessions.thy ===== *)
theory Sessions
  imports Identity
begin

text \<open>
  \<open>app/instruments/sessions.py\<close> and \<open>catalogue.py\<close>: trading sessions and their versions, instrument
  catalogue versions, and when a version is visible.
  The lookup of the IANA database is the parameter \<open>zones\<close>.
\<close>

datatype session_kind = RegularSession | SpecialSession
datatype session_status = Scheduled | ClosedSession | Cancelled

fun session_kind_value :: "session_kind \<Rightarrow> string" where
  "session_kind_value RegularSession = ''regular''"
| "session_kind_value SpecialSession = ''special''"

fun session_status_value :: "session_status \<Rightarrow> string" where
  "session_status_value Scheduled = ''scheduled''"
| "session_status_value ClosedSession = ''closed''"
| "session_status_value Cancelled = ''cancelled''"

record trading_session_identity =
  ts_exchange :: string
  ts_session_date :: pydate
  ts_session_kind :: session_kind

definition make_session_identity ::
  "string \<Rightarrow> pydate \<Rightarrow> session_kind \<Rightarrow> trading_session_identity result" where
  "make_session_identity exchange session_date session_kind =
     rbind (guard (strip exchange = []) (ValueError ''exchange is required'')) (\<lambda>_.
     Inr \<lparr>ts_exchange = exchange, ts_session_date = session_date, ts_session_kind = session_kind\<rparr>)"

definition session_id :: "(string \<Rightarrow> string) \<Rightarrow> trading_session_identity \<Rightarrow> string result" where
  "session_id sha256 s =
     stable_hash sha256 (str_dict
       [(''entity'', PStr ''trading_session''), (''exchange'', PStr (ts_exchange s)),
        (''session_date'', PDate (ts_session_date s)),
        (''session_kind'', PStr (session_kind_value (ts_session_kind s)))])"

record trading_session_version =
  sv_session_id :: string
  sv_pre_open_at :: "pydatetime option"
  sv_open_at :: pydatetime
  sv_close_at :: pydatetime
  sv_post_close_at :: "pydatetime option"
  sv_timezone :: string
  sv_status :: session_status
  sv_recorded_at :: pydatetime
  sv_superseded_at :: "pydatetime option"

definition make_session_version :: "zoneinfo \<Rightarrow> trading_session_version \<Rightarrow> trading_session_version result" where
  "make_session_version zones s =
     rbind (guard (strip (sv_session_id s) = []) (ValueError ''session_id is required'')) (\<lambda>_.
     rbind (guard (zones (sv_timezone s) = None) (ValueError ''timezone must be an IANA timezone'')) (\<lambda>_.
     rbind (guard (sv_timezone s \<noteq> ''Asia/Kolkata'')
              (ValueError ''DATA-1.1 session timezone must be Asia/Kolkata'')) (\<lambda>_.
     rbind (optional_utc (sv_pre_open_at s) ''pre_open_at'') (\<lambda>pre_open_at.
     rbind (to_utc (sv_open_at s) ''open_at'') (\<lambda>open_at.
     rbind (to_utc (sv_close_at s) ''close_at'') (\<lambda>close_at.
     rbind (optional_utc (sv_post_close_at s) ''post_close_at'') (\<lambda>post_close_at.
     rbind (to_utc (sv_recorded_at s) ''recorded_at'') (\<lambda>recorded_at.
     rbind (optional_utc (sv_superseded_at s) ''superseded_at'') (\<lambda>superseded_at.
     rbind (guard (\<not> earlier open_at close_at) (ValueError ''open_at must precede close_at'')) (\<lambda>_.
     rbind (guard (case pre_open_at of None \<Rightarrow> False | Some t \<Rightarrow> earlier open_at t)
              (ValueError ''pre_open_at must not follow open_at'')) (\<lambda>_.
     rbind (guard (case post_close_at of None \<Rightarrow> False | Some t \<Rightarrow> earlier t close_at)
              (ValueError ''post_close_at must not precede close_at'')) (\<lambda>_.
     rbind (guard (case superseded_at of None \<Rightarrow> False | Some t \<Rightarrow> \<not> earlier recorded_at t)
              (ValueError ''superseded_at must be after recorded_at'')) (\<lambda>_.
     Inr (s\<lparr>sv_pre_open_at := pre_open_at, sv_open_at := open_at, sv_close_at := close_at,
           sv_post_close_at := post_close_at, sv_recorded_at := recorded_at,
           sv_superseded_at := superseded_at\<rparr>))))))))))))))"

definition session_version_id :: "(string \<Rightarrow> string) \<Rightarrow> trading_session_version \<Rightarrow> string result" where
  "session_version_id sha256 s =
     stable_hash sha256 (str_dict
       [(''entity'', PStr ''trading_session_version''), (''session_id'', PStr (sv_session_id s)),
        (''pre_open_at'', optional_time (sv_pre_open_at s)), (''open_at'', PDateTime (sv_open_at s)),
        (''close_at'', PDateTime (sv_close_at s)), (''post_close_at'', optional_time (sv_post_close_at s)),
        (''timezone'', PStr (sv_timezone s)), (''status'', PStr (session_status_value (sv_status s)))])"

definition session_visible_at :: "trading_session_version \<Rightarrow> pydatetime option \<Rightarrow> bool result" where
  "session_visible_at s known_as_of =
     rbind (optional_utc known_as_of ''known_as_of'') (\<lambda>knowledge_time.
     Inr (case knowledge_time of
            None \<Rightarrow> True
          | Some k \<Rightarrow> \<not> earlier k (sv_recorded_at s)
              \<and> (case sv_superseded_at s of None \<Rightarrow> True | Some t \<Rightarrow> earlier k t)))"

section \<open>Catalogue versions\<close>

record catalogue_version =
  cat_provider :: string
  cat_source_content_hash :: string
  cat_schema_version :: int
  cat_effective_from :: pydatetime
  cat_effective_until :: "pydatetime option"
  cat_published_at :: "pydatetime option"
  cat_recorded_at :: pydatetime
  cat_row_count :: int

definition make_catalogue_version :: "catalogue_version \<Rightarrow> catalogue_version result" where
  "make_catalogue_version c =
     rbind (guard (strip (cat_provider c) = [] \<or> strip (cat_source_content_hash c) = [])
              (ValueError ''catalogue provider and source content hash are required'')) (\<lambda>_.
     rbind (guard (cat_schema_version c \<le> 0) (ValueError ''catalogue_schema_version must be positive'')) (\<lambda>_.
     rbind (guard (cat_row_count c < 0) (ValueError ''row_count must be non-negative'')) (\<lambda>_.
     rbind (to_utc (cat_effective_from c) ''effective_from'') (\<lambda>effective_from.
     rbind (optional_utc (cat_effective_until c) ''effective_until'') (\<lambda>effective_until.
     rbind (optional_utc (cat_published_at c) ''published_at'') (\<lambda>published_at.
     rbind (to_utc (cat_recorded_at c) ''recorded_at'') (\<lambda>recorded_at.
     rbind (guard (case effective_until of None \<Rightarrow> False | Some t \<Rightarrow> \<not> earlier effective_from t)
              (ValueError ''effective_until must be after effective_from'')) (\<lambda>_.
     Inr (c\<lparr>cat_effective_from := effective_from, cat_effective_until := effective_until,
           cat_published_at := published_at, cat_recorded_at := recorded_at\<rparr>)))))))))"

definition catalogue_version_id :: "(string \<Rightarrow> string) \<Rightarrow> catalogue_version \<Rightarrow> string result" where
  "catalogue_version_id sha256 c =
     stable_hash sha256 (str_dict
       [(''entity'', PStr ''catalogue_version''), (''provider'', PStr (cat_provider c)),
        (''source_content_hash'', PStr (cat_source_content_hash c)),
        (''catalogue_schema_version'', PInt (cat_schema_version c)),
        (''effective_from'', PDateTime (cat_effective_from c)),
        (''effective_until'', optional_time (cat_effective_until c)),
        (''published_at'', optional_time (cat_published_at c)), (''row_count'', PInt (cat_row_count c))])"

definition catalogue_visible_at ::
  "catalogue_version \<Rightarrow> pydatetime \<Rightarrow> pydatetime option \<Rightarrow> bool result" where
  "catalogue_visible_at c market_as_of known_as_of =
     rbind (to_utc market_as_of ''market_as_of'') (\<lambda>market_time.
     rbind (optional_utc known_as_of ''known_as_of'') (\<lambda>knowledge_time.
     Inr (\<not> earlier market_time (cat_effective_from c)
          \<and> (case cat_effective_until c of None \<Rightarrow> True | Some t \<Rightarrow> earlier market_time t)
          \<and> (case knowledge_time of None \<Rightarrow> True | Some k \<Rightarrow> \<not> earlier k (cat_recorded_at c)))))"

text \<open>A catalogue version is a bitemporal record that nothing supersedes.\<close>

interpretation catalogue_terms: bitemporal catalogue_visible_at cat_effective_from cat_effective_until
    cat_recorded_at "\<lambda>_. None"
proof
  fix market known and c :: catalogue_version
  assume "tz_aware market" "\<forall>k. known = Some k \<longrightarrow> tz_aware k"
  then show "catalogue_visible_at c market known
      = Inr (in_force (cat_effective_from c) (cat_effective_until c) market
         \<and> (case known of None \<Rightarrow> True | Some k \<Rightarrow> in_force (cat_recorded_at c) None k))"
    by (cases market; cases known)
       (auto simp: catalogue_visible_at_def in_force_def earlier_def to_utc_def optional_utc_def astimezone_def
         not_less split: option.splits)
qed (simp add: catalogue_visible_at_def to_utc_def)

section \<open>What validation establishes\<close>

text \<open>A validated session is in trading order and known from before it is superseded.\<close>

lemma session_version_ordered:
  assumes "make_session_version zones s = Inr v"
  shows "earlier (sv_open_at v) (sv_close_at v)"
    and "sv_pre_open_at v = Some p \<Longrightarrow> \<not> earlier (sv_open_at v) p"
    and "sv_post_close_at v = Some q \<Longrightarrow> \<not> earlier q (sv_close_at v)"
    and "sv_superseded_at v = Some t \<Longrightarrow> earlier (sv_recorded_at v) t"
    and "in_utc (sv_open_at v)" and "in_utc (sv_close_at v)" and "in_utc (sv_recorded_at v)"
proof -
  from assms obtain pre op cl post rec sup where
    utc: "to_utc (sv_open_at s) ''open_at'' = Inr op" "to_utc (sv_close_at s) ''close_at'' = Inr cl"
      "to_utc (sv_recorded_at s) ''recorded_at'' = Inr rec"
    and ord: "\<not> \<not> earlier op cl" "\<not> (case pre of None \<Rightarrow> False | Some t \<Rightarrow> earlier op t)"
      "\<not> (case post of None \<Rightarrow> False | Some t \<Rightarrow> earlier t cl)"
      "\<not> (case sup of None \<Rightarrow> False | Some t \<Rightarrow> \<not> earlier rec t)"
    and v: "Inr (s\<lparr>sv_pre_open_at := pre, sv_open_at := op, sv_close_at := cl, sv_post_close_at := post,
        sv_recorded_at := rec, sv_superseded_at := sup\<rparr>) = (Inr v :: trading_session_version result)"
    unfolding make_session_version_def rbind_eq_Inr guard_eq_Inr by blast
  from v have v': "v = s\<lparr>sv_pre_open_at := pre, sv_open_at := op, sv_close_at := cl, sv_post_close_at := post,
        sv_recorded_at := rec, sv_superseded_at := sup\<rparr>" by simp
  show "earlier (sv_open_at v) (sv_close_at v)"
    and "sv_pre_open_at v = Some p \<Longrightarrow> \<not> earlier (sv_open_at v) p"
    and "sv_post_close_at v = Some q \<Longrightarrow> \<not> earlier q (sv_close_at v)"
    and "sv_superseded_at v = Some t \<Longrightarrow> earlier (sv_recorded_at v) t"
    using ord by (simp_all add: v')
  show "in_utc (sv_open_at v)" and "in_utc (sv_close_at v)" and "in_utc (sv_recorded_at v)"
    using utc by (simp_all add: v' to_utc_Inr)
qed

end
