(* ===== verification/Temporal.thy ===== *)
theory Temporal
  imports Sessions Keyed
begin

text \<open>
  \<open>app/instruments/temporal_records.py\<close>: append-only temporal records, the supersession graph of the
  visible ones, and the resolution of the state that was current at a knowledge time.

  A record carries its \<open>record_id\<close>, which the source recomputes from the frozen fields. Dictionaries
  are association lists in insertion order where they are iterated, maps otherwise. The two
  \<open>while\<close> loops walk along the graph with as much fuel as there are records; \<open>Diverges\<close> is what a
  walk that needed more would return, and it is shown that none does.

  The source raises subclasses of \<open>ValueError\<close>: \<open>NamedError\<close> carries their names.
\<close>

section \<open>Records\<close>

datatype temporal_record_kind = CatalogueVersionRecord | InstrumentVersionRecord | ProviderMappingRecord
  | TradingSessionVersionRecord

fun record_kind_value :: "temporal_record_kind \<Rightarrow> string" where
  "record_kind_value CatalogueVersionRecord = ''catalogue_version''"
| "record_kind_value InstrumentVersionRecord = ''instrument_version''"
| "record_kind_value ProviderMappingRecord = ''provider_mapping''"
| "record_kind_value TradingSessionVersionRecord = ''trading_session_version''"

record temporal_record =
  tr_kind :: temporal_record_kind
  tr_semantic_id :: string
  tr_scope_id :: string
  tr_recorded_at :: pydatetime
  tr_supersedes_record_id :: "string option"
  tr_source_provenance_id :: "string option"
  tr_record_id :: string

definition record_payload ::
  "temporal_record_kind \<Rightarrow> string \<Rightarrow> string \<Rightarrow> pydatetime \<Rightarrow> string option \<Rightarrow> string option \<Rightarrow> py_value" where
  "record_payload kind semantic_id scope_id recorded_at supersedes provenance =
     str_dict
       [(''entity'', PStr (record_kind_value kind @ ''_record'')), (''semantic_id'', PStr semantic_id),
        (''scope_id'', PStr scope_id), (''recorded_at'', PDateTime recorded_at),
        (''supersedes_record_id'', optional_text supersedes),
        (''source_provenance_id'', optional_text provenance)]"

definition make_temporal_record ::
  "(string \<Rightarrow> string) \<Rightarrow> temporal_record_kind \<Rightarrow> string \<Rightarrow> string \<Rightarrow> pydatetime \<Rightarrow> string option \<Rightarrow> string option
   \<Rightarrow> temporal_record result" where
  "make_temporal_record sha256 kind semantic_id scope_id recorded_at supersedes provenance =
     rbind (guard (strip semantic_id = [] \<or> strip scope_id = [])
              (ValueError ''temporal semantic and scope identities are required'')) (\<lambda>_.
     rbind (guard (case supersedes of None \<Rightarrow> False | Some s \<Rightarrow> strip s = [])
              (ValueError ''supersedes_record_id must not be blank'')) (\<lambda>_.
     rbind (guard (case provenance of None \<Rightarrow> False | Some s \<Rightarrow> strip s = [])
              (ValueError ''source_provenance_id must not be blank'')) (\<lambda>_.
     rbind (to_utc recorded_at ''recorded_at'') (\<lambda>recorded.
     rbind (stable_hash sha256 (record_payload kind semantic_id scope_id recorded supersedes provenance))
       (\<lambda>record_id.
     rbind (guard (supersedes = Some record_id) (ValueError ''a temporal record cannot supersede itself''))
       (\<lambda>_.
     Inr \<lparr>tr_kind = kind, tr_semantic_id = semantic_id, tr_scope_id = scope_id, tr_recorded_at = recorded,
          tr_supersedes_record_id = supersedes, tr_source_provenance_id = provenance,
          tr_record_id = record_id\<rparr>))))))"

record 'v temporal_state =
  ts_record :: temporal_record
  ts_value :: 'v

abbreviation ts_id :: "'v temporal_state \<Rightarrow> string" where
  "ts_id s \<equiv> tr_record_id (ts_record s)"

abbreviation ts_supersedes :: "'v temporal_state \<Rightarrow> string option" where
  "ts_supersedes s \<equiv> tr_supersedes_record_id (ts_record s)"

abbreviation ts_recorded :: "'v temporal_state \<Rightarrow> pydatetime" where
  "ts_recorded s \<equiv> tr_recorded_at (ts_record s)"

section \<open>Records of the modelled entities\<close>

definition catalogue_temporal_record ::
  "(string \<Rightarrow> string) \<Rightarrow> catalogue_version \<Rightarrow> string option \<Rightarrow> temporal_record result" where
  "catalogue_temporal_record sha256 c supersedes =
     rbind (catalogue_version_id sha256 c) (\<lambda>semantic_id.
     make_temporal_record sha256 CatalogueVersionRecord semantic_id (cat_provider c) (cat_recorded_at c)
       supersedes (Some (cat_source_content_hash c)))"

definition instrument_version_temporal_record ::
  "(string \<Rightarrow> string) \<Rightarrow> contract_version \<Rightarrow> string option \<Rightarrow> temporal_record result" where
  "instrument_version_temporal_record sha256 v supersedes =
     rbind (guard (cm_superseded_at (cv_metadata v) \<noteq> None)
              (ValueError ''superseded_at is derived and cannot be persisted directly'')) (\<lambda>_.
     rbind (version_id sha256 v) (\<lambda>semantic_id.
     make_temporal_record sha256 InstrumentVersionRecord semantic_id (cv_subject_id v)
       (cm_recorded_at (cv_metadata v)) supersedes (Some (cm_catalogue_version_id (cv_metadata v)))))"

definition provider_mapping_temporal_record ::
  "(string \<Rightarrow> string) \<Rightarrow> provider_contract_mapping \<Rightarrow> string option \<Rightarrow> temporal_record result" where
  "provider_mapping_temporal_record sha256 m supersedes =
     rbind (guard (pm_superseded_at m \<noteq> None)
              (ValueError ''superseded_at is derived and cannot be persisted directly'')) (\<lambda>_.
     rbind (stable_hash sha256 (str_dict
              [(''entity'', PStr ''provider_mapping_scope''), (''provider'', PStr (pm_provider m)),
               (''provider_contract_key'', PStr (pm_provider_contract_key m))])) (\<lambda>scope_id.
     rbind (stable_hash sha256 (str_dict
              [(''provider_payload_hash'', PStr (pm_provider_payload_hash m)),
               (''source_row_identity'', optional_text (pm_source_row_identity m))])) (\<lambda>provenance.
     rbind (mapping_id sha256 m) (\<lambda>semantic_id.
     make_temporal_record sha256 ProviderMappingRecord semantic_id scope_id (pm_recorded_at m) supersedes
       (Some provenance)))))"

definition trading_session_version_temporal_record ::
  "(string \<Rightarrow> string) \<Rightarrow> trading_session_version \<Rightarrow> string option \<Rightarrow> temporal_record result" where
  "trading_session_version_temporal_record sha256 s supersedes =
     rbind (guard (sv_superseded_at s \<noteq> None)
              (ValueError ''superseded_at is derived and cannot be persisted directly'')) (\<lambda>_.
     rbind (session_version_id sha256 s) (\<lambda>semantic_id.
     make_temporal_record sha256 TradingSessionVersionRecord semantic_id (sv_session_id s) (sv_recorded_at s)
       supersedes None))"

section \<open>The supersession graph\<close>

definition graph_error :: "string \<Rightarrow> py_error" where
  "graph_error message = NamedError ''InvalidTemporalGraphError'' message"

definition Diverges :: py_error where
  "Diverges = NamedError ''Diverges'' ''''"

type_synonym 'v record_index = "(string \<times> 'v temporal_state) list"

record 'v temporal_graph =
  tg_indexed :: "'v record_index"
  tg_predecessors :: "string \<rightharpoonup> string option"
  tg_successors :: "string \<rightharpoonup> string"

definition index_state :: "'v temporal_state \<Rightarrow> 'v record_index \<Rightarrow> 'v record_index result" where
  "index_state = put_unique ts_id
     (\<lambda>_. graph_error ''one temporal record identity has conflicting immutable content'')"

definition link_record ::
  "'v record_index \<Rightarrow> string \<times> 'v temporal_state \<Rightarrow> (string \<rightharpoonup> string option) \<times> (string \<rightharpoonup> string)
   \<Rightarrow> ((string \<rightharpoonup> string option) \<times> (string \<rightharpoonup> string)) result" where
  "link_record indexed entry links =
     (let (record_id, state) = entry; (predecessors, successors) = links;
          predecessors' = predecessors(record_id \<mapsto> ts_supersedes state) in
      case ts_supersedes state of
        None \<Rightarrow> Inr (predecessors', successors)
      | Some target_id \<Rightarrow>
          rbind (guard (target_id = record_id)
                   (graph_error ''temporal records cannot supersede themselves'')) (\<lambda>_.
          rbind (lift_opt (graph_error ''visible temporal successor target is missing'')
                   (map_of indexed target_id)) (\<lambda>target.
          rbind (guard (tr_kind (ts_record target) \<noteq> tr_kind (ts_record state)
                    \<or> tr_scope_id (ts_record target) \<noteq> tr_scope_id (ts_record state))
                   (graph_error ''temporal successor crosses an entity scope'')) (\<lambda>_.
          rbind (guard (\<not> earlier (ts_recorded target) (ts_recorded state))
                   (graph_error ''temporal successor must be recorded strictly after its target'')) (\<lambda>_.
          rbind (guard (case successors target_id of None \<Rightarrow> False | Some existing \<Rightarrow> existing \<noteq> record_id)
                   (graph_error ''temporal successor graph contains a branch'')) (\<lambda>_.
          Inr (predecessors', successors(target_id \<mapsto> record_id))))))))"

fun check_acyclic :: "nat \<Rightarrow> (string \<rightharpoonup> string) \<Rightarrow> string list \<Rightarrow> string option \<Rightarrow> unit result" where
  "check_acyclic _ successors visited None = Inr ()"
| "check_acyclic 0 successors visited (Some current) = Inl Diverges"
| "check_acyclic (Suc fuel) successors visited (Some current) =
     rbind (guard (current \<in> set visited) (graph_error ''temporal successor graph contains a cycle'')) (\<lambda>_.
     check_acyclic fuel successors (current # visited) (successors current))"

definition validated_visible_graph :: "'v temporal_state list \<Rightarrow> 'v temporal_graph result" where
  "validated_visible_graph states =
     rbind (rfold index_state states []) (\<lambda>indexed.
     rbind (rfold (link_record indexed) indexed (Map.empty, Map.empty)) (\<lambda>(predecessors, successors).
     rbind (rmap (\<lambda>(start, _). check_acyclic (Suc (length indexed)) successors [] (Some start)) indexed) (\<lambda>_.
     Inr \<lparr>tg_indexed = indexed, tg_predecessors = predecessors, tg_successors = successors\<rparr>)))"

section \<open>Resolution\<close>

definition visible_states ::
  "pydatetime option \<Rightarrow> 'v temporal_state list \<Rightarrow> 'v temporal_state list" where
  "visible_states knowledge_time states =
     filter (\<lambda>s. case knowledge_time of None \<Rightarrow> True | Some k \<Rightarrow> \<not> earlier k (ts_recorded s)) states"

fun ancestors :: "nat \<Rightarrow> (string \<rightharpoonup> string option) \<Rightarrow> string option \<Rightarrow> string list result" where
  "ancestors _ predecessors None = Inr []"
| "ancestors 0 predecessors (Some current) = Inl Diverges"
| "ancestors (Suc fuel) predecessors (Some current) =
     rbind (lift_opt (KeyError current) (predecessors current)) (\<lambda>next_id.
     rbind (ancestors fuel predecessors next_id) (\<lambda>rest. Inr (current # rest)))"

definition hidden_ids ::
  "'v temporal_graph \<Rightarrow> 'v temporal_state list \<Rightarrow> string list result" where
  "hidden_ids graph eligible =
     rbind (rmap (\<lambda>state.
              rbind (lift_opt (KeyError (ts_id state)) (tg_predecessors graph (ts_id state))) (\<lambda>predecessor.
              ancestors (length (tg_indexed graph)) (tg_predecessors graph) predecessor)) eligible) (\<lambda>chains.
     Inr (filter (\<lambda>i. i \<in> ts_id ` set eligible) (concat chains)))"

definition single_leaf :: "string \<Rightarrow> 'v temporal_state list \<Rightarrow> 'v temporal_state option result" where
  "single_leaf message leaves =
     rbind (guard (1 < length leaves) (NamedError ''AmbiguousPointInTimeResultError'' message)) (\<lambda>_.
     Inr (case sort_key ts_id leaves of [] \<Rightarrow> None | s # _ \<Rightarrow> Some s))"

definition resolve_temporal_state ::
  "'v temporal_state list \<Rightarrow> pydatetime option \<Rightarrow> ('v \<Rightarrow> bool result) \<Rightarrow> 'v temporal_state option result" where
  "resolve_temporal_state states known_as_of market_eligible =
     rbind (optional_utc known_as_of ''known_as_of'') (\<lambda>knowledge_time.
     rbind (validated_visible_graph (visible_states knowledge_time states)) (\<lambda>graph.
     rbind (rfilter (\<lambda>s. market_eligible (ts_value s)) (map snd (tg_indexed graph))) (\<lambda>eligible.
     rbind (hidden_ids graph eligible) (\<lambda>hidden.
     single_leaf ''multiple temporal records are eligible leaves at the requested cutoffs''
       (filter (\<lambda>s. ts_id s \<notin> set hidden) eligible)))))"

definition resolve_temporal_knowledge_leaf ::
  "'v temporal_state list \<Rightarrow> pydatetime option \<Rightarrow> 'v temporal_state option result" where
  "resolve_temporal_knowledge_leaf states known_as_of =
     rbind (optional_utc known_as_of ''known_as_of'') (\<lambda>knowledge_time.
     rbind (validated_visible_graph (visible_states knowledge_time states)) (\<lambda>graph.
     let current = map snd (tg_indexed graph);
         superseded = [t. s \<leftarrow> current, Some t \<leftarrow> [ts_supersedes s]] in
     single_leaf ''multiple temporal records are current knowledge leaves''
       (filter (\<lambda>s. ts_id s \<notin> set superseded) current)))"

section \<open>The visible graph\<close>

definition supersession :: "'v temporal_state set \<Rightarrow> ('v temporal_state \<times> 'v temporal_state) set" where
  "supersession S = {(p, s). p \<in> S \<and> s \<in> S \<and> ts_supersedes s = Some (ts_id p)}"

text \<open>What the validation establishes: records are told apart by their identity, a record supersedes
  an earlier visible record of its own entity, and no record is superseded twice.\<close>

definition chained :: "'v temporal_state set \<Rightarrow> bool" where
  "chained S \<longleftrightarrow> inj_on ts_id S
    \<and> (\<forall>s \<in> S. \<forall>t. ts_supersedes s = Some t \<longrightarrow>
         (\<exists>p \<in> S. ts_id p = t \<and> tr_kind (ts_record p) = tr_kind (ts_record s)
            \<and> tr_scope_id (ts_record p) = tr_scope_id (ts_record s) \<and> earlier (ts_recorded p) (ts_recorded s)))
    \<and> (\<forall>s \<in> S. \<forall>s' \<in> S. ts_supersedes s = ts_supersedes s' \<and> ts_supersedes s \<noteq> None \<longrightarrow> s = s')"

text \<open>The links after some entries of the index have been processed.\<close>

definition linked ::
  "'v temporal_state set \<Rightarrow> 'v temporal_state set \<Rightarrow> (string \<rightharpoonup> string option) \<Rightarrow> (string \<rightharpoonup> string) \<Rightarrow> bool" where
  "linked S D predecessors successors \<longleftrightarrow>
     (\<forall>s \<in> D. predecessors (ts_id s) = Some (ts_supersedes s)
        \<and> (\<forall>t. ts_supersedes s = Some t \<longrightarrow> successors t = Some (ts_id s)
             \<and> (\<exists>p \<in> S. ts_id p = t \<and> tr_kind (ts_record p) = tr_kind (ts_record s)
                  \<and> tr_scope_id (ts_record p) = tr_scope_id (ts_record s)
                  \<and> earlier (ts_recorded p) (ts_recorded s))))
     \<and> (\<forall>t i. successors t = Some i \<longrightarrow> (\<exists>s \<in> D. ts_id s = i \<and> ts_supersedes s = Some t))"

lemma linked_pred: "linked S D P Q \<Longrightarrow> s \<in> D \<Longrightarrow> P (ts_id s) = Some (ts_supersedes s)"
  and linked_next: "linked S D P Q \<Longrightarrow> s \<in> D \<Longrightarrow> ts_supersedes s = Some t \<Longrightarrow> Q t = Some (ts_id s)"
  and linked_target: "linked S D P Q \<Longrightarrow> s \<in> D \<Longrightarrow> ts_supersedes s = Some t \<Longrightarrow>
      \<exists>p \<in> S. ts_id p = t \<and> tr_kind (ts_record p) = tr_kind (ts_record s)
        \<and> tr_scope_id (ts_record p) = tr_scope_id (ts_record s) \<and> earlier (ts_recorded p) (ts_recorded s)"
  and linked_succ: "linked S D P Q \<Longrightarrow> Q t = Some i \<Longrightarrow> \<exists>s \<in> D. ts_id s = i \<and> ts_supersedes s = Some t"
  unfolding linked_def by blast+

lemma link_record_Inr:
  assumes "link_record idx (i, s) (P, Q) = Inr (P', Q')" and "indexes ts_id idx S" and "linked S D P Q"
    and "i = ts_id s" and "ts_id s \<notin> ts_id ` D"
  shows "linked S (insert s D) P' Q'"
proof (cases "ts_supersedes s")
  case None
  with assms show ?thesis by (auto simp: link_record_def linked_def image_iff)
next
  case (Some t)
  from assms(1) Some obtain p where p: "map_of idx t = Some p" "tr_kind (ts_record p) = tr_kind (ts_record s)"
    "tr_scope_id (ts_record p) = tr_scope_id (ts_record s)" "earlier (ts_recorded p) (ts_recorded s)"
    and branch: "\<forall>e. Q t = Some e \<longrightarrow> e = i" and PQ: "P' = P(i \<mapsto> Some t)" "Q' = Q(t \<mapsto> i)"
    by (auto simp: link_record_def result_simps split: option.splits)
  have "p \<in> S" "ts_id p = t" using indexes_map_of [OF assms(2)] p(1) by auto
  moreover have "Q t = None"
  proof (cases "Q t")
    case (Some e)
    with linked_succ [OF assms(3)] obtain s' where "s' \<in> D" "ts_id s' = e" by blast
    with Some branch assms(4) have "ts_id s \<in> ts_id ` D" by (metis image_eqI)
    with assms(5) show ?thesis by blast
  qed
  moreover have "ts_supersedes s' \<noteq> Some t" if "s' \<in> D" for s'
    using linked_next [OF assms(3) that] \<open>Q t = None\<close> by auto
  ultimately show ?thesis
    using assms(3-5) p Some unfolding linked_def PQ by (auto simp: image_iff)
qed

lemma link_records_Inr:
  assumes "rfold (link_record idx) entries (P, Q) = Inr (P', Q')" and "indexes ts_id idx S" and "linked S D P Q"
    and "distinct (map fst entries)" and "\<forall>e \<in> set entries. fst e = ts_id (snd e)"
    and "ts_id ` D \<inter> fst ` set entries = {}"
  shows "linked S (D \<union> snd ` set entries) P' Q'"
  using assms
proof (induction entries arbitrary: P Q D)
  case (Cons e entries)
  obtain i s where e: "e = (i, s)" by fastforce
  from Cons.prems(1) obtain P1 Q1 where step: "link_record idx (i, s) (P, Q) = Inr (P1, Q1)"
    and rest: "rfold (link_record idx) entries (P1, Q1) = Inr (P', Q')"
    by (auto simp: result_simps e)
  have "linked S (insert s D) P1 Q1"
    using Cons.prems(5,6) e by (intro link_record_Inr [OF step Cons.prems(2,3)]) auto
  then have "linked S (insert s D \<union> snd ` set entries) P' Q'"
    using Cons.prems(2,4,5,6) e by (intro Cons.IH [OF rest]) auto
  then show ?case by (simp add: e insert_commute)
qed simp

lemma linked_chained:
  assumes "linked S S P Q" and "inj_on ts_id S"
  shows "chained S"
  unfolding chained_def
proof (intro conjI ballI allI impI assms(2))
  fix s t assume "s \<in> S" "ts_supersedes s = Some t"
  then show "\<exists>p \<in> S. ts_id p = t \<and> tr_kind (ts_record p) = tr_kind (ts_record s)
      \<and> tr_scope_id (ts_record p) = tr_scope_id (ts_record s) \<and> earlier (ts_recorded p) (ts_recorded s)"
    by (rule linked_target [OF assms(1)])
next
  fix s s' assume s: "s \<in> S" "s' \<in> S" "ts_supersedes s = ts_supersedes s' \<and> ts_supersedes s \<noteq> None"
  then obtain t where "ts_supersedes s = Some t" "ts_supersedes s' = Some t" by (metis not_Some_eq)
  then have "ts_id s = ts_id s'" using linked_next [OF assms(1)] s(1,2) by (metis option.inject)
  with assms(2) s(1,2) show "s = s'" by (auto dest: inj_onD)
qed

section \<open>Walking along the graph\<close>

lemma check_acyclic_ends:
  assumes S: "finite S" "linked S S P Q" "inj_on ts_id S" and s: "s \<in> S"
    and "\<forall>v \<in> set visited. \<exists>p \<in> S. ts_id p = v \<and> earlier (ts_recorded p) (ts_recorded s)"
    and "card {p \<in> S. \<not> earlier (ts_recorded p) (ts_recorded s)} \<le> fuel"
  shows "check_acyclic fuel Q visited (Some (ts_id s)) = Inr ()"
  using s assms(5,6)
proof (induction fuel arbitrary: s visited)
  case 0
  have "s \<in> {p \<in> S. \<not> earlier (ts_recorded p) (ts_recorded s)}" using 0 by (simp add: earlier_def)
  with 0 S(1) show ?case by simp
next
  case (Suc fuel)
  have "ts_id s \<notin> set visited"
    using Suc.prems(1,2) S(3) by (metis earlier_def inj_onD less_irrefl)
  moreover have "check_acyclic fuel Q (ts_id s # visited) (Q (ts_id s)) = Inr ()"
  proof (cases "Q (ts_id s)")
    case (Some i)
    with linked_succ [OF S(2)] obtain u where u: "u \<in> S" "ts_id u = i" "ts_supersedes u = Some (ts_id s)"
      by blast
    with linked_target [OF S(2)] obtain p where "p \<in> S" "ts_id p = ts_id s" "earlier (ts_recorded p) (ts_recorded u)"
      by blast
    with S(3) Suc.prems(1) have later: "earlier (ts_recorded s) (ts_recorded u)" by (metis inj_onD)
    have "{p \<in> S. \<not> earlier (ts_recorded p) (ts_recorded u)} \<subset> {p \<in> S. \<not> earlier (ts_recorded p) (ts_recorded s)}"
      using later Suc.prems(1) by (auto simp: earlier_def)
    then have "card {p \<in> S. \<not> earlier (ts_recorded p) (ts_recorded u)} < card {p \<in> S. \<not> earlier (ts_recorded p) (ts_recorded s)}"
      using S(1) by (intro psubset_card_mono) auto
    then have "card {p \<in> S. \<not> earlier (ts_recorded p) (ts_recorded u)} \<le> fuel" using Suc.prems(3) by simp
    moreover have "\<forall>v \<in> set (ts_id s # visited). \<exists>p \<in> S. ts_id p = v \<and> earlier (ts_recorded p) (ts_recorded u)"
      using Suc.prems(1,2) later by (auto simp: earlier_def) (meson order_less_trans)
    ultimately show ?thesis using Suc.IH [OF u(1)] u(2) Some by simp
  qed simp
  ultimately show ?case by simp
qed

lemma ancestors_walk:
  assumes S: "finite S" "linked S S P Q" "inj_on ts_id S" and s: "s \<in> S"
    and "card {p \<in> S. \<not> earlier (ts_recorded s) (ts_recorded p)} \<le> fuel"
  shows "\<exists>ids. ancestors fuel P (Some (ts_id s)) = Inr ids \<and> set ids = ts_id ` {a. (a, s) \<in> (supersession S)\<^sup>*}"
  using s assms(5)
proof (induction fuel arbitrary: s)
  case 0
  have "s \<in> {p \<in> S. \<not> earlier (ts_recorded s) (ts_recorded p)}" using 0 by (simp add: earlier_def)
  with 0 S(1) show ?case by simp
next
  case (Suc fuel)
  have P: "P (ts_id s) = Some (ts_supersedes s)" by (rule linked_pred [OF S(2) Suc.prems(1)])
  show ?case
  proof (cases "ts_supersedes s")
    case None
    have "a = s" if "(a, s) \<in> (supersession S)\<^sup>*" for a
      using that by (cases rule: rtranclE) (auto simp: supersession_def None)
    then have "{a. (a, s) \<in> (supersession S)\<^sup>*} = {s}" by auto
    with P None show ?thesis by simp
  next
    case (Some t)
    with linked_target [OF S(2) Suc.prems(1)] obtain p where
      p: "p \<in> S" "ts_id p = t" "earlier (ts_recorded p) (ts_recorded s)" by blast
    have step: "(a, s) \<in> supersession S \<longleftrightarrow> a = p" for a
      using p Some Suc.prems(1) S(3) by (auto simp: supersession_def dest: inj_onD)
    have "{q \<in> S. \<not> earlier (ts_recorded p) (ts_recorded q)} \<subset> {q \<in> S. \<not> earlier (ts_recorded s) (ts_recorded q)}"
      using p(3) Suc.prems(1) by (auto simp: earlier_def)
    then have "card {q \<in> S. \<not> earlier (ts_recorded p) (ts_recorded q)} < card {q \<in> S. \<not> earlier (ts_recorded s) (ts_recorded q)}"
      using S(1) by (intro psubset_card_mono) auto
    then obtain ids where ids: "ancestors fuel P (Some t) = Inr ids"
      "set ids = ts_id ` {a. (a, p) \<in> (supersession S)\<^sup>*}"
      using Suc.IH [OF p(1)] Suc.prems(2) p(2) by auto
    have "(a, s) \<in> (supersession S)\<^sup>* \<longleftrightarrow> a = s \<or> (a, p) \<in> (supersession S)\<^sup>*" for a
      using step by (metis rtrancl.simps)
    then have "{a. (a, s) \<in> (supersession S)\<^sup>*} = insert s {a. (a, p) \<in> (supersession S)\<^sup>*}" by auto
    with P Some ids show ?thesis by simp
  qed
qed

section \<open>What the validation returns\<close>

definition sound_graph :: "'v temporal_graph \<Rightarrow> 'v temporal_state set \<Rightarrow> bool" where
  "sound_graph g S \<longleftrightarrow> finite S \<and> indexes ts_id (tg_indexed g) S
     \<and> linked S S (tg_predecessors g) (tg_successors g) \<and> chained S"

lemma links_of_index:
  assumes "indexes ts_id idx S" and "rfold (link_record idx) idx (Map.empty, Map.empty) = Inr (P, Q)"
  shows "linked S S P Q" and "chained S"
proof -
  have "linked S ({} \<union> snd ` set idx) P Q"
    using assms by (intro link_records_Inr [OF assms(2,1)]) (auto simp: linked_def indexes_def)
  then show l: "linked S S P Q" using assms(1) by (simp add: indexes_def)
  show "chained S" by (rule linked_chained [OF l indexes_inj [OF assms(1)]])
qed

lemma acyclic_check_passes:
  assumes "indexes ts_id idx S" and "finite S" and "linked S S P Q"
  shows "rmap (\<lambda>(start, _). check_acyclic (Suc (length idx)) Q [] (Some start)) idx = Inr (map (\<lambda>_. ()) idx)"
proof -
  have "check_acyclic (Suc (length idx)) Q [] (Some (fst e)) = Inr ()" if "e \<in> set idx" for e
  proof -
    have e: "snd e \<in> S" "fst e = ts_id (snd e)" using assms(1) that by (auto simp: indexes_def)
    have "card {p \<in> S. \<not> earlier (ts_recorded p) (ts_recorded (snd e))} \<le> card S"
      using assms(2) by (intro card_mono) auto
    then show ?thesis
      using check_acyclic_ends [OF assms(2,3) indexes_inj [OF assms(1)] e(1), of "[]" "Suc (length idx)"] e(2)
        indexes_card [OF assms(1)] by (simp del: check_acyclic.simps)
  qed
  then have "rmap (\<lambda>(start, _). check_acyclic (Suc (length idx)) Q [] (Some start)) idx
      = rmap (\<lambda>_. Inr ()) idx" by (intro rmap_cong) (auto simp: case_prod_beta)
  then show ?thesis by simp
qed

lemma validated_visible_graph_Inr:
  assumes "validated_visible_graph states = Inr g"
  shows "sound_graph g (set states)"
proof -
  from assms obtain idx P Q where idx: "rfold index_state states [] = Inr idx"
    and links: "rfold (link_record idx) idx (Map.empty, Map.empty) = Inr (P, Q)"
    and g: "g = \<lparr>tg_indexed = idx, tg_predecessors = P, tg_successors = Q\<rparr>"
    by (auto simp: validated_visible_graph_def result_simps split: prod.splits)
  have "indexes ts_id idx (set states)"
    using put_all_unique_Inr [OF idx [unfolded index_state_def], of "{}"] by (simp add: indexes_def)
  with links_of_index [OF this links] show ?thesis by (simp add: sound_graph_def g)
qed

text \<open>The errors of the validation are those of the index and of the links.\<close>

definition link_errors :: "string set" where
  "link_errors = {''one temporal record identity has conflicting immutable content'',
     ''temporal records cannot supersede themselves'', ''visible temporal successor target is missing'',
     ''temporal successor crosses an entity scope'',
     ''temporal successor must be recorded strictly after its target'',
     ''temporal successor graph contains a branch''}"

lemma link_record_Inl:
  assumes "link_record idx (i, s) (P, Q) = Inl e"
  shows "\<exists>m \<in> link_errors. e = graph_error m"
  using assms
  by (auto simp: link_record_def link_errors_def Let_def rbind_eq_Inl guard_eq_Inl lift_opt_def split: option.splits)

lemma validated_visible_graph_Inl:
  assumes "validated_visible_graph states = Inl e"
  shows "\<exists>m \<in> link_errors. e = graph_error m"
proof (cases "rfold index_state states []")
  case (Inl e')
  with assms have "rfold index_state states [] = Inl e" by (simp add: validated_visible_graph_def)
  from rfold_Inl [OF this] show ?thesis
    by (auto simp: index_state_def put_unique_def link_errors_def rbind_eq_Inl guard_eq_Inl)
next
  case (Inr idx)
  show ?thesis
  proof (cases "rfold (link_record idx) idx (Map.empty, Map.empty)")
    case (Inl e')
    with assms Inr have "rfold (link_record idx) idx (Map.empty, Map.empty) = Inl e"
      by (simp add: validated_visible_graph_def)
    from rfold_Inl [OF this] show ?thesis using link_record_Inl by fast
  next
    case Inr': (Inr links)
    obtain P Q where links: "links = (P, Q)" by fastforce
    have idx: "indexes ts_id idx (set states)" using put_all_unique_Inr [OF Inr [unfolded index_state_def], of "{}"] by (simp add: indexes_def)
    have "linked (set states) (set states) P Q" using links_of_index(1) [OF idx] Inr' links by simp
    from acyclic_check_passes [OF idx _ this] assms Inr Inr' links show ?thesis
      by (simp add: validated_visible_graph_def)
  qed
qed

section \<open>Resolution\<close>

lemma supersession_earlier:
  assumes "(a, s) \<in> (supersession S)\<^sup>+" and "linked S S P Q" and "inj_on ts_id S"
  shows "earlier (ts_recorded a) (ts_recorded s)"
  using assms(1)
proof (induction rule: trancl_induct)
  have one: "earlier (ts_recorded a) (ts_recorded s)" if "(a, s) \<in> supersession S" for a s
  proof -
    from that have as: "a \<in> S" "s \<in> S" "ts_supersedes s = Some (ts_id a)" by (auto simp: supersession_def)
    from linked_target [OF assms(2) as(2,3)] as(1) assms(3) show ?thesis by (metis inj_onD)
  qed
  case (base s) then show ?case by (rule one)
next
  case (step b s)
  then have "earlier (ts_recorded b) (ts_recorded s)"
    using assms(2,3) linked_target unfolding supersession_def by (fastforce dest: inj_onD)
  with step.IH show ?case by (simp add: earlier_def)
qed

lemma hidden_ids_graph:
  assumes g: "sound_graph g S" and "set eligible \<subseteq> S"
  shows "\<exists>hidden. hidden_ids g eligible = Inr hidden
    \<and> set hidden = ts_id ` {a \<in> set eligible. \<exists>s \<in> set eligible. (a, s) \<in> (supersession S)\<^sup>+}"
proof -
  let ?P = "tg_predecessors g" and ?n = "length (tg_indexed g)"
  let ?chain = "\<lambda>s. rbind (lift_opt (KeyError (ts_id s)) (?P (ts_id s))) (\<lambda>p. ancestors ?n ?P p)"
  have S: "finite S" "linked S S ?P (tg_successors g)" "inj_on ts_id S" "card S = ?n"
    using g indexes_inj indexes_card by (auto simp: sound_graph_def)
  have walk: "\<exists>ids. ?chain s = Inr ids \<and> set ids = ts_id ` {a. (a, s) \<in> (supersession S)\<^sup>+}" if s: "s \<in> S" for s
  proof (cases "ts_supersedes s")
    case None
    have "(a, s) \<notin> (supersession S)\<^sup>+" for a
      by (auto simp: supersession_def None dest!: tranclD2)
    with None linked_pred [OF S(2) s] show ?thesis by simp
  next
    case (Some t)
    with linked_target [OF S(2) s] obtain p where p: "p \<in> S" "ts_id p = t" "earlier (ts_recorded p) (ts_recorded s)"
      by blast
    have "card {q \<in> S. \<not> earlier (ts_recorded p) (ts_recorded q)} \<le> card S"
      using S(1) by (intro card_mono) auto
    with ancestors_walk [OF S(1-3) p(1), of ?n] S(4) obtain ids where
      ids: "ancestors ?n ?P (Some t) = Inr ids" "set ids = ts_id ` {a. (a, p) \<in> (supersession S)\<^sup>*}"
      using p(2) by auto
    have "(a, s) \<in> supersession S \<longleftrightarrow> a = p" for a
      using p Some s S(3) by (auto simp: supersession_def dest: inj_onD)
    then have "(a, s) \<in> (supersession S)\<^sup>+ \<longleftrightarrow> (a, p) \<in> (supersession S)\<^sup>*" for a
      by (metis rtrancl_into_trancl1 tranclD2)
    with ids Some linked_pred [OF S(2) s] show ?thesis by simp
  qed
  have "\<forall>s \<in> set eligible. \<exists>ids. ?chain s = Inr ids" using walk assms(2) by blast
  then have chains: "rmap ?chain eligible = Inr (map (\<lambda>s. projr (?chain s)) eligible)"
    unfolding rmap_eq_map by simp
  have proj: "set (projr (?chain s)) = ts_id ` {a. (a, s) \<in> (supersession S)\<^sup>+}" if s: "s \<in> set eligible" for s
  proof -
    obtain ids where "?chain s = Inr ids" "set ids = ts_id ` {a. (a, s) \<in> (supersession S)\<^sup>+}"
      using walk [of s] assms(2) s by blast
    then show ?thesis by (simp only: sum.sel)
  qed
  define hidden where "hidden = filter (\<lambda>i. i \<in> ts_id ` set eligible) (concat (map (\<lambda>s. projr (?chain s)) eligible))"
  have "hidden_ids g eligible = Inr hidden" unfolding hidden_ids_def chains hidden_def by simp
  moreover have "set hidden = ts_id ` {a \<in> set eligible. \<exists>s \<in> set eligible. (a, s) \<in> (supersession S)\<^sup>+}"
  proof (intro equalityI subsetI)
    fix i assume "i \<in> set hidden"
    then obtain s a b where s: "s \<in> set eligible" "(a, s) \<in> (supersession S)\<^sup>+" "i = ts_id a"
      and b: "b \<in> set eligible" "i = ts_id b"
      using proj unfolding hidden_def by auto
    have "a \<in> S" using s(2) by (auto simp: supersession_def dest!: tranclD)
    with b s assms(2) S(3) have "a = b" by (metis inj_onD subsetD)
    with b s show "i \<in> ts_id ` {a \<in> set eligible. \<exists>s \<in> set eligible. (a, s) \<in> (supersession S)\<^sup>+}" by auto
  next
    fix i assume "i \<in> ts_id ` {a \<in> set eligible. \<exists>s \<in> set eligible. (a, s) \<in> (supersession S)\<^sup>+}"
    then show "i \<in> set hidden" using proj unfolding hidden_def by auto
  qed
  ultimately show ?thesis by blast
qed

lemma single_leaf_Inr:
  "single_leaf m leaves = Inr r \<longleftrightarrow>
     (case r of None \<Rightarrow> leaves = [] | Some s \<Rightarrow> leaves = [s])"
proof (cases leaves)
  case (Cons s rest)
  then show ?thesis by (cases rest) (auto simp: single_leaf_def result_simps split: option.splits)
qed (auto simp: single_leaf_def result_simps split: option.splits)

text \<open>Climbing a strictly increasing relation inside a finite set ends at its only top.\<close>

lemma climb:
  fixes f :: "'a \<Rightarrow> int"
  assumes "finite E" and "\<forall>x \<in> E. x = s \<or> (\<exists>y \<in> E. (x, y) \<in> r\<^sup>+)"
    and "\<And>x y. (x, y) \<in> r\<^sup>+ \<Longrightarrow> f x < f y" and "x \<in> E"
  shows "x = s \<or> (x, s) \<in> r\<^sup>+"
  using assms(4)
proof (induction "card {y \<in> E. f x < f y}" arbitrary: x rule: less_induct)
  case less
  show ?case
  proof (cases "x = s")
    case False
    then obtain y where y: "y \<in> E" "(x, y) \<in> r\<^sup>+" using assms(2) less.prems by blast
    then have "f x < f y" by (intro assms(3))
    then have "{z \<in> E. f y < f z} \<subset> {z \<in> E. f x < f z}" using y(1) by auto
    then have "card {z \<in> E. f y < f z} < card {z \<in> E. f x < f z}"
      using assms(1) by (intro psubset_card_mono) auto
    then have "y = s \<or> (y, s) \<in> r\<^sup>+" using less.hyps y(1) by blast
    with y(2) show ?thesis by (metis trancl_trans)
  qed simp
qed

lemma visible_states_utc:
  "optional_utc known f = Inr k \<Longrightarrow> visible_states k states = visible_states known states"
  by (cases known) (auto simp: result_simps visible_states_def earlier_def)

lemma sound_graph_facts:
  assumes "sound_graph g S"
  shows "finite S" and "set (map snd (tg_indexed g)) = S" and "inj_on ts_id S"
    and "linked S S (tg_predecessors g) (tg_successors g)"
  using assms indexes_inj [of ts_id "tg_indexed g" S] by (auto simp: sound_graph_def indexes_def)

lemma later_records_irrelevant:
  assumes "\<forall>s \<in> set later. earlier k (ts_recorded s)" and "tz_aware k"
  shows "resolve_temporal_state (states @ later) (Some k) p = resolve_temporal_state states (Some k) p"
    and "resolve_temporal_knowledge_leaf (states @ later) (Some k) = resolve_temporal_knowledge_leaf states (Some k)"
proof -
  have "visible_states (Some k') (states @ later) = visible_states (Some k') states"
    if "optional_utc (Some k) f = Inr (Some k')" for k' f
    using assms(1) that by (auto simp: visible_states_def result_simps earlier_def filter_empty_conv)
  moreover obtain k' where "optional_utc (Some k) ''known_as_of'' = Inr (Some k')"
    using assms(2) by (auto simp: optional_utc_def to_utc_def)
  ultimately show "resolve_temporal_state (states @ later) (Some k) p = resolve_temporal_state states (Some k) p"
    and "resolve_temporal_knowledge_leaf (states @ later) (Some k) = resolve_temporal_knowledge_leaf states (Some k)"
    by (simp_all add: resolve_temporal_state_def resolve_temporal_knowledge_leaf_def)
qed

text \<open>C9. Point-in-time resolution returns the knowledge that was current: the answer is a visible,
  eligible state, and every other visible eligible state was recorded earlier and has been
  superseded, directly or through a chain of corrections, by it; there is no answer only when no
  visible state is eligible.\<close>

theorem resolved_state_is_latest:
  assumes "resolve_temporal_state states known_as_of eligible = Inr answer"
    and "V = set (visible_states known_as_of states)"
  shows "case answer of
      None \<Rightarrow> \<forall>s \<in> V. eligible (ts_value s) = Inr False
    | Some s \<Rightarrow> s \<in> V \<and> eligible (ts_value s) = Inr True
        \<and> (\<forall>s' \<in> V. eligible (ts_value s') = Inr True \<longrightarrow>
             s' = s \<or> ((s', s) \<in> (supersession V)\<^sup>+ \<and> earlier (ts_recorded s') (ts_recorded s)))"
proof -
  from assms(1) obtain k g E hidden where k: "optional_utc known_as_of ''known_as_of'' = Inr k"
    and g: "validated_visible_graph (visible_states k states) = Inr g"
    and E: "rfilter (\<lambda>s. eligible (ts_value s)) (map snd (tg_indexed g)) = Inr E"
    and hidden: "hidden_ids g E = Inr hidden"
    and leaf: "single_leaf ''multiple temporal records are eligible leaves at the requested cutoffs''
                 (filter (\<lambda>s. ts_id s \<notin> set hidden) E) = Inr answer"
    by (auto simp: resolve_temporal_state_def result_simps)
  have sound: "sound_graph g V"
    using validated_visible_graph_Inr [OF g] visible_states_utc [OF k, of states] assms(2) by simp
  note G = sound_graph_facts [OF sound]
  note Ef = rfilter_Inr [OF E]
  have setE: "set E = {s \<in> V. eligible (ts_value s) = Inr True}" unfolding Ef(1) using G(2) by auto
  obtain hs where hs: "hidden_ids g E = Inr hs"
    "set hs = ts_id ` {a \<in> set E. \<exists>s \<in> set E. (a, s) \<in> (supersession V)\<^sup>+}"
    using hidden_ids_graph [OF sound, of E] setE by blast
  have hid: "ts_id a \<in> set hidden \<longleftrightarrow> (\<exists>s \<in> set E. (a, s) \<in> (supersession V)\<^sup>+)" if "a \<in> set E" for a
    using hs hidden that G(3) setE by (auto dest: inj_onD)
  have later: "instant (ts_recorded a) < instant (ts_recorded b)" if "(a, b) \<in> (supersession V)\<^sup>+" for a b
    using supersession_earlier [OF that G(4,3)] by (simp add: earlier_def)
  have total: "eligible (ts_value s) \<noteq> Inr True \<longrightarrow> eligible (ts_value s) = Inr False" if "s \<in> V" for s
  proof -
    have "s \<in> set (map snd (tg_indexed g))" using that unfolding G(2) .
    then obtain b where "eligible (ts_value s) = Inr b" using Ef(2) by blast
    then show ?thesis by (cases b) simp_all
  qed
  show ?thesis
  proof (cases answer)
    case None
    then have step: "\<forall>a \<in> set E. \<exists>s \<in> set E. (a, s) \<in> (supersession V)\<^sup>+"
      using leaf hid by (auto simp: single_leaf_Inr filter_empty_conv)
    have "E = []"
    proof (rule ccontr)
      assume "E \<noteq> []"
      then obtain m where "m \<in> set E" "\<forall>x \<in> set E. instant (ts_recorded x) \<le> instant (ts_recorded m)"
        using Max_in [of "(\<lambda>s. instant (ts_recorded s)) ` set E"] Max_ge [of "(\<lambda>s. instant (ts_recorded s)) ` set E"]
        by fastforce
      with step later show False by (metis leD)
    qed
    then show ?thesis using None setE total by auto
  next
    case (Some s)
    then have F: "filter (\<lambda>s. ts_id s \<notin> set hidden) E = [s]" using leaf by (simp add: single_leaf_Inr)
    then have s: "s \<in> set E" by (metis filter_is_subset list.set_intros(1) subsetD)
    have "\<forall>x \<in> set E. x = s \<or> (\<exists>y \<in> set E. (x, y) \<in> (supersession V)\<^sup>+)"
    proof
      fix x assume x: "x \<in> set E"
      show "x = s \<or> (\<exists>y \<in> set E. (x, y) \<in> (supersession V)\<^sup>+)"
      proof (cases "ts_id x \<in> set hidden")
        case False
        with x have "x \<in> set (filter (\<lambda>s. ts_id s \<notin> set hidden) E)" by simp
        with F show ?thesis by simp
      qed (use hid [OF x] in simp)
    qed
    then have "x = s \<or> (x, s) \<in> (supersession V)\<^sup>+" if "x \<in> set E" for x
      using climb [of "set E" s "supersession V" "\<lambda>s. instant (ts_recorded s)" x] later that by blast
    then show ?thesis using Some s setE later by (auto simp: earlier_def)
  qed
qed

lemma set_somes: "set [t. y \<leftarrow> ys, Some t \<leftarrow> [f y]] = {t. \<exists>y \<in> set ys. f y = Some t}"
  by (induction ys) (auto split: option.splits)

text \<open>The knowledge leaf is the top of the one chain all visible records form.\<close>

lemma knowledge_leaf_tops_chain:
  assumes "resolve_temporal_knowledge_leaf states known_as_of = Inr (Some s)"
    and "V = set (visible_states known_as_of states)"
  shows "s \<in> V \<and> (\<forall>s' \<in> V. s' = s \<or> (s', s) \<in> (supersession V)\<^sup>+)"
proof -
  from assms(1) obtain k g where k: "optional_utc known_as_of ''known_as_of'' = Inr k"
    and g: "validated_visible_graph (visible_states k states) = Inr g"
    and leaf: "filter (\<lambda>x. ts_id x \<notin> set [t. y \<leftarrow> map snd (tg_indexed g), Some t \<leftarrow> [ts_supersedes y]])
                 (map snd (tg_indexed g)) = [s]"
    by (auto simp: resolve_temporal_knowledge_leaf_def result_simps Let_def single_leaf_Inr)
  have sound: "sound_graph g V"
    using validated_visible_graph_Inr [OF g] visible_states_utc [OF k, of states] assms(2) by simp
  note G = sound_graph_facts [OF sound]
  let ?sup = "set [t. y \<leftarrow> map snd (tg_indexed g), Some t \<leftarrow> [ts_supersedes y]]"
  have sup: "i \<in> ?sup \<longleftrightarrow> (\<exists>y \<in> V. ts_supersedes y = Some i)" for i
    unfolding G(2) [symmetric] set_somes by blast
  have s: "s \<in> V" proof -
    have "set [s] \<subseteq> set (map snd (tg_indexed g))" unfolding leaf [symmetric] by (rule filter_is_subset)
    then show ?thesis unfolding G(2) by simp
  qed
  have "\<forall>x \<in> V. x = s \<or> (\<exists>y \<in> V. (x, y) \<in> (supersession V)\<^sup>+)"
  proof
    fix x assume x: "x \<in> V"
    show "x = s \<or> (\<exists>y \<in> V. (x, y) \<in> (supersession V)\<^sup>+)"
    proof (cases "ts_id x \<in> ?sup")
      case True
      with sup x show ?thesis by (auto simp: supersession_def intro!: r_into_trancl)
    next
      case False
      with x have "x \<in> set (filter (\<lambda>x. ts_id x \<notin> ?sup) (map snd (tg_indexed g)))" using G(2) by auto
      with leaf show ?thesis by simp
    qed
  qed
  with climb [of V s "supersession V" "\<lambda>s. instant (ts_recorded s)"] supersession_earlier [OF _ G(4,3)] G(1) s
  show ?thesis by (auto simp: earlier_def)
qed

text \<open>C34. Resolution always ends, with an answer or with a documented error: a naive knowledge time,
  an error of the validation of the graph (never the cycle error, because a successor is recorded
  strictly later), an error of the eligibility test, or ambiguity. The loops neither diverge nor miss
  a record, and records that became known later change nothing.\<close>

theorem resolution_ends_documented:
  assumes "resolve_temporal_state states known_as_of eligible = Inl e"
  shows "e = ValueError ''known_as_of must be timezone-aware''
    \<or> (\<exists>m \<in> link_errors. e = graph_error m)
    \<or> (\<exists>s \<in> set (visible_states known_as_of states). eligible (ts_value s) = Inl e)
    \<or> e = NamedError ''AmbiguousPointInTimeResultError''
             ''multiple temporal records are eligible leaves at the requested cutoffs''"
proof (cases "optional_utc known_as_of ''known_as_of''")
  case (Inl e')
  with assms show ?thesis
    by (auto simp: resolve_temporal_state_def optional_utc_def to_utc_def rbind_eq_Inl guard_eq_Inl split: option.splits)
next
  case (Inr k)
  note vis = visible_states_utc [OF Inr, of states]
  show ?thesis
  proof (cases "validated_visible_graph (visible_states k states)")
    case (Inl e')
    with assms Inr have "e' = e" by (simp add: resolve_temporal_state_def)
    with validated_visible_graph_Inl [OF Inl] show ?thesis by blast
  next
    case g: (Inr g)
    have sound: "sound_graph g (set (visible_states known_as_of states))"
      using validated_visible_graph_Inr [OF g] vis by simp
    note G = sound_graph_facts [OF sound]
    show ?thesis
    proof (cases "rfilter (\<lambda>s. eligible (ts_value s)) (map snd (tg_indexed g))")
      case (Inl e')
      with assms Inr g have "rmap (\<lambda>s. eligible (ts_value s)) (map snd (tg_indexed g)) = Inl e"
        by (auto simp: resolve_temporal_state_def rfilter_def rbind_eq_Inl)
      then have "\<exists>s \<in> set (map snd (tg_indexed g)). eligible (ts_value s) = Inl e" by (rule rmap_Inl)
      then show ?thesis unfolding G(2) by blast
    next
      case E: (Inr E)
      have "set E \<subseteq> set (visible_states known_as_of states)"
        using rfilter_Inr(1) [OF E] G(2) by auto
      then obtain hs where "hidden_ids g E = Inr hs" using hidden_ids_graph [OF sound] by blast
      with assms Inr g E show ?thesis
        by (auto simp: resolve_temporal_state_def single_leaf_def rbind_eq_Inl guard_eq_Inl)
    qed
  qed
qed

definition demo_version :: "string \<Rightarrow> string option \<Rightarrow> int \<Rightarrow> bool \<Rightarrow> bool temporal_state" where
  "demo_version record_id supersedes recorded active =
     \<lparr>ts_record = \<lparr>tr_kind = InstrumentVersionRecord, tr_semantic_id = ''v'', tr_scope_id = ''NIFTY'',
        tr_recorded_at = Aware recorded 0, tr_supersedes_record_id = supersedes,
        tr_source_provenance_id = None, tr_record_id = record_id\<rparr>, ts_value = active\<rparr>"

definition demo_versions :: "bool temporal_state list" where
  "demo_versions = [demo_version ''a'' None 10 True, demo_version ''b'' (Some ''a'') 20 True,
     demo_version ''c'' (Some ''b'') 30 False]"

lemmas demo_version_simps = demo_versions_def demo_version_def

lemma demo_resolved:
  "resolve_temporal_state demo_versions None Inr = Inr (Some (demo_version ''b'' (Some ''a'') 20 True))"
  by (simp add: resolve_temporal_state_def visible_states_def validated_visible_graph_def index_state_def put_unique_def
      link_record_def earlier_def rfilter_def hidden_ids_def single_leaf_def demo_version_simps Let_def
      del: set_filter)

theorem resolved_state_is_latest_witness:
  "resolve_temporal_state demo_versions None Inr = Inr (Some (demo_version ''b'' (Some ''a'') 20 True))
   \<and> (demo_version ''a'' None 10 True, demo_version ''b'' (Some ''a'') 20 True)
        \<in> (supersession (set demo_versions))\<^sup>+"
proof -
  have v: "set demo_versions = set (visible_states None demo_versions)" by (simp add: visible_states_def)
  have "demo_version ''a'' None 10 True \<in> set demo_versions" by (simp add: demo_versions_def)
  moreover have "ts_value (demo_version ''a'' None 10 True) = True"
    "demo_version ''a'' None 10 True \<noteq> demo_version ''b'' (Some ''a'') 20 True" by (simp_all add: demo_version_def)
  ultimately show ?thesis
    using resolved_state_is_latest [OF demo_resolved v] demo_resolved by auto
qed

theorem resolution_ends_documented_witness:
  "\<exists>e. resolve_temporal_state [demo_version ''b'' (Some ''a'') 20 True] None Inr = Inl e
     \<and> (\<exists>m \<in> link_errors. e = graph_error m)"
proof -
  obtain e where e: "resolve_temporal_state [demo_version ''b'' (Some ''a'') 20 True] None Inr = Inl e"
    by (simp add: resolve_temporal_state_def visible_states_def validated_visible_graph_def index_state_def put_unique_def
        link_record_def demo_version_simps Let_def)
  moreover have "e = graph_error ''visible temporal successor target is missing''"
    using e by (simp add: resolve_temporal_state_def visible_states_def validated_visible_graph_def index_state_def put_unique_def
        link_record_def demo_version_simps Let_def)
  ultimately show ?thesis
    using resolution_ends_documented [OF e] by (auto simp: graph_error_def)
qed

end
