(* ===== verification/Reconstruction.thy ===== *)
theory Reconstruction
  imports PointInTime
begin

text \<open>
  What \<open>reconstruct_option_chain\<close> of \<open>app/market_data/point_in_time.py\<close> promises: quotes and assessments
  from after the cutoffs are never seen, the chain is the latest standing quote of every visible
  contract, and every run ends with a chain or one of the two documented errors.
\<close>

section \<open>Indexes\<close>

lemma unique_index_indexes: "unique_index label key items = Inr idx \<Longrightarrow> indexes key idx (set items)"
  using put_all_unique_Inr [OF _ indexes_Nil] by (fastforce simp: unique_index_def)

lemma map_of_indexed_pairs:
  assumes "unique_index label fst items = Inr idx"
  shows "map_of (map snd idx) = map_of items"
proof
  fix k
  note idx = unique_index_indexes [OF assms]
  have keys: "map fst (map snd idx) = map fst idx" using idx by (auto simp: indexes_def)
  have snds: "set (map snd idx) = set items" using idx by (auto simp: indexes_def)
  have "distinct (map fst (map snd idx))" using idx by (simp add: keys indexes_def del: map_map)
  then have "map_of (map snd idx) k = Some v \<longleftrightarrow> (k, v) \<in> set items" for v
    using snds by (simp del: map_map set_map)
  moreover have "map_of items k = Some v \<longleftrightarrow> (k, v) \<in> set items" for v
  proof
    assume mem: "(k, v) \<in> set items"
    then obtain w where w: "map_of items k = Some w" by (metis weak_map_of_SomeI)
    then have "(k, w) \<in> set items" by (rule map_of_SomeD)
    then have "(k, w) = (k, v)" using inj_onD [OF indexes_inj [OF idx], of "(k, w)" "(k, v)"] mem by auto
    then show "map_of items k = Some v" using w by simp
  qed (rule map_of_SomeD)
  ultimately show "map_of (map snd idx) k = map_of items k"
    by (metis not_None_eq)
qed

lemma quote_terms_cong:
  "map_of versions = map_of versions' \<Longrightarrow> map_of mappings = map_of mappings'
   \<Longrightarrow> quote_terms versions mappings q = quote_terms versions' mappings' q"
  by (simp add: quote_terms_def cong: option.case_cong)

lemma visible_cong:
  "map_of versions = map_of versions' \<Longrightarrow> map_of mappings = map_of mappings'
   \<Longrightarrow> quote_is_visible versions mappings assessments query
       = quote_is_visible versions' mappings' assessments query"
  by (rule ext) (simp add: quote_is_visible_def quote_terms_cong [of versions versions' mappings mappings'])

section \<open>Nothing from the future\<close>

definition query_in_utc :: "point_in_time_query \<Rightarrow> bool" where
  "query_in_utc query \<longleftrightarrow> in_utc (pq_market_as_of query) \<and> (\<forall>k. pq_known_as_of query = Some k \<longrightarrow> in_utc k)"

lemma make_query_in_utc: "make_query q = Inr query \<Longrightarrow> query_in_utc query"
  by (auto simp: make_query_def query_in_utc_def result_simps split: option.splits)

lemma effective_at_total:
  assumes "query_in_utc query"
  shows "\<exists>b. metadata_effective_at v (pq_market_as_of query) (pq_known_as_of query) = Inr b"
    and "\<exists>b. mapping_effective_at m (pq_market_as_of query) (pq_known_as_of query) = Inr b"
  using assms by (cases "pq_known_as_of query"; simp add: query_in_utc_def metadata_effective_at_def mapping_effective_at_def Let_def)+

lemma visible_total:
  assumes "query_in_utc query"
  shows "\<exists>b. quote_is_visible versions mappings assessments query q = Inr b"
proof (cases "quote_terms versions mappings q")
  case None
  then have "quote_is_visible versions mappings assessments query q = Inr False" by (simp add: quote_is_visible_def)
  then show ?thesis by blast
next
  case (Some vm)
  obtain v m where vm: "vm = (v, m)" by (cases vm)
  obtain b c where "metadata_effective_at (cv_metadata v) (pq_market_as_of query) (pq_known_as_of query) = Inr b"
    "mapping_effective_at m (pq_market_as_of query) (pq_known_as_of query) = Inr c"
    using effective_at_total [OF assms] by blast
  then show ?thesis by (cases b; cases c; cases "in_the_future query q") (auto simp: quote_is_visible_def Some vm)
qed

lemma future_not_visible:
  assumes "query_in_utc query" "in_the_future query q"
  shows "quote_is_visible versions mappings assessments query q = Inr False"
proof -
  obtain b where "quote_is_visible versions mappings assessments query q = Inr b"
    using visible_total [OF assms(1)] by blast
  then show ?thesis using assms(2)
    by (auto simp: quote_is_visible_def result_simps split: option.splits if_splits)
qed

lemma late_assessments_unseen:
  assumes "\<forall>a \<in> set late. \<exists>k. pq_known_as_of query = Some k \<and> earlier k (qa_recorded_at a)"
  shows "quote_is_visible versions mappings (assessments @ late) query
         = quote_is_visible versions mappings assessments query"
proof -
  have "filter (assessment_applies i query) late = []" for i
    using assms by (force simp: filter_empty_conv assessment_applies_def)
  then have sel: "selected_assessment i (assessments @ late) query = selected_assessment i assessments query" for i
    by (simp add: selected_assessment_def)
  show ?thesis unfolding quote_is_visible_def fun_eq_iff sel by simp
qed

lemma future_not_eligible:
  "in_the_future query q \<Longrightarrow> quote_is_historically_eligible versions mappings query q = Inr False"
  by (simp add: quote_is_historically_eligible_def split: option.splits)

lemma correction_edge_ignores_future:
  assumes "\<forall>q \<in> set later. in_the_future query q"
  shows "correction_edge (idx @ map (\<lambda>q. (oq_event_id q, q)) later) versions mappings query
         = correction_edge idx versions mappings query"
proof
  fix source
  have later: "q \<in> set later" if "map_of (map (\<lambda>q. (oq_event_id q, q)) later) t = Some q" for t q
    using map_of_SomeD [OF that] by auto
  show "correction_edge (idx @ map (\<lambda>q. (oq_event_id q, q)) later) versions mappings query source
        = correction_edge idx versions mappings query source"
  proof (cases "oq_supersedes_event_id source")
    case (Some t)
    show ?thesis
    proof (cases "map_of idx t")
      case None
      then show ?thesis using assms
        by (cases "map_of (map (\<lambda>q. (oq_event_id q, q)) later) t")
           (auto simp: correction_edge_def Some map_add_def future_not_eligible Let_def dest: later
             intro: rbind_cong)
    qed (simp add: correction_edge_def Some map_add_def Let_def)
  qed (simp add: correction_edge_def)
qed

lemma rfilter_append_false:
  assumes "\<forall>x \<in> set ys. p x = Inr False"
  shows "rfilter p (xs @ ys) = rfilter p xs"
proof -
  have ys: "rmap p ys = Inr (map (\<lambda>_. False) ys)"
    using assms by (induction ys) auto
  have zip: "filter snd (zip (xs @ ys) (bs @ map (\<lambda>_. False) ys)) = filter snd (zip xs bs)"
    if "rmap p xs = Inr bs" for bs
  proof -
    have "filter snd (zip ys (map (\<lambda>_. False) ys)) = []" by (induction ys) auto
    then show ?thesis using rmap_length [OF that] by simp
  qed
  show ?thesis
  proof (cases "rmap p xs")
    case (Inr bs)
    then show ?thesis using zip [OF Inr] by (simp add: rfilter_def rmap_append ys)
  qed (simp add: rfilter_def rmap_append)
qed

lemma unique_index_append_fresh:
  assumes "distinct (map key later)" "key ` set later \<inter> key ` set items = {}"
  shows "unique_index label key (items @ later)
         = rbind (unique_index label key items) (\<lambda>idx. Inr (idx @ map (\<lambda>q. (key q, q)) later))"
proof (cases "unique_index label key items")
  case (Inl e)
  then show ?thesis by (simp add: unique_index_def rfold_append)
next
  case (Inr idx)
  have "fst ` set idx = key ` set items"
    using unique_index_indexes [OF Inr] by (force simp: indexes_def image_iff)
  then have "rfold (put_unique key (identity_conflict label)) later idx = Inr (idx @ map (\<lambda>x. (key x, x)) later)"
    using assms by (intro put_fresh_items) auto
  then show ?thesis using Inr by (simp add: unique_index_def rfold_append)
qed


section \<open>Corrections\<close>

lemma correction_edge_Inr:
  assumes "correction_edge idx versions mappings query s = Inr e" and "indexes oq_event_id idx Q"
  shows "fst e = oq_event_id s" and "oq_supersedes_event_id s = Some (snd e)"
    and "\<exists>t \<in> Q. oq_event_id t = snd e \<and> oq_contract_id t = oq_contract_id s"
  using assms by (auto simp: correction_edge_def result_simps Let_def indexes_map_of)

lemma correction_sources:
  assumes "rmap (correction_edge idx versions mappings query) C = Inr edges" and "indexes oq_event_id idx Q"
  shows "map fst edges = map oq_event_id C"
  using assms(1)
  by (induction C arbitrary: edges) (auto simp: result_simps dest: correction_edge_Inr(1) [OF _ assms(2)])

lemma corrections_Inr:
  assumes run: "resolve_correction_graph visible idx versions mappings query = Inr ids"
  obtains edges where "ids = map snd edges"
    and "rmap (correction_edge idx versions mappings query)
           (sort_key oq_event_id (filter (\<lambda>q. oq_supersedes_event_id q \<noteq> None) visible)) = Inr edges"
    and "\<forall>i \<in> fst ` set edges. follow_corrections (Suc (length edges)) edges [] i = Inr ()"
proof -
  from run obtain edges us where "ids = map snd edges"
    and "rmap (correction_edge idx versions mappings query)
           (sort_key oq_event_id (filter (\<lambda>q. oq_supersedes_event_id q \<noteq> None) visible)) = Inr edges"
    and "rmap (follow_corrections (Suc (length edges)) edges []) (sort (map fst edges)) = Inr us"
    unfolding resolve_correction_graph_def Let_def rbind_eq_Inr by blast
  then show thesis using that [of edges] by (auto simp: rmap_eq_map)
qed

text \<open>A set of events each of which corrects another one of the set is a cycle, and the walk finds it.\<close>

lemma closed_corrections_fail:
  assumes "\<forall>k \<in> K. \<exists>k' \<in> K. map_of edges k = Some k'" and "k \<in> K"
  shows "follow_corrections fuel edges path k \<noteq> Inr u"
  using assms(2)
proof (induction fuel arbitrary: path k)
  case 0
  then obtain k' where "map_of edges k = Some k'" using assms(1) by blast
  then show ?case by (simp add: follow_corrections.simps)
next
  case (Suc fuel)
  then obtain k' where "k' \<in> K" "map_of edges k = Some k'" using assms(1) by blast
  with Suc.IH show ?case by (subst follow_corrections.simps) (simp add: result_simps)
qed

lemma follow_corrections_fuel:
  assumes "distinct path" "set path \<subseteq> fst ` set edges" "length edges < fuel + length path"
  shows "follow_corrections fuel edges path k \<noteq> Inl (NamedError ''Diverges'' '''')"
  using assms
proof (induction fuel arbitrary: path k)
  case 0
  have "card (set path) \<le> card (fst ` set edges)" using 0(2) by (intro card_mono) auto
  also have "\<dots> \<le> length edges" by (metis card_image_le card_length finite_set le_trans)
  finally show ?case using 0 by (simp add: distinct_card)
next
  case (Suc fuel)
  show ?case
  proof (cases "map_of edges k")
    case (Some k')
    then have "k \<in> fst ` set edges" by (force dest: map_of_SomeD)
    then show ?thesis using Suc.IH [of "k # path" k'] Suc.prems
      by (subst follow_corrections.simps) (auto simp: Some rbind_eq_Inl guard_eq_Inl guard_eq_Inr correction_error_def)
  qed (simp add: follow_corrections.simps)
qed

text \<open>The standing quotes: visible, and not superseded by a visible correction.\<close>

definition standing :: "option_quote set \<Rightarrow> option_quote \<Rightarrow> bool" where
  "standing V q \<longleftrightarrow> q \<in> V \<and> (\<forall>s \<in> V. oq_supersedes_event_id s \<noteq> Some (oq_event_id q))"

lemma superseded_ids:
  assumes "resolve_correction_graph visible idx versions mappings query = Inr ids"
    and "indexes oq_event_id idx Q"
  shows "set ids = {t. \<exists>s \<in> set visible. oq_supersedes_event_id s = Some t}"
proof -
  obtain edges where ids: "ids = map snd edges"
    and e: "rmap (correction_edge idx versions mappings query)
           (sort_key oq_event_id (filter (\<lambda>q. oq_supersedes_event_id q \<noteq> None) visible)) = Inr edges"
    using corrections_Inr [OF assms(1)] by blast
  let ?C = "filter (\<lambda>q. oq_supersedes_event_id q \<noteq> None) visible"
  have *: "\<exists>e \<in> set edges. correction_edge idx versions mappings query s = Inr e" if "s \<in> set ?C" for s
    using rmap_image [OF e] that by auto
  have "snd e \<in> {t. \<exists>s \<in> set visible. oq_supersedes_event_id s = Some t}" if "e \<in> set edges" for e
  proof -
    obtain s where "s \<in> set ?C" "correction_edge idx versions mappings query s = Inr e"
      using rmap_set [OF e \<open>e \<in> set edges\<close>] by auto
    note s = this
    show ?thesis using s(1) correction_edge_Inr(2) [OF s(2) assms(2)] by auto
  qed
  moreover have "t \<in> snd ` set edges" if "s \<in> set visible" "oq_supersedes_event_id s = Some t" for s t
    using *[of s] that correction_edge_Inr(2) [OF _ assms(2), of versions mappings query s] by force
  ultimately show ?thesis by (auto simp: ids)
qed

text \<open>Whatever is corrected, something of the same contract stands.\<close>

lemma some_quote_stands:
  assumes run: "resolve_correction_graph visible idx versions mappings query = Inr ids"
    and idx: "indexes oq_event_id idx Q" and V: "set visible \<subseteq> Q" and dist: "distinct visible"
    and q: "q \<in> set visible"
  shows "\<exists>s. standing (set visible) s \<and> oq_contract_id s = oq_contract_id q"
proof (rule ccontr)
  assume none: "\<not> ?thesis"
  define C where "C = sort_key oq_event_id (filter (\<lambda>q. oq_supersedes_event_id q \<noteq> None) visible)"
  obtain edges where "ids = map snd edges" and e: "rmap (correction_edge idx versions mappings query) C = Inr edges"
    and walk: "\<forall>i \<in> fst ` set edges. follow_corrections (Suc (length edges)) edges [] i = Inr ()"
    by (rule corrections_Inr [OF run, folded C_def])
  define W where "W = {s \<in> set visible. oq_contract_id s = oq_contract_id q}"
  have inj: "inj_on oq_event_id (set visible)" using indexes_inj [OF idx] V by (rule inj_on_subset)
  have edge: "\<exists>t \<in> Q. (oq_event_id s, oq_event_id t) \<in> set edges \<and> oq_supersedes_event_id s = Some (oq_event_id t)
       \<and> oq_contract_id t = oq_contract_id s" if "s \<in> set visible" "oq_supersedes_event_id s \<noteq> None" for s
  proof -
    obtain x where x: "x \<in> set edges" "correction_edge idx versions mappings query s = Inr x"
      using rmap_image [OF e, of s] \<open>s \<in> set visible\<close> \<open>oq_supersedes_event_id s \<noteq> None\<close>
      by (auto simp: C_def)
    note f = correction_edge_Inr [OF x(2) idx]
    have "(oq_event_id s, snd x) \<in> set edges" using x(1) by (simp add: f(1) [symmetric])
    then show ?thesis using f(2,3) by force
  qed
  have "\<exists>t \<in> W. oq_supersedes_event_id t = Some (oq_event_id s)" if s: "s \<in> W" for s
  proof -
    obtain t where t: "t \<in> set visible" "oq_supersedes_event_id t = Some (oq_event_id s)"
      using none s by (auto simp: W_def standing_def)
    then obtain u where u: "u \<in> Q" "oq_event_id u = oq_event_id s" "oq_contract_id u = oq_contract_id t"
      using edge [of t] by auto
    moreover have "s \<in> Q" using s V by (auto simp: W_def)
    ultimately have "u = s" using inj_onD [OF indexes_inj [OF idx]] by blast
    then show ?thesis using t u(3) s by (auto simp: W_def)
  qed
  then obtain f where f: "\<And>s. s \<in> W \<Longrightarrow> f s \<in> W \<and> oq_supersedes_event_id (f s) = Some (oq_event_id s)"
    by metis
  have "inj_on f W"
  proof (rule inj_onI)
    fix s t assume "s \<in> W" "t \<in> W" "f s = f t"
    then have "oq_event_id s = oq_event_id t" using f [of s] f [of t] by simp
    with inj \<open>s \<in> W\<close> \<open>t \<in> W\<close> show "s = t" by (auto simp: W_def dest: inj_onD)
  qed
  moreover have "finite W" by (simp add: W_def)
  ultimately have onto: "f ` W = W" using f by (intro endo_inj_surj) auto
  have "map fst edges = map oq_event_id C"
    by (rule correction_sources [OF e idx])
  moreover have "distinct (map oq_event_id C)"
    using dist inj by (auto simp: distinct_map C_def intro: inj_on_subset)
  ultimately have keys: "distinct (map fst edges)" by simp
  have links: "(oq_event_id (f s), oq_event_id s) \<in> set edges" if "s \<in> W" for s
    using edge [of "f s"] f [OF that] by (auto simp: W_def)
  have "\<exists>k' \<in> oq_event_id ` W. map_of edges k = Some k'" if k: "k \<in> oq_event_id ` W" for k
  proof -
    have "k \<in> oq_event_id ` f ` W" using k by (simp only: onto)
    then obtain s where "s \<in> W" "k = oq_event_id (f s)" by blast
    then show ?thesis using links [of s] keys by auto
  qed
  moreover have qW: "q \<in> W" using q by (simp add: W_def)
  ultimately have "follow_corrections (Suc (length edges)) edges [] (oq_event_id q) \<noteq> Inr ()"
    by (intro closed_corrections_fail [of "oq_event_id ` W"]) auto
  moreover from onto qW obtain s where s: "s \<in> W" "q = f s" by blast
  have "oq_event_id q \<in> fst ` set edges" using links [OF s(1)] s(2) by force
  ultimately show False using walk by blast
qed

section \<open>The chain\<close>

lemma latest_by_contract_snoc: "latest_by_contract (qs @ [q]) = keep_latest q (latest_by_contract qs)"
  by (simp add: latest_by_contract_def)

lemma latest_by_contract_holds:
  "distinct (map fst (latest_by_contract qs))
   \<and> (\<forall>(c, q) \<in> set (latest_by_contract qs). q \<in> set qs \<and> oq_contract_id q = c
        \<and> (\<forall>q' \<in> set qs. oq_contract_id q' = c \<longrightarrow> quote_order q' \<le> quote_order q))
   \<and> (\<forall>q \<in> set qs. oq_contract_id q \<in> fst ` set (latest_by_contract qs))"
  (is "?distinct qs \<and> ?latest qs \<and> ?all qs")
proof (induction qs rule: rev_induct)
  case Nil
  then show ?case by (simp add: latest_by_contract_def)
next
  case (snoc q qs)
  let ?L = "latest_by_contract qs" and ?L' = "latest_by_contract (qs @ [q])"
  have d: "?distinct (qs @ [q])"
    using snoc by (auto simp: latest_by_contract_snoc keep_latest_def distinct_update split: option.splits)
  have m: "map_of ?L' c = (if c = oq_contract_id q \<and> (\<forall>p. map_of ?L c = Some p \<longrightarrow> quote_order p < quote_order q)
              then Some q else map_of ?L c)" for c
    by (auto simp: latest_by_contract_snoc keep_latest_def update_conv' split: option.splits)
  have old: "p \<in> set qs" "oq_contract_id p = c" "\<And>q'. q' \<in> set qs \<Longrightarrow> oq_contract_id q' = c \<Longrightarrow> quote_order q' \<le> quote_order p"
    if "map_of ?L c = Some p" for c p
    using snoc map_of_SomeD [OF that] by auto
  have none: "oq_contract_id q' \<noteq> c" if "map_of ?L c = None" "q' \<in> set qs" for c q'
    using snoc that by (auto simp: map_of_eq_None_iff)
  have "p \<in> set (qs @ [q]) \<and> oq_contract_id p = c
        \<and> (\<forall>q' \<in> set (qs @ [q]). oq_contract_id q' = c \<longrightarrow> quote_order q' \<le> quote_order p)" if "(c, p) \<in> set ?L'" for c p
  proof -
    have p: "map_of ?L' c = Some p" using d that by simp
    show ?thesis
    proof (cases "c = oq_contract_id q \<and> (\<forall>p. map_of ?L c = Some p \<longrightarrow> quote_order p < quote_order q)")
      case True
      then have "p = q" using p by (simp add: m)
      moreover have "quote_order q' \<le> quote_order q" if "q' \<in> set qs" "oq_contract_id q' = c" for q'
      proof (cases "map_of ?L c")
        case (Some r)
        then have "quote_order r < quote_order q" using True by blast
        then show ?thesis using old(3) [OF Some that] by simp
      qed (use none that in blast)
      ultimately show ?thesis using True by auto
    next
      case False
      then have r: "map_of ?L c = Some p" using p unfolding m if_not_P [OF False] by blast
      then have "quote_order q \<le> quote_order p" if "oq_contract_id q = c" using False that by auto
      then show ?thesis using old [OF r] by auto
    qed
  qed
  moreover have "oq_contract_id p \<in> fst ` set ?L'" if "p \<in> set (qs @ [q])" for p
  proof -
    have "map_of ?L' (oq_contract_id p) \<noteq> None"
      using that none [of "oq_contract_id p" p] by (auto simp: m)
    then show ?thesis by (simp add: map_of_eq_None_iff)
  qed
  ultimately show ?case using d by blast
qed

lemma quote_order_inj: "quote_order p = quote_order q \<Longrightarrow> oq_event_id p = oq_event_id q"
  by (simp add: quote_order_def Let_def)

lemma latest_by_contract_quotes:
  assumes "inj_on oq_event_id (set qs)"
  shows "set (map snd (latest_by_contract qs)) = {q \<in> set qs. \<forall>q' \<in> set qs. oq_contract_id q' = oq_contract_id q
           \<longrightarrow> quote_order q' \<le> quote_order q}"
    and "map oq_contract_id (map snd (latest_by_contract qs)) = map fst (latest_by_contract qs)"
proof -
  note L = latest_by_contract_holds [of qs]
  have "q \<in> set (map snd (latest_by_contract qs))"
    if q: "q \<in> set qs" "\<forall>q' \<in> set qs. oq_contract_id q' = oq_contract_id q \<longrightarrow> quote_order q' \<le> quote_order q" for q
  proof -
    obtain p where p: "(oq_contract_id q, p) \<in> set (latest_by_contract qs)" using L q(1) by force
    then have "p \<in> set qs" "oq_contract_id p = oq_contract_id q" "quote_order q \<le> quote_order p" using L q(1) by auto
    then have "quote_order p = quote_order q" using q by fastforce
    then have "p = q" using assms \<open>p \<in> set qs\<close> q(1) by (auto dest: quote_order_inj inj_onD)
    then show ?thesis using p by force
  qed
  then show "set (map snd (latest_by_contract qs)) = {q \<in> set qs. \<forall>q' \<in> set qs. oq_contract_id q' = oq_contract_id q
           \<longrightarrow> quote_order q' \<le> quote_order q}"
    using L by auto
  show "map oq_contract_id (map snd (latest_by_contract qs)) = map fst (latest_by_contract qs)"
    using L by auto
qed

lemma reconstruct_Inr:
  assumes "reconstruct_option_chain quotes versions mappings assessments query = Inr chain"
  obtains visible idx ids where "indexes oq_event_id idx (set quotes)" and "distinct visible"
    and "set visible = {q \<in> set quotes. quote_is_visible versions mappings assessments query q = Inr True}"
    and "\<exists>vs ms. resolve_correction_graph visible idx vs ms query = Inr ids"
    and "chain = sort_key chain_position
           (map snd (latest_by_contract (filter (\<lambda>q. oq_event_id q \<notin> set ids) visible)))"
proof -
  obtain vs ms idx visible ids where vs: "unique_index ''contract version'' fst versions = Inr vs"
    and ms: "unique_index ''provider mapping'' fst mappings = Inr ms"
    and idx: "unique_index ''normalized event'' oq_event_id quotes = Inr idx"
    and vis: "rfilter (quote_is_visible (map snd vs) (map snd ms) assessments query) (map snd idx) = Inr visible"
    and ids: "resolve_correction_graph visible idx (map snd vs) (map snd ms) query = Inr ids"
    and chain: "chain = sort_key chain_position
           (map snd (latest_by_contract (filter (\<lambda>q. oq_event_id q \<notin> set ids) visible)))"
    using assms unfolding reconstruct_option_chain_def Let_def rbind_eq_Inr by blast
  note ix = unique_index_indexes [OF idx]
  have "distinct (map oq_event_id (map snd idx))"
    using ix by (auto simp: indexes_def comp_def cong: map_cong)
  then have "distinct (map snd idx)" using distinct_map by blast
  moreover have "visible = filter (\<lambda>q. quote_is_visible versions mappings assessments query q = Inr True) (map snd idx)"
    using rfilter_Inr(1) [OF vis] visible_cong [OF map_of_indexed_pairs [OF vs] map_of_indexed_pairs [OF ms]] by simp
  moreover have "snd ` set idx = set quotes" using ix by (simp add: indexes_def)
  ultimately show thesis using that [OF ix, of visible ids] ids chain by auto
qed

text \<open>C7. The reconstructed chain holds, for every contract with a visible quote, exactly the latest of
  its standing quotes (latest in the order of exchange time, sequence, arrival and identifier), and
  nothing else; no contract twice, sorted by expiry, strike and side. In particular the result does
  not depend on the order in which the quotes arrived, and a chain of corrections never makes a
  contract disappear.\<close>

theorem reconstructed_chain:
  assumes "reconstruct_option_chain quotes versions mappings assessments query = Inr chain"
    and "V = {q \<in> set quotes. quote_is_visible versions mappings assessments query q = Inr True}"
  shows "set chain = {q. standing V q \<and> (\<forall>q'. standing V q' \<and> oq_contract_id q' = oq_contract_id q
                            \<longrightarrow> quote_order q' \<le> quote_order q)}
    \<and> oq_contract_id ` set chain = oq_contract_id ` V
    \<and> distinct (map oq_contract_id chain) \<and> sorted (map chain_position chain)"
proof -
  obtain visible idx ids where idx: "indexes oq_event_id idx (set quotes)" and dist: "distinct visible"
    and vis: "set visible = V" and "\<exists>vs ms. resolve_correction_graph visible idx vs ms query = Inr ids"
    and chain: "chain = sort_key chain_position
           (map snd (latest_by_contract (filter (\<lambda>q. oq_event_id q \<notin> set ids) visible)))"
    by (rule reconstruct_Inr [OF assms(1), folded assms(2)])
  then obtain vs ms where ids: "resolve_correction_graph visible idx vs ms query = Inr ids" by blast
  define S where "S = filter (\<lambda>q. oq_event_id q \<notin> set ids) visible"
  have S: "q \<in> set S \<longleftrightarrow> standing V q" for q
    using superseded_ids [OF ids idx] by (auto simp: S_def standing_def vis)
  have sub: "set visible \<subseteq> set quotes" using vis assms(2) by auto
  then have inj: "inj_on oq_event_id (set S)"
    using indexes_inj [OF idx] by (auto simp: S_def intro: inj_on_subset)
  note L = latest_by_contract_quotes [OF inj] latest_by_contract_holds [of S]
  have set: "set chain = {q. standing V q \<and> (\<forall>q'. standing V q' \<and> oq_contract_id q' = oq_contract_id q
                            \<longrightarrow> quote_order q' \<le> quote_order q)}"
    using L(1) by (auto simp: chain S_def [symmetric] S)
  have "oq_contract_id ` set chain = fst ` set (latest_by_contract S)"
    using arg_cong [OF L(2), of set] by (simp add: chain S_def [symmetric] image_image)
  also have "\<dots> = oq_contract_id ` set S" using L(3) by force
  also have "\<dots> = oq_contract_id ` V"
    using some_quote_stands [OF ids idx sub dist] S vis by (auto simp: standing_def image_iff) metis
  finally have contracts: "oq_contract_id ` set chain = oq_contract_id ` V" .
  have "distinct (map oq_contract_id (map snd (latest_by_contract S)))" unfolding L(2) using L(3) by blast
  then have "distinct (map oq_contract_id chain)"
    unfolding chain S_def [symmetric] distinct_map [of oq_contract_id] set_sort distinct_sort .
  then show ?thesis using set contracts by (simp add: chain)
qed

section \<open>Every run ends with a chain or a documented error\<close>

lemma made_event_time_aware:
  "make_event_time t = Inr e \<Longrightarrow> tz_aware (et_exchange_timestamp e) \<and> tz_aware (et_available_at e)"
  by (auto simp: make_event_time_def result_simps)

lemma correction_edge_errors:
  assumes "correction_edge idx versions mappings query s = Inl e" and "oq_supersedes_event_id s \<noteq> None"
    and times: "\<forall>q \<in> snd ` set idx. \<exists>t. make_event_time t = Inr (oq_event_time q)"
  shows "\<exists>m. e = correction_error m"
proof -
  have total: "\<exists>b. quote_is_historically_eligible versions mappings query q = Inr b"
    if q: "map_of idx t = Some q" for q t
  proof -
    have "q \<in> snd ` set idx" using map_of_SomeD [OF q] by force
    then obtain t0 where "make_event_time t0 = Inr (oq_event_time q)" using times by blast
    then have utc: "tz_aware (et_exchange_timestamp (oq_event_time q))" "tz_aware (et_available_at (oq_event_time q))"
      using made_event_time_aware by blast+
    show ?thesis
      by (cases "quote_terms versions mappings q"; cases "in_the_future query q")
         (auto simp: quote_is_historically_eligible_def metadata_effective_at_def mapping_effective_at_def
           Let_def to_utc_def optional_utc_def utc split: option.splits)
  qed
  obtain t where t: "oq_supersedes_event_id s = Some t" using assms(2) by blast
  show ?thesis
  proof (cases "map_of idx t")
    case None
    then show ?thesis using assms(1) unfolding correction_edge_def t
      by (auto simp: Let_def rbind_eq_Inl guard_eq_Inl)
  next
    case (Some q)
    obtain b where "quote_is_historically_eligible versions mappings query q = Inr b" using total [OF Some] by blast
    then show ?thesis using assms(1) unfolding correction_edge_def t
      by (auto simp: Let_def Some rbind_eq_Inl guard_eq_Inl)
  qed
qed

lemma follow_corrections_errors:
  "follow_corrections fuel edges path k = Inl e
   \<Longrightarrow> (\<exists>m. e = correction_error m) \<or> e = NamedError ''Diverges'' ''''"
proof (induction fuel arbitrary: path k)
  case 0
  then show ?case by (subst (asm) follow_corrections.simps) (auto split: option.splits)
next
  case (Suc fuel)
  then show ?case
    by (subst (asm) (2) follow_corrections.simps) (auto simp: rbind_eq_Inl guard_eq_Inl split: option.splits)
qed

lemma correction_graph_errors:
  assumes "resolve_correction_graph visible idx versions mappings query = Inl e"
    and times: "\<forall>q \<in> snd ` set idx. \<exists>t. make_event_time t = Inr (oq_event_time q)"
  shows "\<exists>m. e = correction_error m"
proof -
  define C where "C = sort_key oq_event_id (filter (\<lambda>q. oq_supersedes_event_id q \<noteq> None) visible)"
  consider (edge) "rmap (correction_edge idx versions mappings query) C = Inl e"
    | (branch) edges t ts where "ambiguous_targets edges = t # ts"
        "e = correction_error (''ambiguous correction branch for target '' @ t)"
    | (walk) edges where "rmap (follow_corrections (Suc (length edges)) edges []) (sort (map fst edges)) = Inl e"
  proof (cases "rmap (correction_edge idx versions mappings query) C")
    case (Inr edges)
    show ?thesis
    proof (cases "ambiguous_targets edges")
      case Nil
      then show ?thesis using assms(1) Inr that(3) [of edges]
        by (simp add: resolve_correction_graph_def C_def rbind_eq_Inl)
    next
      case (Cons t ts)
      then show ?thesis using assms(1) Inr that(2) [of edges t ts]
        by (simp add: resolve_correction_graph_def C_def)
    qed
  qed (use assms(1) that(1) in \<open>simp add: resolve_correction_graph_def C_def\<close>)
  then show ?thesis
  proof cases
    case edge
    from rmap_Inl [OF this] obtain s where s: "s \<in> set C" "correction_edge idx versions mappings query s = Inl e"
      by blast
    have "oq_supersedes_event_id s \<noteq> None" using s(1) by (simp add: C_def)
    with s(2) show ?thesis using times by (rule correction_edge_errors)
  next
    case branch
    then show ?thesis by blast
  next
    case walk
    from rmap_Inl [OF this] obtain k where k: "follow_corrections (Suc (length edges)) edges [] k = Inl e" by blast
    then have "e \<noteq> NamedError ''Diverges'' ''''"
      using follow_corrections_fuel [of "[]" edges "Suc (length edges)" k] by auto
    then show ?thesis using follow_corrections_errors [OF k] by blast
  qed
qed

lemma unique_index_errors: "unique_index label key items = Inl e \<Longrightarrow> \<exists>m. e = identity_conflict label m"
  unfolding unique_index_def
  by (drule rfold_Inl) (auto simp: put_unique_def rbind_eq_Inl guard_eq_Inl)

text \<open>Reconstruction always ends, with a chain or with one of its two documented errors: records that
  share an identity but differ, or a correction that is not well-formed. The walk along corrections
  never runs out of its fuel.\<close>

theorem reconstruction_ends_documented:
  assumes "make_query q = Inr query"
    and "\<forall>x \<in> set quotes. \<exists>t. make_event_time t = Inr (oq_event_time x)"
  shows "(\<exists>chain. reconstruct_option_chain quotes versions mappings assessments query = Inr chain)
    \<or> (\<exists>label i. reconstruct_option_chain quotes versions mappings assessments query = Inl (identity_conflict label i))
    \<or> (\<exists>m. reconstruct_option_chain quotes versions mappings assessments query = Inl (correction_error m))"
proof (cases "reconstruct_option_chain quotes versions mappings assessments query")
  case (Inl e)
  have no: "rfilter (quote_is_visible vs ms assessments query) xs \<noteq> Inl e" for vs ms xs
    using rfilter_total [of xs "quote_is_visible vs ms assessments query"]
      visible_total [OF make_query_in_utc [OF assms(1)]] by fastforce
  consider (index) label key where "unique_index label key versions = Inl e"
    | (index2) label key where "unique_index label key mappings = Inl e"
    | (index3) label key where "unique_index label key quotes = Inl e"
    | (graph) idx visible vs ms where "unique_index ''normalized event'' oq_event_id quotes = Inr idx"
        "resolve_correction_graph visible idx vs ms query = Inl e"
    using Inl unfolding reconstruct_option_chain_def Let_def rbind_eq_Inl using no by blast
  then show ?thesis
  proof cases
    case graph
    have "snd ` set idx = set quotes" using unique_index_indexes [OF graph(1)] by (simp add: indexes_def)
    then show ?thesis using correction_graph_errors [OF graph(2)] assms(2) Inl by auto
  qed (use Inl in \<open>blast dest: unique_index_errors\<close>)+
qed blast

section \<open>A chain with a correction\<close>

definition demo_version :: contract_version where
  "demo_version = \<lparr>cv_kind = OptionVersion,
     cv_metadata = \<lparr>cm_valid_from = Aware 0 0, cm_valid_until = None, cm_lot_size = 25, cm_tick_size = Dec 1,
       cm_display_symbol = ''N'', cm_trading_status = Active, cm_catalogue_version_id = ''cat'',
       cm_recorded_at = Aware 0 0, cm_superseded_at = None\<rparr>, cv_subject_id = ''c''\<rparr>"

definition demo_mapping :: provider_contract_mapping where
  "demo_mapping = \<lparr>pm_provider = ''p'', pm_provider_contract_key = ''k'', pm_contract_version_id = ''v'',
     pm_provider_payload_hash = ''h'', pm_source_row_identity = None, pm_effective_from = Aware 0 0,
     pm_effective_until = None, pm_recorded_at = Aware 0 0, pm_superseded_at = None\<rparr>"

definition demo_quote :: "string \<Rightarrow> int \<Rightarrow> string option \<Rightarrow> option_quote" where
  "demo_quote i t corrects =
     \<lparr>oq_identity = \<lparr>ne_raw_event_id = i, ne_event_type = ''quote'', ne_subject_id = ''c'', ne_schema_version = 1,
        ne_event_id = i\<rparr>,
      oq_contract = \<lparr>oi_exchange = ''NSE'', oi_underlying_instrument_id = ''u'', oi_expiry = 1, oi_strike = Dec 100,
        oi_option_side = CallSide, oi_exercise_style = European, oi_settlement_type = CashSettled,
        oi_multiplier = Dec 1, oi_currency = ''INR''\<rparr>,
      oq_contract_version_id = ''v'', oq_provider_mapping_id = ''m'',
      oq_event_time = \<lparr>et_exchange_timestamp = Aware t 0, et_available_at = Aware t 0, et_recorded_at = Aware t 0,
        et_received_at = Some (Aware t 0), et_availability_basis = BasisReceived\<rparr>,
      oq_bid_price = None, oq_bid_size_contracts = None, oq_ask_price = None, oq_ask_size_contracts = None,
      oq_last_price = None, oq_last_size_contracts = None, oq_volume_contracts = None,
      oq_open_interest_contracts = None, oq_provider_sequence = None, oq_event_order = None,
      oq_supersedes_event_id = corrects\<rparr>"

definition demo_assessment :: "string \<Rightarrow> int \<Rightarrow> quality_disposition \<Rightarrow> quality_assessment" where
  "demo_assessment i t d =
     \<lparr>qa_run_id = ''r'', qa_event_id = i, qa_policy_id = ''q'', qa_policy_version = 1, qa_disposition = d,
      qa_reason_codes = [], qa_assessed_at = Aware t 0, qa_recorded_at = Aware t 0, qa_assessment_id = i\<rparr>"

definition demo_query :: point_in_time_query where
  "demo_query = \<lparr>pq_market_as_of = Aware 10 0, pq_known_as_of = Some (Aware 10 0), pq_quality_policy_id = ''q'',
     pq_quality_policy_version = 1, pq_require_defensible_availability = True\<rparr>"

lemmas demo_chain_simps = demo_version_def demo_mapping_def demo_quote_def demo_assessment_def demo_query_def

text \<open>Event \<open>b\<close> corrects \<open>a\<close>, \<open>z\<close> comes after the cutoffs; the chain is \<open>b\<close> alone.\<close>

abbreviation demo_quotes :: "option_quote list" where
  "demo_quotes \<equiv> [demo_quote ''a'' 5 None, demo_quote ''b'' 4 (Some ''a'')]"

abbreviation demo_assessments :: "quality_assessment list" where
  "demo_assessments \<equiv> [demo_assessment ''a'' 6 QualityAccepted, demo_assessment ''b'' 6 QualityAccepted]"

lemma demo_query_made: "make_query demo_query = Inr demo_query"
  by (simp add: make_query_def demo_query_def)

lemma demo_chain:
  "reconstruct_option_chain demo_quotes [(''v'', demo_version)] [(''m'', demo_mapping)] demo_assessments demo_query
   = Inr [demo_quote ''b'' 4 (Some ''a'')]"
  by (simp add: reconstruct_option_chain_def unique_index_def put_unique_def rfilter_def quote_is_visible_def
      quote_terms_def metadata_effective_at_def mapping_effective_at_def in_the_future_def earlier_def
      is_defensible_knowledge_time_def selected_assessment_def assessment_applies_def is_eligible_def
      resolve_correction_graph_def correction_edge_def quote_is_historically_eligible_def ambiguous_targets_def
      follow_corrections.simps latest_by_contract_def keep_latest_def demo_chain_simps)


theorem reconstructed_chain_witness:
  "sorted (map chain_position [demo_quote ''b'' 4 (Some ''a'')])
   \<and> oq_contract_id ` {q \<in> set demo_quotes. quote_is_visible [(''v'', demo_version)] [(''m'', demo_mapping)]
        demo_assessments demo_query q = Inr True} = {''c''}"
proof -
  have c: "oq_contract_id ` set [demo_quote ''b'' 4 (Some ''a'')] = {''c''}" by (simp add: demo_quote_def)
  show ?thesis using reconstructed_chain [OF demo_chain refl, THEN conjunct2] unfolding c by simp
qed

theorem reconstruction_ends_documented_witness:
  "reconstruct_option_chain [demo_quote ''a'' 5 (Some ''b''), demo_quote ''b'' 5 (Some ''a'')] [(''v'', demo_version)]
     [(''m'', demo_mapping)] demo_assessments demo_query
   = Inl (correction_error ''correction graph contains a cycle at event a'')
   \<and> ((\<exists>chain. reconstruct_option_chain demo_quotes [(''v'', demo_version)] [(''m'', demo_mapping)]
           demo_assessments demo_query = Inr chain)
      \<or> (\<exists>label i. reconstruct_option_chain demo_quotes [(''v'', demo_version)] [(''m'', demo_mapping)]
           demo_assessments demo_query = Inl (identity_conflict label i))
      \<or> (\<exists>m. reconstruct_option_chain demo_quotes [(''v'', demo_version)] [(''m'', demo_mapping)]
           demo_assessments demo_query = Inl (correction_error m)))"
proof -
  have "make_event_time (oq_event_time (demo_quote i t c)) = Inr (oq_event_time (demo_quote i t c))" for i t c
    by (simp add: make_event_time_def earlier_def demo_quote_def)
  then have "\<forall>x \<in> set demo_quotes. \<exists>t. make_event_time t = Inr (oq_event_time x)" by auto
  note reconstruction_ends_documented [OF demo_query_made this, of "[(''v'', demo_version)]" "[(''m'', demo_mapping)]"
    demo_assessments]
  then show ?thesis
    by (simp add: reconstruct_option_chain_def unique_index_def put_unique_def rfilter_def quote_is_visible_def
      quote_terms_def metadata_effective_at_def mapping_effective_at_def in_the_future_def earlier_def
      is_defensible_knowledge_time_def selected_assessment_def assessment_applies_def is_eligible_def
      resolve_correction_graph_def correction_edge_def quote_is_historically_eligible_def ambiguous_targets_def
      follow_corrections.simps latest_by_contract_def keep_latest_def demo_chain_simps)
qed

end
