(* ===== verification/EventIdentity.thy ===== *)
theory EventIdentity
  imports PointInTime
begin

text \<open>
  What the identifiers of \<open>app/market_data/point_in_time.py\<close> identify. An identifier is the SHA-256 of a
  canonical JSON text; the theorems are about that text, so they hold for any hash function that has
  no collision among the texts in use.
\<close>

lemma payload_values:
  assumes "canonical_json (str_dict kvs) = Inr t" and "canonical_json (str_dict lws) = Inr t"
    and "map fst kvs = map fst lws" and "distinct (map fst kvs)"
  shows "list_all2 same_json (map snd kvs) (map snd lws)"
  using canonical_same_json [OF assms(1,2)] by (simp add: same_json_str_dict [OF assms(3,4)])

lemma same_json_str_dict_PStr [simp]:
  "same_json (str_dict kvs) (PStr s) \<longleftrightarrow> False" "same_json (PStr s) (str_dict kvs) \<longleftrightarrow> False"
  by (simp_all add: str_dict_def)

lemma same_json_optional_text [simp]: "same_json (optional_text a) (optional_text b) \<longleftrightarrow> a = b"
  by (cases a; cases b) (auto simp: optional_text_def)

text \<open>Normalized events are identified by all of their fields: two events whose identifiers are computed
  from the same text agree in raw event, type, subject and schema version.\<close>

theorem event_identity_complete:
  assumes "canonical_json (str_dict (event_payload raw event_type subject version)) = Inr t"
    and "canonical_json (str_dict (event_payload raw' event_type' subject' version')) = Inr t"
    and "small_int version" "small_int version'"
  shows "raw = raw' \<and> event_type = event_type' \<and> subject = subject' \<and> version = version'"
  using payload_values [OF assms(1,2)] assms(3,4) by (simp add: event_payload_def)

theorem event_identity_complete_witness:
  "\<exists>t. canonical_json (str_dict (event_payload ''r'' ''quote'' ''c'' 1)) = Inr t
     \<and> canonical_json (str_dict (event_payload ''r'' ''quote'' ''d'' 1)) \<noteq> Inr t"
proof -
  have s: "small_int 1" by (simp add: small_int_def)
  obtain t where t: "canonical_json (str_dict (event_payload ''r'' ''quote'' ''c'' 1)) = Inr t"
    by (simp add: canonical_json_def event_payload_def str_dict_def)
  have "canonical_json (str_dict (event_payload ''r'' ''quote'' ''d'' 1)) \<noteq> Inr t"
  proof
    assume "canonical_json (str_dict (event_payload ''r'' ''quote'' ''d'' 1)) = Inr t"
    from event_identity_complete [OF t this s s] show False by simp
  qed
  with t show ?thesis by blast
qed

text \<open>The field an accepted observation is identified by, as validation reads it: the first present one.\<close>

fun small_sequence :: "int option \<Rightarrow> bool" where
  "small_sequence None = True"
| "small_sequence (Some n) = small_int n"

lemma same_sequence [simp]:
  "small_int m \<Longrightarrow> small_int n \<Longrightarrow>
   same_json (str_dict [(''provider_sequence_scope_id'', optional_text a), (''provider_sequence'', PInt m)])
             (str_dict [(''provider_sequence_scope_id'', optional_text b), (''provider_sequence'', PInt n)])
   \<longleftrightarrow> a = b \<and> m = n"
  by (simp add: same_json_str_dict)

lemma same_source_row [simp]:
  "same_json (str_dict [(''source_file_id'', PStr f), (''source_row_id'', optional_text a)])
             (str_dict [(''source_file_id'', PStr g), (''source_row_id'', optional_text b)]) \<longleftrightarrow> f = g \<and> a = b"
  by (simp add: same_json_str_dict)

text \<open>C35. Raw observations with the same identifier text come from the same provider and agree in the
  identity the text was built from: the provider's event id when there is one, else the sequence in
  its scope, else the row of a source file, else the ingestion event.\<close>

theorem raw_identity_complete:
  assumes "canonical_json (str_dict (raw_identity_payload r)) = Inr t"
    and "canonical_json (str_dict (raw_identity_payload r')) = Inr t"
    and "small_sequence (ri_provider_sequence r)" "small_sequence (ri_provider_sequence r')"
  shows "ri_provider r = ri_provider r' \<and> ri_provider_event_id r = ri_provider_event_id r'
    \<and> (ri_provider_event_id r = None \<longrightarrow>
         ri_provider_sequence r = ri_provider_sequence r'
         \<and> (if ri_provider_sequence r \<noteq> None
            then ri_provider_sequence_scope_id r = ri_provider_sequence_scope_id r'
            else ri_source_file_id r = ri_source_file_id r'
              \<and> (if ri_source_file_id r \<noteq> None then ri_source_row_id r = ri_source_row_id r'
                 else ri_ingestion_event_id r = ri_ingestion_event_id r')))"
  using payload_values [OF assms(1,2)] assms(3,4)
  by (auto simp: raw_identity_payload_def raw_identity_value_def split: option.splits)

definition demo_observation :: "string option \<Rightarrow> int \<Rightarrow> raw_observation_identity" where
  "demo_observation event_id n =
     \<lparr>ri_provider = ''p'', ri_content_hash = ''h'', ri_provider_sequence_scope_id = Some ''s'',
      ri_provider_event_id = event_id, ri_provider_sequence = Some n, ri_source_file_id = None,
      ri_source_row_id = None, ri_ingestion_event_id = None\<rparr>"

theorem raw_identity_complete_witness:
  "\<exists>t. canonical_json (str_dict (raw_identity_payload (demo_observation None 1))) = Inr t
     \<and> canonical_json (str_dict (raw_identity_payload (demo_observation None 2))) \<noteq> Inr t"
proof -
  have s: "small_sequence (ri_provider_sequence (demo_observation None 1))"
    "small_sequence (ri_provider_sequence (demo_observation None 2))"
    by (simp_all add: small_int_def demo_observation_def)
  obtain t where t: "canonical_json (str_dict (raw_identity_payload (demo_observation None 1))) = Inr t"
    by (simp add: canonical_json_def raw_identity_payload_def raw_identity_value_def demo_observation_def
        str_dict_def optional_text_def)
  have "canonical_json (str_dict (raw_identity_payload (demo_observation None 2))) \<noteq> Inr t"
  proof
    assume "canonical_json (str_dict (raw_identity_payload (demo_observation None 2))) = Inr t"
    from raw_identity_complete [OF t this s] show False by (simp add: demo_observation_def)
  qed
  with t show ?thesis by blast
qed

text \<open>C36. An empty provider event id is not an identity for validation but is one for the identifier:
  observations with an empty event id and different sequences are all accepted, and all get the same
  identifier.\<close>

theorem empty_event_id_collides:
  "0 \<le> n \<Longrightarrow> make_raw_identity (demo_observation (Some '''') n) = Inr (demo_observation (Some '''') n)
   \<and> raw_event_id sha256 (demo_observation (Some '''') n) = raw_event_id sha256 (demo_observation (Some '''') 0)"
  by (simp add: make_raw_identity_def truthy_def demo_observation_def strip_def is_space_def raw_event_id_def
      raw_identity_payload_def raw_identity_value_def)

theorem empty_event_id_collides_witness:
  "raw_event_id id (demo_observation (Some '''') 7) = raw_event_id id (demo_observation (Some '''') 0)"
  using empty_event_id_collides [of 7 id] by simp

end
