(* ===== verification/LifecycleProperties.thy ===== *)
theory LifecycleProperties
  imports Lifecycle
begin

text \<open>
  What the life-cycle model of \<open>app/market_data/normalization/lifecycle.py\<close> guarantees. The sequence
  validators keep dictionaries; the specifications here look at the whole history instead, and the
  validators accept exactly the histories the specifications allow.
\<close>

section \<open>Normalization\<close>

lemma validate_common_made:
  "validate_common e = Inr f \<Longrightarrow> validate_common f = Inr f \<and> eo_connection_session_id f \<noteq> []"
  by (auto simp: validate_common_def result_simps strip_def)

lemma made_connection_event:
  "make_connection_event e = Inr f \<Longrightarrow> make_connection_event f = Inr f \<and> ce_session f \<noteq> []
     \<and> ce_state f \<in> connection_transitions (ce_previous_state f)"
  by (auto simp: make_connection_event_def result_simps dest: validate_common_made)

lemma made_subscription_event:
  assumes "make_subscription_event e = Inr f"
  shows "make_subscription_event f = Inr f" and "se_state f \<in> subscription_transitions (se_previous_state f)"
    and "se_state f \<in> {SubscribeRequested, Subscribed, ModeChangeRequested, ModeChanged} \<Longrightarrow>
      \<exists>m. se_request_mode f = Some m \<and> is_count (se_instrument_set f) \<le> mode_instrument_limit m"
proof -
  obtain og v u where og: "validate_common (se_origin e) = Inr og"
    and scope: "validate_opaque_identifier (se_subscription_scope_id e) ''subscription_scope_id'' = Inr v"
    and limit: "\<not> (case se_request_mode e of None \<Rightarrow> False
                   | Some mode \<Rightarrow> mode_instrument_limit mode < is_count (se_instrument_set e))"
    and state: "\<not> se_state e \<notin> subscription_transitions (se_previous_state e)"
    and mode: "\<not> (se_state e \<in> {SubscribeRequested, Subscribed, ModeChangeRequested, ModeChanged} \<and> se_request_mode e = None)"
    and reason: "validate_reason (se_state e = SubscriptionFailed) (se_reason e) = Inr u"
    and f: "Inr (e\<lparr>se_origin := og\<rparr>) = (Inr f :: subscription_event result)"
    using assms unfolding make_subscription_event_def rbind_eq_Inr guard_eq_Inr by blast
  have f: "f = e\<lparr>se_origin := og\<rparr>" using f by simp
  have fe: "se_origin f = og" "se_scope f = se_scope e" "se_request_mode f = se_request_mode e"
    "se_instrument_set f = se_instrument_set e" "se_state f = se_state e"
    "se_previous_state f = se_previous_state e" "se_reason f = se_reason e"
    by (simp_all add: f)
  have "Inr (f\<lparr>se_origin := og\<rparr>) = (Inr f :: subscription_event result)" by (simp add: f)
  moreover have "validate_common og = Inr og" using validate_common_made [OF og] by blast
  ultimately show "make_subscription_event f = Inr f"
    unfolding make_subscription_event_def rbind_eq_Inr guard_eq_Inr fe
    using scope limit state mode reason by blast
  show "se_state f \<in> subscription_transitions (se_previous_state f)" using state by (simp add: f)
  show "\<exists>m. se_request_mode f = Some m \<and> is_count (se_instrument_set f) \<le> mode_instrument_limit m"
    if "se_state f \<in> {SubscribeRequested, Subscribed, ModeChangeRequested, ModeChanged}"
    using that limit mode by (auto simp: f split: option.splits)
qed

lemma lifecycle_ids:
  "\<exists>t. connection_raw_id sha256 c = Inr t \<and> t \<noteq> []"
  "\<exists>t. subscription_raw_id sha256 s = Inr t \<and> t \<noteq> []"
  "\<exists>t. subscription_subject_id sha256 s = Inr t \<and> t \<noteq> []"
  by (simp_all add: connection_raw_id_def subscription_raw_id_def subscription_subject_id_def stable_hash_def
      canonical_json_def str_dict_def Let_def)

lemma normalized_header_valid:
  assumes "raw_id \<noteq> []" "event_type \<noteq> []" "subject_id \<noteq> []"
  shows "\<exists>h. normalized_header_for sha256 raw_id event_type subject_id = Inr h
    \<and> nh_raw_event_id h = raw_id \<and> validate_normalized h raw_id subject_id event_type = Inr ()"
  using assms
  by (simp add: normalized_header_for_def make_normalized_identity_def NORMALIZATION_SCHEMA_VERSION_def
      stable_hash_def canonical_json_def str_dict_def event_payload_def validate_normalized_def)


section \<open>Connection sequences\<close>

text \<open>What may follow a history of connection events.\<close>

definition same_connection_source :: "connection_event \<Rightarrow> connection_event \<Rightarrow> bool" where
  "same_connection_source a b \<longleftrightarrow>
     ce_provider a = ce_provider b \<and> (ce_scope a = ce_scope b \<longleftrightarrow> ce_session a = ce_session b)
     \<and> (ce_scope a = ce_scope b \<longrightarrow> ce_order a < ce_order b)"

inductive connection_history :: "connection_event list \<Rightarrow> bool" where
  "connection_history []"
| "connection_history [e]"
| "connection_history es \<Longrightarrow> es \<noteq> [] \<Longrightarrow> \<forall>a \<in> set es. same_connection_source a e
   \<Longrightarrow> ce_session e = ce_session (last es) \<Longrightarrow> ce_previous_state e = Some (ce_state (last es))
   \<Longrightarrow> connection_history (es @ [e])"
| "connection_history es \<Longrightarrow> es \<noteq> [] \<Longrightarrow> \<forall>a \<in> set es. same_connection_source a e
   \<Longrightarrow> \<forall>a \<in> set es. ce_session a \<noteq> ce_session e \<Longrightarrow> ce_state (last es) = ConnReconnecting
   \<Longrightarrow> ce_previous_state e = None \<Longrightarrow> ce_state e = ConnConnecting
   \<Longrightarrow> connection_history (es @ [e])"

lemma connection_history_snoc:
  "connection_history (es @ [e]) \<longleftrightarrow> connection_history es \<and> (\<forall>a \<in> set es. same_connection_source a e)
     \<and> (es = []
        \<or> ce_session e = ce_session (last es) \<and> ce_previous_state e = Some (ce_state (last es))
        \<or> (\<forall>a \<in> set es. ce_session a \<noteq> ce_session e) \<and> ce_state (last es) = ConnReconnecting
          \<and> ce_previous_state e = None \<and> ce_state e = ConnConnecting)" (is "_ \<longleftrightarrow> ?R")
proof
  assume "connection_history (es @ [e])"
  then show ?R by (cases rule: connection_history.cases) (auto intro: connection_history.intros)
next
  assume R: ?R
  show "connection_history (es @ [e])"
  proof (cases "es = []")
    case True
    then show ?thesis by (simp add: connection_history.intros(2))
  next
    case False
    then show ?thesis using R connection_history.intros(3) [of es e] connection_history.intros(4) [of es e] by blast
  qed
qed

text \<open>What the validator's dictionaries hold after a history.\<close>

definition tracks_connections :: "connection_event list \<Rightarrow> connection_tracker \<Rightarrow> bool" where
  "tracks_connections es t \<longleftrightarrow>
     (\<forall>s c. ct_session_scopes t s = Some c \<longleftrightarrow> (\<exists>a \<in> set es. ce_session a = s \<and> ce_scope a = c))
     \<and> (\<forall>c s. ct_scope_sessions t c = Some s \<longleftrightarrow> (\<exists>a \<in> set es. ce_session a = s \<and> ce_scope a = c))
     \<and> (\<forall>c n. ct_scope_orders t c = Some n \<longrightarrow> (\<exists>a \<in> set es. ce_scope a = c \<and> ce_order a = n))
     \<and> (\<forall>a \<in> set es. \<exists>n. ct_scope_orders t (ce_scope a) = Some n \<and> ce_order a \<le> n)
     \<and> ct_previous t = (if es = [] then None else Some (last es))
     \<and> (\<forall>a \<in> set es. ce_provider a = ce_provider (last es))"

lemma tracks_connections_Nil: "tracks_connections [] no_connections"
  by (simp add: tracks_connections_def no_connections_def)

lemma tracked_scopes:
  assumes "tracks_connections es t"
  shows "ct_session_scopes t s = None \<longleftrightarrow> (\<forall>a \<in> set es. ce_session a \<noteq> s)"
    and "ct_scope_sessions t c = None \<longleftrightarrow> (\<forall>a \<in> set es. ce_scope a \<noteq> c)"
    and "ct_session_scopes t s \<noteq> None \<and> ct_session_scopes t s \<noteq> Some c \<longleftrightarrow>
      (\<exists>a \<in> set es. ce_session a = s \<and> ce_scope a \<noteq> c)"
    and "ct_scope_sessions t c \<noteq> None \<and> ct_scope_sessions t c \<noteq> Some s \<longleftrightarrow>
      (\<exists>a \<in> set es. ce_scope a = c \<and> ce_session a \<noteq> s)"
    and "(case ct_scope_orders t c of None \<Rightarrow> False | Some prior \<Rightarrow> n \<le> prior)
      \<longleftrightarrow> (\<exists>a \<in> set es. ce_scope a = c \<and> n \<le> ce_order a)"
proof -
  have s: "ct_session_scopes t s = Some c \<longleftrightarrow> (\<exists>a \<in> set es. ce_session a = s \<and> ce_scope a = c)" for s c
    using assms by (simp add: tracks_connections_def)
  have c: "ct_scope_sessions t c = Some s \<longleftrightarrow> (\<exists>a \<in> set es. ce_session a = s \<and> ce_scope a = c)" for s c
    using assms by (simp add: tracks_connections_def)
  show "ct_session_scopes t s = None \<longleftrightarrow> (\<forall>a \<in> set es. ce_session a \<noteq> s)" using s [of s] by fastforce
  show "ct_scope_sessions t c = None \<longleftrightarrow> (\<forall>a \<in> set es. ce_scope a \<noteq> c)" using c [of c] by fastforce
  show "ct_session_scopes t s \<noteq> None \<and> ct_session_scopes t s \<noteq> Some c \<longleftrightarrow>
      (\<exists>a \<in> set es. ce_session a = s \<and> ce_scope a \<noteq> c)"
  proof (cases "ct_session_scopes t s")
    case None
    then show ?thesis using s [of s] by auto
  next
    case (Some d)
    have "\<exists>a \<in> set es. ce_session a = s \<and> ce_scope a = d" using s Some by blast
    moreover have "ce_scope a = d" if "a \<in> set es" "ce_session a = s" for a
      using s [of s "ce_scope a"] that Some by auto
    ultimately show ?thesis using Some by auto
  qed
  show "ct_scope_sessions t c \<noteq> None \<and> ct_scope_sessions t c \<noteq> Some s \<longleftrightarrow>
      (\<exists>a \<in> set es. ce_scope a = c \<and> ce_session a \<noteq> s)"
  proof (cases "ct_scope_sessions t c")
    case None
    then show ?thesis using c [of c] by auto
  next
    case (Some d)
    have "\<exists>a \<in> set es. ce_session a = d \<and> ce_scope a = c" using c Some by blast
    moreover have "ce_session a = d" if "a \<in> set es" "ce_scope a = c" for a
      using c [of c "ce_session a"] that Some by auto
    ultimately show ?thesis using Some by auto
  qed
  have o: "\<And>n. ct_scope_orders t c = Some n \<Longrightarrow> \<exists>a \<in> set es. ce_scope a = c \<and> ce_order a = n"
    "\<forall>a \<in> set es. \<exists>n. ct_scope_orders t (ce_scope a) = Some n \<and> ce_order a \<le> n"
    using assms by (simp_all add: tracks_connections_def)
  show "(case ct_scope_orders t c of None \<Rightarrow> False | Some prior \<Rightarrow> n \<le> prior)
      \<longleftrightarrow> (\<exists>a \<in> set es. ce_scope a = c \<and> n \<le> ce_order a)"
  proof (cases "ct_scope_orders t c")
    case None
    then show ?thesis using o(2) by auto
  next
    case (Some m)
    obtain a where "a \<in> set es" "ce_scope a = c" "ce_order a = m" using o(1) [OF Some] by blast
    moreover have "\<forall>a \<in> set es. ce_scope a = c \<longrightarrow> ce_order a \<le> m" using o(2) Some by auto
    ultimately show ?thesis using Some by (auto intro: order_trans)
  qed
qed

definition continues_connection :: "connection_event list \<Rightarrow> connection_event \<Rightarrow> bool" where
  "continues_connection es e \<longleftrightarrow> (\<forall>a \<in> set es. same_connection_source a e)
     \<and> (es = []
        \<or> ce_session e = ce_session (last es) \<and> ce_previous_state e = Some (ce_state (last es))
        \<or> (\<forall>a \<in> set es. ce_session a \<noteq> ce_session e) \<and> ce_state (last es) = ConnReconnecting
          \<and> ce_previous_state e = None \<and> ce_state e = ConnConnecting)"

lemma check_connection_event_iff:
  assumes "tracks_connections es t"
  shows "(\<exists>t'. check_connection_event e t = Inr t') \<longleftrightarrow> continues_connection es e"
proof -
  have p: "ct_previous t = (if es = [] then None else Some (last es))"
    and prov: "\<forall>a \<in> set es. ce_provider a = ce_provider (last es)"
    using assms by (simp_all add: tracks_connections_def)
  show ?thesis
  proof (cases "es = []")
    case True
    then show ?thesis
      unfolding check_connection_event_def Let_def rbind_eq_Inr guard_eq_Inr tracked_scopes(3-5) [OF assms]
      by (simp add: p continues_connection_def)
  next
    case False
    then have last: "last es \<in> set es" by simp
    have "(\<exists>t'. check_connection_event e t = Inr t') \<longleftrightarrow>
        \<not> (ce_session e \<noteq> ce_session (last es)
           \<and> (ce_state (last es) \<noteq> ConnReconnecting \<or> ce_previous_state e \<noteq> None \<or> ce_state e \<noteq> ConnConnecting
              \<or> (\<exists>a \<in> set es. ce_session a = ce_session e) \<or> (\<exists>a \<in> set es. ce_scope a = ce_scope e)))
        \<and> \<not> (\<exists>a \<in> set es. ce_session a = ce_session e \<and> ce_scope a \<noteq> ce_scope e)
        \<and> \<not> (\<exists>a \<in> set es. ce_scope a = ce_scope e \<and> ce_session a \<noteq> ce_session e)
        \<and> \<not> (\<exists>a \<in> set es. ce_scope a = ce_scope e \<and> ce_order e \<le> ce_order a)
        \<and> \<not> (ce_session e = ce_session (last es) \<and> ce_previous_state e \<noteq> Some (ce_state (last es)))
        \<and> \<not> ce_provider e \<noteq> ce_provider (last es)"
      unfolding check_connection_event_def Let_def rbind_eq_Inr guard_eq_Inr tracked_scopes(3-5) [OF assms]
      unfolding tracked_scopes(1,2) [OF assms] using False by (simp add: p)
    also have "\<dots> \<longleftrightarrow> continues_connection es e"
    proof -
      have S: "(\<forall>a \<in> set es. same_connection_source a e) \<longleftrightarrow>
          \<not> (\<exists>a \<in> set es. ce_session a = ce_session e \<and> ce_scope a \<noteq> ce_scope e)
          \<and> \<not> (\<exists>a \<in> set es. ce_scope a = ce_scope e \<and> ce_session a \<noteq> ce_session e)
          \<and> \<not> (\<exists>a \<in> set es. ce_scope a = ce_scope e \<and> ce_order e \<le> ce_order a)
          \<and> ce_provider e = ce_provider (last es)"
      proof -
        obtain pr where "ce_provider (last es) = pr" "\<forall>a \<in> set es. ce_provider a = pr" using prov by blast
        then show ?thesis using last by (auto simp: same_connection_source_def not_le)
      qed
      have none: "(\<forall>a \<in> set es. ce_session a \<noteq> ce_session e) \<longleftrightarrow> \<not> (\<exists>a \<in> set es. ce_session a = ce_session e)"
        by blast
      have "(\<exists>a \<in> set es. ce_scope a = ce_scope e) \<Longrightarrow>
          \<not> (\<exists>a \<in> set es. ce_scope a = ce_scope e \<and> ce_session a \<noteq> ce_session e) \<Longrightarrow>
          (\<exists>a \<in> set es. ce_session a = ce_session e)" by blast
      moreover have "ce_session e = ce_session (last es) \<Longrightarrow> (\<exists>a \<in> set es. ce_session a = ce_session e)"
        using last by auto
      ultimately show ?thesis unfolding continues_connection_def S none using False by argo
    qed
    finally show ?thesis .
  qed
qed

lemma check_connection_event_tracks:
  assumes "tracks_connections es t" and "check_connection_event e t = Inr t'"
  shows "tracks_connections (es @ [e]) t'"
proof -
  have "continues_connection es e" using check_connection_event_iff [OF assms(1)] assms(2) by blast
  then have same: "\<forall>a \<in> set es. same_connection_source a e" by (simp add: continues_connection_def)
  have t': "t' = \<lparr>ct_session_scopes = (ct_session_scopes t)(ce_session e \<mapsto> ce_scope e),
           ct_scope_sessions = (ct_scope_sessions t)(ce_scope e \<mapsto> ce_session e),
           ct_scope_orders = (ct_scope_orders t)(ce_scope e \<mapsto> ce_order e), ct_previous = Some e\<rparr>"
    using assms(2) unfolding check_connection_event_def Let_def rbind_eq_Inr guard_eq_Inr by blast
  show ?thesis
    using assms(1) same unfolding tracks_connections_def t' same_connection_source_def
    by (auto simp: less_imp_le)
qed

lemma rfold_snoc: "rfold f (xs @ [x]) s = rbind (rfold f xs s) (f x)"
  by (cases "rfold f xs s") (auto simp: rfold_append rbind_def split: sum.splits)

lemma connection_histories_accepted:
  "((\<exists>t. rfold check_connection_event es no_connections = Inr t) \<longleftrightarrow> connection_history es)
   \<and> (\<forall>t. rfold check_connection_event es no_connections = Inr t \<longrightarrow> tracks_connections es t)"
proof (induction es rule: rev_induct)
  case Nil
  then show ?case by (simp add: connection_history.intros tracks_connections_Nil)
next
  case (snoc e es)
  show ?case
  proof (cases "rfold check_connection_event es no_connections")
    case (Inl err)
    then show ?thesis using snoc by (auto simp: rfold_snoc connection_history_snoc)
  next
    case (Inr t)
    then have es: "connection_history es" "tracks_connections es t" using snoc by blast+
    have "(\<exists>t. rfold check_connection_event (es @ [e]) no_connections = Inr t) \<longleftrightarrow> connection_history (es @ [e])"
      using check_connection_event_iff [OF es(2), of e] es(1) Inr
      by (simp add: rfold_snoc connection_history_snoc continues_connection_def)
    then show ?thesis using check_connection_event_tracks [OF es(2)] Inr by (auto simp: rfold_snoc)
  qed
qed

text \<open>C13. A connection sequence is accepted exactly when it is a history of one provider: within a session
  every event starts from the state the previous one reached, a new session only follows a
  reconnecting one and opens with its own source scope, and source orders rise within a scope.\<close>

theorem connection_sequence_is_history:
  "validate_connection_lifecycle_sequence es = Inr () \<longleftrightarrow> connection_history es"
  using connection_histories_accepted [of es]
  by (auto simp: validate_connection_lifecycle_sequence_def rbind_eq_Inr)

lemma connection_history_prefix: "connection_history (us @ vs) \<Longrightarrow> connection_history us"
  by (induction vs rule: rev_induct) (auto simp: connection_history_snoc simp flip: append_assoc)

text \<open>C28. In an accepted sequence of valid events nothing follows a closed connection, a connection is
  authorized only directly after it connected in the same session, and two events in a row either
  move along the transition table or open a new session after a reconnect.\<close>

theorem closed_connection_is_final:
  assumes "validate_connection_lifecycle_sequence (us @ e # v # vs) = Inr ()"
    and "\<exists>v0. make_connection_event v0 = Inr v"
  shows "ce_state e \<noteq> ConnClosed
    \<and> (ce_state v = ConnAuthorized \<longrightarrow> ce_state e = ConnConnected \<and> ce_session e = ce_session v)
    \<and> (ce_session e = ce_session v \<and> ce_state v \<in> connection_transitions (Some (ce_state e))
      \<or> ce_session v \<notin> ce_session ` set (us @ [e]) \<and> ce_state e = ConnReconnecting \<and> ce_state v = ConnConnecting)"
proof -
  have "connection_history ((us @ [e]) @ [v])"
    using assms(1) connection_history_prefix [of "us @ [e, v]" vs]
    by (simp add: connection_sequence_is_history)
  moreover have "ce_state v \<in> connection_transitions (ce_previous_state v)"
    using assms(2) made_connection_event by blast
  ultimately have step: "ce_session e = ce_session v \<and> ce_state v \<in> connection_transitions (Some (ce_state e))
      \<or> ce_session v \<notin> ce_session ` set (us @ [e]) \<and> ce_state e = ConnReconnecting \<and> ce_state v = ConnConnecting"
    unfolding connection_history_snoc by auto
  moreover from step have "ce_state e = ConnConnected \<and> ce_session e = ce_session v" if "ce_state v = ConnAuthorized"
    using that by (cases "ce_state e") auto
  ultimately show ?thesis by auto
qed

section \<open>Subscription sequences\<close>

text \<open>The life of one subscription: it opens with a request, and every further event comes from the same
  connection, starts from the state its predecessor reached, keeps the instruments, and keeps the mode
  unless it requests one.\<close>

definition keeps_mode :: "subscription_event \<Rightarrow> subscription_event \<Rightarrow> bool" where
  "keeps_mode p e \<longleftrightarrow>
     (case se_state e of
        SubscribeRequested \<Rightarrow> True
      | ModeChangeRequested \<Rightarrow> True
      | UnsubscribeRequested \<Rightarrow> se_request_mode e = None \<or> se_request_mode p \<in> {None, se_request_mode e}
      | _ \<Rightarrow> se_request_mode e = se_request_mode p)"

definition same_connection :: "subscription_event \<Rightarrow> subscription_event \<Rightarrow> bool" where
  "same_connection a b \<longleftrightarrow> eo_provider (se_origin a) = eo_provider (se_origin b)
     \<and> eo_connection_session_id (se_origin a) = eo_connection_session_id (se_origin b)"

inductive subscription_run :: "subscription_event list \<Rightarrow> bool" where
  starts: "se_previous_state e = None \<Longrightarrow> se_state e = SubscribeRequested \<Longrightarrow> subscription_run [e]"
| follows: "subscription_run es \<Longrightarrow> same_connection (last es) e \<Longrightarrow> se_source e = se_source (last es)
    \<Longrightarrow> se_previous_state e = Some (se_state (last es)) \<Longrightarrow> se_instrument_set e = se_instrument_set (last es)
    \<Longrightarrow> keeps_mode (last es) e \<Longrightarrow> subscription_run (es @ [e])"

lemma same_connection_binding: "se_binding a = se_binding b \<longleftrightarrow> same_connection a b"
  by (simp add: se_binding_def same_connection_def)

lemma follows_subscription_iff:
  "follows_subscription p e \<longleftrightarrow> same_connection p e \<and> se_source e = se_source p
     \<and> se_previous_state e = Some (se_state p) \<and> se_instrument_set e = se_instrument_set p \<and> keeps_mode p e"
  unfolding follows_subscription_def same_connection_binding
  by (cases "se_state e") (auto simp: same_connection_def subscription_modes_agree_def keeps_mode_def)

lemma subscription_run_nonempty: "subscription_run es \<Longrightarrow> es \<noteq> []"
  by (induction rule: subscription_run.induct) auto

lemma subscription_run_snoc:
  "subscription_run (es @ [e]) \<longleftrightarrow>
     (if es = [] then starts_subscription e else subscription_run es \<and> follows_subscription (last es) e)"
proof
  assume "subscription_run (es @ [e])"
  then show "if es = [] then starts_subscription e else subscription_run es \<and> follows_subscription (last es) e"
    by (cases rule: subscription_run.cases)
       (auto simp: starts_subscription_def follows_subscription_iff dest: subscription_run_nonempty)
next
  assume "if es = [] then starts_subscription e else subscription_run es \<and> follows_subscription (last es) e"
  then show "subscription_run (es @ [e])"
    using subscription_run.starts [of e] subscription_run.follows [of es e]
    by (simp add: starts_subscription_def follows_subscription_iff split: if_splits)
qed

abbreviation of_scope :: "string \<Rightarrow> subscription_event list \<Rightarrow> subscription_event list" where
  "of_scope s es \<equiv> filter (\<lambda>e. se_scope e = s) es"

definition same_source_order :: "subscription_event \<Rightarrow> subscription_event \<Rightarrow> bool" where
  "same_source_order a b \<longleftrightarrow> (se_source a = se_source b \<longrightarrow> same_connection a b \<and> se_order a < se_order b)"

definition subscription_histories :: "subscription_event list \<Rightarrow> bool" where
  "subscription_histories es \<longleftrightarrow>
     (\<forall>s. of_scope s es = [] \<or> subscription_run (of_scope s es)) \<and> sorted_wrt same_source_order es"

lemma all_but_one: "(\<forall>s. if s = k then P else Q s) \<longleftrightarrow> (\<forall>s. s \<noteq> k \<longrightarrow> Q s) \<and> P"
  by (auto split: if_splits)

lemma subscription_histories_snoc:
  "subscription_histories (es @ [e]) \<longleftrightarrow> subscription_histories es \<and> (\<forall>a \<in> set es. same_source_order a e)
     \<and> (if of_scope (se_scope e) es = [] then starts_subscription e
        else follows_subscription (last (of_scope (se_scope e) es)) e)"
proof -
  have "(\<forall>s. of_scope s (es @ [e]) = [] \<or> subscription_run (of_scope s (es @ [e]))) \<longleftrightarrow>
      (\<forall>s. s \<noteq> se_scope e \<longrightarrow> of_scope s es = [] \<or> subscription_run (of_scope s es))
      \<and> subscription_run (of_scope (se_scope e) es @ [e])"
  proof -
    have *: "of_scope s (es @ [e]) = [] \<or> subscription_run (of_scope s (es @ [e])) \<longleftrightarrow>
        (if s = se_scope e then subscription_run (of_scope (se_scope e) es @ [e])
         else of_scope s es = [] \<or> subscription_run (of_scope s es))" for s
      by (cases "s = se_scope e") simp_all
    show ?thesis unfolding * all_but_one ..
  qed
  also have "\<dots> \<longleftrightarrow> (\<forall>s. of_scope s es = [] \<or> subscription_run (of_scope s es))
      \<and> (if of_scope (se_scope e) es = [] then starts_subscription e
        else follows_subscription (last (of_scope (se_scope e) es)) e)"
  proof (cases "of_scope (se_scope e) es = []")
    case True
    then have "(\<forall>s. s \<noteq> se_scope e \<longrightarrow> of_scope s es = [] \<or> subscription_run (of_scope s es)) \<longleftrightarrow>
        (\<forall>s. of_scope s es = [] \<or> subscription_run (of_scope s es))" by metis
    with True show ?thesis unfolding subscription_run_snoc by auto
  next
    case False
    then have "(\<forall>s. s \<noteq> se_scope e \<longrightarrow> of_scope s es = [] \<or> subscription_run (of_scope s es))
          \<and> subscription_run (of_scope (se_scope e) es) \<longleftrightarrow>
        (\<forall>s. of_scope s es = [] \<or> subscription_run (of_scope s es))" by metis
    with False show ?thesis unfolding subscription_run_snoc by auto
  qed
  finally show ?thesis by (auto simp: subscription_histories_def sorted_wrt_append)
qed

definition tracks_subscriptions :: "subscription_event list \<Rightarrow> subscription_tracker \<Rightarrow> bool" where
  "tracks_subscriptions es t \<longleftrightarrow>
     (\<forall>s. st_scope_events t s = (if of_scope s es = [] then None else Some (last (of_scope s es))))
     \<and> (\<forall>c b. st_source_bindings t c = Some b \<longrightarrow> (\<exists>a \<in> set es. se_source a = c \<and> se_binding a = b))
     \<and> (\<forall>a \<in> set es. st_source_bindings t (se_source a) = Some (se_binding a))
     \<and> (\<forall>c n. st_source_orders t c = Some n \<longrightarrow> (\<exists>a \<in> set es. se_source a = c \<and> se_order a = n))
     \<and> (\<forall>a \<in> set es. \<exists>n. st_source_orders t (se_source a) = Some n \<and> se_order a \<le> n)"

lemma tracks_subscriptions_Nil: "tracks_subscriptions [] no_subscriptions"
  by (simp add: tracks_subscriptions_def no_subscriptions_def)

lemma tracked_sources:
  assumes "tracks_subscriptions es t"
  shows "(case st_source_bindings t c of None \<Rightarrow> False | Some bound \<Rightarrow> bound \<noteq> b)
      \<longleftrightarrow> (\<exists>a \<in> set es. se_source a = c \<and> se_binding a \<noteq> b)"
    and "(case st_source_orders t c of None \<Rightarrow> False | Some prior \<Rightarrow> n \<le> prior)
      \<longleftrightarrow> (\<exists>a \<in> set es. se_source a = c \<and> n \<le> se_order a)"
proof -
  have b: "\<And>b. st_source_bindings t c = Some b \<Longrightarrow> \<exists>a \<in> set es. se_source a = c \<and> se_binding a = b"
    "\<forall>a \<in> set es. st_source_bindings t (se_source a) = Some (se_binding a)"
    and o: "\<And>n. st_source_orders t c = Some n \<Longrightarrow> \<exists>a \<in> set es. se_source a = c \<and> se_order a = n"
    "\<forall>a \<in> set es. \<exists>n. st_source_orders t (se_source a) = Some n \<and> se_order a \<le> n"
    using assms unfolding tracks_subscriptions_def by blast+
  show "(case st_source_bindings t c of None \<Rightarrow> False | Some bound \<Rightarrow> bound \<noteq> b)
      \<longleftrightarrow> (\<exists>a \<in> set es. se_source a = c \<and> se_binding a \<noteq> b)"
  proof (cases "st_source_bindings t c")
    case None
    then show ?thesis using b(2) by auto
  next
    case (Some d)
    then show ?thesis using b(1) [OF Some] b(2) by auto
  qed
  show "(case st_source_orders t c of None \<Rightarrow> False | Some prior \<Rightarrow> n \<le> prior)
      \<longleftrightarrow> (\<exists>a \<in> set es. se_source a = c \<and> n \<le> se_order a)"
  proof (cases "st_source_orders t c")
    case None
    then show ?thesis using o(2) by auto
  next
    case (Some m)
    obtain a where "a \<in> set es" "se_source a = c" "se_order a = m" using o(1) [OF Some] by blast
    moreover have "\<forall>a \<in> set es. se_source a = c \<longrightarrow> se_order a \<le> m" using o(2) Some by auto
    ultimately show ?thesis using Some by (auto intro: order_trans)
  qed
qed

lemma check_subscription_event_iff:
  assumes "tracks_subscriptions es t"
  shows "(\<exists>t'. check_subscription_event e t = Inr t') \<longleftrightarrow> (\<forall>a \<in> set es. same_source_order a e)
     \<and> (if of_scope (se_scope e) es = [] then starts_subscription e
        else follows_subscription (last (of_scope (se_scope e) es)) e)"
proof -
  have p: "st_scope_events t s = (if of_scope s es = [] then None else Some (last (of_scope s es)))" for s
    using assms by (simp add: tracks_subscriptions_def)
  have "(\<exists>t'. check_subscription_event e t = Inr t') \<longleftrightarrow>
      \<not> (\<exists>a \<in> set es. se_source a = se_source e \<and> se_binding a \<noteq> se_binding e)
      \<and> \<not> (\<exists>a \<in> set es. se_source a = se_source e \<and> se_order e \<le> se_order a)
      \<and> \<not> (case st_scope_events t (se_scope e) of
             None \<Rightarrow> \<not> starts_subscription e | Some previous \<Rightarrow> \<not> follows_subscription previous e)"
    unfolding check_subscription_event_def rbind_eq_Inr guard_eq_Inr tracked_sources [OF assms] by simp
  then show ?thesis unfolding p by (auto simp: same_source_order_def not_le same_connection_binding)
qed

lemma check_subscription_event_tracks:
  assumes "tracks_subscriptions es t" and "check_subscription_event e t = Inr t'"
  shows "tracks_subscriptions (es @ [e]) t'"
proof -
  have same: "\<forall>a \<in> set es. same_source_order a e" using check_subscription_event_iff [OF assms(1)] assms(2) by blast
  have t': "t' = \<lparr>st_scope_events = (st_scope_events t)(se_scope e \<mapsto> e),
          st_source_bindings = (st_source_bindings t)(se_source e \<mapsto> se_binding e),
          st_source_orders = (st_source_orders t)(se_source e \<mapsto> se_order e)\<rparr>"
    using assms(2) unfolding check_subscription_event_def rbind_eq_Inr guard_eq_Inr by blast
  show ?thesis
    using assms(1) same unfolding tracks_subscriptions_def t' same_source_order_def same_connection_binding [symmetric]
    by (auto simp: less_imp_le)
qed

lemma subscription_histories_accepted:
  "((\<exists>t. rfold check_subscription_event es no_subscriptions = Inr t) \<longleftrightarrow> subscription_histories es)
   \<and> (\<forall>t. rfold check_subscription_event es no_subscriptions = Inr t \<longrightarrow> tracks_subscriptions es t)"
proof (induction es rule: rev_induct)
  case Nil
  then show ?case by (simp add: subscription_histories_def tracks_subscriptions_Nil)
next
  case (snoc e es)
  show ?case
  proof (cases "rfold check_subscription_event es no_subscriptions")
    case (Inl err)
    then show ?thesis using snoc by (auto simp: rfold_snoc subscription_histories_snoc)
  next
    case (Inr t)
    then have es: "subscription_histories es" "tracks_subscriptions es t" using snoc by blast+
    have "(\<exists>t. rfold check_subscription_event (es @ [e]) no_subscriptions = Inr t) \<longleftrightarrow> subscription_histories (es @ [e])"
      using check_subscription_event_iff [OF es(2), of e] es(1) Inr
      by (simp add: rfold_snoc subscription_histories_snoc)
    then show ?thesis using check_subscription_event_tracks [OF es(2)] Inr by (auto simp: rfold_snoc)
  qed
qed

text \<open>C12. A subscription sequence is accepted exactly when the events of every subscription scope, taken by
  themselves, are a run from its first request, and every source scope belongs to one connection and
  counts strictly upwards.\<close>

theorem subscription_sequence_is_histories:
  "validate_subscription_lifecycle_sequence es = Inr () \<longleftrightarrow>
     (\<forall>s. of_scope s es = [] \<or> subscription_run (of_scope s es)) \<and> sorted_wrt same_source_order es"
  using subscription_histories_accepted [of es]
  by (auto simp: validate_subscription_lifecycle_sequence_def rbind_eq_Inr subscription_histories_def)

lemma subscription_histories_prefix: "subscription_histories (us @ vs) \<Longrightarrow> subscription_histories us"
  by (induction vs rule: rev_induct) (auto simp: subscription_histories_snoc simp flip: append_assoc)

lemma last_of_scope:
  assumes "of_scope s us \<noteq> []"
  obtains us1 us2 where "us = us1 @ last (of_scope s us) # us2" and "\<forall>x \<in> set us2. se_scope x \<noteq> s"
proof -
  have "\<exists>x \<in> set us. se_scope x = s" using assms by (auto simp: filter_empty_conv)
  then obtain us1 r us2 where us: "us = us1 @ r # us2" "se_scope r = s" "\<forall>x \<in> set us2. se_scope x \<noteq> s"
    using split_list_last_prop [of us "\<lambda>x. se_scope x = s"] by blast
  then have "of_scope s us2 = []" by (simp add: filter_empty_conv)
  then have r: "last (of_scope s us) = r" using us by simp
  show thesis by (rule that [of us1 us2]) (use us r in simp_all)
qed

text \<open>C22. In an accepted sequence of valid events a subscription is confirmed only in answer to a request:
  the event of its scope just before a confirmation asked for the same mode and the same instruments,
  and their number is within the limit of the mode. After an unsubscription or a failure the scope has
  no further event.\<close>

theorem confirmations_answer_requests:
  assumes accepted: "validate_subscription_lifecycle_sequence (us @ e # vs) = Inr ()"
    and made: "\<forall>x \<in> set (us @ e # vs). \<exists>x0. make_subscription_event x0 = Inr x"
  shows "(se_state e \<in> {Subscribed, ModeChanged} \<longrightarrow>
      (\<exists>us1 r us2 m. us = us1 @ r # us2 \<and> (\<forall>x \<in> set us2. se_scope x \<noteq> se_scope e) \<and> se_scope r = se_scope e
        \<and> se_state r = (if se_state e = Subscribed then SubscribeRequested else ModeChangeRequested)
        \<and> se_request_mode r = Some m \<and> se_request_mode e = Some m
        \<and> se_instrument_set r = se_instrument_set e \<and> is_count (se_instrument_set e) \<le> mode_instrument_limit m))
    \<and> (se_state e \<in> {Unsubscribed, SubscriptionFailed} \<longrightarrow> (\<forall>v \<in> set vs. se_scope v \<noteq> se_scope e))"
proof (intro conjI impI)
  have hist: "subscription_histories (us @ e # vs)"
    using accepted by (simp add: subscription_sequence_is_histories subscription_histories_def)
  {
    assume state: "se_state e \<in> {Subscribed, ModeChanged}"
    have "\<exists>e0. make_subscription_event e0 = Inr e" using made by simp
    then have move: "se_state e \<in> subscription_transitions (se_previous_state e)"
      and mode: "\<exists>m. se_request_mode e = Some m \<and> is_count (se_instrument_set e) \<le> mode_instrument_limit m"
      using made_subscription_event(2,3) state by blast+
    have "subscription_histories (us @ [e])" using subscription_histories_prefix [of "us @ [e]" vs] hist by simp
    then have step: "if of_scope (se_scope e) us = [] then starts_subscription e
        else follows_subscription (last (of_scope (se_scope e) us)) e"
      by (simp add: subscription_histories_snoc)
    have nonempty: "of_scope (se_scope e) us \<noteq> []" using step state by (auto simp: starts_subscription_def)
    define r where "r = last (of_scope (se_scope e) us)"
    have f: "follows_subscription r e" using step nonempty by (simp add: r_def)
    then have "se_state r = (if se_state e = Subscribed then SubscribeRequested else ModeChangeRequested)"
      using move state by (cases "se_state r") (auto simp: follows_subscription_def)
    moreover have "se_request_mode e = se_request_mode r" "se_instrument_set e = se_instrument_set r"
      using f state by (auto simp: follows_subscription_def subscription_modes_agree_def)
    moreover obtain us1 us2 where "us = us1 @ r # us2" "\<forall>x \<in> set us2. se_scope x \<noteq> se_scope e"
      using last_of_scope [OF nonempty] by (auto simp: r_def)
    moreover have "se_scope r = se_scope e"
      using last_in_set [OF nonempty] by (auto simp: r_def)
    ultimately show "\<exists>us1 r us2 m. us = us1 @ r # us2 \<and> (\<forall>x \<in> set us2. se_scope x \<noteq> se_scope e) \<and> se_scope r = se_scope e
        \<and> se_state r = (if se_state e = Subscribed then SubscribeRequested else ModeChangeRequested)
        \<and> se_request_mode r = Some m \<and> se_request_mode e = Some m
        \<and> se_instrument_set r = se_instrument_set e \<and> is_count (se_instrument_set e) \<le> mode_instrument_limit m"
      using mode by metis
  }
  assume state: "se_state e \<in> {Unsubscribed, SubscriptionFailed}"
  show "\<forall>v \<in> set vs. se_scope v \<noteq> se_scope e"
  proof (rule ccontr)
    assume "\<not> ?thesis"
    then obtain as v bs where vs: "vs = as @ v # bs" "se_scope v = se_scope e" "\<forall>x \<in> set as. se_scope x \<noteq> se_scope e"
      using split_list_first_prop [of vs "\<lambda>v. se_scope v = se_scope e"] by blast
    have "of_scope (se_scope e) as = []" using vs(3) by (simp add: filter_empty_conv)
    moreover have "subscription_histories ((us @ e # as) @ [v])"
      using subscription_histories_prefix [of "us @ e # as @ [v]" bs] hist vs(1) by simp
    ultimately have "follows_subscription e v" using vs(2) unfolding subscription_histories_snoc by simp
    moreover have "se_state v \<in> subscription_transitions (se_previous_state v)"
      using made vs(1) made_subscription_event(2) by auto
    ultimately show False using state by (auto simp: follows_subscription_def)
  qed
qed

section \<open>Witnesses\<close>

definition demo_origin :: "string \<Rightarrow> string \<Rightarrow> int \<Rightarrow> event_origin" where
  "demo_origin session scope n =
     \<lparr>eo_provider = ''p'', eo_connection_session_id = session, eo_source_order_scope_id = scope, eo_source_order = n,
      eo_occurred_at = Aware n 0, eo_available_at = Aware n 0, eo_recorded_at = Aware n 0\<rparr>"

definition demo_connection :: "int \<Rightarrow> connection_state option \<Rightarrow> connection_state \<Rightarrow> connection_event" where
  "demo_connection n previous state =
     \<lparr>ce_origin = demo_origin ''s'' ''o'' n, ce_previous_state = previous, ce_state = state, ce_reason = None\<rparr>"

definition demo_subscription ::
  "int \<Rightarrow> subscription_state option \<Rightarrow> subscription_state \<Rightarrow> subscription_event" where
  "demo_subscription n previous state =
     \<lparr>se_origin = demo_origin ''s'' ''o'' n, se_subscription_scope_id = ''x'', se_previous_state = previous,
      se_state = state, se_request_mode = Some ModeFullD30,
      se_instrument_set = \<lparr>is_keys = [''k''], is_digest = ''d'', is_count = 1\<rparr>, se_reason = None\<rparr>"

lemma demo_origin_valid:
  "0 \<le> n \<Longrightarrow> n \<le> 9 \<Longrightarrow> validate_common (demo_origin ''s'' ''o'' n) = Inr (demo_origin ''s'' ''o'' n)"
  by (simp add: validate_common_def demo_origin_def validate_opaque_identifier_def validate_source_order_def
      MAX_OPAQUE_IDENTIFIER_BYTES_def MAX_SOURCE_ORDER_def utf8_length_def strip_def is_space_def earlier_def)

lemma demo_connection_made:
  assumes "0 \<le> n" "n \<le> 9" "s \<in> connection_transitions p" "s \<noteq> ConnFailed"
  shows "make_connection_event (demo_connection n p s) = Inr (demo_connection n p s)"
  using assms demo_origin_valid [of n]
  by (simp add: make_connection_event_def demo_connection_def validate_reason_def MAX_SOURCE_ORDER_def)

lemma demo_subscription_made:
  assumes "0 \<le> n" "n \<le> 9" "s \<in> subscription_transitions p" "s \<noteq> SubscriptionFailed"
  shows "make_subscription_event (demo_subscription n p s) = Inr (demo_subscription n p s)"
  using assms demo_origin_valid [of n]
  by (simp add: make_subscription_event_def demo_subscription_def validate_reason_def MAX_SOURCE_ORDER_def
      validate_opaque_identifier_def MAX_OPAQUE_IDENTIFIER_BYTES_def strip_def is_space_def utf8_length_def)


theorem closed_connection_is_final_witness:
  "validate_connection_lifecycle_sequence
     ([demo_connection 1 None ConnConnecting] @ demo_connection 2 (Some ConnConnecting) ConnConnected
        # demo_connection 3 (Some ConnConnected) ConnAuthorized # []) = Inr ()
   \<and> ce_state (demo_connection 2 (Some ConnConnecting) ConnConnected) \<noteq> ConnClosed"
proof -
  have v: "validate_connection_lifecycle_sequence
     ([demo_connection 1 None ConnConnecting] @ demo_connection 2 (Some ConnConnecting) ConnConnected
        # demo_connection 3 (Some ConnConnected) ConnAuthorized # []) = Inr ()"
    by (simp add: validate_connection_lifecycle_sequence_def check_connection_event_def no_connections_def
        demo_connection_def demo_origin_def)
  have "make_connection_event (demo_connection 3 (Some ConnConnected) ConnAuthorized)
      = Inr (demo_connection 3 (Some ConnConnected) ConnAuthorized)"
    by (rule demo_connection_made) simp_all
  then show ?thesis using closed_connection_is_final [OF v] v by blast
qed

theorem confirmations_answer_requests_witness:
  "se_request_mode (demo_subscription 2 (Some SubscribeRequested) Subscribed) = Some ModeFullD30
   \<and> (\<exists>us1 r us2. [demo_subscription 1 None SubscribeRequested] = us1 @ r # us2 \<and> se_state r = SubscribeRequested)"
proof -
  let ?r = "demo_subscription 1 None SubscribeRequested" and ?e = "demo_subscription 2 (Some SubscribeRequested) Subscribed"
  have v: "validate_subscription_lifecycle_sequence ([?r] @ ?e # []) = Inr ()"
    by (simp add: validate_subscription_lifecycle_sequence_def check_subscription_event_def no_subscriptions_def
        demo_subscription_def demo_origin_def starts_subscription_def follows_subscription_def
        subscription_modes_agree_def se_binding_def)
  have "make_subscription_event ?r = Inr ?r" "make_subscription_event ?e = Inr ?e"
    by (rule demo_subscription_made; simp)+
  then have "\<forall>x \<in> set ([?r] @ ?e # []). \<exists>x0. make_subscription_event x0 = Inr x" by auto
  from confirmations_answer_requests [OF v this] show ?thesis by (auto simp: demo_subscription_def)
qed

end
