(* ===== verification/Quotes.thy ===== *)
theory Quotes
  imports Clock
begin

text \<open>
  \<open>app/market_data/quote_store.py\<close>, \<open>metrics.py\<close> and the quote records of \<open>models.py\<close>: the latest quote
  of every instrument, its freshness, and the counters. Dictionaries are maps, sets are sets; the
  clock a call reads is an argument.
\<close>

record live_quote_candidate =
  lc_instrument_key :: string
  lc_ltp :: pyfloat
  lc_previous_close :: "pyfloat option"
  lc_last_trade_quantity :: "int option"
  lc_last_trade_at :: pydatetime
  lc_provider_message_at :: pydatetime
  lc_received_at :: pydatetime
  lc_processed_at :: pydatetime

record live_quote_state = live_quote_candidate +
  lq_market_status :: "string option"
  lq_sequence :: int

datatype freshness_state = AwaitingFirstTick | Fresh | Stale

record quote_store =
  qs_stale_after_seconds :: int
  qs_quotes :: "string \<rightharpoonup> live_quote_state"
  qs_forced_stale :: "string set"

definition make_quote_store :: "int \<Rightarrow> quote_store" where
  "make_quote_store stale_after =
     \<lparr>qs_stale_after_seconds = stale_after, qs_quotes = Map.empty, qs_forced_stale = {}\<rparr>"

definition put_quote :: "live_quote_state \<Rightarrow> quote_store \<Rightarrow> bool \<times> quote_store" where
  "put_quote quote s =
     (let key = lc_instrument_key quote in
      if (case qs_quotes s key of None \<Rightarrow> True | Some current \<Rightarrow> lq_sequence current < lq_sequence quote)
      then (True, s\<lparr>qs_quotes := (qs_quotes s)(key \<mapsto> quote), qs_forced_stale := qs_forced_stale s - {key}\<rparr>)
      else (False, s))"

definition quote_freshness :: "string \<Rightarrow> pydatetime \<Rightarrow> quote_store \<Rightarrow> freshness_state" where
  "quote_freshness key now s =
     (case qs_quotes s key of
        None \<Rightarrow> AwaitingFirstTick
      | Some quote \<Rightarrow>
          if key \<in> qs_forced_stale s then Stale
          else if total_seconds now (lc_received_at quote) \<le> Fl (of_int (qs_stale_after_seconds s)) then Fresh
          else Stale)"

definition mark_stale :: "string list \<Rightarrow> quote_store \<Rightarrow> quote_store" where
  "mark_stale keys s =
     s\<lparr>qs_forced_stale := qs_forced_stale s \<union> set (filter (\<lambda>key. qs_quotes s key \<noteq> None) keys)\<rparr>"

section \<open>Counters\<close>

type_synonym market_metrics = "string \<rightharpoonup> int"

definition initial_metrics :: market_metrics where
  "initial_metrics = map_of (map (\<lambda>name. (name, 0))
     [''instrument_search_requests_total'', ''historical_candle_requests_total'',
      ''historical_candle_failures_total'', ''market_feed_connections_total'', ''market_feed_reconnects_total'',
      ''market_feed_messages_total'', ''market_feed_invalid_messages_total'',
      ''market_feed_subscription_changes_total'', ''market_feed_dropped_or_coalesced_updates_total'',
      ''rv_live_recomputations_total''])"

definition increment :: "string \<Rightarrow> market_metrics \<Rightarrow> market_metrics" where
  "increment name counts = counts(name \<mapsto> (case counts name of None \<Rightarrow> 0 | Some n \<Rightarrow> n) + 1)"

end
