(* ===== verification/Coordinator.thy ===== *)
theory Coordinator
  imports Quotes "HOL-Library.AList"
begin

text \<open>
  \<open>app/market_data/coordinator.py\<close>. The coordinator runs on one event loop, so a coroutine is cut at
  its awaits and every piece between two awaits is a function on the coordinator's state:
  \<open>subscribe\<close> is \<open>subscribe_enter\<close> up to the provider call and \<open>subscribe_failed\<close> or
  \<open>subscribe_succeeded\<close> after it, \<open>unsubscribe\<close> is \<open>unsubscribe_enter\<close> up to the provider call.

  Queues, entries and their futures have numbers; an entry and its future have the same one. The
  subscriptions are an association list in insertion order, the listeners of an entry a list without
  repetitions. A provider message comes in as its normalized candidates and segment statuses, and
  the clock readings are arguments.
\<close>

section \<open>State\<close>

datatype subscription_phase = PhaseSubscribing | PhaseSubscribed | PhaseRejected

datatype readiness = Waiting | Ready | Refused

datatype coordinator_event = MarketStatusChanged | QuoteUpdated | ProviderError | FeedStatusChanged

record subscription_entry =
  en_id :: nat
  en_phase :: subscription_phase
  en_listeners :: "nat list"

record coordinator =
  co_max_active :: nat
  co_store :: quote_store
  co_metrics :: market_metrics
  co_subscriptions :: "(string \<times> subscription_entry) list"
  co_futures :: "nat \<Rightarrow> readiness"
  co_next_id :: nat
  co_queues :: "nat \<Rightarrow> coordinator_event list"
  co_quote_sequences :: "string \<rightharpoonup> int"
  co_transport_state :: string
  co_segment_statuses :: "string \<rightharpoonup> string"
  co_connected_at :: "pydatetime option"
  co_last_message_at :: "pydatetime option"
  co_last_error_code :: "string option"
  co_last_error_at :: "pydatetime option"
  co_reconnect_attempt :: int

definition make_coordinator :: "quote_store \<Rightarrow> nat \<Rightarrow> coordinator" where
  "make_coordinator store max_active =
     \<lparr>co_max_active = max_active, co_store = store, co_metrics = initial_metrics, co_subscriptions = [],
      co_futures = (\<lambda>_. Waiting), co_next_id = 0, co_queues = (\<lambda>_. []), co_quote_sequences = Map.empty,
      co_transport_state = ''idle'', co_segment_statuses = Map.empty, co_connected_at = None,
      co_last_message_at = None, co_last_error_code = None, co_last_error_at = None, co_reconnect_attempt = 0\<rparr>"

abbreviation count_metric :: "string \<Rightarrow> coordinator \<Rightarrow> coordinator" where
  "count_metric name c \<equiv> c\<lparr>co_metrics := increment name (co_metrics c)\<rparr>"

section \<open>Subscribing\<close>

definition active_count :: "coordinator \<Rightarrow> nat" where
  "active_count c = length (filter (\<lambda>item. en_phase (snd item) \<noteq> PhaseRejected) (co_subscriptions c))"

definition subscription_rejected :: "string \<Rightarrow> py_error" where
  "subscription_rejected message = NamedError ''SubscriptionRejected'' message"

definition add_listener :: "nat \<Rightarrow> subscription_entry \<Rightarrow> subscription_entry" where
  "add_listener queue entry = entry\<lparr>en_listeners := List.insert queue (en_listeners entry)\<rparr>"

text \<open>The entry joined, and whether this call has to ask the provider.\<close>

definition subscribe_enter ::
  "string \<Rightarrow> nat \<Rightarrow> coordinator \<Rightarrow> (subscription_entry \<times> bool \<times> coordinator) result" where
  "subscribe_enter key queue c =
     (let joined = (case map_of (co_subscriptions c) key of
          None \<Rightarrow> None | Some entry \<Rightarrow> if en_phase entry = PhaseRejected then None else Some entry) in
      rbind (case joined of
               Some entry \<Rightarrow> Inr (entry, False, c)
             | None \<Rightarrow>
                 rbind (guard (co_max_active c \<le> active_count c)
                          (subscription_rejected ''Active instrument capacity reached'')) (\<lambda>_.
                 Inr (\<lparr>en_id = co_next_id c, en_phase = PhaseSubscribing, en_listeners = []\<rparr>, True,
                      c\<lparr>co_next_id := Suc (co_next_id c),
                        co_futures := (co_futures c)(co_next_id c := Waiting)\<rparr>))) (\<lambda>(entry, first, c).
      let entry = add_listener queue entry;
          c = count_metric ''market_feed_subscription_changes_total''
                (c\<lparr>co_subscriptions := AList.update key entry (co_subscriptions c),
                  co_queues := (co_queues c)(queue := [])\<rparr>);
          c = (if first \<and> co_transport_state c \<in> {''idle'', ''disconnected'', ''auth_missing''}
               then c\<lparr>co_transport_state := ''connecting''\<rparr> else c)
      in Inr (entry, first, c)))"

definition is_current :: "string \<Rightarrow> nat \<Rightarrow> coordinator \<Rightarrow> bool" where
  "is_current key entry_id c \<longleftrightarrow>
     (case map_of (co_subscriptions c) key of None \<Rightarrow> False | Some entry \<Rightarrow> en_id entry = entry_id)"

definition settle :: "nat \<Rightarrow> readiness \<Rightarrow> coordinator \<Rightarrow> coordinator" where
  "settle entry_id outcome c =
     (if co_futures c entry_id = Waiting then c\<lparr>co_futures := (co_futures c)(entry_id := outcome)\<rparr> else c)"

text \<open>The entry is marked rejected, loses its listeners and leaves the dictionary, in one piece.\<close>

definition subscribe_failed :: "string \<Rightarrow> nat \<Rightarrow> coordinator \<Rightarrow> coordinator" where
  "subscribe_failed key entry_id c =
     (if is_current key entry_id c
      then settle entry_id Refused (c\<lparr>co_subscriptions := AList.delete key (co_subscriptions c)\<rparr>)
      else c)"

definition subscribe_succeeded :: "string \<Rightarrow> nat \<Rightarrow> coordinator \<Rightarrow> coordinator" where
  "subscribe_succeeded key entry_id c =
     (case map_of (co_subscriptions c) key of
        None \<Rightarrow> c
      | Some entry \<Rightarrow>
          if en_id entry = entry_id
          then settle entry_id Ready
                 (c\<lparr>co_subscriptions := AList.update key (entry\<lparr>en_phase := PhaseSubscribed\<rparr>) (co_subscriptions c)\<rparr>)
          else c)"

section \<open>Unsubscribing\<close>

text \<open>The new state, and whether this call has to tell the provider.\<close>

definition unsubscribe_enter :: "string \<Rightarrow> nat \<Rightarrow> coordinator \<Rightarrow> bool \<times> coordinator" where
  "unsubscribe_enter key queue c =
     (case map_of (co_subscriptions c) key of
        None \<Rightarrow> (False, c)
      | Some entry \<Rightarrow>
          if queue \<notin> set (en_listeners entry) then (False, c)
          else
            let entry = entry\<lparr>en_listeners := removeAll queue (en_listeners entry)\<rparr>;
                c = count_metric ''market_feed_subscription_changes_total''
                      (c\<lparr>co_subscriptions := AList.update key entry (co_subscriptions c)\<rparr>)
            in if en_listeners entry = []
               then (en_phase entry = PhaseSubscribed,
                     c\<lparr>co_subscriptions := AList.delete key (co_subscriptions c)\<rparr>)
               else (False, c))"

section \<open>Publishing\<close>

definition QUEUE_SIZE :: nat where
  "QUEUE_SIZE = 8"

definition deliver :: "coordinator_event \<Rightarrow> nat \<Rightarrow> coordinator \<Rightarrow> coordinator" where
  "deliver event queue c =
     (let c = (if length (co_queues c queue) = QUEUE_SIZE
               then (count_metric ''market_feed_dropped_or_coalesced_updates_total'' c)
                      \<lparr>co_queues := (co_queues c)(queue := tl (co_queues c queue))\<rparr>
               else c)
      in c\<lparr>co_queues := (co_queues c)(queue := co_queues c queue @ [event])\<rparr>)"

definition publish :: "string \<Rightarrow> coordinator_event \<Rightarrow> coordinator \<Rightarrow> coordinator" where
  "publish key event c =
     (case map_of (co_subscriptions c) key of
        None \<Rightarrow> c
      | Some entry \<Rightarrow> fold (deliver event) (en_listeners entry) c)"

definition segment_for :: "string \<Rightarrow> string" where
  "segment_for key = takeWhile (\<lambda>ch. ch \<noteq> CHR ''|'') key"

definition coordinator_market_status :: "coordinator \<Rightarrow> string \<Rightarrow> string" where
  "coordinator_market_status c key =
     (case co_segment_statuses c (segment_for key) of None \<Rightarrow> ''unknown'' | Some status \<Rightarrow> status)"

definition accept_candidate :: "live_quote_candidate \<Rightarrow> coordinator \<Rightarrow> coordinator" where
  "accept_candidate candidate c =
     (let key = lc_instrument_key candidate;
          next_sequence = (case co_quote_sequences c key of None \<Rightarrow> 0 | Some n \<Rightarrow> n) + 1;
          quote = live_quote_candidate.extend candidate
            \<lparr>lq_market_status = Some (coordinator_market_status c key), lq_sequence = next_sequence\<rparr>;
          (accepted, store) = put_quote quote (co_store c)
      in if accepted
         then publish key QuoteUpdated
                (c\<lparr>co_store := store, co_quote_sequences := (co_quote_sequences c)(key \<mapsto> next_sequence)\<rparr>)
         else c)"

definition receive_provider_message ::
  "pydatetime \<Rightarrow> bool \<Rightarrow> live_quote_candidate list \<Rightarrow> (string \<times> string) list \<Rightarrow> coordinator \<Rightarrow> coordinator" where
  "receive_provider_message received_at has_feeds candidates segment_statuses c =
     (let c = (count_metric ''market_feed_messages_total'' c)\<lparr>co_last_message_at := Some received_at\<rparr>;
          c = (if has_feeds \<and> candidates = [] then count_metric ''market_feed_invalid_messages_total'' c else c);
          changed = filter (\<lambda>(segment, status). co_segment_statuses c segment \<noteq> Some status) segment_statuses;
          c = c\<lparr>co_segment_statuses := co_segment_statuses c ++ map_of segment_statuses\<rparr>;
          c = fold (\<lambda>key. if segment_for key \<in> fst ` set changed then publish key MarketStatusChanged else id)
                (map fst (co_subscriptions c)) c
      in fold accept_candidate candidates c)"

definition receive_provider_state :: "pydatetime \<Rightarrow> string \<Rightarrow> string option \<Rightarrow> coordinator \<Rightarrow> coordinator" where
  "receive_provider_state now state error_code c =
     (let keys = map fst (co_subscriptions c);
          c = c\<lparr>co_transport_state := state\<rparr>;
          c = (if state = ''connected''
               then count_metric ''market_feed_connections_total''
                      (c\<lparr>co_connected_at := Some now, co_reconnect_attempt := 0\<rparr>)
               else if state = ''reconnecting''
               then (count_metric ''market_feed_reconnects_total''
                      (c\<lparr>co_reconnect_attempt := co_reconnect_attempt c + 1\<rparr>))
                    \<lparr>co_store := mark_stale keys (co_store c)\<rparr>
               else if state \<in> {''disconnected'', ''failed''} then c\<lparr>co_store := mark_stale keys (co_store c)\<rparr>
               else c);
          c = (if error_code \<noteq> None \<and> error_code \<noteq> Some []
               then c\<lparr>co_last_error_code := error_code, co_last_error_at := Some now\<rparr> else c);
          event = (if state = ''failed'' then ProviderError else FeedStatusChanged)
      in fold (\<lambda>key. publish key event) keys c)"

section \<open>Status\<close>

fun phase_value :: "subscription_phase \<Rightarrow> string" where
  "phase_value PhaseSubscribing = ''subscribing''"
| "phase_value PhaseSubscribed = ''subscribed''"
| "phase_value PhaseRejected = ''rejected''"

definition aggregate_subscription_state :: "coordinator \<Rightarrow> string" where
  "aggregate_subscription_state c =
     (let phases = map (\<lambda>item. en_phase (snd item)) (co_subscriptions c) in
      if PhaseSubscribing \<in> set phases then ''subscribing''
      else if PhaseSubscribed \<in> set phases then ''subscribed''
      else if PhaseRejected \<in> set phases then ''rejected''
      else ''unsubscribed'')"

definition subscription_status :: "string option \<Rightarrow> coordinator \<Rightarrow> string" where
  "subscription_status key c =
     (case key of
        None \<Rightarrow> aggregate_subscription_state c
      | Some k \<Rightarrow>
          (case map_of (co_subscriptions c) k of None \<Rightarrow> ''unsubscribed'' | Some entry \<Rightarrow> phase_value (en_phase entry)))"

definition subscriber_counts :: "coordinator \<Rightarrow> (string \<times> nat) list" where
  "subscriber_counts c = map (\<lambda>(key, entry). (key, length (en_listeners entry))) (co_subscriptions c)"

text \<open>\<open>stop\<close> sets the transport state before and after the provider's own stop; \<open>status\<close> shows the
  transport as missing authentication while no token is stored.\<close>

definition stop_begins :: "coordinator \<Rightarrow> coordinator" where
  "stop_begins c = c\<lparr>co_transport_state := ''stopping''\<rparr>"

definition stop_ends :: "coordinator \<Rightarrow> coordinator" where
  "stop_ends c = c\<lparr>co_transport_state := ''disconnected''\<rparr>"

definition transport_status :: "bool \<Rightarrow> coordinator \<Rightarrow> string" where
  "transport_status authenticated c = (if authenticated then co_transport_state c else ''auth_missing'')"

end
