(* ===== verification/CoordinatorProperties.thy ===== *)
theory CoordinatorProperties
  imports Coordinator "HOL-Library.Multiset"
begin

text \<open>
  The coordinator of \<open>app/market_data/coordinator.py\<close> among concurrent callers. A world is the
  coordinator, the provider calls in flight and the instruments the provider streams; a step is one
  piece of a coroutine between two awaits, or a callback of the provider. Calls in flight may end in
  any order, as separate awaits do.
\<close>

section \<open>Worlds and steps\<close>

record world =
  w_co :: coordinator
  w_calls :: "(string \<times> nat \<times> nat) set"
  w_leaving :: "string multiset"
  w_provider :: "string set"

definition start_world :: "quote_store \<Rightarrow> nat \<Rightarrow> world" where
  "start_world store max_active =
     \<lparr>w_co = make_coordinator store max_active, w_calls = {}, w_leaving = {#}, w_provider = {}\<rparr>"

definition fresh_queue :: "nat \<Rightarrow> coordinator \<Rightarrow> bool" where
  "fresh_queue q c \<longleftrightarrow> (\<forall>entry \<in> snd ` set (co_subscriptions c). q \<notin> set (en_listeners entry))"

inductive coordinator_step :: "world \<Rightarrow> world \<Rightarrow> bool" where
  enter: "subscribe_enter key q (w_co w) = Inr (entry, first, c) \<Longrightarrow> fresh_queue q (w_co w) \<Longrightarrow>
    coordinator_step w (w\<lparr>w_co := c, w_calls := (if first then {(key, en_id entry, q)} else {}) \<union> w_calls w\<rparr>)"
| success: "(key, i, q) \<in> w_calls w \<Longrightarrow>
    coordinator_step w (w\<lparr>w_co := subscribe_succeeded key i (w_co w), w_calls := w_calls w - {(key, i, q)},
      w_provider := insert key (w_provider w)\<rparr>)"
| failure: "(key, i, q) \<in> w_calls w \<Longrightarrow>
    coordinator_step w (w\<lparr>w_co := subscribe_failed key i (w_co w), w_calls := w_calls w - {(key, i, q)}\<rparr>)"
| leave: "\<forall>key i. (key, i, q) \<notin> w_calls w \<Longrightarrow> unsubscribe_enter key q (w_co w) = (tell, c) \<Longrightarrow>
    coordinator_step w (w\<lparr>w_co := c, w_leaving := (if tell then {#key#} else {#}) + w_leaving w\<rparr>)"
| left: "key \<in># w_leaving w \<Longrightarrow>
    coordinator_step w (w\<lparr>w_leaving := w_leaving w - {#key#}, w_provider := w_provider w - {key}\<rparr>)"
| message: "coordinator_step w (w\<lparr>w_co := receive_provider_message now feeds candidates statuses (w_co w)\<rparr>)"
| state: "coordinator_step w (w\<lparr>w_co := receive_provider_state now st code (w_co w)\<rparr>)"
| stop: "coordinator_step w (w\<lparr>w_co := stop_begins (w_co w)\<rparr>)"
| stopped: "coordinator_step w (w\<lparr>w_co := stop_ends (w_co w)\<rparr>)"

definition reachable :: "quote_store \<Rightarrow> nat \<Rightarrow> world \<Rightarrow> bool" where
  "reachable store max_active w \<longleftrightarrow> coordinator_step\<^sup>*\<^sup>* (start_world store max_active) w"

section \<open>What publishing leaves alone\<close>

definition same_subscriptions :: "coordinator \<Rightarrow> coordinator \<Rightarrow> bool" where
  "same_subscriptions c d \<longleftrightarrow> co_max_active d = co_max_active c \<and> co_subscriptions d = co_subscriptions c
     \<and> co_futures d = co_futures c \<and> co_next_id d = co_next_id c"

definition same_quotes :: "coordinator \<Rightarrow> coordinator \<Rightarrow> bool" where
  "same_quotes c d \<longleftrightarrow> co_store d = co_store c \<and> co_quote_sequences d = co_quote_sequences c"

definition queues_bounded :: "coordinator \<Rightarrow> bool" where
  "queues_bounded c \<longleftrightarrow> (\<forall>q. length (co_queues c q) \<le> QUEUE_SIZE)"

lemma same_refl [simp]: "same_subscriptions c c" "same_quotes c c"
  by (simp_all add: same_subscriptions_def same_quotes_def)

lemma same_trans:
  "same_subscriptions b c \<Longrightarrow> same_subscriptions c d \<Longrightarrow> same_subscriptions b d"
  "same_quotes b c \<Longrightarrow> same_quotes c d \<Longrightarrow> same_quotes b d"
  by (simp_all add: same_subscriptions_def same_quotes_def)

lemma deliver_keeps:
  "same_subscriptions c (deliver event q c)" "same_quotes c (deliver event q c)"
  "queues_bounded c \<Longrightarrow> queues_bounded (deliver event q c)"
  by (auto simp: same_subscriptions_def same_quotes_def queues_bounded_def deliver_def Let_def QUEUE_SIZE_def
      le_less_Suc_eq Suc_le_eq less_le)

lemma fold_keeps:
  assumes "\<And>x c. same_subscriptions c (f x c)" and "\<And>x c. queues_bounded c \<Longrightarrow> queues_bounded (f x c)"
  shows "same_subscriptions c (fold f xs c)" and "queues_bounded c \<Longrightarrow> queues_bounded (fold f xs c)"
proof -
  show "same_subscriptions c (fold f xs c)"
    by (induction xs arbitrary: c) (auto intro: same_trans(1) [OF assms(1)])
  show "queues_bounded c \<Longrightarrow> queues_bounded (fold f xs c)"
    by (induction xs arbitrary: c) (auto intro: assms(2))
qed

lemma fold_keeps_quotes: "(\<And>x c. same_quotes c (f x c)) \<Longrightarrow> same_quotes c (fold f xs c)"
  by (induction xs arbitrary: c) (auto intro: same_trans(2))

lemma publish_keeps:
  "same_subscriptions c (publish key event c)" "same_quotes c (publish key event c)"
  "queues_bounded c \<Longrightarrow> queues_bounded (publish key event c)"
  by (auto simp: publish_def split: option.splits
      intro: fold_keeps(1) [OF deliver_keeps(1,3)] fold_keeps(2) [OF deliver_keeps(1,3)] fold_keeps_quotes [OF deliver_keeps(2)])

lemma accept_candidate_keeps:
  "same_subscriptions c (accept_candidate candidate c)"
  "queues_bounded c \<Longrightarrow> queues_bounded (accept_candidate candidate c)"
proof -
  show "same_subscriptions c (accept_candidate candidate c)"
    unfolding accept_candidate_def Let_def
    by (auto split: prod.splits simp: same_subscriptions_def
        intro!: trans [OF publish_keeps(1) [unfolded same_subscriptions_def, THEN conjunct1]]
          trans [OF publish_keeps(1) [unfolded same_subscriptions_def, THEN conjunct2, THEN conjunct1]]
          trans [OF publish_keeps(1) [unfolded same_subscriptions_def, THEN conjunct2, THEN conjunct2, THEN conjunct1]]
          trans [OF publish_keeps(1) [unfolded same_subscriptions_def, THEN conjunct2, THEN conjunct2, THEN conjunct2]])
  show "queues_bounded c \<Longrightarrow> queues_bounded (accept_candidate candidate c)"
    unfolding accept_candidate_def Let_def
    by (auto split: prod.splits simp: queues_bounded_def
        intro!: publish_keeps(3) [unfolded queues_bounded_def, rule_format])
qed

lemma publish_if_keeps:
  "same_subscriptions c ((if b then publish key event else id) c)"
  "same_quotes c ((if b then publish key event else id) c)"
  "queues_bounded c \<Longrightarrow> queues_bounded ((if b then publish key event else id) c)"
  using publish_keeps by auto

lemma segment_published_keeps:
  fixes S :: "string set"
  defines "f \<equiv> \<lambda>key. if segment_for key \<in> S then publish key MarketStatusChanged else id"
  shows "same_subscriptions c (fold f ks c)" and "queues_bounded c \<Longrightarrow> queues_bounded (fold f ks c)"
    and "same_quotes c (fold f ks c)"
  unfolding f_def by (rule fold_keeps(1) fold_keeps(2) fold_keeps_quotes; use publish_if_keeps in blast)+

lemma accepted_keeps:
  "same_subscriptions c (fold accept_candidate candidates c)"
  "queues_bounded c \<Longrightarrow> queues_bounded (fold accept_candidate candidates c)"
  by (rule fold_keeps(1) fold_keeps(2); use accept_candidate_keeps in blast)+

lemma published_keeps:
  "same_subscriptions c (fold (\<lambda>key. publish key event) ks c)"
  "queues_bounded c \<Longrightarrow> queues_bounded (fold (\<lambda>key. publish key event) ks c)"
  "same_quotes c (fold (\<lambda>key. publish key event) ks c)"
  by (rule fold_keeps(1) fold_keeps(2) fold_keeps_quotes; use publish_keeps in blast)+

lemma receive_keeps:
  "same_subscriptions c (receive_provider_message now feeds candidates statuses c)"
  "queues_bounded c \<Longrightarrow> queues_bounded (receive_provider_message now feeds candidates statuses c)"
  "same_subscriptions c (receive_provider_state now st code c)"
  "queues_bounded c \<Longrightarrow> queues_bounded (receive_provider_state now st code c)"
proof -
  show "same_subscriptions c (receive_provider_message now feeds candidates statuses c)"
    unfolding receive_provider_message_def Let_def
    by (rule same_trans(1) [OF _ accepted_keeps(1)], rule same_trans(1) [OF _ segment_published_keeps(1)])
       (simp add: same_subscriptions_def)
  show "queues_bounded c \<Longrightarrow> queues_bounded (receive_provider_message now feeds candidates statuses c)"
    unfolding receive_provider_message_def Let_def
    by (rule accepted_keeps(2), rule segment_published_keeps(2)) (simp add: queues_bounded_def)
  show "same_subscriptions c (receive_provider_state now st code c)"
    unfolding receive_provider_state_def Let_def
    by (rule same_trans(1) [OF _ published_keeps(1)]) (simp add: same_subscriptions_def)
  show "queues_bounded c \<Longrightarrow> queues_bounded (receive_provider_state now st code c)"
    unfolding receive_provider_state_def Let_def
    by (rule published_keeps(2)) (simp add: queues_bounded_def)
qed

lemma stop_keeps:
  "same_subscriptions c (stop_begins c)" "same_subscriptions c (stop_ends c)"
  "same_quotes c (stop_begins c)" "same_quotes c (stop_ends c)"
  "queues_bounded c \<Longrightarrow> queues_bounded (stop_begins c)" "queues_bounded c \<Longrightarrow> queues_bounded (stop_ends c)"
  by (simp_all add: stop_begins_def stop_ends_def same_subscriptions_def same_quotes_def queues_bounded_def)

section \<open>The invariant\<close>

type_synonym call = "string \<times> nat \<times> nat"

definition sound_entry ::
  "(nat \<Rightarrow> readiness) \<Rightarrow> nat \<Rightarrow> call set \<Rightarrow> string \<Rightarrow> subscription_entry \<Rightarrow> bool" where
  "sound_entry futures next_id calls key entry \<longleftrightarrow>
     en_listeners entry \<noteq> [] \<and> en_id entry < next_id
     \<and> (case en_phase entry of
          PhaseSubscribing \<Rightarrow> \<exists>q \<in> set (en_listeners entry). (key, en_id entry, q) \<in> calls
        | PhaseSubscribed \<Rightarrow> futures (en_id entry) = Ready
        | PhaseRejected \<Rightarrow> False)"

definition sound_call :: "(nat \<Rightarrow> readiness) \<Rightarrow> nat \<Rightarrow> (string \<rightharpoonup> subscription_entry) \<Rightarrow> call \<Rightarrow> bool" where
  "sound_call futures next_id subscriptions = (\<lambda>(key, i, q). i < next_id \<and> futures i = Waiting
     \<and> (\<exists>entry. subscriptions key = Some entry \<and> en_id entry = i
          \<and> en_phase entry = PhaseSubscribing \<and> q \<in> set (en_listeners entry)))"

definition sound :: "coordinator \<Rightarrow> call set \<Rightarrow> bool" where
  "sound c calls \<longleftrightarrow>
     distinct (map fst (co_subscriptions c))
     \<and> length (co_subscriptions c) \<le> co_max_active c
     \<and> queues_bounded c
     \<and> (\<forall>key entry. map_of (co_subscriptions c) key = Some entry
          \<longrightarrow> sound_entry (co_futures c) (co_next_id c) calls key entry)
     \<and> (\<forall>call \<in> calls. sound_call (co_futures c) (co_next_id c) (map_of (co_subscriptions c)) call)
     \<and> (\<forall>i < co_next_id c. co_futures c i = Waiting \<longrightarrow> (\<exists>key q. (key, i, q) \<in> calls))
     \<and> (\<forall>key i q key' q'. (key, i, q) \<in> calls \<longrightarrow> (key', i, q') \<in> calls \<longrightarrow> key = key' \<and> q = q')"

lemma sound_start: "sound (make_coordinator store max_active) {}"
  by (simp add: sound_def make_coordinator_def queues_bounded_def)

lemma sound_same:
  assumes "sound c calls" "same_subscriptions c d" "queues_bounded d"
  shows "sound d calls"
proof -
  have "co_max_active d = co_max_active c" "co_subscriptions d = co_subscriptions c"
    "co_futures d = co_futures c" "co_next_id d = co_next_id c"
    using assms(2) by (simp_all add: same_subscriptions_def)
  then show ?thesis using assms(1,3) unfolding sound_def by simp
qed

lemma sound_facts:
  assumes "sound c calls"
  shows "distinct (map fst (co_subscriptions c))"
    and "length (co_subscriptions c) \<le> co_max_active c"
    and "queues_bounded c"
    and "\<And>key entry. map_of (co_subscriptions c) key = Some entry \<Longrightarrow>
      sound_entry (co_futures c) (co_next_id c) calls key entry"
    and "\<And>call. call \<in> calls \<Longrightarrow> sound_call (co_futures c) (co_next_id c) (map_of (co_subscriptions c)) call"
    and "\<And>i. i < co_next_id c \<Longrightarrow> co_futures c i = Waiting \<Longrightarrow> \<exists>key q. (key, i, q) \<in> calls"
    and "\<And>key i q key' q'. (key, i, q) \<in> calls \<Longrightarrow> (key', i, q') \<in> calls \<Longrightarrow> key = key' \<and> q = q'"
  using assms unfolding sound_def by blast+

lemma no_rejected_entries:
  assumes "sound c calls" and "item \<in> set (co_subscriptions c)"
  shows "en_phase (snd item) \<noteq> PhaseRejected"
proof -
  have "map_of (co_subscriptions c) (fst item) = Some (snd item)"
    using assms(2) sound_facts(1) [OF assms(1)] by simp
  from sound_facts(4) [OF assms(1) this] show ?thesis by (auto simp: sound_entry_def split: subscription_phase.splits)
qed

lemma active_count_all:
  assumes "sound c calls"
  shows "active_count c = length (co_subscriptions c)"
proof -
  have "filter (\<lambda>item. en_phase (snd item) \<noteq> PhaseRejected) (co_subscriptions c) = co_subscriptions c"
    unfolding filter_id_conv using no_rejected_entries [OF assms] by blast
  then show ?thesis by (simp only: active_count_def)
qed

lemma length_update_key:
  "length (AList.update k v xs) = (if k \<in> fst ` set xs then length xs else Suc (length xs))"
  by (induction xs) auto

lemma length_delete_key: "length (AList.delete k xs) \<le> length xs"
  by (simp add: AList.delete_eq)

lemma insert_nonempty [simp]: "List.insert x xs \<noteq> []"
  by (cases xs) (auto simp: List.insert_def)

section \<open>Every step keeps the invariant\<close>

text \<open>Changing one key of the dictionary: what remains to be checked.\<close>

lemma soundI:
  assumes "distinct (map fst (co_subscriptions d))" "length (co_subscriptions d) \<le> co_max_active d" "queues_bounded d"
    and "\<And>key entry. map_of (co_subscriptions d) key = Some entry \<Longrightarrow>
      sound_entry (co_futures d) (co_next_id d) calls key entry"
    and "\<And>call. call \<in> calls \<Longrightarrow> sound_call (co_futures d) (co_next_id d) (map_of (co_subscriptions d)) call"
    and "\<And>i. i < co_next_id d \<Longrightarrow> co_futures d i = Waiting \<Longrightarrow> \<exists>key q. (key, i, q) \<in> calls"
    and "\<And>key i q key' q'. (key, i, q) \<in> calls \<Longrightarrow> (key', i, q') \<in> calls \<Longrightarrow> key = key' \<and> q = q'"
  shows "sound d calls"
  unfolding sound_def using assms by blast

lemma subscribe_enter_Inr:
  assumes "subscribe_enter key q c = Inr (entry, first, d)" and "sound c calls"
  shows "co_subscriptions d = AList.update key entry (co_subscriptions c) \<and> co_max_active d = co_max_active c
    \<and> co_queues d = (co_queues c)(q := [])
    \<and> ((\<exists>e. map_of (co_subscriptions c) key = Some e \<and> \<not> first \<and> entry = add_listener q e
          \<and> co_futures d = co_futures c \<and> co_next_id d = co_next_id c)
       \<or> map_of (co_subscriptions c) key = None \<and> first \<and> length (co_subscriptions c) < co_max_active c
          \<and> entry = \<lparr>en_id = co_next_id c, en_phase = PhaseSubscribing, en_listeners = [q]\<rparr>
          \<and> co_futures d = (co_futures c)(co_next_id c := Waiting) \<and> co_next_id d = Suc (co_next_id c))"
proof (cases "map_of (co_subscriptions c) key")
  case None
  then show ?thesis using assms(1) active_count_all [OF assms(2)]
    by (auto simp: subscribe_enter_def add_listener_def rbind_eq_Inr guard_eq_Inr Let_def split: if_splits)
next
  case (Some e)
  then have "en_phase e \<noteq> PhaseRejected"
    using no_rejected_entries [OF assms(2) map_of_SomeD [OF Some]] by simp
  then show ?thesis using assms(1) Some
    by (auto simp: subscribe_enter_def rbind_eq_Inr Let_def)
qed

lemma sound_enter:
  assumes s: "sound c calls" and run: "subscribe_enter key q c = Inr (entry, first, d)"
  shows "sound d ((if first then {(key, en_id entry, q)} else {}) \<union> calls)"
proof -
  note f = sound_facts [OF s]
  note r = subscribe_enter_Inr [OF run s]
  have dist: "distinct (map fst (co_subscriptions d))" using r f(1) by (simp add: distinct_update)
  have bounded: "queues_bounded d" using r f(3) by (simp add: queues_bounded_def)
  have m: "map_of (co_subscriptions d) k = (if k = key then Some entry else map_of (co_subscriptions c) k)" for k
    using r by (simp add: update_conv')
  show ?thesis
  proof (cases first)
    case False
    then obtain e where e: "map_of (co_subscriptions c) key = Some e" "entry = add_listener q e"
      "co_futures d = co_futures c" "co_next_id d = co_next_id c" using r by auto
    have se: "sound_entry (co_futures c) (co_next_id c) calls key e" by (rule f(4) [OF e(1)])
    have "key \<in> fst ` set (co_subscriptions c)" using map_of_SomeD [OF e(1)] by force
    then have len: "length (co_subscriptions d) \<le> co_max_active d" using r f(2) by (simp add: length_update_key)
    have "sound d calls"
    proof (rule soundI [OF dist len bounded])
      fix k en assume "map_of (co_subscriptions d) k = Some en"
      then show "sound_entry (co_futures d) (co_next_id d) calls k en"
        using se f(4) [of k en] e(2-4)
        by (auto simp: m sound_entry_def add_listener_def split: if_splits subscription_phase.splits)
    next
      fix call assume "call \<in> calls"
      then show "sound_call (co_futures d) (co_next_id d) (map_of (co_subscriptions d)) call"
        using f(5) [of call] e by (auto simp: m sound_call_def add_listener_def split: prod.splits)
    next
      fix i assume "i < co_next_id d" "co_futures d i = Waiting"
      then show "\<exists>key q. (key, i, q) \<in> calls" using f(6) e by simp
    qed (rule f(7))
    then show ?thesis using False by simp
  next
    case True
    then have none: "map_of (co_subscriptions c) key = None" and room: "length (co_subscriptions c) < co_max_active c"
      and en: "entry = \<lparr>en_id = co_next_id c, en_phase = PhaseSubscribing, en_listeners = [q]\<rparr>"
      and fut: "co_futures d = (co_futures c)(co_next_id c := Waiting)" "co_next_id d = Suc (co_next_id c)"
      using r by auto
    have len: "length (co_subscriptions d) \<le> co_max_active d" using r room by (simp add: length_update_key)
    have old: "i < co_next_id c" if "(k, i, p) \<in> calls" for k i p using f(5) [OF that] by (simp add: sound_call_def)
    have "sound d (insert (key, co_next_id c, q) calls)"
    proof (rule soundI [OF dist len bounded])
      fix k e assume e: "map_of (co_subscriptions d) k = Some e"
      show "sound_entry (co_futures d) (co_next_id d) (insert (key, co_next_id c, q) calls) k e"
      proof (cases "k = key")
        case True
        then show ?thesis using e by (auto simp: m en fut sound_entry_def)
      next
        case False
        then show ?thesis using e f(4) [of k e]
          by (auto simp: m fut sound_entry_def split: subscription_phase.splits)
      qed
    next
      fix call assume "call \<in> insert (key, co_next_id c, q) calls"
      then show "sound_call (co_futures d) (co_next_id d) (map_of (co_subscriptions d)) call"
        using f(5) [of call] none by (auto simp: m en fut sound_call_def split: prod.splits)
    next
      fix i assume "i < co_next_id d" "co_futures d i = Waiting"
      then show "\<exists>k p. (k, i, p) \<in> insert (key, co_next_id c, q) calls"
        using f(6) [of i] by (cases "i = co_next_id c") (auto simp: fut)
    next
      fix k i p k' p'
      assume "(k, i, p) \<in> insert (key, co_next_id c, q) calls" "(k', i, p') \<in> insert (key, co_next_id c, q) calls"
      then show "k = k' \<and> p = p'" using f(7) old by blast
    qed
    then show ?thesis using True by (simp add: en)
  qed
qed

lemma call_is_current:
  assumes "sound c calls" and "(key, i, q) \<in> calls"
  obtains entry where "map_of (co_subscriptions c) key = Some entry" "en_id entry = i"
    "en_phase entry = PhaseSubscribing" "q \<in> set (en_listeners entry)" "co_futures c i = Waiting" "i < co_next_id c"
  using sound_facts(5) [OF assms] by (auto simp: sound_call_def)

text \<open>Ending a call changes its own entry and its own future only.\<close>

lemma other_entry_sound:
  assumes s: "sound c calls" and call: "(key, i, q) \<in> calls" and "k \<noteq> key"
    and e: "map_of (co_subscriptions c) k = Some e"
  shows "sound_entry ((co_futures c)(i := outcome)) (co_next_id c) (calls - {(key, i, q)}) k e"
proof -
  note f = sound_facts [OF s]
  have w: "co_futures c i = Waiting" using call_is_current [OF s call] by blast
  have se: "sound_entry (co_futures c) (co_next_id c) calls k e" by (rule f(4) [OF e])
  show ?thesis
  proof (cases "en_phase e")
    case PhaseSubscribing
    then show ?thesis using se \<open>k \<noteq> key\<close> by (auto simp: sound_entry_def)
  next
    case PhaseSubscribed
    then show ?thesis using se w by (auto simp: sound_entry_def)
  qed (use se in \<open>simp add: sound_entry_def\<close>)
qed

lemma other_call_sound:
  assumes s: "sound c calls" and call: "(key, i, q) \<in> calls" and other: "other \<in> calls - {(key, i, q)}"
    and m: "\<And>k. k \<noteq> key \<Longrightarrow> subscriptions k = map_of (co_subscriptions c) k"
  shows "sound_call ((co_futures c)(i := outcome)) (co_next_id c) subscriptions other"
proof -
  obtain k j p where o: "other = (k, j, p)" by (cases other)
  have "j \<noteq> i" using sound_facts(7) [OF s, of k j p key q] other call by (auto simp: o)
  have so: "sound_call (co_futures c) (co_next_id c) (map_of (co_subscriptions c)) other"
    using other by (intro sound_facts(5) [OF s]) auto
  then obtain e where "map_of (co_subscriptions c) k = Some e" "en_id e = j" by (auto simp: sound_call_def o)
  moreover obtain e' where "map_of (co_subscriptions c) key = Some e'" "en_id e' = i"
    using call_is_current [OF s call] by blast
  ultimately have "k \<noteq> key" using \<open>j \<noteq> i\<close> by auto
  then show ?thesis using so m [of k] \<open>j \<noteq> i\<close> by (simp add: sound_call_def o)
qed

lemma other_futures_called:
  assumes s: "sound c calls" and call: "(key, i, q) \<in> calls"
    and j: "j < co_next_id c" "((co_futures c)(i := outcome)) j = Waiting" "outcome \<noteq> Waiting"
  shows "\<exists>k p. (k, j, p) \<in> calls - {(key, i, q)}"
proof -
  have "j \<noteq> i" using j by auto
  then show ?thesis using sound_facts(6) [OF s, of j] j by auto
qed

lemma sound_success:
  assumes s: "sound c calls" and call: "(key, i, q) \<in> calls"
  shows "sound (subscribe_succeeded key i c) (calls - {(key, i, q)})"
    and "co_futures (subscribe_succeeded key i c) i = Ready"
proof -
  note f = sound_facts [OF s]
  obtain entry where en: "map_of (co_subscriptions c) key = Some entry" "en_id entry = i"
    "en_phase entry = PhaseSubscribing" "q \<in> set (en_listeners entry)" "co_futures c i = Waiting" "i < co_next_id c"
    by (rule call_is_current [OF s call])
  define d where "d = subscribe_succeeded key i c"
  have d: "co_subscriptions d = AList.update key (entry\<lparr>en_phase := PhaseSubscribed\<rparr>) (co_subscriptions c)"
    "co_futures d = (co_futures c)(i := Ready)" "co_next_id d = co_next_id c" "co_max_active d = co_max_active c"
    "co_queues d = co_queues c"
    using en by (simp_all add: d_def subscribe_succeeded_def settle_def)
  have m: "map_of (co_subscriptions d) k =
      (if k = key then Some (entry\<lparr>en_phase := PhaseSubscribed\<rparr>) else map_of (co_subscriptions c) k)" for k
    by (simp add: d update_conv')
  have "sound d (calls - {(key, i, q)})"
  proof (rule soundI)
    show "distinct (map fst (co_subscriptions d))" using f(1) by (simp add: d distinct_update)
    have "key \<in> fst ` set (co_subscriptions c)" using map_of_SomeD [OF en(1)] by force
    then show "length (co_subscriptions d) \<le> co_max_active d" using f(2) by (simp add: d length_update_key)
    show "queues_bounded d" using f(3) by (simp add: d queues_bounded_def)
  next
    fix k e assume e: "map_of (co_subscriptions d) k = Some e"
    show "sound_entry (co_futures d) (co_next_id d) (calls - {(key, i, q)}) k e"
    proof (cases "k = key")
      case True
      then have "e = entry\<lparr>en_phase := PhaseSubscribed\<rparr>" using e by (simp add: m)
      moreover have "en_listeners entry \<noteq> []" using en(4) by auto
      ultimately show ?thesis using en(2,6) by (simp add: d(2,3) sound_entry_def)
    next
      case False
      then show ?thesis using other_entry_sound [OF s call False] e by (simp add: m d(2,3))
    qed
  next
    fix other assume "other \<in> calls - {(key, i, q)}"
    then show "sound_call (co_futures d) (co_next_id d) (map_of (co_subscriptions d)) other"
      using other_call_sound [OF s call, of other "map_of (co_subscriptions d)" Ready] by (simp add: m d(2,3))
  next
    fix j assume "j < co_next_id d" "co_futures d j = Waiting"
    then show "\<exists>k p. (k, j, p) \<in> calls - {(key, i, q)}"
      using other_futures_called [OF s call, of j Ready] by (simp add: d)
  next
    show "k = k' \<and> p = p'" if "(k, j, p) \<in> calls - {(key, i, q)}" "(k', j, p') \<in> calls - {(key, i, q)}" for k j p k' p'
      using f(7) that by blast
  qed
  then show "sound (subscribe_succeeded key i c) (calls - {(key, i, q)})" by (simp add: d_def)
  show "co_futures (subscribe_succeeded key i c) i = Ready" using d(2) by (simp add: d_def)
qed

lemma sound_failure:
  assumes s: "sound c calls" and call: "(key, i, q) \<in> calls"
  shows "sound (subscribe_failed key i c) (calls - {(key, i, q)})"
    and "co_futures (subscribe_failed key i c) i = Refused"
proof -
  note f = sound_facts [OF s]
  obtain entry where en: "map_of (co_subscriptions c) key = Some entry" "en_id entry = i" "co_futures c i = Waiting"
    by (rule call_is_current [OF s call])
  define d where "d = subscribe_failed key i c"
  have d: "co_subscriptions d = AList.delete key (co_subscriptions c)"
    "co_futures d = (co_futures c)(i := Refused)" "co_next_id d = co_next_id c" "co_max_active d = co_max_active c"
    "co_queues d = co_queues c"
    using en by (simp_all add: d_def subscribe_failed_def is_current_def settle_def)
  have m: "map_of (co_subscriptions d) k = (if k = key then None else map_of (co_subscriptions c) k)" for k
    by (simp add: d delete_conv')
  have "sound d (calls - {(key, i, q)})"
  proof (rule soundI)
    show "distinct (map fst (co_subscriptions d))" using f(1) by (simp add: d distinct_delete)
    show "length (co_subscriptions d) \<le> co_max_active d"
      using f(2) length_delete_key [of key "co_subscriptions c"] by (simp add: d)
    show "queues_bounded d" using f(3) by (simp add: d queues_bounded_def)
  next
    fix k e assume "map_of (co_subscriptions d) k = Some e"
    then show "sound_entry (co_futures d) (co_next_id d) (calls - {(key, i, q)}) k e"
      using other_entry_sound [OF s call, of k e] by (auto simp: m d(2,3) split: if_splits)
  next
    fix other assume "other \<in> calls - {(key, i, q)}"
    then show "sound_call (co_futures d) (co_next_id d) (map_of (co_subscriptions d)) other"
      using other_call_sound [OF s call, of other "map_of (co_subscriptions d)" Refused] by (simp add: m d(2,3))
  next
    fix j assume "j < co_next_id d" "co_futures d j = Waiting"
    then show "\<exists>k p. (k, j, p) \<in> calls - {(key, i, q)}"
      using other_futures_called [OF s call, of j Refused] by (simp add: d)
  next
    show "k = k' \<and> p = p'" if "(k, j, p) \<in> calls - {(key, i, q)}" "(k', j, p') \<in> calls - {(key, i, q)}" for k j p k' p'
      using f(7) that by blast
  qed
  then show "sound (subscribe_failed key i c) (calls - {(key, i, q)})" by (simp add: d_def)
  show "co_futures (subscribe_failed key i c) i = Refused" using d(2) by (simp add: d_def)
qed

lemma delete_update: "AList.delete k (AList.update k v xs) = AList.delete k xs"
  by (induction xs) (auto simp: AList.delete_eq)

lemma unsubscribe_enter_cases:
  assumes "unsubscribe_enter key q c = (tell, d)"
  obtains (absent) "\<not> tell" "d = c"
    | (stays) entry where "map_of (co_subscriptions c) key = Some entry" "removeAll q (en_listeners entry) \<noteq> []"
        "\<not> tell" "co_futures d = co_futures c" "co_next_id d = co_next_id c" "co_max_active d = co_max_active c"
        "co_queues d = co_queues c"
        "co_subscriptions d = AList.update key (entry\<lparr>en_listeners := removeAll q (en_listeners entry)\<rparr>) (co_subscriptions c)"
    | (leaves) entry where "map_of (co_subscriptions c) key = Some entry" "removeAll q (en_listeners entry) = []"
        "tell \<longleftrightarrow> en_phase entry = PhaseSubscribed" "co_futures d = co_futures c" "co_next_id d = co_next_id c"
        "co_max_active d = co_max_active c" "co_queues d = co_queues c"
        "co_subscriptions d = AList.delete key (co_subscriptions c)"
  using assms
  by (cases "map_of (co_subscriptions c) key")
     (auto simp: unsubscribe_enter_def Let_def delete_update split: if_splits)

lemma sound_leave:
  assumes s: "sound c calls" and run: "unsubscribe_enter key q c = (tell, d)"
    and calm: "\<forall>k i. (k, i, q) \<notin> calls"
  shows "sound d calls"
  using run
proof (cases rule: unsubscribe_enter_cases)
  case absent
  then show ?thesis using s by simp
next
  case (stays entry)
  note f = sound_facts [OF s]
  have m: "map_of (co_subscriptions d) k = (if k = key then Some (entry\<lparr>en_listeners := removeAll q (en_listeners entry)\<rparr>)
      else map_of (co_subscriptions c) k)" for k
    by (simp add: stays(8) update_conv')
  show ?thesis
  proof (rule soundI)
    show "distinct (map fst (co_subscriptions d))" using f(1) by (simp add: stays(8) distinct_update)
    have "key \<in> fst ` set (co_subscriptions c)" using map_of_SomeD [OF stays(1)] by force
    then show "length (co_subscriptions d) \<le> co_max_active d" using f(2) by (simp add: stays(6,8) length_update_key)
    show "queues_bounded d" using f(3) by (simp add: stays(7) queues_bounded_def)
  next
    fix k e assume e: "map_of (co_subscriptions d) k = Some e"
    show "sound_entry (co_futures d) (co_next_id d) calls k e"
    proof (cases "k = key")
      case True
      have "sound_entry (co_futures c) (co_next_id c) calls key entry" by (rule f(4) [OF stays(1)])
      then have "sound_entry (co_futures c) (co_next_id c) calls key (entry\<lparr>en_listeners := removeAll q (en_listeners entry)\<rparr>)"
        using calm stays(2) by (auto simp: sound_entry_def split: subscription_phase.splits)
      then show ?thesis using e True by (simp add: m stays(4,5))
    next
      case False
      then show ?thesis using f(4) [of k e] e by (simp add: m stays(4,5))
    qed
  next
    fix call assume "call \<in> calls"
    moreover have "snd (snd call) \<noteq> q" using calm \<open>call \<in> calls\<close> by (cases call) auto
    ultimately show "sound_call (co_futures d) (co_next_id d) (map_of (co_subscriptions d)) call"
      using f(5) [of call] stays(1) by (auto simp: m stays(4,5) sound_call_def split: prod.splits)
  next
    show "\<exists>k p. (k, i, p) \<in> calls" if "i < co_next_id d" "co_futures d i = Waiting" for i
      using f(6) that by (simp add: stays(4,5))
  qed (rule f(7))
next
  case (leaves entry)
  note f = sound_facts [OF s]
  have m: "map_of (co_subscriptions d) k = (if k = key then None else map_of (co_subscriptions c) k)" for k
    by (simp add: leaves(8) delete_conv')
  have none: "k \<noteq> key" if "(k, i, p) \<in> calls" for k i p
  proof
    assume "k = key"
    then have "p \<in> set (en_listeners entry)" using call_is_current [OF s that] leaves(1) by auto
    then have "p = q" using leaves(2) by (auto simp: removeAll_filter_not_eq filter_empty_conv)
    then show False using calm that by blast
  qed
  show ?thesis
  proof (rule soundI)
    show "distinct (map fst (co_subscriptions d))" using f(1) by (simp add: leaves(8) distinct_delete)
    show "length (co_subscriptions d) \<le> co_max_active d"
      using f(2) length_delete_key [of key "co_subscriptions c"] by (simp add: leaves(6,8))
    show "queues_bounded d" using f(3) by (simp add: leaves(7) queues_bounded_def)
  next
    fix k e assume "map_of (co_subscriptions d) k = Some e"
    then show "sound_entry (co_futures d) (co_next_id d) calls k e"
      using f(4) [of k e] by (simp add: m leaves(4,5) split: if_splits)
  next
    fix call assume "call \<in> calls"
    then show "sound_call (co_futures d) (co_next_id d) (map_of (co_subscriptions d)) call"
      using f(5) [of call] none by (auto simp: m leaves(4,5) sound_call_def split: prod.splits)
  next
    show "\<exists>k p. (k, i, p) \<in> calls" if "i < co_next_id d" "co_futures d i = Waiting" for i
      using f(6) that by (simp add: leaves(4,5))
  qed (rule f(7))
qed

lemma sound_step: "coordinator_step w w' \<Longrightarrow> sound (w_co w) (w_calls w) \<Longrightarrow> sound (w_co w') (w_calls w')"
proof (induction rule: coordinator_step.induct)
  case (enter key q w entry first c)
  then show ?case using sound_enter by simp
next
  case (message w now feeds candidates statuses)
  then show ?case using sound_same receive_keeps(1,2) sound_facts(3) by simp
next
  case (state w now st code)
  then show ?case using sound_same receive_keeps(3,4) sound_facts(3) by simp
next
  case (stop w)
  then show ?case using sound_same stop_keeps(1,5) sound_facts(3) by simp
next
  case (stopped w)
  then show ?case using sound_same stop_keeps(2,6) sound_facts(3) by simp
qed (auto intro: sound_success sound_failure sound_leave)

lemma sound_reachable: "reachable store max_active w \<Longrightarrow> sound (w_co w) (w_calls w)"
  unfolding reachable_def
  by (induction rule: rtranclp_induct) (auto simp: start_world_def sound_start intro: sound_step)

lemma step_keeps_capacity: "coordinator_step w w' \<Longrightarrow> sound (w_co w) (w_calls w) \<Longrightarrow> co_max_active (w_co w') = co_max_active (w_co w)"
proof (induction rule: coordinator_step.induct)
  case (enter key q w entry first c)
  then show ?case using subscribe_enter_Inr by fastforce
next
  case (leave q w key tell c)
  from leave(2) show ?case by (cases rule: unsubscribe_enter_cases) auto
qed (use receive_keeps in \<open>auto simp: stop_begins_def stop_ends_def subscribe_succeeded_def subscribe_failed_def settle_def same_subscriptions_def split: option.splits\<close>)

lemma reachable_capacity: "reachable store max_active w \<Longrightarrow> co_max_active (w_co w) = max_active"
proof -
  assume "reachable store max_active w"
  then have "coordinator_step\<^sup>*\<^sup>* (start_world store max_active) w" by (simp add: reachable_def)
  then show ?thesis
  proof (induction rule: rtranclp_induct)
    case base
    then show ?case by (simp add: start_world_def make_coordinator_def)
  next
    case (step v w)
    then show ?case using step_keeps_capacity sound_reachable [of store max_active v] by (simp add: reachable_def)
  qed
qed

text \<open>C15. However callers and the provider interleave, the coordinator never has more than its limit of
  instruments, never holds more than eight undelivered events for a listener, never keeps an entry
  without a listener, and never shows a rejected subscription: rejection removes the entry.\<close>

theorem coordinator_stays_bounded:
  assumes "reachable store max_active w"
  shows "length (co_subscriptions (w_co w)) \<le> max_active
    \<and> (\<forall>q. length (co_queues (w_co w) q) \<le> 8)
    \<and> (\<forall>item \<in> set (co_subscriptions (w_co w)). en_listeners (snd item) \<noteq> [])
    \<and> (\<forall>key. subscription_status key (w_co w) \<in> {''unsubscribed'', ''subscribing'', ''subscribed''})"
proof -
  note s = sound_reachable [OF assms]
  note f = sound_facts [OF s]
  have listeners: "en_listeners (snd item) \<noteq> []" if "item \<in> set (co_subscriptions (w_co w))" for item
  proof -
    have "map_of (co_subscriptions (w_co w)) (fst item) = Some (snd item)" using that f(1) by simp
    from f(4) [OF this] show ?thesis by (simp add: sound_entry_def)
  qed
  have "subscription_status key (w_co w) \<in> {''unsubscribed'', ''subscribing'', ''subscribed''}" for key
  proof (cases key)
    case None
    have "PhaseRejected \<notin> set (map (\<lambda>item. en_phase (snd item)) (co_subscriptions (w_co w)))"
      unfolding set_map image_iff using no_rejected_entries [OF s] by metis
    then show ?thesis by (simp add: subscription_status_def aggregate_subscription_state_def None Let_def)
  next
    case (Some k)
    show ?thesis
    proof (cases "map_of (co_subscriptions (w_co w)) k")
      case (Some entry)
      then have "en_phase entry \<noteq> PhaseRejected" using no_rejected_entries [OF s map_of_SomeD] by fastforce
      then show ?thesis using Some \<open>key = Some k\<close> by (cases "en_phase entry") (simp_all add: subscription_status_def)
    qed (simp add: subscription_status_def Some)
  qed
  then show ?thesis using f(2,3) listeners reachable_capacity [OF assms]
    by (simp add: queues_bounded_def QUEUE_SIZE_def)
qed

text \<open>C14. Nobody waits in vain: as long as the future of an entry is open, a provider call for it is in
  flight, and either outcome of that call settles it, with success when the provider accepted and
  with a refusal when it did not.\<close>

theorem every_waiter_is_answered:
  assumes "reachable store max_active w" "i < co_next_id (w_co w)" "co_futures (w_co w) i = Waiting"
  shows "\<exists>key q. (key, i, q) \<in> w_calls w
    \<and> co_futures (subscribe_succeeded key i (w_co w)) i = Ready
    \<and> co_futures (subscribe_failed key i (w_co w)) i = Refused"
proof -
  note s = sound_reachable [OF assms(1)]
  obtain key q where call: "(key, i, q) \<in> w_calls w" using sound_facts(6) [OF s assms(2,3)] by blast
  then show ?thesis using sound_success(2) [OF s call] sound_failure(2) [OF s call] by blast
qed

section \<open>Quotes in sequence\<close>

definition quotes_agree :: "coordinator \<Rightarrow> bool" where
  "quotes_agree c \<longleftrightarrow> (\<forall>k. co_quote_sequences c k = map_option lq_sequence (qs_quotes (co_store c) k))"

lemma quotes_agree_same: "same_quotes c d \<Longrightarrow> quotes_agree c \<Longrightarrow> quotes_agree d"
  by (simp add: same_quotes_def quotes_agree_def)

lemma publish_quotes: "co_store (publish key event c) = co_store c" "co_quote_sequences (publish key event c) = co_quote_sequences c"
  using publish_keeps(2) [of c key event] by (simp_all add: same_quotes_def)

lemma next_sequence:
  assumes "quotes_agree c"
  shows "(case co_quote_sequences c k of None \<Rightarrow> 0 | Some n \<Rightarrow> n)
    = (case qs_quotes (co_store c) k of None \<Rightarrow> 0 | Some old \<Rightarrow> lq_sequence old)"
  using assms by (simp add: quotes_agree_def split: option.splits)

text \<open>A candidate is always stored: its sequence number is the next one.\<close>

lemma accept_candidate_stores:
  fixes c :: coordinator and candidate :: live_quote_candidate
  assumes "quotes_agree c"
  defines "key \<equiv> lc_instrument_key candidate" and "d \<equiv> accept_candidate candidate c"
  shows "\<exists>quote. qs_quotes (co_store d) = (qs_quotes (co_store c))(key \<mapsto> quote)
      \<and> live_quote_candidate.truncate quote = candidate
      \<and> lq_sequence quote = (case qs_quotes (co_store c) key of None \<Rightarrow> 1 | Some old \<Rightarrow> lq_sequence old + 1)"
    and "co_quote_sequences d = (co_quote_sequences c)(key \<mapsto>
      (case qs_quotes (co_store c) key of None \<Rightarrow> 1 | Some old \<Rightarrow> lq_sequence old + 1))"
    and "qs_forced_stale (co_store d) = qs_forced_stale (co_store c) - {key}"
    and "quotes_agree d"
proof -
  define n where "n = (case qs_quotes (co_store c) key of None \<Rightarrow> 1 | Some old \<Rightarrow> lq_sequence old + 1)"
  define quote where "quote = live_quote_candidate.extend candidate
     \<lparr>lq_market_status = Some (coordinator_market_status c key), lq_sequence = n\<rparr>"
  have n: "(case co_quote_sequences c key of None \<Rightarrow> 0 | Some m \<Rightarrow> m) + 1 = n"
    unfolding next_sequence [OF assms(1)] by (simp add: n_def split: option.splits)
  have q: "lc_instrument_key quote = key" "lq_sequence quote = n" "live_quote_candidate.truncate quote = candidate"
    by (simp_all add: quote_def key_def live_quote_candidate.defs)
  have put: "put_quote quote (co_store c) = (True, (co_store c)\<lparr>qs_quotes := (qs_quotes (co_store c))(key \<mapsto> quote),
      qs_forced_stale := qs_forced_stale (co_store c) - {key}\<rparr>)"
    by (simp add: put_quote_def Let_def q n_def split: option.splits)
  have d: "d = publish key QuoteUpdated (c\<lparr>co_store := (co_store c)\<lparr>qs_quotes := (qs_quotes (co_store c))(key \<mapsto> quote),
      qs_forced_stale := qs_forced_stale (co_store c) - {key}\<rparr>, co_quote_sequences := (co_quote_sequences c)(key \<mapsto> n)\<rparr>)"
    unfolding d_def accept_candidate_def Let_def key_def [symmetric] n quote_def [symmetric] put by simp
  show "\<exists>quote. qs_quotes (co_store d) = (qs_quotes (co_store c))(key \<mapsto> quote)
      \<and> live_quote_candidate.truncate quote = candidate
      \<and> lq_sequence quote = (case qs_quotes (co_store c) key of None \<Rightarrow> 1 | Some old \<Rightarrow> lq_sequence old + 1)"
    using q by (intro exI [of _ quote]) (simp add: d publish_quotes n_def)
  show "co_quote_sequences d = (co_quote_sequences c)(key \<mapsto>
      (case qs_quotes (co_store c) key of None \<Rightarrow> 1 | Some old \<Rightarrow> lq_sequence old + 1))"
    by (simp add: d publish_quotes n_def)
  show "qs_forced_stale (co_store d) = qs_forced_stale (co_store c) - {key}" by (simp add: d publish_quotes)
  show "quotes_agree d" using assms(1) q(2) by (simp add: quotes_agree_def d publish_quotes)
qed

lemma mark_stale_quotes: "qs_quotes (mark_stale keys s) = qs_quotes s"
  by (simp add: mark_stale_def)

lemma receive_keeps_agreement:
  assumes "quotes_agree c"
  shows "quotes_agree (receive_provider_message now feeds candidates statuses c)"
    and "quotes_agree (receive_provider_state now st code c)"
proof -
  have fold: "quotes_agree d \<Longrightarrow> quotes_agree (fold accept_candidate candidates d)" for d
    by (induction candidates arbitrary: d) (auto intro: accept_candidate_stores(4))
  show "quotes_agree (receive_provider_message now feeds candidates statuses c)"
    unfolding receive_provider_message_def Let_def
    by (rule fold, rule quotes_agree_same [OF segment_published_keeps(3)])
       (use assms in \<open>simp add: quotes_agree_def\<close>)
  show "quotes_agree (receive_provider_state now st code c)"
    unfolding receive_provider_state_def Let_def
    by (rule quotes_agree_same [OF published_keeps(3)]) (use assms in \<open>simp add: quotes_agree_def mark_stale_quotes\<close>)
qed

lemma subscribe_enter_quotes:
  "subscribe_enter key q c = Inr (entry, first, d) \<Longrightarrow> same_quotes c d"
  by (auto simp: subscribe_enter_def same_quotes_def rbind_eq_Inr guard_eq_Inr Let_def split: option.splits if_splits)

lemma unsubscribe_enter_quotes: "unsubscribe_enter key q c = (tell, d) \<Longrightarrow> same_quotes c d"
  by (auto simp: unsubscribe_enter_def same_quotes_def Let_def split: option.splits if_splits)

lemma settled_quotes: "same_quotes c (subscribe_succeeded key i c)" "same_quotes c (subscribe_failed key i c)"
  by (simp_all add: subscribe_succeeded_def subscribe_failed_def settle_def same_quotes_def split: option.splits)

lemma reachable_quotes_agree: "reachable (make_quote_store stale) max_active w \<Longrightarrow> quotes_agree (w_co w)"
  unfolding reachable_def
proof (induction rule: rtranclp_induct)
  case base
  then show ?case by (simp add: quotes_agree_def start_world_def make_coordinator_def make_quote_store_def)
next
  case (step v w)
  from step(2,3) show ?case
    by (cases rule: coordinator_step.cases)
       (auto intro: quotes_agree_same subscribe_enter_quotes unsubscribe_enter_quotes settled_quotes receive_keeps_agreement stop_keeps)
qed

text \<open>Quotes are stored in sequence: every candidate the provider delivers replaces the quote of its
  instrument with the next sequence number and makes it fresh again, and touches no other instrument.\<close>

theorem quotes_stored_in_sequence:
  assumes "reachable (make_quote_store stale) max_active w"
  shows "\<exists>quote. qs_quotes (co_store (accept_candidate candidate (w_co w)))
        = (qs_quotes (co_store (w_co w)))(lc_instrument_key candidate \<mapsto> quote)
      \<and> live_quote_candidate.truncate quote = candidate
      \<and> lq_sequence quote = (case qs_quotes (co_store (w_co w)) (lc_instrument_key candidate) of
            None \<Rightarrow> 1 | Some old \<Rightarrow> lq_sequence old + 1)
      \<and> lc_instrument_key candidate \<notin> qs_forced_stale (co_store (accept_candidate candidate (w_co w)))"
  using accept_candidate_stores(1,3) [OF reachable_quotes_agree [OF assms], of candidate] by auto

section \<open>An unsubscription that overtakes\<close>

text \<open>C38. An unsubscription and a later subscription of the same instrument both wait for the provider
  without excluding each other. When the provider ends the unsubscription last, the coordinator is left
  with a subscribed entry and a listener, no call in flight, and a provider that no longer streams the
  instrument.\<close>

theorem overtaken_unsubscription_strands_listener:
  "\<exists>w entry. reachable (make_quote_store 5) 1 w \<and> w_calls w = {} \<and> w_leaving w = {#}
     \<and> map_of (co_subscriptions (w_co w)) ''k'' = Some entry \<and> en_phase entry = PhaseSubscribed
     \<and> en_listeners entry \<noteq> [] \<and> ''k'' \<notin> w_provider w"
proof -
  let ?c0 = "make_coordinator (make_quote_store 5) 1"
  let ?e = "\<lambda>i p. \<lparr>en_id = i, en_phase = p, en_listeners = [i]\<rparr>"
  let ?w = "\<lambda>c calls leaving provider. \<lparr>w_co = c, w_calls = calls, w_leaving = leaving, w_provider = provider\<rparr>"
  obtain c1 where c1: "subscribe_enter ''k'' 0 ?c0 = Inr (?e 0 PhaseSubscribing, True, c1)"
    "co_subscriptions c1 = [(''k'', ?e 0 PhaseSubscribing)]" "co_next_id c1 = 1" "co_max_active c1 = 1"
    by (simp add: subscribe_enter_def make_coordinator_def active_count_def add_listener_def Let_def List.insert_def)
  define c2 where "c2 = subscribe_succeeded ''k'' 0 c1"
  have c2: "co_subscriptions c2 = [(''k'', ?e 0 PhaseSubscribed)]" "co_next_id c2 = 1" "co_max_active c2 = 1"
    by (simp_all add: c2_def subscribe_succeeded_def settle_def c1)
  obtain c3 where c3: "unsubscribe_enter ''k'' 0 c2 = (True, c3)"
    "co_subscriptions c3 = []" "co_next_id c3 = 1" "co_max_active c3 = 1"
    by (simp add: unsubscribe_enter_def c2 Let_def AList.delete_eq)
  obtain c4 where c4: "subscribe_enter ''k'' 1 c3 = Inr (?e 1 PhaseSubscribing, True, c4)"
    "co_subscriptions c4 = [(''k'', ?e 1 PhaseSubscribing)]" "co_next_id c4 = 2" "co_max_active c4 = 1"
    by (simp add: subscribe_enter_def active_count_def add_listener_def Let_def c3 List.insert_def)
  define c5 where "c5 = subscribe_succeeded ''k'' 1 c4"
  have c5: "co_subscriptions c5 = [(''k'', ?e 1 PhaseSubscribed)]"
    by (simp add: c5_def subscribe_succeeded_def settle_def c4)
  have "coordinator_step (?w ?c0 {} {#} {}) (?w c1 {(''k'', 0, 0)} {#} {})"
    using coordinator_step.enter [of "''k''" 0 "?w ?c0 {} {#} {}"] c1(1) by (simp add: fresh_queue_def make_coordinator_def)
  moreover have "coordinator_step (?w c1 {(''k'', 0, 0)} {#} {}) (?w c2 {} {#} {''k''})"
    using coordinator_step.success [of "''k''" 0 0 "?w c1 {(''k'', 0, 0)} {#} {}"] by (simp add: c2_def)
  moreover have "coordinator_step (?w c2 {} {#} {''k''}) (?w c3 {} {#''k''#} {''k''})"
    using coordinator_step.leave [of 0 "?w c2 {} {#} {''k''}" "''k''"] c3(1) by simp
  moreover have "coordinator_step (?w c3 {} {#''k''#} {''k''}) (?w c4 {(''k'', 1, 1)} {#''k''#} {''k''})"
    using coordinator_step.enter [of "''k''" 1 "?w c3 {} {#''k''#} {''k''}"] c4(1) by (simp add: fresh_queue_def c3)
  moreover have "coordinator_step (?w c4 {(''k'', 1, 1)} {#''k''#} {''k''}) (?w c5 {} {#''k''#} {''k''})"
    using coordinator_step.success [of "''k''" 1 1 "?w c4 {(''k'', 1, 1)} {#''k''#} {''k''}"] by (simp add: c5_def)
  moreover have "coordinator_step (?w c5 {} {#''k''#} {''k''}) (?w c5 {} {#} {})"
    using coordinator_step.left [of "''k''" "?w c5 {} {#''k''#} {''k''}"] by simp
  ultimately have "coordinator_step\<^sup>*\<^sup>* (?w ?c0 {} {#} {}) (?w c5 {} {#} {})"
    by (meson converse_rtranclp_into_rtranclp rtranclp.rtrancl_refl)
  then have "reachable (make_quote_store 5) 1 (?w c5 {} {#} {})" by (simp add: reachable_def start_world_def)
  then show ?thesis using c5 by (intro exI [of _ "?w c5 {} {#} {}"]) simp
qed

section \<open>Witnesses\<close>

lemma one_subscriber:
  "reachable (make_quote_store 5) 1
     \<lparr>w_co = snd (snd (projr (subscribe_enter ''k'' 0 (make_coordinator (make_quote_store 5) 1)))),
      w_calls = {(''k'', 0, 0)}, w_leaving = {#}, w_provider = {}\<rparr>"
proof -
  obtain c1 where c1: "subscribe_enter ''k'' 0 (make_coordinator (make_quote_store 5) 1)
      = Inr (\<lparr>en_id = 0, en_phase = PhaseSubscribing, en_listeners = [0]\<rparr>, True, c1)"
    by (simp add: subscribe_enter_def make_coordinator_def active_count_def add_listener_def Let_def List.insert_def)
  have "coordinator_step (start_world (make_quote_store 5) 1)
      \<lparr>w_co = c1, w_calls = {(''k'', 0, 0)}, w_leaving = {#}, w_provider = {}\<rparr>"
    using coordinator_step.enter [of "''k''" 0 "start_world (make_quote_store 5) 1"] c1
    by (simp add: start_world_def fresh_queue_def make_coordinator_def)
  then show ?thesis unfolding reachable_def c1 sum.sel snd_conv by (rule r_into_rtranclp)
qed

theorem coordinator_stays_bounded_witness:
  "\<exists>w. w_calls w \<noteq> {} \<and> length (co_subscriptions (w_co w)) \<le> 1 \<and> reachable (make_quote_store 5) 1 w"
  using coordinator_stays_bounded [OF one_subscriber] one_subscriber
  by (metis (no_types, lifting) insert_not_empty world.select_convs(2))

theorem every_waiter_is_answered_witness:
  "\<exists>w. reachable (make_quote_store 5) 1 w \<and> (\<exists>key q. (key, 0, q) \<in> w_calls w)"
proof -
  have "0 < co_next_id (snd (snd (projr (subscribe_enter ''k'' 0 (make_coordinator (make_quote_store 5) 1)))))"
    "co_futures (snd (snd (projr (subscribe_enter ''k'' 0 (make_coordinator (make_quote_store 5) 1))))) 0 = Waiting"
    by (simp_all add: subscribe_enter_def make_coordinator_def active_count_def Let_def)
  then show ?thesis using every_waiter_is_answered [OF one_subscriber, of 0] one_subscriber by auto
qed

theorem quotes_stored_in_sequence_witness:
  "\<exists>w. reachable (make_quote_store 5) 1 w \<and> (\<exists>quote. lq_sequence quote = 1 \<and> lc_ltp quote = Fl 24
     \<and> qs_quotes (co_store (accept_candidate \<lparr>lc_instrument_key = ''k'', lc_ltp = Fl 24, lc_previous_close = None,
          lc_last_trade_quantity = None, lc_last_trade_at = Aware 0 0, lc_provider_message_at = Aware 0 0,
          lc_received_at = Aware 0 0, lc_processed_at = Aware 0 0\<rparr> (w_co w))) ''k'' = Some quote)"
proof -
  let ?w = "start_world (make_quote_store 5) 1"
  have r: "reachable (make_quote_store 5) 1 ?w" by (simp add: reachable_def)
  show ?thesis
    using quotes_stored_in_sequence [OF r, of "\<lparr>lc_instrument_key = ''k'', lc_ltp = Fl 24, lc_previous_close = None,
          lc_last_trade_quantity = None, lc_last_trade_at = Aware 0 0, lc_provider_message_at = Aware 0 0,
          lc_received_at = Aware 0 0, lc_processed_at = Aware 0 0\<rparr>"] r
    by (auto simp: start_world_def make_coordinator_def make_quote_store_def live_quote_candidate.defs)
qed

end
