(* ===== verification/Spec2Isabelle.thy ===== *)
theory Spec2Isabelle
  imports FrameSemantics RunProperties Metrics Temporal Reconstruction EventIdentity LifecycleProperties CoordinatorProperties
begin

text \<open>
  A verification development for the gamma-scalping simulator and its market-data layer
  (\<open>src/backend/app\<close>). All paths below are relative to that directory.

  The program. A research run buys an at-the-money straddle of synthetic options on a simulated
  underlying, hedges its delta with futures under one of five policies, and closes everything under
  risk control; every fill goes through a ledger in decimal money, every input is identified by a
  stable hash, and the run reconciles its profit at the end. Beside it stands the market-data layer:
  bitemporal instrument records, life-cycle events of a provider connection, point-in-time
  reconstruction of option chains, the coordinator that shares one live provider connection
  among many listeners, and the service that turns a raw frame of the provider into validated,
  hashed observations.

  Conventions. A raised exception is \<open>Inl\<close>, a returned value \<open>Inr\<close> (theory \<open>Prelude\<close>, with the
  combinators \<open>rbind\<close>, \<open>guard\<close>, \<open>rmap\<close>, \<open>rfold\<close> and their inversion rules \<open>result_simps\<close>).
  Floats are rationals rounded to 53 bits with infinities and NaN, decimals are rationals rounded to
  28 digits, integers are unbounded, timestamps are microseconds with an offset (\<open>PyNumbers\<close>,
  \<open>PyTime\<close>). A dataclass is a record; its construction with \<open>__post_init__\<close> is a function \<open>make_...\<close>
  that validates and normalizes. A dictionary whose order matters is an association list, else a map.

  Theories and what they model.

  \<^item> \<open>Options\<close>: \<open>options/\<close>, contracts, Black-Scholes values, the implied-volatility bisection, chains and
    straddle selection. Bounds on prices, soundness and termination of the solver.
  \<^item> \<open>Execution\<close>, \<open>Portfolio\<close>: \<open>execution/\<close> and \<open>portfolio/\<close>, order intents, fills, positions, the
    append-only ledger. Fills are adverse and their costs exact; ledger cash is the starting value plus
    the net cash of the fills. The ledger contract is the locale interpreted in \<open>Portfolio\<close>.
  \<^item> \<open>Strategy\<close>, \<open>Hedging\<close>: \<open>strategy/\<close> and \<open>hedging/\<close>, the configuration with its cross-field checks,
    the five policies, the forced reduction. No policy trades inside its no-trade region.
  \<^item> \<open>Hashing\<close>, \<open>Canonical\<close>: \<open>core/hashing.py\<close>. The canonical JSON text, and that it determines the
    payload up to the order of keys. SHA-256 is a parameter everywhere.
  \<^item> \<open>SimConfig\<close>, \<open>Clock\<close>, \<open>Paths\<close>: \<open>simulation/config.py\<close>, \<open>clock.py\<close>, \<open>paths.py\<close>, \<open>market.py\<close>,
    \<open>state_builder.py\<close>.
  \<^item> \<open>Risk\<close>, \<open>Attribution\<close>: \<open>simulation/risk.py\<close>, \<open>attribution/\<close>. The incremental risk state refines
    the one computed from the whole history; a closed book reconciles to zero.
  \<^item> \<open>Engine\<close>, \<open>Run\<close>, \<open>Simulation\<close>, \<open>Example\<close>, \<open>RunProperties\<close>: \<open>simulation/engine.py\<close> and
    \<open>events.py\<close>. \<open>Engine\<close> cuts \<open>run_simulation\<close> at its own seams (set-up, entry, the loop body, close-out,
    result); \<open>Run\<close> proves what each piece keeps and \<open>Simulation\<close> composes them; \<open>Example\<close> evaluates one
    run to its end, which is the witness of the theorems of \<open>RunProperties\<close>.
  \<^item> \<open>Metrics\<close>: \<open>simulation/metrics.py\<close>.
  \<^item> \<open>Identifiers\<close>, \<open>Identity\<close>, \<open>Sessions\<close>, \<open>Temporal\<close>: \<open>market_data/normalization\<close> limits and
    conversions, and \<open>instruments/\<close> identities, versions, mappings, sessions, catalogues and temporal
    records. The locale \<open>bitemporal\<close> is interpreted on versions, mappings and catalogues.
  \<^item> \<open>Keyed\<close>, \<open>PointInTime\<close>, \<open>Reconstruction\<close>, \<open>EventIdentity\<close>: \<open>market_data/point_in_time.py\<close>. \<open>Keyed\<close>
    holds the dictionary-by-identity loop that it shares with \<open>Temporal\<close>. No look-ahead, the exact
    content of the chain, the documented errors, and what the identifiers identify.
  \<^item> \<open>Lifecycle\<close>, \<open>LifecycleProperties\<close>: \<open>market_data/normalization/lifecycle.py\<close>. The sequence
    validators, which keep dictionaries, accept exactly the histories of two inductive step relations.
  \<^item> \<open>Frames\<close>, \<open>Subjects\<close>, \<open>Observations\<close>, \<open>FrameResults\<close>: the records of \<open>market_data/normalization\<close>
    (\<open>identities.py\<close>, \<open>ports.py\<close>, \<open>models.py\<close>, \<open>results.py\<close>, \<open>result_hashing.py\<close>) with the checks of
    their constructors. A batch of frames is determined by its set of frames; the port of the subject
    resolver is the locale \<open>subject_resolver\<close>, interpreted on the static resolver of \<open>ports.py\<close>.
  \<^item> \<open>Feed\<close>, \<open>Normalizer\<close>, \<open>FrameService\<close>: the decoder and the normalizer of \<open>market_data/upstox\<close>
    (\<open>v3_decoder.py\<close>, \<open>v3_normalizer.py\<close>) and \<open>services/market_frame_normalization_service.py\<close>.
    \<open>NormalizerFacts\<close> and \<open>NormalizerProperties\<close> show that every entry becomes one valid quote or one
    valid failure; \<open>EntryAcceptance\<close> says which, and what a quote reads back; in
    \<open>FrameServiceProperties\<close> the service answers over any resolver of the port, and \<open>FrameSemantics\<close>
    holds its properties for the static resolver and an example frame.
  \<^item> \<open>Quotes\<close>, \<open>Coordinator\<close>, \<open>CoordinatorProperties\<close>: \<open>market_data/quote_store.py\<close>, \<open>metrics.py\<close>,
    \<open>coordinator.py\<close>. Coroutines are cut at their awaits; a step relation interleaves the pieces with
    the provider's callbacks, and the invariants are proved for every reachable world.

  Parameters. The C math library (\<open>exp\<close>, \<open>log\<close>, \<open>sqrt\<close>, \<open>erf\<close>) with the documented ranges as
  hypotheses, the random generator, time zones, SHA-256, the protobuf runtime (\<open>parse\<close>,
  from bytes to a message whose maps have distinct keys) and the dumps of pydantic are arguments of
  the definitions that use them.

  Bounds. \<open>cents_bound\<close> is the size of money below which 28 decimal digits hold every cent, so that
  sums are exact; the accounting theorems assume it. Integers inside identifiers are below
  \<open>10 ^ 26\<close> for the same reason. The solver has the iteration budget of its caller. Walks along
  temporal records and corrections have fuel: the number of records, or of edges plus one. It is
  enough because a walk never meets the same record twice, and it is proved that the marker
  \<open>Diverges\<close> never occurs.

  Not modelled. \<open>quant/\<close> and the services around it compute on pandas frames; \<open>persistence/\<close> and the
  migrations are SQLAlchemy models and statements whose meaning is PostgreSQL's, and
  \<open>market_data/persistence\<close> describes their rows; the rest of \<open>market_data/upstox\<close> calls the provider's
  SDK and reads its untyped payloads; the ingestion of provider catalogues streams JSON documents
  into tables; \<open>api/\<close>, \<open>auth/\<close>, \<open>cli/\<close>, \<open>schemas/\<close> and the
  web client are input and output; \<open>simulation/run_store.py\<close> and \<open>artifacts.py\<close> write files; reading
  YAML is left out of \<open>strategy/\<close>. A provider message reaches the coordinator as its normalized
  candidates. Characters are code points below 256.
\<close>

end
